(* ===== verification/Prelude.thy ===== *)
theory Prelude
  imports Main "HOL-Library.Char_ord" "HOL-Library.List_Lexorder"
begin

text \<open>
  Shared vocabulary of the development: SQL tables as lists of rows, database transactions,
  the Python string functions and truth tests the code uses, JSON values, and the lemmas about
  them that every component uses.

  A table is the list of its rows in rowid order. A \<open>SELECT\<close> is a filter, an \<open>UPDATE\<close> a map
  under a condition, a \<open>DELETE\<close> the filter of the complement and an \<open>INSERT\<close> appends a row.
  Python strings are lists of code points below 256.
\<close>

section \<open>Collections of facts\<close>

named_theorems row_simps \<open>reading a table after it has been written\<close>
named_theorems frame_simps \<open>parts of a state an operation leaves alone\<close>
named_theorems op_defs \<open>definitions of the operations of a component\<close>

section \<open>SQL tables\<close>

definition sql_update :: "('r \<Rightarrow> bool) \<Rightarrow> ('r \<Rightarrow> 'r) \<Rightarrow> 'r list \<Rightarrow> 'r list" where
  "sql_update P f t = map (\<lambda>r. if P r then f r else r) t"

definition sql_delete :: "('r \<Rightarrow> bool) \<Rightarrow> 'r list \<Rightarrow> 'r list" where
  "sql_delete P t = filter (\<lambda>r. \<not> P r) t"

definition sql_count :: "('r \<Rightarrow> bool) \<Rightarrow> 'r list \<Rightarrow> nat" where
  "sql_count P t = length (filter P t)"

text \<open>The first row of a result, as \<open>CursorResult.fetchone\<close> returns it.\<close>

definition fetchone :: "'r list \<Rightarrow> 'r option" where
  "fetchone rs = (case rs of [] \<Rightarrow> None | r # _ \<Rightarrow> Some r)"

text \<open>\<open>SELECT * FROM t WHERE key = k\<close> followed by \<open>fetchone\<close>.\<close>

definition row_by :: "('r \<Rightarrow> 'k) \<Rightarrow> 'k \<Rightarrow> 'r list \<Rightarrow> 'r option" where
  "row_by key k t = fetchone (filter (\<lambda>r. key r = k) t)"

lemma fetchone_simps [simp]:
  "fetchone [] = None" "fetchone (r # rs) = Some r"
  by (simp_all add: fetchone_def)

lemma fetchone_eq_None [simp]: "fetchone rs = None \<longleftrightarrow> rs = []"
  by (cases rs) simp_all

lemma fetchone_mem: "fetchone rs = Some r \<Longrightarrow> r \<in> set rs"
  by (cases rs) simp_all

lemma row_by_Nil [row_simps, simp]: "row_by key k [] = None"
  by (simp add: row_by_def)

lemma row_by_Cons [row_simps]:
  "row_by key k (r # t) = (if key r = k then Some r else row_by key k t)"
  by (simp add: row_by_def)

lemma row_by_append [row_simps]:
  "row_by key k (t @ u) = (case row_by key k t of Some r \<Rightarrow> Some r | None \<Rightarrow> row_by key k u)"
  by (induction t) (simp_all add: row_by_Cons)

lemma row_by_mem: "row_by key k t = Some r \<Longrightarrow> r \<in> set t"
  by (auto simp: row_by_def dest: fetchone_mem)

lemma row_by_key: "row_by key k t = Some r \<Longrightarrow> key r = k"
  by (auto simp: row_by_def dest: fetchone_mem)

lemma row_by_None_iff: "row_by key k t = None \<longleftrightarrow> k \<notin> key ` set t"
  by (auto simp: row_by_def filter_empty_conv)

lemma row_by_exists: "r \<in> set t \<Longrightarrow> key r = k \<Longrightarrow> \<exists>r'. row_by key k t = Some r'"
  by (metis image_eqI not_None_eq row_by_None_iff)

lemma row_by_distinct:
  "distinct (map key t) \<Longrightarrow> r \<in> set t \<Longrightarrow> row_by key (key r) t = Some r"
  by (induction t) (auto simp: row_by_Cons)

lemma sql_update_simps [simp]:
  "sql_update P f [] = []"
  "sql_update P f (r # t) = (if P r then f r else r) # sql_update P f t"
  by (simp_all add: sql_update_def)

lemma length_sql_update [simp]: "length (sql_update P f t) = length t"
  by (simp add: sql_update_def)

lemma set_sql_update: "set (sql_update P f t) = (\<lambda>r. if P r then f r else r) ` set t"
  by (simp add: sql_update_def)

lemma map_sql_update:
  assumes "\<And>r. P r \<Longrightarrow> g (f r) = g r"
  shows "map g (sql_update P f t) = map g t"
  using assms by (induction t) simp_all

lemma row_by_sql_update [row_simps]:
  assumes "\<And>r. P r \<Longrightarrow> key (f r) = key r"
  shows "row_by key k (sql_update P f t) = map_option (\<lambda>r. if P r then f r else r) (row_by key k t)"
  using assms by (induction t) (auto simp: row_by_Cons)

lemma row_by_sql_delete_key:
  "row_by key k (sql_delete (\<lambda>r. key r = k) t) = None"
  by (simp add: row_by_def sql_delete_def filter_empty_conv)

lemma row_by_sql_delete_other:
  assumes "\<And>r. key r = k \<Longrightarrow> \<not> P r"
  shows "row_by key k (sql_delete P t) = row_by key k t"
  using assms by (induction t) (auto simp: row_by_Cons sql_delete_def)

lemma distinct_sql_delete: "distinct (map g t) \<Longrightarrow> distinct (map g (sql_delete P t))"
  by (induction t) (auto simp: sql_delete_def)

lemma set_sql_delete [simp]: "set (sql_delete P t) = {r \<in> set t. \<not> P r}"
  by (auto simp: sql_delete_def)

lemma sql_count_0 [simp]: "sql_count P t = 0 \<longleftrightarrow> (\<forall>r \<in> set t. \<not> P r)"
  by (simp add: sql_count_def filter_empty_conv)

text \<open>Comparisons of a column with a value: with \<open>NULL\<close> they do not hold.\<close>

definition col_less :: "int option \<Rightarrow> int \<Rightarrow> bool" where
  "col_less x y = (case x of None \<Rightarrow> False | Some e \<Rightarrow> e < y)"

definition col_le :: "int option \<Rightarrow> int \<Rightarrow> bool" where
  "col_le x y = (case x of None \<Rightarrow> False | Some e \<Rightarrow> e \<le> y)"

lemma col_less_iff: "col_less x y \<longleftrightarrow> (\<exists>e. x = Some e \<and> e < y)"
  by (auto simp: col_less_def split: option.split)

lemma col_le_iff: "col_le x y \<longleftrightarrow> (\<exists>e. x = Some e \<and> e \<le> y)"
  by (auto simp: col_le_def split: option.split)

text \<open>
  \<open>ORDER BY f DESC\<close> over a result that is already in the order of the second key: SQLite's sort
  keeps rows with equal keys in the order of the rest of the \<open>ORDER BY\<close> list.
\<close>

definition order_desc :: "('r \<Rightarrow> 'k::linorder) \<Rightarrow> 'r list \<Rightarrow> 'r list" where
  "order_desc f t = rev (sort_key f (rev t))"

lemma set_order_desc [simp]: "set (order_desc f t) = set t"
  by (simp add: order_desc_def)

lemma length_order_desc [simp]: "length (order_desc f t) = length t"
  by (simp add: order_desc_def)

lemma sorted_order_desc: "sorted_wrt (\<lambda>a b. f b \<le> f a) (order_desc f t)"
proof -
  have "sorted (map f (sort_key f (rev t)))"
    by simp
  then show ?thesis
    by (simp add: order_desc_def sorted_map sorted_wrt_rev)
qed

text \<open>\<open>LIMIT l OFFSET o\<close>: a negative limit is no limit, a negative offset is zero.\<close>

definition limit_offset :: "int \<Rightarrow> int \<Rightarrow> 'r list \<Rightarrow> 'r list" where
  "limit_offset lim off t =
     (let rest = drop (nat off) t in if lim < 0 then rest else take (nat lim) rest)"

lemma set_limit_offset: "set (limit_offset lim off t) \<subseteq> set t"
  by (auto simp: limit_offset_def Let_def dest: in_set_takeD in_set_dropD)

section \<open>Transactions\<close>

text \<open>
  The context manager \<open>_tx\<close>: the body runs on the current state; if it raises, the state
  from before is restored and the exception goes on, otherwise its state is committed.
\<close>

definition tx :: "('s \<Rightarrow> 'e + ('a \<times> 's)) \<Rightarrow> 's \<Rightarrow> ('e + 'a) \<times> 's" where
  "tx body s = (case body s of Inl e \<Rightarrow> (Inl e, s) | Inr (a, s') \<Rightarrow> (Inr a, s'))"

lemma tx_Inl [simp]: "body s = Inl e \<Longrightarrow> tx body s = (Inl e, s)"
  by (simp add: tx_def)

lemma tx_Inr [simp]: "body s = Inr (a, s') \<Longrightarrow> tx body s = (Inr a, s')"
  by (simp add: tx_def)

lemma tx_state:
  assumes "P s" and "\<And>a s'. body s = Inr (a, s') \<Longrightarrow> P s'"
  shows "P (snd (tx body s))"
  using assms by (auto simp: tx_def split: sum.splits)

lemma tx_error_keeps_state: "fst (tx body s) = Inl e \<Longrightarrow> snd (tx body s) = s"
  by (auto simp: tx_def split: sum.splits)

lemma tx_success: "tx body s = (Inr a, s') \<Longrightarrow> body s = Inr (a, s')"
  by (auto simp: tx_def split: sum.splits)

section \<open>Python truth values and strings\<close>

abbreviation str_true :: "string \<Rightarrow> bool" where
  "str_true s \<equiv> s \<noteq> []"

primrec opt_true :: "string option \<Rightarrow> bool" where
  "opt_true None = False"
| "opt_true (Some s) = str_true s"

lemma opt_true_iff: "opt_true x \<longleftrightarrow> (\<exists>s. x = Some s \<and> s \<noteq> [])"
  by (cases x) simp_all

text \<open>\<open>x or y\<close> for strings and optional strings.\<close>

definition str_or :: "string \<Rightarrow> string \<Rightarrow> string" where
  "str_or x y = (if str_true x then x else y)"

definition opt_or :: "string option \<Rightarrow> string \<Rightarrow> string" where
  "opt_or x y = (case x of None \<Rightarrow> y | Some s \<Rightarrow> str_or s y)"

definition py_isspace :: "char \<Rightarrow> bool" where
  "py_isspace c = (let n = of_char c :: nat in
     (9 \<le> n \<and> n \<le> 13) \<or> (28 \<le> n \<and> n \<le> 32) \<or> n = 133 \<or> n = 160)"

definition py_lstrip :: "string \<Rightarrow> string" where
  "py_lstrip s = dropWhile py_isspace s"

definition py_strip :: "string \<Rightarrow> string" where
  "py_strip s = rev (dropWhile py_isspace (rev (dropWhile py_isspace s)))"

definition py_lower_char :: "char \<Rightarrow> char" where
  "py_lower_char c = (let n = of_char c :: nat in
     if (65 \<le> n \<and> n \<le> 90) \<or> (192 \<le> n \<and> n \<le> 214) \<or> (216 \<le> n \<and> n \<le> 222)
     then char_of (n + 32) else c)"

definition py_lower :: "string \<Rightarrow> string" where
  "py_lower s = map py_lower_char s"

text \<open>\<open>s.split()\<close>: the maximal runs of non-blank characters.\<close>

function py_split :: "string \<Rightarrow> string list" where
  "py_split s =
     (let t = dropWhile py_isspace s
      in if t = [] then []
         else takeWhile (\<lambda>c. \<not> py_isspace c) t # py_split (dropWhile (\<lambda>c. \<not> py_isspace c) t))"
  by pat_completeness auto

lemma length_dropWhile_hd: "s \<noteq> [] \<Longrightarrow> P (hd s) \<Longrightarrow> length (dropWhile P s) < length s"
  by (cases s) (auto simp: length_dropWhile_le less_Suc_eq_le)

termination py_split
proof (relation "measure length", goal_cases)
  case 1
  show ?case by simp
next
  case (2 s t)
  then have "\<not> py_isspace (hd t)"
    by (metis hd_dropWhile)
  with 2 have "length (dropWhile (\<lambda>c. \<not> py_isspace c) t) < length t"
    by (intro length_dropWhile_hd) auto
  also have "length t \<le> length s"
    by (simp add: 2(1) length_dropWhile_le)
  finally show ?case by simp
qed

declare py_split.simps [simp del]

text \<open>\<open>s.split(d)\<close> for a one-character separator.\<close>

fun py_split_on :: "char \<Rightarrow> string \<Rightarrow> string list" where
  "py_split_on d [] = [[]]"
| "py_split_on d (c # s) =
     (if c = d then [] # py_split_on d s
      else case py_split_on d s of [] \<Rightarrow> [[c]] | w # ws \<Rightarrow> (c # w) # ws)"

fun py_join :: "string \<Rightarrow> string list \<Rightarrow> string" where
  "py_join sep [] = []"
| "py_join sep [w] = w"
| "py_join sep (w # ws) = w @ sep @ py_join sep ws"

definition py_startswith :: "string \<Rightarrow> string \<Rightarrow> bool" where
  "py_startswith s p = (take (length p) s = p)"

text \<open>\<open>p in s\<close> for strings.\<close>

fun py_in :: "string \<Rightarrow> string \<Rightarrow> bool" where
  "py_in p [] = (p = [])"
| "py_in p (c # s) = (py_startswith (c # s) p \<or> py_in p s)"

text \<open>Decimal rendering of integers, as \<open>str\<close> and f-strings print them.\<close>

fun str_nat :: "nat \<Rightarrow> string" where
  "str_nat n = (if n < 10 then [char_of (48 + n)]
     else str_nat (n div 10) @ [char_of (48 + n mod 10)])"

declare str_nat.simps [simp del]

definition str_int :: "int \<Rightarrow> string" where
  "str_int i = (if i < 0 then ''-'' @ str_nat (nat (- i)) else str_nat (nat i))"

text \<open>Text between single quotes, as messages show it.\<close>

definition quoted :: "string \<Rightarrow> string" where
  "quoted s = [CHR 0x27] @ s @ [CHR 0x27]"

section \<open>JSON values\<close>

text \<open>A float is kept by its printed form.\<close>

datatype json =
    JNull
  | JBool bool
  | JInt int
  | JFloat string
  | JStr string
  | JList "json list"
  | JObj "(string \<times> json) list"

primrec json_opt_str :: "string option \<Rightarrow> json" where
  "json_opt_str None = JNull"
| "json_opt_str (Some s) = JStr s"

text \<open>\<open>json.dumps(payload) if payload else None\<close> for a dict: the column keeps the parsed value.\<close>

definition json_column :: "(string \<times> json) list \<Rightarrow> json option" where
  "json_column d = (if d = [] then None else Some (JObj d))"

section \<open>Dicts\<close>

text \<open>\<open>d[k] = v\<close> on a dict kept as its list of items: a key keeps its place, a new key comes last.\<close>

definition dict_put :: "'k \<Rightarrow> 'v \<Rightarrow> ('k \<times> 'v) list \<Rightarrow> ('k \<times> 'v) list" where
  "dict_put k v d =
     (if k \<in> fst ` set d then map (\<lambda>(a, b). if a = k then (a, v) else (a, b)) d else d @ [(k, v)])"

lemma dict_put_new: "k \<notin> fst ` set d \<Longrightarrow> dict_put k v d = d @ [(k, v)]"
  by (simp add: dict_put_def)

lemma map_of_replace:
  "map_of (map (\<lambda>(a, b). if a = k then (a, v) else (a, b)) d) x =
     (if x = k \<and> k \<in> fst ` set d then Some v else map_of d x)"
proof (induction d)
  case (Cons ab d)
  obtain a b where "ab = (a, b)" by (cases ab)
  with Cons.IH show ?case by (cases "a = k"; cases "x = a") simp_all
qed simp

lemma keys_replace: "map fst (map (\<lambda>(a, b). if a = k then (a, v) else (a, b)) d) = map fst d"
proof (induction d)
  case (Cons ab d)
  obtain a b where "ab = (a, b)" by (cases ab)
  with Cons.IH show ?case by simp
qed simp

lemma map_of_dict_put [simp]: "map_of (dict_put k v d) = (map_of d)(k \<mapsto> v)"
proof
  fix x
  show "map_of (dict_put k v d) x = ((map_of d)(k \<mapsto> v)) x"
  proof (cases "k \<in> fst ` set d")
    case True
    then show ?thesis by (simp add: dict_put_def map_of_replace)
  next
    case False
    then have "map_of d k = None" by (simp add: map_of_eq_None_iff)
    with False show ?thesis by (simp add: dict_put_def map_add_def split: option.split)
  qed
qed

lemma map_fst_dict_put: "map fst (dict_put k v d) = (if k \<in> fst ` set d then map fst d else map fst d @ [k])"
  by (simp only: dict_put_def keys_replace split: if_split) simp

lemma keys_dict_put [simp]: "fst ` set (dict_put k v d) = insert k (fst ` set d)"
proof -
  have "set (map fst (dict_put k v d)) = insert k (set (map fst d))"
    by (auto simp: map_fst_dict_put)
  then show ?thesis by simp
qed

lemma distinct_dict_put: "distinct (map fst d) \<Longrightarrow> distinct (map fst (dict_put k v d))"
  by (simp add: map_fst_dict_put)

section \<open>Folding a state over a list\<close>

lemma fold_invariant:
  assumes "P s" and "\<And>x s. x \<in> set xs \<Longrightarrow> P s \<Longrightarrow> P (f x s)"
  shows "P (fold f xs s)"
  using assms by (induction xs arbitrary: s) auto

lemma fold_relation:
  assumes refl: "\<And>s. R s s" and trans: "\<And>a b c. R a b \<Longrightarrow> R b c \<Longrightarrow> R a c"
    and step: "\<And>x s. x \<in> set xs \<Longrightarrow> R s (f x s)"
  shows "R s (fold f xs s)"
  using step by (induction xs arbitrary: s) (auto intro: refl trans)

section \<open>LIKE\<close>

definition ascii_lower :: "char \<Rightarrow> char" where
  "ascii_lower c = (let n = of_char c :: nat in if 65 \<le> n \<and> n \<le> 90 then char_of (n + 32) else c)"

text \<open>SQLite's \<open>LIKE\<close>: \<open>%\<close> any text, \<open>_\<close> any character, ASCII letters without case.\<close>

fun sql_like :: "string \<Rightarrow> string \<Rightarrow> bool" where
  "sql_like [] s = (s = [])"
| "sql_like (p # ps) [] = (p = CHR ''%'' \<and> sql_like ps [])"
| "sql_like (p # ps) (c # s) =
     (if p = CHR ''%'' then sql_like ps (c # s) \<or> sql_like (p # ps) s
      else (p = CHR ''_'' \<or> ascii_lower p = ascii_lower c) \<and> sql_like ps s)"

end
