(* ===== verification/Models.thy ===== *)
theory Models
  imports Prelude
begin

text \<open>
  The data model of the orchestration engine, \<open>orchestration/models.py\<close>: the four enums and
  the records of the tables \<open>tasks\<close>, \<open>task_runs\<close>, \<open>task_comments\<close> and \<open>task_events\<close>. A
  \<open>str\<close> enum is a datatype with its \<open>.value\<close>; the tables hold the value strings. The
  transient lists of \<open>Task\<close> (parents, children, ...) are the separate record \<open>TaskView\<close>.
\<close>

section \<open>Enums\<close>

datatype TaskStatus =
  TODO | READY | RUNNING | DANGLING | BLOCKED | COMPLETED | FAILED | CANCELLED | ARCHIVED

primrec status_value :: "TaskStatus \<Rightarrow> string" where
  "status_value TODO = ''todo''"
| "status_value READY = ''ready''"
| "status_value RUNNING = ''running''"
| "status_value DANGLING = ''dangling''"
| "status_value BLOCKED = ''blocked''"
| "status_value COMPLETED = ''completed''"
| "status_value FAILED = ''failed''"
| "status_value CANCELLED = ''cancelled''"
| "status_value ARCHIVED = ''archived''"

datatype TaskRunStatus =
  RunRUNNING | RunDONE | RunBLOCKED | RunCRASHED | RunTIMED_OUT | RunFAILED | RunRELEASED

primrec run_status_value :: "TaskRunStatus \<Rightarrow> string" where
  "run_status_value RunRUNNING = ''running''"
| "run_status_value RunDONE = ''done''"
| "run_status_value RunBLOCKED = ''blocked''"
| "run_status_value RunCRASHED = ''crashed''"
| "run_status_value RunTIMED_OUT = ''timed_out''"
| "run_status_value RunFAILED = ''failed''"
| "run_status_value RunRELEASED = ''released''"

datatype TaskRunOutcome =
  OutCOMPLETED | OutBLOCKED | OutCRASHED | OutTIMED_OUT | OutSPAWN_FAILED | OutGAVE_UP | OutRECLAIMED

primrec outcome_value :: "TaskRunOutcome \<Rightarrow> string" where
  "outcome_value OutCOMPLETED = ''completed''"
| "outcome_value OutBLOCKED = ''blocked''"
| "outcome_value OutCRASHED = ''crashed''"
| "outcome_value OutTIMED_OUT = ''timed_out''"
| "outcome_value OutSPAWN_FAILED = ''spawn_failed''"
| "outcome_value OutGAVE_UP = ''gave_up''"
| "outcome_value OutRECLAIMED = ''reclaimed''"

text \<open>There is no member \<open>RETRIED\<close>: reading it raises \<open>AttributeError\<close>.\<close>

datatype TaskEventKind =
    EvCREATED | EvCLAIMED | EvSTARTED | EvHEARTBEAT | EvCOMPLETED | EvFAILED | EvBLOCKED
  | EvUNBLOCKED | EvCOMMENTED | EvUPDATED | EvARCHIVED | EvDEPENDENCY_PROMOTED | EvCANCELLED

primrec kind_value :: "TaskEventKind \<Rightarrow> string" where
  "kind_value EvCREATED = ''created''"
| "kind_value EvCLAIMED = ''claimed''"
| "kind_value EvSTARTED = ''started''"
| "kind_value EvHEARTBEAT = ''heartbeat''"
| "kind_value EvCOMPLETED = ''completed''"
| "kind_value EvFAILED = ''failed''"
| "kind_value EvBLOCKED = ''blocked''"
| "kind_value EvUNBLOCKED = ''unblocked''"
| "kind_value EvCOMMENTED = ''commented''"
| "kind_value EvUPDATED = ''updated''"
| "kind_value EvARCHIVED = ''archived''"
| "kind_value EvDEPENDENCY_PROMOTED = ''dependency_promoted''"
| "kind_value EvCANCELLED = ''cancelled''"

lemma status_value_eq_iff: "status_value a = status_value b \<longleftrightarrow> a = b"
  by (cases a; cases b) simp_all

lemma status_value_nonempty: "status_value a \<noteq> []"
  by (cases a) simp_all

text \<open>
  From here on a status string is the application of \<open>status_value\<close> to a constructor: equality
  of status strings is equality of constructors.
\<close>

declare status_value.simps [simp del]
declare status_value_eq_iff [simp] status_value_nonempty [simp]

instantiation TaskStatus :: enum
begin

definition enum_TaskStatus :: "TaskStatus list" where
  "enum_TaskStatus =
     [TODO, READY, RUNNING, DANGLING, BLOCKED, COMPLETED, FAILED, CANCELLED, ARCHIVED]"

definition enum_all_TaskStatus :: "(TaskStatus \<Rightarrow> bool) \<Rightarrow> bool" where
  "enum_all_TaskStatus P = list_all P enum_class.enum"

definition enum_ex_TaskStatus :: "(TaskStatus \<Rightarrow> bool) \<Rightarrow> bool" where
  "enum_ex_TaskStatus P = list_ex P enum_class.enum"

instance
proof
  have all: "x \<in> set (enum_class.enum :: TaskStatus list)" for x
    by (cases x) (simp_all add: enum_TaskStatus_def)
  show "UNIV = set (enum_class.enum :: TaskStatus list)"
    using all by auto
  show "distinct (enum_class.enum :: TaskStatus list)"
    by (simp add: enum_TaskStatus_def)
  show "enum_class.enum_all P \<longleftrightarrow> Ball UNIV P" for P :: "TaskStatus \<Rightarrow> bool"
    using all by (auto simp: enum_all_TaskStatus_def list_all_iff)
  show "enum_class.enum_ex P \<longleftrightarrow> Bex UNIV P" for P :: "TaskStatus \<Rightarrow> bool"
    using all by (auto simp: enum_ex_TaskStatus_def list_ex_iff)
qed

end

section \<open>Records\<close>

record Task =
  tid :: string
  title :: string
  body :: "string option"
  assignee :: "string option"
  status :: string
  priority :: int
  created_by :: "string option"
  created_at :: int
  started_at :: "int option"
  completed_at :: "int option"
  workspace_kind :: "string option"
  workspace_path :: "string option"
  claim_lock :: "string option"
  claim_expires :: "int option"
  tenant :: "string option"
  result :: "string option"
  consecutive_failures :: nat
  worker_pid :: "int option"
  last_failure_error :: "string option"
  max_runtime_seconds :: "int option"
  last_heartbeat_at :: "int option"
  current_run_id :: "nat option"
  max_retries :: "int option"
  parallel_group :: "string option"
  next_retry_at :: "int option"
  summary :: "string option"
  metadata :: "string option"
  tags :: "string option"
  circuit_state :: "string option"
  origin_agent :: "string option"
  origin_task_id :: "string option"
  delegation_depth :: "int option"
  delegation_token_hash :: "string option"
  effective_scope :: "string option"
  provenance_chain_id :: "string option"

text \<open>The defaults of the dataclass.\<close>

definition Task_default :: Task where
  "Task_default =
     \<lparr> tid = [], title = [], body = None, assignee = None, status = status_value TODO,
       priority = 0, created_by = None, created_at = 0, started_at = None, completed_at = None,
       workspace_kind = None, workspace_path = None, claim_lock = None, claim_expires = None,
       tenant = None, result = None, consecutive_failures = 0, worker_pid = None,
       last_failure_error = None, max_runtime_seconds = None, last_heartbeat_at = None,
       current_run_id = None, max_retries = None, parallel_group = None, next_retry_at = None,
       summary = None, metadata = None, tags = None, circuit_state = None, origin_agent = None,
       origin_task_id = None, delegation_depth = None, delegation_token_hash = None,
       effective_scope = None, provenance_chain_id = None \<rparr>"

record TaskRun =
  run_id :: nat
  run_task :: string
  profile :: "string option"
  run_status :: string
  run_claim_lock :: "string option"
  run_claim_expires :: "int option"
  run_worker_pid :: "int option"
  run_max_runtime_seconds :: "int option"
  run_last_heartbeat_at :: "int option"
  run_started_at :: int
  run_ended_at :: "int option"
  outcome :: "string option"
  run_summary :: "string option"
  run_metadata :: "json option"
  run_error :: "string option"

definition TaskRun_default :: TaskRun where
  "TaskRun_default =
     \<lparr> run_id = 0, run_task = [], profile = None, run_status = run_status_value RunRUNNING,
       run_claim_lock = None, run_claim_expires = None, run_worker_pid = None,
       run_max_runtime_seconds = None, run_last_heartbeat_at = None, run_started_at = 0,
       run_ended_at = None, outcome = None, run_summary = None, run_metadata = None,
       run_error = None \<rparr>"

record TaskComment =
  comment_id :: nat
  comment_task :: string
  author :: string
  comment_body :: string
  comment_at :: int

record TaskEvent =
  event_id :: nat
  event_task :: string
  event_run :: "nat option"
  kind :: string
  payload :: "json option"
  event_at :: int

text \<open>A row of \<open>task_links\<close>.\<close>

record TaskLink =
  parent_id :: string
  child_id :: string
  condition :: "string option"

text \<open>A task as \<open>get_task\<close> returns it, with the summaries of its parents and children.\<close>

record TaskView =
  task_of :: Task
  parents_of :: "(string \<times> string \<times> string) list"
  children_of :: "(string \<times> string \<times> string) list"

end
