(* ===== verification/StateMachine.thy ===== *)
theory StateMachine
  imports Models
begin

text \<open>
  The task state machine, \<open>orchestration/state_machine.py\<close>: the transition table, the set of
  value pairs built from it, and \<open>validate_transition\<close>, which works on strings and raises
  \<open>InvalidTransitionError\<close> for every pair that is not in the set. The lemmas at the end give
  the graph facts the store relies on: the terminal state, the states that cannot be entered.
\<close>

section \<open>Transition table\<close>

datatype machine_error = InvalidTransitionError string string

primrec TRANSITIONS :: "TaskStatus \<Rightarrow> TaskStatus list" where
  "TRANSITIONS TODO = [READY, CANCELLED]"
| "TRANSITIONS READY = [RUNNING, TODO, BLOCKED, CANCELLED]"
| "TRANSITIONS RUNNING = [COMPLETED, FAILED, BLOCKED, CANCELLED]"
| "TRANSITIONS DANGLING = []" \<comment> \<open>not a key of the table\<close>
| "TRANSITIONS BLOCKED = [RUNNING, READY, FAILED, CANCELLED]"
| "TRANSITIONS COMPLETED = [ARCHIVED]"
| "TRANSITIONS FAILED = [READY, ARCHIVED, CANCELLED]"
| "TRANSITIONS CANCELLED = [ARCHIVED]"
| "TRANSITIONS ARCHIVED = []"

text \<open>The keys of the table, in its order.\<close>

definition table_keys :: "TaskStatus list" where
  "table_keys = [TODO, READY, RUNNING, BLOCKED, COMPLETED, FAILED, CANCELLED, ARCHIVED]"

definition VALID_TRANSITIONS :: "(string \<times> string) set" where
  "VALID_TRANSITIONS =
     set (concat (map (\<lambda>f. map (\<lambda>t. (status_value f, status_value t)) (TRANSITIONS f)) table_keys))"

definition validate_transition :: "string \<Rightarrow> string \<Rightarrow> machine_error + bool" where
  "validate_transition from_status to_status =
     (if (from_status, to_status) \<notin> VALID_TRANSITIONS
      then Inl (InvalidTransitionError from_status to_status) else Inr True)"

section \<open>The table as a graph on status strings\<close>

definition edge :: "string \<Rightarrow> string \<Rightarrow> bool" where
  "edge a b \<longleftrightarrow> (a, b) \<in> VALID_TRANSITIONS"

lemma edge_iff: "edge a b \<longleftrightarrow> (\<exists>f t. a = status_value f \<and> b = status_value t \<and> t \<in> set (TRANSITIONS f))"
proof -
  have "(\<exists>f \<in> set table_keys. Q f) \<longleftrightarrow> (\<exists>f. Q f)" if "\<not> Q DANGLING" for Q :: "TaskStatus \<Rightarrow> bool"
  proof -
    have "f = DANGLING \<or> f \<in> set table_keys" for f
      by (cases f) (simp_all add: table_keys_def)
    with that show ?thesis by metis
  qed
  from this [of "\<lambda>f. a = status_value f \<and> (\<exists>t \<in> set (TRANSITIONS f). b = status_value t)"]
  show ?thesis
    by (auto simp: edge_def VALID_TRANSITIONS_def)
qed

lemma edge_value [simp]: "edge (status_value f) (status_value t) \<longleftrightarrow> t \<in> set (TRANSITIONS f)"
  by (auto simp: edge_iff)

lemma edge_fromE:
  assumes "edge (status_value f) b"
  obtains t where "b = status_value t" "t \<in> set (TRANSITIONS f)"
  using assms by (auto simp: edge_iff)

lemma validate_Inr_iff: "validate_transition a b = Inr x \<longleftrightarrow> x \<and> edge a b"
  by (auto simp: validate_transition_def edge_def)

lemma validate_cases:
  "validate_transition a b = (if edge a b then Inr True else Inl (InvalidTransitionError a b))"
  by (simp add: validate_transition_def edge_def)

definition known_status :: "string \<Rightarrow> bool" where
  "known_status s \<longleftrightarrow> s \<in> status_value ` set table_keys"

lemma known_status_value [simp]: "known_status (status_value f) \<longleftrightarrow> f \<noteq> DANGLING"
  by (cases f) (auto simp: known_status_def table_keys_def)

lemma edge_known: "edge a b \<Longrightarrow> known_status b"
proof -
  assume "edge a b"
  then obtain f t where "b = status_value t" "t \<in> set (TRANSITIONS f)"
    by (auto simp: edge_iff)
  then show ?thesis
    by (cases f) auto
qed

lemma known_statusE:
  assumes "known_status s" obtains f where "s = status_value f" "f \<noteq> DANGLING"
proof -
  from assms obtain f where "f \<in> set table_keys" and s: "s = status_value f"
    by (auto simp: known_status_def)
  with assms show thesis
    by (intro that [of f]) simp_all
qed

text \<open>A path of the machine, including the empty one.\<close>

abbreviation status_path :: "string \<Rightarrow> string \<Rightarrow> bool" where
  "status_path \<equiv> edge\<^sup>*\<^sup>*"

lemma path_known: "status_path a b \<Longrightarrow> known_status a \<Longrightarrow> known_status b"
  by (induction rule: rtranclp_induct) (auto dest: edge_known)

lemma path_closed:
  assumes "status_path a b" and "P a" and "\<And>x y. edge x y \<Longrightarrow> P x \<Longrightarrow> P y"
  shows "P b"
  using assms by (induction rule: rtranclp_induct) auto

lemma archived_is_final: "status_path (status_value ARCHIVED) b \<Longrightarrow> b = status_value ARCHIVED"
  by (erule path_closed) (auto elim!: edge_fromE)

lemma completed_is_settled:
  "status_path (status_value COMPLETED) b \<Longrightarrow> b = status_value COMPLETED \<or> b = status_value ARCHIVED"
  by (erule path_closed) (auto elim!: edge_fromE)

lemma no_edge_to_dangling: "\<not> edge a (status_value DANGLING)"
  using edge_known by fastforce

lemma no_path_to_dangling:
  "status_path a (status_value DANGLING) \<Longrightarrow> a = status_value DANGLING"
  by (auto elim: rtranclp.cases simp: no_edge_to_dangling)

end
