(* ===== verification/GraphSearch.thy ===== *)
theory GraphSearch
  imports Prelude
begin

text \<open>
  The stack-based graph search that \<open>TaskStore._detect_cycle\<close> and \<open>dependency.detect_cycle\<close>
  both run: pop a node, stop if it is the goal, skip it if it was visited, otherwise push its
  neighbours as the query returns them. The edge list is the pair of columns the query reads,
  the head of the list is the top of the stack. The search is proved to terminate and to decide
  reachability; an acyclicity law turns that into the guard of an edge insertion.
\<close>

section \<open>The search loop\<close>

definition neighbours :: "('a \<times> 'a) list \<Rightarrow> 'a \<Rightarrow> 'a list" where
  "neighbours E n = map snd (filter (\<lambda>e. fst e = n) E)"

definition nodes_of :: "('a \<times> 'a) list \<Rightarrow> 'a set" where
  "nodes_of E = fst ` set E \<union> snd ` set E"

lemma set_neighbours [simp]: "set (neighbours E n) = set E `` {n}"
  by (force simp: neighbours_def)

lemma finite_nodes_of [simp]: "finite (nodes_of E)"
  by (simp add: nodes_of_def)

lemma neighbours_outside: "n \<notin> nodes_of E \<Longrightarrow> neighbours E n = []"
  by (force simp: neighbours_def nodes_of_def filter_empty_conv)

function search_loop :: "('a \<times> 'a) list \<Rightarrow> 'a \<Rightarrow> 'a set \<Rightarrow> 'a list \<Rightarrow> bool" where
  "search_loop E goal visited [] = False"
| "search_loop E goal visited (node # stack) =
     (if node = goal then True
      else if node \<in> visited then search_loop E goal visited stack
      else search_loop E goal (insert node visited) (rev (neighbours E node) @ stack))"
  by pat_completeness auto

termination
proof (relation "measures [\<lambda>(E, goal, visited, stack). card (nodes_of E - visited),
    \<lambda>(E, goal, visited, stack). length stack]", goal_cases)
  case 1
  show ?case by simp
next
  case (2 E goal visited node stack)
  then show ?case by simp
next
  case (3 E goal visited node stack)
  show ?case
  proof (cases "node \<in> nodes_of E")
    case True
    with 3 have "nodes_of E - insert node visited \<subset> nodes_of E - visited"
      by blast
    then have "card (nodes_of E - insert node visited) < card (nodes_of E - visited)"
      by (intro psubset_card_mono) simp_all
    then show ?thesis by simp
  next
    case False
    then have "nodes_of E - insert node visited = nodes_of E - visited"
      by blast
    with False show ?thesis
      by (simp add: neighbours_outside)
  qed
qed

section \<open>The search decides reachability\<close>

lemma search_loop_sound:
  "search_loop E goal visited stack \<Longrightarrow> \<exists>s \<in> set stack. (s, goal) \<in> (set E)\<^sup>*"
proof (induction E goal visited stack rule: search_loop.induct)
  case (1 E goal visited)
  then show ?case by simp
next
  case (2 E goal visited node stack)
  show ?case
  proof (cases "node = goal \<or> node \<in> visited")
    case True
    with 2 show ?thesis by auto
  next
    case False
    with 2 obtain s where "s \<in> set (rev (neighbours E node) @ stack)" "(s, goal) \<in> (set E)\<^sup>*"
      by auto
    then show ?thesis
      by (auto intro: converse_rtrancl_into_rtrancl)
  qed
qed

lemma closed_rtrancl: "R `` V \<subseteq> V \<Longrightarrow> s \<in> V \<Longrightarrow> (s, t) \<in> R\<^sup>* \<Longrightarrow> t \<in> V"
  by (metis Image_closed_trancl ImageI)

lemma search_loop_complete:
  assumes "\<not> search_loop E goal visited stack"
    and "set E `` visited \<subseteq> visited \<union> set stack" and "goal \<notin> visited"
    and "s \<in> visited \<union> set stack"
  shows "(s, goal) \<notin> (set E)\<^sup>*"
  using assms
proof (induction E goal visited stack rule: search_loop.induct)
  case (1 E goal visited)
  then show ?case
    using closed_rtrancl [of "set E" visited s goal] by auto
next
  case (2 E goal visited node stack)
  show ?case
  proof (cases "node \<in> visited")
    case True
    with 2 show ?thesis by (auto split: if_splits)
  next
    case False
    with 2 show ?thesis
      by (intro "2.IH"(2)) (auto split: if_splits)
  qed
qed

theorem search_loop_iff: "search_loop E goal {} [s] \<longleftrightarrow> (s, goal) \<in> (set E)\<^sup>*"
  using search_loop_sound [of E goal "{}" "[s]"] search_loop_complete [of E goal "{}" "[s]" s]
  by (auto simp del: search_loop.simps)

lemma set_map_swap: "set (map prod.swap E) = (set E)\<inverse>"
  by auto

lemma search_backwards: "search_loop (map prod.swap E) goal {} [s] \<longleftrightarrow> search_loop E s {} [goal]"
  unfolding search_loop_iff set_map_swap by (simp add: rtrancl_converse)

section \<open>Guarded insertion of edges\<close>

lemma acyclic_insert_guarded:
  "acyclic R \<Longrightarrow> (c, p) \<notin> R\<^sup>* \<Longrightarrow> acyclic (insert (p, c) R)"
  by (simp add: acyclic_insert)

text \<open>Edges into a node without outgoing edges close no cycle.\<close>

lemma acyclic_into_sink:
  assumes "acyclic R" and "\<And>y. (n, y) \<notin> R" and "n \<notin> P"
  shows "acyclic (R \<union> P \<times> {n})"
proof (rule acyclicI, rule allI, rule notI)
  let ?S = "R \<union> P \<times> {n}"
  have out: "(n, y) \<notin> ?S" for y
    using assms(2,3) by auto
  have step: "(x, y) \<in> R\<^sup>+ \<or> y = n" if "(x, y) \<in> ?S\<^sup>+" for x y
    using that
  proof (induction rule: trancl_induct)
    case (base y)
    then show ?case by auto
  next
    case (step y z)
    then show ?case using out by (auto intro: trancl_into_trancl)
  qed
  fix x
  assume x: "(x, x) \<in> ?S\<^sup>+"
  from step [OF x] consider "(x, x) \<in> R\<^sup>+" | "x = n" by blast
  then show False
  proof cases
    case 1
    with assms(1) show False by (auto simp: acyclic_def)
  next
    case 2
    with x have "\<exists>y. (n, y) \<in> ?S"
      by (auto dest: tranclD)
    with out show False by blast
  qed
qed

end
