(* ===== verification/TaskDb.thy ===== *)
theory TaskDb
  imports StateMachine GraphSearch "HOL-Library.Option_ord"
begin

text \<open>
  The database of the task store and the helpers of \<open>orchestration/store.py\<close> that run inside a
  transaction: events, link queries, the cycle check and dependency resolution. A field ending
  in \<open>_seq\<close> is the counter of an \<open>AUTOINCREMENT\<close> column. The clock is read once per
  operation and passed in as \<open>now\<close>.
\<close>

section \<open>State and errors\<close>

record task_db =
  tasks :: "Task list"
  task_links :: "TaskLink list"
  task_runs :: "TaskRun list"
  task_comments :: "TaskComment list"
  task_events :: "TaskEvent list"
  run_seq :: nat
  comment_seq :: nat
  event_seq :: nat

definition empty_db :: task_db where
  "empty_db = \<lparr> tasks = [], task_links = [], task_runs = [], task_comments = [],
     task_events = [], run_seq = 0, comment_seq = 0, event_seq = 0 \<rparr>"

text \<open>One constructor per place that raises; \<open>class_of\<close> gives the Python class.\<close>

datatype store_error =
    TaskNotFound string
  | ParentNotFound string
  | EmptyParent
  | WouldCycle string
  | SelfLink
  | InvalidTransition string string
  | LockMismatch "string option" string
  | NoAttribute string
  | PrimaryKeyViolation
  | FloatOverflow

datatype error_class = ValueErr | PermissionErr | AttributeErr | IntegrityErr | OverflowErr

primrec class_of :: "store_error \<Rightarrow> error_class" where
  "class_of (TaskNotFound i) = ValueErr"
| "class_of (ParentNotFound i) = ValueErr"
| "class_of EmptyParent = ValueErr"
| "class_of (WouldCycle i) = ValueErr"
| "class_of SelfLink = ValueErr"
| "class_of (InvalidTransition a b) = ValueErr" \<comment> \<open>a subclass of \<open>ValueError\<close>\<close>
| "class_of (LockMismatch a b) = PermissionErr"
| "class_of (NoAttribute n) = AttributeErr"
| "class_of PrimaryKeyViolation = IntegrityErr"
| "class_of FloatOverflow = OverflowErr"

type_synonym 'a store_op = "task_db \<Rightarrow> (store_error + 'a) \<times> task_db"

section \<open>Reading and writing rows\<close>

definition find_task :: "task_db \<Rightarrow> string \<Rightarrow> Task option" where
  "find_task db i = row_by tid i (tasks db)"

definition status_of :: "task_db \<Rightarrow> string \<Rightarrow> string option" where
  "status_of db i = map_option status (find_task db i)"

definition upd_task :: "string \<Rightarrow> (Task \<Rightarrow> Task) \<Rightarrow> task_db \<Rightarrow> task_db" where
  "upd_task i f db = db\<lparr>tasks := sql_update (\<lambda>r. tid r = i) f (tasks db)\<rparr>"

definition upd_run :: "nat \<Rightarrow> (TaskRun \<Rightarrow> TaskRun) \<Rightarrow> task_db \<Rightarrow> task_db" where
  "upd_run i f db = db\<lparr>task_runs := sql_update (\<lambda>r. run_id r = i) f (task_runs db)\<rparr>"

text \<open>The update of the run a task points at, skipped when there is none.\<close>

definition upd_run_opt :: "nat option \<Rightarrow> (TaskRun \<Rightarrow> TaskRun) \<Rightarrow> task_db \<Rightarrow> task_db" where
  "upd_run_opt i f db = (case i of None \<Rightarrow> db | Some r \<Rightarrow> upd_run r f db)"

definition insert_run :: "TaskRun \<Rightarrow> task_db \<Rightarrow> task_db" where
  "insert_run r db =
     db\<lparr>task_runs := task_runs db @ [r\<lparr>run_id := Suc (run_seq db)\<rparr>], run_seq := Suc (run_seq db)\<rparr>"

definition emit_event ::
  "int \<Rightarrow> string \<Rightarrow> string \<Rightarrow> nat option \<Rightarrow> (string \<times> json) list \<Rightarrow> task_db \<Rightarrow> task_db" where
  "emit_event now i k run pl db =
     db\<lparr>task_events := task_events db @
          [\<lparr>event_id = Suc (event_seq db), event_task = i, event_run = run, kind = k,
            payload = json_column pl, event_at = now\<rparr>],
        event_seq := Suc (event_seq db)\<rparr>"

lemma find_task_upd_task [row_simps]:
  assumes "\<And>r. tid (f r) = tid r"
  shows "find_task (upd_task i f db) j
         = map_option (\<lambda>r. if j = i then f r else r) (find_task db j)"
proof -
  have "find_task (upd_task i f db) j
        = map_option (\<lambda>r. if tid r = i then f r else r) (find_task db j)"
    using assms by (simp add: find_task_def upd_task_def row_by_sql_update)
  then show ?thesis
    by (cases "find_task db j") (auto simp: find_task_def dest: row_by_key)
qed

lemma find_task_frame [frame_simps]:
  "find_task (upd_run n g db) j = find_task db j"
  "find_task (upd_run_opt m g db) j = find_task db j"
  "find_task (insert_run r db) j = find_task db j"
  "find_task (emit_event now i k run pl db) j = find_task db j"
  by (simp_all add: find_task_def upd_run_def upd_run_opt_def insert_run_def emit_event_def
      split: option.split)

lemma tasks_frame [frame_simps]:
  "tasks (upd_run n g db) = tasks db"
  "tasks (upd_run_opt m g db) = tasks db"
  "tasks (insert_run r db) = tasks db"
  "tasks (emit_event now i k run pl db) = tasks db"
  by (simp_all add: upd_run_def upd_run_opt_def insert_run_def emit_event_def split: option.split)

lemma links_frame [frame_simps]:
  "task_links (upd_run n g db) = task_links db"
  "task_links (upd_run_opt m g db) = task_links db"
  "task_links (insert_run r db) = task_links db"
  "task_links (emit_event now i k run pl db) = task_links db"
  "task_links (upd_task i f db) = task_links db"
  by (simp_all add: upd_run_def upd_run_opt_def insert_run_def emit_event_def upd_task_def
      split: option.split)

lemma runs_frame [frame_simps]:
  "task_runs (emit_event now i k run pl db) = task_runs db"
  "task_runs (upd_task i f db) = task_runs db"
  "run_seq (emit_event now i k run pl db) = run_seq db"
  "run_seq (upd_task i f db) = run_seq db"
  "run_seq (upd_run n g db) = run_seq db"
  "run_seq (upd_run_opt m g db) = run_seq db"
  by (simp_all add: emit_event_def upd_task_def upd_run_def upd_run_opt_def split: option.split)

section \<open>Links and cycles\<close>

definition link_exists :: "task_db \<Rightarrow> string \<Rightarrow> string \<Rightarrow> bool" where
  "link_exists db p c = (\<exists>l \<in> set (task_links db). parent_id l = p \<and> child_id l = c)"

text \<open>The columns the search query reads: from a parent to its children.\<close>

definition child_edges :: "task_db \<Rightarrow> (string \<times> string) list" where
  "child_edges db = map (\<lambda>l. (parent_id l, child_id l)) (task_links db)"

definition detect_cycle :: "task_db \<Rightarrow> string \<Rightarrow> string \<Rightarrow> bool" where
  "detect_cycle db c p = (if c = p then True else search_loop (child_edges db) p {} [c])"

definition dag :: "task_db \<Rightarrow> (string \<times> string) set" where
  "dag db = set (child_edges db)"

lemma dag_iff: "(p, c) \<in> dag db \<longleftrightarrow> link_exists db p c"
  by (auto simp: dag_def child_edges_def link_exists_def)

lemma detect_cycle_iff: "detect_cycle db c p \<longleftrightarrow> (c, p) \<in> (dag db)\<^sup>*"
  by (auto simp: detect_cycle_def dag_def search_loop_iff simp del: search_loop.simps)

lemma dag_frame [frame_simps]:
  "dag (upd_run n g db) = dag db"
  "dag (upd_run_opt m g db) = dag db"
  "dag (insert_run r db) = dag db"
  "dag (emit_event now i k run pl db) = dag db"
  "dag (upd_task i f db) = dag db"
  by (simp_all add: dag_def child_edges_def frame_simps)

section \<open>Dependency resolution\<close>

text \<open>The join of \<open>task_links\<close> and \<open>tasks\<close>: status and result of each parent, and the condition.\<close>

definition parent_rows :: "task_db \<Rightarrow> string \<Rightarrow> (string \<times> string option \<times> string option) list" where
  "parent_rows db c =
     [(status p, result p, condition l). l \<leftarrow> task_links db, child_id l = c,
        p \<leftarrow> tasks db, tid p = parent_id l]"

definition row_satisfied :: "string \<times> string option \<times> string option \<Rightarrow> bool" where
  "row_satisfied row = (case row of (st, res, cond) \<Rightarrow>
     st \<in> {status_value COMPLETED, status_value ARCHIVED} \<and>
     (opt_true cond \<longrightarrow> opt_true res \<and> res = cond))"

text \<open>The loop over the parent rows, left at the first row that is not satisfied.\<close>

fun all_satisfied :: "(string \<times> string option \<times> string option) list \<Rightarrow> bool" where
  "all_satisfied [] = True"
| "all_satisfied (row # rows) = (if \<not> row_satisfied row then False else all_satisfied rows)"

definition promotion_reason :: "(string \<times> string option \<times> string option) list \<Rightarrow> string" where
  "promotion_reason rows =
     (if \<exists>(st, res, cond) \<in> set rows. opt_true cond then ''conditions_satisfied''
      else ''all_parents_done'')"

definition set_status :: "TaskStatus \<Rightarrow> Task \<Rightarrow> Task" where
  "set_status s r = r\<lparr>status := status_value s\<rparr>"

definition resolve_dependencies :: "int \<Rightarrow> string \<Rightarrow> task_db \<Rightarrow> task_db" where
  "resolve_dependencies now i db =
     (let rows = parent_rows db i in
      if rows = [] then
        (case find_task db i of
           None \<Rightarrow> db
         | Some t \<Rightarrow>
             if status t = status_value TODO
             then emit_event now i (kind_value EvDEPENDENCY_PROMOTED) None
                    [(''from'', JStr ''todo''), (''to'', JStr ''ready''),
                     (''reason'', JStr ''no_parents'')]
                    (upd_task i (set_status READY) db)
             else db)
      else
        (case find_task db i of
           None \<Rightarrow> db
         | Some t \<Rightarrow>
             if all_satisfied rows \<and> status t = status_value TODO
             then emit_event now i (kind_value EvDEPENDENCY_PROMOTED) None
                    [(''from'', JStr ''todo''), (''to'', JStr ''ready''),
                     (''reason'', JStr (promotion_reason rows))]
                    (upd_task i (set_status READY) db)
             else if \<not> all_satisfied rows \<and> status t = status_value READY
             then emit_event now i (kind_value EvDEPENDENCY_PROMOTED) None
                    [(''from'', JStr ''ready''), (''to'', JStr ''todo'')]
                    (upd_task i (set_status TODO) db)
             else db))"

lemma all_satisfied_iff: "all_satisfied rows \<longleftrightarrow> (\<forall>row \<in> set rows. row_satisfied row)"
  by (induction rows) simp_all

text \<open>What resolution does to a status, without the events: the abstract view of the two branches.\<close>

definition resolved_status :: "task_db \<Rightarrow> string \<Rightarrow> string \<Rightarrow> string" where
  "resolved_status db i s =
     (if s = status_value TODO \<and> all_satisfied (parent_rows db i) then status_value READY
      else if s = status_value READY \<and> \<not> all_satisfied (parent_rows db i) then status_value TODO
      else s)"

lemma set_status_simps [simp]:
  "tid (set_status s r) = tid r" "status (set_status s r) = status_value s"
  by (simp_all add: set_status_def)

lemma status_of_resolve:
  "status_of (resolve_dependencies now i db) j
   = (if j = i then map_option (resolved_status db i) (status_of db i) else status_of db j)"
proof (cases "find_task db i")
  case None
  then show ?thesis
    by (auto simp: resolve_dependencies_def status_of_def Let_def)
next
  case (Some t)
  then show ?thesis
    by (auto simp: resolve_dependencies_def status_of_def resolved_status_def row_simps frame_simps
        option.map_comp comp_def Let_def)
qed

lemma resolved_status_edge: "resolved_status db i s = s \<or> edge s (resolved_status db i s)"
  by (auto simp: resolved_status_def)

lemma resolve_frame [frame_simps]:
  "task_links (resolve_dependencies now i db) = task_links db"
  "task_runs (resolve_dependencies now i db) = task_runs db"
  "run_seq (resolve_dependencies now i db) = run_seq db"
  "dag (resolve_dependencies now i db) = dag db"
  by (auto simp: resolve_dependencies_def frame_simps Let_def split: option.split)

end
