(* ===== verification/TaskStore.thy ===== *)
theory TaskStore
  imports TaskDb
begin

text \<open>
  The operations of \<open>TaskStore\<close> (\<open>orchestration/store.py\<close>) that change or read tasks: create,
  update, get, list, the validated status transition, batches, the atomic claim, the heartbeat,
  the release of expired claims, retry promotion, comments, dependencies and statistics. An
  operation maps the database to a result or an exception and the database after it;
  transactions roll back on an exception through \<open>tx\<close>. A fresh task id and the clock are
  arguments.
\<close>

definition DEFAULT_CLAIM_TTL :: int where
  "DEFAULT_CLAIM_TTL = 900"

definition DEFAULT_MAX_RETRIES :: int where
  "DEFAULT_MAX_RETRIES = 3"

section \<open>Creating tasks\<close>

datatype parent_arg = ParentStr string | ParentDict "string option" "string option"

record CreateArgs =
  arg_title :: string
  arg_body :: "string option"
  arg_assignee :: "string option"
  arg_priority :: int
  arg_parents :: "parent_arg list"
  arg_workspace_kind :: "string option"
  arg_workspace_path :: "string option"
  arg_max_runtime_seconds :: "int option"
  arg_max_retries :: "int option"
  arg_tenant :: "string option"
  arg_created_by :: "string option"
  arg_parallel_group :: "string option"

definition CreateArgs_default :: "string \<Rightarrow> CreateArgs" where
  "CreateArgs_default t =
     \<lparr> arg_title = t, arg_body = None, arg_assignee = None, arg_priority = 0, arg_parents = [],
       arg_workspace_kind = None, arg_workspace_path = None, arg_max_runtime_seconds = None,
       arg_max_retries = None, arg_tenant = None, arg_created_by = None,
       arg_parallel_group = None \<rparr>"

fun parent_spec :: "parent_arg \<Rightarrow> store_error + (string \<times> string option)" where
  "parent_spec (ParentDict pid cond) =
     (if opt_true pid then Inr (the pid, cond) else Inl EmptyParent)"
| "parent_spec (ParentStr pid) = (if str_true pid then Inr (pid, None) else Inl EmptyParent)"

fun parent_specs :: "parent_arg list \<Rightarrow> store_error + (string \<times> string option) list" where
  "parent_specs [] = Inr []"
| "parent_specs (p # ps) =
     (case parent_spec p of
        Inl e \<Rightarrow> Inl e
      | Inr s \<Rightarrow> (case parent_specs ps of Inl e \<Rightarrow> Inl e | Inr ss \<Rightarrow> Inr (s # ss)))"

fun check_parents_exist :: "task_db \<Rightarrow> (string \<times> string option) list \<Rightarrow> store_error + unit" where
  "check_parents_exist db [] = Inr ()"
| "check_parents_exist db ((pid, cond) # ss) =
     (case find_task db pid of None \<Rightarrow> Inl (ParentNotFound pid) | Some _ \<Rightarrow> check_parents_exist db ss)"

fun check_parents_acyclic ::
  "task_db \<Rightarrow> string \<Rightarrow> (string \<times> string option) list \<Rightarrow> store_error + unit" where
  "check_parents_acyclic db i [] = Inr ()"
| "check_parents_acyclic db i ((pid, cond) # ss) =
     (if detect_cycle db i pid then Inl (WouldCycle pid) else check_parents_acyclic db i ss)"

text \<open>\<open>INSERT\<close> into a table with a primary key.\<close>

definition insert_task :: "Task \<Rightarrow> task_db \<Rightarrow> store_error + task_db" where
  "insert_task t db =
     (case find_task db (tid t) of
        Some _ \<Rightarrow> Inl PrimaryKeyViolation
      | None \<Rightarrow> Inr (db\<lparr>tasks := tasks db @ [t]\<rparr>))"

definition insert_link :: "string \<Rightarrow> string \<Rightarrow> string option \<Rightarrow> task_db \<Rightarrow> store_error + task_db" where
  "insert_link p c cond db =
     (if link_exists db p c then Inl PrimaryKeyViolation
      else Inr (db\<lparr>task_links := task_links db @ [\<lparr>parent_id = p, child_id = c, condition = cond\<rparr>]\<rparr>))"

fun insert_links ::
  "string \<Rightarrow> (string \<times> string option) list \<Rightarrow> task_db \<Rightarrow> store_error + task_db" where
  "insert_links c [] db = Inr db"
| "insert_links c ((p, cond) # ss) db =
     (case insert_link p c cond db of Inl e \<Rightarrow> Inl e | Inr db' \<Rightarrow> insert_links c ss db')"

definition spec_json :: "string \<times> string option \<Rightarrow> json" where
  "spec_json s = JObj [(''parent_id'', JStr (fst s)), (''condition'', json_opt_str (snd s))]"

definition new_task :: "int \<Rightarrow> string \<Rightarrow> CreateArgs \<Rightarrow> bool \<Rightarrow> Task" where
  "new_task now i a has_parents =
     Task_default
       \<lparr> tid := i, title := arg_title a, body := arg_body a, assignee := arg_assignee a,
         priority := arg_priority a, workspace_kind := arg_workspace_kind a,
         workspace_path := arg_workspace_path a,
         max_runtime_seconds := arg_max_runtime_seconds a, max_retries := arg_max_retries a,
         tenant := arg_tenant a, created_by := arg_created_by a,
         parallel_group := arg_parallel_group a, created_at := now,
         status := status_value (if has_parents then TODO else READY) \<rparr>"

definition create_body ::
  "int \<Rightarrow> Task \<Rightarrow> (string \<times> string option) list \<Rightarrow> task_db \<Rightarrow> store_error + (Task \<times> task_db)" where
  "create_body now t specs db =
     (case check_parents_exist db specs of Inl e \<Rightarrow> Inl e | Inr _ \<Rightarrow>
      (case check_parents_acyclic db (tid t) specs of Inl e \<Rightarrow> Inl e | Inr _ \<Rightarrow>
       (case insert_task t db of Inl e \<Rightarrow> Inl e | Inr db1 \<Rightarrow>
        (case insert_links (tid t) specs db1 of Inl e \<Rightarrow> Inl e | Inr db2 \<Rightarrow>
         Inr (t, emit_event now (tid t) (kind_value EvCREATED) None
                   [(''assignee'', json_opt_str (assignee t)),
                    (''parents'', JList (map spec_json specs)),
                    (''status'', JStr (status t))] db2)))))"

definition create_task :: "int \<Rightarrow> string \<Rightarrow> CreateArgs \<Rightarrow> Task store_op" where
  "create_task now i a db =
     (case parent_specs (arg_parents a) of
        Inl e \<Rightarrow> (Inl e, db)
      | Inr specs \<Rightarrow> tx (create_body now (new_task now i a (specs \<noteq> [])) specs) db)"

section \<open>Updating and reading a task\<close>

definition blank_to_none :: "string \<Rightarrow> string option" where
  "blank_to_none s = (if str_true (py_strip s) then Some (py_strip s) else None)"

definition edit_task ::
  "string option \<Rightarrow> string option \<Rightarrow> string option \<Rightarrow> int option \<Rightarrow> Task \<Rightarrow> bool \<times> Task" where
  "edit_task ti bo asg pr t =
     (let (c1, t1) = (case ti of
            Some s \<Rightarrow> if py_strip s \<noteq> title t then (True, t\<lparr>title := py_strip s\<rparr>) else (False, t)
          | None \<Rightarrow> (False, t));
          (c2, t2) = (case bo of
            Some s \<Rightarrow> (True, t1\<lparr>body := blank_to_none s\<rparr>) | None \<Rightarrow> (c1, t1));
          (c3, t3) = (case asg of
            Some s \<Rightarrow> (True, t2\<lparr>assignee := blank_to_none s\<rparr>) | None \<Rightarrow> (c2, t2))
      in case pr of Some p \<Rightarrow> (True, t3\<lparr>priority := p\<rparr>) | None \<Rightarrow> (c3, t3))"

definition update_task ::
  "int \<Rightarrow> string \<Rightarrow> string option \<Rightarrow> string option \<Rightarrow> string option \<Rightarrow> int option \<Rightarrow> Task store_op" where
  "update_task now i ti bo asg pr =
     tx (\<lambda>db. case find_task db i of
           None \<Rightarrow> Inl (TaskNotFound i)
         | Some t \<Rightarrow>
             (let (changed, t') = edit_task ti bo asg pr t in
              if \<not> changed then Inr (t', db)
              else Inr (t', emit_event now i (kind_value EvUPDATED) None
                     [(''title'', JStr (title t')), (''body'', json_opt_str (body t')),
                      (''assignee'', json_opt_str (assignee t')), (''priority'', JInt (priority t'))]
                     (upd_task i (\<lambda>r. r\<lparr>title := title t', body := body t',
                        assignee := assignee t', priority := priority t'\<rparr>) db))))"

definition summary_of :: "Task \<Rightarrow> string \<times> string \<times> string" where
  "summary_of t = (tid t, title t, status t)"

definition get_task :: "string \<Rightarrow> task_db \<Rightarrow> TaskView option" where
  "get_task i db =
     (case find_task db i of
        None \<Rightarrow> None
      | Some t \<Rightarrow> Some
          \<lparr> task_of = t,
            parents_of = [summary_of p. l \<leftarrow> task_links db, child_id l = i,
                            p \<leftarrow> tasks db, tid p = parent_id l],
            children_of = [summary_of c. l \<leftarrow> task_links db, parent_id l = i,
                            c \<leftarrow> tasks db, tid c = child_id l] \<rparr>)"

definition get_parents :: "string \<Rightarrow> task_db \<Rightarrow> (string \<times> string \<times> string \<times> string option) list" where
  "get_parents i db =
     [(tid p, title p, status p, condition l). l \<leftarrow> task_links db, child_id l = i,
        p \<leftarrow> tasks db, tid p = parent_id l]"

definition get_children :: "string \<Rightarrow> task_db \<Rightarrow> (string \<times> string \<times> string \<times> string option) list" where
  "get_children i db =
     [(tid c, title c, status c, condition l). l \<leftarrow> task_links db, parent_id l = i,
        c \<leftarrow> tasks db, tid c = child_id l]"

section \<open>Listing tasks\<close>

record ListArgs =
  f_status :: "string option"
  f_assignee :: "string option"
  f_tenant :: "string option"
  f_parent :: "string option"
  f_q :: "string option"
  f_limit :: int
  f_offset :: int
  f_sort :: string

definition ListArgs_default :: ListArgs where
  "ListArgs_default =
     \<lparr> f_status = None, f_assignee = None, f_tenant = None, f_parent = None, f_q = None,
       f_limit = 50, f_offset = 0, f_sort = ''-created_at'' \<rparr>"

definition like_opt :: "string \<Rightarrow> string option \<Rightarrow> bool" where
  "like_opt pat x = (case x of None \<Rightarrow> False | Some s \<Rightarrow> sql_like pat s)"

text \<open>The conjunction of the \<open>WHERE\<close> clauses; a filter that is empty adds none.\<close>

definition list_where :: "ListArgs \<Rightarrow> task_db \<Rightarrow> Task \<Rightarrow> bool" where
  "list_where a db t \<longleftrightarrow>
     (opt_true (f_status a) \<longrightarrow> status t \<in> set (map py_strip (py_split_on CHR '','' (the (f_status a))))) \<and>
     (opt_true (f_assignee a) \<longrightarrow> assignee t = f_assignee a) \<and>
     (opt_true (f_tenant a) \<longrightarrow> tenant t = f_tenant a) \<and>
     (opt_true (f_parent a) \<longrightarrow> link_exists db (the (f_parent a)) (tid t)) \<and>
     (opt_true (f_q a) \<longrightarrow>
        (let pat = ''%'' @ the (f_q a) @ ''%'' in sql_like pat (title t) \<or> like_opt pat (body t)))"

definition allowed_sorts :: "string set" where
  "allowed_sorts = {''created_at'', ''priority'', ''started_at'', ''title''}"

definition sort_column :: "string \<Rightarrow> string" where
  "sort_column s =
     (let c = (if py_startswith s ''-'' then tl s else if str_true s then s else ''created_at'')
      in if c \<notin> allowed_sorts then ''created_at'' else c)"

text \<open>The direction is \<open>DESC\<close> in every case; ties are ordered by id.\<close>

definition order_tasks :: "string \<Rightarrow> Task list \<Rightarrow> Task list" where
  "order_tasks col ts =
     (let by_id = sort_key tid ts in
      if col = ''priority'' then order_desc priority by_id
      else if col = ''started_at'' then order_desc started_at by_id
      else if col = ''title'' then order_desc title by_id
      else order_desc created_at by_id)"

definition list_tasks :: "ListArgs \<Rightarrow> task_db \<Rightarrow> Task list \<times> nat" where
  "list_tasks a db =
     (let matching = filter (list_where a db) (tasks db) in
      (limit_offset (f_limit a) (f_offset a) (order_tasks (sort_column (f_sort a)) matching),
       length matching))"

section \<open>The validated status transition\<close>

text \<open>The delay written to \<open>next_retry_at\<close>; \<open>2 ** k\<close> does not fit a float from \<open>k = 1024\<close> on.\<close>

definition backoff_delay :: "nat \<Rightarrow> store_error + int" where
  "backoff_delay new_failures =
     (if new_failures - 1 \<ge> 1024 then Inl FloatOverflow
      else Inr (min (30 * 2 ^ (new_failures - 1)) 3600))"

definition next_retry :: "int \<Rightarrow> Task \<Rightarrow> store_error + int option" where
  "next_retry now t =
     (let n = Suc (consecutive_failures t) in
      case max_retries t of
        None \<Rightarrow> Inr None
      | Some m \<Rightarrow>
          if int n \<le> m then (case backoff_delay n of Inl e \<Rightarrow> Inl e | Inr d \<Rightarrow> Inr (Some (now + d)))
          else Inr None)"

text \<open>The assembled \<open>SET\<close> list as a function on the row.\<close>

definition transition_fields ::
  "int \<Rightarrow> Task \<Rightarrow> string \<Rightarrow> string option \<Rightarrow> int option \<Rightarrow> Task \<Rightarrow> Task" where
  "transition_fields now t new res retry r =
     (let r1 = r\<lparr>status := new\<rparr>;
          r2 = (if new \<in> {status_value COMPLETED, status_value FAILED}
                then r1\<lparr>completed_at := Some now\<rparr> else r1);
          r3 = (if new = status_value FAILED
                then r2\<lparr>consecutive_failures := Suc (consecutive_failures r),
                        last_failure_error := res,
                        next_retry_at := (case retry of None \<Rightarrow> next_retry_at r | Some x \<Rightarrow> Some x)\<rparr>
                else r2);
          r4 = (if new = status_value COMPLETED
                then r3\<lparr>consecutive_failures := 0,
                        result := (if opt_true res then res else result r)\<rparr>
                else r3)
      in if new \<in> {status_value READY, status_value RUNNING} \<and> status t = status_value FAILED
         then r4\<lparr>consecutive_failures := consecutive_failures t\<rparr> else r4)"

definition transition_kind :: "string \<Rightarrow> string \<Rightarrow> store_error + string" where
  "transition_kind old new =
     (if old = status_value BLOCKED \<and> new = status_value RUNNING then Inr (kind_value EvUNBLOCKED)
      else if old = status_value FAILED \<and> new = status_value READY then Inl (NoAttribute ''RETRIED'')
      else if new = status_value COMPLETED then Inr (kind_value EvCOMPLETED)
      else if new = status_value FAILED then Inr (kind_value EvFAILED)
      else if new = status_value BLOCKED then Inr (kind_value EvBLOCKED)
      else if new = status_value RUNNING then Inr (kind_value EvSTARTED)
      else if new = status_value ARCHIVED then Inr (kind_value EvARCHIVED)
      else Inr ''status_changed'')"

definition end_run ::
  "int \<Rightarrow> string \<Rightarrow> string option \<Rightarrow> (string \<times> json) list \<Rightarrow> string option \<Rightarrow> TaskRun \<Rightarrow> TaskRun" where
  "end_run now new summ meta res r =
     r\<lparr>run_status := run_status_value (if new = status_value COMPLETED then RunDONE else RunFAILED),
       run_ended_at := Some now, outcome := Some new, run_summary := summ,
       run_metadata := json_column meta, run_error := res\<rparr>"

definition children_ids :: "task_db \<Rightarrow> string \<Rightarrow> string list" where
  "children_ids db i = [child_id l. l \<leftarrow> task_links db, parent_id l = i]"

text \<open>The \<open>UPDATE\<close>s of a transition that has passed its guards, the children included.\<close>

definition apply_transition ::
  "int \<Rightarrow> Task \<Rightarrow> string \<Rightarrow> string option \<Rightarrow> string option \<Rightarrow> (string \<times> json) list
    \<Rightarrow> int option \<Rightarrow> string \<Rightarrow> task_db \<Rightarrow> task_db" where
  "apply_transition now t new res summ meta retry k db =
     (let db1 = (if new \<in> {status_value COMPLETED, status_value FAILED}
                 then upd_run_opt (current_run_id t) (end_run now new summ meta res) db else db);
          db2 = upd_task (tid t) (transition_fields now t new res retry) db1;
          db3 = emit_event now (tid t) k (current_run_id t)
                  [(''from'', JStr (status t)), (''to'', JStr new), (''result'', json_opt_str res)] db2
      in if new = status_value COMPLETED
         then fold (resolve_dependencies now) (children_ids db3 (tid t)) db3 else db3)"

definition transition_body ::
  "int \<Rightarrow> string \<Rightarrow> string \<Rightarrow> string option \<Rightarrow> string option \<Rightarrow> string option \<Rightarrow> (string \<times> json) list
    \<Rightarrow> task_db \<Rightarrow> store_error + (unit \<times> task_db)" where
  "transition_body now i new lock res summ meta db =
     (case find_task db i of
        None \<Rightarrow> Inl (TaskNotFound i)
      | Some t \<Rightarrow>
          (case validate_transition (status t) new of
             Inl (InvalidTransitionError a b) \<Rightarrow> Inl (InvalidTransition a b)
           | Inr _ \<Rightarrow>
               if status t = status_value RUNNING \<and> opt_true lock \<and> claim_lock t \<noteq> lock
               then Inl (LockMismatch (claim_lock t) (the lock))
               else
                 (case (if new = status_value FAILED then next_retry now t else Inr None) of
                    Inl e \<Rightarrow> Inl e
                  | Inr retry \<Rightarrow>
                      (case transition_kind (status t) new of
                         Inl e \<Rightarrow> Inl e
                       | Inr k \<Rightarrow> Inr ((), apply_transition now t new res summ meta retry k db)))))"

definition update_task_status ::
  "int \<Rightarrow> string \<Rightarrow> string \<Rightarrow> string option \<Rightarrow> string option \<Rightarrow> string option \<Rightarrow> (string \<times> json) list
    \<Rightarrow> TaskView option store_op" where
  "update_task_status now i new lock res summ meta db =
     (case tx (transition_body now i new lock res summ meta) db of
        (Inl e, db') \<Rightarrow> (Inl e, db')
      | (Inr _, db') \<Rightarrow> (Inr (get_task i db'), db'))"

definition delete_task :: "int \<Rightarrow> string \<Rightarrow> bool store_op" where
  "delete_task now i db =
     (case update_task_status now i (status_value ARCHIVED) None None None [] db of
        (Inl e, db') \<Rightarrow> (Inl e, db')
      | (Inr v, db') \<Rightarrow> (Inr (v \<noteq> None), db'))"

section \<open>Batches\<close>

text \<open>
  The loop over the ids with its two \<open>except\<close> clauses: a \<open>ValueError\<close> is dropped, a
  \<open>PermissionError\<close> is collected, any other exception leaves the loop.
\<close>

fun batch_loop ::
  "(string \<Rightarrow> bool store_op) \<Rightarrow> string list \<Rightarrow> nat \<Rightarrow> (string \<times> store_error) list
    \<Rightarrow> (nat \<times> (string \<times> store_error) list) store_op" where
  "batch_loop f [] n failed db = (Inr (n, failed), db)"
| "batch_loop f (i # is) n failed db =
     (case f i db of
        (Inr counted, db') \<Rightarrow> batch_loop f is (if counted then Suc n else n) failed db'
      | (Inl e, db') \<Rightarrow>
          (case class_of e of
             ValueErr \<Rightarrow> batch_loop f is n failed db'
           | PermissionErr \<Rightarrow> batch_loop f is n (failed @ [(i, e)]) db'
           | _ \<Rightarrow> (Inl e, db')))"

definition batch_update_status ::
  "int \<Rightarrow> string list \<Rightarrow> string \<Rightarrow> (nat \<times> (string \<times> store_error) list) store_op" where
  "batch_update_status now is new =
     batch_loop (\<lambda>i db. case update_task_status now i new None None None [] db of
                          (Inl e, db') \<Rightarrow> (Inl e, db') | (Inr _, db') \<Rightarrow> (Inr True, db')) is 0 []"

definition batch_delete :: "int \<Rightarrow> string list \<Rightarrow> (nat \<times> (string \<times> store_error) list) store_op" where
  "batch_delete now is = batch_loop (delete_task now) is 0 []"

section \<open>Claims\<close>

record ClaimInfo =
  ci_task :: string
  ci_lock :: string
  ci_expires :: int
  ci_workspace :: "string option"

definition lock_name :: "string \<Rightarrow> int \<Rightarrow> string" where
  "lock_name worker pid = worker @ '':'' @ str_int pid"

text \<open>The \<open>WHERE\<close> of the claim; a comparison with \<open>NULL\<close> does not hold.\<close>

definition claimable :: "int \<Rightarrow> Task \<Rightarrow> bool" where
  "claimable now r \<longleftrightarrow> status r = status_value READY \<and>
     (claim_lock r = None \<or> col_less (claim_expires r) now)"

definition claim_fields :: "int \<Rightarrow> string \<Rightarrow> int \<Rightarrow> int \<Rightarrow> Task \<Rightarrow> Task" where
  "claim_fields now lock expires pid r =
     r\<lparr>status := status_value RUNNING, claim_lock := Some lock, claim_expires := Some expires,
       started_at := (case started_at r of None \<Rightarrow> Some now | Some s \<Rightarrow> Some s),
       worker_pid := Some pid, last_heartbeat_at := Some now\<rparr>"

definition claimed_run :: "int \<Rightarrow> string \<Rightarrow> string \<Rightarrow> string \<Rightarrow> int \<Rightarrow> int \<Rightarrow> TaskRun" where
  "claimed_run now i worker lock expires pid =
     TaskRun_default
       \<lparr> run_task := i, profile := Some worker, run_status := run_status_value RunRUNNING,
         run_claim_lock := Some lock, run_claim_expires := Some expires,
         run_worker_pid := Some pid, run_last_heartbeat_at := Some now, run_started_at := now \<rparr>"

definition claim_body ::
  "int \<Rightarrow> string \<Rightarrow> string \<Rightarrow> int \<Rightarrow> int \<Rightarrow> task_db \<Rightarrow> store_error + (bool \<times> task_db)" where
  "claim_body now i worker pid ttl db =
     (let expires = now + ttl; lock = lock_name worker pid;
          matching = (\<lambda>r. tid r = i \<and> claimable now r) in
      if sql_count matching (tasks db) = 0 then Inr (False, db)
      else
        (let db1 = db\<lparr>tasks := sql_update matching (claim_fields now lock expires pid) (tasks db)\<rparr>;
             db2 = insert_run (claimed_run now i worker lock expires pid) db1;
             rid = run_seq db2;
             db3 = upd_task i (\<lambda>r. r\<lparr>current_run_id := Some rid\<rparr>) db2
         in Inr (True, emit_event now i (kind_value EvCLAIMED) (Some rid)
                   [(''worker_id'', JStr worker), (''pid'', JInt pid), (''lock'', JStr lock)] db3)))"

definition claim_task :: "int \<Rightarrow> string \<Rightarrow> string \<Rightarrow> int \<Rightarrow> int \<Rightarrow> ClaimInfo option store_op" where
  "claim_task now i worker pid ttl db =
     (case tx (claim_body now i worker pid ttl) db of
        (Inl e, db') \<Rightarrow> (Inl e, db')
      | (Inr False, db') \<Rightarrow> (Inr None, db')
      | (Inr True, db') \<Rightarrow>
          (Inr (Some \<lparr> ci_task = i, ci_lock = lock_name worker pid, ci_expires = now + ttl,
             ci_workspace = (case get_task i db' of None \<Rightarrow> None
                             | Some v \<Rightarrow> workspace_path (task_of v)) \<rparr>), db'))"

definition heartbeat :: "int \<Rightarrow> string \<Rightarrow> string \<Rightarrow> bool store_op" where
  "heartbeat now i lock =
     tx (\<lambda>db. case find_task db i of
           None \<Rightarrow> Inr (False, db)
         | Some t \<Rightarrow>
             if claim_lock t \<noteq> Some lock then Inr (False, db)
             else
               (let new_expires = now + DEFAULT_CLAIM_TTL;
                    db1 = upd_task i (\<lambda>r. r\<lparr>last_heartbeat_at := Some now,
                                           claim_expires := Some new_expires\<rparr>) db;
                    db2 = upd_run_opt (current_run_id t)
                            (\<lambda>r. r\<lparr>run_last_heartbeat_at := Some now,
                                  run_claim_expires := Some new_expires\<rparr>) db1
                in Inr (True, emit_event now i (kind_value EvHEARTBEAT) (current_run_id t) [] db2)))"

section \<open>Expired claims and retries\<close>

definition tenant_matches :: "string option \<Rightarrow> Task \<Rightarrow> bool" where
  "tenant_matches ten t = (case ten of None \<Rightarrow> True | Some x \<Rightarrow> tenant t = Some x)"

definition expired :: "int \<Rightarrow> string option \<Rightarrow> Task \<Rightarrow> bool" where
  "expired now ten t \<longleftrightarrow>
     status t \<in> {status_value RUNNING, status_value BLOCKED} \<and> status t \<noteq> status_value DANGLING \<and>
     col_le (claim_expires t) now \<and> tenant_matches ten t"

definition release_fields :: "int \<Rightarrow> nat \<Rightarrow> Task \<Rightarrow> Task" where
  "release_fields now failures r =
     r\<lparr>status := status_value FAILED, completed_at := Some now, consecutive_failures := failures,
       last_failure_error := Some ''Claim TTL expired'', claim_lock := None, claim_expires := None,
       worker_pid := None, current_run_id := None\<rparr>"

text \<open>One pass of the loop, on a row of the result set read before the loop.\<close>

definition release_one :: "int \<Rightarrow> Task \<Rightarrow> task_db \<Rightarrow> task_db" where
  "release_one now t db =
     (let failures = Suc (consecutive_failures t);
          db1 = upd_run_opt (current_run_id t)
                  (\<lambda>r. r\<lparr>run_status := run_status_value RunTIMED_OUT, run_ended_at := Some now,
                        outcome := Some ''timed_out''\<rparr>) db;
          db2 = upd_task (tid t) (release_fields now failures) db1;
          pl = [(''reason'', JStr ''claim_ttl_expired''), (''failures'', JInt (int failures))]
      in emit_event now (tid t) (kind_value EvFAILED) (current_run_id t) pl
           (emit_event now (tid t) ''released'' (current_run_id t) pl db2))"

definition release_expired_claims :: "int \<Rightarrow> string option \<Rightarrow> nat store_op" where
  "release_expired_claims now ten =
     tx (\<lambda>db. let rows = filter (expired now ten) (tasks db)
              in Inr (length rows, fold (release_one now) rows db))"

definition retryable :: "string option \<Rightarrow> Task \<Rightarrow> bool" where
  "retryable ten t \<longleftrightarrow>
     status t = status_value FAILED \<and>
     int (consecutive_failures t) \<le> (case max_retries t of None \<Rightarrow> DEFAULT_MAX_RETRIES | Some m \<Rightarrow> m) \<and>
     consecutive_failures t > 0 \<and> tenant_matches ten t"

definition promote_one :: "int \<Rightarrow> Task \<Rightarrow> task_db \<Rightarrow> task_db" where
  "promote_one now t db =
     (let db1 = insert_run (TaskRun_default\<lparr>run_task := tid t,
                  run_status := run_status_value RunRUNNING, run_started_at := now\<rparr>) db;
          rid = run_seq db1;
          db2 = upd_task (tid t) (\<lambda>r. r\<lparr>status := status_value READY, claim_lock := None,
                  claim_expires := None, current_run_id := Some rid, worker_pid := None\<rparr>) db1
      in emit_event now (tid t) (kind_value EvDEPENDENCY_PROMOTED) None
           [(''from'', JStr ''failed''), (''to'', JStr ''ready''), (''reason'', JStr ''retry'')] db2)"

definition promote_retryable_tasks :: "int \<Rightarrow> string option \<Rightarrow> nat store_op" where
  "promote_retryable_tasks now ten =
     tx (\<lambda>db. let rows = filter (retryable ten) (tasks db)
              in Inr (length rows, fold (promote_one now) rows db))"

definition get_ready_in_parallel_group ::
  "string \<Rightarrow> string option \<Rightarrow> string option \<Rightarrow> task_db \<Rightarrow> Task list" where
  "get_ready_in_parallel_group g ten excl db =
     filter (\<lambda>t. status t = status_value READY \<and> parallel_group t = Some g \<and> tenant_matches ten t \<and>
                 (case excl of None \<Rightarrow> True | Some x \<Rightarrow> tid t \<noteq> x)) (tasks db)"

section \<open>Comments, events and runs\<close>

definition add_comment :: "int \<Rightarrow> string \<Rightarrow> string \<Rightarrow> string \<Rightarrow> TaskComment store_op" where
  "add_comment now i who text =
     tx (\<lambda>db. case find_task db i of
           None \<Rightarrow> Inl (TaskNotFound i)
         | Some t \<Rightarrow>
             (let c = \<lparr>comment_id = Suc (comment_seq db), comment_task = i, author = who,
                       comment_body = text, comment_at = now\<rparr>;
                  db1 = db\<lparr>task_comments := task_comments db @ [c],
                           comment_seq := Suc (comment_seq db)\<rparr>
              in Inr (c, emit_event now i (kind_value EvCOMMENTED) None [(''author'', JStr who)] db1)))"

definition get_comments :: "string \<Rightarrow> task_db \<Rightarrow> TaskComment list" where
  "get_comments i db = sort_key comment_at (filter (\<lambda>c. comment_task c = i) (task_comments db))"

definition get_events :: "string \<Rightarrow> int \<Rightarrow> task_db \<Rightarrow> TaskEvent list" where
  "get_events i lim db =
     limit_offset lim 0 (order_desc event_id (filter (\<lambda>e. event_task e = i) (task_events db)))"

definition get_runs :: "string \<Rightarrow> task_db \<Rightarrow> TaskRun list" where
  "get_runs i db = order_desc run_id (filter (\<lambda>r. run_task r = i) (task_runs db))"

section \<open>Dependencies\<close>

definition add_dependency :: "int \<Rightarrow> string \<Rightarrow> string \<Rightarrow> string option \<Rightarrow> unit store_op" where
  "add_dependency now i p cond =
     tx (\<lambda>db. case find_task db i of
           None \<Rightarrow> Inl (TaskNotFound i)
         | Some _ \<Rightarrow>
             (case find_task db p of
                None \<Rightarrow> Inl (ParentNotFound p)
              | Some _ \<Rightarrow>
                  if i = p then Inl SelfLink
                  else if detect_cycle db i p then Inl (WouldCycle p)
                  else if link_exists db p i
                  then Inr ((), resolve_dependencies now i
                         (db\<lparr>task_links := sql_update (\<lambda>l. parent_id l = p \<and> child_id l = i)
                                            (\<lambda>l. l\<lparr>condition := cond\<rparr>) (task_links db)\<rparr>))
                  else (case insert_link p i cond db of
                          Inl e \<Rightarrow> Inl e
                        | Inr db' \<Rightarrow> Inr ((), resolve_dependencies now i db'))))"

definition remove_dependency :: "int \<Rightarrow> string \<Rightarrow> string \<Rightarrow> bool store_op" where
  "remove_dependency now i p =
     tx (\<lambda>db. let here = (\<lambda>l. parent_id l = p \<and> child_id l = i);
                  removed = sql_count here (task_links db) > 0;
                  db1 = db\<lparr>task_links := sql_delete here (task_links db)\<rparr>
              in Inr (removed, if removed then resolve_dependencies now i db1 else db1))"

section \<open>Statistics and dispatcher helpers\<close>

definition stats :: "string option \<Rightarrow> task_db \<Rightarrow> nat \<times> (string \<times> nat) list" where
  "stats ten db =
     (let rows = filter (\<lambda>t. opt_true ten \<longrightarrow> tenant t = ten) (tasks db) in
      (length rows,
       map (\<lambda>s. (s, sql_count (\<lambda>t. status t = s) rows)) (sort (remdups (map status rows)))))"

text \<open>The group of the tasks without a tenant and the group of the empty tenant share a key.\<close>

definition stats_by_tenant :: "task_db \<Rightarrow> nat \<times> (string \<times> nat) list" where
  "stats_by_tenant db =
     (let groups = map (\<lambda>g. (g, sql_count (\<lambda>t. tenant t = g) (tasks db)))
                     (sort (remdups (map tenant (tasks db)))) in
      fold (\<lambda>(g, n) (total, ts). (total + n, dict_put (case g of None \<Rightarrow> [] | Some x \<Rightarrow> x) n ts))
        groups (0, []))"

definition update_workspace_path :: "string \<Rightarrow> string \<Rightarrow> unit store_op" where
  "update_workspace_path i path =
     tx (\<lambda>db. Inr ((), upd_task i (\<lambda>r. r\<lparr>workspace_path := Some path\<rparr>) db))"

definition set_worker_pid :: "string \<Rightarrow> int \<Rightarrow> unit store_op" where
  "set_worker_pid i pid = tx (\<lambda>db. Inr ((), upd_task i (\<lambda>r. r\<lparr>worker_pid := Some pid\<rparr>) db))"

end
