(* ===== verification/StoreInvariant.thy ===== *)
theory StoreInvariant
  imports TaskStore
begin

text \<open>
  What every operation of \<open>TaskStore\<close> keeps: \<open>db_ok\<close>, the integrity of the database, and
  \<open>advances\<close>, the promise that a task never disappears and that its status only moves along
  edges of the state machine. One preservation lemma per table write comes first, then one per
  operation, then the public calls as a data type and the interface \<open>guarded_store\<close> that lifts
  the two facts to any sequence of calls.
\<close>

section \<open>The invariant\<close>

text \<open>A row is consistent with the runs and with its own status.\<close>

definition run_ref_ok :: "TaskRun list \<Rightarrow> Task \<Rightarrow> bool" where
  "run_ref_ok rs t \<longleftrightarrow>
     (\<forall>n \<in> set_option (current_run_id t). (n, tid t) \<in> (\<lambda>r. (run_id r, run_task r)) ` set rs)"

definition row_ok :: "Task \<Rightarrow> bool" where
  "row_ok t \<longleftrightarrow> known_status (status t) \<and>
     (status t \<in> {status_value COMPLETED, status_value FAILED} \<longrightarrow> completed_at t \<noteq> None) \<and>
     (status t = status_value FAILED \<longrightarrow> consecutive_failures t > 0) \<and>
     (status t = status_value COMPLETED \<longrightarrow> consecutive_failures t = 0)"

definition ids_ok :: "task_db \<Rightarrow> bool" where
  "ids_ok db \<longleftrightarrow> distinct (map tid (tasks db))"

definition rows_ok :: "task_db \<Rightarrow> bool" where
  "rows_ok db \<longleftrightarrow> (\<forall>t \<in> set (tasks db). row_ok t \<and> run_ref_ok (task_runs db) t)"

definition runs_ok :: "task_db \<Rightarrow> bool" where
  "runs_ok db \<longleftrightarrow> distinct (map run_id (task_runs db)) \<and>
     (\<forall>r \<in> set (task_runs db). 0 < run_id r \<and> run_id r \<le> run_seq db)"

definition links_ok :: "task_db \<Rightarrow> bool" where
  "links_ok db \<longleftrightarrow> distinct (child_edges db) \<and> acyclic (dag db) \<and>
     Field (dag db) \<subseteq> tid ` set (tasks db)"

definition db_ok :: "task_db \<Rightarrow> bool" where
  "db_ok db \<longleftrightarrow> ids_ok db \<and> rows_ok db \<and> runs_ok db \<and> links_ok db"

lemmas db_ok_defs = db_ok_def ids_ok_def rows_ok_def runs_ok_def links_ok_def

lemma find_task_row: "find_task db i = Some t \<Longrightarrow> t \<in> set (tasks db) \<and> tid t = i"
  by (auto simp: find_task_def dest: row_by_mem row_by_key)

lemma find_task_of_row: "ids_ok db \<Longrightarrow> t \<in> set (tasks db) \<Longrightarrow> find_task db (tid t) = Some t"
  by (simp add: find_task_def ids_ok_def row_by_distinct)

lemma find_task_None: "find_task db i = None \<longleftrightarrow> i \<notin> tid ` set (tasks db)"
  by (simp add: find_task_def row_by_None_iff)

lemma status_of_Some_iff: "status_of db i = Some s \<longleftrightarrow> (\<exists>t. find_task db i = Some t \<and> status t = s)"
  by (auto simp: status_of_def)

lemma db_ok_empty: "db_ok empty_db"
  by (simp add: db_ok_defs empty_db_def child_edges_def dag_def wf_acyclic)

section \<open>Progress along the state machine\<close>

definition advances :: "task_db \<Rightarrow> task_db \<Rightarrow> bool" where
  "advances db db' \<longleftrightarrow>
     (\<forall>i s. status_of db i = Some s \<longrightarrow> (\<exists>s'. status_of db' i = Some s' \<and> status_path s s'))"

lemma advances_refl [simp, intro]: "advances db db"
  by (simp add: advances_def)

lemma advances_trans: "advances a b \<Longrightarrow> advances b c \<Longrightarrow> advances a c"
  unfolding advances_def by (meson rtranclp_trans)

lemma advances_same: "(\<And>i. status_of db' i = status_of db i) \<Longrightarrow> advances db db'"
  by (simp add: advances_def)

lemma advancesD: "advances db db' \<Longrightarrow> status_of db i = Some s
    \<Longrightarrow> \<exists>s'. status_of db' i = Some s' \<and> status_path s s'"
  by (simp add: advances_def)

section \<open>Writes to single rows\<close>

lemma db_ok_emit_event [frame_simps]: "db_ok (emit_event now i k run pl db) = db_ok db"
  by (simp add: db_ok_defs frame_simps emit_event_def dag_def child_edges_def)

lemma status_of_emit_event [frame_simps]:
  "status_of (emit_event now i k run pl db) j = status_of db j"
  "status_of (upd_run_opt m g db) j = status_of db j"
  "status_of (insert_run r db) j = status_of db j"
  by (simp_all add: status_of_def frame_simps)

lemma status_of_upd_task:
  assumes "\<And>r. tid (f r) = tid r"
  shows "status_of (upd_task i f db) j
         = (if j = i then map_option (\<lambda>t. status (f t)) (find_task db i) else status_of db j)"
  using assms by (auto simp: status_of_def row_simps option.map_comp comp_def)

lemma advances_upd_task:
  assumes "\<And>r. tid (f r) = tid r"
    and "\<And>t. find_task db i = Some t \<Longrightarrow> status_path (status t) (status (f t))"
  shows "advances db (upd_task i f db)"
  using assms by (auto simp: advances_def status_of_upd_task status_of_Some_iff)

lemma tids_upd_task: "(\<And>r. tid (f r) = tid r) \<Longrightarrow> map tid (tasks (upd_task i f db)) = map tid (tasks db)"
  by (simp add: upd_task_def map_sql_update)

lemma db_ok_upd_task:
  assumes ok: "db_ok db" and tid: "\<And>r. tid (f r) = tid r"
    and row: "\<And>t. find_task db i = Some t \<Longrightarrow> row_ok t \<Longrightarrow> run_ref_ok (task_runs db) t \<Longrightarrow>
                row_ok (f t) \<and> run_ref_ok (task_runs db) (f t)"
  shows "db_ok (upd_task i f db)"
proof -
  note tids = tids_upd_task [of f i db, OF tid]
  from tids have ids: "tid ` set (tasks (upd_task i f db)) = tid ` set (tasks db)"
    by (metis set_map)
  have "ids_ok (upd_task i f db)" "runs_ok (upd_task i f db)" "links_ok (upd_task i f db)"
    using ok tids ids by (simp_all add: db_ok_defs frame_simps child_edges_def)
  moreover have "rows_ok (upd_task i f db)"
    unfolding rows_ok_def
  proof
    fix t' assume "t' \<in> set (tasks (upd_task i f db))"
    then obtain t where t: "t \<in> set (tasks db)" "t' = (if tid t = i then f t else t)"
      by (auto simp: upd_task_def set_sql_update)
    moreover from ok t have "find_task db (tid t) = Some t"
      by (simp add: db_ok_def find_task_of_row)
    ultimately show "row_ok t' \<and> run_ref_ok (task_runs (upd_task i f db)) t'"
      using ok row [of t] by (auto simp: db_ok_def rows_ok_def frame_simps)
  qed
  ultimately show ?thesis
    by (simp add: db_ok_def)
qed

lemma runs_upd_run_opt:
  assumes "\<And>r. run_id (g r) = run_id r" and "\<And>r. run_task (g r) = run_task r"
  shows "map (\<lambda>r. (run_id r, run_task r)) (task_runs (upd_run_opt m g db))
         = map (\<lambda>r. (run_id r, run_task r)) (task_runs db)"
    and "map run_id (task_runs (upd_run_opt m g db)) = map run_id (task_runs db)"
  using assms by (simp_all add: upd_run_opt_def upd_run_def map_sql_update split: option.split)

lemma db_ok_upd_run_opt:
  assumes "db_ok db" and run: "\<And>r. run_id (g r) = run_id r" and task: "\<And>r. run_task (g r) = run_task r"
  shows "db_ok (upd_run_opt m g db)"
proof -
  note runs = runs_upd_run_opt [of g m db, OF run task]
  have ids: "run_id ` set (task_runs (upd_run_opt m g db)) = run_id ` set (task_runs db)"
    using runs(2) by (metis set_map)
  have refs: "(\<lambda>r. (run_id r, run_task r)) ` set (task_runs (upd_run_opt m g db))
      = (\<lambda>r. (run_id r, run_task r)) ` set (task_runs db)"
    using runs(1) by (metis set_map)
  have all: "(\<forall>r \<in> set rs. 0 < run_id r \<and> run_id r \<le> n)
      \<longleftrightarrow> (\<forall>k \<in> run_id ` set rs. 0 < k \<and> k \<le> n)" for rs n
    by simp
  have "runs_ok (upd_run_opt m g db) = runs_ok db"
    unfolding runs_ok_def all runs(2) ids by (simp add: frame_simps)
  moreover have "rows_ok (upd_run_opt m g db) = rows_ok db"
    unfolding rows_ok_def run_ref_ok_def refs by (simp add: frame_simps)
  ultimately show ?thesis
    using assms(1) by (simp add: db_ok_def ids_ok_def links_ok_def frame_simps child_edges_def)
qed

lemma db_ok_insert_run:
  assumes "db_ok db" shows "db_ok (insert_run r db)"
  using assms
  by (fastforce simp: db_ok_defs insert_run_def run_ref_ok_def dag_def child_edges_def
      split: option.splits)

lemma run_ref_ok_insert_run:
  "run_task r = tid t \<Longrightarrow> current_run_id t = Some (Suc (run_seq db))
    \<Longrightarrow> run_ref_ok (task_runs (insert_run r db)) t"
  by (simp add: run_ref_ok_def insert_run_def)

lemma run_seq_insert_run [simp]: "run_seq (insert_run r db) = Suc (run_seq db)"
  by (simp add: insert_run_def)

section \<open>One step keeps the invariant and advances\<close>

definition step_ok :: "task_db \<Rightarrow> task_db \<Rightarrow> bool" where
  "step_ok db db' \<longleftrightarrow> (db_ok db \<longrightarrow> db_ok db' \<and> advances db db')"

lemma step_ok_refl [simp, intro]: "step_ok db db"
  by (simp add: step_ok_def)

lemma step_ok_trans: "step_ok a b \<Longrightarrow> step_ok b c \<Longrightarrow> step_ok a c"
  unfolding step_ok_def using advances_trans by blast

lemma step_okI: "(db_ok db \<Longrightarrow> db_ok db') \<Longrightarrow> (db_ok db \<Longrightarrow> advances db db') \<Longrightarrow> step_ok db db'"
  by (simp add: step_ok_def)

lemma advances_frame [frame_simps]:
  "advances db (emit_event now i k run pl db') = advances db db'"
  "advances db (upd_run_opt m g db') = advances db db'"
  "advances db (insert_run r db') = advances db db'"
  by (simp_all add: advances_def frame_simps)

lemma step_ok_emit_event [simp]: "step_ok db (emit_event now i k run pl db') = step_ok db db'"
  by (simp add: step_ok_def frame_simps)

lemma step_ok_insert_run: "step_ok db (insert_run r db)"
  by (simp add: step_ok_def db_ok_insert_run frame_simps)

lemma step_ok_upd_run_opt:
  "(\<And>r. run_id (g r) = run_id r) \<Longrightarrow> (\<And>r. run_task (g r) = run_task r)
    \<Longrightarrow> step_ok db (upd_run_opt m g db)"
  by (simp add: step_ok_def db_ok_upd_run_opt frame_simps)

lemma step_ok_upd_task:
  assumes "\<And>r. tid (f r) = tid r"
    and "\<And>t. find_task db i = Some t \<Longrightarrow> row_ok t \<Longrightarrow> run_ref_ok (task_runs db) t \<Longrightarrow>
           row_ok (f t) \<and> run_ref_ok (task_runs db) (f t) \<and> status_path (status t) (status (f t))"
  shows "step_ok db (upd_task i f db)"
proof (rule step_okI)
  assume ok: "db_ok db"
  then have rows: "row_ok t \<and> run_ref_ok (task_runs db) t" if "find_task db i = Some t" for t
    using that find_task_row by (auto simp: db_ok_def rows_ok_def)
  show "db_ok (upd_task i f db)"
    using ok assms by (intro db_ok_upd_task) blast+
  show "advances db (upd_task i f db)"
    using assms rows by (intro advances_upd_task) blast+
qed

text \<open>An update of fields the invariant does not read.\<close>

lemma step_ok_upd_task_frame:
  assumes "\<And>r. tid (f r) = tid r" "\<And>r. status (f r) = status r"
    "\<And>r. completed_at (f r) = completed_at r" "\<And>r. current_run_id (f r) = current_run_id r"
    "\<And>r. consecutive_failures (f r) = consecutive_failures r"
  shows "step_ok db (upd_task i f db)"
  using assms by (intro step_ok_upd_task) (auto simp: row_ok_def run_ref_ok_def)

lemma step_ok_fold: "(\<And>x db. step_ok db (f x db)) \<Longrightarrow> step_ok db (fold f xs db)"
  by (rule fold_relation) (auto intro: step_ok_trans)

lemma step_ok_tx: "(\<And>a db'. bd db = Inr (a, db') \<Longrightarrow> step_ok db db') \<Longrightarrow> step_ok db (snd (tx bd db))"
  by (rule tx_state) auto

lemma status_edge_path [intro]: "edge a b \<Longrightarrow> status_path a b"
  by (rule r_into_rtranclp)

lemma step_ok_set_status:
  assumes "find_task db i = Some t" "status t = status_value s" "s' \<in> set (TRANSITIONS s)"
    "s' \<in> {TODO, READY}"
  shows "step_ok db (upd_task i (set_status s') db)"
  using assms by (intro step_ok_upd_task) (auto simp: row_ok_def run_ref_ok_def set_status_def)

lemma step_ok_resolve: "step_ok db (resolve_dependencies now i db)"
  by (auto simp: resolve_dependencies_def Let_def intro!: step_ok_set_status split: option.split)

section \<open>The operations\<close>

lemma transition_fields_simps [simp]:
  "tid (transition_fields now t new res retry r) = tid r"
  "status (transition_fields now t new res retry r) = new"
  "current_run_id (transition_fields now t new res retry r) = current_run_id r"
  by (simp_all add: transition_fields_def Let_def)

lemma row_ok_transition_fields:
  "known_status new \<Longrightarrow> row_ok (transition_fields now t new res retry r)"
  by (auto simp: row_ok_def transition_fields_def Let_def)

lemma end_run_simps [simp]:
  "run_id (end_run now new summ meta res r) = run_id r"
  "run_task (end_run now new summ meta res r) = run_task r"
  by (simp_all add: end_run_def)

lemma step_ok_apply_transition:
  assumes "find_task db (tid t) = Some t" and edge: "edge (status t) new"
  shows "step_ok db (apply_transition now t new res summ meta retry k db)"
proof -
  define db1 where "db1 = (if new \<in> {status_value COMPLETED, status_value FAILED}
    then upd_run_opt (current_run_id t) (end_run now new summ meta res) db else db)"
  have 1: "step_ok db db1"
    by (simp add: db1_def step_ok_upd_run_opt)
  have "find_task db1 (tid t) = Some t"
    using assms(1) by (simp add: db1_def frame_simps)
  then have 2: "step_ok db1 (upd_task (tid t) (transition_fields now t new res retry) db1)"
    using edge by (intro step_ok_upd_task)
      (auto simp: run_ref_ok_def row_ok_transition_fields edge_known)
  note 12 = step_ok_trans [OF 1 2]
  then show ?thesis
    unfolding apply_transition_def Let_def db1_def [symmetric]
    by (auto intro!: step_ok_trans [OF _ step_ok_fold] step_ok_resolve)
qed

lemma transition_body_InrD:
  assumes "transition_body now i new lock res summ meta db = Inr (a, db')"
  obtains t retry k where "find_task db i = Some t" "tid t = i" "edge (status t) new"
    "transition_kind (status t) new = Inr k"
    "db' = apply_transition now t new res summ meta retry k db"
  using assms find_task_row [of db i]
  by (auto simp: transition_body_def validate_cases split: option.splits sum.splits if_splits)

lemma step_ok_update_task_status:
  "step_ok db (snd (update_task_status now i new lock res summ meta db))"
proof -
  have "snd (update_task_status now i new lock res summ meta db)
        = snd (tx (transition_body now i new lock res summ meta) db)"
    by (simp add: update_task_status_def split: prod.split sum.split)
  also have "step_ok db \<dots>"
    by (rule step_ok_tx) (auto elim!: transition_body_InrD intro: step_ok_apply_transition)
  finally show ?thesis .
qed

lemma step_ok_delete_task: "step_ok db (snd (delete_task now i db))"
  using step_ok_update_task_status [of db now i "status_value ARCHIVED" None None None "[]"]
  by (cases "update_task_status now i (status_value ARCHIVED) None None None [] db")
    (auto simp: delete_task_def split: sum.split)

lemma step_ok_batch_loop:
  assumes "\<And>i db. step_ok db (snd (f i db))"
  shows "step_ok db (snd (batch_loop f is n failed db))"
  using assms
proof (induction "is" arbitrary: n failed db)
  case Nil
  then show ?case by simp
next
  case (Cons i "is")
  have head: "step_ok db (snd (f i db))"
    using Cons.prems by blast
  have rest: "step_ok (snd (f i db)) (snd (batch_loop f is m fl (snd (f i db))))" for m fl
    using Cons by blast
  from step_ok_trans [OF head rest] head show ?case
    by (cases "f i db") (auto split: sum.split error_class.split)
qed

lemma step_ok_batch_update_status: "step_ok db (snd (batch_update_status now is new db))"
proof -
  have "step_ok db (snd (case update_task_status now i new None None None [] db of
      (Inl e, db') \<Rightarrow> (Inl e, db') | (Inr _, db') \<Rightarrow> (Inr True, db')))" for i db
    using step_ok_update_task_status [of db now i new None None None "[]"]
    by (cases "update_task_status now i new None None None [] db") (auto split: sum.split)
  then show ?thesis
    unfolding batch_update_status_def by (rule step_ok_batch_loop)
qed

lemma step_ok_batch_delete: "step_ok db (snd (batch_delete now is db))"
  unfolding batch_delete_def by (rule step_ok_batch_loop) (rule step_ok_delete_task)

lemma step_ok_update_task: "step_ok db (snd (update_task now i ti bo asg pr db))"
  unfolding update_task_def
  by (rule step_ok_tx)
    (auto simp: Let_def intro!: step_ok_upd_task_frame split: option.splits prod.splits if_splits)

subsection \<open>Creation and dependencies\<close>

lemma check_parents_exist_iff:
  "check_parents_exist db ss = Inr u \<longleftrightarrow> (\<forall>p \<in> fst ` set ss. find_task db p \<noteq> None)"
  by (induction db ss rule: check_parents_exist.induct) (auto split: option.split)

lemma insert_task_Inr:
  "insert_task t db = Inr db' \<longleftrightarrow> find_task db (tid t) = None \<and> db' = db\<lparr>tasks := tasks db @ [t]\<rparr>"
  by (auto simp: insert_task_def split: option.split)

lemma insert_link_Inr:
  "insert_link p c cond db = Inr db' \<longleftrightarrow> (p, c) \<notin> dag db \<and>
     db' = db\<lparr>task_links := task_links db @ [\<lparr>parent_id = p, child_id = c, condition = cond\<rparr>]\<rparr>"
  by (auto simp: insert_link_def dag_iff)

text \<open>The tables other than the links.\<close>

definition same_but_links :: "task_db \<Rightarrow> task_db \<Rightarrow> bool" where
  "same_but_links a b \<longleftrightarrow>
     tasks b = tasks a \<and> task_runs b = task_runs a \<and> run_seq b = run_seq a"

lemma same_but_links_status: "same_but_links a b \<Longrightarrow> status_of b i = status_of a i"
  by (auto simp: same_but_links_def status_of_def find_task_def)

lemma same_but_links_ok:
  "same_but_links a b \<Longrightarrow> db_ok a \<Longrightarrow> links_ok b \<Longrightarrow> db_ok b"
  by (auto simp: same_but_links_def db_ok_def ids_ok_def rows_ok_def runs_ok_def)

lemma insert_link_props:
  assumes "insert_link p c cond db = Inr db'" and "distinct (child_edges db)"
  shows "same_but_links db db' \<and> distinct (child_edges db') \<and> dag db' = insert (p, c) (dag db)"
  using assms
  by (auto simp: insert_link_Inr same_but_links_def child_edges_def dag_def)

lemma insert_links_props:
  "insert_links c ss db = Inr db' \<Longrightarrow> distinct (child_edges db)
    \<Longrightarrow> same_but_links db db' \<and> distinct (child_edges db') \<and> dag db' = dag db \<union> fst ` set ss \<times> {c}"
proof (induction c ss db rule: insert_links.induct)
  case (1 c db)
  then show ?case by (auto simp: same_but_links_def)
next
  case (2 c p cond ss db)
  then obtain db1 where 1: "insert_link p c cond db = Inr db1" "insert_links c ss db1 = Inr db'"
    by (auto split: sum.splits)
  from insert_link_props [OF 1(1) 2(3)] have *: "same_but_links db db1"
    "distinct (child_edges db1)" "dag db1 = insert (p, c) (dag db)" by simp_all
  from 2(1) [OF 1 this(2)] * show ?case
    by (auto simp: same_but_links_def)
qed

lemma row_ok_new_task [simp]: "row_ok (new_task now i a b)" "run_ref_ok rs (new_task now i a b)"
  by (simp_all add: row_ok_def run_ref_ok_def new_task_def Task_default_def)

lemma create_body_InrD:
  assumes "create_body now t specs db = Inr (x, db')"
  obtains db2 where "find_task db (tid t) = None" "\<And>p. p \<in> fst ` set specs \<Longrightarrow> find_task db p \<noteq> None"
    "insert_links (tid t) specs (db\<lparr>tasks := tasks db @ [t]\<rparr>) = Inr db2" "x = t"
    "db' = emit_event now (tid t) (kind_value EvCREATED) None
       [(''assignee'', json_opt_str (assignee t)), (''parents'', JList (map spec_json specs)),
        (''status'', JStr (status t))] db2"
  using assms
  by (auto simp: create_body_def check_parents_exist_iff insert_task_Inr split: sum.splits)

lemma Field_sink: "Field (R \<union> P \<times> {n}) \<subseteq> insert n (Field R \<union> P)"
  by (auto simp: Field_def)

lemma step_ok_create_body:
  assumes "create_body now t specs db = Inr (x, db')" and row: "row_ok t" "run_ref_ok (task_runs db) t"
  shows "step_ok db db'"
proof (rule step_okI)
  let ?db1 = "db\<lparr>tasks := tasks db @ [t]\<rparr>"
  obtain db2 where new: "find_task db (tid t) = None"
    and ps: "\<And>p. p \<in> fst ` set specs \<Longrightarrow> find_task db p \<noteq> None"
    and ins: "insert_links (tid t) specs ?db1 = Inr db2"
    and db': "\<exists>k pl. db' = emit_event now (tid t) k None pl db2"
    using assms(1) by (elim create_body_InrD) blast
  assume ok: "db_ok db"
  then have edges: "distinct (child_edges ?db1)" and dag1: "dag ?db1 = dag db"
    by (simp_all add: db_ok_defs child_edges_def dag_def)
  note props = insert_links_props [OF ins edges]
  have fresh: "tid t \<notin> tid ` set (tasks db)" and pars: "fst ` set specs \<subseteq> tid ` set (tasks db)"
    using new ps find_task_None by blast+
  have fld: "Field (dag db) \<subseteq> tid ` set (tasks db)"
    using ok by (simp add: db_ok_def links_ok_def)
  have "acyclic (dag db2)"
    unfolding props [THEN conjunct2, THEN conjunct2] dag1
  proof (rule acyclic_into_sink)
    show "acyclic (dag db)" using ok by (simp add: db_ok_def links_ok_def)
    show "(tid t, y) \<notin> dag db" for y using fld fresh by (auto simp: Field_def)
    show "tid t \<notin> fst ` set specs" using pars fresh by blast
  qed
  moreover have "tasks db2 = tasks db @ [t]"
    using props by (auto simp: same_but_links_def)
  moreover have "Field (dag db2) \<subseteq> insert (tid t) (tid ` set (tasks db))"
  proof -
    have "Field (dag db2) \<subseteq> insert (tid t) (Field (dag db) \<union> fst ` set specs)"
      unfolding props [THEN conjunct2, THEN conjunct2] dag1 by (rule Field_sink)
    with fld pars show ?thesis by blast
  qed
  ultimately have "links_ok db2"
    using props by (simp add: links_ok_def)
  moreover have "db_ok ?db1"
    using ok row fresh fld by (auto simp: db_ok_defs child_edges_def dag_def)
  ultimately have "db_ok db2"
    using props same_but_links_ok by blast
  then show "db_ok db'"
    using db' by (auto simp: frame_simps)
  have "advances db ?db1"
    by (auto simp: advances_def status_of_def find_task_def row_by_append)
  then have "advances db db2"
    using same_but_links_status [of ?db1 db2] props by (simp add: advances_def)
  then show "advances db db'"
    using db' by (auto simp: frame_simps)
qed

lemma step_ok_create_task: "step_ok db (snd (create_task now i a db))"
proof (cases "parent_specs (arg_parents a)")
  case (Inl e)
  then show ?thesis by (simp add: create_task_def)
next
  case (Inr specs)
  then show ?thesis
    by (auto simp: create_task_def intro!: step_ok_tx step_ok_create_body)
qed

lemma step_ok_links:
  assumes "same_but_links db db'" and "db_ok db \<Longrightarrow> links_ok db'"
  shows "step_ok db db'"
proof (rule step_okI)
  show "db_ok db'" if "db_ok db"
    using assms(1) that assms(2) [OF that] by (rule same_but_links_ok)
  show "advances db db'"
    by (rule advances_same) (rule same_but_links_status [OF assms(1)])
qed

lemma links_ok_insert_link:
  assumes "insert_link p c cond db = Inr db'" "links_ok db" "\<not> detect_cycle db c p"
    "find_task db p = Some tp" "find_task db c = Some tc"
  shows "links_ok db'"
proof -
  have props: "same_but_links db db'" "distinct (child_edges db')" "dag db' = insert (p, c) (dag db)"
    using assms(1,2) insert_link_props by (auto simp: links_ok_def)
  moreover have "acyclic (dag db')"
    using assms(2,3) props by (simp add: links_ok_def detect_cycle_iff acyclic_insert_guarded)
  moreover have "{p, c} \<subseteq> tid ` set (tasks db)"
    using assms(4,5) find_task_row by fastforce
  ultimately show ?thesis
    using assms(2) by (auto simp: links_ok_def same_but_links_def)
qed

lemma step_ok_add_dependency: "step_ok db (snd (add_dependency now i p cond db))"
  unfolding add_dependency_def
proof (rule step_ok_tx, goal_cases)
  case (1 a db')
  then obtain ti tp where rows: "find_task db i = Some ti" "find_task db p = Some tp"
    and cyc: "\<not> detect_cycle db i p"
    by (auto split: option.splits if_splits)
  show ?case
  proof (cases "link_exists db p i")
    case True
    let ?db1 = "db\<lparr>task_links := sql_update (\<lambda>l. parent_id l = p \<and> child_id l = i)
                  (\<lambda>l. l\<lparr>condition := cond\<rparr>) (task_links db)\<rparr>"
    have "child_edges ?db1 = child_edges db"
      by (simp add: child_edges_def map_sql_update)
    then have "step_ok db ?db1"
      by (intro step_ok_links) (auto simp: same_but_links_def db_ok_def links_ok_def dag_def)
    with 1 rows cyc True show ?thesis
      by (auto intro: step_ok_trans step_ok_resolve split: if_splits)
  next
    case False
    with 1 rows cyc obtain db1 where ins: "insert_link p i cond db = Inr db1"
      and db': "db' = resolve_dependencies now i db1"
      by (auto split: if_splits sum.splits)
    have "step_ok db db1"
    proof (rule step_ok_links)
      show "same_but_links db db1"
        using ins by (simp add: same_but_links_def insert_link_Inr)
      show "links_ok db1" if "db_ok db"
        using that by (intro links_ok_insert_link [OF ins _ cyc rows(2,1)]) (simp add: db_ok_def)
    qed
    then show ?thesis
      unfolding db' by (rule step_ok_trans) (rule step_ok_resolve)
  qed
qed

lemma step_ok_remove_dependency: "step_ok db (snd (remove_dependency now i p db))"
proof -
  let ?here = "\<lambda>l. parent_id l = p \<and> child_id l = i"
  let ?db1 = "db\<lparr>task_links := sql_delete ?here (task_links db)\<rparr>"
  have "dag ?db1 \<subseteq> dag db"
    by (auto simp: dag_def child_edges_def)
  then have "links_ok db \<Longrightarrow> links_ok ?db1"
    using distinct_sql_delete [of "\<lambda>l. (parent_id l, child_id l)" "task_links db" ?here]
      mono_Field [of "dag ?db1" "dag db"]
    by (auto simp: links_ok_def child_edges_def intro: acyclic_subset)
  then have "step_ok db ?db1"
    by (intro step_ok_links) (auto simp: same_but_links_def db_ok_def)
  then show ?thesis
    unfolding remove_dependency_def
    by (intro step_ok_tx) (auto simp: Let_def intro: step_ok_trans step_ok_resolve split: if_splits)
qed

end
