(* ===== verification/ClaimInvariant.thy ===== *)
theory ClaimInvariant
  imports StoreInvariant
begin

text \<open>
  The claim, the heartbeat and the two sweeps of \<open>TaskStore\<close> keep the invariant. The sweeps read
  their rows first and then write one row at a time; \<open>fold_rows\<close> is the lemma about such loops.
\<close>

section \<open>Claim and heartbeat\<close>

lemma sql_update_cond:
  "sql_update (\<lambda>r. tid r = i \<and> Q r) f t = sql_update (\<lambda>r. tid r = i) (\<lambda>r. if Q r then f r else r) t"
  by (induction t) auto

lemma tasks_update_as_upd_task:
  "db\<lparr>tasks := sql_update (\<lambda>r. tid r = i \<and> Q r) f (tasks db)\<rparr>
   = upd_task i (\<lambda>r. if Q r then f r else r) db"
  by (simp add: upd_task_def sql_update_cond)

text \<open>The claim when a row matches: the writes, in terms of the row updates.\<close>

definition claimed_db :: "int \<Rightarrow> string \<Rightarrow> string \<Rightarrow> int \<Rightarrow> int \<Rightarrow> task_db \<Rightarrow> task_db" where
  "claimed_db now i worker pid ttl db =
     upd_task i (\<lambda>r. r\<lparr>current_run_id := Some (Suc (run_seq db))\<rparr>)
       (insert_run (claimed_run now i worker (lock_name worker pid) (now + ttl) pid)
         (upd_task i (\<lambda>r. if claimable now r then claim_fields now (lock_name worker pid) (now + ttl) pid r
                          else r) db))"

lemma claim_body_eq:
  "claim_body now i worker pid ttl db =
     (if \<exists>r \<in> set (tasks db). tid r = i \<and> claimable now r
      then Inr (True, emit_event now i (kind_value EvCLAIMED) (Some (Suc (run_seq db)))
             [(''worker_id'', JStr worker), (''pid'', JInt pid), (''lock'', JStr (lock_name worker pid))]
             (claimed_db now i worker pid ttl db))
      else Inr (False, db))"
proof -
  have "run_seq (upd_task i f db) = run_seq db" for f
    by (simp add: frame_simps)
  then show ?thesis
    by (simp add: claim_body_def claimed_db_def Let_def tasks_update_as_upd_task)
qed

lemma claim_fields_simps [simp]:
  "tid (claim_fields now l e pid r) = tid r"
  "status (claim_fields now l e pid r) = status_value RUNNING"
  "current_run_id (claim_fields now l e pid r) = current_run_id r"
  "claim_lock (claim_fields now l e pid r) = Some l"
  "claim_expires (claim_fields now l e pid r) = Some e"
  by (simp_all add: claim_fields_def)

lemma row_ok_running: "status r = status_value RUNNING \<Longrightarrow> row_ok r"
  by (simp add: row_ok_def)

lemma run_task_claimed_run [simp]: "run_task (claimed_run now i worker lock expires pid) = i"
  by (simp add: claimed_run_def)

lemma step_ok_claimed_db: "step_ok db (claimed_db now i worker pid ttl db)"
proof -
  let ?f = "\<lambda>r. if claimable now r then claim_fields now (lock_name worker pid) (now + ttl) pid r else r"
  let ?run = "claimed_run now i worker (lock_name worker pid) (now + ttl) pid"
  have 1: "step_ok db (upd_task i ?f db)"
    by (rule step_ok_upd_task) (auto simp: claimable_def run_ref_ok_def intro: row_ok_running)
  have 2: "step_ok (upd_task i ?f db) (insert_run ?run (upd_task i ?f db))" (is "step_ok _ ?db2")
    by (rule step_ok_insert_run)
  have 3: "step_ok ?db2 (upd_task i (\<lambda>r. r\<lparr>current_run_id := Some (Suc (run_seq db))\<rparr>) ?db2)"
    by (rule step_ok_upd_task)
      (auto simp: frame_simps row_ok_def dest!: find_task_row intro!: run_ref_ok_insert_run)
  show ?thesis
    unfolding claimed_db_def by (rule step_ok_trans [OF step_ok_trans [OF 1 2] 3])
qed

lemma step_ok_claim_task: "step_ok db (snd (claim_task now i worker pid ttl db))"
  by (simp add: claim_task_def tx_def claim_body_eq step_ok_claimed_db)

lemma step_ok_heartbeat: "step_ok db (snd (heartbeat now i lock db))"
  unfolding heartbeat_def
  by (rule step_ok_tx)
    (auto simp: Let_def split: option.splits if_splits
      intro!: step_ok_trans [OF step_ok_upd_task_frame step_ok_upd_run_opt])

section \<open>Loops over a result set\<close>

lemma find_task_fold_other:
  assumes "\<And>t db j. j \<noteq> tid t \<Longrightarrow> find_task (f t db) j = find_task db j"
  shows "j \<notin> tid ` set rows \<Longrightarrow> find_task (fold f rows db) j = find_task db j"
  using assms by (induction rows arbitrary: db) auto

lemma fold_rows_next:
  assumes frame: "\<And>t db j. j \<noteq> tid t \<Longrightarrow> find_task (f t db) j = find_task db j"
    and "distinct (map tid (u # rows))" "\<And>t. t \<in> set (u # rows) \<Longrightarrow> find_task db (tid t) = Some t"
    and t: "t \<in> set rows"
  shows "find_task (f u db) (tid t) = Some t"
proof -
  from assms(2) t have "tid t \<noteq> tid u"
    by (metis distinct.simps(2) image_eqI list.set_map list.simps(9))
  then have "find_task (f u db) (tid t) = find_task db (tid t)"
    by (rule frame)
  with assms(3) [of t] t show ?thesis by simp
qed

lemma fold_rows:
  assumes step: "\<And>t db. t \<in> S \<Longrightarrow> find_task db (tid t) = Some t \<Longrightarrow> step_ok db (f t db)"
    and frame: "\<And>t db j. j \<noteq> tid t \<Longrightarrow> find_task (f t db) j = find_task db j"
  shows "set rows \<subseteq> S \<Longrightarrow> distinct (map tid rows)
    \<Longrightarrow> (\<And>t. t \<in> set rows \<Longrightarrow> find_task db (tid t) = Some t) \<Longrightarrow> step_ok db (fold f rows db)"
proof (induction rows arbitrary: db)
  case Nil
  then show ?case by simp
next
  case (Cons u rows)
  have "step_ok db (f u db)"
    using Cons.prems(1) by (intro step Cons.prems(3)) simp_all
  moreover have "step_ok (f u db) (fold f rows (f u db))"
    using Cons.prems(1,2)
    by (intro Cons.IH fold_rows_next [OF frame Cons.prems(2,3)]) simp_all
  ultimately show ?case
    by (simp add: step_ok_trans)
qed

text \<open>What the loop leaves in the row it wrote, when one pass has the post-condition \<open>Q\<close>.\<close>

lemma fold_rows_post:
  assumes post: "\<And>t db. t \<in> S \<Longrightarrow> find_task db (tid t) = Some t \<Longrightarrow>
      \<exists>t'. find_task (f t db) (tid t) = Some t' \<and> Q t t'"
    and frame: "\<And>t db j. j \<noteq> tid t \<Longrightarrow> find_task (f t db) j = find_task db j"
  shows "set rows \<subseteq> S \<Longrightarrow> distinct (map tid rows)
    \<Longrightarrow> (\<And>t. t \<in> set rows \<Longrightarrow> find_task db (tid t) = Some t)
    \<Longrightarrow> t \<in> set rows \<Longrightarrow> \<exists>t'. find_task (fold f rows db) (tid t) = Some t' \<and> Q t t'"
proof (induction rows arbitrary: db)
  case Nil
  then show ?case by simp
next
  case (Cons u rows)
  show ?case
  proof (cases "t = u")
    case True
    then have "tid t \<notin> tid ` set rows"
      using Cons.prems(2) by simp
    then have "find_task (fold f rows (f u db)) (tid t) = find_task (f u db) (tid t)"
      by (intro find_task_fold_other frame)
    moreover have "\<exists>t'. find_task (f u db) (tid u) = Some t' \<and> Q u t'"
      using Cons.prems(1) by (intro post Cons.prems(3)) simp_all
    ultimately show ?thesis
      using True by simp
  next
    case False
    have "\<exists>t'. find_task (fold f rows (f u db)) (tid t) = Some t' \<and> Q t t'"
      using Cons.prems(1,2,4) False
      by (intro Cons.IH fold_rows_next [OF frame Cons.prems(2,3)]) simp_all
    then show ?thesis by simp
  qed
qed

lemma rows_of_filter:
  assumes "ids_ok db"
  shows "distinct (map tid (filter P (tasks db)))"
    and "t \<in> set (filter P (tasks db)) \<Longrightarrow> find_task db (tid t) = Some t"
  using assms by (auto simp: ids_ok_def distinct_map_filter find_task_of_row)

lemma step_ok_sweep:
  assumes step: "\<And>t db. P t \<Longrightarrow> find_task db (tid t) = Some t \<Longrightarrow> step_ok db (f t db)"
    and frame: "\<And>t db j. j \<noteq> tid t \<Longrightarrow> find_task (f t db) j = find_task db j"
  shows "step_ok db (fold f (filter P (tasks db)) db)"
proof (cases "db_ok db")
  case True
  then have "ids_ok db" by (simp add: db_ok_def)
  note rows = rows_of_filter [OF this]
  show ?thesis
    by (rule fold_rows [where S = "Collect P", OF step frame _ rows(1)]) (auto intro: rows(2))
next
  case False
  then show ?thesis by (simp add: step_ok_def)
qed

section \<open>The sweeps\<close>

lemma find_task_release_one:
  "find_task (release_one now t db) j =
     (if j = tid t
      then map_option (release_fields now (Suc (consecutive_failures t))) (find_task db j)
      else find_task db j)"
  by (cases "find_task db j")
    (auto simp: release_one_def Let_def frame_simps row_simps release_fields_def)

lemma release_fields_simps [simp]:
  "tid (release_fields now n r) = tid r"
  "status (release_fields now n r) = status_value FAILED"
  by (simp_all add: release_fields_def)

lemma step_ok_release_one:
  assumes "expired now ten t" "find_task db (tid t) = Some t"
  shows "step_ok db (release_one now t db)"
proof -
  let ?g = "\<lambda>r. r\<lparr>run_status := run_status_value RunTIMED_OUT, run_ended_at := Some now,
                  outcome := Some ''timed_out''\<rparr>"
  have 1: "step_ok db (upd_run_opt (current_run_id t) ?g db)" (is "step_ok _ ?db1")
    by (rule step_ok_upd_run_opt) simp_all
  have row: "row_ok (release_fields now (Suc n) r)" "run_ref_ok rs (release_fields now (Suc n) r)" for n r rs
    by (simp_all add: row_ok_def run_ref_ok_def release_fields_def)
  have "status_path (status t) (status_value FAILED)"
    using assms(1) by (auto simp: expired_def)
  then have "step_ok ?db1 (upd_task (tid t) (release_fields now (Suc (consecutive_failures t))) ?db1)"
    using assms(2) row by (intro step_ok_upd_task) (auto simp: frame_simps)
  with 1 show ?thesis
    by (auto simp: release_one_def Let_def intro: step_ok_trans)
qed

lemma step_ok_release_expired_claims: "step_ok db (snd (release_expired_claims now ten db))"
  unfolding release_expired_claims_def
  by (rule step_ok_tx)
    (auto simp: Let_def find_task_release_one intro!: step_ok_sweep step_ok_release_one)

lemma find_task_promote_one:
  "find_task (promote_one now t db) j =
     (if j = tid t
      then map_option (\<lambda>r. r\<lparr>status := status_value READY, claim_lock := None, claim_expires := None,
             current_run_id := Some (Suc (run_seq db)), worker_pid := None\<rparr>) (find_task db j)
      else find_task db j)"
  by (cases "find_task db j") (auto simp: promote_one_def Let_def frame_simps row_simps)

lemma step_ok_promote_one:
  assumes "retryable ten t" "find_task db (tid t) = Some t"
  shows "step_ok db (promote_one now t db)"
proof -
  let ?run = "TaskRun_default\<lparr>run_task := tid t, run_status := run_status_value RunRUNNING,
                run_started_at := now\<rparr>"
  have 1: "step_ok db (insert_run ?run db)"
    by (rule step_ok_insert_run)
  have "status_path (status t) (status_value READY)"
    using assms(1) by (auto simp: retryable_def)
  then have "step_ok (insert_run ?run db) (upd_task (tid t) (\<lambda>r. r\<lparr>status := status_value READY,
      claim_lock := None, claim_expires := None, current_run_id := Some (Suc (run_seq db)),
      worker_pid := None\<rparr>) (insert_run ?run db))"
    using assms(2)
    by (intro step_ok_upd_task)
      (auto simp: frame_simps row_ok_def intro!: run_ref_ok_insert_run)
  with 1 show ?thesis
    by (auto simp: promote_one_def Let_def intro: step_ok_trans)
qed

lemma step_ok_promote_retryable_tasks: "step_ok db (snd (promote_retryable_tasks now ten db))"
  unfolding promote_retryable_tasks_def
  by (rule step_ok_tx)
    (auto simp: Let_def find_task_promote_one intro!: step_ok_sweep step_ok_promote_one)

section \<open>Comments and dispatcher helpers\<close>

lemma step_ok_add_comment: "step_ok db (snd (add_comment now i who txt db))"
proof -
  have "step_ok db (db\<lparr>task_comments := cs, comment_seq := n\<rparr>)" for cs n
    by (auto simp: step_ok_def advances_def status_of_def find_task_def db_ok_defs
        child_edges_def dag_def)
  then show ?thesis
    unfolding add_comment_def by (intro step_ok_tx) (auto simp: Let_def split: option.splits)
qed

lemma step_ok_update_workspace_path: "step_ok db (snd (update_workspace_path i p db))"
  unfolding update_workspace_path_def
  by (rule step_ok_tx) (auto intro!: step_ok_upd_task_frame)

lemma step_ok_set_worker_pid: "step_ok db (snd (set_worker_pid i pid db))"
  unfolding set_worker_pid_def by (rule step_ok_tx) (auto intro!: step_ok_upd_task_frame)

end
