(* ===== verification/Interfaces.thy ===== *)
theory Interfaces
  imports Prelude
begin

text \<open>
  The contracts of stateful components: \<open>transition_system\<close>, a state with an invariant its calls
  keep, \<open>status_system\<close>, which adds objects whose status moves along the edges of a graph, and
  \<open>lease_system\<close>, in which an owner holds an object until a call that may end the lease. The task
  store and the file locks of shared workspaces are instances.
\<close>

locale transition_system =
  fixes exec :: "'c \<Rightarrow> 's \<Rightarrow> 's"
    and ok :: "'s \<Rightarrow> bool"
    and init :: "'s"
  assumes init_ok: "ok init"
    and exec_ok: "ok s \<Longrightarrow> ok (exec c s)"
begin

lemma run_ok: "ok s \<Longrightarrow> ok (fold exec cs s)"
  by (rule fold_invariant) (simp_all add: exec_ok)

lemma reach_ok: "ok (fold exec cs init)"
  by (rule run_ok) (rule init_ok)

end

locale status_system = transition_system exec ok init
  for exec :: "'c \<Rightarrow> 's \<Rightarrow> 's" and ok :: "'s \<Rightarrow> bool" and init :: "'s" +
  fixes st :: "'s \<Rightarrow> 'k \<Rightarrow> 'v option"
    and mv :: "'v \<Rightarrow> 'v \<Rightarrow> bool"
  assumes exec_moves: "ok s \<Longrightarrow> st s k = Some v \<Longrightarrow> \<exists>w. st (exec c s) k = Some w \<and> mv\<^sup>*\<^sup>* v w"
begin

lemma run_moves: "ok s \<Longrightarrow> st s k = Some v \<Longrightarrow> \<exists>w. st (fold exec cs s) k = Some w \<and> mv\<^sup>*\<^sup>* v w"
proof (induction cs arbitrary: s v)
  case Nil
  then show ?case by auto
next
  case (Cons c cs)
  from Cons.prems obtain u where u: "st (exec c s) k = Some u" "mv\<^sup>*\<^sup>* v u"
    using exec_moves by blast
  with Cons.IH [OF exec_ok [OF Cons.prems(1)] u(1)] show ?case
    by (auto intro: rtranclp_trans)
qed

lemma closed_status_stays:
  assumes "ok s" "st s k = Some v" "P v" and closed: "\<And>x y. P x \<Longrightarrow> mv x y \<Longrightarrow> P y"
  shows "\<exists>w. st (fold exec cs s) k = Some w \<and> P w"
proof -
  from run_moves [OF assms(1,2)] obtain w where w: "st (fold exec cs s) k = Some w" "mv\<^sup>*\<^sup>* v w"
    by blast
  from w(2) assms(3) have "P w"
    by (induction rule: rtranclp_induct) (auto intro: closed)
  with w show ?thesis by blast
qed

lemma final_status_stays:
  assumes "ok s" "st s k = Some v" "\<And>w. \<not> mv v w"
  shows "st (fold exec cs s) k = Some v"
  using closed_status_stays [OF assms(1,2), of "\<lambda>x. x = v" cs] assms(3) by auto

end

locale lease_system = transition_system exec ok init
  for exec :: "'c \<Rightarrow> 's \<Rightarrow> 's" and ok :: "'s \<Rightarrow> bool" and init :: "'s" +
  fixes held :: "'k \<Rightarrow> 'o \<Rightarrow> 's \<Rightarrow> bool"
    and spares :: "'k \<Rightarrow> 'o \<Rightarrow> 'c \<Rightarrow> bool"
  assumes exec_spares: "ok s \<Longrightarrow> held k w s \<Longrightarrow> spares k w c \<Longrightarrow> held k w (exec c s)"
begin

lemma run_spares:
  "ok s \<Longrightarrow> held k w s \<Longrightarrow> \<forall>c \<in> set cs. spares k w c \<Longrightarrow> held k w (fold exec cs s)"
  by (induction cs arbitrary: s) (auto intro: exec_ok exec_spares)

end

end
