(* ===== verification/StoreCalls.thy ===== *)
theory StoreCalls
  imports ClaimInvariant Interfaces
begin

text \<open>
  The public methods of \<open>TaskStore\<close> that write, as a data type of calls, the databases a
  sequence of calls can reach. The store is an instance of the interfaces \<open>transition_system\<close> and
  \<open>status_system\<close>; the lemmas about runs of calls come from there.
\<close>

section \<open>The calls\<close>

datatype store_call =
    CreateTask string CreateArgs
  | UpdateTask string "string option" "string option" "string option" "int option"
  | UpdateStatus string string "string option" "string option" "string option" "(string \<times> json) list"
  | DeleteTask string
  | BatchUpdateStatus "string list" string
  | BatchDelete "string list"
  | ClaimTask string string int int
  | Heartbeat string string
  | ReleaseExpired "string option"
  | PromoteRetryable "string option"
  | AddComment string string string
  | AddDependency string string "string option"
  | RemoveDependency string string
  | UpdateWorkspacePath string string
  | SetWorkerPid string int

definition void :: "(store_error + 'a) \<times> task_db \<Rightarrow> (store_error + unit) \<times> task_db" where
  "void r = (case fst r of Inl e \<Rightarrow> Inl e | Inr _ \<Rightarrow> Inr (), snd r)"

text \<open>A call at a time of the clock, with its result forgotten but not its exception.\<close>

primrec run_call :: "int \<Rightarrow> store_call \<Rightarrow> unit store_op" where
  "run_call now (CreateTask i a) db = void (create_task now i a db)"
| "run_call now (UpdateTask i ti bo asg pr) db = void (update_task now i ti bo asg pr db)"
| "run_call now (UpdateStatus i new lock res summ meta) db =
     void (update_task_status now i new lock res summ meta db)"
| "run_call now (DeleteTask i) db = void (delete_task now i db)"
| "run_call now (BatchUpdateStatus is new) db = void (batch_update_status now is new db)"
| "run_call now (BatchDelete is) db = void (batch_delete now is db)"
| "run_call now (ClaimTask i worker pid ttl) db = void (claim_task now i worker pid ttl db)"
| "run_call now (Heartbeat i lock) db = void (heartbeat now i lock db)"
| "run_call now (ReleaseExpired ten) db = void (release_expired_claims now ten db)"
| "run_call now (PromoteRetryable ten) db = void (promote_retryable_tasks now ten db)"
| "run_call now (AddComment i who txt) db = void (add_comment now i who txt db)"
| "run_call now (AddDependency i p cond) db = void (add_dependency now i p cond db)"
| "run_call now (RemoveDependency i p) db = void (remove_dependency now i p db)"
| "run_call now (UpdateWorkspacePath i p) db = void (update_workspace_path i p db)"
| "run_call now (SetWorkerPid i pid) db = void (set_worker_pid i pid db)"

definition exec_call :: "int \<times> store_call \<Rightarrow> task_db \<Rightarrow> task_db" where
  "exec_call c db = snd (run_call (fst c) (snd c) db)"

inductive reachable :: "task_db \<Rightarrow> bool" where
  initial: "reachable empty_db"
| call: "reachable db \<Longrightarrow> reachable (exec_call c db)"

lemma snd_void [simp]: "snd (void r) = snd r"
  by (simp add: void_def)

lemma fst_void_Inl [simp]: "fst (void r) = Inl e \<longleftrightarrow> fst r = Inl e"
  by (auto simp: void_def split: sum.split)

lemmas step_ok_operations =
  step_ok_create_task step_ok_update_task step_ok_update_task_status step_ok_delete_task
  step_ok_batch_update_status step_ok_batch_delete step_ok_claim_task step_ok_heartbeat
  step_ok_release_expired_claims step_ok_promote_retryable_tasks step_ok_add_comment
  step_ok_add_dependency step_ok_remove_dependency step_ok_update_workspace_path
  step_ok_set_worker_pid

lemma step_ok_exec_call: "step_ok db (exec_call c db)"
proof (cases c)
  case (Pair now x)
  show ?thesis
    unfolding Pair exec_call_def by (cases x) (simp_all add: step_ok_operations)
qed

lemma exec_call_ok: "db_ok db \<Longrightarrow> db_ok (exec_call c db)"
  using step_ok_exec_call by (simp add: step_ok_def)

lemma exec_call_moves: "db_ok db \<Longrightarrow> status_of db i = Some s
    \<Longrightarrow> \<exists>s'. status_of (exec_call c db) i = Some s' \<and> status_path s s'"
  using step_ok_exec_call [of db c] by (intro advancesD) (simp_all add: step_ok_def)

interpretation store: transition_system exec_call db_ok empty_db
  by unfold_locales (rule db_ok_empty, erule exec_call_ok)

interpretation machine: status_system exec_call db_ok empty_db status_of edge
  by unfold_locales (erule (1) exec_call_moves)

lemma reachable_iff_run: "reachable db \<longleftrightarrow> (\<exists>cs. db = fold exec_call cs empty_db)"
proof
  show "reachable db \<Longrightarrow> \<exists>cs. db = fold exec_call cs empty_db"
  proof (induction rule: reachable.induct)
    case initial
    show ?case by (rule exI [of _ "[]"]) simp
  next
    case (call db c)
    then obtain cs where "db = fold exec_call cs empty_db" by blast
    then show ?case
      by (intro exI [of _ "cs @ [c]"]) simp
  qed
  have "reachable (fold exec_call cs db0)" if "reachable db0" for cs db0
    using that by (rule fold_invariant) (rule reachable.call)
  then show "\<exists>cs. db = fold exec_call cs empty_db \<Longrightarrow> reachable db"
    using reachable.initial by blast
qed

section \<open>Properties of sequences of calls\<close>

definition demo_calls :: "(int \<times> store_call) list" where
  "demo_calls =
     [(1, CreateTask ''a'' (CreateArgs_default ''A'')),
      (2, CreateTask ''b'' ((CreateArgs_default ''B'')\<lparr>arg_parents := [ParentStr ''a'']\<rparr>)),
      (3, ClaimTask ''a'' ''w'' 7 900)]"

definition demo_db :: task_db where
  "demo_db = fold exec_call demo_calls empty_db"

lemma reachable_demo_db: "reachable demo_db"
  unfolding reachable_iff_run demo_db_def by blast

lemma demo_db_ok: "db_ok demo_db"
  unfolding demo_db_def by (rule store.reach_ok)

lemma demo_db_status:
  "status_of demo_db ''a'' = Some (status_value RUNNING)"
  "status_of demo_db ''b'' = Some (status_value TODO)"
  by code_simp+

text \<open>C1: Every database that any sequence of calls of the task store can produce is consistent:
  task ids are unique, every status is a state of the machine, finished tasks carry their finishing
  time and failure counter, run ids are unique and every task's current run exists and is its own,
  dependency links are unique, join existing tasks and form an acyclic graph.\<close>

theorem reachable_db_ok: "reachable db \<Longrightarrow> db_ok db"
  by (auto simp: reachable_iff_run intro: store.reach_ok)

theorem reachable_db_ok_witness: "db_ok (fold exec_call demo_calls empty_db) \<and> demo_calls \<noteq> []"
  using reachable_db_ok [OF reachable_demo_db] by (simp add: demo_db_def demo_calls_def)

text \<open>C2: Whatever calls follow, a task is never lost and its status only moves along transitions
  of the state machine.\<close>

theorem status_follows_machine:
  assumes "db_ok db" and "status_of db i = Some s"
  shows "\<exists>s'. status_of (fold exec_call cs db) i = Some s' \<and> edge\<^sup>*\<^sup>* s s'"
  using assms by (rule machine.run_moves)

theorem status_follows_machine_witness:
  "\<exists>s'. status_of (fold exec_call [(9, ReleaseExpired None), (2000, ReleaseExpired None)] demo_db) ''a'' = Some s'
     \<and> edge\<^sup>*\<^sup>* (status_value RUNNING) s'"
  by (rule status_follows_machine [OF demo_db_ok demo_db_status(1)])

text \<open>An archived task stays archived and a completed one can only become archived, whatever
  calls follow: no call reopens finished work.\<close>

theorem finished_tasks_stay_finished:
  assumes "db_ok db" and "status_of db i = Some s"
    and "s = status_value COMPLETED \<or> s = status_value ARCHIVED"
  shows "status_of (fold exec_call cs db) i = Some (status_value ARCHIVED)
    \<or> (s = status_value COMPLETED \<and> status_of (fold exec_call cs db) i = Some s)"
  using machine.run_moves [OF assms(1,2), of cs] assms(3)
  by (auto dest: archived_is_final completed_is_settled)

definition done_db :: task_db where
  "done_db = exec_call (4, UpdateStatus ''a'' (status_value COMPLETED) None None None []) demo_db"

lemma done_db_ok: "db_ok done_db"
  unfolding done_db_def by (rule exec_call_ok) (rule demo_db_ok)

lemma done_db_status: "status_of done_db ''a'' = Some (status_value COMPLETED)"
  "status_of done_db ''b'' = Some (status_value READY)"
  by code_simp+

theorem finished_tasks_stay_finished_witness:
  "status_of (fold exec_call [(5, DeleteTask ''a'')] done_db) ''a'' = Some (status_value ARCHIVED)
    \<or> (status_value COMPLETED = status_value COMPLETED \<and>
       status_of (fold exec_call [(5, DeleteTask ''a'')] done_db) ''a'' = Some (status_value COMPLETED))"
  by (rule finished_tasks_stay_finished [OF done_db_ok done_db_status(1)]) simp

text \<open>The status \<open>dangling\<close>, which is a member of the status enumeration, is never reached,
  and every attempt to set it through the store is rejected as an invalid transition.\<close>

theorem dangling_unreachable:
  assumes "reachable db"
  shows "status_of db i \<noteq> Some (status_value DANGLING)
    \<and> fst (update_task_status now i (status_value DANGLING) lock res summ meta db)
      = (case status_of db i of
           None \<Rightarrow> Inl (TaskNotFound i)
         | Some s \<Rightarrow> Inl (InvalidTransition s (status_value DANGLING)))"
proof
  have "db_ok db"
    using assms by (auto simp: reachable_iff_run intro: store.reach_ok)
  then show "status_of db i \<noteq> Some (status_value DANGLING)"
    by (auto simp: status_of_Some_iff db_ok_def rows_ok_def row_ok_def dest!: find_task_row)
  show "fst (update_task_status now i (status_value DANGLING) lock res summ meta db)
      = (case status_of db i of
           None \<Rightarrow> Inl (TaskNotFound i)
         | Some s \<Rightarrow> Inl (InvalidTransition s (status_value DANGLING)))"
    by (simp add: update_task_status_def tx_def transition_body_def validate_cases status_of_def
        no_edge_to_dangling split: option.split)
qed

theorem dangling_unreachable_witness:
  "status_of demo_db ''a'' \<noteq> Some (status_value DANGLING)
    \<and> fst (update_task_status 5 ''a'' (status_value DANGLING) None None None [] demo_db)
      = Inl (InvalidTransition (status_value RUNNING) (status_value DANGLING))"
  using dangling_unreachable [OF reachable_demo_db, of "''a''" 5 None None None "[]"]
  by (simp add: demo_db_status)

definition is_batch :: "store_call \<Rightarrow> bool" where
  "is_batch c = (case c of BatchUpdateStatus _ _ \<Rightarrow> True | BatchDelete _ \<Rightarrow> True | _ \<Rightarrow> False)"

lemma update_task_status_error:
  "fst (update_task_status now i new lock res summ meta db) = Inl e
    \<Longrightarrow> snd (update_task_status now i new lock res summ meta db) = db"
  by (auto simp: update_task_status_def tx_def split: sum.splits)

lemma create_task_error: "fst (create_task now i a db) = Inl e \<Longrightarrow> snd (create_task now i a db) = db"
  by (auto simp: create_task_def tx_def split: sum.splits)

lemma delete_task_error: "fst (delete_task now i db) = Inl e \<Longrightarrow> snd (delete_task now i db) = db"
  using update_task_status_error [of now i "status_value ARCHIVED" None None None "[]" db e]
  by (cases "update_task_status now i (status_value ARCHIVED) None None None [] db")
    (auto simp: delete_task_def split: sum.splits)

lemma claim_task_no_error: "fst (claim_task now i worker pid ttl db) \<noteq> Inl e"
  by (simp add: claim_task_def tx_def claim_body_eq)

text \<open>Every call except the two batches is atomic: when it raises, the database is as before.\<close>

theorem failed_call_rolls_back:
  assumes "\<not> is_batch c" and "fst (run_call now c db) = Inl e"
  shows "snd (run_call now c db) = db"
  using assms
  by (cases c)
    (auto simp: is_batch_def update_task_def heartbeat_def release_expired_claims_def
      promote_retryable_tasks_def add_comment_def add_dependency_def remove_dependency_def
      update_workspace_path_def set_worker_pid_def claim_task_no_error
      intro: tx_error_keeps_state update_task_status_error create_task_error delete_task_error)

theorem failed_call_rolls_back_witness:
  "snd (run_call 9 (AddDependency ''a'' ''b'' None) demo_db) = demo_db"
proof (rule failed_call_rolls_back)
  show "\<not> is_batch (AddDependency ''a'' ''b'' None)" by (simp add: is_batch_def)
  show "fst (run_call 9 (AddDependency ''a'' ''b'' None) demo_db) = Inl (WouldCycle ''b'')"
    by code_simp
qed

section \<open>A status update that goes through\<close>

lemma update_status_value:
  assumes "find_task db i = Some t" "edge (status t) new" "status t \<noteq> status_value RUNNING \<or> \<not> opt_true lock"
    and "new \<noteq> status_value FAILED" "transition_kind (status t) new = Inr k"
  shows "update_task_status now i new lock res summ meta db =
    (Inr (get_task i (apply_transition now t new res summ meta None k db)), apply_transition now t new res summ meta None k db)"
proof -
  have "validate_transition (status t) new = Inr True"
    using assms(2) by (simp add: validate_Inr_iff)
  then have "transition_body now i new lock res summ meta db = Inr ((), apply_transition now t new res summ meta None k db)"
    using assms by (auto simp: transition_body_def)
  then show ?thesis by (simp add: update_task_status_def tx_def)
qed

end
