(* ===== verification/Resolution.thy ===== *)
theory Resolution
  imports StoreCalls
begin

text \<open>
  Dependency resolution of the store, functionally: which rows it changes, that it leaves a task
  settled (ready if and only if its parents are done, when it is todo or ready), and that the
  loops which resolve the children of a task settle every one of them. Then the operations that
  end in a resolution: completing a task, adding and removing a dependency.
\<close>

section \<open>The effect of one resolution\<close>

lemma find_task_resolve:
  "find_task (resolve_dependencies now i db) j =
     (if j = i then map_option (\<lambda>t. t\<lparr>status := resolved_status db i (status t)\<rparr>) (find_task db i)
      else find_task db j)"
proof (cases "find_task db i")
  case None
  then show ?thesis by (simp add: resolve_dependencies_def Let_def)
next
  case (Some t)
  then show ?thesis
    by (auto simp: resolve_dependencies_def resolved_status_def row_simps frame_simps Let_def
        set_status_def option.map_ident)
qed

lemma ids_ok_resolve: "ids_ok db \<Longrightarrow> ids_ok (resolve_dependencies now i db)"
proof -
  have "map tid (tasks (resolve_dependencies now i db)) = map tid (tasks db)"
    by (auto simp: resolve_dependencies_def Let_def frame_simps tids_upd_task split: option.split)
  then show "ids_ok db \<Longrightarrow> ids_ok (resolve_dependencies now i db)"
    by (simp add: ids_ok_def)
qed

text \<open>The part of a task that the resolution of its children reads.\<close>

definition done_part :: "Task \<Rightarrow> bool \<times> string option" where
  "done_part t = (status t \<in> {status_value COMPLETED, status_value ARCHIVED}, result t)"

definition done_of :: "task_db \<Rightarrow> string \<Rightarrow> (bool \<times> string option) option" where
  "done_of db j = map_option done_part (find_task db j)"

definition link_satisfied :: "task_db \<Rightarrow> TaskLink \<Rightarrow> bool" where
  "link_satisfied db l =
     (case done_of db (parent_id l) of
        None \<Rightarrow> True
      | Some (fin, res) \<Rightarrow> fin \<and> (opt_true (condition l) \<longrightarrow> opt_true res \<and> res = condition l))"

text \<open>Whether every dependency of a task is fulfilled.\<close>

definition deps_done :: "task_db \<Rightarrow> string \<Rightarrow> bool" where
  "deps_done db c = list_all (link_satisfied db) (filter (\<lambda>l. child_id l = c) (task_links db))"

lemma set_parent_rows:
  "ids_ok db \<Longrightarrow> set (parent_rows db c) =
     {(status p, result p, condition l) | l p.
        l \<in> set (task_links db) \<and> child_id l = c \<and> find_task db (parent_id l) = Some p}"
proof -
  assume "ids_ok db"
  then have "p \<in> set (tasks db) \<and> tid p = j \<longleftrightarrow> find_task db j = Some p" for p j
    using find_task_row find_task_of_row by blast
  then show ?thesis
    by (auto simp: parent_rows_def)
qed

lemma link_satisfied_iff:
  "link_satisfied db l \<longleftrightarrow>
     (\<forall>p. find_task db (parent_id l) = Some p \<longrightarrow> row_satisfied (status p, result p, condition l))"
  by (cases "find_task db (parent_id l)")
    (simp_all add: link_satisfied_def done_of_def done_part_def row_satisfied_def)

lemma all_satisfied_deps_done:
  assumes "ids_ok db" shows "all_satisfied (parent_rows db c) = deps_done db c"
proof -
  have "all_satisfied (parent_rows db c) \<longleftrightarrow> (\<forall>l \<in> set (task_links db). child_id l = c \<longrightarrow>
      (\<forall>p. find_task db (parent_id l) = Some p \<longrightarrow> row_satisfied (status p, result p, condition l)))"
    unfolding all_satisfied_iff set_parent_rows [OF assms] by blast
  then show ?thesis
    by (auto simp: deps_done_def list_all_iff link_satisfied_iff)
qed

lemma deps_done_cong:
  "task_links db' = task_links db \<Longrightarrow> (\<And>j. done_of db' j = done_of db j)
    \<Longrightarrow> deps_done db' c = deps_done db c"
  by (simp add: deps_done_def link_satisfied_def [abs_def])

lemma done_of_resolve: "done_of (resolve_dependencies now i db) j = done_of db j"
  by (cases "find_task db i")
    (auto simp: done_of_def find_task_resolve done_part_def resolved_status_def)

lemma deps_done_resolve: "deps_done (resolve_dependencies now i db) c = deps_done db c"
  by (rule deps_done_cong) (simp_all add: frame_simps done_of_resolve)

section \<open>Settled tasks\<close>

definition settled :: "task_db \<Rightarrow> string \<Rightarrow> bool" where
  "settled db c \<longleftrightarrow>
     (status_of db c = Some (status_value TODO) \<longrightarrow> \<not> deps_done db c) \<and>
     (status_of db c = Some (status_value READY) \<longrightarrow> deps_done db c)"

lemma settled_resolve:
  assumes "ids_ok db" and "c = i \<or> settled db c"
  shows "settled (resolve_dependencies now i db) c"
  using assms
  by (cases "status_of db i")
    (auto simp: settled_def status_of_resolve resolved_status_def deps_done_resolve
      all_satisfied_deps_done)

lemma settled_fold_resolve:
  assumes "ids_ok db" and "c \<in> set cs \<or> settled db c"
  shows "settled (fold (resolve_dependencies now) cs db) c"
  using assms
proof (induction cs arbitrary: db)
  case Nil
  then show ?case by simp
next
  case (Cons i cs)
  have "c \<in> set cs \<or> settled (resolve_dependencies now i db) c"
    using Cons.prems settled_resolve [of db c i now] by auto
  then show ?case
    using Cons.IH [of "resolve_dependencies now i db"] Cons.prems(1) by (simp add: ids_ok_resolve)
qed

lemma fold_resolve_frame [frame_simps]:
  "task_links (fold (resolve_dependencies now) cs db) = task_links db"
  "done_of (fold (resolve_dependencies now) cs db) j = done_of db j"
  "deps_done (fold (resolve_dependencies now) cs db) c = deps_done db c"
  by (induction cs arbitrary: db) (simp_all add: frame_simps done_of_resolve deps_done_resolve)

lemma find_task_fold_resolve:
  assumes "find_task db j = Some t" "status t \<noteq> status_value TODO" "status t \<noteq> status_value READY"
  shows "find_task (fold (resolve_dependencies now) cs db) j = Some t"
  using assms(1)
proof (induction cs arbitrary: db)
  case Nil
  then show ?case by simp
next
  case (Cons i cs)
  then have "find_task (resolve_dependencies now i db) j = Some t"
    using assms(2,3) by (auto simp: find_task_resolve resolved_status_def)
  then show ?case by (simp add: Cons.IH)
qed

lemma set_children_ids: "set (children_ids db i) = dag db `` {i}"
  by (force simp: children_ids_def dag_def child_edges_def)

lemma ids_ok_frame [frame_simps]:
  "ids_ok (emit_event now i k run pl db) = ids_ok db"
  "ids_ok (upd_run_opt m g db) = ids_ok db"
  by (simp_all add: ids_ok_def frame_simps)

section \<open>Completing a task\<close>

lemma update_task_status_Inr:
  assumes "update_task_status now i new lock res summ meta db = (Inr v, db')"
  obtains t retry k where "find_task db i = Some t" "tid t = i" "edge (status t) new"
    "v = get_task i db'" "db' = apply_transition now t new res summ meta retry k db"
proof -
  from assms obtain u where "transition_body now i new lock res summ meta db = Inr (u, db')"
    and v: "v = get_task i db'"
    by (auto simp: update_task_status_def tx_def split: sum.splits)
  from this(1) v show thesis
    by (elim transition_body_InrD) (rule that)
qed

lemma children_ids_cong: "task_links db' = task_links db \<Longrightarrow> children_ids db' i = children_ids db i"
  by (simp add: children_ids_def)

text \<open>The database of a transition before the children are resolved.\<close>

lemma apply_transition_completed:
  obtains db3 where
    "apply_transition now t (status_value COMPLETED) res summ meta retry k db
       = fold (resolve_dependencies now) (children_ids db (tid t)) db3"
    "task_links db3 = task_links db" "ids_ok db \<Longrightarrow> ids_ok db3"
    "\<And>j. find_task db3 j =
       map_option (\<lambda>r. if j = tid t then transition_fields now t (status_value COMPLETED) res retry r else r)
         (find_task db j)"
proof
  let ?db1 = "upd_run_opt (current_run_id t) (end_run now (status_value COMPLETED) summ meta res) db"
  let ?db2 = "upd_task (tid t) (transition_fields now t (status_value COMPLETED) res retry) ?db1"
  let ?db3 = "emit_event now (tid t) k (current_run_id t)
    [(''from'', JStr (status t)), (''to'', JStr (status_value COMPLETED)), (''result'', json_opt_str res)] ?db2"
  show "apply_transition now t (status_value COMPLETED) res summ meta retry k db
      = fold (resolve_dependencies now) (children_ids db (tid t)) ?db3"
    using children_ids_cong [of ?db3 db "tid t"] by (simp add: apply_transition_def frame_simps)
  show "task_links ?db3 = task_links db"
    by (simp add: frame_simps)
  show "ids_ok db \<Longrightarrow> ids_ok ?db3"
    by (simp add: frame_simps) (simp add: ids_ok_def tids_upd_task frame_simps)
  show "find_task ?db3 j = map_option (\<lambda>r. if j = tid t
      then transition_fields now t (status_value COMPLETED) res retry r else r) (find_task db j)" for j
    by (simp add: frame_simps row_simps)
qed

lemma find_task_apply_transition:
  assumes "find_task db (tid t) = Some t"
  shows "find_task (apply_transition now t new res summ meta retry k db) (tid t)
    = Some (transition_fields now t new res retry t)"
proof -
  let ?db1 = "if new \<in> {status_value COMPLETED, status_value FAILED}
    then upd_run_opt (current_run_id t) (end_run now new summ meta res) db else db"
  have 1: "find_task (emit_event now (tid t) k (current_run_id t) pl
      (upd_task (tid t) (transition_fields now t new res retry) ?db1)) (tid t)
      = Some (transition_fields now t new res retry t)" for pl
    using assms by (simp add: frame_simps row_simps)
  show ?thesis
    unfolding apply_transition_def Let_def using 1
    by (auto intro: find_task_fold_resolve)
qed

lemma completed_row:
  assumes "update_task_status now i (status_value COMPLETED) lock res summ meta db = (Inr v, db')"
  obtains t retry where "find_task db i = Some t" "v = get_task i db'"
    "find_task db' i = Some (transition_fields now t (status_value COMPLETED) res retry t)"
proof -
  from assms obtain t retry k where t: "find_task db i = Some t" "tid t = i" "v = get_task i db'"
    and db': "db' = apply_transition now t (status_value COMPLETED) res summ meta retry k db"
    by (elim update_task_status_Inr)
  obtain db3 where db3: "db' = fold (resolve_dependencies now) (children_ids db i) db3"
    and rows: "\<And>j. find_task db3 j = map_option (\<lambda>r. if j = i
        then transition_fields now t (status_value COMPLETED) res retry r else r) (find_task db j)"
    using apply_transition_completed [of now t res summ meta retry k db] db' t(2) by metis
  have "find_task db' i = Some (transition_fields now t (status_value COMPLETED) res retry t)"
    unfolding db3 by (rule find_task_fold_resolve) (simp_all add: rows t)
  with t that show ?thesis by blast
qed

text \<open>C4: When a task is completed its row says so, its failure counter is reset, and all its
  children are settled: a child left in todo has a dependency that is not fulfilled, a child left
  in ready has none. Fulfilled means completed or archived with the result the link asks for.\<close>

theorem completion_settles_children:
  assumes "db_ok db"
    and "update_task_status now i (status_value COMPLETED) lock res summ meta db = (Inr v, db')"
  shows "(\<exists>t. find_task db' i = Some t \<and> status t = status_value COMPLETED \<and>
            completed_at t = Some now \<and> consecutive_failures t = 0 \<and>
            (opt_true res \<longrightarrow> result t = res))
    \<and> (\<forall>c. (i, c) \<in> dag db' \<longrightarrow> settled db' c)"
proof -
  from assms(2) obtain t retry k where t: "find_task db i = Some t" "tid t = i"
    and db': "db' = apply_transition now t (status_value COMPLETED) res summ meta retry k db"
    by (elim update_task_status_Inr)
  obtain db3 where db3: "db' = fold (resolve_dependencies now) (children_ids db i) db3"
      "task_links db3 = task_links db" "ids_ok db \<Longrightarrow> ids_ok db3"
    and rows: "\<And>j. find_task db3 j = map_option (\<lambda>r. if j = i
        then transition_fields now t (status_value COMPLETED) res retry r else r) (find_task db j)"
    using apply_transition_completed [of now t res summ meta retry k db] db' t(2) by metis
  have links: "dag db' = dag db"
    by (simp add: db3 dag_def child_edges_def frame_simps)
  have row: "find_task db' i = Some (transition_fields now t (status_value COMPLETED) res retry t)"
    unfolding db3(1) by (rule find_task_fold_resolve) (simp_all add: rows t)
  have "settled db' c" if "(i, c) \<in> dag db'" for c
    unfolding db3(1) using that links assms(1) db3(3)
    by (intro settled_fold_resolve) (simp_all add: set_children_ids db_ok_def)
  with row show ?thesis
    by (simp add: transition_fields_def)
qed

theorem completion_settles_children_witness:
  "update_task_status 4 ''a'' (status_value COMPLETED) None None None [] demo_db
     = (Inr (get_task ''a'' done_db), done_db)
   \<and> (''a'', ''b'') \<in> dag done_db \<and> settled done_db ''b''"
proof -
  have upd: "update_task_status 4 ''a'' (status_value COMPLETED) None None None [] demo_db
      = (Inr (get_task ''a'' done_db), done_db)"
    by code_simp
  have "(''a'', ''b'') \<in> dag done_db"
    by code_simp
  with completion_settles_children [OF demo_db_ok upd] upd show ?thesis by blast
qed

section \<open>Adding and removing a dependency\<close>

text \<open>C5: Adding a dependency between two existing tasks succeeds exactly when the parent cannot
  be reached from the child along the links, and raises otherwise; on success the link is there,
  every other link is kept, the graph is acyclic again and the child is settled.\<close>

theorem add_dependency_spec:
  assumes "db_ok db" and "find_task db i = Some t" and "find_task db p = Some tp"
  shows "case add_dependency now i p cond db of
      (Inl e, db') \<Rightarrow> (i, p) \<in> (dag db)\<^sup>* \<and> e = (if i = p then SelfLink else WouldCycle p) \<and> db' = db
    | (Inr _, db') \<Rightarrow> (i, p) \<notin> (dag db)\<^sup>* \<and> dag db' = insert (p, i) (dag db) \<and> acyclic (dag db')
        \<and> settled db' i"
proof (cases "(i, p) \<in> (dag db)\<^sup>*")
  case True
  then show ?thesis
    using assms by (auto simp: add_dependency_def tx_def detect_cycle_iff)
next
  case False
  let ?upd = "db\<lparr>task_links := sql_update (\<lambda>l. parent_id l = p \<and> child_id l = i)
                (\<lambda>l. l\<lparr>condition := cond\<rparr>) (task_links db)\<rparr>"
  let ?ins = "db\<lparr>task_links := task_links db @ [\<lparr>parent_id = p, child_id = i, condition = cond\<rparr>]\<rparr>"
  let ?db1 = "if link_exists db p i then ?upd else ?ins"
  have neq: "i \<noteq> p" using False by blast
  have res: "add_dependency now i p cond db = (Inr (), resolve_dependencies now i ?db1)"
    using assms neq False by (auto simp: add_dependency_def tx_def detect_cycle_iff insert_link_def)
  have "child_edges ?upd = child_edges db"
    by (simp add: child_edges_def map_sql_update)
  then have "dag ?upd = dag db"
    by (simp add: dag_def)
  moreover have "dag ?ins = insert (p, i) (dag db)"
    by (simp add: dag_def child_edges_def)
  moreover have "insert (p, i) (dag db) = dag db" if "link_exists db p i"
    using that by (auto simp flip: dag_iff)
  ultimately have dag: "dag ?db1 = insert (p, i) (dag db)"
    by presburger
  have "ids_ok ?db1"
    using assms(1) by (simp add: db_ok_def ids_ok_def)
  then have "settled (resolve_dependencies now i ?db1) i"
    by (intro settled_resolve) simp_all
  moreover have "acyclic (insert (p, i) (dag db))"
    using assms(1) False by (simp add: db_ok_def links_ok_def acyclic_insert)
  ultimately show ?thesis
    using False by (simp add: res frame_simps dag)
qed

theorem add_dependency_spec_witness:
  "fst (add_dependency 9 ''a'' ''b'' None demo_db) = Inl (WouldCycle ''b'')
    \<and> (''a'', ''b'') \<in> (dag demo_db)\<^sup>*"
proof -
  have res: "add_dependency 9 ''a'' ''b'' None demo_db = (Inl (WouldCycle ''b''), demo_db)"
    by code_simp
  have "\<exists>t. find_task demo_db ''a'' = Some t" "\<exists>t. find_task demo_db ''b'' = Some t"
    using demo_db_status by (auto simp: status_of_Some_iff)
  then obtain t u where "find_task demo_db ''a'' = Some t" "find_task demo_db ''b'' = Some u"
    by blast
  from add_dependency_spec [OF demo_db_ok this, of 9 None] res show ?thesis by simp
qed

lemma remove_dependency_settles:
  assumes "ids_ok db" and "(p, i) \<in> dag db"
  shows "settled (snd (remove_dependency now i p db)) i"
proof -
  have "sql_count (\<lambda>l. parent_id l = p \<and> child_id l = i) (task_links db) > 0"
    using assms(2) by (auto simp: dag_iff link_exists_def simp flip: neq0_conv)
  then show ?thesis
    using assms(1) by (auto simp: remove_dependency_def tx_def Let_def ids_ok_def intro!: settled_resolve)
qed

end
