(* ===== verification/ClaimProps.thy ===== *)
theory ClaimProps
  imports Resolution
begin

text \<open>
  What the claim, the heartbeat, the release of expired claims, the retry promotion and the
  validated status update do: post-conditions, counts, and which rows they leave alone.
\<close>

section \<open>The claim\<close>

lemma claim_task_cases:
  "claim_task now i worker pid ttl db =
     (if \<exists>r \<in> set (tasks db). tid r = i \<and> claimable now r
      then (let db' = emit_event now i (kind_value EvCLAIMED) (Some (Suc (run_seq db)))
             [(''worker_id'', JStr worker), (''pid'', JInt pid), (''lock'', JStr (lock_name worker pid))]
             (claimed_db now i worker pid ttl db)
            in (Inr (Some \<lparr>ci_task = i, ci_lock = lock_name worker pid, ci_expires = now + ttl,
                  ci_workspace = (case get_task i db' of None \<Rightarrow> None
                                  | Some v \<Rightarrow> workspace_path (task_of v))\<rparr>), db'))
      else (Inr None, db))"
  by (simp add: claim_task_def tx_def claim_body_eq Let_def)

lemma find_task_claimed_db:
  "find_task (claimed_db now i worker pid ttl db) j =
     (if j = i then map_option (\<lambda>r. (if claimable now r
          then claim_fields now (lock_name worker pid) (now + ttl) pid r else r)
          \<lparr>current_run_id := Some (Suc (run_seq db))\<rparr>) (find_task db i)
      else find_task db j)"
  by (cases "find_task db i")
    (auto simp: claimed_db_def row_simps frame_simps option.map_ident)

text \<open>A claim succeeds exactly when the task is ready and its lock is free or has expired. The
  winner's lock, expiry and new run are then on the row, every other row is untouched, and a run of
  the worker is recorded; a claim that fails changes nothing.\<close>

theorem claim_task_spec:
  assumes "db_ok db" and "find_task db i = Some t"
  shows "case claim_task now i worker pid ttl db of
      (Inl _, _) \<Rightarrow> False
    | (Inr None, db') \<Rightarrow> \<not> claimable now t \<and> db' = db
    | (Inr (Some ci), db') \<Rightarrow>
        claimable now t \<and> ci_task ci = i \<and> ci_lock ci = lock_name worker pid \<and> ci_expires ci = now + ttl
        \<and> (\<exists>t'. find_task db' i = Some t' \<and> status t' = status_value RUNNING
             \<and> claim_lock t' = Some (ci_lock ci) \<and> claim_expires t' = Some (ci_expires ci)
             \<and> current_run_id t' = Some (Suc (run_seq db))
             \<and> ci_workspace ci = workspace_path t')
        \<and> (\<forall>j. j \<noteq> i \<longrightarrow> find_task db' j = find_task db j)
        \<and> (\<exists>r \<in> set (task_runs db'). run_id r = Suc (run_seq db) \<and> run_task r = i \<and> profile r = Some worker)"
proof (cases "claimable now t")
  case True
  have "\<exists>r \<in> set (tasks db). tid r = i \<and> claimable now r"
    using True find_task_row [OF assms(2)] by blast
  moreover have "\<exists>r \<in> set (task_runs (claimed_db now i worker pid ttl db)).
      run_id r = Suc (run_seq db) \<and> run_task r = i \<and> profile r = Some worker"
    by (simp add: claimed_db_def insert_run_def upd_task_def claimed_run_def)
  moreover have "workspace_path (claim_fields now l e pid t) = workspace_path t" for l e
    by (simp add: claim_fields_def)
  ultimately show ?thesis
    using True assms(2)
    by (simp add: claim_task_cases Let_def frame_simps find_task_claimed_db get_task_def)
next
  case False
  have "tid r = i \<Longrightarrow> r \<in> set (tasks db) \<Longrightarrow> r = t" for r
    using assms find_task_of_row [of db r] by (auto simp: db_ok_def)
  with False have "\<not> (\<exists>r \<in> set (tasks db). tid r = i \<and> claimable now r)" by blast
  then have "claim_task now i worker pid ttl db = (Inr None, db)"
    unfolding claim_task_cases by (rule if_not_P)
  with False show ?thesis by simp
qed

definition ready_db :: task_db where
  "ready_db = exec_call (1, CreateTask ''a'' (CreateArgs_default ''A'')) empty_db"

lemma ready_db_ok: "db_ok ready_db"
  unfolding ready_db_def by (rule exec_call_ok) (rule db_ok_empty)

definition ready_row :: Task where
  "ready_row = new_task 1 ''a'' (CreateArgs_default ''A'') False"

lemma find_ready_row: "find_task ready_db ''a'' = Some ready_row"
  by code_simp

theorem claim_task_spec_witness:
  "(case claim_task 5 ''a'' ''w'' 7 900 ready_db of
      (Inr (Some ci), db') \<Rightarrow> claimable 5 ready_row \<and> ci_expires ci = 905 \<and>
        (\<forall>j. j \<noteq> ''a'' \<longrightarrow> find_task db' j = find_task ready_db j)
    | _ \<Rightarrow> False)"
proof -
  have "(\<exists>r \<in> set (tasks ready_db). tid r = ''a'' \<and> claimable 5 r)"
    by code_simp
  then show ?thesis
    using claim_task_spec [OF ready_db_ok find_ready_row, of 5 "''w''" 7 900]
    by (simp add: claim_task_cases Let_def)
qed

section \<open>A held claim\<close>

definition held :: "string \<Rightarrow> string \<Rightarrow> task_db \<Rightarrow> bool" where
  "held i l db \<longleftrightarrow>
     (case find_task db i of None \<Rightarrow> False
      | Some t \<Rightarrow> status t = status_value RUNNING \<and> claim_lock t = Some l)"

lemma held_iff:
  "held i l db \<longleftrightarrow>
     (\<exists>t. find_task db i = Some t \<and> status t = status_value RUNNING \<and> claim_lock t = Some l)"
  by (simp add: held_def split: option.split)

lemma claimed_row:
  assumes "claim_task now i w pid ttl db = (Inr (Some c), db')" "db_ok db"
  shows "held i (lock_name w pid) db' \<and> get_task i db' \<noteq> None"
proof -
  from assms(1) obtain t where "t \<in> set (tasks db)" "tid t = i" "claimable now t"
    and db': "db' = emit_event now i (kind_value EvCLAIMED) (Some (Suc (run_seq db)))
      [(''worker_id'', JStr w), (''pid'', JInt pid), (''lock'', JStr (lock_name w pid))] (claimed_db now i w pid ttl db)"
    by (auto simp: claim_task_cases Let_def split: if_splits)
  with assms(2) have "find_task db i = Some t" "claimable now t"
    using find_task_of_row [of db t] by (auto simp: db_ok_def)
  then show ?thesis
    by (auto simp: db' held_iff find_task_claimed_db frame_simps claim_fields_def get_task_def)
qed

text \<open>The calls that can take a running task out of its state: they name the task, or sweep the expired claims.\<close>

definition ends_claims :: "string \<Rightarrow> store_call \<Rightarrow> bool" where
  "ends_claims i c = (case c of UpdateStatus j _ _ _ _ _ \<Rightarrow> j = i | DeleteTask j \<Rightarrow> j = i
     | BatchUpdateStatus js _ \<Rightarrow> i \<in> set js | BatchDelete js \<Rightarrow> i \<in> set js | ReleaseExpired _ \<Rightarrow> True | _ \<Rightarrow> False)"

lemma held_upd_task:
  assumes "\<And>r. tid (f r) = tid r"
    and "\<And>t. find_task db j = Some t \<Longrightarrow> status t = status_value RUNNING \<Longrightarrow>
           status (f t) = status_value RUNNING \<and> claim_lock (f t) = claim_lock t"
  shows "held i l db \<Longrightarrow> held i l (upd_task j f db)"
  using assms by (cases "find_task db i") (auto simp: held_def row_simps)

lemma held_frame [frame_simps]:
  "held i l (emit_event now j k run pl db) = held i l db"
  "held i l (upd_run_opt m g db) = held i l db"
  "held i l (insert_run r db) = held i l db"
  by (simp_all add: held_def frame_simps)

lemma held_cong: "find_task db' i = find_task db i \<Longrightarrow> held i l db' = held i l db"
  by (simp add: held_def)

lemma held_resolve: "held i l db \<Longrightarrow> held i l (resolve_dependencies now j db)"
  by (cases "find_task db i") (auto simp: held_def find_task_resolve resolved_status_def)

lemma held_links: "held i l (db\<lparr>task_links := ls\<rparr>) = held i l db"
  by (simp add: held_def find_task_def)

lemma held_create_task:
  assumes "db_ok db" "held i l db" shows "held i l (snd (create_task now n a db))"
proof -
  have "held i l db'" if "create_body now t specs db = Inr (x, db')" for t specs x db'
  proof -
    from that obtain db2 k pl where
      "insert_links (tid t) specs (db\<lparr>tasks := tasks db @ [t]\<rparr>) = Inr db2"
      and db': "db' = emit_event now (tid t) k None pl db2"
      by (elim create_body_InrD) blast
    moreover have "distinct (child_edges (db\<lparr>tasks := tasks db @ [t]\<rparr>))"
      using assms(1) by (simp add: db_ok_defs child_edges_def)
    ultimately have "tasks db2 = tasks db @ [t]"
      using insert_links_props by (fastforce simp: same_but_links_def)
    with assms(2) show ?thesis
      by (auto simp: db' frame_simps held_iff find_task_def row_by_append)
  qed
  then have "held i l (snd (tx (create_body now t specs) db))" for t specs
    using assms(2) by (rule tx_state [rotated])
  with assms(2) show ?thesis
    by (simp add: create_task_def split: sum.split)
qed

lemma held_claim_task: "held i l db \<Longrightarrow> held i l (snd (claim_task now j worker pid ttl db))"
  by (cases "find_task db i")
    (auto simp: claim_task_cases Let_def frame_simps held_def find_task_claimed_db claimable_def)

lemma held_promote:
  assumes "db_ok db" "held i l db" shows "held i l (snd (promote_retryable_tasks now ten db))"
proof -
  have "i \<notin> tid ` set (filter (retryable ten) (tasks db))"
    using assms find_task_of_row [of db] by (auto simp: held_iff db_ok_def retryable_def)
  then have "find_task (fold (promote_one now) (filter (retryable ten) (tasks db)) db) i = find_task db i"
    by (intro find_task_fold_other) (simp add: find_task_promote_one)
  with assms show ?thesis
    by (simp add: promote_retryable_tasks_def tx_def Let_def held_def)
qed

lemma held_heartbeat: "held i l db \<Longrightarrow> held i l (snd (heartbeat now j lock db))"
  unfolding heartbeat_def
  by (rule tx_state) (auto simp: Let_def frame_simps intro!: held_upd_task split: option.splits if_splits)

lemma held_update_task: "held i l db \<Longrightarrow> held i l (snd (update_task now j ti bo asg pr db))"
  unfolding update_task_def
  by (rule tx_state)
    (auto simp: Let_def frame_simps intro!: held_upd_task split: option.splits if_splits prod.splits)

lemma held_add_comment: "held i l db \<Longrightarrow> held i l (snd (add_comment now j who txt db))"
  unfolding add_comment_def
  by (rule tx_state)
    (auto simp: Let_def frame_simps held_def find_task_def split: option.splits)

lemma held_add_dependency: "held i l db \<Longrightarrow> held i l (snd (add_dependency now j p cond db))"
  unfolding add_dependency_def
  by (rule tx_state)
    (auto simp: insert_link_def held_links intro!: held_resolve split: option.splits if_splits)

lemma held_remove_dependency: "held i l db \<Longrightarrow> held i l (snd (remove_dependency now j p db))"
  unfolding remove_dependency_def
  by (rule tx_state) (auto simp: Let_def held_links intro: held_resolve split: if_splits)

lemma held_helpers:
  "held i l db \<Longrightarrow> held i l (snd (update_workspace_path j p db))"
  "held i l db \<Longrightarrow> held i l (snd (set_worker_pid j pid db))"
  by (simp_all add: update_workspace_path_def set_worker_pid_def tx_def held_upd_task)

lemma held_fold_resolve: "held i l db \<Longrightarrow> held i l (fold (resolve_dependencies now) js db)"
  by (induction js arbitrary: db) (simp_all add: held_resolve)

lemma held_apply_transition:
  assumes "held i l db" "tid t \<noteq> i" shows "held i l (apply_transition now t new res summ meta retry k db)"
proof -
  have "held i l (upd_task (tid t) (transition_fields now t new res retry) db')" if "held i l db'" for db'
  proof -
    have "tid (transition_fields now t new res retry r) = tid r" for r by (simp add: transition_fields_def Let_def)
    with that assms(2) show ?thesis
      by (cases "find_task db' i") (auto simp: held_def row_simps dest: find_task_row)
  qed
  with assms(1) show ?thesis
    by (auto simp: apply_transition_def Let_def frame_simps intro!: held_fold_resolve)
qed

lemma held_update_status:
  assumes "held i l db" "j \<noteq> i" shows "held i l (snd (update_task_status now j new lock res summ meta db))"
proof -
  have "held i l db'" if "transition_body now j new lock res summ meta db = Inr (x, db')" for x db'
    using that assms
    by (auto simp: transition_body_def Let_def intro!: held_apply_transition dest: find_task_row
        split: option.splits sum.splits machine_error.splits if_splits)
  then have "held i l (snd (tx (transition_body now j new lock res summ meta) db))"
    using assms(1) by (rule tx_state [rotated])
  then show ?thesis by (auto simp: update_task_status_def split: sum.split prod.split)
qed

lemma held_delete_task: "held i l db \<Longrightarrow> j \<noteq> i \<Longrightarrow> held i l (snd (delete_task now j db))"
  using held_update_status [of i l db j] by (simp add: delete_task_def split: sum.split prod.split) (metis snd_conv)

lemma held_batch_loop:
  assumes "\<And>j db. j \<in> set js \<Longrightarrow> held i l db \<Longrightarrow> held i l (snd (f j db))" and "held i l db"
  shows "held i l (snd (batch_loop f js n failed db))"
  using assms
proof (induction js arbitrary: n failed db)
  case (Cons j js)
  have "held i l (snd (f j db))" using Cons.prems by simp
  with Cons show ?case
    by (cases "f j db") (auto split: sum.split error_class.split)
qed simp

lemma held_batches:
  assumes "held i l db" "i \<notin> set js"
  shows "held i l (snd (batch_update_status now js new db))" and "held i l (snd (batch_delete now js db))"
proof -
  have other: "j \<noteq> i" if "j \<in> set js" for j using that assms(2) by auto
  have upd: "held i l (snd (case update_task_status now j new None None None [] d of
      (Inl e, d') \<Rightarrow> (Inl e, d') | (Inr _, d') \<Rightarrow> (Inr True, d')))" if "j \<in> set js" "held i l d" for j d
    using held_update_status [OF that(2) other [OF that(1)], of now new None None None "[]"]
    by (auto split: prod.split sum.split)
  show "held i l (snd (batch_update_status now js new db))"
    unfolding batch_update_status_def by (rule held_batch_loop [OF upd assms(1)])
  show "held i l (snd (batch_delete now js db))"
    unfolding batch_delete_def by (rule held_batch_loop [OF held_delete_task assms(1)]) (auto dest: other)
qed

lemmas held_operations = held_update_status held_delete_task held_batches held_create_task held_claim_task held_promote held_heartbeat
  held_update_task held_add_comment held_add_dependency held_remove_dependency held_helpers

lemma held_exec_call:
  assumes "db_ok db" "held i l db" "\<not> ends_claims i (snd c)" shows "held i l (exec_call c db)"
proof (cases c)
  case (Pair now x)
  with assms show ?thesis
    by (cases x) (simp_all add: exec_call_def ends_claims_def held_operations)
qed

interpretation claims: lease_system exec_call db_ok empty_db held "\<lambda>i l c. \<not> ends_claims i (snd c)"
  by unfold_locales (rule held_exec_call)

lemma held_not_claimable: "db_ok db \<Longrightarrow> held i l db \<Longrightarrow> claim_task now i worker pid ttl db = (Inr None, db)"
  using find_task_of_row [of db] by (auto simp: claim_task_cases held_iff claimable_def db_ok_def)

lemma claim_success_held:
  assumes "db_ok db" "claim_task now i worker pid ttl db = (Inr (Some ci), db1)"
  shows "held i (lock_name worker pid) db1"
proof -
  obtain t where "find_task db i = Some t" "claimable now t"
  proof -
    from assms(2) obtain r where "r \<in> set (tasks db)" "tid r = i" "claimable now r"
      by (auto simp: claim_task_cases split: if_splits)
    with assms(1) show thesis
      by (intro that [of r]) (auto simp: db_ok_def find_task_of_row)
  qed
  then have "held i (lock_name worker pid) (claimed_db now i worker pid ttl db)"
    by (simp add: held_def find_task_claimed_db)
  moreover have "held i l db1 = held i l (claimed_db now i worker pid ttl db)" for l
    using assms(2) by (auto simp: claim_task_cases Let_def held_def frame_simps split: if_splits)
  ultimately show ?thesis by simp
qed

text \<open>C3: Two workers never hold the same task. After a successful claim the task stays running
  under the winner's lock, and every further claim of it, by any worker at any time, fails and
  changes nothing, until a call updates the status of this task, deletes it, or sweeps the expired
  claims. What happens to other tasks, also to its parents, does not matter.\<close>

theorem claim_is_exclusive:
  assumes "db_ok db" and "claim_task now i worker pid ttl db = (Inr (Some ci), db1)"
    and "\<forall>c \<in> set cs. \<not> ends_claims i (snd c)"
  shows "held i (lock_name worker pid) (fold exec_call cs db1)
    \<and> claim_task now' i worker' pid' ttl' (fold exec_call cs db1) = (Inr None, fold exec_call cs db1)"
proof -
  have db1: "db1 = snd (claim_task now i worker pid ttl db)"
    by (simp add: assms(2))
  then have ok: "db_ok db1"
    using step_ok_claim_task assms(1) by (simp add: step_ok_def)
  have "held i (lock_name worker pid) db1"
    by (rule claim_success_held [OF assms(1,2)])
  then have "held i (lock_name worker pid) (fold exec_call cs db1)"
    by (rule claims.run_spares [OF ok _ assms(3)])
  then show ?thesis
    using store.run_ok [OF ok] by (blast intro: held_not_claimable)
qed

theorem claim_is_exclusive_witness:
  "\<exists>ci db1. claim_task 5 ''a'' ''w'' 7 900 ready_db = (Inr (Some ci), db1) \<and>
     held ''a'' (lock_name ''w'' 7) (exec_call (6, Heartbeat ''a'' ''w:7'') db1) \<and>
     claim_task 5000 ''a'' ''x'' 8 900 (exec_call (6, Heartbeat ''a'' ''w:7'') db1)
       = (Inr None, exec_call (6, Heartbeat ''a'' ''w:7'') db1)"
proof -
  have "\<exists>r \<in> set (tasks ready_db). tid r = ''a'' \<and> claimable 5 r"
    by code_simp
  then obtain ci db1 where "claim_task 5 ''a'' ''w'' 7 900 ready_db = (Inr (Some ci), db1)"
    by (simp add: claim_task_cases Let_def)
  with claim_is_exclusive [OF ready_db_ok this, of "[(6, Heartbeat ''a'' ''w:7'')]" 5000 "''x''" 8 900]
  show ?thesis
    by (simp add: ends_claims_def)
qed

end
