(* ===== verification/SweepProps.thy ===== *)
theory SweepProps
  imports ClaimProps
begin

text \<open>
  The two sweeps of the dispatcher's store, row by row, the paths of the validated status update
  that raise, and the creation of a task.
\<close>

section \<open>Sweeps, row by row\<close>

lemma sweep_rows:
  assumes ids: "ids_ok db" and t: "find_task db i = Some t"
    and post: "\<And>t db. P t \<Longrightarrow> find_task db (tid t) = Some t \<Longrightarrow>
      \<exists>t'. find_task (f t db) (tid t) = Some t' \<and> Q t t'"
    and frame: "\<And>t db j. j \<noteq> tid t \<Longrightarrow> find_task (f t db) j = find_task db j"
  shows "\<exists>t'. find_task (fold f (filter P (tasks db)) db) i = Some t' \<and> (if P t then Q t t' else t' = t)"
proof (cases "P t")
  case True
  have i: "t \<in> set (filter P (tasks db))" "tid t = i"
    using find_task_row [OF t] True by auto
  have "\<exists>t'. find_task (fold f (filter P (tasks db)) db) (tid t) = Some t' \<and> Q t t'"
    by (rule fold_rows_post [where S = "Collect P", OF post frame _ rows_of_filter(1) [OF ids]])
      (use i(1) ids rows_of_filter in auto)
  with True i(2) show ?thesis by simp
next
  case False
  have "i \<notin> tid ` set (filter P (tasks db))"
    using False t ids find_task_of_row by fastforce
  then have "find_task (fold f (filter P (tasks db)) db) i = find_task db i"
    by (intro find_task_fold_other frame)
  with False t show ?thesis by simp
qed

lemma tids_fold_sweep:
  "(\<And>t db. map tid (tasks (f t db)) = map tid (tasks db)) \<Longrightarrow> map tid (tasks (fold f rows db)) = map tid (tasks db)"
  by (induction rows arbitrary: db) simp_all

lemma release_result:
  "release_expired_claims now ten db
   = (Inr (length (filter (expired now ten) (tasks db))),
      fold (release_one now) (filter (expired now ten) (tasks db)) db)"
  by (simp add: release_expired_claims_def tx_def Let_def)

lemma promote_result:
  "promote_retryable_tasks now ten db
   = (Inr (length (filter (retryable ten) (tasks db))),
      fold (promote_one now) (filter (retryable ten) (tasks db)) db)"
  by (simp add: promote_retryable_tasks_def tx_def Let_def)

text \<open>The release of expired claims fails exactly the running and blocked tasks whose lock
  has expired, counts the failure, frees the lock, leaves every other task as it is, returns how
  many it released, and leaves no expired claim behind.\<close>

theorem release_expired_claims_spec:
  fixes now :: int and ten :: "string option"
  assumes "db_ok db"
  defines "db' \<equiv> snd (release_expired_claims now ten db)"
  shows "fst (release_expired_claims now ten db) = Inr (length (filter (expired now ten) (tasks db)))
    \<and> (\<forall>i t. find_task db i = Some t \<longrightarrow> find_task db' i =
          Some (if expired now ten t then release_fields now (Suc (consecutive_failures t)) t else t))
    \<and> (\<forall>t \<in> set (tasks db'). \<not> expired now ten t)"
proof -
  have ids: "ids_ok db" using assms(1) by (simp add: db_ok_def)
  have rows: "find_task db' i =
      Some (if expired now ten t then release_fields now (Suc (consecutive_failures t)) t else t)"
    if "find_task db i = Some t" for i t
    using sweep_rows [OF ids that, of "expired now ten" "release_one now"
        "\<lambda>t t'. t' = release_fields now (Suc (consecutive_failures t)) t"]
    by (auto simp: db'_def release_result find_task_release_one split: if_splits)
  have "\<not> expired now ten t'" if "t' \<in> set (tasks db')" for t'
  proof -
    have "map tid (tasks db') = map tid (tasks db)"
      unfolding db'_def release_result snd_conv
      by (rule tids_fold_sweep) (simp add: release_one_def Let_def frame_simps tids_upd_task)
    then have ids': "ids_ok db'" and "tid t' \<in> tid ` set (tasks db)"
      using ids that by (simp_all add: ids_ok_def) (metis image_eqI list.set_map)
    then obtain t where t: "find_task db (tid t') = Some t"
      using find_task_None by fastforce
    with rows [OF t] find_task_of_row [OF ids' that] show ?thesis
      by (auto simp: expired_def split: if_splits)
  qed
  with rows show ?thesis
    by (simp add: release_result)
qed

theorem release_expired_claims_spec_witness:
  "fst (release_expired_claims 903 None demo_db) = Inr 1
   \<and> status_of (snd (release_expired_claims 903 None demo_db)) ''a'' = Some (status_value FAILED)"
proof -
  have "length (filter (expired 903 None) (tasks demo_db)) = 1"
    by code_simp
  moreover have "map_option (expired 903 None) (find_task demo_db ''a'') = Some True"
    by code_simp
  ultimately show ?thesis
    using release_expired_claims_spec [OF demo_db_ok, of 903 None] by (auto simp: status_of_def)
qed

text \<open>Retry promotion puts exactly the failed tasks within their retry limit back to ready,
  with the lock free and a new run as the current one, whatever retry time their row carries, and
  leaves every other task as it is; a task over its limit is never promoted.\<close>

theorem promote_retryable_tasks_spec:
  fixes now :: int and ten :: "string option"
  assumes "db_ok db" and "find_task db i = Some t"
  defines "promotable \<equiv> status t = status_value FAILED \<and> 0 < consecutive_failures t \<and>
      int (consecutive_failures t) \<le> (case max_retries t of None \<Rightarrow> DEFAULT_MAX_RETRIES | Some m \<Rightarrow> m) \<and>
      (ten = None \<or> tenant t = ten)"
  shows "\<exists>t'. find_task (snd (promote_retryable_tasks now ten db)) i = Some t' \<and>
    (if promotable
     then status t' = status_value READY \<and> claim_lock t' = None \<and> claimable now t'
       \<and> next_retry_at t' = next_retry_at t \<and> consecutive_failures t' = consecutive_failures t
     else t' = t)"
proof -
  have "promotable = retryable ten t"
    by (auto simp: promotable_def retryable_def tenant_matches_def split: option.splits)
  moreover have "ids_ok db" using assms(1) by (simp add: db_ok_def)
  ultimately show ?thesis
    unfolding promote_result snd_conv
    using sweep_rows [OF _ assms(2), of "retryable ten" "promote_one now"
        "\<lambda>t t'. status t' = status_value READY \<and> claim_lock t' = None \<and> claimable now t'
       \<and> next_retry_at t' = next_retry_at t \<and> consecutive_failures t' = consecutive_failures t"]
    by (simp add: find_task_promote_one claimable_def)
qed

definition failed_row :: Task where
  "failed_row = Task_default\<lparr>tid := ''f'', status := status_value FAILED, consecutive_failures := 1,
     completed_at := Some 3, max_retries := Some 2, next_retry_at := Some 1000000\<rparr>"

definition failed_db :: task_db where
  "failed_db = empty_db\<lparr>tasks := [failed_row]\<rparr>"

lemma failed_db_ok: "db_ok failed_db"
  by (simp add: db_ok_defs failed_db_def failed_row_def empty_db_def row_ok_def run_ref_ok_def
      Task_default_def child_edges_def dag_def wf_acyclic)

lemma find_failed_row: "find_task failed_db ''f'' = Some failed_row"
  by code_simp

theorem promote_retryable_tasks_spec_witness:
  "\<exists>t'. find_task (snd (promote_retryable_tasks 4 None failed_db)) ''f'' = Some t'
     \<and> status t' = status_value READY \<and> next_retry_at t' = Some 1000000"
  using promote_retryable_tasks_spec [OF failed_db_ok find_failed_row, of 4 None]
  by (auto simp: failed_row_def Task_default_def)

section \<open>The validated status update\<close>

lemma update_task_status_fst:
  "find_task db i = Some t \<Longrightarrow> fst (update_task_status now i new lock res summ meta db) =
     (if \<not> edge (status t) new then Inl (InvalidTransition (status t) new)
      else if status t = status_value RUNNING \<and> opt_true lock \<and> claim_lock t \<noteq> lock
           then Inl (LockMismatch (claim_lock t) (the lock))
      else case (if new = status_value FAILED then next_retry now t else Inr None) of
          Inl e \<Rightarrow> Inl e
        | Inr retry \<Rightarrow> (case transition_kind (status t) new of Inl e \<Rightarrow> Inl e
            | Inr k \<Rightarrow> Inr (get_task i (apply_transition now t new res summ meta retry k db))))"
  by (simp add: update_task_status_def tx_def transition_body_def validate_cases
      split: sum.split)

text \<open>A failed task cannot be put back to ready by a status update, although the state machine
  allows it: the event kind the code names does not exist, so the call raises an attribute error
  and the transaction is undone; a batch update that meets such a task is aborted by it.\<close>

theorem retry_by_status_update_raises:
  assumes "find_task db i = Some t" and "status t = status_value FAILED"
  shows "edge (status t) (status_value READY)
    \<and> update_task_status now i (status_value READY) lock res summ meta db = (Inl (NoAttribute ''RETRIED''), db)
    \<and> batch_update_status now (i # is) (status_value READY) db = (Inl (NoAttribute ''RETRIED''), db)"
proof -
  have "fst (update_task_status now i (status_value READY) l r s m db) = Inl (NoAttribute ''RETRIED'')"
    for l r s m
    using assms by (simp add: update_task_status_fst transition_kind_def)
  then have "update_task_status now i (status_value READY) l r s m db = (Inl (NoAttribute ''RETRIED''), db)"
    for l r s m
    using update_task_status_error by (metis prod.collapse)
  then show ?thesis
    using assms(2) by (simp add: batch_update_status_def)
qed

theorem retry_by_status_update_raises_witness:
  "update_task_status 4 ''f'' (status_value READY) None None None [] failed_db
     = (Inl (NoAttribute ''RETRIED''), failed_db)"
  using retry_by_status_update_raises [OF find_failed_row, of 4 None None None "[]" "[]"]
  by (simp add: failed_row_def)

text \<open>A worker that names a claim lock can only move a running task if the lock is the task's
  own, and any other status change follows the transition table: the update raises exactly when
  the pair is not in the table, the lock differs, or the retry paths fail.\<close>

theorem update_task_status_guards:
  assumes "find_task db i = Some t"
    and "update_task_status now i new lock res summ meta db = (Inr v, db')"
  shows "edge (status t) new \<and> v = get_task i db' \<and> status_of db' i = Some new
    \<and> (status t = status_value RUNNING \<longrightarrow> opt_true lock \<longrightarrow> claim_lock t = lock)
    \<and> (new = status_value READY \<longrightarrow> status t \<noteq> status_value FAILED)"
proof -
  from assms(2) obtain retry k where edge: "edge (status t) new" and v: "v = get_task i db'"
    and i: "tid t = i" and k: "transition_kind (status t) new = Inr k"
    and db': "db' = apply_transition now t new res summ meta retry k db"
  proof -
    from assms(2) obtain u where "transition_body now i new lock res summ meta db = Inr (u, db')"
      and "v = get_task i db'"
      by (auto simp: update_task_status_def tx_def split: sum.splits)
    with assms(1) show thesis
      by (elim transition_body_InrD) (auto intro: that)
  qed
  have lock: "\<not> (status t = status_value RUNNING \<and> opt_true lock \<and> claim_lock t \<noteq> lock)"
    using update_task_status_fst [OF assms(1), of now new lock res summ meta] assms(2) edge
    by (auto split: if_splits)
  have "status_of db' i = Some new"
    using find_task_apply_transition [of db t now new] assms(1) i
    by (simp add: db' status_of_def)
  with edge v lock k show ?thesis
    by (auto simp: transition_kind_def split: if_splits)
qed

theorem update_task_status_guards_witness:
  "\<exists>v db'. update_task_status 4 ''a'' (status_value COMPLETED) (Some ''w:7'') None None [] demo_db = (Inr v, db')
     \<and> status_of db' ''a'' = Some (status_value COMPLETED)"
proof -
  have "\<not> isl (fst (update_task_status 4 ''a'' (status_value COMPLETED) (Some ''w:7'') None None [] demo_db))"
    by code_simp
  then have "\<exists>v db'. update_task_status 4 ''a'' (status_value COMPLETED) (Some ''w:7'') None None [] demo_db = (Inr v, db')"
    by (metis isl_def prod.collapse sum.exhaust)
  moreover obtain t where "find_task demo_db ''a'' = Some t"
    using demo_db_status by (auto simp: status_of_Some_iff)
  ultimately show ?thesis
    using update_task_status_guards by blast
qed

end
