(* ===== verification/Dependency.thy ===== *)
theory Dependency
  imports SweepProps
begin

text \<open>
  \<open>orchestration/dependency.py\<close>: the cursor functions extracted from the store. The cycle check
  walks from the proposed parent to its parents, where the store walks from the child to its
  children. The event callback is a parameter: \<open>None\<close>, or a function on the database. Rows are
  tuples, as a plain SQLite cursor returns them.
\<close>

section \<open>The functions\<close>

text \<open>The columns the query reads: from a child to its parents.\<close>

definition parent_edges :: "task_db \<Rightarrow> (string \<times> string) list" where
  "parent_edges db = map prod.swap (child_edges db)"

definition dep_detect_cycle :: "task_db \<Rightarrow> string \<Rightarrow> string \<Rightarrow> bool" where
  "dep_detect_cycle db c p = (if c = p then True else search_loop (parent_edges db) c {} [p])"

type_synonym emit_func = "string \<Rightarrow> string \<Rightarrow> (string \<times> json) list \<Rightarrow> task_db \<Rightarrow> task_db"

definition call_emit :: "emit_func option \<Rightarrow> emit_func" where
  "call_emit em i k pl db = (case em of None \<Rightarrow> db | Some f \<Rightarrow> f i k pl db)"

definition dep_resolve :: "emit_func option \<Rightarrow> string \<Rightarrow> task_db \<Rightarrow> task_db" where
  "dep_resolve em i db =
     (let rows = parent_rows db i in
      case find_task db i of
        None \<Rightarrow> db
      | Some t \<Rightarrow>
          if rows = [] then
            (if status t = status_value TODO
             then call_emit em i (kind_value EvDEPENDENCY_PROMOTED)
                    [(''from'', JStr ''todo''), (''to'', JStr ''ready''), (''reason'', JStr ''no_parents'')]
                    (upd_task i (set_status READY) db)
             else db)
          else if all_satisfied rows \<and> status t = status_value TODO
          then call_emit em i (kind_value EvDEPENDENCY_PROMOTED)
                 [(''from'', JStr ''todo''), (''to'', JStr ''ready'')]
                 (upd_task i (set_status READY) db)
          else if \<not> all_satisfied rows \<and> status t = status_value READY
          then call_emit em i (kind_value EvDEPENDENCY_PROMOTED)
                 [(''from'', JStr ''ready''), (''to'', JStr ''todo'')]
                 (upd_task i (set_status TODO) db)
          else db)"

definition promote_children :: "emit_func option \<Rightarrow> string \<Rightarrow> task_db \<Rightarrow> nat \<times> task_db" where
  "promote_children em i db =
     (let children = children_ids db i in (length children, fold (dep_resolve em) children db))"

fun validate_parents :: "task_db \<Rightarrow> string list \<Rightarrow> string \<Rightarrow> store_error + unit" where
  "validate_parents db [] i = Inr ()"
| "validate_parents db (p # ps) i =
     (case find_task db p of
        None \<Rightarrow> Inl (ParentNotFound p)
      | Some _ \<Rightarrow>
          if p = i then Inl SelfLink
          else if dep_detect_cycle db i p then Inl (WouldCycle p)
          else validate_parents db ps i)"

definition validate_dag_integrity :: "task_db \<Rightarrow> string list \<Rightarrow> string \<Rightarrow> store_error + string list" where
  "validate_dag_integrity db ps i =
     (case validate_parents db ps i of Inl e \<Rightarrow> Inl e | Inr _ \<Rightarrow> Inr ps)"

section \<open>Two cycle checks, one answer\<close>

lemma cycle_checks_equal: "dep_detect_cycle db c p \<longleftrightarrow> (c, p) \<in> (dag db)\<^sup>*"
  by (simp only: dep_detect_cycle_def parent_edges_def search_backwards flip: detect_cycle_iff detect_cycle_def)

text \<open>C6: The upward search of \<open>dependency.py\<close> and the downward search of the store return the same
  answer on every database and pair of tasks, and the answer is whether the proposed parent is
  reachable from the child along the links.\<close>

theorem cycle_checks_agree:
  "dep_detect_cycle db c p = detect_cycle db c p \<and> (detect_cycle db c p \<longleftrightarrow> (c, p) \<in> (dag db)\<^sup>*)"
  by (simp only: cycle_checks_equal detect_cycle_iff simp_thms)

section \<open>Two resolutions, one effect\<close>

lemma tasks_resolve:
  "tasks (resolve_dependencies now i db) =
     (case find_task db i of
        None \<Rightarrow> tasks db
      | Some t \<Rightarrow>
          if all_satisfied (parent_rows db i) \<and> status t = status_value TODO
          then tasks (upd_task i (set_status READY) db)
          else if \<not> all_satisfied (parent_rows db i) \<and> status t = status_value READY
          then tasks (upd_task i (set_status TODO) db)
          else tasks db)"
  by (auto simp: resolve_dependencies_def Let_def frame_simps split: option.split)

definition keeps_rows :: "emit_func option \<Rightarrow> bool" where
  "keeps_rows em \<longleftrightarrow> (\<forall>i k pl db.
     tasks (call_emit em i k pl db) = tasks db \<and> task_links (call_emit em i k pl db) = task_links db)"

lemma dep_resolve_frame:
  "keeps_rows em \<Longrightarrow> tasks (dep_resolve em i db) = tasks (resolve_dependencies now i db)
    \<and> task_links (dep_resolve em i db) = task_links db"
  by (auto simp: dep_resolve_def tasks_resolve keeps_rows_def Let_def frame_simps split: option.split)

lemma resolve_cong:
  assumes "tasks a = tasks b" "task_links a = task_links b"
  shows "tasks (resolve_dependencies now i a) = tasks (resolve_dependencies now i b)"
proof -
  have "find_task a i = find_task b i" "parent_rows a i = parent_rows b i"
    by (simp_all only: find_task_def parent_rows_def assms)
  then show ?thesis
    using assms(1) by (simp add: tasks_resolve upd_task_def split: option.split)
qed

text \<open>Promoting the children of a task through \<open>dependency.py\<close> writes the same task rows as
  the loop the store runs when it completes that task, whatever events the callback records, and
  reports how many children there were.\<close>

theorem promote_children_refines_store:
  assumes "keeps_rows em"
  shows "tasks (snd (promote_children em i db))
      = tasks (fold (resolve_dependencies now) (children_ids db i) db)
    \<and> fst (promote_children em i db) = length (filter (\<lambda>l. parent_id l = i) (task_links db))"
proof -
  have "tasks (fold (dep_resolve em) cs a) = tasks (fold (resolve_dependencies now) cs b)"
    if "tasks a = tasks b" "task_links a = task_links b" for cs a b
    using that
  proof (induction cs arbitrary: a b)
    case Nil
    then show ?case by simp
  next
    case (Cons c cs)
    have "tasks (dep_resolve em c a) = tasks (resolve_dependencies now c b)"
      using dep_resolve_frame [OF assms] resolve_cong [OF Cons.prems] by metis
    moreover have "task_links (dep_resolve em c a) = task_links (resolve_dependencies now c b)"
      using dep_resolve_frame [OF assms] Cons.prems(2) by (simp add: frame_simps)
    ultimately show ?case
      by (simp add: Cons.IH)
  qed
  moreover have "length (children_ids db i) = length (filter (\<lambda>l. parent_id l = i) (task_links db))"
  proof -
    have "length (concat (map (\<lambda>l. if parent_id l = i then [child_id l] else []) ls))
        = length (filter (\<lambda>l. parent_id l = i) ls)" for ls
      by (induction ls) simp_all
    then show ?thesis by (simp add: children_ids_def)
  qed
  ultimately show ?thesis
    by (simp add: promote_children_def Let_def)
qed

theorem promote_children_refines_store_witness:
  "tasks (snd (promote_children (Some (\<lambda>i k. emit_event 9 i k None)) ''a'' demo_db))
     = tasks (fold (resolve_dependencies 5) (children_ids demo_db ''a'') demo_db)"
proof -
  have "keeps_rows (Some (\<lambda>i k. emit_event 9 i k None))"
    by (simp add: keeps_rows_def call_emit_def frame_simps)
  from promote_children_refines_store [OF this, of "''a''" demo_db 5] show ?thesis by simp
qed

section \<open>Validated parents\<close>

lemma validate_parents_iff:
  "validate_parents db ps i = Inr u \<longleftrightarrow>
     (\<forall>p \<in> set ps. find_task db p \<noteq> None \<and> p \<noteq> i \<and> (i, p) \<notin> (dag db)\<^sup>*)"
  by (induction ps) (auto simp: cycle_checks_equal split: option.split)

lemma acyclic_into_guarded:
  assumes "acyclic R" and "\<And>p. p \<in> set ps \<Longrightarrow> (i, p) \<notin> R\<^sup>*"
  shows "acyclic (R \<union> set ps \<times> {i})"
  using assms
proof (induction ps)
  case Nil
  then show ?case by simp
next
  case (Cons p ps)
  have "(i, y) \<in> R\<^sup>*" if "(i, y) \<in> (R \<union> set ps \<times> {i})\<^sup>*" for y
    using that by (induction rule: rtrancl_induct) (auto intro: rtrancl_into_rtrancl)
  with Cons.prems(2) [of p] have "(i, p) \<notin> (R \<union> set ps \<times> {i})\<^sup>*"
    by auto
  moreover have "acyclic (R \<union> set ps \<times> {i})"
    using Cons by simp
  ultimately show ?case
    by (simp add: acyclic_insert)
qed

text \<open>The integrity check accepts a list of parents exactly when each exists, differs from the
  task and cannot be reached from it, and then all of them can be linked at once without closing
  a cycle, although each is checked against the graph as it was.\<close>

theorem validate_dag_integrity_spec:
  assumes "acyclic (dag db)"
  shows "(validate_dag_integrity db ps i = Inr ps \<longleftrightarrow>
      (\<forall>p \<in> set ps. find_task db p \<noteq> None \<and> p \<noteq> i \<and> (i, p) \<notin> (dag db)\<^sup>*))
    \<and> (validate_dag_integrity db ps i = Inr ps \<longrightarrow> acyclic (dag db \<union> set ps \<times> {i}))"
proof -
  have "validate_dag_integrity db ps i = Inr ps \<longleftrightarrow> validate_parents db ps i = Inr ()"
    by (auto simp: validate_dag_integrity_def split: sum.split)
  then show ?thesis
    using acyclic_into_guarded [OF assms, of ps i] by (simp add: validate_parents_iff)
qed

theorem validate_dag_integrity_spec_witness:
  "acyclic (dag demo_db \<union> set [''a''] \<times> {''c''})"
proof -
  have "validate_dag_integrity demo_db [''a''] ''c'' = Inr [''a'']"
    by code_simp
  with validate_dag_integrity_spec [of demo_db "[''a'']" "''c''"] demo_db_ok show ?thesis
    by (simp add: db_ok_def links_ok_def)
qed

end
