(* ===== verification/ListProps.thy ===== *)
theory ListProps
  imports Dependency "HOL-Library.Multiset"
begin

text \<open>
  Creating a task and reading tasks back: the row and links a creation adds, the filters, the
  order and the pages of \<open>list_tasks\<close>, and the totals of the statistics.
\<close>

section \<open>Creation\<close>

lemma parent_specs_Nil: "parent_specs ps = Inr ss \<Longrightarrow> ss = [] \<longleftrightarrow> ps = []"
  by (cases ps) (auto split: sum.splits)

lemma new_task_simps [simp]:
  "tid (new_task now i a b) = i" "title (new_task now i a b) = arg_title a"
  "tenant (new_task now i a b) = arg_tenant a" "created_at (new_task now i a b) = now"
  "status (new_task now i a b) = status_value (if b then TODO else READY)"
  by (simp_all add: new_task_def)

lemma create_task_effect:
  assumes "db_ok db" and "create_task now i a db = (Inr t, db')"
  shows "\<exists>specs. parent_specs (arg_parents a) = Inr specs
    \<and> find_task db i = None \<and> find_task db' i = Some t
    \<and> title t = arg_title a \<and> created_at t = now
    \<and> status t = (if arg_parents a = [] then status_value READY else status_value TODO)
    \<and> (\<forall>p \<in> fst ` set specs. find_task db p \<noteq> None)
    \<and> dag db' = dag db \<union> fst ` set specs \<times> {i}
    \<and> (\<forall>j. j \<noteq> i \<longrightarrow> find_task db' j = find_task db j)"
proof -
  from assms(2) obtain specs where specs: "parent_specs (arg_parents a) = Inr specs"
    and body: "create_body now (new_task now i a (specs \<noteq> [])) specs db = Inr (t, db')"
    by (auto simp: create_task_def split: sum.splits dest!: tx_success)
  from body obtain db2 k pl where new: "find_task db i = None" and t: "t = new_task now i a (specs \<noteq> [])"
    and ps: "\<forall>p \<in> fst ` set specs. find_task db p \<noteq> None"
    and ins: "insert_links i specs (db\<lparr>tasks := tasks db @ [t]\<rparr>) = Inr db2"
    and db': "db' = emit_event now i k None pl db2"
    by (elim create_body_InrD) auto
  have "distinct (child_edges (db\<lparr>tasks := tasks db @ [t]\<rparr>))"
    using assms(1) by (simp add: db_ok_defs child_edges_def)
  note props = insert_links_props [OF ins this]
  then have "tasks db' = tasks db @ [t]"
    by (simp add: db' frame_simps same_but_links_def)
  then have find: "find_task db' j = (if j = i then Some t else find_task db j)" for j
    using new by (auto simp: find_task_def row_by_append row_by_Cons t split: option.split)
  have "dag db' = dag db \<union> fst ` set specs \<times> {i}"
    using props by (simp add: db' frame_simps) (simp add: dag_def child_edges_def)
  with specs new ps find parent_specs_Nil [OF specs] show ?thesis
    by (simp add: t)
qed

text \<open>A created task has a fresh id, exists afterwards with its fields, starts in todo if it was
  given parents and in ready otherwise (also when all its parents are done already), is linked to
  exactly its parents, all of which exist, and no other task or link changes.\<close>

theorem create_task_spec:
  assumes "db_ok db" and "create_task now i a db = (Inr t, db')"
  shows "\<exists>specs. parent_specs (arg_parents a) = Inr specs
    \<and> find_task db i = None \<and> find_task db' i = Some t
    \<and> title t = arg_title a \<and> created_at t = now
    \<and> status t = (if arg_parents a = [] then status_value READY else status_value TODO)
    \<and> (\<forall>p \<in> fst ` set specs. find_task db p \<noteq> None)
    \<and> dag db' = dag db \<union> fst ` set specs \<times> {i}
    \<and> (\<forall>j. j \<noteq> i \<longrightarrow> find_task db' j = find_task db j)"
  using assms by (rule create_task_effect)

theorem create_task_spec_witness:
  "\<exists>t db'. create_task 9 ''c'' ((CreateArgs_default ''C'')\<lparr>arg_parents := [ParentStr ''b'']\<rparr>) demo_db
       = (Inr t, db') \<and> (''b'', ''c'') \<in> dag db' \<and> status t = status_value TODO"
proof -
  let ?a = "(CreateArgs_default ''C'')\<lparr>arg_parents := [ParentStr ''b'']\<rparr>"
  have "\<not> isl (fst (create_task 9 ''c'' ?a demo_db))"
    by code_simp
  then obtain t db' where res: "create_task 9 ''c'' ?a demo_db = (Inr t, db')"
    by (metis isl_def prod.collapse sum.exhaust)
  from create_task_spec [OF demo_db_ok res] have "(''b'', ''c'') \<in> dag db'" "status t = status_value TODO"
    by auto
  with res show ?thesis by blast
qed

section \<open>Lists\<close>

definition matching :: "ListArgs \<Rightarrow> task_db \<Rightarrow> Task list" where
  "matching a db = filter (list_where a db) (tasks db)"

lemma list_tasks_eq:
  "list_tasks a db =
     (limit_offset (f_limit a) (f_offset a) (order_tasks (sort_column (f_sort a)) (matching a db)),
      length (matching a db))"
  by (simp add: list_tasks_def matching_def Let_def)

lemma mset_order_desc [simp]: "mset (order_desc f t) = mset t"
  by (simp add: order_desc_def)

lemma mset_order_tasks [simp]: "mset (order_tasks c ts) = mset ts"
  by (simp add: order_tasks_def Let_def)

lemma set_order_tasks [simp]: "set (order_tasks c ts) = set ts"
  by (metis mset_eq_setD mset_order_tasks)

lemma length_order_tasks [simp]: "length (order_tasks c ts) = length ts"
  by (metis mset_eq_length mset_order_tasks)

lemma limit_offset_all:
  "off \<le> 0 \<Longrightarrow> lim < 0 \<or> int (length t) \<le> lim \<Longrightarrow> limit_offset lim off t = t"
  by (auto simp: limit_offset_def Let_def)

text \<open>A page of a task list holds only tasks that pass every filter, no more than the limit, and
  none of another tenant when a tenant is given; the total counts all matches, and a page large
  enough from the start holds each of them exactly once.\<close>

theorem list_tasks_spec:
  "set (fst (list_tasks a db)) \<subseteq> {t \<in> set (tasks db). list_where a db t}
    \<and> snd (list_tasks a db) = length (filter (list_where a db) (tasks db))
    \<and> (0 \<le> f_limit a \<longrightarrow> int (length (fst (list_tasks a db))) \<le> f_limit a)
    \<and> (opt_true (f_tenant a) \<longrightarrow> (\<forall>t \<in> set (fst (list_tasks a db)). tenant t = f_tenant a))
    \<and> (f_offset a \<le> 0 \<and> (f_limit a < 0 \<or> int (snd (list_tasks a db)) \<le> f_limit a)
        \<longrightarrow> mset (fst (list_tasks a db)) = mset (filter (list_where a db) (tasks db)))"
proof -
  let ?all = "order_tasks (sort_column (f_sort a)) (matching a db)"
  have sub: "set (fst (list_tasks a db)) \<subseteq> {t \<in> set (tasks db). list_where a db t}"
    using set_limit_offset [of "f_limit a" "f_offset a" ?all] by (simp add: list_tasks_eq matching_def)
  then have ten: "opt_true (f_tenant a) \<longrightarrow> (\<forall>t \<in> set (fst (list_tasks a db)). tenant t = f_tenant a)"
    by (auto simp: list_where_def)
  have len: "0 \<le> f_limit a \<longrightarrow> int (length (fst (list_tasks a db))) \<le> f_limit a"
    by (auto simp: list_tasks_eq limit_offset_def Let_def)
  have all: "mset (fst (list_tasks a db)) = mset (filter (list_where a db) (tasks db))"
    if "f_offset a \<le> 0" "f_limit a < 0 \<or> int (snd (list_tasks a db)) \<le> f_limit a"
    using that limit_offset_all [of "f_offset a" "f_limit a" ?all]
    by (simp add: list_tasks_eq matching_def)
  from sub ten len all show ?thesis
    by (simp add: list_tasks_eq matching_def)
qed

theorem list_tasks_spec_witness:
  "int (length (fst (list_tasks (ListArgs_default\<lparr>f_limit := 1\<rparr>) demo_db))) \<le> 1
    \<and> snd (list_tasks (ListArgs_default\<lparr>f_limit := 1\<rparr>) demo_db) = 2"
proof -
  have "snd (list_tasks (ListArgs_default\<lparr>f_limit := 1\<rparr>) demo_db) = 2"
    by code_simp
  with list_tasks_spec [of "ListArgs_default\<lparr>f_limit := 1\<rparr>" demo_db] show ?thesis by simp
qed

text \<open>Reading on with the offset moved by the limit continues the list: two consecutive pages are
  the one page of their joint size, so no task is skipped or repeated.\<close>

theorem pages_join:
  assumes "0 \<le> m" "0 \<le> n" "0 \<le> k"
  shows "fst (list_tasks (a\<lparr>f_limit := m + n, f_offset := k\<rparr>) db)
    = fst (list_tasks (a\<lparr>f_limit := m, f_offset := k\<rparr>) db)
      @ fst (list_tasks (a\<lparr>f_limit := n, f_offset := k + m\<rparr>) db)"
proof -
  have "matching (a\<lparr>f_limit := x, f_offset := y\<rparr>) db = matching a db" for x y
    by (simp add: matching_def list_where_def cong: filter_cong)
  then show ?thesis
    using assms
    by (simp add: list_tasks_eq limit_offset_def Let_def nat_add_distrib take_add add.commute)
qed

theorem pages_join_witness:
  "fst (list_tasks (ListArgs_default\<lparr>f_limit := 2, f_offset := 0\<rparr>) demo_db)
    = fst (list_tasks (ListArgs_default\<lparr>f_limit := 1, f_offset := 0\<rparr>) demo_db)
      @ fst (list_tasks (ListArgs_default\<lparr>f_limit := 1, f_offset := 1\<rparr>) demo_db)"
  using pages_join [of 1 1 0 ListArgs_default demo_db] by simp

text \<open>The list is in descending order of the sort column; a sort key without the minus sign
  gives the same list as with it, so ascending order cannot be asked for.\<close>

theorem list_tasks_order:
  "sorted_wrt (\<lambda>x y. priority y \<le> priority x) (fst (list_tasks (a\<lparr>f_sort := ''priority''\<rparr>) db))
    \<and> sorted_wrt (\<lambda>x y. created_at y \<le> created_at x) (fst (list_tasks (a\<lparr>f_sort := ''created_at''\<rparr>) db))
    \<and> (c \<in> allowed_sorts \<longrightarrow> list_tasks (a\<lparr>f_sort := ''-'' @ c\<rparr>) db = list_tasks (a\<lparr>f_sort := c\<rparr>) db)"
proof -
  have page: "sorted_wrt P (limit_offset l k t)" if "sorted_wrt P t" for P l k and t :: "Task list"
    using that by (simp add: limit_offset_def Let_def sorted_wrt_drop sorted_wrt_take)
  have cols: "sort_column ''priority'' = ''priority''" "sort_column ''created_at'' = ''created_at''"
    by (simp_all add: sort_column_def py_startswith_def allowed_sorts_def)
  have "c \<in> allowed_sorts \<Longrightarrow> sort_column (''-'' @ c) = sort_column c"
    by (auto simp: sort_column_def py_startswith_def allowed_sorts_def)
  moreover have "matching (a\<lparr>f_sort := s\<rparr>) db = matching a db" for s
    by (simp add: matching_def list_where_def cong: filter_cong)
  ultimately show ?thesis
    by (simp add: list_tasks_eq cols order_tasks_def Let_def page sorted_order_desc)
qed

theorem list_tasks_order_witness:
  "list_tasks (ListArgs_default\<lparr>f_sort := ''-title''\<rparr>) demo_db
     = list_tasks (ListArgs_default\<lparr>f_sort := ''title''\<rparr>) demo_db"
  using list_tasks_order [of ListArgs_default demo_db "''title''"] by (simp add: allowed_sorts_def)

section \<open>Statistics\<close>

lemma sum_count_partition:
  "sum_list (map (\<lambda>g. sql_count (\<lambda>t. key t = g) rows) (sort (remdups (map key rows)))) = length rows"
proof -
  have cnt: "count (mset (map key rows)) g = sql_count (\<lambda>t. key t = g) rows" for g
    by (induction rows) (simp_all add: sql_count_def)
  have "sum_list (map (\<lambda>g. sql_count (\<lambda>t. key t = g) rows) (sort (remdups (map key rows))))
      = (\<Sum>g \<in> key ` set rows. sql_count (\<lambda>t. key t = g) rows)"
    by (subst sum_list_distinct_conv_sum_set) simp_all
  also have "\<dots> = (\<Sum>g \<in> set_mset (mset (map key rows)). count (mset (map key rows)) g)"
    using cnt by simp
  also have "\<dots> = size (mset (map key rows))"
    by (rule size_multiset_overloaded_eq [symmetric])
  finally show ?thesis by simp
qed

text \<open>The statistics of a tenant, or of all tasks, count every task once: the total is the number
  of the tasks and the counters by status add up to it.\<close>

theorem stats_add_up:
  "fst (stats ten db) = length (filter (\<lambda>t. opt_true ten \<longrightarrow> tenant t = ten) (tasks db))
    \<and> sum_list (map snd (snd (stats ten db))) = fst (stats ten db)"
  using sum_count_partition [of status "filter (\<lambda>t. opt_true ten \<longrightarrow> tenant t = ten) (tasks db)"]
  by (simp add: stats_def Let_def comp_def)

theorem stats_add_up_witness: "sum_list (map snd (snd (stats None demo_db))) = 2"
proof -
  have "fst (stats None demo_db) = 2"
    by code_simp
  with stats_add_up [of None demo_db] show ?thesis by simp
qed

text \<open>The statistics by tenant do not: tasks without a tenant and tasks of the empty tenant share
  the key of the second group, and the first group's counter is overwritten.\<close>

lemma stats_by_tenant_loses_a_group:
  "stats_by_tenant (empty_db\<lparr>tasks := [Task_default\<lparr>tid := ''a''\<rparr>, Task_default\<lparr>tid := ''b'', tenant := Some []\<rparr>]\<rparr>)
     = (2, [([], 1)])"
  by code_simp

end
