(* ===== verification/FlowControl.thy ===== *)
theory FlowControl
  imports Complex_Main TaskStore
begin

text \<open>
  \<open>orchestration/flow_control.py\<close>: per-agent concurrency permits, the circuit breaker with its
  automatic reset, and the retry backoff. The dict of agent states is a map; the clock is a
  rational argument. Log messages are left out.
\<close>

section \<open>State\<close>

record AgentFlowState =
  concurrent_count :: nat
  dispatch_failures :: nat
  circuit_tripped_until :: rat

definition AgentFlowState_default :: AgentFlowState where
  "AgentFlowState_default =
     \<lparr> concurrent_count = 0, dispatch_failures = 0, circuit_tripped_until = 0 \<rparr>"

record FlowControlConfig =
  max_concurrent_tasks :: int
  circuit_breaker_threshold :: int
  circuit_breaker_cooldown :: int
  retry_backoff_base :: int
  retry_backoff_max :: int

definition FlowControlConfig_default :: FlowControlConfig where
  "FlowControlConfig_default =
     \<lparr> max_concurrent_tasks = 5, circuit_breaker_threshold = 3, circuit_breaker_cooldown = 300,
       retry_backoff_base = 30, retry_backoff_max = 3600 \<rparr>"

record FlowController =
  fc_config :: FlowControlConfig
  agents :: "string \<Rightarrow> AgentFlowState option"

definition flow_init :: "FlowControlConfig \<Rightarrow> FlowController" where
  "flow_init cfg = \<lparr> fc_config = cfg, agents = (\<lambda>_. None) \<rparr>"

definition set_agent :: "string \<Rightarrow> AgentFlowState \<Rightarrow> FlowController \<Rightarrow> FlowController" where
  "set_agent a s fc = fc\<lparr>agents := (agents fc)(a := Some s)\<rparr>"

text \<open>\<open>setdefault\<close>: the state of the agent, a new one if there is none.\<close>

definition agent_state :: "FlowController \<Rightarrow> string \<Rightarrow> AgentFlowState" where
  "agent_state fc a = (case agents fc a of None \<Rightarrow> AgentFlowState_default | Some s \<Rightarrow> s)"

section \<open>Circuit breaker\<close>

text \<open>The check resets an elapsed circuit, so it returns the state it leaves.\<close>

definition circuit_check :: "rat \<Rightarrow> AgentFlowState \<Rightarrow> bool \<times> AgentFlowState" where
  "circuit_check now s =
     (if circuit_tripped_until s = 0 then (False, s)
      else if now \<ge> circuit_tripped_until s
           then (False, s\<lparr>circuit_tripped_until := 0, dispatch_failures := 0\<rparr>)
      else (True, s))"

definition is_circuit_tripped :: "rat \<Rightarrow> string \<Rightarrow> FlowController \<Rightarrow> bool \<times> FlowController" where
  "is_circuit_tripped now a fc =
     (case agents fc a of
        None \<Rightarrow> (False, fc)
      | Some s \<Rightarrow> (let (tripped, s') = circuit_check now s in (tripped, set_agent a s' fc)))"

definition trip_circuit :: "rat \<Rightarrow> FlowControlConfig \<Rightarrow> AgentFlowState \<Rightarrow> AgentFlowState" where
  "trip_circuit now cfg s = s\<lparr>circuit_tripped_until := now + of_int (circuit_breaker_cooldown cfg)\<rparr>"

definition reset_circuit :: "string \<Rightarrow> FlowController \<Rightarrow> FlowController" where
  "reset_circuit a fc =
     (case agents fc a of
        None \<Rightarrow> fc
      | Some s \<Rightarrow> set_agent a (s\<lparr>circuit_tripped_until := 0, dispatch_failures := 0\<rparr>) fc)"

section \<open>Permits and notifications\<close>

definition can_dispatch :: "rat \<Rightarrow> string \<Rightarrow> FlowController \<Rightarrow> bool \<times> FlowController" where
  "can_dispatch now a fc =
     (case agents fc a of
        None \<Rightarrow> (True, fc)
      | Some s \<Rightarrow>
          (let (tripped, s') = circuit_check now s; fc' = set_agent a s' fc in
           if tripped then (False, fc')
           else if max_concurrent_tasks (fc_config fc) > 0 \<and>
                   int (concurrent_count s') \<ge> max_concurrent_tasks (fc_config fc)
                then (False, fc')
           else (True, fc')))"

definition on_task_dispatched :: "string \<Rightarrow> FlowController \<Rightarrow> FlowController" where
  "on_task_dispatched a fc =
     (let s = agent_state fc a in set_agent a (s\<lparr>concurrent_count := Suc (concurrent_count s)\<rparr>) fc)"

definition on_task_arrived :: "string \<Rightarrow> FlowController \<Rightarrow> FlowController" where
  "on_task_arrived a fc =
     (case agents fc a of None \<Rightarrow> fc | Some s \<Rightarrow> set_agent a (s\<lparr>dispatch_failures := 0\<rparr>) fc)"

definition on_task_failed :: "rat \<Rightarrow> string \<Rightarrow> FlowController \<Rightarrow> FlowController" where
  "on_task_failed now a fc =
     (let s = agent_state fc a;
          s1 = s\<lparr>dispatch_failures := Suc (dispatch_failures s)\<rparr>;
          s2 = (if int (dispatch_failures s1) \<ge> circuit_breaker_threshold (fc_config fc)
                then trip_circuit now (fc_config fc) s1 else s1)
      in set_agent a s2 fc)"

definition on_task_completed :: "string \<Rightarrow> FlowController \<Rightarrow> FlowController" where
  "on_task_completed a fc =
     (case agents fc a of None \<Rightarrow> fc | Some s \<Rightarrow> set_agent a (s\<lparr>dispatch_failures := 0\<rparr>) fc)"

definition on_task_departed :: "string \<Rightarrow> FlowController \<Rightarrow> FlowController" where
  "on_task_departed a fc =
     (case agents fc a of
        None \<Rightarrow> fc
      | Some s \<Rightarrow> set_agent a (s\<lparr>concurrent_count := concurrent_count s - 1\<rparr>) fc)"

section \<open>Queries\<close>

text \<open>The loop doubles a float; powers of two times the base are exact, and the cap hides the
  largest ones.\<close>

definition get_retry_backoff :: "FlowControlConfig \<Rightarrow> int \<Rightarrow> int" where
  "get_retry_backoff cfg failure_count =
     min (((\<lambda>d. d * 2) ^^ nat (failure_count - 1)) (retry_backoff_base cfg)) (retry_backoff_max cfg)"

definition get_concurrent_count :: "string \<Rightarrow> FlowController \<Rightarrow> nat" where
  "get_concurrent_count a fc = (case agents fc a of None \<Rightarrow> 0 | Some s \<Rightarrow> concurrent_count s)"

definition get_consecutive_failures :: "string \<Rightarrow> FlowController \<Rightarrow> nat" where
  "get_consecutive_failures a fc = (case agents fc a of None \<Rightarrow> 0 | Some s \<Rightarrow> dispatch_failures s)"

definition get_remaining_cooldown :: "rat \<Rightarrow> string \<Rightarrow> FlowController \<Rightarrow> rat" where
  "get_remaining_cooldown now a fc =
     (case agents fc a of
        None \<Rightarrow> 0
      | Some s \<Rightarrow> if circuit_tripped_until s = 0 then 0 else max 0 (circuit_tripped_until s - now))"

definition flow_reset :: "FlowController \<Rightarrow> FlowController" where
  "flow_reset fc = fc\<lparr>agents := (\<lambda>_. None)\<rparr>"

lemmas flow_defs = can_dispatch_def on_task_dispatched_def on_task_arrived_def on_task_failed_def
  on_task_completed_def on_task_departed_def is_circuit_tripped_def reset_circuit_def
  set_agent_def agent_state_def circuit_check_def trip_circuit_def

lemma flow_config [frame_simps]:
  "fc_config (on_task_dispatched a fc) = fc_config fc" "fc_config (on_task_arrived a fc) = fc_config fc"
  "fc_config (on_task_failed now a fc) = fc_config fc" "fc_config (on_task_completed a fc) = fc_config fc"
  "fc_config (on_task_departed a fc) = fc_config fc" "fc_config (snd (can_dispatch now a fc)) = fc_config fc"
  by (auto simp: flow_defs Let_def split: option.split)

section \<open>The permit bound\<close>

definition within_cap :: "FlowController \<Rightarrow> bool" where
  "within_cap fc \<longleftrightarrow> max_concurrent_tasks (fc_config fc) \<le> 0 \<or>
     (\<forall>a. int (get_concurrent_count a fc) \<le> max_concurrent_tasks (fc_config fc))"

lemma get_concurrent_count_simps [simp]:
  "get_concurrent_count b (set_agent a s fc) = (if b = a then concurrent_count s else get_concurrent_count b fc)"
  by (simp add: get_concurrent_count_def set_agent_def)

lemma concurrent_count_agent_state [simp]: "concurrent_count (agent_state fc a) = get_concurrent_count a fc"
  by (simp add: agent_state_def get_concurrent_count_def AgentFlowState_default_def split: option.split)

lemma count_notifications [simp]:
  "get_concurrent_count b (on_task_dispatched a fc) =
     (if b = a then Suc (get_concurrent_count a fc) else get_concurrent_count b fc)"
  "get_concurrent_count b (on_task_arrived a fc) = get_concurrent_count b fc"
  "get_concurrent_count b (on_task_completed a fc) = get_concurrent_count b fc"
  "get_concurrent_count b (on_task_failed now a fc) = get_concurrent_count b fc"
  "get_concurrent_count b (on_task_departed a fc) =
     (if b = a then get_concurrent_count a fc - 1 else get_concurrent_count b fc)"
  "get_concurrent_count b (snd (can_dispatch now a fc)) = get_concurrent_count b fc"
  by (auto simp: on_task_dispatched_def on_task_arrived_def on_task_completed_def on_task_failed_def
      on_task_departed_def can_dispatch_def Let_def trip_circuit_def circuit_check_def
      get_concurrent_count_def set_agent_def agent_state_def AgentFlowState_default_def
      split: option.splits prod.splits)

lemma can_dispatch_below_cap:
  assumes "fst (can_dispatch now a fc)" "max_concurrent_tasks (fc_config fc) > 0"
  shows "int (get_concurrent_count a fc) < max_concurrent_tasks (fc_config fc)"
  using assms
  by (auto simp: can_dispatch_def circuit_check_def get_concurrent_count_def Let_def
      split: option.splits if_splits)

lemma within_cap_notifications:
  "within_cap fc \<Longrightarrow> within_cap (on_task_arrived a fc)"
  "within_cap fc \<Longrightarrow> within_cap (on_task_completed a fc)"
  "within_cap fc \<Longrightarrow> within_cap (on_task_failed now a fc)"
  "within_cap fc \<Longrightarrow> within_cap (snd (can_dispatch now a fc))"
  by (auto simp: within_cap_def frame_simps)

lemma within_cap_departed: "within_cap fc \<Longrightarrow> within_cap (on_task_departed a fc)"
  unfolding within_cap_def by (auto simp: frame_simps) (smt (verit) diff_le_self of_nat_mono)

lemma within_cap_dispatched:
  assumes "within_cap fc" "fst (can_dispatch now a fc)"
  shows "within_cap (on_task_dispatched a (snd (can_dispatch now a fc)))"
  using assms can_dispatch_below_cap [OF assms(2)]
  by (auto simp: within_cap_def frame_simps not_le)

section \<open>Properties\<close>

text \<open>The notifications in the order the documented protocol allows: a dispatch takes a permit only
  after \<open>can_dispatch\<close> has said yes.\<close>

datatype flow_event =
  TryDispatch rat string | Arrived string | DispatchFailed rat string | Completed string | Departed string

primrec flow_step :: "flow_event \<Rightarrow> FlowController \<Rightarrow> FlowController" where
  "flow_step (TryDispatch now a) fc =
     (let (ok, fc') = can_dispatch now a fc in if ok then on_task_dispatched a fc' else fc')"
| "flow_step (Arrived a) fc = on_task_arrived a fc"
| "flow_step (DispatchFailed now a) fc = on_task_failed now a fc"
| "flow_step (Completed a) fc = on_task_completed a fc"
| "flow_step (Departed a) fc = on_task_departed a fc"

lemma flow_step_try:
  "flow_step (TryDispatch now a) fc = (if fst (can_dispatch now a fc)
     then on_task_dispatched a (snd (can_dispatch now a fc)) else snd (can_dispatch now a fc))"
  by (simp add: Let_def split: prod.split)

lemma within_cap_step: "within_cap fc \<Longrightarrow> within_cap (flow_step ev fc)"
  using within_cap_dispatched within_cap_notifications(4)
  by (cases ev) (auto simp: within_cap_notifications within_cap_departed flow_step_try
      simp del: flow_step.simps(1))

lemma flow_config_step: "fc_config (flow_step ev fc) = fc_config fc"
  by (cases ev) (simp_all add: flow_step_try frame_simps del: flow_step.simps(1))

lemma within_cap_init: "within_cap (flow_init cfg)"
  by (auto simp: within_cap_def flow_init_def get_concurrent_count_def)

text \<open>C11: In every history of notifications in which a permit is taken only after the check, the
  count of an agent never exceeds a positive limit.\<close>

theorem permits_never_exceed_limit:
  assumes "max_concurrent_tasks cfg > 0"
  shows "int (get_concurrent_count a (fold flow_step evs (flow_init cfg))) \<le> max_concurrent_tasks cfg"
proof -
  have "within_cap (fold flow_step evs (flow_init cfg)) \<and> fc_config (fold flow_step evs (flow_init cfg)) = cfg"
  proof (rule fold_invariant)
    show "within_cap (flow_init cfg) \<and> fc_config (flow_init cfg) = cfg"
      using within_cap_init by (simp add: flow_init_def)
    show "within_cap (flow_step ev fc) \<and> fc_config (flow_step ev fc) = cfg"
      if "within_cap fc \<and> fc_config fc = cfg" for ev fc
      using that within_cap_step by (simp add: flow_config_step)
  qed
  with assms show ?thesis
    by (auto simp: within_cap_def)
qed

theorem permits_never_exceed_limit_witness:
  "int (get_concurrent_count ''w'' (fold flow_step (replicate 9 (TryDispatch 1 ''w'')) (flow_init FlowControlConfig_default))) \<le> 5"
  using permits_never_exceed_limit
    [of FlowControlConfig_default "''w''" "replicate 9 (TryDispatch 1 ''w'')"]
  by (simp add: FlowControlConfig_default_def)

text \<open>The count is not the number of tasks an agent really holds: a failed dispatch gives back a
  permit it never took, so six tasks can be out at a limit of five.\<close>

lemma failed_dispatch_frees_a_permit:
  "get_concurrent_count ''w'' (fold flow_step
     (replicate 4 (TryDispatch 1 ''w'') @ [DispatchFailed 1 ''w'', Departed ''w''] @ replicate 2 (TryDispatch 1 ''w''))
     (flow_init FlowControlConfig_default)) = 5"
  by code_simp

lemma dispatch_failures_iterate:
  "dispatch_failures (agent_state ((on_task_failed now a ^^ n) fc) a) = dispatch_failures (agent_state fc a) + n
    \<and> fc_config ((on_task_failed now a ^^ n) fc) = fc_config fc"
  by (induction n) (auto simp: flow_defs Let_def)

text \<open>When the failures of an agent reach the threshold, no dispatch to it is allowed until the
  cooldown has passed; the first check after that closes the circuit and forgets the failures.\<close>

theorem circuit_breaker_spec:
  fixes a :: string and fc :: FlowController and n :: nat and now :: rat
  assumes "n > 0" "int n \<ge> circuit_breaker_threshold (fc_config fc)"
    and "now > 0" "circuit_breaker_cooldown (fc_config fc) \<ge> 0"
  defines "fc' \<equiv> (on_task_failed now a ^^ n) fc"
    and "until \<equiv> now + of_int (circuit_breaker_cooldown (fc_config fc))"
  shows "(now \<le> t \<and> t < until \<longrightarrow> \<not> fst (can_dispatch t a fc'))
    \<and> (until \<le> t \<longrightarrow> \<not> fst (is_circuit_tripped t a fc')
         \<and> get_consecutive_failures a (snd (is_circuit_tripped t a fc')) = 0)"
proof -
  obtain m where m: "n = Suc m" using assms(1) by (cases n) auto
  let ?fc = "(on_task_failed now a ^^ m) fc"
  have "dispatch_failures (agent_state ?fc a) + 1 \<ge> n" "fc_config ?fc = fc_config fc"
    using dispatch_failures_iterate [where n = m and a = a] m by auto
  with assms(2) have "circuit_tripped_until (the (agents fc' a)) = until" "agents fc' a \<noteq> None"
    by (auto simp: fc'_def m until_def on_task_failed_def Let_def set_agent_def trip_circuit_def)
  then obtain s where s: "agents fc' a = Some s" "circuit_tripped_until s = until"
    by auto
  have "until > 0"
    using assms(3,4) by (simp add: until_def add_pos_nonneg)
  with s show ?thesis
    by (auto simp: can_dispatch_def is_circuit_tripped_def circuit_check_def Let_def
        get_consecutive_failures_def set_agent_def)
qed

theorem circuit_breaker_spec_witness:
  "\<not> fst (can_dispatch 200 ''w'' ((on_task_failed 100 ''w'' ^^ 3) (flow_init FlowControlConfig_default)))"
  using circuit_breaker_spec [of 3 "flow_init FlowControlConfig_default" 100 200 "''w''"]
  by (simp add: flow_init_def FlowControlConfig_default_def)

lemma doubling_iterate: "((\<lambda>d. d * 2) ^^ k) (b :: int) = b * 2 ^ k"
  by (induction k) simp_all

text \<open>The delay the store writes into the retry time of a failed task is the backoff of the flow
  controller with its default configuration: 30 seconds doubled per failure, at most an hour.\<close>

theorem backoff_formulas_agree:
  assumes "1 \<le> n" "n \<le> 1024"
  shows "backoff_delay n = Inr (get_retry_backoff FlowControlConfig_default (int n))
    \<and> 30 \<le> get_retry_backoff FlowControlConfig_default (int n)
    \<and> get_retry_backoff FlowControlConfig_default (int n) \<le> 3600
    \<and> get_retry_backoff FlowControlConfig_default (int n)
        \<le> get_retry_backoff FlowControlConfig_default (int n + 1)"
proof -
  obtain m where m: "n = Suc m" using assms(1) by (cases n) auto
  have "(1 :: int) \<le> 2 ^ m"
    by simp
  then have "min (30 * 2 ^ m) 3600 \<le> (30 :: int) * 2 ^ Suc m"
    by (simp add: min.coboundedI1)
  with \<open>1 \<le> 2 ^ m\<close> assms(2) show ?thesis
    by (simp add: m backoff_delay_def get_retry_backoff_def FlowControlConfig_default_def
        doubling_iterate nat_add_distrib)
qed

theorem backoff_formulas_agree_witness:
  "backoff_delay 3 = Inr 120 \<and> get_retry_backoff FlowControlConfig_default 3 = 120"
proof -
  have "get_retry_backoff FlowControlConfig_default 3 = 120"
    by code_simp
  with backoff_formulas_agree [of 3] show ?thesis by simp
qed

end
