(* ===== verification/JsonValues.thy ===== *)
theory JsonValues
  imports Prelude Complex_Main
begin

text \<open>
  Reading parsed JSON (and YAML) values the way the Python code does: truth values, \<open>dict.get\<close>,
  the numeric value of a number and the type names of error messages. A dict is its list of items
  with distinct keys; a float is kept by its printed decimal form, whose value is a rational.
\<close>

section \<open>Truth values and lookups\<close>

definition float_zero :: "string \<Rightarrow> bool" where
  "float_zero s = (s \<in> {''0.0'', ''-0.0''})"

fun json_true :: "json \<Rightarrow> bool" where
  "json_true JNull = False"
| "json_true (JBool b) = b"
| "json_true (JInt i) = (i \<noteq> 0)"
| "json_true (JFloat s) = (\<not> float_zero s)"
| "json_true (JStr s) = str_true s"
| "json_true (JList js) = (js \<noteq> [])"
| "json_true (JObj d) = (d \<noteq> [])"

text \<open>\<open>d.get(key, default)\<close>\<close>

definition dict_get :: "(string \<times> json) list \<Rightarrow> string \<Rightarrow> json \<Rightarrow> json" where
  "dict_get d k dflt = (case map_of d k of None \<Rightarrow> dflt | Some v \<Rightarrow> v)"

lemma dict_get_simps [simp]:
  "dict_get [] k v = v"
  "dict_get ((k', u) # d) k v = (if k' = k then u else dict_get d k v)"
  by (simp_all add: dict_get_def)

definition the_default :: "'a \<Rightarrow> 'a option \<Rightarrow> 'a" where
  "the_default d x = (case x of None \<Rightarrow> d | Some v \<Rightarrow> v)"

lemma the_default_simps [simp]: "the_default d None = d" "the_default d (Some v) = v"
  by (simp_all add: the_default_def)

definition json_str_opt :: "json \<Rightarrow> string option" where
  "json_str_opt j = (case j of JStr s \<Rightarrow> Some s | _ \<Rightarrow> None)"

lemma json_str_opt_simps [simp]:
  "json_str_opt (JStr s) = Some s" "json_str_opt JNull = None"
  by (simp_all add: json_str_opt_def)

text \<open>\<open>type(x).__name__\<close>\<close>

fun type_name :: "json \<Rightarrow> string" where
  "type_name JNull = ''NoneType''"
| "type_name (JBool b) = ''bool''"
| "type_name (JInt i) = ''int''"
| "type_name (JFloat s) = ''float''"
| "type_name (JStr s) = ''str''"
| "type_name (JList js) = ''list''"
| "type_name (JObj d) = ''dict''"

section \<open>Numbers\<close>

text \<open>\<open>int(x)\<close> rounds towards zero.\<close>

definition py_int :: "rat \<Rightarrow> int" where
  "py_int q = (if 0 \<le> q then \<lfloor>q\<rfloor> else \<lceil>q\<rceil>)"

definition digit_val :: "char \<Rightarrow> int" where
  "digit_val c = int (of_char c) - 48"

definition digits_val :: "string \<Rightarrow> int" where
  "digits_val s = foldl (\<lambda>n c. 10 * n + digit_val c) 0 s"

definition int_val :: "string \<Rightarrow> int" where
  "int_val s =
     (case s of [] \<Rightarrow> 0
      | c # cs \<Rightarrow> if c = CHR ''-'' then - digits_val cs
                 else if c = CHR ''+'' then digits_val cs else digits_val s)"

definition ten_power :: "int \<Rightarrow> rat" where
  "ten_power e = (if 0 \<le> e then 10 ^ nat e else 1 / 10 ^ nat (- e))"

text \<open>The value of a decimal literal: digits, an optional fraction and an optional exponent.\<close>

definition float_val :: "string \<Rightarrow> rat" where
  "float_val s =
     (let neg = (take 1 s = ''-'');
          t = (if neg then drop 1 s else s);
          mant = takeWhile (\<lambda>c. c \<noteq> CHR ''e'' \<and> c \<noteq> CHR ''E'') t;
          ex = drop (Suc (length mant)) t;
          whole = takeWhile (\<lambda>c. c \<noteq> CHR ''.'') mant;
          frac = drop (Suc (length whole)) mant;
          q = (rat_of_int (digits_val (whole @ frac))) * ten_power (- int (length frac)) * ten_power (int_val ex)
      in if neg then - q else q)"

text \<open>The value a number is compared by; a \<open>bool\<close> is an \<open>int\<close> in Python.\<close>

fun json_num :: "json \<Rightarrow> rat option" where
  "json_num (JInt i) = Some (rat_of_int i)"
| "json_num (JBool b) = Some (if b then 1 else 0)"
| "json_num (JFloat s) = Some (float_val s)"
| "json_num _ = None"

lemma json_num_NoneD: "json_num j = None \<Longrightarrow> \<exists>s js d. j = JNull \<or> j = JStr s \<or> j = JList js \<or> j = JObj d"
  by (cases j) auto

lemma float_val_demo: "float_val ''-12.50e1'' = - 125"
  by (simp add: float_val_def digits_val_def digit_val_def int_val_def ten_power_def)

end
