(* ===== verification/JsonText.thy ===== *)
theory JsonText
  imports JsonValues
begin

text \<open>
  The text form of JSON values, as \<open>json.dumps\<close> writes it and \<open>json.loads\<close> reads it, for the code
  that keeps JSON in text columns, comments and tokens. Two switches of \<open>dumps\<close> are used:
  \<open>ensure_ascii\<close> and the compact separators. The reader runs on fuel; the length of the text is
  enough. An escape that names a code point above 255 is outside the strings of this model and is
  rejected; a float keeps its printed form.
\<close>

section \<open>Printing\<close>

record dumps_opts =
  ascii_only :: bool
  item_sep :: string
  key_sep :: string

definition plain_opts :: dumps_opts where
  "plain_opts = \<lparr> ascii_only = True, item_sep = '', '', key_sep = '': '' \<rparr>"

definition unicode_opts :: dumps_opts where
  "unicode_opts = \<lparr> ascii_only = False, item_sep = '', '', key_sep = '': '' \<rparr>"

definition compact_opts :: dumps_opts where
  "compact_opts = \<lparr> ascii_only = True, item_sep = '','', key_sep = '':'' \<rparr>"

abbreviation quote :: char where
  "quote \<equiv> CHR 0x22"

abbreviation backslash :: char where
  "backslash \<equiv> CHR 0x5C"

definition hex_digit :: "nat \<Rightarrow> char" where
  "hex_digit k = (if k < 10 then char_of (48 + k) else char_of (87 + k))"

definition escape_u :: "char \<Rightarrow> string" where
  "escape_u c = (let n = of_char c :: nat in
     [backslash, CHR ''u'', CHR ''0'', CHR ''0'', hex_digit (n div 16), hex_digit (n mod 16)])"

definition print_char :: "bool \<Rightarrow> char \<Rightarrow> string" where
  "print_char ascii c =
     (if c = quote then [backslash, quote]
      else if c = backslash then [backslash, backslash]
      else if c = CHR 0x0A then [backslash, CHR ''n'']
      else if c = CHR 0x0D then [backslash, CHR ''r'']
      else if c = CHR 0x09 then [backslash, CHR ''t'']
      else if c = CHR 0x0C then [backslash, CHR ''f'']
      else if c = CHR 0x08 then [backslash, CHR ''b'']
      else if (of_char c :: nat) < 32 \<or> (ascii \<and> 126 < (of_char c :: nat)) then escape_u c
      else [c])"

definition print_str :: "bool \<Rightarrow> string \<Rightarrow> string" where
  "print_str ascii s = quote # concat (map (print_char ascii) s) @ [quote]"

fun dumps :: "dumps_opts \<Rightarrow> json \<Rightarrow> string"
  and dumps_items :: "dumps_opts \<Rightarrow> json list \<Rightarrow> string"
  and dumps_members :: "dumps_opts \<Rightarrow> (string \<times> json) list \<Rightarrow> string" where
  "dumps p JNull = ''null''"
| "dumps p (JBool b) = (if b then ''true'' else ''false'')"
| "dumps p (JInt i) = str_int i"
| "dumps p (JFloat s) = s"
| "dumps p (JStr s) = print_str (ascii_only p) s"
| "dumps p (JList js) = ''['' @ dumps_items p js @ '']''"
| "dumps p (JObj d) = ''{'' @ dumps_members p d @ ''}''"
| "dumps_items p [] = []"
| "dumps_items p [j] = dumps p j"
| "dumps_items p (j # js) = dumps p j @ item_sep p @ dumps_items p js"
| "dumps_members p [] = []"
| "dumps_members p [(k, v)] = print_str (ascii_only p) k @ key_sep p @ dumps p v"
| "dumps_members p ((k, v) # d) =
     print_str (ascii_only p) k @ key_sep p @ dumps p v @ item_sep p @ dumps_members p d"

section \<open>Reading\<close>

definition json_ws :: "char \<Rightarrow> bool" where
  "json_ws c = (c \<in> {CHR '' '', CHR 0x09, CHR 0x0A, CHR 0x0D})"

definition skip_ws :: "string \<Rightarrow> string" where
  "skip_ws s = dropWhile json_ws s"

definition hex_val :: "char \<Rightarrow> nat option" where
  "hex_val c = (let n = of_char c :: nat in
     if 48 \<le> n \<and> n \<le> 57 then Some (n - 48)
     else if 97 \<le> n \<and> n \<le> 102 then Some (n - 87)
     else if 65 \<le> n \<and> n \<le> 70 then Some (n - 55)
     else None)"

definition simple_escape :: "char \<Rightarrow> char option" where
  "simple_escape c =
     map_of [(quote, quote), (backslash, backslash), (CHR ''/'', CHR ''/''), (CHR ''b'', CHR 0x08),
             (CHR ''f'', CHR 0x0C), (CHR ''n'', CHR 0x0A), (CHR ''r'', CHR 0x0D), (CHR ''t'', CHR 0x09)] c"

definition hex_char :: "char \<Rightarrow> char \<Rightarrow> char \<Rightarrow> char \<Rightarrow> char option" where
  "hex_char a b c d =
     (if a = CHR ''0'' \<and> b = CHR ''0''
      then (case (hex_val c, hex_val d) of (Some x, Some y) \<Rightarrow> Some (char_of (16 * x + y)) | _ \<Rightarrow> None)
      else None)"

definition push_char :: "char option \<Rightarrow> (string \<times> string) option \<Rightarrow> (string \<times> string) option" where
  "push_char c r =
     (case c of None \<Rightarrow> None | Some x \<Rightarrow> map_option (\<lambda>(t, rest). (x # t, rest)) r)"

text \<open>The rest of a string literal after its opening quote.\<close>

fun read_str :: "string \<Rightarrow> (string \<times> string) option" where
  "read_str [] = None"
| "read_str (c # s) =
     (if c = quote then Some ([], s)
      else if c = backslash
      then (case s of
              [] \<Rightarrow> None
            | e # s' \<Rightarrow>
                if e = CHR ''u''
                then (case s' of a # b # x # y # r \<Rightarrow> push_char (hex_char a b x y) (read_str r) | _ \<Rightarrow> None)
                else push_char (simple_escape e) (read_str s'))
      else if (of_char c :: nat) < 32 then None
      else push_char (Some c) (read_str s))"

definition is_digit :: "char \<Rightarrow> bool" where
  "is_digit c = (48 \<le> (of_char c :: nat) \<and> (of_char c :: nat) \<le> 57)"

text \<open>Integer part, fraction and exponent of a number; the last two may be empty.\<close>

definition read_int :: "string \<Rightarrow> (string \<times> string) option" where
  "read_int s =
     (let sign = (if take 1 s = ''-'' then ''-'' else []); t = drop (length sign) s;
          ds = (if take 1 t = ''0'' then ''0'' else takeWhile is_digit t)
      in if ds = [] then None else Some (sign @ ds, drop (length ds) t))"

definition read_frac :: "string \<Rightarrow> string \<times> string" where
  "read_frac s =
     (let ds = takeWhile is_digit (drop 1 s)
      in if take 1 s = ''.'' \<and> ds \<noteq> [] then (''.'' @ ds, drop (Suc (length ds)) s) else ([], s))"

definition read_exp :: "string \<Rightarrow> string \<times> string" where
  "read_exp s =
     (let sign = (if take 1 (drop 1 s) = ''-'' \<or> take 1 (drop 1 s) = ''+'' then take 1 (drop 1 s) else []);
          ds = takeWhile is_digit (drop (Suc (length sign)) s);
          ex = take 1 s @ sign @ ds
      in if (take 1 s = ''e'' \<or> take 1 s = ''E'') \<and> ds \<noteq> [] then (ex, drop (length ex) s) else ([], s))"

definition read_number :: "string \<Rightarrow> (json \<times> string) option" where
  "read_number s =
     (case read_int s of
        None \<Rightarrow> None
      | Some (i, r) \<Rightarrow>
          (let (f, r1) = read_frac r; (e, r2) = read_exp r1 in
           Some (if f = [] \<and> e = [] then JInt (int_val i) else JFloat (i @ f @ e), r2)))"

definition literals :: "(string \<times> json) list" where
  "literals = [(''null'', JNull), (''true'', JBool True), (''false'', JBool False), (''NaN'', JFloat ''NaN''),
               (''Infinity'', JFloat ''Infinity''), (''-Infinity'', JFloat ''-Infinity'')]"

fun read_literal :: "(string \<times> json) list \<Rightarrow> string \<Rightarrow> (json \<times> string) option" where
  "read_literal [] s = None"
| "read_literal ((w, v) # ls) s =
     (if take (length w) s = w then Some (v, drop (length w) s) else read_literal ls s)"

definition read_atom :: "string \<Rightarrow> (json \<times> string) option" where
  "read_atom s = (case read_literal literals s of Some r \<Rightarrow> Some r | None \<Rightarrow> read_number s)"

text \<open>A repeated key keeps its first place and its last value.\<close>

definition make_dict :: "(string \<times> json) list \<Rightarrow> (string \<times> json) list" where
  "make_dict d = fold (\<lambda>(k, v). dict_put k v) d []"

fun read_value :: "nat \<Rightarrow> string \<Rightarrow> (json \<times> string) option"
  and read_items :: "nat \<Rightarrow> string \<Rightarrow> (json list \<times> string) option"
  and read_members :: "nat \<Rightarrow> string \<Rightarrow> ((string \<times> json) list \<times> string) option" where
  "read_value 0 s = None"
| "read_value (Suc n) s =
     (case s of
        [] \<Rightarrow> None
      | c # r \<Rightarrow>
          if c = quote then map_option (\<lambda>(t, rest). (JStr t, rest)) (read_str r)
          else if c = CHR ''['' then
            (if take 1 (skip_ws r) = '']'' then Some (JList [], drop 1 (skip_ws r))
             else map_option (\<lambda>(js, rest). (JList js, rest)) (read_items n (skip_ws r)))
          else if c = CHR ''{'' then
            (if take 1 (skip_ws r) = ''}'' then Some (JObj [], drop 1 (skip_ws r))
             else map_option (\<lambda>(d, rest). (JObj (make_dict d), rest)) (read_members n (skip_ws r)))
          else read_atom s)"
| "read_items 0 s = None"
| "read_items (Suc n) s =
     (case read_value n s of
        None \<Rightarrow> None
      | Some (v, rest) \<Rightarrow>
          (case skip_ws rest of
             [] \<Rightarrow> None
           | c # r \<Rightarrow>
               if c = CHR '']'' then Some ([v], r)
               else if c = CHR '','' then map_option (\<lambda>(vs, r'). (v # vs, r')) (read_items n (skip_ws r))
               else None))"
| "read_members 0 s = None"
| "read_members (Suc n) s =
     (case s of
        [] \<Rightarrow> None
      | q # s' \<Rightarrow>
          if q \<noteq> quote then None
          else
            (case read_str s' of
               None \<Rightarrow> None
             | Some (k, r1) \<Rightarrow>
                 (case skip_ws r1 of
                    [] \<Rightarrow> None
                  | col # r2 \<Rightarrow>
                      if col \<noteq> CHR '':'' then None
                      else
                        (case read_value n (skip_ws r2) of
                           None \<Rightarrow> None
                         | Some (v, rest) \<Rightarrow>
                             (case skip_ws rest of
                                [] \<Rightarrow> None
                              | c # r \<Rightarrow>
                                  if c = CHR ''}'' then Some ([(k, v)], r)
                                  else if c = CHR '',''
                                  then map_option (\<lambda>(d, r'). ((k, v) # d, r')) (read_members n (skip_ws r))
                                  else None)))))"

text \<open>\<open>None\<close> is \<open>JSONDecodeError\<close>.\<close>

definition loads :: "string \<Rightarrow> json option" where
  "loads s =
     (case read_value (Suc (length s)) (skip_ws s) of
        None \<Rightarrow> None
      | Some (v, rest) \<Rightarrow> if skip_ws rest = [] then Some v else None)"

end
