(* ===== verification/Contract.thy ===== *)
theory Contract
  imports JsonText
begin

text \<open>
  \<open>orchestration/contract.py\<close> and \<open>orchestration/validation.py\<close>: the envelope of every interaction
  between agents, its conversion to and from a dict, and the check of an output against its
  contract. The dataclasses do not check the types of their fields: a field is the JSON value it
  was given, and \<open>None\<close> is \<open>JNull\<close>.
\<close>

section \<open>Data\<close>

datatype InteractionMode = SYNC_CALL | TASK | JOB

primrec mode_value :: "InteractionMode \<Rightarrow> string" where
  "mode_value SYNC_CALL = ''sync_call''"
| "mode_value TASK = ''task''"
| "mode_value JOB = ''job''"

text \<open>\<open>InteractionMode(raw)\<close>; \<open>None\<close> is its \<open>ValueError\<close>.\<close>

definition mode_of_value :: "string \<Rightarrow> InteractionMode option" where
  "mode_of_value s = find (\<lambda>m. mode_value m = s) [SYNC_CALL, TASK, JOB]"

record SecurityContext =
  ctx_scope :: json
  ctx_depth :: json
  ctx_deadline_ms :: json
  ctx_chain_id :: json

record OutputContract =
  required_fields :: json

text \<open>The mode of an envelope read from a dict may be a value that is not a string.\<close>

datatype envelope_mode = Mode InteractionMode | RawMode json

record TaskEnvelope =
  te_task_id :: json
  te_mode :: envelope_mode
  te_skill :: json
  te_input_schema :: json
  te_input :: json
  te_output_contract :: "OutputContract option"
  te_security_context :: "SecurityContext option"
  te_tenant_id :: json
  te_workspace_uri :: json

definition SecurityContext_default :: SecurityContext where
  "SecurityContext_default = \<lparr> ctx_scope = JStr [], ctx_depth = JInt 0, ctx_deadline_ms = JInt 0, ctx_chain_id = JStr [] \<rparr>"

definition OutputContract_default :: OutputContract where
  "OutputContract_default = \<lparr> required_fields = JList [] \<rparr>"

section \<open>Conversion\<close>

text \<open>A dict of the fields that are not \<open>None\<close>.\<close>

definition present :: "(string \<times> json) list \<Rightarrow> (string \<times> json) list" where
  "present d = filter (\<lambda>kv. snd kv \<noteq> JNull) d"

definition context_to_dict :: "SecurityContext \<Rightarrow> (string \<times> json) list" where
  "context_to_dict c =
     present [(''effective_scope'', ctx_scope c), (''delegation_depth'', ctx_depth c),
              (''deadline_ms'', ctx_deadline_ms c), (''provenance_chain_id'', ctx_chain_id c)]"

definition context_from_dict :: "(string \<times> json) list \<Rightarrow> SecurityContext" where
  "context_from_dict d =
     \<lparr> ctx_scope = dict_get d ''effective_scope'' (JStr []), ctx_depth = dict_get d ''delegation_depth'' (JInt 0),
       ctx_deadline_ms = dict_get d ''deadline_ms'' (JInt 0),
       ctx_chain_id = dict_get d ''provenance_chain_id'' (JStr []) \<rparr>"

definition contract_to_dict :: "OutputContract \<Rightarrow> (string \<times> json) list" where
  "contract_to_dict c = present [(''required_fields'', required_fields c)]"

definition contract_from_dict :: "(string \<times> json) list \<Rightarrow> OutputContract" where
  "contract_from_dict d = \<lparr> required_fields = dict_get d ''required_fields'' (JList []) \<rparr>"

definition opt_obj :: "('a \<Rightarrow> (string \<times> json) list) \<Rightarrow> 'a option \<Rightarrow> json" where
  "opt_obj f x = (case x of None \<Rightarrow> JNull | Some v \<Rightarrow> JObj (f v))"

text \<open>\<open>None\<close> is the \<open>AttributeError\<close> of a mode without \<open>value\<close>.\<close>

definition envelope_to_dict :: "TaskEnvelope \<Rightarrow> (string \<times> json) list option" where
  "envelope_to_dict e =
     map_option (\<lambda>m. present
       [(''task_id'', te_task_id e), (''interaction_mode'', m), (''skill'', te_skill e),
        (''input_schema'', te_input_schema e), (''input'', te_input e),
        (''output_contract'', opt_obj contract_to_dict (te_output_contract e)),
        (''security_context'', opt_obj context_to_dict (te_security_context e)),
        (''tenant_id'', te_tenant_id e), (''workspace_uri'', te_workspace_uri e)])
     (case te_mode e of Mode m \<Rightarrow> Some (JStr (mode_value m)) | RawMode JNull \<Rightarrow> Some JNull | RawMode _ \<Rightarrow> None)"

definition nested :: "((string \<times> json) list \<Rightarrow> 'a) \<Rightarrow> json \<Rightarrow> 'a option" where
  "nested f j = (case j of JObj d \<Rightarrow> Some (f d) | _ \<Rightarrow> None)"

definition read_mode :: "json \<Rightarrow> envelope_mode option" where
  "read_mode j = (case j of JStr s \<Rightarrow> map_option Mode (mode_of_value s) | _ \<Rightarrow> Some (RawMode j))"

definition envelope_from_dict :: "(string \<times> json) list \<Rightarrow> TaskEnvelope option" where
  "envelope_from_dict d =
     map_option (\<lambda>m.
       \<lparr> te_task_id = dict_get d ''task_id'' (JStr []), te_mode = m, te_skill = dict_get d ''skill'' (JStr []),
         te_input_schema = dict_get d ''input_schema'' JNull, te_input = dict_get d ''input'' (JObj []),
         te_output_contract = nested contract_from_dict (dict_get d ''output_contract'' JNull),
         te_security_context = nested context_from_dict (dict_get d ''security_context'' JNull),
         te_tenant_id = dict_get d ''tenant_id'' (JStr []), te_workspace_uri = dict_get d ''workspace_uri'' JNull \<rparr>)
     (read_mode (dict_get d ''interaction_mode'' (JStr ''task'')))"

section \<open>Validation of an output\<close>

text \<open>The elements a \<open>for\<close> over the required fields visits; \<open>None\<close> is a \<open>TypeError\<close>.\<close>

definition field_items :: "json \<Rightarrow> json list option" where
  "field_items j =
     (case j of JList js \<Rightarrow> Some js | JStr s \<Rightarrow> Some (map (\<lambda>c. JStr [c]) s)
      | JObj d \<Rightarrow> Some (map (JStr \<circ> fst) d) | _ \<Rightarrow> None)"

text \<open>\<open>f not in output\<close>: a list or dict cannot be looked up.\<close>

definition missing_field :: "(string \<times> json) list \<Rightarrow> json \<Rightarrow> bool option" where
  "missing_field d f =
     (case f of JStr s \<Rightarrow> Some (s \<notin> fst ` set d) | JList _ \<Rightarrow> None | JObj _ \<Rightarrow> None | _ \<Rightarrow> Some True)"

fun missing_fields :: "(string \<times> json) list \<Rightarrow> json list \<Rightarrow> json list option" where
  "missing_fields d [] = Some []"
| "missing_fields d (f # fs) =
     (case missing_field d f of
        None \<Rightarrow> None
      | Some b \<Rightarrow> map_option (\<lambda>r. if b then f # r else r) (missing_fields d fs))"

definition validate_output :: "json \<Rightarrow> OutputContract \<Rightarrow> (bool \<times> string option) option" where
  "validate_output out c =
     (case out of
        JObj d \<Rightarrow>
          if \<not> json_true (required_fields c) then Some (True, None)
          else
            (case Option.bind (field_items (required_fields c)) (missing_fields d) of
               None \<Rightarrow> None
             | Some [] \<Rightarrow> Some (True, None)
             | Some ms \<Rightarrow>
                 if list_all (\<lambda>f. json_str_opt f \<noteq> None) ms
                 then Some (False, Some (''missing fields: '' @
                        py_join '', '' (map (\<lambda>f. the_default [] (json_str_opt f)) ms)))
                 else None)
      | _ \<Rightarrow> Some (False, Some ''output must be a dict''))"

section \<open>Facts\<close>

lemma mode_of_value_back [simp]: "mode_of_value (mode_value m) = Some m"
  by (cases m) (simp_all add: mode_of_value_def)

text \<open>Dropping \<open>None\<close> and reading with the default \<open>None\<close> cancel out.\<close>

lemma map_of_present:
  "distinct (map fst d) \<Longrightarrow> map_of (present d) k = (if map_of d k = Some JNull then None else map_of d k)"
proof (induction d)
  case (Cons kv d)
  then have "map_of d (fst kv) = None" by (simp add: map_of_eq_None_iff)
  with Cons show ?case by (cases kv) (auto simp: present_def)
qed (simp add: present_def)

lemma dict_get_present:
  "distinct (map fst d) \<Longrightarrow> dict_get (present d) k JNull = dict_get d k JNull"
  "distinct (map fst d) \<Longrightarrow> map_of d k \<noteq> Some JNull \<Longrightarrow> dict_get (present d) k x = dict_get d k x"
  by (simp_all add: dict_get_def map_of_present)

text \<open>What survives the round trip: no field with another default is \<open>None\<close>.\<close>

definition context_full :: "SecurityContext \<Rightarrow> bool" where
  "context_full c \<longleftrightarrow> ctx_scope c \<noteq> JNull \<and> ctx_depth c \<noteq> JNull \<and> ctx_deadline_ms c \<noteq> JNull \<and> ctx_chain_id c \<noteq> JNull"

definition contract_full :: "OutputContract \<Rightarrow> bool" where
  "contract_full c \<longleftrightarrow> required_fields c \<noteq> JNull"

definition envelope_full :: "TaskEnvelope \<Rightarrow> bool" where
  "envelope_full e \<longleftrightarrow> te_task_id e \<noteq> JNull \<and> te_skill e \<noteq> JNull \<and> te_input e \<noteq> JNull \<and> te_tenant_id e \<noteq> JNull \<and>
     (\<exists>m. te_mode e = Mode m) \<and> pred_option contract_full (te_output_contract e) \<and>
     pred_option context_full (te_security_context e)"

lemma context_round_trip: "context_full c \<Longrightarrow> context_from_dict (context_to_dict c) = c"
  by (simp add: context_full_def context_from_dict_def context_to_dict_def dict_get_present)

lemma contract_round_trip: "contract_full c \<Longrightarrow> contract_from_dict (contract_to_dict c) = c"
  by (simp add: contract_full_def contract_from_dict_def contract_to_dict_def dict_get_present)

lemma opt_obj_simps [simp]: "opt_obj f x = JNull \<longleftrightarrow> x = None" "nested g (opt_obj f x) = map_option (g \<circ> f) x"
  by (auto simp: opt_obj_def nested_def split: option.split)

lemma envelope_round_trip:
  assumes "envelope_full e"
  shows "\<exists>d. envelope_to_dict e = Some d \<and> envelope_from_dict d = Some e"
proof -
  obtain m where "te_mode e = Mode m" using assms by (auto simp: envelope_full_def)
  moreover have "map_option (contract_from_dict \<circ> contract_to_dict) (te_output_contract e) = te_output_contract e"
    "map_option (context_from_dict \<circ> context_to_dict) (te_security_context e) = te_security_context e"
    using assms by (auto simp: envelope_full_def contract_round_trip context_round_trip
      option.pred_set intro!: option.map_ident_strong)
  ultimately show ?thesis
    using assms by (simp add: envelope_to_dict_def envelope_from_dict_def dict_get_present read_mode_def envelope_full_def)
qed

text \<open>A contract over field names asks for exactly these.\<close>

lemma missing_fields_names:
  "missing_fields d (map JStr fs) = Some (map JStr (filter (\<lambda>f. f \<notin> fst ` set d) fs))"
  by (induction fs) (simp_all add: missing_field_def)

lemma validate_output_names:
  "validate_output out \<lparr> required_fields = JList (map JStr fs) \<rparr> = Some (True, None) \<longleftrightarrow>
     (\<exists>d. out = JObj d \<and> set fs \<subseteq> fst ` set d)"
proof (cases out)
  case (JObj d)
  let ?ms = "filter (\<lambda>f. f \<notin> fst ` set d) fs"
  have "?ms = [] \<longleftrightarrow> set fs \<subseteq> fst ` set d" by (auto simp: filter_empty_conv)
  then show ?thesis
    by (cases ?ms) (auto simp: JObj validate_output_def field_items_def missing_fields_names)
qed (simp_all add: validate_output_def)

end
