(* ===== verification/Jwt.thy ===== *)
theory Jwt
  imports JsonValues
begin

text \<open>
  \<open>auth.py\<close>: signing and verifying JSON web tokens. The text encoding of a segment (base64url of
  compact JSON), the RSA primitives of the \<open>cryptography\<close> package and PyJWT's symmetric
  algorithms are the parameter \<open>L\<close>; \<open>unb64json\<close> is \<open>None\<close> where the Python decoding raises. Every
  exception inside \<open>_rsa_verify_jwt\<close> is caught there and gives \<open>None\<close>.
\<close>

type_synonym claims = "(string \<times> json) list"

record jwt_lib =
  b64json :: "json \<Rightarrow> string"
  unb64json :: "string \<Rightarrow> json option"
  rsa_sign :: "string \<Rightarrow> string \<Rightarrow> string"
  rsa_check :: "string \<Rightarrow> string \<Rightarrow> string \<Rightarrow> bool"
  pyjwt_encode :: "claims \<Rightarrow> string \<Rightarrow> string \<Rightarrow> string"
  pyjwt_decode :: "string \<Rightarrow> string \<Rightarrow> string \<Rightarrow> string list option \<Rightarrow> string \<Rightarrow> claims option"

definition ISSUER :: string where
  "ISSUER = ''simple-a2a-registry''"

definition TOKEN_EXPIRY_SECONDS :: int where
  "TOKEN_EXPIRY_SECONDS = 3600"

definition jwt_header :: json where
  "jwt_header = JObj [(''alg'', JStr ''RS256''), (''typ'', JStr ''JWT'')]"

section \<open>RSA tokens\<close>

definition rsa_sign_jwt :: "jwt_lib \<Rightarrow> claims \<Rightarrow> string \<Rightarrow> string" where
  "rsa_sign_jwt L pl key =
     (let message = b64json L jwt_header @ ''.'' @ b64json L (JObj pl)
      in message @ ''.'' @ rsa_sign L key message)"

text \<open>\<open>any(a in token_aud for a in audience)\<close>, a bare string standing for its one-element list.\<close>

definition aud_ok :: "string list \<Rightarrow> json \<Rightarrow> bool" where
  "aud_ok audience aud =
     (case aud of
        JStr s \<Rightarrow> s \<in> set audience
      | JList js \<Rightarrow> list_ex (\<lambda>a. JStr a \<in> set js) audience
      | JObj d \<Rightarrow> list_ex (\<lambda>a. a \<in> fst ` set d) audience
      | _ \<Rightarrow> False)"

text \<open>\<open>exp and now > exp\<close>: \<open>None\<close> is the \<open>TypeError\<close> of comparing a number with another type.\<close>

definition past_expiry :: "rat \<Rightarrow> json \<Rightarrow> bool option" where
  "past_expiry now e = (if json_true e then map_option (\<lambda>q. q < now) (json_num e) else Some False)"

definition claims_ok :: "rat \<Rightarrow> string list option \<Rightarrow> string \<Rightarrow> claims \<Rightarrow> bool" where
  "claims_ok now audience issuer d =
     (past_expiry now (dict_get d ''exp'' JNull) = Some False \<and>
      dict_get d ''iss'' JNull = JStr issuer \<and>
      (case audience of None \<Rightarrow> True | Some as \<Rightarrow> aud_ok as (dict_get d ''aud'' (JList []))))"

definition rsa_verify_jwt ::
  "jwt_lib \<Rightarrow> rat \<Rightarrow> string \<Rightarrow> string \<Rightarrow> string list option \<Rightarrow> string \<Rightarrow> claims option" where
  "rsa_verify_jwt L now token key audience issuer =
     (case py_split_on (CHR ''.'') token of
        [h, p, s] \<Rightarrow>
          (case unb64json L h of
             Some (JObj head) \<Rightarrow>
               if dict_get head ''alg'' JNull \<noteq> JStr ''RS256'' then None
               else (case unb64json L p of
                       Some (JObj d) \<Rightarrow>
                         if claims_ok now audience issuer d \<and> rsa_check L key (h @ ''.'' @ p) s
                         then Some d else None
                     | _ \<Rightarrow> None)
           | _ \<Rightarrow> None)
      | _ \<Rightarrow> None)"

section \<open>Access tokens\<close>

definition access_claims ::
  "rat \<Rightarrow> string \<Rightarrow> string \<Rightarrow> string list \<Rightarrow> string \<Rightarrow> int \<Rightarrow> string \<Rightarrow> string \<Rightarrow> claims" where
  "access_claims now jti sub audience scope expiry issuer tenant =
     [(''iss'', JStr issuer), (''sub'', JStr sub), (''iat'', JInt \<lfloor>now\<rfloor>),
      (''exp'', JInt (\<lfloor>now\<rfloor> + expiry)), (''jti'', JStr jti)] @
     (if audience \<noteq> [] then [(''aud'', JList (map JStr audience))] else []) @
     (if str_true scope then [(''scope'', JStr scope)] else []) @
     (if str_true tenant then [(''tenant'', JStr tenant)] else [])"

definition encode_token :: "jwt_lib \<Rightarrow> claims \<Rightarrow> string \<Rightarrow> string \<Rightarrow> string" where
  "encode_token L pl key alg =
     (if alg = ''RS256'' then rsa_sign_jwt L pl key else pyjwt_encode L pl key alg)"

definition create_token ::
  "jwt_lib \<Rightarrow> rat \<Rightarrow> string \<Rightarrow> string \<Rightarrow> string \<Rightarrow> string \<Rightarrow> string list \<Rightarrow> string \<Rightarrow> int \<Rightarrow> string
    \<Rightarrow> string \<Rightarrow> string" where
  "create_token L now jti sub key alg audience scope expiry issuer tenant =
     encode_token L (access_claims now jti sub audience scope expiry issuer tenant) key alg"

definition verify_token ::
  "jwt_lib \<Rightarrow> rat \<Rightarrow> string \<Rightarrow> string \<Rightarrow> string \<Rightarrow> string list option \<Rightarrow> string \<Rightarrow> claims option" where
  "verify_token L now token key alg audience issuer =
     (if alg = ''RS256'' then rsa_verify_jwt L now token key audience issuer
      else pyjwt_decode L token key alg audience issuer)"

section \<open>Round trip\<close>

text \<open>What the primitives are relied on for: a segment that was encoded decodes to itself and holds
  no dot, and a signature checks under the matching key.\<close>

definition segment_ok :: "jwt_lib \<Rightarrow> json \<Rightarrow> bool" where
  "segment_ok L j = (unb64json L (b64json L j) = Some j \<and> CHR ''.'' \<notin> set (b64json L j))"

definition signature_ok :: "jwt_lib \<Rightarrow> string \<Rightarrow> string \<Rightarrow> string \<Rightarrow> bool" where
  "signature_ok L priv pub m =
     (rsa_check L pub m (rsa_sign L priv m) \<and> CHR ''.'' \<notin> set (rsa_sign L priv m))"

lemma py_split_on_none: "d \<notin> set s \<Longrightarrow> py_split_on d s = [s]"
  by (induction s) auto

lemma py_split_on_nonempty: "py_split_on d s \<noteq> []"
  by (induction s) (auto split: list.splits)

lemma py_split_on_append:
  "d \<notin> set s \<Longrightarrow> py_split_on d (s @ d # t) = s # py_split_on d t"
  by (induction s) (auto simp: py_split_on_nonempty)

lemma rsa_verify_sign_jwt:
  assumes "segment_ok L jwt_header" "segment_ok L (JObj pl)"
    and "signature_ok L priv pub (b64json L jwt_header @ ''.'' @ b64json L (JObj pl))"
  shows "rsa_verify_jwt L now (rsa_sign_jwt L pl priv) pub audience issuer =
    (if claims_ok now audience issuer pl then Some pl else None)"
proof -
  let ?h = "b64json L jwt_header" and ?p = "b64json L (JObj pl)"
  let ?s = "rsa_sign L priv (?h @ ''.'' @ ?p)"
  have "py_split_on (CHR ''.'') (?h @ CHR ''.'' # ?p @ CHR ''.'' # ?s) = [?h, ?p, ?s]"
    using assms by (simp add: py_split_on_append py_split_on_none segment_ok_def signature_ok_def)
  then show ?thesis
    using assms
    by (simp add: rsa_verify_jwt_def rsa_sign_jwt_def Let_def segment_ok_def signature_ok_def)
      (simp add: jwt_header_def)
qed

lemma access_claims_get [simp]:
  "dict_get (access_claims now jti sub audience scope expiry issuer tenant) ''iss'' d = JStr issuer"
  "dict_get (access_claims now jti sub audience scope expiry issuer tenant) ''sub'' d = JStr sub"
  "dict_get (access_claims now jti sub audience scope expiry issuer tenant) ''exp'' d = JInt (\<lfloor>now\<rfloor> + expiry)"
  "dict_get (access_claims now jti sub audience scope expiry issuer tenant) ''jti'' d = JStr jti"
  by (simp_all add: access_claims_def)

lemma access_claims_scope [simp]:
  "dict_get (access_claims now jti sub audience scope expiry issuer tenant) ''scope'' (JStr []) = JStr scope"
  "dict_get (access_claims now jti sub audience scope expiry issuer tenant) ''tenant'' (JStr []) = JStr tenant"
  by (simp_all add: access_claims_def)

lemma access_claims_ok:
  assumes "0 < \<lfloor>now\<rfloor> + expiry"
  shows "claims_ok t None issuer (access_claims now jti sub audience scope expiry issuer tenant)
    \<longleftrightarrow> t \<le> rat_of_int (\<lfloor>now\<rfloor> + expiry)"
  using assms by (simp add: claims_ok_def past_expiry_def not_less)

lemma verify_create_token:
  assumes "segment_ok L jwt_header"
    and "segment_ok L (JObj (access_claims now jti sub audience scope expiry issuer tenant))"
    and "\<forall>m. signature_ok L priv pub m" and "0 < \<lfloor>now\<rfloor> + expiry"
  shows "verify_token L t (create_token L now jti sub priv ''RS256'' audience scope expiry issuer tenant)
      pub ''RS256'' None issuer =
    (if t \<le> rat_of_int (\<lfloor>now\<rfloor> + expiry)
     then Some (access_claims now jti sub audience scope expiry issuer tenant) else None)"
  using assms
  by (simp add: verify_token_def create_token_def encode_token_def rsa_verify_sign_jwt access_claims_ok
    del: of_int_add)

text \<open>An access token verifies to exactly the claims it was created with until its expiry time, and
  to nothing afterwards.\<close>

theorem access_token_roundtrip:
  assumes "segment_ok L jwt_header"
    and "segment_ok L (JObj (access_claims now jti sub audience scope expiry issuer tenant))"
    and "\<forall>m. signature_ok L priv pub m" and "0 < \<lfloor>now\<rfloor> + expiry"
  shows "verify_token L t (create_token L now jti sub priv ''RS256'' audience scope expiry issuer tenant)
      pub ''RS256'' None issuer =
    (if t \<le> rat_of_int (\<lfloor>now\<rfloor> + expiry)
     then Some (access_claims now jti sub audience scope expiry issuer tenant) else None)"
  using assms by (rule verify_create_token)

definition demo_lib :: "json \<Rightarrow> jwt_lib" where
  "demo_lib j =
     \<lparr> b64json = (\<lambda>x. if x = jwt_header then ''h'' else ''p''),
       unb64json = (\<lambda>s. Some (if s = ''h'' then jwt_header else j)),
       rsa_sign = (\<lambda>key m. key), rsa_check = (\<lambda>key m s. s = key),
       pyjwt_encode = (\<lambda>pl key alg. []), pyjwt_decode = (\<lambda>token key alg aud iss. None) \<rparr>"

lemma demo_lib_ok [simp]:
  "j \<noteq> jwt_header \<Longrightarrow> segment_ok (demo_lib j) jwt_header"
  "j \<noteq> jwt_header \<Longrightarrow> segment_ok (demo_lib j) j"
  "signature_ok (demo_lib j) key key m \<longleftrightarrow> CHR ''.'' \<notin> set key"
  by (simp_all add: segment_ok_def signature_ok_def demo_lib_def)

theorem access_token_roundtrip_witness:
  "\<exists>L token. verify_token L 100 token ''k'' ''RS256'' None ISSUER =
      Some (access_claims 50 ''j1'' ''agent'' [] ''task:read'' 60 ISSUER []) \<and>
    verify_token L 111 token ''k'' ''RS256'' None ISSUER = None"
proof -
  let ?cl = "access_claims 50 ''j1'' ''agent'' [] ''task:read'' 60 ISSUER []"
  let ?L = "demo_lib (JObj ?cl)"
  have "JObj ?cl \<noteq> jwt_header"
    by (simp add: access_claims_def jwt_header_def)
  then have "segment_ok ?L jwt_header" "segment_ok ?L (JObj ?cl)" "\<forall>m. signature_ok ?L ''k'' ''k'' m"
    by simp_all
  then have "verify_token ?L t (create_token ?L 50 ''j1'' ''agent'' ''k'' ''RS256'' [] ''task:read'' 60 ISSUER [])
      ''k'' ''RS256'' None ISSUER = (if t \<le> 110 then Some ?cl else None)" for t
    using access_token_roundtrip [of ?L 50 "''j1''" "''agent''" "[]" "''task:read''" 60 ISSUER "[]" "''k''" "''k''" t]
    by simp
  from this [of 100] this [of 111] show ?thesis
    by (intro exI conjI) simp_all
qed

end
