(* ===== verification/Dtm.thy ===== *)
theory Dtm
  imports Jwt
begin

text \<open>
  \<open>security/dtm.py\<close>: delegation tokens. A token is minted for a task and an assignee, its scope can
  only shrink, and it is verified against the task, the agent, its expiry and the table of tokens
  already used, either as a signed JWT or by its id alone. Token ids and the time are arguments;
  \<open>num\<close> is the JSON form of a float. A verified JWT whose fields do not have the declared types is
  outside the model and gives \<open>UntypedToken\<close>.
\<close>

section \<open>Tokens\<close>

record hop =
  hop_agent :: string
  hop_action :: string
  hop_scope :: string
  hop_timestamp :: rat

record DelegatedTaskToken =
  jti :: string
  iss :: string
  sub :: string
  iat :: rat
  exp_at :: rat
  origin_agent :: string
  origin_tenant :: string
  delegation_chain :: "hop list"
  effective_scope :: string
  attenuated_from :: string
  token_max_depth :: int
  depth :: int
  allowed_callees :: "string list option"
  token_task_id :: string

definition DelegatedTaskToken_default :: DelegatedTaskToken where
  "DelegatedTaskToken_default =
     \<lparr> jti = [], iss = ISSUER, sub = [], iat = 0, exp_at = 0, origin_agent = [], origin_tenant = [],
       delegation_chain = [], effective_scope = [], attenuated_from = [], token_max_depth = 10, depth = 0,
       allowed_callees = None, token_task_id = [] \<rparr>"

definition hop_json :: "(rat \<Rightarrow> json) \<Rightarrow> hop \<Rightarrow> json" where
  "hop_json num h =
     JObj [(''agent'', JStr (hop_agent h)), (''action'', JStr (hop_action h)), (''scope'', JStr (hop_scope h)),
           (''timestamp'', num (hop_timestamp h))]"

definition callees_json :: "string list option \<Rightarrow> json" where
  "callees_json c = (case c of None \<Rightarrow> JNull | Some xs \<Rightarrow> JList (map JStr xs))"

definition to_jwt_payload :: "(rat \<Rightarrow> json) \<Rightarrow> DelegatedTaskToken \<Rightarrow> claims" where
  "to_jwt_payload num t =
     [(''jti'', JStr (jti t)), (''iss'', JStr (iss t)), (''sub'', JStr (sub t)), (''iat'', num (iat t)),
      (''exp'', num (exp_at t)), (''origin_agent'', JStr (origin_agent t)),
      (''origin_tenant'', JStr (origin_tenant t)),
      (''delegation_chain'', JList (map (hop_json num) (delegation_chain t))),
      (''effective_scope'', JStr (effective_scope t)), (''attenuated_from'', JStr (attenuated_from t)),
      (''max_depth'', JInt (token_max_depth t)), (''depth'', JInt (depth t)),
      (''allowed_callees'', callees_json (allowed_callees t)), (''task_id'', JStr (token_task_id t))]"

definition to_jwt :: "jwt_lib \<Rightarrow> (rat \<Rightarrow> json) \<Rightarrow> DelegatedTaskToken \<Rightarrow> string \<Rightarrow> string" where
  "to_jwt L num t key = rsa_sign_jwt L (to_jwt_payload num t) key"

text \<open>The errors, with what their messages name.\<close>

datatype dtm_error =
    TokenMalformed
  | TokenNotFound string
  | TokenExpired rat
  | TokenTaskMismatch string string
  | TokenSubjectMismatch string string
  | TokenReplay string
  | UntypedToken

section \<open>Reading a JWT\<close>

definition hop_of :: "json \<Rightarrow> hop option" where
  "hop_of j =
     (case j of
        JObj d \<Rightarrow>
          (case (json_str_opt (dict_get d ''agent'' JNull), json_str_opt (dict_get d ''action'' JNull),
                 json_str_opt (dict_get d ''scope'' JNull), json_num (dict_get d ''timestamp'' JNull)) of
             (Some a, Some c, Some s, Some t) \<Rightarrow>
               Some \<lparr> hop_agent = a, hop_action = c, hop_scope = s, hop_timestamp = t \<rparr>
           | _ \<Rightarrow> None)
      | _ \<Rightarrow> None)"

fun all_some :: "'a option list \<Rightarrow> 'a list option" where
  "all_some [] = Some []"
| "all_some (None # xs) = None"
| "all_some (Some x # xs) = map_option ((#) x) (all_some xs)"

definition callees_of :: "json \<Rightarrow> string list option option" where
  "callees_of j =
     (case j of JNull \<Rightarrow> Some None | JList js \<Rightarrow> map_option Some (all_some (map json_str_opt js)) | _ \<Rightarrow> None)"

definition chain_of :: "json \<Rightarrow> hop list option" where
  "chain_of j = (case j of JList js \<Rightarrow> all_some (map hop_of js) | _ \<Rightarrow> None)"

definition json_int_opt :: "json \<Rightarrow> int option" where
  "json_int_opt j = (case j of JInt i \<Rightarrow> Some i | _ \<Rightarrow> None)"

definition token_of_claims :: "claims \<Rightarrow> DelegatedTaskToken option" where
  "token_of_claims d =
     (let str = (\<lambda>k dflt. json_str_opt (dict_get d k (JStr dflt))) in
      case (str ''jti'' [], str ''iss'' ISSUER, str ''sub'' [], str ''origin_agent'' [], str ''origin_tenant'' [],
            str ''effective_scope'' [], str ''attenuated_from'' [], str ''task_id'' []) of
        (Some j, Some i, Some s, Some oa, Some ot, Some es, Some af, Some ti) \<Rightarrow>
          (case (json_num (dict_get d ''iat'' (JInt 0)), json_num (dict_get d ''exp'' (JInt 0)),
                 chain_of (dict_get d ''delegation_chain'' (JList [])),
                 json_int_opt (dict_get d ''max_depth'' (JInt 10)), json_int_opt (dict_get d ''depth'' (JInt 0)),
                 callees_of (dict_get d ''allowed_callees'' JNull)) of
             (Some ia, Some ex, Some ch, Some md, Some de, Some ca) \<Rightarrow>
               Some \<lparr> jti = j, iss = i, sub = s, iat = ia, exp_at = ex, origin_agent = oa, origin_tenant = ot,
                      delegation_chain = ch, effective_scope = es, attenuated_from = af,
                      token_max_depth = md, depth = de, allowed_callees = ca, token_task_id = ti \<rparr>
           | _ \<Rightarrow> None)
      | _ \<Rightarrow> None)"

text \<open>The early look at the expiry; whatever else goes wrong there is left to the full verification.\<close>

definition early_expiry :: "jwt_lib \<Rightarrow> rat \<Rightarrow> string \<Rightarrow> rat option" where
  "early_expiry L now token =
     (case py_split_on (CHR ''.'') token of
        [h, p, s] \<Rightarrow>
          (case unb64json L p of
             Some (JObj d) \<Rightarrow>
               (let e = dict_get d ''exp'' (JInt 0) in
                if past_expiry now e = Some True then json_num e else None)
           | _ \<Rightarrow> None)
      | _ \<Rightarrow> None)"

definition from_jwt :: "jwt_lib \<Rightarrow> rat \<Rightarrow> string \<Rightarrow> string \<Rightarrow> dtm_error + DelegatedTaskToken" where
  "from_jwt L now token key =
     (case early_expiry L now token of
        Some e \<Rightarrow> Inl (TokenExpired e)
      | None \<Rightarrow>
          (case rsa_verify_jwt L now token key None ISSUER of
             None \<Rightarrow> Inl TokenMalformed
           | Some d \<Rightarrow>
               (case token_of_claims d of None \<Rightarrow> Inl UntypedToken | Some t \<Rightarrow> Inr t)))"

section \<open>Scope attenuation\<close>

datatype restriction =
    NoRestriction
  | Exclude "string list"
  | ReduceTo "string list"
  | MapScopes "(string \<times> string) list"
  | OtherRestriction

definition map_scope :: "(string \<times> string) list \<Rightarrow> string set \<Rightarrow> string \<Rightarrow> string" where
  "map_scope mapping parent s =
     (case map_of mapping s of None \<Rightarrow> s | Some m \<Rightarrow> if m \<in> parent then m else s)"

primrec restricted :: "restriction \<Rightarrow> string set \<Rightarrow> string set" where
  "restricted NoRestriction parent = parent"
| "restricted (Exclude xs) parent = parent - set xs"
| "restricted (ReduceTo xs) parent = parent \<inter> set xs"
| "restricted (MapScopes m) parent = map_scope m parent ` parent"
| "restricted OtherRestriction parent = parent"

text \<open>\<open>None\<close> is the \<open>ValueError\<close> for an empty result.\<close>

definition attenuate_scope :: "string \<Rightarrow> restriction \<Rightarrow> string option" where
  "attenuate_scope parent r =
     (if r = NoRestriction then Some parent
      else
        (let attenuated = py_join '' '' (sorted_list_of_set (restricted r (set (py_split parent))))
         in if str_true attenuated then Some attenuated else None))"

section \<open>The token table\<close>

record token_row =
  dt_jti :: string
  dt_task_id :: string
  dt_sub :: string
  dt_origin_agent :: string
  dt_scope :: string
  dt_depth :: int
  dt_expires_at :: int
  dt_used_at :: "rat option"
  dt_created_at :: rat

type_synonym token_table = "token_row list"

record dtm =
  dtm_lib :: jwt_lib
  dtm_public_key :: string
  dtm_default_ttl :: rat
  dtm_max_depth :: int

definition mint_delegation_token ::
  "dtm \<Rightarrow> rat \<Rightarrow> string \<Rightarrow> string \<Rightarrow> string \<Rightarrow> string \<Rightarrow> string \<Rightarrow> string \<Rightarrow> hop list \<Rightarrow> string \<Rightarrow> restriction
    \<Rightarrow> int \<Rightarrow> int option \<Rightarrow> rat option \<Rightarrow> string list option \<Rightarrow> DelegatedTaskToken option" where
  "mint_delegation_token M now uuid s task oa ot scope parent_chain parent_scope r dep md ttl callees =
     map_option (\<lambda>attenuated.
       \<lparr> jti = uuid, iss = ISSUER, sub = s, iat = now, exp_at = now + the_default (dtm_default_ttl M) ttl,
         origin_agent = oa, origin_tenant = ot,
         delegation_chain = parent_chain @
           [\<lparr> hop_agent = s, hop_action = ''delegate'', hop_scope = scope, hop_timestamp = now \<rparr>],
         effective_scope = attenuated, attenuated_from = str_or parent_scope scope,
         token_max_depth = the_default (dtm_max_depth M) md, depth = dep, allowed_callees = callees,
         token_task_id = task \<rparr>)
     (attenuate_scope scope r)"

text \<open>\<open>INSERT OR IGNORE\<close>; the foreign key on the task is checked (\<open>None\<close> when it is violated).\<close>

definition persist_token ::
  "(string \<Rightarrow> bool) \<Rightarrow> rat \<Rightarrow> DelegatedTaskToken \<Rightarrow> token_table \<Rightarrow> token_table option" where
  "persist_token task_exists now t tab =
     (if row_by dt_jti (jti t) tab \<noteq> None then Some tab
      else if \<not> task_exists (token_task_id t) then None
      else Some (tab @
        [\<lparr> dt_jti = jti t, dt_task_id = token_task_id t, dt_sub = sub t, dt_origin_agent = origin_agent t,
           dt_scope = effective_scope t, dt_depth = depth t, dt_expires_at = py_int (exp_at t),
           dt_used_at = None, dt_created_at = now \<rparr>]))"

section \<open>Verification\<close>

definition mark_used :: "rat \<Rightarrow> string \<Rightarrow> token_table \<Rightarrow> token_table" where
  "mark_used now i tab =
     sql_update (\<lambda>r. dt_jti r = i \<and> dt_used_at r = None) (\<lambda>r. r\<lparr>dt_used_at := Some now\<rparr>) tab"

definition row_error :: "rat \<Rightarrow> string \<Rightarrow> string \<Rightarrow> token_row \<Rightarrow> dtm_error option" where
  "row_error now task agent r =
     (if rat_of_int (dt_expires_at r) < now then Some (TokenExpired (rat_of_int (dt_expires_at r)))
      else if dt_task_id r \<noteq> task then Some (TokenTaskMismatch (dt_task_id r) task)
      else if str_true (dt_sub r) \<and> dt_sub r \<noteq> agent then Some (TokenSubjectMismatch (dt_sub r) agent)
      else if dt_used_at r \<noteq> None then Some (TokenReplay (dt_jti r))
      else None)"

definition verify_by_id ::
  "rat \<Rightarrow> string \<Rightarrow> string \<Rightarrow> string \<Rightarrow> bool \<Rightarrow> token_table \<Rightarrow> (dtm_error + DelegatedTaskToken) \<times> token_table" where
  "verify_by_id now i task agent consume tab =
     (case row_by dt_jti i tab of
        None \<Rightarrow> (Inl (TokenNotFound i), tab)
      | Some r \<Rightarrow>
          (case row_error now task agent r of
             Some e \<Rightarrow> (Inl e, tab)
           | None \<Rightarrow>
               (Inr (DelegatedTaskToken_default\<lparr>jti := i, sub := agent, token_task_id := task\<rparr>),
                if consume then mark_used now (dt_jti r) tab else tab)))"

definition token_error :: "rat \<Rightarrow> string \<Rightarrow> string \<Rightarrow> DelegatedTaskToken \<Rightarrow> dtm_error option" where
  "token_error now task agent t =
     (if exp_at t < now then Some (TokenExpired (exp_at t))
      else if token_task_id t \<noteq> task then Some (TokenTaskMismatch (token_task_id t) task)
      else if str_true (sub t) \<and> sub t \<noteq> agent then Some (TokenSubjectMismatch (sub t) agent)
      else None)"

definition verify_jwt ::
  "dtm \<Rightarrow> rat \<Rightarrow> string \<Rightarrow> string \<Rightarrow> string \<Rightarrow> bool \<Rightarrow> token_table \<Rightarrow> (dtm_error + DelegatedTaskToken) \<times> token_table" where
  "verify_jwt M now token task agent consume tab =
     (case from_jwt (dtm_lib M) now token (dtm_public_key M) of
        Inl e \<Rightarrow> (Inl e, tab)
      | Inr t \<Rightarrow>
          (case token_error now task agent t of
             Some e \<Rightarrow> (Inl e, tab)
           | None \<Rightarrow>
               if filter (\<lambda>r. dt_jti r = jti t \<and> dt_used_at r \<noteq> None) tab \<noteq> []
               then (Inl (TokenReplay (jti t)), tab)
               else (Inr t, if consume then mark_used now (jti t) tab else tab)))"

definition verify_delegation_token ::
  "dtm \<Rightarrow> rat \<Rightarrow> string \<Rightarrow> string \<Rightarrow> string \<Rightarrow> bool \<Rightarrow> token_table \<Rightarrow> (dtm_error + DelegatedTaskToken) \<times> token_table" where
  "verify_delegation_token M now token task agent consume tab =
     (if CHR ''.'' \<notin> set token then verify_by_id now token task agent consume tab
      else verify_jwt M now token task agent consume tab)"

end
