(* ===== verification/Regex.thy ===== *)
theory Regex
  imports Prelude
begin

text \<open>
  The part of Python's \<open>re\<close> the program uses: a backtracking matcher. \<open>ends r s i\<close> lists the
  positions at which a match of \<open>r\<close> that begins at position \<open>i\<close> of \<open>s\<close> can end, in the order in which
  the matcher tries them, so the first one is the match. Repetition is of character classes only,
  which is all the patterns need. Texts hold code points below 256; case-insensitive patterns are
  written in lower case and compare lowered characters.
\<close>

datatype regex =
    Empty
  | Sym "char \<Rightarrow> bool"
  | Many "char \<Rightarrow> bool" nat
  | Lazy "char \<Rightarrow> bool" nat
  | Seq regex regex
  | Alt regex regex
  | NotBehind "char \<Rightarrow> bool"
  | NotAhead "char \<Rightarrow> bool"
  | WordEdge
  | AtStart
  | AtEnd

text \<open>\<open>\\w\<close> for code points below 256: letters, digits and numeric signs, and the underscore.\<close>

definition word_char :: "char \<Rightarrow> bool" where
  "word_char c = (let n = of_char c :: nat in
     (48 \<le> n \<and> n \<le> 57) \<or> (65 \<le> n \<and> n \<le> 90) \<or> n = 95 \<or> (97 \<le> n \<and> n \<le> 122) \<or>
     n \<in> {170, 178, 179, 181, 185, 186, 188, 189, 190} \<or> (192 \<le> n \<and> n \<noteq> 215 \<and> n \<noteq> 247))"

definition word_before :: "string \<Rightarrow> nat \<Rightarrow> bool" where
  "word_before s i = (0 < i \<and> i \<le> length s \<and> word_char (s ! (i - 1)))"

definition word_after :: "string \<Rightarrow> nat \<Rightarrow> bool" where
  "word_after s i = (i < length s \<and> word_char (s ! i))"

text \<open>The length of the run of class \<open>P\<close> at position \<open>i\<close>.\<close>

definition run_length :: "(char \<Rightarrow> bool) \<Rightarrow> string \<Rightarrow> nat \<Rightarrow> nat" where
  "run_length P s i = length (takeWhile P (drop i s))"

definition here :: "bool \<Rightarrow> nat \<Rightarrow> nat list" where
  "here b i = (if b then [i] else [])"

primrec ends :: "regex \<Rightarrow> string \<Rightarrow> nat \<Rightarrow> nat list" where
  "ends Empty s i = [i]"
| "ends (Sym P) s i = (if i < length s \<and> P (s ! i) then [Suc i] else [])"
| "ends (Many P lo) s i = rev (map (\<lambda>k. i + k) [lo..<Suc (run_length P s i)])"
| "ends (Lazy P lo) s i = map (\<lambda>k. i + k) [lo..<Suc (run_length P s i)]"
| "ends (Seq a b) s i = concat (map (ends b s) (ends a s i))"
| "ends (Alt a b) s i = ends a s i @ ends b s i"
| "ends (NotBehind P) s i = here (\<not> (0 < i \<and> i \<le> length s \<and> P (s ! (i - 1)))) i"
| "ends (NotAhead P) s i = here (\<not> (i < length s \<and> P (s ! i))) i"
| "ends WordEdge s i = here (word_before s i \<noteq> word_after s i) i"
| "ends AtStart s i = here (i = 0) i"
| "ends AtEnd s i = here (i = length s \<or> (Suc i = length s \<and> s ! i = CHR 0x0A)) i"

text \<open>\<open>pattern.search\<close>: the leftmost match, as its begin and end.\<close>

definition rx_search :: "regex \<Rightarrow> string \<Rightarrow> (nat \<times> nat) option" where
  "rx_search r s =
     map_option (\<lambda>i. (i, hd (ends r s i))) (find (\<lambda>i. ends r s i \<noteq> []) [0..<Suc (length s)])"

definition rx_found :: "regex \<Rightarrow> string \<Rightarrow> bool" where
  "rx_found r s = (rx_search r s \<noteq> None)"

text \<open>\<open>match.group()\<close>\<close>

definition rx_group :: "string \<Rightarrow> nat \<times> nat \<Rightarrow> string" where
  "rx_group s m = take (snd m - fst m) (drop (fst m) s)"

text \<open>\<open>pattern.sub(repl, s)\<close> from position \<open>i\<close> on, for a pattern without empty matches.\<close>

function rx_sub_from :: "regex \<Rightarrow> string \<Rightarrow> string \<Rightarrow> nat \<Rightarrow> string" where
  "rx_sub_from r repl s i =
     (if length s \<le> i then []
      else
        (case ends r s i of
           [] \<Rightarrow> s ! i # rx_sub_from r repl s (Suc i)
         | j # _ \<Rightarrow> if i < j then repl @ rx_sub_from r repl s j else s ! i # rx_sub_from r repl s (Suc i)))"
  by pat_completeness auto
termination
  by (relation "measure (\<lambda>(r, repl, s, i). length s - i)") auto

declare rx_sub_from.simps [simp del]

definition rx_sub :: "regex \<Rightarrow> string \<Rightarrow> string \<Rightarrow> string" where
  "rx_sub r repl s = rx_sub_from r repl s 0"

section \<open>Building patterns\<close>

fun seqs :: "regex list \<Rightarrow> regex" where
  "seqs [] = Empty"
| "seqs [r] = r"
| "seqs (r # rs) = Seq r (seqs rs)"

fun alts :: "regex list \<Rightarrow> regex" where
  "alts [] = Empty"
| "alts [r] = r"
| "alts (r # rs) = Alt r (alts rs)"

definition lit :: "string \<Rightarrow> regex" where
  "lit w = seqs (map (\<lambda>c. Sym (\<lambda>d. d = c)) w)"

definition ci :: "string \<Rightarrow> regex" where
  "ci w = seqs (map (\<lambda>c. Sym (\<lambda>d. py_lower_char d = c)) w)"

definition opt :: "regex \<Rightarrow> regex" where
  "opt r = Alt r Empty"

definition spaces :: regex where
  "spaces = Many py_isspace 1"

definition spaces0 :: regex where
  "spaces0 = Many py_isspace 0"

section \<open>Facts\<close>

lemma rx_found_iff: "rx_found r s \<longleftrightarrow> (\<exists>i \<le> length s. ends r s i \<noteq> [])"
  by (auto simp: rx_found_def rx_search_def find_None_iff less_Suc_eq_le simp del: upt_Suc)

lemma rx_search_Some:
  assumes "rx_search r s = Some (i, j)"
  shows "i \<le> length s \<and> ends r s i \<noteq> [] \<and> j = hd (ends r s i) \<and> (\<forall>k < i. ends r s k = [])"
  using assms by (auto simp: rx_search_def find_Some_iff less_Suc_eq_le simp del: upt_Suc)

text \<open>A leaf of a pattern never begins or ends beyond the text.\<close>

lemma run_length_bound: "run_length P s i \<le> length s - i"
  using length_takeWhile_le [of P "drop i s"] by (simp add: run_length_def)

lemma ends_bounds: "j \<in> set (ends r s i) \<Longrightarrow> i \<le> length s \<Longrightarrow> i \<le> j \<and> j \<le> length s"
proof (induction r arbitrary: i j)
  case (Many P lo)
  then show ?case using run_length_bound [of P s i] by auto
next
  case (Lazy P lo)
  then show ?case using run_length_bound [of P s i] by auto
next
  case (Seq a b)
  then show ?case by fastforce
qed (auto simp: here_def split: if_splits)

text \<open>A text without a match is left as it is.\<close>

lemma rx_sub_from_unfound:
  "\<not> rx_found r s \<Longrightarrow> i \<le> length s \<Longrightarrow> rx_sub_from r repl s i = drop i s"
proof (induction "length s - i" arbitrary: i)
  case 0
  then show ?case by (subst rx_sub_from.simps) simp
next
  case (Suc n)
  then have "ends r s i = []" by (auto simp: rx_found_iff)
  with Suc show ?case by (subst rx_sub_from.simps) (simp add: Cons_nth_drop_Suc)
qed

lemma rx_sub_unfound: "\<not> rx_found r s \<Longrightarrow> rx_sub r repl s = s"
  by (simp add: rx_sub_def rx_sub_from_unfound)

end
