(* ===== verification/SecurityEvents.thy ===== *)
theory SecurityEvents
  imports JsonValues
begin

text \<open>
  \<open>security/events.py\<close>: the audit trail of security decisions. The table \<open>security_events\<close> is a
  list of rows; the JSON columns hold the parsed value. Publishing to the event bus is fire and
  forget: the event handed over is appended to \<open>published\<close>. The id of a new event and the time
  are arguments.
\<close>

datatype SecurityEventType =
    AUTH_FAILURE | SCOPE_DENIED | TENANT_MISMATCH | AGENT_NOT_FOUND | AGENT_DISABLED
  | DELEGATION_DEPTH_EXCEEDED | TOKEN_EXPIRED | TOKEN_INVALID | TOKEN_MISMATCH
  | AUTHORIZATION_DENIED | AUTHORIZATION_ALLOWED | DISPATCH_DENY | PLUGIN_REJECT
  | SECURITY_VIOLATION | MODE_AUDIT | MODE_WARN

primrec event_type_value :: "SecurityEventType \<Rightarrow> string" where
  "event_type_value AUTH_FAILURE = ''AUTH_FAILURE''"
| "event_type_value SCOPE_DENIED = ''SCOPE_DENIED''"
| "event_type_value TENANT_MISMATCH = ''TENANT_MISMATCH''"
| "event_type_value AGENT_NOT_FOUND = ''AGENT_NOT_FOUND''"
| "event_type_value AGENT_DISABLED = ''AGENT_DISABLED''"
| "event_type_value DELEGATION_DEPTH_EXCEEDED = ''DELEGATION_DEPTH_EXCEEDED''"
| "event_type_value TOKEN_EXPIRED = ''TOKEN_EXPIRED''"
| "event_type_value TOKEN_INVALID = ''TOKEN_INVALID''"
| "event_type_value TOKEN_MISMATCH = ''TOKEN_MISMATCH''"
| "event_type_value AUTHORIZATION_DENIED = ''AUTHORIZATION_DENIED''"
| "event_type_value AUTHORIZATION_ALLOWED = ''AUTHORIZATION_ALLOWED''"
| "event_type_value DISPATCH_DENY = ''DISPATCH_DENY''"
| "event_type_value PLUGIN_REJECT = ''PLUGIN_REJECT''"
| "event_type_value SECURITY_VIOLATION = ''SECURITY_VIOLATION''"
| "event_type_value MODE_AUDIT = ''MODE_AUDIT''"
| "event_type_value MODE_WARN = ''MODE_WARN''"

record SecurityEvent =
  se_id :: string
  se_type :: string
  se_timestamp :: rat
  se_actor :: string
  se_target :: string
  se_tenant :: string
  se_decision :: string
  se_reason :: string
  se_scope_used :: string
  se_task_id :: "string option"
  se_created_at :: rat
  se_delegation_chain :: "json list option"
  se_metadata :: "(string \<times> json) list"

text \<open>The arguments of \<open>record\<close>; the keyword arguments have defaults.\<close>

record EventArgs =
  ea_type :: string
  ea_actor :: string
  ea_target :: string
  ea_decision :: string
  ea_tenant :: string
  ea_reason :: string
  ea_scope_used :: string
  ea_delegation_chain :: "json list option"
  ea_metadata :: "(string \<times> json) list option"
  ea_task_id :: "string option"

definition EventArgs_default :: "string \<Rightarrow> string \<Rightarrow> string \<Rightarrow> string \<Rightarrow> EventArgs" where
  "EventArgs_default ty ac tg dec =
     \<lparr> ea_type = ty, ea_actor = ac, ea_target = tg, ea_decision = dec, ea_tenant = [], ea_reason = [],
       ea_scope_used = [], ea_delegation_chain = None, ea_metadata = None, ea_task_id = None \<rparr>"

record event_store =
  se_rows :: "SecurityEvent list"
  has_bus :: bool
  published :: "(string \<times> SecurityEvent \<times> string) list"

definition or_empty :: "(string \<times> json) list option \<Rightarrow> (string \<times> json) list" where
  "or_empty m = (case m of None \<Rightarrow> [] | Some d \<Rightarrow> d)"

text \<open>The event that is returned and published: its \<open>task_id\<close> and \<open>created_at\<close> keep the defaults.\<close>

definition new_event :: "string \<Rightarrow> rat \<Rightarrow> EventArgs \<Rightarrow> SecurityEvent" where
  "new_event eid now a =
     \<lparr> se_id = eid, se_type = ea_type a, se_timestamp = now, se_actor = ea_actor a,
       se_target = ea_target a, se_tenant = ea_tenant a, se_decision = ea_decision a,
       se_reason = ea_reason a, se_scope_used = ea_scope_used a, se_task_id = Some [],
       se_created_at = 0, se_delegation_chain = ea_delegation_chain a,
       se_metadata = or_empty (ea_metadata a) \<rparr>"

definition event_row :: "string \<Rightarrow> rat \<Rightarrow> EventArgs \<Rightarrow> SecurityEvent" where
  "event_row eid now a =
     (new_event eid now a)
       \<lparr> se_task_id := ea_task_id a, se_created_at := now,
         se_delegation_chain := (if ea_delegation_chain a = Some [] then None else ea_delegation_chain a) \<rparr>"

definition record_event :: "string \<Rightarrow> rat \<Rightarrow> EventArgs \<Rightarrow> event_store \<Rightarrow> SecurityEvent \<times> event_store" where
  "record_event eid now a s =
     (let ev = new_event eid now a;
          rows = (if row_by se_id eid (se_rows s) = None then se_rows s @ [event_row eid now a] else se_rows s);
          pub = (if has_bus s
                 then published s @ [(''security.'' @ py_lower (ea_type a), ev, ea_tenant a)] else published s)
      in (ev, s\<lparr>se_rows := rows, published := pub\<rparr>))"

definition list_by_task :: "string \<Rightarrow> int \<Rightarrow> int \<Rightarrow> event_store \<Rightarrow> SecurityEvent list" where
  "list_by_task i limit offset s =
     limit_offset limit offset (order_desc se_created_at (filter (\<lambda>r. se_task_id r = Some i) (se_rows s)))"

record EventFilter =
  ef_type :: "string option"
  ef_actor :: "string option"
  ef_tenant :: "string option"
  ef_task_id :: "string option"
  ef_since :: "rat option"
  ef_until :: "rat option"

definition no_filter :: EventFilter where
  "no_filter = \<lparr> ef_type = None, ef_actor = None, ef_tenant = None, ef_task_id = None,
                 ef_since = None, ef_until = None \<rparr>"

text \<open>One clause \<open>column = ?\<close>, left out when the argument is empty.\<close>

definition clause_eq :: "string option \<Rightarrow> string option \<Rightarrow> bool" where
  "clause_eq arg col = (opt_true arg \<longrightarrow> col = arg)"

definition event_where :: "EventFilter \<Rightarrow> SecurityEvent \<Rightarrow> bool" where
  "event_where f r =
     (clause_eq (ef_type f) (Some (se_type r)) \<and>
      clause_eq (ef_actor f) (Some (se_actor r)) \<and>
      clause_eq (ef_tenant f) (Some (se_tenant r)) \<and>
      clause_eq (ef_task_id f) (se_task_id r) \<and>
      (case ef_since f of None \<Rightarrow> True | Some t \<Rightarrow> t \<le> se_created_at r) \<and>
      (case ef_until f of None \<Rightarrow> True | Some t \<Rightarrow> se_created_at r < t))"

definition list_all_events :: "int \<Rightarrow> int \<Rightarrow> EventFilter \<Rightarrow> event_store \<Rightarrow> SecurityEvent list" where
  "list_all_events limit offset f s =
     limit_offset limit offset (order_desc se_created_at (filter (event_where f) (se_rows s)))"

definition count_all_events :: "EventFilter \<Rightarrow> event_store \<Rightarrow> nat" where
  "count_all_events f s = sql_count (event_where f) (se_rows s)"

section \<open>Facts about the trail\<close>

lemma record_event_frame [simp]: "has_bus (snd (record_event eid now a s)) = has_bus s"
  by (simp add: record_event_def Let_def)

text \<open>An event with a fresh id is stored, and every earlier row is kept.\<close>

lemma rows_record_event:
  assumes "row_by se_id eid (se_rows s) = None"
  shows "se_rows (snd (record_event eid now a s)) = se_rows s @ [event_row eid now a]"
  using assms by (simp add: record_event_def Let_def)

lemma distinct_record_event:
  assumes "distinct (map se_id (se_rows s))"
  shows "distinct (map se_id (se_rows (snd (record_event eid now a s))))"
  using assms by (auto simp: record_event_def Let_def event_row_def new_event_def row_by_None_iff)

lemma count_is_length_of_list:
  assumes "int (count_all_events f s) \<le> limit"
  shows "length (list_all_events limit 0 f s) = count_all_events f s"
  using assms
  by (simp add: list_all_events_def count_all_events_def sql_count_def limit_offset_def)

end
