(* ===== verification/Guardrail.thy ===== *)
theory Guardrail
  imports Regex SecurityEvents
begin

text \<open>
  \<open>security/guardrail.py\<close>: the scan of task input for injection patterns and the masking of
  sensitive data in task output, with the patterns of the source. Two alternatives of a character
  class that lie beyond code point 255 (full-width punctuation) are left out with the texts that
  could hold them.
\<close>

section \<open>The patterns\<close>

definition in_chars :: "string \<Rightarrow> char \<Rightarrow> bool" where
  "in_chars cs c = (c \<in> set cs)"

definition upper_digit :: "char \<Rightarrow> bool" where
  "upper_digit c = (let n = of_char c :: nat in (48 \<le> n \<and> n \<le> 57) \<or> (65 \<le> n \<and> n \<le> 90))"

definition alnum :: "char \<Rightarrow> bool" where
  "alnum c = (let n = of_char c :: nat in (48 \<le> n \<and> n \<le> 57) \<or> (65 \<le> n \<and> n \<le> 90) \<or> (97 \<le> n \<and> n \<le> 122))"

definition other_than :: "char \<Rightarrow> char \<Rightarrow> bool" where
  "other_than d c = (c \<noteq> d)"

definition dquote :: string where
  "dquote = [CHR 0x22]"

definition exactly :: "(char \<Rightarrow> bool) \<Rightarrow> nat \<Rightarrow> regex" where
  "exactly P n = seqs (replicate n (Sym P))"

definition api_key :: regex where
  "api_key = seqs [ci ''api'', opt (Sym (in_chars ''_-'')), ci ''key'']"

definition SENSITIVE_PATTERNS :: "regex list" where
  "SENSITIVE_PATTERNS =
     [seqs [NotBehind (\<lambda>c. alnum c \<or> in_chars ''+/='' c), lit ''AKIA'', exactly upper_digit 16, NotAhead alnum],
      seqs [alts [ci ''bearer'', ci ''token'', api_key, ci ''secret''], spaces,
            Many (\<lambda>c. alnum c \<or> in_chars ''_-.'' c) 20,
            alts [Sym py_isspace, AtEnd, Sym (in_chars [CHR 0x22]), Sym (in_chars [CHR 0x27])]],
      seqs [lit ''-----BEGIN'', spaces, opt (Seq (lit ''RSA'') spaces), lit ''PRIVATE'', spaces, lit ''KEY-----''],
      seqs [alts [ci (dquote @ ''password'' @ dquote), ci (dquote @ ''passwd'' @ dquote), ci (dquote @ ''secret'' @ dquote)],
            spaces0, lit '':'', spaces0, lit dquote, Many (other_than (CHR 0x22)) 4, lit dquote],
      seqs [alts [ci ''mysql'', ci ''postgres'', ci ''redis'', ci ''mongodb'', ci ''amqp'', ci ''rabbitmq''],
            lit ''://'', Many (other_than (CHR '':'')) 1, lit '':'', Many (other_than (CHR ''@'')) 1, lit ''@''],
      seqs [lit ''-----BEGIN'', spaces, lit ''OPENSSH'', spaces, lit ''PRIVATE'', spaces, lit ''KEY-----'']]"

definition SENSITIVE_KEY_NAMES :: "regex list" where
  "SENSITIVE_KEY_NAMES =
     [seqs [AtStart,
        alts [ci ''password'', ci ''passwd'', ci ''secret'',
              seqs [ci ''api'', opt (Sym (in_chars ''_-'')), alts [ci ''key'', ci ''secret'']],
              ci ''token'', seqs [ci ''access'', opt (Sym (in_chars ''_-'')), ci ''key'']],
        AtEnd]]"

definition INJECTION_PATTERNS :: "regex list" where
  "INJECTION_PATTERNS =
     [seqs [WordEdge, ci ''ignore'', spaces, opt (Seq (ci ''all'') spaces),
            alts [ci ''previous'', ci ''above'', ci ''prior''], spaces, ci ''instructions'', WordEdge],
      seqs [WordEdge, ci ''disregard'', spaces, opt (Seq (ci ''all'') spaces), alts [ci ''previous'', ci ''above''], WordEdge],
      seqs [alts [seqs [ci ''what'', opt (Sym (in_chars [CHR 0x27])), ci ''s''], ci ''show'', ci ''print'', ci ''output'',
                  ci ''reveal''],
            spaces, opt (Seq (ci ''your'') spaces), opt (Seq (ci ''system'') spaces), ci ''prompt''],
      seqs [alts [ci ''pretend'', ci ''act''], spaces, opt (Seq (ci ''as'') spaces), opt (Seq (ci ''if'') spaces),
            ci ''you'', spaces, ci ''are'', spaces, opt (Seq (ci ''the'') spaces), ci ''admin''],
      seqs [alts [seqs [ci ''do'', spaces, ci ''anything'', spaces, ci ''now''], ci ''dan'',
                  seqs [ci ''jail'', spaces0, alts [ci ''break'', ci ''broke'']]], WordEdge],
      seqs [opt (Seq (ci ''new'') spaces), ci ''instruction'', opt (ci ''s''), spaces0, lit '':'',
            Lazy (other_than (CHR ''.'')) 1, alts [ci ''ignore'', ci ''override'', ci ''forget'']],
      alts [ci ''[system]'', ci ''[instruction]'', ci ''<|im_start|>'', ci ''<|im_end|>''],
      seqs [WordEdge, ci ''execute'', spaces, alts [ci ''shell'', ci ''command'', ci ''system'', ci ''cmd''], WordEdge],
      alts [seqs [lit ''{{'', Lazy (other_than (CHR 0x0A)) 0, lit ''}}''], lit ''{%'', lit ''%}'']]"

section \<open>Inbound: injection\<close>

record GuardrailResult =
  gr_allowed :: bool
  gr_reason :: "string option"
  gr_severity :: "string option"
  gr_matched_pattern :: "string option"
  gr_response_headers :: "(string \<times> string) list"

definition GuardrailResult_default :: GuardrailResult where
  "GuardrailResult_default = \<lparr> gr_allowed = True, gr_reason = None, gr_severity = None, gr_matched_pattern = None,
                               gr_response_headers = [] \<rparr>"

fun flatten_to_text :: "nat \<Rightarrow> nat \<Rightarrow> json \<Rightarrow> string" where
  "flatten_to_text d m (JObj kvs) =
     (if m < d then [] else py_join '' '' (concat (map (\<lambda>(k, v). [k, flatten_to_text (Suc d) m v]) kvs)))"
| "flatten_to_text d m (JList js) =
     (if m < d then [] else py_join '' '' (map (flatten_to_text (Suc d) m) js))"
| "flatten_to_text d m (JStr s) = (if m < d then [] else s)"
| "flatten_to_text d m JNull = []"
| "flatten_to_text d m (JBool b) = (if m < d then [] else if b then ''True'' else ''False'')"
| "flatten_to_text d m (JInt i) = (if m < d then [] else str_int i)"
| "flatten_to_text d m (JFloat s) = (if m < d then [] else s)"

text \<open>Who submits, for the event.\<close>

record guard_caller =
  gc_actor :: string
  gc_tenant :: string
  gc_task_id :: "string option"

definition guard_event ::
  "string \<Rightarrow> rat \<Rightarrow> SecurityEventType \<Rightarrow> string \<Rightarrow> string \<Rightarrow> guard_caller \<Rightarrow> string \<Rightarrow> (string \<times> json) list option
    \<Rightarrow> event_store \<Rightarrow> event_store" where
  "guard_event eid now ty target dec c why meta s =
     snd (record_event eid now
       ((EventArgs_default (event_type_value ty) (gc_actor c) target dec)
          \<lparr> ea_tenant := gc_tenant c, ea_reason := why, ea_metadata := meta, ea_task_id := gc_task_id c \<rparr>) s)"

definition pattern_meta :: "string option \<Rightarrow> (string \<times> json) list option" where
  "pattern_meta p = (if opt_true p then Some [(''matched_pattern'', JStr (opt_or p []))] else None)"

definition injection_warning :: "guard_caller \<Rightarrow> string option \<Rightarrow> string \<Rightarrow> string" where
  "injection_warning c p why =
     ''type=INJECTION_DETECTED; actor='' @ gc_actor c @ ''; pattern='' @ opt_or p ''unknown'' @ ''; reason='' @ why"

definition apply_mode ::
  "string \<Rightarrow> rat \<Rightarrow> string \<Rightarrow> string \<Rightarrow> string option \<Rightarrow> guard_caller \<Rightarrow> event_store \<Rightarrow> GuardrailResult \<times> event_store" where
  "apply_mode eid now md why p c s =
     (if md = ''audit''
      then (GuardrailResult_default\<lparr>gr_reason := Some why, gr_severity := Some ''info'', gr_matched_pattern := p\<rparr>,
            guard_event eid now MODE_AUDIT ''inbound_guardrail'' ''allow'' c (why @ '' (audit mode)'') (pattern_meta p) s)
      else if md = ''warn''
      then (GuardrailResult_default\<lparr>gr_reason := Some why, gr_severity := Some ''warn'', gr_matched_pattern := p,
              gr_response_headers := [(''X-Security-Warning'', injection_warning c p why)]\<rparr>,
            guard_event eid now MODE_WARN ''inbound_guardrail'' ''allow'' c (why @ '' (warn mode)'') (pattern_meta p) s)
      else (GuardrailResult_default\<lparr>gr_allowed := False, gr_reason := Some why, gr_severity := Some ''block'',
              gr_matched_pattern := p\<rparr>,
            guard_event eid now SECURITY_VIOLATION ''inbound_guardrail'' ''deny'' c why (pattern_meta p) s))"

text \<open>The text of the first pattern that is found.\<close>

definition first_match :: "regex list \<Rightarrow> string \<Rightarrow> string option" where
  "first_match rs t =
     map_option (\<lambda>r. case rx_search r t of None \<Rightarrow> [] | Some m \<Rightarrow> py_strip (rx_group t m))
       (find (\<lambda>r. rx_found r t) rs)"

definition injection_reason :: "string \<Rightarrow> string" where
  "injection_reason m = ''Injection pattern detected: '' @ [CHR 0x27] @ take 60 m @ [CHR 0x27]"

definition check_inbound ::
  "string \<Rightarrow> string \<Rightarrow> rat \<Rightarrow> json \<Rightarrow> string option \<Rightarrow> guard_caller \<Rightarrow> event_store \<Rightarrow> GuardrailResult \<times> event_store" where
  "check_inbound engine_mode eid now data md c s =
     (let t = flatten_to_text 0 8 data in
      if \<not> str_true t then (GuardrailResult_default, s)
      else
        (case first_match INJECTION_PATTERNS t of
           None \<Rightarrow> (GuardrailResult_default, s)
         | Some m \<Rightarrow> apply_mode eid now (opt_or md engine_mode) (injection_reason m) (Some (take 80 m)) c s))"

section \<open>Outbound: sensitive data\<close>

record SanitizeReport =
  sanitised :: bool
  field_paths :: "string list"
  sr_count :: nat

definition SanitizeReport_default :: SanitizeReport where
  "SanitizeReport_default = \<lparr> sanitised = False, field_paths = [], sr_count = 0 \<rparr>"

text \<open>\<open>data.count("***")\<close>\<close>

fun count_stars :: "string \<Rightarrow> nat" where
  "count_stars (a # b # c # s) =
     (if [a, b, c] = ''***'' then Suc (count_stars s) else count_stars (b # c # s))"
| "count_stars s = 0"

definition mask_with :: "regex \<Rightarrow> string \<times> bool \<Rightarrow> string \<times> bool" where
  "mask_with r st = (if rx_found r (fst st) then (rx_sub r ''***'' (fst st), True) else st)"

definition mask_text :: "string \<Rightarrow> string \<times> bool" where
  "mask_text t = fold mask_with SENSITIVE_PATTERNS (t, False)"

definition sensitive_key :: "string \<Rightarrow> bool" where
  "sensitive_key k = list_ex (\<lambda>r. rx_found r k) SENSITIVE_KEY_NAMES"

definition add_report :: "SanitizeReport \<Rightarrow> SanitizeReport \<Rightarrow> SanitizeReport" where
  "add_report rep child =
     (if sanitised child
      then \<lparr> sanitised = True, field_paths = field_paths rep @ field_paths child, sr_count = sr_count rep + sr_count child \<rparr>
      else rep)"

definition add_path :: "string \<Rightarrow> SanitizeReport \<Rightarrow> SanitizeReport" where
  "add_path p rep =
     \<lparr> sanitised = True, field_paths = (if p \<in> set (field_paths rep) then field_paths rep else field_paths rep @ [p]),
       sr_count = Suc (sr_count rep) \<rparr>"

definition string_report :: "string \<Rightarrow> string \<Rightarrow> SanitizeReport" where
  "string_report path t =
     (let (t', found) = mask_text t in
      if found then \<lparr> sanitised = True, field_paths = [path], sr_count = count_stars t' \<rparr> else SanitizeReport_default)"

fun is_str :: "json \<Rightarrow> bool" where
  "is_str (JStr s) = True"
| "is_str j = False"

fun redact_tree :: "string \<Rightarrow> nat \<Rightarrow> nat \<Rightarrow> json \<Rightarrow> SanitizeReport \<times> json"
  and redact_members :: "string \<Rightarrow> nat \<Rightarrow> nat \<Rightarrow> (string \<times> json) list \<Rightarrow> SanitizeReport
    \<Rightarrow> SanitizeReport \<times> (string \<times> json) list"
  and redact_items :: "string \<Rightarrow> nat \<Rightarrow> nat \<Rightarrow> nat \<Rightarrow> json list \<Rightarrow> SanitizeReport \<Rightarrow> SanitizeReport \<times> json list" where
  "redact_tree path d m (JStr t) =
     (if m < d then (SanitizeReport_default, JStr t) else (string_report path t, JStr (fst (mask_text t))))"
| "redact_tree path d m (JObj kvs) =
     (if m < d then (SanitizeReport_default, JObj kvs)
      else map_prod id JObj (redact_members path d m kvs SanitizeReport_default))"
| "redact_tree path d m (JList js) =
     (if m < d then (SanitizeReport_default, JList js)
      else map_prod id JList (redact_items path d m 0 js SanitizeReport_default))"
| "redact_tree path d m JNull = (SanitizeReport_default, JNull)"
| "redact_tree path d m (JBool b) = (SanitizeReport_default, JBool b)"
| "redact_tree path d m (JInt i) = (SanitizeReport_default, JInt i)"
| "redact_tree path d m (JFloat t) = (SanitizeReport_default, JFloat t)"
| "redact_members path d m [] rep = (rep, [])"
| "redact_members path d m ((k, v) # kvs) rep =
     (let p = path @ ''.'' @ k; key_hit = (is_str v \<and> sensitive_key k);
          child = redact_tree p (Suc d) m v;
          rest = redact_members path d m kvs (if key_hit then add_path p rep else add_report rep (fst child))
      in (fst rest, (k, if key_hit then JStr ''***'' else snd child) # snd rest))"
| "redact_items path d m i [] rep = (rep, [])"
| "redact_items path d m i (j # js) rep =
     (let child = redact_tree (path @ ''['' @ str_nat i @ '']'') (Suc d) m j;
          rest = redact_items path d m (Suc i) js (add_report rep (fst child))
      in (fst rest, snd child # snd rest))"

definition sanitize_reason :: "SanitizeReport \<Rightarrow> string" where
  "sanitize_reason rep =
     ''Sanitised '' @ str_nat (sr_count rep) @ '' sensitive pattern(s) in output fields: '' @
       py_join '', '' (field_paths rep)"

definition sanitize_output :: "string \<Rightarrow> rat \<Rightarrow> json \<Rightarrow> guard_caller \<Rightarrow> event_store \<Rightarrow> json \<times> event_store" where
  "sanitize_output eid now out c s =
     (let (rep, new) = redact_tree ''$'' 0 16 out in
      (new,
       if sanitised rep
       then guard_event eid now SECURITY_VIOLATION ''output_sanitisation'' ''allow'' c (sanitize_reason rep)
              (Some [(''field_paths'', JList (map JStr (field_paths rep))), (''count'', JInt (int (sr_count rep)))]) s
       else s))"

end
