(* ===== verification/Envelope.thy ===== *)
theory Envelope
  imports Models Contract Dtm Guardrail
begin

text \<open>
  \<open>orchestration/envelope.py\<close>: how a task becomes the envelope that is sent to its agent, and the
  security fence in front of the WebSocket. The engine wired into the module is given by its mode,
  or absent. A scope, tenant or task id that is not a string is outside the model of the event the
  fence records.
\<close>

section \<open>Building\<close>

definition DEFAULT_DEADLINE_MS :: int where
  "DEFAULT_DEADLINE_MS = 0"

definition DEFAULT_INTERACTION_MODE :: InteractionMode where
  "DEFAULT_INTERACTION_MODE = TASK"

definition opt_json :: "string option \<Rightarrow> json" where
  "opt_json x = JStr (opt_or x [])"

definition synthesise_security_context :: "Task \<Rightarrow> SecurityContext" where
  "synthesise_security_context t =
     \<lparr> ctx_scope = opt_json (Task.effective_scope t), ctx_depth = JInt (the_default 0 (delegation_depth t)),
       ctx_deadline_ms = JInt DEFAULT_DEADLINE_MS, ctx_chain_id = opt_json (provenance_chain_id t) \<rparr>"

text \<open>The hops of a token carry no \<open>jti\<close>: the chain id is always the id of the token.\<close>

definition hop_dict :: "(rat \<Rightarrow> json) \<Rightarrow> hop \<Rightarrow> (string \<times> json) list" where
  "hop_dict num h = (case hop_json num h of JObj d \<Rightarrow> d | _ \<Rightarrow> [])"

definition derive_provenance_chain :: "(rat \<Rightarrow> json) \<Rightarrow> DelegatedTaskToken \<Rightarrow> json" where
  "derive_provenance_chain num tok =
     (case delegation_chain tok of [] \<Rightarrow> JStr (jti tok)
      | h # _ \<Rightarrow> dict_get (hop_dict num h) ''jti'' (JStr (jti tok)))"

datatype context_arg = NoContext | Context SecurityContext | ContextDict "(string \<times> json) list"

definition context_of :: "Task \<Rightarrow> context_arg \<Rightarrow> SecurityContext" where
  "context_of t c =
     (case c of NoContext \<Rightarrow> synthesise_security_context t | Context x \<Rightarrow> x | ContextDict d \<Rightarrow> context_from_dict d)"

definition body_input :: "Task \<Rightarrow> (string \<times> json) list" where
  "body_input t =
     (if opt_true (body t)
      then (case loads (opt_or (body t) []) of
              Some (JObj d) \<Rightarrow> d
            | Some j \<Rightarrow> [(''body'', j)]
            | None \<Rightarrow> [(''body'', opt_json (body t))])
      else [])"

definition extra_keys :: "(string \<times> string) list" where
  "extra_keys = [(''query'', ''query''), (''sessionId'', ''session_id''), (''session_id'', ''session_id''),
                 (''title'', ''title'')]"

definition merge_extra :: "(string \<times> json) list \<Rightarrow> (string \<times> json) list \<Rightarrow> (string \<times> json) list" where
  "merge_extra extra d =
     fold (\<lambda>(k, target) d. case map_of extra k of None \<Rightarrow> d | Some v \<Rightarrow> dict_put target v d) extra_keys d"

text \<open>The value of a key of the metadata, if the metadata is a dict that has it.\<close>

definition metadata_value :: "Task \<Rightarrow> string \<Rightarrow> json option" where
  "metadata_value t k =
     (if opt_true (metadata t)
      then (case loads (opt_or (metadata t) []) of Some (JObj d) \<Rightarrow> map_of d k | _ \<Rightarrow> None)
      else None)"

definition workspace_uri_of :: "Task \<Rightarrow> json" where
  "workspace_uri_of t =
     (if opt_true (workspace_path t)
      then (let p = opt_or (workspace_path t) []; ten = opt_or (tenant t) [] in
            JStr (if str_true ten then ''workspace://'' @ ten @ ''/'' @ dropWhile (\<lambda>c. c = CHR ''/'') p else p))
      else JNull)"

definition build_envelope ::
  "Task \<Rightarrow> context_arg \<Rightarrow> (string \<times> json) list \<Rightarrow> InteractionMode option \<Rightarrow> TaskEnvelope" where
  "build_envelope t c extra m =
     \<lparr> te_task_id = JStr (tid t), te_mode = Mode (the_default DEFAULT_INTERACTION_MODE m),
       te_skill = the_default (opt_json (assignee t)) (metadata_value t ''skill''),
       te_input_schema = the_default JNull (metadata_value t ''input_schema''),
       te_input = JObj (merge_extra extra (body_input t)),
       te_output_contract = Some \<lparr> required_fields = JList [] \<rparr>,
       te_security_context = Some (context_of t c), te_tenant_id = opt_json (tenant t),
       te_workspace_uri = workspace_uri_of t \<rparr>"

definition build_envelope_from_dtm ::
  "(rat \<Rightarrow> json) \<Rightarrow> Task \<Rightarrow> DelegatedTaskToken \<Rightarrow> (string \<times> json) list \<Rightarrow> InteractionMode option \<Rightarrow> TaskEnvelope" where
  "build_envelope_from_dtm num t tok extra m =
     build_envelope t
       (Context \<lparr> ctx_scope = JStr (DelegatedTaskToken.effective_scope tok), ctx_depth = JInt (depth tok),
                  ctx_deadline_ms = JInt (if exp_at tok \<noteq> 0 then py_int (exp_at tok * 1000) else DEFAULT_DEADLINE_MS),
                  ctx_chain_id = derive_provenance_chain num tok \<rparr>)
       extra m"

section \<open>The fence\<close>

definition json_text :: "json \<Rightarrow> string" where
  "json_text j = the_default [] (json_str_opt j)"

definition fence_caller :: "TaskEnvelope \<Rightarrow> guard_caller" where
  "fence_caller e =
     \<lparr> gc_actor = (case te_security_context e of None \<Rightarrow> ''anonymous'' | Some c \<Rightarrow> json_text (ctx_scope c)),
       gc_tenant = json_text (te_tenant_id e), gc_task_id = json_str_opt (te_task_id e) \<rparr>"

definition check_ingress_security_fence ::
  "string option \<Rightarrow> string \<Rightarrow> rat \<Rightarrow> TaskEnvelope \<Rightarrow> event_store \<Rightarrow> bool \<times> event_store" where
  "check_ingress_security_fence engine eid now e s =
     (case engine of
        None \<Rightarrow> (True, s)
      | Some md \<Rightarrow> map_prod gr_allowed id (check_inbound md eid now (te_input e) None (fence_caller e) s))"

end
