(* ===== verification/Dispatcher.thy ===== *)
theory Dispatcher
  imports ListProps FlowControl Envelope
begin

text \<open>
  \<open>orchestration/dispatcher.py\<close>: one poll cycle of the background loop, with its grouping, the
  three dispatch channels and the flow control around them, and \<open>_reconcile_task_store\<close> of
  \<open>registry_handler.py\<close>, which takes the results back. What lies outside the program is the
  record \<open>DispatchEnv\<close>: the open WebSockets, the agent cards, the workspace allocation, the
  security fence, the HTTP post and the spawned process. Everything between two awaits runs
  without interleaving, as it does on one asyncio loop; a cycle reads the clock once.
\<close>

section \<open>Configuration, environment and state\<close>

record DispatcherConfig =
  claim_ttl :: int
  worker_command :: "string option"
  dispatcher_id :: string
  disp_tenant :: "string option"

definition DispatcherConfig_default :: DispatcherConfig where
  "DispatcherConfig_default =
     \<lparr> claim_ttl = 900, worker_command = None, dispatcher_id = ''dispatcher-1'', disp_tenant = None \<rparr>"

record AgentChannel =
  preferred_channel :: "string option"
  callback_url :: "string option"
  callback_token :: "string option"

datatype post_result = PostStatus int | PostTimeout | PostError string

text \<open>A WebSocket is kept with its \<open>closed\<close> flag; \<open>get_agent\<close> is \<open>None\<close> also when the lookup raises.\<close>

record DispatchEnv =
  ws_connections :: "(string \<times> bool) list"
  get_agent :: "string \<Rightarrow> AgentChannel option"
  allocate :: "Task \<Rightarrow> string + string"
  fence :: "TaskEnvelope \<Rightarrow> string + bool"
  ws_send :: "string \<Rightarrow> TaskEnvelope \<Rightarrow> string option"
  post :: "string \<Rightarrow> Task \<Rightarrow> post_result"
  spawn :: "Task \<Rightarrow> string \<Rightarrow> string + int"
  exc_text :: "store_error \<Rightarrow> string"
  os_getpid :: int

text \<open>
  \<open>d_sent\<close> is the dict \<open>_dispatched_ws_tasks\<close>; \<open>d_wire\<close> is what was handed to \<open>send_json\<close> of a WebSocket, in
  order, also when the call raised.
\<close>

record DispatchState =
  d_db :: task_db
  d_flow :: FlowController
  d_sent :: "(string \<times> string) list"
  d_wire :: "(string \<times> TaskEnvelope) list"
  flow_blocked :: nat

type_synonym 'a dispatch = "DispatchState \<Rightarrow> (store_error + 'a) \<times> DispatchState"

text \<open>A store operation on the database of the state.\<close>

definition on_db :: "'a store_op \<Rightarrow> 'a dispatch" where
  "on_db f s = (let (r, db') = f (d_db s) in (r, s\<lparr>d_db := db'\<rparr>))"

section \<open>Giving a claim back\<close>

text \<open>\<open>update_task_status(id, "failed", result=msg)\<close> and \<open>return 0\<close>.\<close>

definition fail_claim :: "int \<Rightarrow> string \<Rightarrow> string \<Rightarrow> nat dispatch" where
  "fail_claim now i msg s =
     (case on_db (update_task_status now i (status_value FAILED) None (Some msg) None []) s of
        (Inl e, s') \<Rightarrow> (Inl e, s') | (Inr _, s') \<Rightarrow> (Inr 0, s'))"

text \<open>The same inside a \<open>try\<close> whose handler fails the task again with the exception's text.\<close>

definition fail_in_try :: "DispatchEnv \<Rightarrow> int \<Rightarrow> string \<Rightarrow> string \<Rightarrow> string \<Rightarrow> nat dispatch" where
  "fail_in_try env now i msg prefix s =
     (case fail_claim now i msg s of
        (Inl e, s') \<Rightarrow> fail_claim now i (prefix @ exc_text env e) s' | r \<Rightarrow> r)"

text \<open>And inside a \<open>try\<close> whose handler only logs.\<close>

definition fail_quietly :: "int \<Rightarrow> string \<Rightarrow> string \<Rightarrow> nat dispatch" where
  "fail_quietly now i msg s = (Inr 0, snd (fail_claim now i msg s))"

section \<open>The three channels\<close>

text \<open>The envelope of the task, with the allocated directory in place of its workspace if there is one.\<close>

definition ws_envelope :: "string \<Rightarrow> Task \<Rightarrow> TaskEnvelope" where
  "ws_envelope p t =
     (let e = build_envelope t NoContext [] (Some TASK) in
      e\<lparr>te_workspace_uri := (if str_true p then JStr p else te_workspace_uri e)\<rparr>)"

definition put_on_wire :: "string \<Rightarrow> TaskEnvelope \<Rightarrow> DispatchState \<Rightarrow> DispatchState" where
  "put_on_wire a e s = s\<lparr>d_wire := d_wire s @ [(a, e)]\<rparr>"

definition dispatch_via_ws :: "DispatchEnv \<Rightarrow> DispatcherConfig \<Rightarrow> int \<Rightarrow> Task \<Rightarrow> nat dispatch" where
  "dispatch_via_ws env cfg now t s =
     (let a = opt_or (assignee t) [] in
      case on_db (claim_task now (tid t) (''ws-'' @ a) (os_getpid env) (claim_ttl cfg)) s of
        (Inl e, s1) \<Rightarrow> (Inl e, s1)
      | (Inr None, s1) \<Rightarrow> (Inr 0, s1)
      | (Inr (Some _), s1) \<Rightarrow>
          (case allocate env t of
             Inl msg \<Rightarrow> fail_claim now (tid t) msg s1
           | Inr p \<Rightarrow>
               (let s2 = snd (on_db (update_workspace_path (tid t) p) s1);
                    e = ws_envelope p t in
                case fence env e of
                  Inl msg \<Rightarrow> fail_claim now (tid t) msg s2
                | Inr False \<Rightarrow>
                    fail_in_try env now (tid t) ''Security fence rejected dispatch'' [] s2
                | Inr True \<Rightarrow>
                    (let s3 = put_on_wire a e s2 in
                     case ws_send env a e of
                       Some msg \<Rightarrow> fail_claim now (tid t) msg s3
                     | None \<Rightarrow> (Inr 1, s3\<lparr>d_sent := dict_put (tid t) a (d_sent s3)\<rparr>)))))"

definition dispatch_via_callback ::
  "DispatchEnv \<Rightarrow> DispatcherConfig \<Rightarrow> int \<Rightarrow> string \<Rightarrow> Task \<Rightarrow> nat dispatch" where
  "dispatch_via_callback env cfg now url t s =
     (let a = opt_or (assignee t) [] in
      case on_db (claim_task now (tid t) (''callback-'' @ a) (os_getpid env) (claim_ttl cfg)) s of
        (Inl e, s1) \<Rightarrow> (Inl e, s1)
      | (Inr None, s1) \<Rightarrow> (Inr 0, s1)
      | (Inr (Some _), s1) \<Rightarrow>
          (case allocate env t of
             Inl msg \<Rightarrow> fail_claim now (tid t) msg s1
           | Inr p \<Rightarrow>
               (let s2 = snd (on_db (update_workspace_path (tid t) p) s1);
                    t2 = t\<lparr>workspace_path := Some p\<rparr> in
                case post env url t2 of
                  PostStatus st \<Rightarrow>
                    if st \<ge> 400
                    then fail_in_try env now (tid t) (''Callback returned HTTP '' @ str_int st)
                           ''Callback dispatch failed: '' s2
                    else (Inr 1, s2\<lparr>d_sent := dict_put (tid t) a (d_sent s2)\<rparr>)
                | PostTimeout \<Rightarrow> fail_claim now (tid t) ''Callback timed out after 30s'' s2
                | PostError msg \<Rightarrow> fail_claim now (tid t) (''Callback dispatch failed: '' @ msg) s2)))"

definition dispatch_via_worker_command ::
  "DispatchEnv \<Rightarrow> DispatcherConfig \<Rightarrow> int \<Rightarrow> Task \<Rightarrow> nat dispatch" where
  "dispatch_via_worker_command env cfg now t s =
     (case get_task (tid t) (d_db s) of
        None \<Rightarrow> (Inr 0, s)
      | Some v \<Rightarrow>
          if status (task_of v) \<noteq> status_value READY then (Inr 0, s)
          else
            (case on_db (claim_task now (tid t) (dispatcher_id cfg) (os_getpid env) (claim_ttl cfg)) s of
               (Inl e, s1) \<Rightarrow> (Inl e, s1)
             | (Inr None, s1) \<Rightarrow> (Inr 0, s1)
             | (Inr (Some got), s1) \<Rightarrow>
                 (case allocate env (t\<lparr>workspace_path := ci_workspace got\<rparr>) of
                    Inl msg \<Rightarrow> fail_quietly now (tid t) msg s1
                  | Inr p \<Rightarrow>
                      (let s2 = snd (on_db (update_workspace_path (tid t) p) s1) in
                       case spawn env (t\<lparr>workspace_path := Some p\<rparr>) p of
                         Inl msg \<Rightarrow> fail_quietly now (tid t) msg s2
                       | Inr pid \<Rightarrow> (Inr 1, snd (on_db (set_worker_pid (tid t) pid) s2))))))"

section \<open>One task\<close>

definition callback_target :: "AgentChannel option \<Rightarrow> string option" where
  "callback_target found =
     (case found of
        None \<Rightarrow> None
      | Some c \<Rightarrow>
          if opt_or (preferred_channel c) ''ws'' = ''callback''
          then (let url = py_strip (opt_or (callback_url c) []) in if str_true url then Some url else None)
          else None)"

definition not_connected_text :: "string \<Rightarrow> string" where
  "not_connected_text a =
     ''assignee '' @ [CHR 0x27] @ a @ [CHR 0x27]
       @ '' is not connected via WebSocket and no callback_url configured''"

definition block_task :: "int \<Rightarrow> string \<Rightarrow> string \<Rightarrow> DispatchState \<Rightarrow> DispatchState" where
  "block_task now i a s =
     (case on_db (update_task_status now i (status_value BLOCKED) None None None []) s of
        (Inl _, s1) \<Rightarrow> s1
      | (Inr _, s1) \<Rightarrow> snd (on_db (add_comment now i ''dispatcher'' (not_connected_text a)) s1))"

definition notify_flow :: "int \<Rightarrow> string \<Rightarrow> (store_error + nat) \<times> DispatchState
    \<Rightarrow> (store_error + nat) \<times> DispatchState" where
  "notify_flow now a r =
     (case r of
        (Inl e, s) \<Rightarrow> (Inl e, s)
      | (Inr n, s) \<Rightarrow>
          (Inr n, s\<lparr>d_flow :=
             (if n > 0 then on_task_arrived a (on_task_dispatched a (d_flow s))
              else on_task_departed a (on_task_failed (of_int now) a (d_flow s)))\<rparr>))"

definition dispatch_single_task :: "DispatchEnv \<Rightarrow> DispatcherConfig \<Rightarrow> int \<Rightarrow> Task \<Rightarrow> nat dispatch" where
  "dispatch_single_task env cfg now t s =
     (if \<not> opt_true (assignee t) then (Inr 0, s)
      else
        (let a = opt_or (assignee t) [];
             (ok, flow) = can_dispatch (of_int now) a (d_flow s);
             s1 = s\<lparr>d_flow := flow\<rparr> in
         if \<not> ok then (Inr 0, s1\<lparr>flow_blocked := Suc (flow_blocked s1)\<rparr>)
         else if map_of (ws_connections env) a = Some False
              then notify_flow now a (dispatch_via_ws env cfg now t s1)
         else
           (case callback_target (get_agent env a) of
              Some url \<Rightarrow> notify_flow now a (dispatch_via_callback env cfg now url t s1)
            | None \<Rightarrow>
                if ws_connections env \<noteq> [] then (Inr 0, block_task now (tid t) a s1)
                else if \<not> opt_true (worker_command cfg) then (Inr 0, s1)
                else notify_flow now a (dispatch_via_worker_command env cfg now t s1))))"

section \<open>Claim and spawn\<close>

text \<open>The dict of groups in insertion order; \<open>None\<close> is the sentinel of the tasks without a group.\<close>

definition group_key :: "Task \<Rightarrow> string option" where
  "group_key t = (if opt_true (parallel_group t) then parallel_group t else None)"

fun add_to_group :: "Task \<Rightarrow> (string option \<times> Task list) list \<Rightarrow> (string option \<times> Task list) list" where
  "add_to_group t [] = [(group_key t, [t])]"
| "add_to_group t ((k, ts) # gs) =
     (if group_key t = k then (k, ts @ [t]) # gs else (k, ts) # add_to_group t gs)"

definition group_ready :: "Task list \<Rightarrow> (string option \<times> Task list) list" where
  "group_ready ts = fold add_to_group ts []"

fun dispatch_loop ::
  "(Task \<Rightarrow> nat dispatch) \<Rightarrow> bool \<Rightarrow> Task list \<Rightarrow> nat \<Rightarrow> string set \<Rightarrow> (nat \<times> string set) dispatch" where
  "dispatch_loop f single [] n ids s = (Inr (n, ids), s)"
| "dispatch_loop f single (t # ts) n ids s =
     (if tid t \<in> ids \<or> (single \<and> \<not> opt_true (assignee t)) then dispatch_loop f single ts n ids s
      else
        (case f t s of
           (Inl e, s') \<Rightarrow> (Inl e, s')
         | (Inr r, s') \<Rightarrow>
             dispatch_loop f single ts (n + r) (if r > 0 then insert (tid t) ids else ids) s'))"

fun groups_loop ::
  "(Task \<Rightarrow> nat dispatch) \<Rightarrow> (string option \<times> Task list) list \<Rightarrow> nat \<Rightarrow> string set \<Rightarrow> nat dispatch" where
  "groups_loop f [] n ids s = (Inr n, s)"
| "groups_loop f ((k, ts) # gs) n ids s =
     (case dispatch_loop f (k = None)
             (if k = None then sort_key consecutive_failures ts else ts) n ids s of
        (Inl e, s') \<Rightarrow> (Inl e, s')
      | (Inr (m, ids'), s') \<Rightarrow> groups_loop f gs m ids' s')"

definition ready_list :: "DispatcherConfig \<Rightarrow> task_db \<Rightarrow> Task list" where
  "ready_list cfg db =
     fst (list_tasks (ListArgs_default\<lparr>f_status := Some (status_value READY), f_limit := 200,
            f_sort := ''-priority'', f_tenant := disp_tenant cfg\<rparr>) db)"

definition claim_and_spawn :: "DispatchEnv \<Rightarrow> DispatcherConfig \<Rightarrow> int \<Rightarrow> nat dispatch" where
  "claim_and_spawn env cfg now s =
     (let ready = ready_list cfg (d_db s) in
      if ready = [] then (Inr 0, s)
      else groups_loop (dispatch_single_task env cfg now) (group_ready ready) 0 {} s)"

section \<open>The poll cycle\<close>

record PollStats =
  ttl_released :: nat
  retry_promoted :: nat
  tasks_claimed :: nat
  poll_flow_blocked :: nat

definition or_zero :: "store_error + nat \<Rightarrow> nat" where
  "or_zero r = (case r of Inl _ \<Rightarrow> 0 | Inr n \<Rightarrow> n)"

definition poll_cycle :: "DispatchEnv \<Rightarrow> DispatcherConfig \<Rightarrow> int \<Rightarrow> DispatchState \<Rightarrow> PollStats \<times> DispatchState" where
  "poll_cycle env cfg now s =
     (let s0 = s\<lparr>flow_blocked := 0\<rparr>;
          (released, s1) = on_db (release_expired_claims now (disp_tenant cfg)) s0;
          (promoted, s2) = on_db (promote_retryable_tasks now (disp_tenant cfg)) s1;
          (claimed, s3) = claim_and_spawn env cfg now s2
      in (\<lparr> ttl_released = or_zero released, retry_promoted = or_zero promoted,
            tasks_claimed = or_zero claimed, poll_flow_blocked = flow_blocked s3 \<rparr>, s3))"

section \<open>Results that come back\<close>

datatype task_result = ResNone | ResStr string | ResDict string

text \<open>A dict is kept by its JSON text; \<open>error or str(result) if result else default\<close> is the
  conditional of the disjunction: an error without a result is not recorded.\<close>

definition result_text :: "task_result \<Rightarrow> string option" where
  "result_text r = (case r of ResNone \<Rightarrow> None | ResStr x \<Rightarrow> Some x | ResDict j \<Rightarrow> Some j)"

definition result_true :: "task_result \<Rightarrow> bool" where
  "result_true r = (case r of ResNone \<Rightarrow> False | ResStr x \<Rightarrow> str_true x | ResDict j \<Rightarrow> j \<noteq> ''{}'')"

definition failure_text :: "(task_result \<Rightarrow> string) \<Rightarrow> string option \<Rightarrow> task_result \<Rightarrow> string" where
  "failure_text py_str err r =
     (if result_true r then opt_or err (py_str r) else ''Agent reported failure'')"

definition reconcile_task_store ::
  "(task_result \<Rightarrow> string) \<Rightarrow> int \<Rightarrow> string \<Rightarrow> string \<Rightarrow> task_result \<Rightarrow> string option
    \<Rightarrow> DispatchState \<Rightarrow> DispatchState" where
  "reconcile_task_store py_str now i st r err s =
     (case map_of (d_sent s) i of
        None \<Rightarrow> s
      | Some a \<Rightarrow>
          if st = status_value RUNNING
          then snd (on_db (update_task_status now i (status_value RUNNING) None None None []) s)
          else if st = status_value COMPLETED \<or> st = ''success''
          then (case on_db (update_task_status now i (status_value COMPLETED) None (result_text r) None []) s of
                  (Inl _, s1) \<Rightarrow> s1
                | (Inr _, s1) \<Rightarrow>
                    if str_true a
                    then s1\<lparr>d_flow := on_task_departed a (on_task_completed a (d_flow s1))\<rparr> else s1)
          else if st = status_value FAILED \<or> st = ''error''
          then (case on_db (update_task_status now i (status_value FAILED) None
                       (Some (failure_text py_str err r)) None []) s of
                  (Inl _, s1) \<Rightarrow> s1
                | (Inr _, s1) \<Rightarrow>
                    if str_true a
                    then s1\<lparr>d_flow := on_task_departed a (on_task_failed (of_int now) a (d_flow s1))\<rparr> else s1)
          else s)"

end
