(* ===== verification/DispatcherProps.thy ===== *)
theory DispatcherProps
  imports Dispatcher
begin

text \<open>
  The poll cycle as a client of the store: every cycle is a sequence of store calls, so all that
  holds of sequences of calls holds of the dispatcher; it never takes more permits than the flow
  controller grants, and with a tenant configured it leaves the tasks of others alone.
\<close>

section \<open>Steps that touch one task\<close>

definition touches :: "string \<Rightarrow> DispatchState \<Rightarrow> DispatchState \<Rightarrow> bool" where
  "touches i s s' \<longleftrightarrow>
     (\<exists>cs. d_db s' = fold exec_call cs (d_db s)) \<and> d_flow s' = d_flow s \<and>
     (\<forall>j. j \<noteq> i \<longrightarrow> find_task (d_db s') j = find_task (d_db s) j)"

lemma touches_refl [simp, intro]: "touches i s s"
  unfolding touches_def by (auto intro: exI [of _ "[]"])

lemma touches_trans: "touches i a b \<Longrightarrow> touches i b c \<Longrightarrow> touches i a c"
proof -
  assume ab: "touches i a b" and bc: "touches i b c"
  then obtain cs ds where "d_db b = fold exec_call cs (d_db a)" "d_db c = fold exec_call ds (d_db b)"
    by (auto simp: touches_def)
  then have "d_db c = fold exec_call (cs @ ds) (d_db a)"
    by simp
  with ab bc show ?thesis
    unfolding touches_def by metis
qed

lemma touches_sent [simp]: "touches i s (s'\<lparr>d_sent := x\<rparr>) = touches i s s'"
  by (simp add: touches_def)

lemma touches_wire [simp]: "touches i s (put_on_wire a e s') = touches i s s'"
  by (simp add: touches_def put_on_wire_def)

text \<open>A store operation that is a call and writes one task row.\<close>

definition local_op :: "string \<Rightarrow> 'a store_op \<Rightarrow> bool" where
  "local_op i f \<longleftrightarrow> (\<forall>db. (\<exists>c. snd (f db) = exec_call c db) \<and>
     (\<forall>j. j \<noteq> i \<longrightarrow> find_task (snd (f db)) j = find_task db j))"

lemma d_db_on_db [simp]: "d_db (snd (on_db f s)) = snd (f (d_db s))"
  by (simp add: on_db_def split: prod.split)

lemma fst_on_db [simp]: "fst (on_db f s) = fst (f (d_db s))"
  by (simp add: on_db_def split: prod.split)

lemma on_db_frame [simp]:
  "d_flow (snd (on_db f s)) = d_flow s" "flow_blocked (snd (on_db f s)) = flow_blocked s"
  by (simp_all add: on_db_def split: prod.split)

lemma touches_on_db:
  assumes "local_op i f" shows "touches i s (snd (on_db f s))"
proof -
  from assms obtain c where c: "snd (f (d_db s)) = exec_call c (d_db s)"
    unfolding local_op_def by blast
  have frame: "find_task (snd (f (d_db s))) j = find_task (d_db s) j" if "j \<noteq> i" for j
    using assms that by (simp add: local_op_def)
  show ?thesis
    unfolding touches_def d_db_on_db on_db_frame
    using frame by (auto intro: exI [of _ "[c]"] simp: c)
qed

lemma touches_on_db_eq: "local_op i f \<Longrightarrow> on_db f s = (r, s') \<Longrightarrow> touches i s s'"
  using touches_on_db [of i f s] by simp

lemma local_claim: "local_op i (claim_task now i worker pid ttl)"
  unfolding local_op_def
proof (intro allI conjI impI)
  fix db
  show "\<exists>c. snd (claim_task now i worker pid ttl db) = exec_call c db"
    by (rule exI [of _ "(now, ClaimTask i worker pid ttl)"]) (simp add: exec_call_def)
  show "find_task (snd (claim_task now i worker pid ttl db)) j = find_task db j" if "j \<noteq> i" for j
    using that by (auto simp: claim_task_cases Let_def frame_simps find_task_claimed_db)
qed

lemma local_update_status:
  assumes "new \<noteq> status_value COMPLETED"
  shows "local_op i (update_task_status now i new lock res summ meta)"
  unfolding local_op_def
proof (intro allI conjI impI)
  fix db
  show "\<exists>c. snd (update_task_status now i new lock res summ meta db) = exec_call c db"
    by (rule exI [of _ "(now, UpdateStatus i new lock res summ meta)"]) (simp add: exec_call_def)
  fix j assume "j \<noteq> i"
  have "find_task db' j = find_task db j"
    if "transition_body now i new lock res summ meta db = Inr (u, db')" for u db'
    using that \<open>j \<noteq> i\<close> assms
    by (elim transition_body_InrD)
      (auto simp: apply_transition_def Let_def frame_simps row_simps option.map_ident)
  then show "find_task (snd (update_task_status now i new lock res summ meta db)) j = find_task db j"
    by (auto simp: update_task_status_def tx_def split: sum.split)
qed

lemma local_opI:
  assumes "\<And>db. snd (f db) = exec_call c db" "\<And>db j. j \<noteq> i \<Longrightarrow> find_task (snd (f db)) j = find_task db j"
  shows "local_op i f"
  unfolding local_op_def using assms by (intro allI conjI impI exI [of _ c]) simp_all

lemma find_task_upd_other: "j \<noteq> i \<Longrightarrow> (\<And>r. tid (f r) = tid r) \<Longrightarrow> find_task (upd_task i f db) j = find_task db j"
  by (simp add: row_simps option.map_ident)

lemma local_helpers:
  "local_op i (update_workspace_path i p)" "local_op i (set_worker_pid i pid)"
  by (rule local_opI [of _ "(0, UpdateWorkspacePath i p)"],
      simp_all add: exec_call_def update_workspace_path_def tx_def find_task_upd_other)
    (rule local_opI [of _ "(0, SetWorkerPid i pid)"],
      simp_all add: exec_call_def set_worker_pid_def tx_def find_task_upd_other)

lemma local_add_comment: "local_op i (add_comment now i who txt)"
  unfolding local_op_def
proof (intro allI conjI impI)
  fix db
  show "\<exists>c. snd (add_comment now i who txt db) = exec_call c db"
    by (rule exI [of _ "(now, AddComment i who txt)"]) (simp add: exec_call_def)
  show "find_task (snd (add_comment now i who txt db)) j = find_task db j" for j
    by (auto simp: add_comment_def tx_def Let_def frame_simps split: option.split)
      (simp add: find_task_def)
qed

lemmas local_ops = local_claim local_update_status local_helpers local_add_comment

section \<open>The channels\<close>

lemma snd_fail_claim:
  "snd (fail_claim now i msg s)
   = snd (on_db (update_task_status now i (status_value FAILED) None (Some msg) None []) s)"
  by (simp add: fail_claim_def split: prod.split sum.split)

lemma touches_fail_claim: "touches i s (snd (fail_claim now i msg s))"
  unfolding snd_fail_claim by (rule touches_on_db) (rule local_update_status, simp)

lemma touches_wire_fail: "touches i s (snd (fail_claim now i msg (put_on_wire a e s)))"
  by (rule touches_trans [OF _ touches_fail_claim]) simp

lemma touches_fail_in_try: "touches i s (snd (fail_in_try env now i msg pre s))"
proof (cases "fail_claim now i msg s")
  case (Pair r s')
  with touches_fail_claim [where s = s and i = i and now = now and msg = msg]
  have "touches i s s'" by simp
  then show ?thesis
    by (auto simp: fail_in_try_def Pair intro: touches_trans touches_fail_claim split: sum.split)
qed

lemma touches_fail_quietly: "touches i s (snd (fail_quietly now i msg s))"
  by (simp add: fail_quietly_def touches_fail_claim)

lemmas touches_fails = touches_fail_claim touches_fail_in_try touches_fail_quietly

lemma touches_claim_then:
  assumes claim: "on_db (claim_task now i w pid ttl) s = (r, s1)"
    and rest: "touches i (snd (on_db (update_workspace_path i p) s1)) s2"
  shows "touches i s s2"
  using touches_trans [OF touches_on_db_eq [OF local_claim claim]
      touches_trans [OF touches_on_db [OF local_helpers(1)] rest]] .

lemma touches_via_ws: "touches (tid t) s (snd (dispatch_via_ws env cfg now t s))"
proof (cases "on_db (claim_task now (tid t) (''ws-'' @ opt_or (assignee t) []) (os_getpid env) (claim_ttl cfg)) s")
  case (Pair r s1)
  note 1 = touches_on_db_eq [OF local_claim Pair]
  note 2 = touches_trans [OF 1 touches_fail_claim] touches_claim_then [OF Pair touches_fail_claim]
    touches_claim_then [OF Pair touches_fail_in_try] touches_claim_then [OF Pair touches_refl]
    touches_claim_then [OF Pair touches_wire_fail]
  from 1 2 show ?thesis
    unfolding dispatch_via_ws_def Let_def Pair by (simp split: sum.split option.split bool.split)
qed

lemma touches_via_callback: "touches (tid t) s (snd (dispatch_via_callback env cfg now url t s))"
proof (cases "on_db (claim_task now (tid t) (''callback-'' @ opt_or (assignee t) []) (os_getpid env) (claim_ttl cfg)) s")
  case (Pair r s1)
  note 1 = touches_on_db_eq [OF local_claim Pair]
  note 2 = touches_trans [OF 1 touches_fail_claim] touches_claim_then [OF Pair touches_fail_claim]
    touches_claim_then [OF Pair touches_fail_in_try] touches_claim_then [OF Pair touches_refl]
  from 1 2 show ?thesis
    unfolding dispatch_via_callback_def Let_def Pair by (simp split: sum.split option.split post_result.split)
qed

lemma touches_via_worker: "touches (tid t) s (snd (dispatch_via_worker_command env cfg now t s))"
proof (cases "on_db (claim_task now (tid t) (dispatcher_id cfg) (os_getpid env) (claim_ttl cfg)) s")
  case (Pair r s1)
  note 1 = touches_on_db_eq [OF local_claim Pair]
  note 2 = touches_trans [OF 1 touches_fail_quietly] touches_claim_then [OF Pair touches_fail_quietly]
    touches_claim_then [OF Pair touches_on_db [OF local_helpers(2)]]
  from 1 2 show ?thesis
    unfolding dispatch_via_worker_command_def Let_def Pair by (simp split: sum.split option.split)
qed

lemma touches_block_task: "touches i s (snd (r, block_task now i a s))"
proof (cases "on_db (update_task_status now i (status_value BLOCKED) None None None []) s")
  case (Pair r s1)
  note 1 = touches_on_db_eq [OF local_update_status Pair]
  from 1 touches_trans [OF 1 touches_on_db [OF local_add_comment]] show ?thesis
    by (simp add: block_task_def Pair split: sum.split)
qed

section \<open>The loops\<close>

definition follows :: "string set \<Rightarrow> DispatchState \<Rightarrow> DispatchState \<Rightarrow> bool" where
  "follows T s s' \<longleftrightarrow>
     (\<exists>cs. d_db s' = fold exec_call cs (d_db s)) \<and>
     (\<forall>j. j \<notin> T \<longrightarrow> find_task (d_db s') j = find_task (d_db s) j) \<and>
     (within_cap (d_flow s) \<longrightarrow> within_cap (d_flow s'))"

lemma follows_refl [simp, intro]: "follows T s s"
  unfolding follows_def by (auto intro: exI [of _ "[]"])

lemma follows_trans: "follows T a b \<Longrightarrow> follows T b c \<Longrightarrow> follows T a c"
proof -
  assume ab: "follows T a b" and bc: "follows T b c"
  then obtain cs ds where "d_db b = fold exec_call cs (d_db a)" "d_db c = fold exec_call ds (d_db b)"
    by (auto simp: follows_def)
  then have "d_db c = fold exec_call (cs @ ds) (d_db a)"
    by simp
  with ab bc show ?thesis
    unfolding follows_def by metis
qed

lemma follows_mono: "follows S a b \<Longrightarrow> S \<subseteq> T \<Longrightarrow> follows T a b"
  unfolding follows_def by blast

lemma follows_flow:
  assumes "touches i s s'" and "within_cap (d_flow s) \<Longrightarrow> within_cap fl"
  shows "follows {i} s (s'\<lparr>d_flow := fl\<rparr>)"
  using assms by (auto simp: follows_def touches_def)

lemma follows_touches: "touches i s s' \<Longrightarrow> follows {i} s s'"
  by (auto simp: follows_def touches_def)

text \<open>The notification after the attempt, when the gate before it said yes.\<close>

lemma follows_notify:
  assumes gate: "fst (can_dispatch (of_int now) a (d_flow s))"
    and rest: "touches i (s\<lparr>d_flow := snd (can_dispatch (of_int now) a (d_flow s))\<rparr>) s2"
  shows "follows {i} s (snd (notify_flow now a (r, s2)))"
proof -
  let ?fl = "snd (can_dispatch (of_int now) a (d_flow s))"
  let ?s1 = "s\<lparr>d_flow := ?fl\<rparr>"
  have fl: "d_flow s2 = ?fl" and s2: "touches i s (s2\<lparr>d_flow := d_flow s\<rparr>)"
    using rest by (auto simp: touches_def)
  have ok: "within_cap (d_flow s) \<Longrightarrow> within_cap (on_task_arrived a (on_task_dispatched a ?fl))"
    using gate by (intro within_cap_notifications(1) within_cap_dispatched)
  have fail: "within_cap (d_flow s) \<Longrightarrow> within_cap (on_task_departed a (on_task_failed (of_int now) a ?fl))"
    by (intro within_cap_departed within_cap_notifications)
  have keep: "within_cap (d_flow s) \<Longrightarrow> within_cap ?fl"
    by (rule within_cap_notifications)
  have *: "follows {i} s (s2\<lparr>d_flow := x\<rparr>)" if "within_cap (d_flow s) \<Longrightarrow> within_cap x" for x
    using follows_flow [OF s2 that] by simp
  have "s2 = s2\<lparr>d_flow := ?fl\<rparr>"
    using fl by simp
  with * [OF ok] * [OF fail] * [OF keep] show ?thesis
    by (cases r) (simp_all add: notify_flow_def fl)
qed

lemma follows_single: "follows {tid t} s (snd (dispatch_single_task env cfg now t s))"
proof (cases "opt_true (assignee t)")
  case False
  then show ?thesis by (simp add: dispatch_single_task_def)
next
  case True
  define a where "a = opt_or (assignee t) []"
  define g where "g = can_dispatch (of_int now) a (d_flow s)"
  define s1 where "s1 = s\<lparr>d_flow := snd g\<rparr>"
  have eq: "dispatch_single_task env cfg now t s =
     (if \<not> fst g then (Inr 0, s1\<lparr>flow_blocked := Suc (flow_blocked s1)\<rparr>)
      else if map_of (ws_connections env) a = Some False
           then notify_flow now a (dispatch_via_ws env cfg now t s1)
      else (case callback_target (get_agent env a) of
              Some url \<Rightarrow> notify_flow now a (dispatch_via_callback env cfg now url t s1)
            | None \<Rightarrow>
                if ws_connections env \<noteq> [] then (Inr 0, block_task now (tid t) a s1)
                else if \<not> opt_true (worker_command cfg) then (Inr 0, s1)
                else notify_flow now a (dispatch_via_worker_command env cfg now t s1)))"
    using True unfolding dispatch_single_task_def Let_def s1_def g_def a_def case_prod_unfold by simp
  have flow: "within_cap (d_flow s) \<Longrightarrow> within_cap (snd g)"
    unfolding g_def by (rule within_cap_notifications)
  have base: "follows {tid t} s s1" "follows {tid t} s (s1\<lparr>flow_blocked := n\<rparr>)" for n
    using flow by (auto simp: follows_def s1_def intro: exI [of _ "[]"])
  have via: "follows {tid t} s (snd (notify_flow now a p))" if "fst g" "touches (tid t) s1 (snd p)" for p
    using that follows_notify [of now a s "tid t" "snd p" "fst p"] by (simp add: g_def s1_def)
  have block: "follows {tid t} s (block_task now (tid t) a s1)"
    using follows_trans [OF base(1) follows_touches] touches_block_task [where r = "()"] by simp
  show ?thesis
    unfolding eq using base block via [OF _ touches_via_ws] via [OF _ touches_via_callback]
      via [OF _ touches_via_worker]
    by (simp split: option.split)
qed

lemma follows_dispatch_loop:
  assumes "\<And>t s. follows {tid t} s (snd (f t s))"
  shows "follows (tid ` set ts) s (snd (dispatch_loop f single ts n ids s))"
proof (induction ts arbitrary: n ids s)
  case Nil
  then show ?case by simp
next
  case (Cons t ts)
  have rest: "follows (tid ` set (t # ts)) a (snd (dispatch_loop f single ts m js a))" for m js a
    by (rule follows_mono [OF Cons.IH]) auto
  obtain r s' where f: "f t s = (r, s')" by (cases "f t s")
  have "follows (tid ` set (t # ts)) s s'"
    using assms [of t s] f by (auto intro: follows_mono)
  with follows_trans [OF this rest] rest f show ?case
    by (cases r) auto
qed

lemma follows_groups_loop:
  assumes "\<And>t s. follows {tid t} s (snd (f t s))"
  shows "follows (tid ` (\<Union>g \<in> set gs. set (snd g))) s (snd (groups_loop f gs n ids s))"
proof (induction gs arbitrary: n ids s)
  case Nil
  then show ?case by simp
next
  case (Cons g gs)
  obtain k ts where g: "g = (k, ts)" by (cases g)
  let ?T = "tid ` (\<Union>g \<in> set ((k, ts) # gs). set (snd g))"
  let ?l = "dispatch_loop f (k = None) (if k = None then sort_key consecutive_failures ts else ts) n ids s"
  have rest: "follows ?T a (snd (groups_loop f gs m js a))" for m js a
    by (rule follows_mono [OF Cons.IH]) auto
  have "follows ?T s (snd ?l)"
    using follows_dispatch_loop [OF assms, of "if k = None then sort_key consecutive_failures ts else ts"]
    by (rule follows_mono) auto
  with follows_trans [OF this rest] show ?case
    unfolding g by (cases ?l) (auto split: sum.split prod.split)
qed

lemma set_add_to_group: "(\<Union>g \<in> set (add_to_group t gs). set (snd g)) = insert t (\<Union>g \<in> set gs. set (snd g))"
  by (induction t gs rule: add_to_group.induct) auto

lemma set_group_ready: "(\<Union>g \<in> set (group_ready ts). set (snd g)) = set ts"
proof -
  have "(\<Union>g \<in> set (fold add_to_group ts gs). set (snd g)) = set ts \<union> (\<Union>g \<in> set gs. set (snd g))" for gs
    by (induction ts arbitrary: gs) (auto simp: set_add_to_group)
  then show ?thesis by (simp add: group_ready_def)
qed

lemma follows_claim_and_spawn:
  "follows (tid ` set (ready_list cfg (d_db s))) s (snd (claim_and_spawn env cfg now s))"
  using follows_groups_loop [OF follows_single, of "group_ready (ready_list cfg (d_db s))"]
  by (simp add: claim_and_spawn_def Let_def set_group_ready)

section \<open>The poll cycle\<close>

lemma poll_cycle_eq:
  "snd (poll_cycle env cfg now s) =
     snd (claim_and_spawn env cfg now
       (snd (on_db (promote_retryable_tasks now (disp_tenant cfg))
         (snd (on_db (release_expired_claims now (disp_tenant cfg)) (s\<lparr>flow_blocked := 0\<rparr>))))))"
  unfolding poll_cycle_def Let_def case_prod_unfold by simp

text \<open>The database after the two sweeps.\<close>

definition swept :: "DispatcherConfig \<Rightarrow> int \<Rightarrow> task_db \<Rightarrow> task_db" where
  "swept cfg now db = snd (promote_retryable_tasks now (disp_tenant cfg)
     (snd (release_expired_claims now (disp_tenant cfg) db)))"

lemma poll_cycle_follows:
  obtains s2 where "d_db s2 = swept cfg now (d_db s)" "d_flow s2 = d_flow s"
    "follows (tid ` set (ready_list cfg (d_db s2))) s2 (snd (poll_cycle env cfg now s))"
proof
  let ?s2 = "snd (on_db (promote_retryable_tasks now (disp_tenant cfg))
         (snd (on_db (release_expired_claims now (disp_tenant cfg)) (s\<lparr>flow_blocked := 0\<rparr>))))"
  show "d_db ?s2 = swept cfg now (d_db s)" "d_flow ?s2 = d_flow s"
    by (simp_all add: swept_def)
  show "follows (tid ` set (ready_list cfg (d_db ?s2))) ?s2 (snd (poll_cycle env cfg now s))"
    unfolding poll_cycle_eq by (rule follows_claim_and_spawn)
qed

lemma swept_calls:
  "swept cfg now db = fold exec_call [(now, ReleaseExpired (disp_tenant cfg)), (now, PromoteRetryable (disp_tenant cfg))] db"
  by (simp add: swept_def exec_call_def)

text \<open>C7: Whatever the sockets, callbacks, workspaces and processes do, a poll cycle changes the
  database only by store calls, the release of expired claims and the retry promotion first; so
  it keeps the database consistent and moves every task along the state machine.\<close>

theorem poll_cycle_refines_store_calls:
  assumes "db_ok (d_db s)"
  shows "\<exists>cs. d_db (snd (poll_cycle env cfg now s))
        = fold exec_call ((now, ReleaseExpired (disp_tenant cfg)) # (now, PromoteRetryable (disp_tenant cfg)) # cs) (d_db s)
      \<and> db_ok (d_db (snd (poll_cycle env cfg now s)))
      \<and> (\<forall>i st. status_of (d_db s) i = Some st \<longrightarrow>
           (\<exists>st'. status_of (d_db (snd (poll_cycle env cfg now s))) i = Some st' \<and> edge\<^sup>*\<^sup>* st st'))"
proof -
  obtain s2 where s2: "d_db s2 = swept cfg now (d_db s)" "d_flow s2 = d_flow s"
    "follows (tid ` set (ready_list cfg (d_db s2))) s2 (snd (poll_cycle env cfg now s))"
    by (rule poll_cycle_follows)
  from s2(3) obtain cs where "d_db (snd (poll_cycle env cfg now s)) = fold exec_call cs (d_db s2)"
    by (auto simp: follows_def)
  with s2(1) have eq: "d_db (snd (poll_cycle env cfg now s))
      = fold exec_call ((now, ReleaseExpired (disp_tenant cfg)) # (now, PromoteRetryable (disp_tenant cfg)) # cs) (d_db s)"
    by (simp add: swept_calls)
  show ?thesis
    using store.run_ok [OF assms] machine.run_moves [OF assms] eq by metis
qed

definition quiet_env :: DispatchEnv where
  "quiet_env =
     \<lparr> ws_connections = [], get_agent = (\<lambda>_. None), allocate = (\<lambda>t. Inr (''/ws/'' @ tid t)),
       fence = (\<lambda>_. Inr True), ws_send = (\<lambda>_ _. None), post = (\<lambda>_ _. PostTimeout),
       spawn = (\<lambda>_ _. Inr 99), exc_text = (\<lambda>_. []), os_getpid = 7 \<rparr>"

definition demo_state :: DispatchState where
  "demo_state = \<lparr> d_db = demo_db, d_flow = flow_init FlowControlConfig_default, d_sent = [], d_wire = [], flow_blocked = 0 \<rparr>"

lemma demo_state_ok: "db_ok (d_db demo_state)"
  by (simp add: demo_state_def demo_db_ok)

theorem poll_cycle_refines_store_calls_witness:
  "db_ok (d_db (snd (poll_cycle quiet_env DispatcherConfig_default 5000 demo_state)))"
  using poll_cycle_refines_store_calls [OF demo_state_ok] by blast

text \<open>A poll cycle never takes more permits than the limit: if no agent was over the limit
  before, none is after.\<close>

theorem poll_cycle_respects_limit:
  assumes "\<forall>a. int (get_concurrent_count a (d_flow s)) \<le> max_concurrent_tasks (fc_config (d_flow s))"
    and "max_concurrent_tasks (fc_config (d_flow (snd (poll_cycle env cfg now s)))) > 0"
  shows "int (get_concurrent_count a (d_flow (snd (poll_cycle env cfg now s))))
    \<le> max_concurrent_tasks (fc_config (d_flow (snd (poll_cycle env cfg now s))))"
proof -
  obtain s2 where "d_db s2 = swept cfg now (d_db s)" "d_flow s2 = d_flow s"
    "follows (tid ` set (ready_list cfg (d_db s2))) s2 (snd (poll_cycle env cfg now s))"
    by (rule poll_cycle_follows)
  then have "within_cap (d_flow (snd (poll_cycle env cfg now s)))"
    using assms(1) by (auto simp: follows_def within_cap_def)
  with assms(2) show ?thesis
    by (auto simp: within_cap_def)
qed

theorem poll_cycle_respects_limit_witness:
  "int (get_concurrent_count ''w'' (d_flow (snd (poll_cycle quiet_env DispatcherConfig_default 5 demo_state)))) \<le> 5"
proof -
  have "max_concurrent_tasks (fc_config (d_flow (snd (poll_cycle quiet_env DispatcherConfig_default 5 demo_state)))) = 5"
    by code_simp
  with poll_cycle_respects_limit [of demo_state quiet_env DispatcherConfig_default 5 "''w''"] show ?thesis
    by (simp add: demo_state_def get_concurrent_count_def flow_init_def FlowControlConfig_default_def)
qed

lemma row_kept_by_sweep:
  assumes "ids_ok db" "find_task db i = Some t" "\<not> P t"
    and "\<And>t db j. j \<noteq> tid t \<Longrightarrow> find_task (f t db) j = find_task db j"
    and "\<And>t db. find_task db (tid t) = Some t \<Longrightarrow> \<exists>t'. find_task (f t db) (tid t) = Some t'"
  shows "find_task (fold f (filter P (tasks db)) db) i = Some t"
  using sweep_rows [OF assms(1,2), of P f "\<lambda>_ _. True"] assms(3-) by (auto split: if_splits)

lemma swept_other_tenant:
  assumes ok: "db_ok db" and t: "find_task db i = Some t"
    and other: "disp_tenant cfg = Some x" "tenant t \<noteq> Some x"
  shows "find_task (swept cfg now db) i = Some t"
proof -
  let ?db1 = "snd (release_expired_claims now (disp_tenant cfg) db)"
  have no: "\<not> tenant_matches (disp_tenant cfg) t"
    using other by (simp add: tenant_matches_def)
  have 1: "find_task ?db1 i = Some t"
    unfolding release_result snd_conv using ok no
    by (intro row_kept_by_sweep [OF _ t]) (simp_all add: db_ok_def expired_def find_task_release_one)
  have "db_ok ?db1"
    using ok step_ok_release_expired_claims by (simp add: step_ok_def)
  then show ?thesis
    unfolding swept_def promote_result snd_conv using no
    by (intro row_kept_by_sweep [OF _ 1]) (simp_all add: db_ok_def retryable_def find_task_promote_one)
qed

text \<open>A dispatcher configured for a tenant never changes a task of another tenant, or of none, in
  any poll cycle.\<close>

theorem poll_cycle_tenant_isolation:
  assumes "db_ok (d_db s)" and "find_task (d_db s) i = Some t"
    and "disp_tenant cfg = Some x" and "x \<noteq> []" and "tenant t \<noteq> Some x"
  shows "find_task (d_db (snd (poll_cycle env cfg now s))) i = Some t"
proof -
  obtain s2 where db: "d_db s2 = swept cfg now (d_db s)" and "d_flow s2 = d_flow s"
    and fol: "follows (tid ` set (ready_list cfg (d_db s2))) s2 (snd (poll_cycle env cfg now s))"
    by (rule poll_cycle_follows)
  have row: "find_task (d_db s2) i = Some t"
    unfolding db by (rule swept_other_tenant [OF assms(1,2,3,5)])
  have "db_ok (d_db s2)"
    unfolding db swept_calls by (rule store.run_ok [OF assms(1)])
  then have "ids_ok (d_db s2)"
    by (simp add: db_ok_def)
  moreover have "tenant r = Some x \<and> r \<in> set (tasks (d_db s2))" if "r \<in> set (ready_list cfg (d_db s2))" for r
  proof -
    let ?a = "ListArgs_default\<lparr>f_status := Some (status_value READY), f_limit := 200,
      f_sort := ''-priority'', f_tenant := disp_tenant cfg\<rparr>"
    have "r \<in> set (tasks (d_db s2))" "list_where ?a (d_db s2) r"
      using that set_limit_offset by (fastforce simp: ready_list_def list_tasks_eq matching_def)+
    then show ?thesis
      using assms(3,4) by (simp add: list_where_def)
  qed
  ultimately have "i \<notin> tid ` set (ready_list cfg (d_db s2))"
    using row assms(5) find_task_of_row by fastforce
  with fol row show ?thesis
    by (simp add: follows_def)
qed

theorem poll_cycle_tenant_isolation_witness:
  "find_task (d_db (snd (poll_cycle quiet_env (DispatcherConfig_default\<lparr>disp_tenant := Some ''acme''\<rparr>) 9
     (demo_state\<lparr>d_db := ready_db\<rparr>)))) ''a'' = Some ready_row"
  by (rule poll_cycle_tenant_isolation [of _ _ _ _ "''acme''"])
    (simp_all add: ready_db_ok find_ready_row ready_row_def new_task_def CreateArgs_default_def)

end
