(* ===== verification/Workflow.thy ===== *)
theory Workflow
  imports TaskStore
begin

text \<open>
  \<open>orchestration/workflow.py\<close>: validation of a parsed workflow, the three-colour search for
  cycles, Kahn's topological sort and the creation of the tasks in the store. Field values have
  the types the dataclasses declare. A Python loop or recursion whose end is not structural runs
  on fuel and gives \<open>None\<close> when the fuel is used up; \<open>WorkflowCycles\<close> and \<open>WorkflowSort\<close> prove that the fuel given is
  enough. The ids of the created tasks come from the argument \<open>uuid\<close>. Messages are kept as
  constructors with their data.
\<close>

section \<open>Data structures\<close>

record WorkflowDependency =
  dep_task :: string
  dep_condition :: "string option"

record WorkflowTaskSpec =
  w_id :: string
  w_title :: string
  w_body :: "string option"
  w_assignee :: "string option"
  w_priority :: int
  w_max_runtime_seconds :: "int option"
  w_max_retries :: "int option"
  w_workspace_kind :: "string option"
  w_workspace_path :: "string option"
  depends_on :: "WorkflowDependency list"

record WorkflowSpec =
  w_name :: string
  w_description :: "string option"
  w_tenant :: "string option"
  w_created_by :: string
  w_tasks :: "WorkflowTaskSpec list"

datatype workflow_error =
    NameRequired
  | NoTasks
  | DuplicateId string
  | UnknownDependency string string
  | CircularDependency "string list"
  | ParentNotCreated string string
  | TaskError string store_error

record WorkflowResult =
  res_name :: string
  task_ids :: "(string \<times> string) list"
  created_count :: nat
  res_errors :: "workflow_error list"

text \<open>A dict comprehension over the tasks: a later task with the same id replaces the earlier.\<close>

definition id_map :: "WorkflowTaskSpec list \<Rightarrow> string \<Rightarrow> WorkflowTaskSpec option" where
  "id_map ts = map_of (rev (map (\<lambda>t. (w_id t, t)) ts))"

section \<open>Cycle search\<close>

datatype color = WHITE | GRAY | BLACK

record dfs_state =
  color_of :: "string \<Rightarrow> color option"
  parent_of :: "string \<Rightarrow> string option"
  cycle_found :: "workflow_error list"

text \<open>The \<open>while\<close> loop that follows the parents from the current node back to the goal.\<close>

fun walk_back :: "nat \<Rightarrow> (string \<Rightarrow> string option) \<Rightarrow> string \<Rightarrow> string option \<Rightarrow> string list option" where
  "walk_back n par goal None = Some []"
| "walk_back n par goal (Some cur) =
     (if cur = goal then Some []
      else (case n of 0 \<Rightarrow> None | Suc m \<Rightarrow> map_option ((#) cur) (walk_back m par goal (par cur))))"

definition cycle_path :: "nat \<Rightarrow> dfs_state \<Rightarrow> string \<Rightarrow> string \<Rightarrow> string list option" where
  "cycle_path n s dep node =
     map_option (\<lambda>p. rev ([dep] @ p @ [dep])) (walk_back n (parent_of s) dep (Some node))"

definition paint :: "string \<Rightarrow> color \<Rightarrow> dfs_state \<Rightarrow> dfs_state" where
  "paint i c s = s\<lparr>color_of := (color_of s)(i := Some c)\<rparr>"

fun dfs :: "nat \<Rightarrow> WorkflowTaskSpec list \<Rightarrow> string \<Rightarrow> dfs_state \<Rightarrow> dfs_state option"
  and dfs_deps :: "nat \<Rightarrow> WorkflowTaskSpec list \<Rightarrow> string \<Rightarrow> WorkflowDependency list \<Rightarrow> dfs_state
    \<Rightarrow> dfs_state option" where
  "dfs 0 ts node s = None"
| "dfs (Suc n) ts node s =
     (let s1 = paint node GRAY s in
      case id_map ts node of
        None \<Rightarrow> Some (paint node BLACK s1)
      | Some t \<Rightarrow> map_option (paint node BLACK) (dfs_deps n ts node (depends_on t) s1))"
| "dfs_deps n ts node [] s = Some s"
| "dfs_deps n ts node (d # ds) s =
     (case color_of s (dep_task d) of
        None \<Rightarrow> dfs_deps n ts node ds s
      | Some GRAY \<Rightarrow>
          (case cycle_path (length ts) s (dep_task d) node of
             None \<Rightarrow> None
           | Some p \<Rightarrow> dfs_deps n ts node ds (s\<lparr>cycle_found := cycle_found s @ [CircularDependency p]\<rparr>))
      | Some WHITE \<Rightarrow>
          (case dfs n ts (dep_task d) (s\<lparr>parent_of := (parent_of s)(dep_task d := Some node)\<rparr>) of
             None \<Rightarrow> None
           | Some s' \<Rightarrow> dfs_deps n ts node ds s')
      | Some BLACK \<Rightarrow> dfs_deps n ts node ds s)"

fun dfs_roots :: "nat \<Rightarrow> WorkflowTaskSpec list \<Rightarrow> WorkflowTaskSpec list \<Rightarrow> dfs_state \<Rightarrow> dfs_state option" where
  "dfs_roots n ts [] s = Some s"
| "dfs_roots n ts (t # us) s =
     (if color_of s (w_id t) = Some WHITE
      then (case dfs n ts (w_id t) s of None \<Rightarrow> None | Some s' \<Rightarrow> dfs_roots n ts us s')
      else dfs_roots n ts us s)"

definition dfs_start :: "WorkflowTaskSpec list \<Rightarrow> dfs_state" where
  "dfs_start ts =
     \<lparr> color_of = (\<lambda>i. if i \<in> w_id ` set ts then Some WHITE else None),
       parent_of = (\<lambda>_. None), cycle_found = [] \<rparr>"

definition detect_workflow_cycles :: "WorkflowTaskSpec list \<Rightarrow> workflow_error list option" where
  "detect_workflow_cycles ts =
     map_option cycle_found (dfs_roots (length ts) ts ts (dfs_start ts))"

section \<open>Validation\<close>

fun duplicate_errors :: "string set \<Rightarrow> WorkflowTaskSpec list \<Rightarrow> workflow_error list" where
  "duplicate_errors seen [] = []"
| "duplicate_errors seen (t # ts) =
     (if w_id t \<in> seen then [DuplicateId (w_id t)] else []) @ duplicate_errors (insert (w_id t) seen) ts"

definition reference_errors :: "WorkflowTaskSpec list \<Rightarrow> workflow_error list" where
  "reference_errors ts =
     [UnknownDependency (w_id t) (dep_task d). t \<leftarrow> ts, d \<leftarrow> depends_on t, id_map ts (dep_task d) = None]"

definition validate_workflow :: "WorkflowSpec \<Rightarrow> workflow_error list option" where
  "validate_workflow spec =
     (let errors = (if str_true (w_name spec) then [] else [NameRequired]) in
      if w_tasks spec = [] then Some (errors @ [NoTasks])
      else
        (let errors = errors @ duplicate_errors {} (w_tasks spec) @ reference_errors (w_tasks spec) in
         if errors = [] then map_option (\<lambda>cs. errors @ cs) (detect_workflow_cycles (w_tasks spec))
         else Some errors))"

section \<open>Topological sort\<close>

definition initial_degree :: "WorkflowTaskSpec list \<Rightarrow> string \<Rightarrow> int" where
  "initial_degree ts i =
     int (length [d. t \<leftarrow> ts, w_id t = i, d \<leftarrow> depends_on t, dep_task d \<in> w_id ` set ts])"

text \<open>The keys of the dict, each once, in the order of first insertion.\<close>

definition dict_keys :: "WorkflowTaskSpec list \<Rightarrow> string list" where
  "dict_keys ts = rev (remdups (rev (map w_id ts)))"

fun relax_deps ::
  "string \<Rightarrow> string \<Rightarrow> WorkflowDependency list \<Rightarrow> (string \<Rightarrow> int) \<times> string list
    \<Rightarrow> (string \<Rightarrow> int) \<times> string list" where
  "relax_deps node i [] st = st"
| "relax_deps node i (d # ds) (deg, queue) =
     (if dep_task d = node
      then (let deg' = deg(i := deg i - 1) in
            relax_deps node i ds (deg', if deg' i = 0 then queue @ [i] else queue))
      else relax_deps node i ds (deg, queue))"

definition relax ::
  "WorkflowTaskSpec list \<Rightarrow> string \<Rightarrow> (string \<Rightarrow> int) \<times> string list \<Rightarrow> (string \<Rightarrow> int) \<times> string list" where
  "relax ts node st = fold (\<lambda>t. relax_deps node (w_id t) (depends_on t)) ts st"

fun kahn :: "nat \<Rightarrow> WorkflowTaskSpec list \<Rightarrow> (string \<Rightarrow> int) \<Rightarrow> string list \<Rightarrow> string list \<Rightarrow> string list option" where
  "kahn n ts deg [] popped = Some popped"
| "kahn 0 ts deg (i # queue) popped = None"
| "kahn (Suc n) ts deg (i # queue) popped =
     (let (deg', queue') = relax ts i (deg, queue) in kahn n ts deg' queue' (popped @ [i]))"

definition topological_ids :: "WorkflowTaskSpec list \<Rightarrow> string list option" where
  "topological_ids ts =
     map_option
       (\<lambda>s. if length s < length ts then s @ filter (\<lambda>i. i \<notin> set s) (map w_id ts) else s)
       (kahn (length ts) ts (initial_degree ts)
         (filter (\<lambda>i. initial_degree ts i = 0) (dict_keys ts)) [])"

definition topological_sort :: "WorkflowTaskSpec list \<Rightarrow> WorkflowTaskSpec list option" where
  "topological_sort ts = map_option (map (\<lambda>i. the (id_map ts i))) (topological_ids ts)"

section \<open>Creating the tasks\<close>

definition nl :: string where
  "nl = [CHR 0x0A]"

definition workflow_body :: "WorkflowSpec \<Rightarrow> WorkflowTaskSpec \<Rightarrow> string" where
  "workflow_body spec t =
     (let b = opt_or (w_body t) [] in
      if opt_true (w_description spec)
      then ''# '' @ w_name spec @ nl @ nl @ opt_or (w_description spec) [] @ nl @ nl @ ''---'' @ nl @ nl @ b
      else b)"

text \<open>The parents that are already created, and an error for each that is not.\<close>

fun resolve_parents ::
  "string \<Rightarrow> (string \<times> string) list \<Rightarrow> WorkflowDependency list \<Rightarrow> parent_arg list \<times> workflow_error list" where
  "resolve_parents i created [] = ([], [])"
| "resolve_parents i created (d # ds) =
     (let (ps, es) = resolve_parents i created ds in
      case map_of created (dep_task d) of
        None \<Rightarrow> (ps, ParentNotCreated i (dep_task d) # es)
      | Some p \<Rightarrow>
          (ParentDict (Some p) (if opt_true (dep_condition d) then dep_condition d else None) # ps, es))"

definition workflow_args :: "WorkflowSpec \<Rightarrow> WorkflowTaskSpec \<Rightarrow> parent_arg list \<Rightarrow> CreateArgs" where
  "workflow_args spec t ps =
     (CreateArgs_default (w_title t))
       \<lparr> arg_body := (if str_true (workflow_body spec t) then Some (workflow_body spec t) else None),
         arg_assignee := w_assignee t, arg_priority := w_priority t, arg_parents := ps,
         arg_workspace_kind := w_workspace_kind t, arg_workspace_path := w_workspace_path t,
         arg_max_runtime_seconds := w_max_runtime_seconds t, arg_max_retries := w_max_retries t,
         arg_tenant := w_tenant spec, arg_created_by := Some (w_created_by spec) \<rparr>"

fun create_loop ::
  "(string \<Rightarrow> string) \<Rightarrow> int \<Rightarrow> WorkflowSpec \<Rightarrow> WorkflowTaskSpec list \<Rightarrow> (string \<times> string) list
    \<Rightarrow> workflow_error list \<Rightarrow> task_db \<Rightarrow> ((string \<times> string) list \<times> workflow_error list) \<times> task_db" where
  "create_loop uuid now spec [] created errors db = ((created, errors), db)"
| "create_loop uuid now spec (t # ts) created errors db =
     (let (ps, es) = resolve_parents (w_id t) created (depends_on t) in
      case create_task now (uuid (w_id t)) (workflow_args spec t ps) db of
        (Inl e, db') \<Rightarrow>
          create_loop uuid now spec ts created (errors @ es @ [TaskError (w_id t) e]) db'
      | (Inr task, db') \<Rightarrow>
          create_loop uuid now spec ts (dict_put (w_id t) (tid task) created) (errors @ es) db')"

definition would_create :: "string \<Rightarrow> string" where
  "would_create i = ''(would create: '' @ i @ '')''"

definition apply_workflow ::
  "(string \<Rightarrow> string) \<Rightarrow> int \<Rightarrow> bool \<Rightarrow> WorkflowSpec \<Rightarrow> task_db \<Rightarrow> (WorkflowResult \<times> task_db) option" where
  "apply_workflow uuid now dry_run spec db =
     (case validate_workflow spec of
        None \<Rightarrow> None
      | Some (e # es) \<Rightarrow>
          Some (\<lparr> res_name = w_name spec, task_ids = [], created_count = 0, res_errors = e # es \<rparr>, db)
      | Some [] \<Rightarrow>
          (case topological_sort (w_tasks spec) of
             None \<Rightarrow> None
           | Some order \<Rightarrow>
               if dry_run
               then Some (\<lparr> res_name = w_name spec,
                            task_ids = fold (\<lambda>t. dict_put (w_id t) (would_create (w_id t))) order [],
                            created_count = length order, res_errors = [] \<rparr>, db)
               else
                 (let ((created, errors), db') = create_loop uuid now spec order [] [] db in
                  Some (\<lparr> res_name = w_name spec, task_ids = created, created_count = length created,
                          res_errors = errors \<rparr>, db'))))"

end
