(* ===== verification/WorkflowCycles.thy ===== *)
theory WorkflowCycles
  imports Workflow
begin

text \<open>
  The three-colour search of \<open>_detect_workflow_cycles\<close> terminates within the fuel it is given and
  reports a cycle exactly when the dependency relation has one. The grey nodes form the chain of
  parents of the current node, which makes every report a real cycle; the black nodes are closed
  under dependencies and acyclic as long as nothing is reported.
\<close>

section \<open>The dependency relation\<close>

definition dep_rel :: "WorkflowTaskSpec list \<Rightarrow> (string \<times> string) set" where
  "dep_rel ts = {(i, j). \<exists>t. id_map ts i = Some t \<and> j \<in> dep_task ` set (depends_on t) \<and> j \<in> w_id ` set ts}"

lemma id_map_Some: "id_map ts i = Some t \<Longrightarrow> t \<in> set ts \<and> w_id t = i"
  unfolding id_map_def by (drule map_of_SomeD) auto

lemma id_map_None: "id_map ts i = None \<longleftrightarrow> i \<notin> w_id ` set ts"
  by (simp add: id_map_def map_of_eq_None_iff image_image)

lemma dep_rel_ids: "(i, j) \<in> dep_rel ts \<Longrightarrow> i \<in> w_id ` set ts \<and> j \<in> w_id ` set ts"
  by (auto simp: dep_rel_def dest: id_map_Some)

text \<open>Adding a node in front of a closed acyclic set.\<close>

lemma acyclic_extend:
  assumes "acyclic (R \<inter> B \<times> UNIV)" "R `` B \<subseteq> B" "n \<notin> B" "R `` {n} \<subseteq> B"
  shows "acyclic (R \<inter> insert n B \<times> UNIV)"
proof -
  have "acyclic ((R \<inter> B \<times> UNIV)\<inverse> \<union> (R `` {n}) \<times> {n})"
    using assms by (intro acyclic_into_sink) (auto simp: acyclic_converse)
  moreover have "(R \<inter> insert n B \<times> UNIV)\<inverse> = (R \<inter> B \<times> UNIV)\<inverse> \<union> (R `` {n}) \<times> {n}"
    by auto
  ultimately show ?thesis
    by (metis acyclic_converse)
qed

section \<open>Chains of parents\<close>

fun chain :: "(string \<Rightarrow> string option) \<Rightarrow> (string \<times> string) set \<Rightarrow> string list \<Rightarrow> bool" where
  "chain par R [] = True"
| "chain par R [x] = (par x = None)"
| "chain par R (x # y # ys) = (par x = Some y \<and> (y, x) \<in> R \<and> chain par R (y # ys))"

lemma chain_cong: "(\<And>x. x \<in> set st \<Longrightarrow> par' x = par x) \<Longrightarrow> chain par' R st = chain par R st"
  by (induction par R st rule: chain.induct) auto

lemma chain_reaches: "chain par R (x # st) \<Longrightarrow> g \<in> set (x # st) \<Longrightarrow> (g, x) \<in> R\<^sup>*"
proof (induction st arbitrary: x)
  case Nil
  then show ?case by simp
next
  case (Cons y ys)
  then show ?case by (auto intro: rtrancl_into_rtrancl)
qed

lemma walk_back_chain:
  "chain par R (x # st) \<Longrightarrow> length (x # st) \<le> n \<Longrightarrow> walk_back n par goal (Some x) \<noteq> None"
proof (induction st arbitrary: x n)
  case Nil
  then show ?case by (cases n) auto
next
  case (Cons y ys)
  then show ?case by (cases n) auto
qed

section \<open>Invariants of the search\<close>

definition with_color :: "color \<Rightarrow> dfs_state \<Rightarrow> string set" where
  "with_color c s = {i. color_of s i = Some c}"

text \<open>What a finished call leaves of the state it started from.\<close>

definition grows :: "dfs_state \<Rightarrow> dfs_state \<Rightarrow> bool" where
  "grows s s' \<longleftrightarrow>
     dom (color_of s') = dom (color_of s) \<and>
     (\<forall>i. color_of s i \<noteq> Some WHITE \<longrightarrow> color_of s' i = color_of s i \<and> parent_of s' i = parent_of s i) \<and>
     with_color GRAY s' = with_color GRAY s \<and>
     (\<exists>l. cycle_found s' = cycle_found s @ l)"

lemma grows_refl [simp]: "grows s s"
  by (simp add: grows_def)

lemma grows_trans:
  assumes "grows a b" "grows b c" shows "grows a c"
proof -
  have "color_of c i = color_of a i \<and> parent_of c i = parent_of a i" if "color_of a i \<noteq> Some WHITE" for i
    using assms that unfolding grows_def by metis
  moreover have "\<exists>l. cycle_found c = cycle_found a @ l"
    using assms unfolding grows_def by (metis append.assoc)
  ultimately show ?thesis
    using assms unfolding grows_def by simp
qed

lemma grows_black: "grows s s' \<Longrightarrow> color_of s i = Some BLACK \<Longrightarrow> color_of s' i = Some BLACK"
  by (auto simp: grows_def)

lemma grows_white: "grows s s' \<Longrightarrow> with_color WHITE s' \<subseteq> with_color WHITE s"
  by (auto simp: grows_def with_color_def)

lemma grows_found: "grows s s' \<Longrightarrow> cycle_found s' = [] \<Longrightarrow> cycle_found s = []"
  by (auto simp: grows_def)

definition search_ok :: "WorkflowTaskSpec list \<Rightarrow> dfs_state \<Rightarrow> bool" where
  "search_ok ts s \<longleftrightarrow>
     dom (color_of s) = w_id ` set ts \<and>
     (cycle_found s \<noteq> [] \<longrightarrow> \<not> acyclic (dep_rel ts)) \<and>
     (cycle_found s = [] \<longrightarrow>
        dep_rel ts `` with_color BLACK s \<subseteq> with_color BLACK s \<and>
        acyclic (dep_rel ts \<inter> with_color BLACK s \<times> UNIV))"

definition fresh_parents :: "dfs_state \<Rightarrow> string set \<Rightarrow> bool" where
  "fresh_parents s X \<longleftrightarrow> (\<forall>i \<in> with_color WHITE s - X. parent_of s i = None)"

lemma finite_white: "search_ok ts s \<Longrightarrow> finite (with_color WHITE s)"
proof -
  assume "search_ok ts s"
  then have "with_color WHITE s \<subseteq> w_id ` set ts"
    by (auto simp: search_ok_def with_color_def)
  then show ?thesis by (rule finite_subset) simp
qed

lemma color_paint [simp]: "color_of (paint i c s) = (color_of s)(i := Some c)"
  "parent_of (paint i c s) = parent_of s" "cycle_found (paint i c s) = cycle_found s"
  by (simp_all add: paint_def)

lemma with_color_paint:
  "with_color c (paint i d s) = (if c = d then insert i (with_color c s) else with_color c s - {i})"
  by (auto simp: with_color_def)

lemma with_color_frame [simp]:
  "with_color c (s\<lparr>parent_of := p\<rparr>) = with_color c s" "with_color c (s\<lparr>cycle_found := f\<rparr>) = with_color c s"
  by (simp_all add: with_color_def)

text \<open>Painting a node black when its dependencies are.\<close>

lemma search_ok_finish:
  assumes ok: "search_ok ts s" and "color_of s node = Some GRAY"
    and deps: "cycle_found s = [] \<Longrightarrow> dep_rel ts `` {node} \<subseteq> with_color BLACK s"
  shows "search_ok ts (paint node BLACK s)"
proof -
  have "node \<notin> with_color BLACK s" "node \<in> w_id ` set ts"
    using assms(1,2) by (auto simp: with_color_def search_ok_def)
  then show ?thesis
    using ok deps acyclic_extend [of "dep_rel ts" "with_color BLACK s" node]
    by (auto simp: search_ok_def with_color_paint insert_absorb)
qed

section \<open>The calls\<close>

definition dfs_pre :: "nat \<Rightarrow> WorkflowTaskSpec list \<Rightarrow> string \<Rightarrow> string list \<Rightarrow> dfs_state \<Rightarrow> bool" where
  "dfs_pre n ts node st s \<longleftrightarrow>
     search_ok ts s \<and> fresh_parents s {node} \<and> color_of s node = Some WHITE \<and>
     set st = with_color GRAY s \<and> distinct st \<and> chain (parent_of s) (dep_rel ts) (node # st) \<and>
     card (with_color WHITE s) \<le> n"

definition deps_pre :: "nat \<Rightarrow> WorkflowTaskSpec list \<Rightarrow> string \<Rightarrow> WorkflowDependency list
    \<Rightarrow> string list \<Rightarrow> dfs_state \<Rightarrow> bool" where
  "deps_pre n ts node ds st s \<longleftrightarrow>
     search_ok ts s \<and> fresh_parents s {} \<and>
     (\<exists>t. id_map ts node = Some t \<and> set ds \<subseteq> set (depends_on t)) \<and>
     set (node # st) = with_color GRAY s \<and> distinct (node # st) \<and>
     chain (parent_of s) (dep_rel ts) (node # st) \<and> card (with_color WHITE s) \<le> n"

definition dfs_post :: "WorkflowTaskSpec list \<Rightarrow> string \<Rightarrow> dfs_state \<Rightarrow> dfs_state option \<Rightarrow> bool" where
  "dfs_post ts node s r \<longleftrightarrow>
     (\<exists>s'. r = Some s' \<and> search_ok ts s' \<and> fresh_parents s' {} \<and> grows s s' \<and> color_of s' node = Some BLACK)"

definition deps_post :: "WorkflowTaskSpec list \<Rightarrow> WorkflowDependency list \<Rightarrow> dfs_state
    \<Rightarrow> dfs_state option \<Rightarrow> bool" where
  "deps_post ts ds s r \<longleftrightarrow>
     (\<exists>s'. r = Some s' \<and> search_ok ts s' \<and> fresh_parents s' {} \<and> grows s s' \<and>
       (cycle_found s' = [] \<longrightarrow> dep_task ` set ds \<inter> w_id ` set ts \<subseteq> with_color BLACK s'))"

lemma dfs_step:
  assumes pre: "dfs_pre (Suc n) ts node st s" and t: "id_map ts node = Some t"
    and deps: "deps_pre n ts node (depends_on t) st (paint node GRAY s)
      \<Longrightarrow> deps_post ts (depends_on t) (paint node GRAY s) (dfs_deps n ts node (depends_on t) (paint node GRAY s))"
  shows "dfs_post ts node s (dfs (Suc n) ts node s)"
proof -
  let ?s1 = "paint node GRAY s"
  have white: "node \<in> with_color WHITE s" and st: "set st = with_color GRAY s" "node \<notin> set st"
    using pre by (auto simp: dfs_pre_def with_color_def)
  have "with_color BLACK ?s1 = with_color BLACK s" "dom (color_of ?s1) = dom (color_of s)"
    using white by (auto simp: with_color_paint with_color_def)
  then have ok1: "search_ok ts ?s1"
    using pre by (simp add: dfs_pre_def search_ok_def del: color_paint(1))
  have "card (with_color WHITE ?s1) \<le> n"
    using pre white by (auto simp: dfs_pre_def with_color_paint card_Diff_singleton)
  then have "deps_pre n ts node (depends_on t) st ?s1"
    using pre ok1 st t by (auto simp: dfs_pre_def deps_pre_def with_color_paint fresh_parents_def)
  from deps [OF this] obtain s2 where s2: "dfs_deps n ts node (depends_on t) ?s1 = Some s2"
    "search_ok ts s2" "fresh_parents s2 {}" "grows ?s1 s2"
    "cycle_found s2 = [] \<Longrightarrow> dep_task ` set (depends_on t) \<inter> w_id ` set ts \<subseteq> with_color BLACK s2"
    by (auto simp: deps_post_def)
  have gray: "color_of s2 node = Some GRAY" "parent_of s2 node = parent_of s node"
    using s2(4) by (auto simp: grows_def)
  have "dep_rel ts `` {node} \<subseteq> dep_task ` set (depends_on t) \<inter> w_id ` set ts"
    using t by (auto simp: dep_rel_def)
  then have "search_ok ts (paint node BLACK s2)"
    using s2(2,5) gray by (intro search_ok_finish) blast+
  moreover have "fresh_parents (paint node BLACK s2) {}"
    using s2(3) by (auto simp: fresh_parents_def with_color_paint)
  moreover have "grows s (paint node BLACK s2)"
  proof -
    have "color_of s2 i = color_of s i \<and> parent_of s2 i = parent_of s i \<and> i \<noteq> node"
      if "color_of s i \<noteq> Some WHITE" for i
      using s2(4) that white by (auto simp: grows_def with_color_def)
    moreover have "with_color GRAY s2 - {node} = with_color GRAY s"
      using s2(4) st by (auto simp: grows_def with_color_paint)
    moreover have "dom (color_of s2) = insert node (dom (color_of s))" "\<exists>l. cycle_found s2 = cycle_found s @ l"
      using s2(4) by (auto simp: grows_def)
    moreover have "node \<in> dom (color_of s)"
      using white by (auto simp: with_color_def)
    ultimately show ?thesis
      by (auto simp: grows_def with_color_paint)
  qed
  ultimately show ?thesis
    using s2(1) t by (auto simp: dfs_post_def Let_def)
qed

lemma id_map_dep: "id_map ts node = Some t \<Longrightarrow> d \<in> set (depends_on t) \<Longrightarrow> dep_task d \<in> w_id ` set ts
    \<Longrightarrow> (node, dep_task d) \<in> dep_rel ts"
  by (auto simp: dep_rel_def)

lemma deps_gray:
  assumes pre: "deps_pre n ts node (d # ds) st s" and gray: "color_of s (dep_task d) = Some GRAY"
  obtains p where "cycle_path (length ts) s (dep_task d) node = Some p"
    "deps_pre n ts node ds st (s\<lparr>cycle_found := cycle_found s @ [CircularDependency p]\<rparr>)"
proof -
  from pre obtain t where t: "id_map ts node = Some t" "d \<in> set (depends_on t)"
    and st: "set (node # st) = with_color GRAY s" "distinct (node # st)"
    and chain: "chain (parent_of s) (dep_rel ts) (node # st)" and ok: "search_ok ts s"
    by (auto simp: deps_pre_def)
  have "with_color GRAY s \<subseteq> w_id ` set ts"
    using ok by (auto simp: search_ok_def with_color_def)
  then have "length (node # st) \<le> length ts"
    using st by (metis List.finite_set card_image_le card_length card_mono distinct_card finite_imageI le_trans)
  then have "walk_back (length ts) (parent_of s) (dep_task d) (Some node) \<noteq> None"
    by (rule walk_back_chain [OF chain])
  then obtain p where p: "cycle_path (length ts) s (dep_task d) node = Some p"
    by (auto simp: cycle_path_def)
  have "dep_task d \<in> w_id ` set ts"
    using gray ok by (auto simp: search_ok_def)
  then have "(node, dep_task d) \<in> dep_rel ts"
    by (rule id_map_dep [OF t])
  moreover have "(dep_task d, node) \<in> (dep_rel ts)\<^sup>*"
    by (rule chain_reaches [OF chain]) (unfold st(1), simp add: with_color_def gray)
  ultimately have "\<not> acyclic (dep_rel ts)"
    by (auto simp: acyclic_def intro: rtrancl_into_trancl2)
  then have "search_ok ts (s\<lparr>cycle_found := cycle_found s @ [CircularDependency p]\<rparr>)"
    using ok by (simp add: search_ok_def)
  with pre have "deps_pre n ts node ds st (s\<lparr>cycle_found := cycle_found s @ [CircularDependency p]\<rparr>)"
    by (auto simp: deps_pre_def fresh_parents_def)
  with p that show thesis by blast
qed

lemma deps_white:
  assumes pre: "deps_pre n ts node (d # ds) st s" and white: "color_of s (dep_task d) = Some WHITE"
  defines "s1 \<equiv> s\<lparr>parent_of := (parent_of s)(dep_task d := Some node)\<rparr>"
  shows "dfs_pre n ts (dep_task d) (node # st) s1"
    and "dfs_post ts (dep_task d) s1 (Some s') \<Longrightarrow> deps_pre n ts node ds st s' \<and> grows s s'"
proof -
  from pre obtain t where t: "id_map ts node = Some t" "d \<in> set (depends_on t)"
    and st: "set (node # st) = with_color GRAY s" "distinct (node # st)"
    and chain: "chain (parent_of s) (dep_rel ts) (node # st)" and ok: "search_ok ts s"
    and fresh: "fresh_parents s {}" and card: "card (with_color WHITE s) \<le> n"
    by (auto simp: deps_pre_def)
  have notin: "dep_task d \<notin> set (node # st)"
    unfolding st(1) using white by (simp add: with_color_def)
  have chain1: "chain (parent_of s1) (dep_rel ts) (node # st)"
  proof -
    have "parent_of s1 x = parent_of s x" if "x \<in> set (node # st)" for x
      using notin that by (auto simp: s1_def)
    with chain show ?thesis
      using chain_cong by blast
  qed
  have "dep_task d \<in> w_id ` set ts"
    using white ok by (auto simp: search_ok_def)
  then have "chain (parent_of s1) (dep_rel ts) (dep_task d # node # st)"
    using chain1 id_map_dep [OF t] by (simp add: s1_def)
  then show "dfs_pre n ts (dep_task d) (node # st) s1"
    using ok fresh white st card by (simp add: dfs_pre_def s1_def search_ok_def fresh_parents_def)
  assume "dfs_post ts (dep_task d) s1 (Some s')"
  then have s': "search_ok ts s'" "fresh_parents s' {}" "grows s1 s'" "color_of s' (dep_task d) = Some BLACK"
    by (auto simp: dfs_post_def)
  have gr: "grows s s'"
    using s'(3) white by (auto simp: grows_def s1_def)
  have "chain (parent_of s') (dep_rel ts) (node # st)"
  proof -
    have "color_of s x = Some GRAY" if "x \<in> set (node # st)" for x
      using that unfolding st(1) by (simp add: with_color_def)
    then have "parent_of s' x = parent_of s x" if "x \<in> set (node # st)" for x
      using that gr by (simp add: grows_def)
    with chain show ?thesis
      using chain_cong by blast
  qed
  moreover have "card (with_color WHITE s') \<le> n"
    using card card_mono [OF finite_white [OF ok] grows_white [OF gr]] by linarith
  moreover have "with_color GRAY s' = with_color GRAY s"
    using gr by (simp add: grows_def)
  ultimately show "deps_pre n ts node ds st s' \<and> grows s s'"
    using gr s' t st pre by (auto simp: deps_pre_def)
qed

lemma deps_post_Cons:
  assumes "deps_post ts ds s1 r" and "grows s s1"
    and "\<And>s'. grows s1 s' \<Longrightarrow> cycle_found s' = [] \<Longrightarrow>
           dep_task d \<in> w_id ` set ts \<Longrightarrow> color_of s' (dep_task d) = Some BLACK"
  shows "deps_post ts (d # ds) s r"
proof -
  from assms(1) obtain s' where s': "r = Some s'" "search_ok ts s'" "fresh_parents s' {}" "grows s1 s'"
    "cycle_found s' = [] \<Longrightarrow> dep_task ` set ds \<inter> w_id ` set ts \<subseteq> with_color BLACK s'"
    by (auto simp: deps_post_def)
  have "dep_task ` set (d # ds) \<inter> w_id ` set ts \<subseteq> with_color BLACK s'" if "cycle_found s' = []"
  proof -
    have "dep_task d \<in> w_id ` set ts \<Longrightarrow> dep_task d \<in> with_color BLACK s'"
      using assms(3) [OF s'(4) that] by (simp add: with_color_def)
    with s'(5) [OF that] show ?thesis
      unfolding list.set image_insert by blast
  qed
  with s' grows_trans [OF assms(2) s'(4)] show ?thesis
    by (auto simp: deps_post_def)
qed

lemma deps_pre_tl: "deps_pre n ts node (d # ds) st s \<Longrightarrow> deps_pre n ts node ds st s"
  by (auto simp: deps_pre_def)

lemma search_correct:
  "dfs_pre n ts node st s \<Longrightarrow> dfs_post ts node s (dfs n ts node s)"
  "deps_pre n ts node ds st s \<Longrightarrow> deps_post ts ds s (dfs_deps n ts node ds s)"
proof (induction n ts node s and n ts node ds s arbitrary: st and st rule: dfs_dfs_deps.induct)
  case (1 ts node s)
  then have "with_color WHITE s = {}"
    using finite_white by (auto simp: dfs_pre_def)
  with 1 show ?case
    by (auto simp: dfs_pre_def with_color_def)
next
  case (2 n ts node s)
  then have "node \<in> w_id ` set ts"
    by (auto simp: dfs_pre_def search_ok_def)
  then obtain t where "id_map ts node = Some t"
    using id_map_None by (metis not_None_eq)
  with 2 show ?case
    by (intro dfs_step) auto
next
  case (3 n ts node s)
  then show ?case
    by (auto simp: deps_pre_def deps_post_def)
next
  case (4 n ts node d ds s)
  note pre = \<open>deps_pre n ts node (d # ds) st s\<close>
  have dom: "dom (color_of s) = w_id ` set ts"
    using pre by (auto simp: deps_pre_def search_ok_def)
  consider (out) "color_of s (dep_task d) = None" | (gray) "color_of s (dep_task d) = Some GRAY"
    | (white) "color_of s (dep_task d) = Some WHITE" | (black) "color_of s (dep_task d) = Some BLACK"
    by (metis color.exhaust option.exhaust)
  then show ?case
  proof cases
    case out
    then have "dep_task d \<notin> w_id ` set ts"
      unfolding dom [symmetric] by auto
    then have "deps_post ts (d # ds) s (dfs_deps n ts node ds s)"
      by (intro deps_post_Cons [OF 4(1) [OF out deps_pre_tl [OF pre]]]) auto
    with out show ?thesis by simp
  next
    case gray
    from deps_gray [OF pre this] obtain p where p: "cycle_path (length ts) s (dep_task d) node = Some p"
      and pre1: "deps_pre n ts node ds st (s\<lparr>cycle_found := cycle_found s @ [CircularDependency p]\<rparr>)" (is "deps_pre _ _ _ _ _ ?s1") .
    have "deps_post ts (d # ds) s (dfs_deps n ts node ds ?s1)"
      by (rule deps_post_Cons [OF 4(4) [OF gray refl p pre1]]) (auto simp: grows_def)
    then show ?thesis
      using gray p by simp
  next
    case white
    let ?s1 = "s\<lparr>parent_of := (parent_of s)(dep_task d := Some node)\<rparr>"
    from 4(2) [OF white refl deps_white(1) [OF pre white]]
    obtain s' where s': "dfs n ts (dep_task d) ?s1 = Some s'" "dfs_post ts (dep_task d) ?s1 (Some s')"
      by (auto simp: dfs_post_def)
    note pre' = deps_white(2) [OF pre white s'(2)]
    from s'(2) have done_d: "color_of s' (dep_task d) = Some BLACK"
      by (simp add: dfs_post_def)
    have "deps_post ts (d # ds) s (dfs_deps n ts node ds s')"
      by (rule deps_post_Cons [OF 4(3) [OF white refl s'(1) conjunct1 [OF pre']] conjunct2 [OF pre']])
        (rule grows_black [OF _ done_d])
    then show ?thesis
      using white s'(1) by simp
  next
    case black
    have "deps_post ts (d # ds) s (dfs_deps n ts node ds s)"
      by (rule deps_post_Cons [OF 4(5) [OF black refl deps_pre_tl [OF pre]]])
        (auto intro: grows_black [OF _ black])
    with black show ?thesis by simp
  qed
qed

section \<open>The whole search\<close>

lemma dfs_roots_correct:
  assumes "search_ok ts s" "fresh_parents s {}" "with_color GRAY s = {}" "set us \<subseteq> set ts"
  shows "\<exists>s'. dfs_roots (length ts) ts us s = Some s' \<and> search_ok ts s' \<and> with_color GRAY s' = {} \<and>
    (\<forall>i. color_of s i \<noteq> Some WHITE \<longrightarrow> color_of s' i = color_of s i) \<and>
    w_id ` set us \<inter> with_color WHITE s' = {}"
  using assms
proof (induction us arbitrary: s)
  case Nil
  then show ?case by auto
next
  case (Cons t us)
  show ?case
  proof (cases "color_of s (w_id t) = Some WHITE")
    case False
    with Cons obtain s' where "dfs_roots (length ts) ts us s = Some s'" "search_ok ts s'"
      "with_color GRAY s' = {}" "\<forall>i. color_of s i \<noteq> Some WHITE \<longrightarrow> color_of s' i = color_of s i"
      "w_id ` set us \<inter> with_color WHITE s' = {}"
      by (metis set_subset_Cons subset_trans)
    with False show ?thesis
      by (auto simp: with_color_def)
  next
    case True
    have "with_color WHITE s \<subseteq> w_id ` set ts"
      using Cons.prems(1) by (auto simp: search_ok_def with_color_def)
    then have "card (with_color WHITE s) \<le> length ts"
      by (metis List.finite_set card_image_le card_length card_mono finite_imageI le_trans)
    then have "dfs_pre (length ts) ts (w_id t) [] s"
      using Cons.prems True by (auto simp: dfs_pre_def fresh_parents_def with_color_def)
    from search_correct(1) [OF this] obtain s1 where s1: "dfs (length ts) ts (w_id t) s = Some s1"
      "search_ok ts s1" "fresh_parents s1 {}" "grows s s1" "color_of s1 (w_id t) = Some BLACK"
      by (auto simp: dfs_post_def)
    then have "with_color GRAY s1 = {}"
      using Cons.prems(3) by (simp add: grows_def)
    with Cons.IH [OF s1(2,3)] Cons.prems(4) obtain s' where s': "dfs_roots (length ts) ts us s1 = Some s'"
      "search_ok ts s'" "with_color GRAY s' = {}"
      "\<And>i. color_of s1 i \<noteq> Some WHITE \<Longrightarrow> color_of s' i = color_of s1 i"
      "w_id ` set us \<inter> with_color WHITE s' = {}"
      by auto
    have "color_of s' (w_id t) = Some BLACK"
      using s'(4) s1(5) by simp
    moreover have "color_of s' i = color_of s i" if "color_of s i \<noteq> Some WHITE" for i
      using s'(4) s1(4) that unfolding grows_def by metis
    ultimately show ?thesis
      using True s1(1) s' by (auto simp: with_color_def)
  qed
qed

theorem detect_workflow_cycles_correct:
  "\<exists>es. detect_workflow_cycles ts = Some es \<and> (es = [] \<longleftrightarrow> acyclic (dep_rel ts))"
proof -
  let ?s0 = "dfs_start ts"
  have "search_ok ts ?s0" "fresh_parents ?s0 {}" "with_color GRAY ?s0 = {}"
    by (auto simp: search_ok_def dfs_start_def with_color_def fresh_parents_def wf_acyclic
        split: if_splits)
  from dfs_roots_correct [OF this, of ts] obtain s' where s': "dfs_roots (length ts) ts ts ?s0 = Some s'"
    "search_ok ts s'" "with_color GRAY s' = {}" "w_id ` set ts \<inter> with_color WHITE s' = {}"
    by auto
  have "w_id ` set ts \<subseteq> with_color BLACK s'"
  proof
    fix i assume i: "i \<in> w_id ` set ts"
    then obtain c where "color_of s' i = Some c"
      using s'(2) unfolding search_ok_def by blast
    with i s'(3,4) show "i \<in> with_color BLACK s'"
      by (cases c) (auto simp: with_color_def)
  qed
  then have "dep_rel ts \<inter> with_color BLACK s' \<times> UNIV = dep_rel ts"
    using dep_rel_ids by fastforce
  then show ?thesis
    using s'(1,2) by (auto simp: detect_workflow_cycles_def search_ok_def)
qed

end
