(* ===== verification/WorkflowSort.thy ===== *)
theory WorkflowSort
  imports WorkflowCycles "HOL-Library.Multiset"
begin

text \<open>
  Validation accepts exactly the well-formed acyclic workflows, and on those Kahn's algorithm,
  within its fuel, orders the tasks so that every task comes after its dependencies.
\<close>

section \<open>Validation\<close>

definition valid_tasks :: "WorkflowTaskSpec list \<Rightarrow> bool" where
  "valid_tasks ts \<longleftrightarrow> distinct (map w_id ts) \<and>
     (\<forall>t \<in> set ts. \<forall>d \<in> set (depends_on t). dep_task d \<in> w_id ` set ts) \<and> acyclic (dep_rel ts)"

lemma duplicate_errors_Nil:
  "duplicate_errors seen ts = [] \<longleftrightarrow> distinct (map w_id ts) \<and> w_id ` set ts \<inter> seen = {}"
  by (induction seen ts rule: duplicate_errors.induct) auto

lemma reference_errors_Nil:
  "reference_errors ts = [] \<longleftrightarrow> (\<forall>t \<in> set ts. \<forall>d \<in> set (depends_on t). dep_task d \<in> w_id ` set ts)"
  by (auto simp: reference_errors_def id_map_None concat_eq_Nil_conv split: if_splits)

lemma validate_workflow_iff:
  "\<exists>es. validate_workflow spec = Some es \<and>
     (es = [] \<longleftrightarrow> w_name spec \<noteq> [] \<and> w_tasks spec \<noteq> [] \<and> valid_tasks (w_tasks spec))"
proof -
  obtain cs where "detect_workflow_cycles (w_tasks spec) = Some cs"
    "cs = [] \<longleftrightarrow> acyclic (dep_rel (w_tasks spec))"
    using detect_workflow_cycles_correct by blast
  then show ?thesis
    by (auto simp: validate_workflow_def Let_def valid_tasks_def
        duplicate_errors_Nil reference_errors_Nil)
qed

text \<open>C8: Validation always returns, and it returns no error exactly when the workflow has a name and
  tasks, the task ids are unique, every dependency names a task, and the dependencies are acyclic.\<close>

theorem validate_workflow_correct:
  "\<exists>es. validate_workflow spec = Some es \<and>
     (es = [] \<longleftrightarrow> w_name spec \<noteq> [] \<and> w_tasks spec \<noteq> [] \<and> valid_tasks (w_tasks spec))"
  by (rule validate_workflow_iff)

section \<open>Counting open dependencies\<close>

lemma id_map_distinct: "distinct (map w_id ts) \<Longrightarrow> t \<in> set ts \<Longrightarrow> id_map ts (w_id t) = Some t"
  by (simp add: id_map_def rev_map comp_def distinct_map map_of_eq_Some_iff inj_on_def image_iff)

definition occurs :: "string \<Rightarrow> WorkflowDependency list \<Rightarrow> nat" where
  "occurs i ds = length (filter (\<lambda>d. dep_task d = i) ds)"

definition open_deps :: "string list \<Rightarrow> WorkflowTaskSpec \<Rightarrow> nat" where
  "open_deps popped t = length (filter (\<lambda>d. dep_task d \<notin> set popped) (depends_on t))"

lemma open_deps_0: "open_deps popped t = 0 \<longleftrightarrow> dep_task ` set (depends_on t) \<subseteq> set popped"
  by (auto simp: open_deps_def filter_empty_conv)

lemma open_deps_pop:
  "i \<notin> set popped \<Longrightarrow> open_deps popped t = open_deps (popped @ [i]) t + occurs i (depends_on t)"
proof -
  assume i: "i \<notin> set popped"
  have "length (filter (\<lambda>d. dep_task d \<notin> set popped) ds)
      = length (filter (\<lambda>d. dep_task d \<notin> set (popped @ [i])) ds) + length (filter (\<lambda>d. dep_task d = i) ds)" for ds
    using i by (induction ds) auto
  then show ?thesis
    by (simp add: open_deps_def occurs_def)
qed

lemma relax_deps_eq:
  "int (occurs node ds) \<le> deg i \<Longrightarrow> relax_deps node i ds (deg, queue) =
     (deg(i := deg i - int (occurs node ds)),
      queue @ (if 0 < occurs node ds \<and> deg i = int (occurs node ds) then [i] else []))"
proof (induction ds arbitrary: deg queue)
  case Nil
  then show ?case by (simp add: occurs_def)
next
  case (Cons d ds)
  show ?case
  proof (cases "dep_task d = node")
    case False
    with Cons show ?thesis by (simp add: occurs_def)
  next
    case True
    let ?deg = "deg(i := deg i - 1)"
    have "int (occurs node ds) \<le> ?deg i"
      using Cons.prems True by (simp add: occurs_def)
    note IH = Cons.IH [of ?deg, OF this]
    show ?thesis
      using True Cons.prems by (auto simp: Let_def IH occurs_def)
  qed
qed

lemma relax_eq:
  assumes "distinct (map w_id us)" and "\<And>t. t \<in> set us \<Longrightarrow> int (occurs node (depends_on t)) \<le> deg (w_id t)"
  shows "\<exists>deg'. fold (\<lambda>t. relax_deps node (w_id t) (depends_on t)) us (deg, queue) =
     (deg', queue @ map w_id (filter (\<lambda>t. 0 < occurs node (depends_on t) \<and>
                               deg (w_id t) = int (occurs node (depends_on t))) us)) \<and>
     (\<forall>t \<in> set us. deg' (w_id t) = deg (w_id t) - int (occurs node (depends_on t))) \<and>
     (\<forall>i. i \<notin> w_id ` set us \<longrightarrow> deg' i = deg i)"
  using assms
proof (induction us arbitrary: deg queue)
  case Nil
  then show ?case by simp
next
  case (Cons t us)
  let ?deg = "deg(w_id t := deg (w_id t) - int (occurs node (depends_on t)))"
  let ?q = "queue @ (if 0 < occurs node (depends_on t) \<and> deg (w_id t) = int (occurs node (depends_on t))
    then [w_id t] else [])"
  have other: "?deg (w_id u) = deg (w_id u)" if "u \<in> set us" for u
  proof -
    have "w_id u \<in> w_id ` set us" using that by simp
    with Cons.prems(1) have "w_id u \<noteq> w_id t" by auto
    then show ?thesis by simp
  qed
  have step: "relax_deps node (w_id t) (depends_on t) (deg, queue) = (?deg, ?q)"
    using Cons.prems(2) by (intro relax_deps_eq) simp
  have "distinct (map w_id us)" "\<And>u. u \<in> set us \<Longrightarrow> int (occurs node (depends_on u)) \<le> ?deg (w_id u)"
    using Cons.prems other by auto
  from Cons.IH [OF this, of ?q] obtain deg' where
    fold: "fold (\<lambda>t. relax_deps node (w_id t) (depends_on t)) us (?deg, ?q) =
       (deg', ?q @ map w_id (filter (\<lambda>u. 0 < occurs node (depends_on u) \<and>
                               ?deg (w_id u) = int (occurs node (depends_on u))) us))"
    and deg': "\<And>u. u \<in> set us \<Longrightarrow> deg' (w_id u) = ?deg (w_id u) - int (occurs node (depends_on u))"
      "\<And>i. i \<notin> w_id ` set us \<Longrightarrow> deg' i = ?deg i"
    by blast
  have "filter (\<lambda>u. 0 < occurs node (depends_on u) \<and> ?deg (w_id u) = int (occurs node (depends_on u))) us
      = filter (\<lambda>u. 0 < occurs node (depends_on u) \<and> deg (w_id u) = int (occurs node (depends_on u))) us"
    using other by (intro filter_cong) auto
  moreover have "w_id t \<notin> w_id ` set us"
    using Cons.prems(1) by auto
  ultimately show ?case
    using fold step deg' other by (intro exI [of _ deg']) auto
qed

section \<open>The queue\<close>

definition kahn_inv :: "WorkflowTaskSpec list \<Rightarrow> (string \<Rightarrow> int) \<Rightarrow> string list \<Rightarrow> string list \<Rightarrow> bool" where
  "kahn_inv ts deg queue popped \<longleftrightarrow>
     distinct (popped @ queue) \<and> set (popped @ queue) \<subseteq> w_id ` set ts \<and>
     (\<forall>t \<in> set ts. deg (w_id t) = int (open_deps popped t)) \<and>
     (\<forall>t \<in> set ts. w_id t \<in> set (popped @ queue) \<longleftrightarrow> open_deps popped t = 0) \<and>
     (\<forall>t \<in> set ts. \<forall>k < length popped. popped ! k = w_id t \<longrightarrow>
        dep_task ` set (depends_on t) \<subseteq> set (take k popped))"

lemma kahn_step:
  assumes ids: "distinct (map w_id ts)" and inv: "kahn_inv ts deg (i # queue) popped"
  obtains deg' queue' where "relax ts i (deg, queue) = (deg', queue')" "kahn_inv ts deg' queue' (popped @ [i])"
proof -
  have i: "i \<notin> set popped" "i \<notin> set queue" and sub: "set (popped @ i # queue) \<subseteq> w_id ` set ts"
    and deg: "\<And>t. t \<in> set ts \<Longrightarrow> deg (w_id t) = int (open_deps popped t)"
    and ready: "\<And>t. t \<in> set ts \<Longrightarrow> w_id t \<in> set (popped @ i # queue) \<longleftrightarrow> open_deps popped t = 0"
    and order: "\<And>t k. t \<in> set ts \<Longrightarrow> k < length popped \<Longrightarrow> popped ! k = w_id t \<Longrightarrow>
      dep_task ` set (depends_on t) \<subseteq> set (take k popped)"
    and dist: "distinct (popped @ i # queue)"
    using inv by (auto simp: kahn_inv_def)
  note pop = open_deps_pop [OF i(1)]
  have le: "int (occurs i (depends_on t)) \<le> deg (w_id t)" if "t \<in> set ts" for t
    using deg [OF that] pop [of t] by simp
  let ?new = "map w_id (filter (\<lambda>t. 0 < occurs i (depends_on t) \<and> deg (w_id t) = int (occurs i (depends_on t))) ts)"
  obtain deg' where relax: "relax ts i (deg, queue) = (deg', queue @ ?new)"
    and deg': "\<And>t. t \<in> set ts \<Longrightarrow> deg' (w_id t) = deg (w_id t) - int (occurs i (depends_on t))"
    using relax_eq [where us = ts and node = i and deg = deg and queue = queue, OF ids le]
    by (auto simp: relax_def)
  have new: "w_id t \<in> set ?new \<longleftrightarrow> 0 < occurs i (depends_on t) \<and> open_deps (popped @ [i]) t = 0"
    if "t \<in> set ts" for t
  proof -
    have "u = t" if "u \<in> set ts" "w_id u = w_id t" for u
      using ids \<open>t \<in> set ts\<close> that by (auto simp: distinct_map inj_on_def)
    then have "w_id t \<in> set ?new \<longleftrightarrow> 0 < occurs i (depends_on t) \<and> deg (w_id t) = int (occurs i (depends_on t))"
      using that by auto
    then show ?thesis
      using deg [OF that] pop [of t] by auto
  qed
  have fresh: "w_id t \<notin> set (popped @ i # queue)" if "t \<in> set ts" "w_id t \<in> set ?new" for t
    using ready [OF that(1)] new [OF that(1)] pop [of t] that(2) by simp
  have "kahn_inv ts deg' (queue @ ?new) (popped @ [i])"
    unfolding kahn_inv_def
  proof (intro conjI ballI allI impI)
    have "distinct ?new"
      using ids by (simp add: distinct_map_filter)
    with dist fresh show "distinct ((popped @ [i]) @ queue @ ?new)"
      by auto
    show "set ((popped @ [i]) @ queue @ ?new) \<subseteq> w_id ` set ts"
      using sub by auto
    show "deg' (w_id t) = int (open_deps (popped @ [i]) t)" if "t \<in> set ts" for t
      using that deg deg' pop [of t] by simp
    show "w_id t \<in> set ((popped @ [i]) @ queue @ ?new) \<longleftrightarrow> open_deps (popped @ [i]) t = 0" if "t \<in> set ts" for t
      using ready [OF that] new [OF that] pop [of t] by auto
    show "dep_task ` set (depends_on t) \<subseteq> set (take k (popped @ [i]))"
      if "t \<in> set ts" "k < length (popped @ [i])" "(popped @ [i]) ! k = w_id t" for t k
    proof (cases "k < length popped")
      case True
      with that order [of t k] show ?thesis by (simp add: nth_append)
    next
      case False
      with that(2) have "k = length popped" by simp
      with that(3) have "w_id t = i" by simp
      with \<open>k = length popped\<close> that(1) ready [of t] show ?thesis
        by (simp add: open_deps_0)
    qed
  qed
  with relax that show thesis by blast
qed

lemma length_ids_le: "distinct xs \<Longrightarrow> set xs \<subseteq> w_id ` set ts \<Longrightarrow> length xs \<le> length ts"
  by (metis List.finite_set card_image_le card_length card_mono distinct_card finite_imageI le_trans)

lemma kahn_returns:
  "distinct (map w_id ts) \<Longrightarrow> kahn_inv ts deg queue popped \<Longrightarrow> length ts \<le> n + length popped
    \<Longrightarrow> \<exists>s deg'. kahn n ts deg queue popped = Some s \<and> kahn_inv ts deg' [] s"
proof (induction n arbitrary: deg queue popped)
  case 0
  have "length (popped @ queue) \<le> length ts"
    using 0(2) by (intro length_ids_le) (simp_all add: kahn_inv_def)
  with 0(3) have "length queue = 0"
    unfolding length_append by linarith
  then have "queue = []" by simp
  with 0 show ?case by auto
next
  case (Suc n)
  show ?case
  proof (cases queue)
    case Nil
    with Suc show ?thesis by auto
  next
    case (Cons i q)
    from kahn_step [OF Suc.prems(1) Suc.prems(2) [unfolded Cons]]
    obtain deg' queue' where "relax ts i (deg, q) = (deg', queue')" "kahn_inv ts deg' queue' (popped @ [i])" .
    with Suc.IH [of deg' queue' "popped @ [i]"] Suc.prems Cons show ?thesis by simp
  qed
qed

section \<open>The sorted tasks\<close>

lemma finite_dep_rel: "finite (dep_rel ts)"
proof (rule finite_subset)
  show "dep_rel ts \<subseteq> w_id ` set ts \<times> w_id ` set ts"
    using dep_rel_ids by fastforce
qed simp

lemma dep_rel_valid: "valid_tasks ts \<Longrightarrow> t \<in> set ts \<Longrightarrow> d \<in> set (depends_on t) \<Longrightarrow> (w_id t, dep_task d) \<in> dep_rel ts"
  by (auto simp: valid_tasks_def dep_rel_def id_map_distinct)

text \<open>When the queue is empty, a task that was not popped has an open dependency; the open ones
  would go on for ever.\<close>

lemma kahn_complete:
  assumes valid: "valid_tasks ts" and inv: "kahn_inv ts deg [] s"
  shows "set s = w_id ` set ts"
proof (rule ccontr)
  assume "set s \<noteq> w_id ` set ts"
  then obtain i where i: "i \<in> w_id ` set ts - set s"
    using inv by (auto simp: kahn_inv_def)
  have "wf ((dep_rel ts)\<inverse>)"
    using valid finite_dep_rel by (intro finite_acyclic_wf_converse) (auto simp: valid_tasks_def)
  from wfE_min [OF this i] obtain m where m: "m \<in> w_id ` set ts - set s"
    "\<And>j. (j, m) \<in> (dep_rel ts)\<inverse> \<Longrightarrow> j \<notin> w_id ` set ts - set s" by blast
  then obtain t where t: "t \<in> set ts" "w_id t = m" by auto
  have "dep_task ` set (depends_on t) \<subseteq> set s"
    using m(2) t dep_rel_valid [OF valid t(1)] valid by (auto simp: valid_tasks_def)
  then have "m \<in> set s"
    using inv t by (auto simp: kahn_inv_def open_deps_0)
  with m(1) show False by simp
qed

lemma concat_unique:
  "distinct (map w_id ts) \<Longrightarrow> t \<in> set ts
    \<Longrightarrow> concat (map (\<lambda>u. if w_id u = w_id t then f u else []) ts) = f t"
proof (induction ts)
  case Nil
  then show ?case by simp
next
  case (Cons u us)
  show ?case
  proof (cases "u = t")
    case True
    then have "\<forall>v \<in> set us. w_id v \<noteq> w_id t"
      using Cons.prems(1) by (metis distinct.simps(2) image_eqI list.set_map list.simps(9))
    then have "concat (map (\<lambda>u. if w_id u = w_id t then f u else []) us) = []"
      by (simp add: concat_eq_Nil_conv)
    with True show ?thesis by simp
  next
    case False
    with Cons.prems have "t \<in> set us" "w_id u \<noteq> w_id t" by auto
    with Cons show ?thesis by simp
  qed
qed

lemma concat_all: "(\<And>d. d \<in> set ds \<Longrightarrow> P d) \<Longrightarrow> concat (map (\<lambda>d. if P d then [d] else []) ds) = ds"
  by (induction ds) auto

lemma kahn_inv_start:
  assumes "valid_tasks ts"
  shows "kahn_inv ts (initial_degree ts) (filter (\<lambda>i. initial_degree ts i = 0) (dict_keys ts)) []"
proof -
  have keys: "dict_keys ts = map w_id ts"
  proof -
    have "distinct (rev (map w_id ts))" using assms by (simp add: valid_tasks_def)
    then show ?thesis by (simp only: dict_keys_def distinct_remdups_id rev_rev_ident)
  qed
  have deg: "initial_degree ts (w_id t) = int (open_deps [] t)" if "t \<in> set ts" for t
  proof -
    have "dep_task d \<in> w_id ` set ts" if "d \<in> set (depends_on t)" for d
      using assms \<open>t \<in> set ts\<close> that by (auto simp: valid_tasks_def)
    then have "concat (map (\<lambda>d. if dep_task d \<in> w_id ` set ts then [d] else []) (depends_on t)) = depends_on t"
      by (intro concat_all) simp
    then show ?thesis
      using assms that concat_unique [of ts t "\<lambda>t. concat (map (\<lambda>d. if dep_task d \<in> w_id ` set ts then [d] else []) (depends_on t))"]
      by (simp add: initial_degree_def open_deps_def valid_tasks_def)
  qed
  have "distinct (map w_id ts)"
    using assms by (simp add: valid_tasks_def)
  then show ?thesis
    using deg by (auto simp: kahn_inv_def keys)
qed

lemma topological_sort_order:
  assumes "valid_tasks ts"
  shows "\<exists>order. topological_sort ts = Some order \<and> mset order = mset ts \<and>
    (\<forall>k < length order. \<forall>d \<in> set (depends_on (order ! k)). dep_task d \<in> w_id ` set (take k order))"
proof -
  have ids: "distinct (map w_id ts)" using assms by (simp add: valid_tasks_def)
  obtain s deg where s: "kahn (length ts) ts (initial_degree ts)
      (filter (\<lambda>i. initial_degree ts i = 0) (dict_keys ts)) [] = Some s" and inv: "kahn_inv ts deg [] s"
    using kahn_returns [OF ids kahn_inv_start [OF assms], of "length ts"] by auto
  note set_s = kahn_complete [OF assms inv]
  have dist: "distinct s" using inv by (simp add: kahn_inv_def)
  have "length s = length ts"
    using set_s dist ids by (metis distinct_card length_map list.set_map)
  let ?f = "\<lambda>i. the (id_map ts i)"
  let ?order = "map ?f s"
  have f: "?f (w_id t) = t" if "t \<in> set ts" for t
    using that ids by (simp add: id_map_distinct)
  have w: "w_id (?f i) = i \<and> ?f i \<in> set ts" if "i \<in> set s" for i
    using that set_s f by auto
  have "topological_sort ts = Some ?order"
    using s \<open>length s = length ts\<close> by (simp add: topological_sort_def topological_ids_def)
  moreover have "mset ?order = mset ts"
  proof -
    have "mset s = mset (map w_id ts)"
      using set_s dist ids set_eq_iff_mset_eq_distinct [of s "map w_id ts"] by simp
    then have "mset ?order = mset (map ?f (map w_id ts))"
      by (metis mset_map)
    moreover have "map ?f (map w_id ts) = ts"
      using f by (simp add: map_idI)
    ultimately show ?thesis by (simp only:)
  qed
  moreover have "dep_task d \<in> w_id ` set (take k ?order)"
    if "k < length ?order" "d \<in> set (depends_on (?order ! k))" for k d
  proof -
    have "s ! k \<in> set s" using that(1) by simp
    then have "?f (s ! k) \<in> set ts" "w_id (?f (s ! k)) = s ! k" using w by auto
    moreover have "dep_task ` set (depends_on t) \<subseteq> set (take k s)" if "t \<in> set ts" "s ! k = w_id t" for t
      using inv that \<open>k < length ?order\<close> by (simp add: kahn_inv_def)
    ultimately have "dep_task ` set (depends_on (?f (s ! k))) \<subseteq> set (take k s)"
      by metis
    then have "dep_task d \<in> set (take k s)"
      using that by auto
    then have "dep_task d = w_id (?f (dep_task d)) \<and> ?f (dep_task d) \<in> ?f ` set (take k s)"
      using w by (metis image_eqI in_set_takeD)
    then show ?thesis
      by (metis image_eqI list.set_map take_map)
  qed
  ultimately show ?thesis by blast
qed

text \<open>C9: On a valid list of tasks the topological sort returns every task exactly once, and each task
  after all the tasks it depends on; the fuel, one step per task, is enough.\<close>

theorem topological_sort_correct:
  assumes "valid_tasks ts"
  shows "\<exists>order. topological_sort ts = Some order \<and> mset order = mset ts \<and>
    (\<forall>k < length order. \<forall>d \<in> set (depends_on (order ! k)). dep_task d \<in> w_id ` set (take k order))"
  using assms by (rule topological_sort_order)

definition demo_tasks :: "WorkflowTaskSpec list" where
  "demo_tasks =
     [\<lparr> w_id = ''report'', w_title = ''Report'', w_body = None, w_assignee = Some ''ann'', w_priority = 0,
        w_max_runtime_seconds = None, w_max_retries = None, w_workspace_kind = None,
        w_workspace_path = None, depends_on = [\<lparr>dep_task = ''fetch'', dep_condition = Some ''ok''\<rparr>] \<rparr>,
      \<lparr> w_id = ''fetch'', w_title = ''Fetch'', w_body = None, w_assignee = Some ''bob'', w_priority = 1,
        w_max_runtime_seconds = None, w_max_retries = None, w_workspace_kind = None,
        w_workspace_path = None, depends_on = [] \<rparr>]"

definition demo_spec :: WorkflowSpec where
  "demo_spec = \<lparr> w_name = ''demo'', w_description = None, w_tenant = None, w_created_by = ''me'',
     w_tasks = demo_tasks \<rparr>"

lemma demo_tasks_valid: "valid_tasks demo_tasks"
proof -
  have "detect_workflow_cycles demo_tasks = Some []"
    by code_simp
  then have "acyclic (dep_rel demo_tasks)"
    using detect_workflow_cycles_correct [of demo_tasks] by simp
  then show ?thesis
    by (simp add: valid_tasks_def demo_tasks_def)
qed

theorem topological_sort_correct_witness:
  "\<exists>order. topological_sort demo_tasks = Some order \<and> mset order = mset demo_tasks"
  using topological_sort_correct [OF demo_tasks_valid] by blast

end
