(* ===== verification/WorkflowApply.thy ===== *)
theory WorkflowApply
  imports WorkflowSort ListProps
begin

text \<open>
  Applying a workflow to the store: on a valid workflow whose tasks name each dependency once,
  every task is created, with its links, and nothing fails. A dependency named twice breaks
  the primary key of the links, so that task is not created, and its children are created
  without it.
\<close>

section \<open>Creations that succeed\<close>

lemma check_parents_acyclic_iff:
  "check_parents_acyclic db i ss = Inr u \<longleftrightarrow> (\<forall>p \<in> fst ` set ss. \<not> detect_cycle db i p)"
  by (induction db i ss rule: check_parents_acyclic.induct) auto

lemma insert_links_succeed:
  "distinct (map fst ss) \<Longrightarrow> (\<And>p. p \<in> fst ` set ss \<Longrightarrow> (p, c) \<notin> dag db) \<Longrightarrow> \<exists>db'. insert_links c ss db = Inr db'"
proof (induction c ss db rule: insert_links.induct)
  case (1 c db)
  then show ?case by simp
next
  case (2 c p cond ss db)
  then obtain db1 where db1: "insert_link p c cond db = Inr db1"
    by (auto simp: insert_link_Inr)
  then have "dag db1 = insert (p, c) (dag db)"
    by (auto simp: insert_link_Inr dag_def child_edges_def)
  with 2 db1 show ?case
    by (auto simp: image_iff)
qed

lemma create_task_succeeds:
  assumes ok: "db_ok db" and specs: "parent_specs (arg_parents a) = Inr ss"
    and fresh: "find_task db i = None" and ps: "\<And>p. p \<in> fst ` set ss \<Longrightarrow> find_task db p \<noteq> None"
    and dist: "distinct (map fst ss)"
  shows "\<exists>t db'. create_task now i a db = (Inr t, db')"
proof -
  have fld: "Field (dag db) \<subseteq> tid ` set (tasks db)"
    using ok by (simp add: db_ok_def links_ok_def)
  have new: "i \<notin> tid ` set (tasks db)"
    using fresh find_task_None by blast
  have "\<not> detect_cycle db i p" if "p \<in> fst ` set ss" for p
  proof
    assume "detect_cycle db i p"
    then have "(i, p) \<in> (dag db)\<^sup>*"
      by (simp add: detect_cycle_iff)
    then show False
    proof (cases rule: converse_rtranclE)
      case base
      with fresh ps [OF that] show False by simp
    next
      case (step y)
      with fld new show False by (auto simp: Field_def)
    qed
  qed
  moreover have "(p, i) \<notin> dag db" for p
    using fld new by (auto simp: Field_def)
  moreover have "dag (db\<lparr>tasks := x\<rparr>) = dag db" for x
    by (simp add: dag_def child_edges_def)
  ultimately obtain db' where "insert_links i ss (db\<lparr>tasks := tasks db @ [new_task now i a (ss \<noteq> [])]\<rparr>) = Inr db'"
    using insert_links_succeed [OF dist, of i] by metis
  moreover have "check_parents_exist db ss = Inr ()" "check_parents_acyclic db i ss = Inr ()"
    using ps \<open>\<And>p. p \<in> fst ` set ss \<Longrightarrow> \<not> detect_cycle db i p\<close>
    by (simp_all add: check_parents_exist_iff check_parents_acyclic_iff)
  ultimately show ?thesis
    using fresh specs by (simp add: create_task_def create_body_def insert_task_def)
qed

section \<open>The loop over the sorted tasks\<close>

lemma resolve_parents_all:
  assumes "\<And>d. d \<in> set ds \<Longrightarrow> map_of created (dep_task d) = Some (uuid (dep_task d))"
  shows "\<exists>ps. resolve_parents i created ds = (ps, []) \<and> length ps = length ds \<and>
    ((\<forall>d \<in> set ds. uuid (dep_task d) \<noteq> []) \<longrightarrow>
       (\<exists>ss. parent_specs ps = Inr ss \<and> map fst ss = map (\<lambda>d. uuid (dep_task d)) ds))"
  using assms
proof (induction ds)
  case Nil
  then show ?case by simp
next
  case (Cons d ds)
  then obtain ps where "resolve_parents i created ds = (ps, [])" "length ps = length ds"
    "(\<forall>d \<in> set ds. uuid (dep_task d) \<noteq> []) \<longrightarrow>
       (\<exists>ss. parent_specs ps = Inr ss \<and> map fst ss = map (\<lambda>d. uuid (dep_task d)) ds)"
    by auto
  with Cons.prems show ?case by auto
qed

text \<open>What holds of the store after the tasks of a list have been created.\<close>

definition created_ok :: "(string \<Rightarrow> string) \<Rightarrow> WorkflowTaskSpec list \<Rightarrow> task_db \<Rightarrow> bool" where
  "created_ok uuid us db \<longleftrightarrow> db_ok db \<and>
     (\<forall>t \<in> set us. status_of db (uuid (w_id t)) =
          Some (if depends_on t = [] then status_value READY else status_value TODO) \<and>
        {p. (p, uuid (w_id t)) \<in> dag db} = (\<lambda>d. uuid (dep_task d)) ` set (depends_on t))"

lemma create_one:
  assumes ok: "created_ok uuid us db"
    and fresh: "find_task db (uuid (w_id t)) = None"
    and created: "created = map (\<lambda>u. (w_id u, uuid (w_id u))) us" "distinct (map w_id (us @ [t]))"
    and deps: "dep_task ` set (depends_on t) \<subseteq> w_id ` set us" "distinct (map dep_task (depends_on t))"
    and uuid: "inj_on uuid (w_id ` set (us @ [t]))" "\<And>u. u \<in> set us \<Longrightarrow> uuid (w_id u) \<noteq> []"
  obtains ps task db' where "resolve_parents (w_id t) created (depends_on t) = (ps, [])"
    "create_task now (uuid (w_id t)) (workflow_args spec t ps) db = (Inr task, db')"
    "tid task = uuid (w_id t)" "created_ok uuid (us @ [t]) db'"
    "\<And>j. j \<noteq> uuid (w_id t) \<Longrightarrow> find_task db' j = find_task db j"
proof -
  have dbok: "db_ok db" using ok by (simp add: created_ok_def)
  have "map_of created (dep_task d) = Some (uuid (dep_task d))" if "d \<in> set (depends_on t)" for d
    using that deps(1) created by (auto simp: map_of_eq_Some_iff comp_def)
  then have "\<exists>ps. resolve_parents (w_id t) created (depends_on t) = (ps, []) \<and> length ps = length (depends_on t) \<and>
    ((\<forall>d \<in> set (depends_on t). uuid (dep_task d) \<noteq> []) \<longrightarrow>
       (\<exists>ss. parent_specs ps = Inr ss \<and> map fst ss = map (\<lambda>d. uuid (dep_task d)) (depends_on t)))"
    by (rule resolve_parents_all)
  moreover have "uuid (dep_task d) \<noteq> []" if "d \<in> set (depends_on t)" for d
    using that deps(1) uuid(2) by auto
  ultimately obtain ps ss where ps: "resolve_parents (w_id t) created (depends_on t) = (ps, [])"
    "length ps = length (depends_on t)" "parent_specs ps = Inr ss"
    "map fst ss = map (\<lambda>d. uuid (dep_task d)) (depends_on t)"
    by blast
  let ?a = "workflow_args spec t ps" and ?id = "uuid (w_id t)"
  have args: "arg_parents ?a = ps"
    by (simp add: workflow_args_def CreateArgs_default_def)
  have ss: "fst ` set ss = (\<lambda>d. uuid (dep_task d)) ` set (depends_on t)"
    using ps(4) by (metis list.set_map)
  have "find_task db p \<noteq> None" if "p \<in> fst ` set ss" for p
  proof -
    from that ss deps(1) obtain u where "u \<in> set us" "p = uuid (w_id u)" by auto
    with ok show ?thesis by (auto simp: created_ok_def status_of_Some_iff)
  qed
  moreover have "distinct (map fst ss)"
  proof -
    have "inj_on uuid (set (map dep_task (depends_on t)))"
      using uuid(1) deps(1) by (auto intro: inj_on_subset)
    then have "distinct (map uuid (map dep_task (depends_on t)))"
      using deps(2) distinct_map by blast
    then show ?thesis by (simp add: ps(4) comp_def)
  qed
  moreover have "parent_specs (arg_parents ?a) = Inr ss"
    using ps(3) args by simp
  ultimately obtain task db' where res: "create_task now ?id ?a db = (Inr task, db')"
    using create_task_succeeds [OF dbok _ fresh] by blast
  from create_task_effect [OF dbok res] obtain specs where
    specs: "parent_specs (arg_parents ?a) = Inr specs" and
    row: "find_task db' ?id = Some task" and
    st: "status task = (if arg_parents ?a = [] then status_value READY else status_value TODO)" and
    dag: "dag db' = dag db \<union> fst ` set specs \<times> {?id}" and
    other: "\<forall>j. j \<noteq> ?id \<longrightarrow> find_task db' j = find_task db j"
    by (elim exE conjE) (rule that)
  have "specs = ss"
    using specs ps(3) args by simp
  have "db_ok db'"
    using step_ok_create_task [of db now ?id ?a] dbok res by (simp add: step_ok_def)
  have "?id \<notin> Field (dag db)"
    using dbok fresh find_task_None [of db ?id] by (auto simp: db_ok_def links_ok_def)
  then have into: "{p. (p, ?id) \<in> dag db'} = (\<lambda>d. uuid (dep_task d)) ` set (depends_on t)"
    using dag ss \<open>specs = ss\<close> by (auto simp: Field_def)
  have old: "status_of db' (uuid (w_id u)) = status_of db (uuid (w_id u)) \<and>
      {p. (p, uuid (w_id u)) \<in> dag db'} = {p. (p, uuid (w_id u)) \<in> dag db}" if "u \<in> set us" for u
  proof -
    have "w_id u \<in> w_id ` set us" using that by simp
    then have "w_id u \<noteq> w_id t" using created(2) by auto
    then have "uuid (w_id u) \<noteq> ?id"
      using uuid(1) that by (auto simp: inj_on_def)
    with dag other show ?thesis by (simp add: status_of_def)
  qed
  have "status_of db' ?id = Some (if depends_on t = [] then status_value READY else status_value TODO)"
    using row st ps(2) args by (auto simp: status_of_def)
  then have "created_ok uuid (us @ [t]) db'"
    using ok old into \<open>db_ok db'\<close> by (auto simp: created_ok_def)
  moreover have "tid task = ?id"
    using find_task_row [OF row] by simp
  ultimately show thesis
    using that ps(1) res other by blast
qed

lemma create_loop_all:
  assumes "created_ok uuid us db" "created = map (\<lambda>u. (w_id u, uuid (w_id u))) us"
    and "distinct (map w_id (us @ ts))" "inj_on uuid (w_id ` set (us @ ts))"
    and "\<And>u. u \<in> set (us @ ts) \<Longrightarrow> uuid (w_id u) \<noteq> []"
    and "\<And>t. t \<in> set ts \<Longrightarrow> find_task db (uuid (w_id t)) = None \<and> distinct (map dep_task (depends_on t))"
    and "\<forall>k < length ts. dep_task ` set (depends_on (ts ! k)) \<subseteq> w_id ` set (us @ take k ts)"
  shows "\<exists>db'. create_loop uuid now spec ts created errs db
      = ((map (\<lambda>u. (w_id u, uuid (w_id u))) (us @ ts), errs), db') \<and> created_ok uuid (us @ ts) db'"
  using assms
proof (induction ts arbitrary: us created db)
  case Nil
  then show ?case by simp
next
  case (Cons t ts)
  have deps: "dep_task ` set (depends_on t) \<subseteq> w_id ` set us"
    using Cons.prems(7) [rule_format, of 0] by simp
  have "inj_on uuid (w_id ` set (us @ [t]))"
    by (rule inj_on_subset [OF Cons.prems(4)]) auto
  moreover have "distinct (map w_id (us @ [t]))"
    using Cons.prems(3) by simp
  ultimately have ids: "inj_on uuid (w_id ` set (us @ [t]))" "distinct (map w_id (us @ [t]))"
    by blast+
  from create_one [OF Cons.prems(1) _ Cons.prems(2) ids(2) deps _ ids(1), of now spec] Cons.prems(5,6)
  obtain ps task db' where step: "resolve_parents (w_id t) created (depends_on t) = (ps, [])"
    "create_task now (uuid (w_id t)) (workflow_args spec t ps) db = (Inr task, db')"
    "tid task = uuid (w_id t)" "created_ok uuid (us @ [t]) db'"
    "\<And>j. j \<noteq> uuid (w_id t) \<Longrightarrow> find_task db' j = find_task db j"
    by auto
  have "w_id t \<notin> fst ` set created"
    using Cons.prems(2,3) by auto
  then have put: "dict_put (w_id t) (uuid (w_id t)) created = map (\<lambda>u. (w_id u, uuid (w_id u))) (us @ [t])"
    by (simp add: dict_put_new Cons.prems(2))
  have fresh: "find_task db' (uuid (w_id u)) = None \<and> distinct (map dep_task (depends_on u))"
    if "u \<in> set ts" for u
  proof -
    have "w_id u \<in> w_id ` set ts" using that by simp
    then have "w_id u \<noteq> w_id t"
      using Cons.prems(3) by auto
    then have "uuid (w_id u) \<noteq> uuid (w_id t)"
      using Cons.prems(4) that by (auto simp: inj_on_def)
    with step(5) Cons.prems(6) that show ?thesis by simp
  qed
  have order: "\<forall>k < length ts. dep_task ` set (depends_on (ts ! k)) \<subseteq> w_id ` set ((us @ [t]) @ take k ts)"
  proof (intro allI impI)
    fix k assume "k < length ts"
    then show "dep_task ` set (depends_on (ts ! k)) \<subseteq> w_id ` set ((us @ [t]) @ take k ts)"
      using Cons.prems(7) [rule_format, of "Suc k"] by simp
  qed
  have "\<exists>db''. create_loop uuid now spec ts (dict_put (w_id t) (uuid (w_id t)) created) errs db'
      = ((map (\<lambda>u. (w_id u, uuid (w_id u))) ((us @ [t]) @ ts), errs), db'') \<and> created_ok uuid ((us @ [t]) @ ts) db''"
    by (rule Cons.IH [OF step(4) put _ _ _ fresh order]) (use Cons.prems(3,4,5) in auto)
  then show ?case
    by (simp add: step)
qed

section \<open>Applying a workflow\<close>

text \<open>C10: Applying a valid workflow whose tasks name each dependency at most once (which validation does not
  check), with fresh ids, creates all of its tasks without an error: each starts in ready or in todo according to its dependencies, is
  linked to exactly the tasks it depends on, and the database stays consistent.\<close>

theorem apply_workflow_creates_all:
  assumes "w_name spec \<noteq> []" "w_tasks spec \<noteq> []" "valid_tasks (w_tasks spec)"
    and "\<forall>t \<in> set (w_tasks spec). distinct (map dep_task (depends_on t))"
    and "db_ok db" and "inj_on uuid (w_id ` set (w_tasks spec))"
    and "\<forall>t \<in> set (w_tasks spec). uuid (w_id t) \<noteq> [] \<and> find_task db (uuid (w_id t)) = None"
  shows "\<exists>res db'. apply_workflow uuid now False spec db = Some (res, db') \<and> res_errors res = [] \<and>
    created_count res = length (w_tasks spec) \<and> db_ok db' \<and>
    (\<forall>t \<in> set (w_tasks spec).
       map_of (task_ids res) (w_id t) = Some (uuid (w_id t)) \<and>
       status_of db' (uuid (w_id t)) =
         Some (if depends_on t = [] then status_value READY else status_value TODO) \<and>
       {p. (p, uuid (w_id t)) \<in> dag db'} = (\<lambda>d. uuid (dep_task d)) ` set (depends_on t))"
proof -
  obtain order where order: "topological_sort (w_tasks spec) = Some order" "mset order = mset (w_tasks spec)"
    "\<forall>k < length order. \<forall>d \<in> set (depends_on (order ! k)). dep_task d \<in> w_id ` set (take k order)"
    using topological_sort_order [OF assms(3)] by blast
  have set_order: "set order = set (w_tasks spec)" and len: "length order = length (w_tasks spec)"
    using order(2) by (metis mset_eq_setD, metis mset_eq_length)
  have dist: "distinct (map w_id order)"
  proof -
    have "mset (map w_id order) = mset (map w_id (w_tasks spec))"
      using order(2) by simp
    then show ?thesis
      using assms(3) unfolding valid_tasks_def by (metis mset_eq_imp_distinct_iff)
  qed
  have "created_ok uuid [] db"
    using assms(5) by (simp add: created_ok_def)
  then have "\<exists>db'. create_loop uuid now spec order [] [] db
      = ((map (\<lambda>u. (w_id u, uuid (w_id u))) ([] @ order), []), db') \<and> created_ok uuid ([] @ order) db'"
    using assms(4,6,7) dist order(3) set_order by (intro create_loop_all) auto
  then obtain db' where loop: "create_loop uuid now spec order [] [] db
      = ((map (\<lambda>u. (w_id u, uuid (w_id u))) order, []), db')" and ok: "created_ok uuid order db'"
    by auto
  have "validate_workflow spec = Some []"
    using validate_workflow_iff [of spec] assms(1,2,3) by auto
  then have "apply_workflow uuid now False spec db = Some
      (\<lparr> res_name = w_name spec, task_ids = map (\<lambda>u. (w_id u, uuid (w_id u))) order,
         created_count = length order, res_errors = [] \<rparr>, db')"
    by (simp add: apply_workflow_def order(1) loop)
  moreover have "map_of (map (\<lambda>u. (w_id u, uuid (w_id u))) order) (w_id t) = Some (uuid (w_id t))"
    if "t \<in> set (w_tasks spec)" for t
    using that dist set_order by (auto simp: map_of_eq_Some_iff comp_def)
  ultimately show ?thesis
    using ok set_order len by (auto simp: created_ok_def)
qed

theorem apply_workflow_creates_all_witness:
  "\<exists>res db'. apply_workflow (\<lambda>i. ''t_'' @ i) 5 False demo_spec empty_db = Some (res, db') \<and>
     res_errors res = [] \<and> created_count res = 2"
proof -
  have spec: "w_tasks demo_spec = demo_tasks" "w_name demo_spec \<noteq> []"
    by (simp_all add: demo_spec_def)
  have tasks: "demo_tasks \<noteq> []" "length demo_tasks = 2"
    "\<forall>t \<in> set demo_tasks. distinct (map dep_task (depends_on t))"
    by (simp_all add: demo_tasks_def)
  have "inj_on (\<lambda>i. ''t_'' @ i) X" for X
    by (simp add: inj_on_def)
  moreover have "find_task empty_db i = None" for i
    by (simp add: find_task_def empty_db_def)
  ultimately show ?thesis
    using apply_workflow_creates_all [of demo_spec empty_db "\<lambda>i. ''t_'' @ i" 5] spec tasks demo_tasks_valid db_ok_empty
    by auto
qed

end
