(* ===== verification/OAuth.thy ===== *)
theory OAuth
  imports Jwt
begin

text \<open>
  The OAuth clients, tokens and authorization codes of \<open>store.py\<close> and the endpoints of
  \<open>auth.py\<close> that issue tokens. A table is a list of rows. Client ids, secrets, codes and token ids
  are drawn at random in the code and are arguments here; \<open>sha\<close> is the hex digest of SHA-256. Of an
  audit record the free text is left out.
\<close>

section \<open>Tables\<close>

definition SCOPES :: "string list" where
  "SCOPES = [''task:read'', ''task:write'', ''agent:read'', ''agent:register'', ''agent:admin'', ''registry:admin'']"

definition AUTH_CODE_EXPIRY_SECONDS :: rat where
  "AUTH_CODE_EXPIRY_SECONDS = 600"

text \<open>The scopes of a client are stored as one comma-separated column.\<close>

record client_row =
  cl_id :: string
  cl_secret_hash :: string
  cl_scopes :: string
  cl_agent_card_id :: string
  cl_created_at :: rat
  cl_description :: string
  cl_tenant :: string

record ClientRecord =
  cr_client_id :: string
  cr_secret_hash :: string
  cr_allowed_scopes :: "string list"
  cr_agent_card_id :: string
  cr_created_at :: rat
  cr_description :: string
  cr_tenant :: string

record TokenRecord =
  tk_jti :: string
  tk_client_id :: string
  tk_scope :: string
  tk_expires_at :: rat

record auth_code =
  ac_code :: string
  ac_client_id :: string
  ac_challenge :: string
  ac_method :: string
  ac_redirect_uri :: string
  ac_scope :: string
  ac_created_at :: rat

record audit_entry =
  au_event :: string
  au_actor :: string
  au_target :: string
  au_success :: bool

record auth_db =
  oauth_clients :: "client_row list"
  oauth_tokens :: "TokenRecord list"
  auth_codes :: "auth_code list"
  audit_log :: "audit_entry list"

definition empty_auth_db :: auth_db where
  "empty_auth_db = \<lparr> oauth_clients = [], oauth_tokens = [], auth_codes = [], audit_log = [] \<rparr>"

section \<open>Clients\<close>

definition split_scopes :: "string \<Rightarrow> string list" where
  "split_scopes col = (if str_true col then py_split_on (CHR '','') col else [])"

definition scopes_or_all :: "string list option \<Rightarrow> string list" where
  "scopes_or_all as = (case as of None \<Rightarrow> SCOPES | Some xs \<Rightarrow> if xs = [] then SCOPES else xs)"

datatype auth_error = IntegrityError

definition register_client ::
  "(string \<Rightarrow> string) \<Rightarrow> rat \<Rightarrow> string \<Rightarrow> string \<Rightarrow> string \<Rightarrow> string list option \<Rightarrow> string \<Rightarrow> string \<Rightarrow> auth_db
    \<Rightarrow> (auth_error + string \<times> string) \<times> auth_db" where
  "register_client sha now cid secret card_id scopes desc tenant = tx (\<lambda>db.
     if row_by cl_id cid (oauth_clients db) \<noteq> None then Inl IntegrityError
     else Inr ((cid, secret),
       db\<lparr>oauth_clients := oauth_clients db @
         [\<lparr> cl_id = cid, cl_secret_hash = sha secret, cl_scopes = py_join '','' (scopes_or_all scopes),
            cl_agent_card_id = card_id, cl_created_at = now, cl_description = desc, cl_tenant = tenant \<rparr>]\<rparr>))"

definition row_to_client :: "client_row \<Rightarrow> ClientRecord" where
  "row_to_client r =
     \<lparr> cr_client_id = cl_id r, cr_secret_hash = cl_secret_hash r,
       cr_allowed_scopes = split_scopes (cl_scopes r), cr_agent_card_id = cl_agent_card_id r,
       cr_created_at = cl_created_at r, cr_description = cl_description r, cr_tenant = cl_tenant r \<rparr>"

definition get_client :: "string \<Rightarrow> auth_db \<Rightarrow> ClientRecord option" where
  "get_client cid db = map_option row_to_client (row_by cl_id cid (oauth_clients db))"

record client_info =
  ci_record :: ClientRecord
  ci_token_count :: nat

definition list_clients :: "rat \<Rightarrow> string option \<Rightarrow> auth_db \<Rightarrow> client_info list" where
  "list_clients now tenant db =
     map (\<lambda>r. \<lparr> ci_record = row_to_client r,
                ci_token_count = sql_count (\<lambda>t. tk_client_id t = cl_id r \<and> now < tk_expires_at t) (oauth_tokens db) \<rparr>)
       (sort_key cl_id (filter (\<lambda>r. tenant = None \<or> tenant = Some (cl_tenant r)) (oauth_clients db)))"

definition delete_client :: "string \<Rightarrow> auth_db \<Rightarrow> bool \<times> auth_db" where
  "delete_client cid db =
     (0 < sql_count (\<lambda>r. cl_id r = cid) (oauth_clients db),
      db\<lparr>oauth_tokens := sql_delete (\<lambda>t. tk_client_id t = cid) (oauth_tokens db),
         oauth_clients := sql_delete (\<lambda>r. cl_id r = cid) (oauth_clients db)\<rparr>)"

definition verify_client_secret :: "(string \<Rightarrow> string) \<Rightarrow> string \<Rightarrow> string \<Rightarrow> auth_db \<Rightarrow> bool" where
  "verify_client_secret sha cid secret db =
     (case get_client cid db of None \<Rightarrow> False | Some r \<Rightarrow> cr_secret_hash r = sha secret)"

definition client_allowed_scopes :: "string \<Rightarrow> string \<Rightarrow> auth_db \<Rightarrow> bool" where
  "client_allowed_scopes cid requested db =
     (case get_client cid db of
        None \<Rightarrow> False
      | Some r \<Rightarrow> list_all (\<lambda>s. s \<in> set (cr_allowed_scopes r)) (py_split requested))"

section \<open>Tokens\<close>

text \<open>\<open>INSERT OR REPLACE\<close> on the primary key \<open>jti\<close>.\<close>

definition record_token :: "claims \<Rightarrow> auth_db \<Rightarrow> auth_db" where
  "record_token pl db =
     (let str = (\<lambda>k. the_default [] (json_str_opt (dict_get pl k (JStr [])))) in
      db\<lparr>oauth_tokens := sql_delete (\<lambda>t. tk_jti t = str ''jti'') (oauth_tokens db) @
        [\<lparr> tk_jti = str ''jti'', tk_client_id = str ''sub'', tk_scope = str ''scope'',
           tk_expires_at = the_default 0 (json_num (dict_get pl ''exp'' (JInt 0))) \<rparr>]\<rparr>)"

definition get_token :: "rat \<Rightarrow> string \<Rightarrow> auth_db \<Rightarrow> TokenRecord option \<times> auth_db" where
  "get_token now jti db =
     (case row_by tk_jti jti (oauth_tokens db) of
        None \<Rightarrow> (None, db)
      | Some r \<Rightarrow>
          if tk_expires_at r < now
          then (None, db\<lparr>oauth_tokens := sql_delete (\<lambda>t. tk_jti t = jti) (oauth_tokens db)\<rparr>)
          else (Some r, db))"

definition revoke_token :: "string \<Rightarrow> auth_db \<Rightarrow> bool \<times> auth_db" where
  "revoke_token jti db =
     (0 < sql_count (\<lambda>t. tk_jti t = jti) (oauth_tokens db),
      db\<lparr>oauth_tokens := sql_delete (\<lambda>t. tk_jti t = jti) (oauth_tokens db)\<rparr>)"

definition revoke_client_tokens :: "string \<Rightarrow> auth_db \<Rightarrow> nat \<times> auth_db" where
  "revoke_client_tokens cid db =
     (sql_count (\<lambda>t. tk_client_id t = cid) (oauth_tokens db),
      db\<lparr>oauth_tokens := sql_delete (\<lambda>t. tk_client_id t = cid) (oauth_tokens db)\<rparr>)"

section \<open>Authorization codes\<close>

definition create_auth_code ::
  "rat \<Rightarrow> string \<Rightarrow> string \<Rightarrow> string \<Rightarrow> string \<Rightarrow> string \<Rightarrow> string \<Rightarrow> auth_db
    \<Rightarrow> (auth_error + string) \<times> auth_db" where
  "create_auth_code now code cid challenge method uri scope = tx (\<lambda>db.
     if row_by ac_code code (auth_codes db) \<noteq> None then Inl IntegrityError
     else Inr (code, db\<lparr>auth_codes := auth_codes db @
       [\<lparr> ac_code = code, ac_client_id = cid, ac_challenge = challenge, ac_method = method,
          ac_redirect_uri = uri, ac_scope = scope, ac_created_at = now \<rparr>]\<rparr>))"

definition drop_code :: "string \<Rightarrow> auth_db \<Rightarrow> auth_db" where
  "drop_code code db = db\<lparr>auth_codes := sql_delete (\<lambda>r. ac_code r = code) (auth_codes db)\<rparr>"

definition consume_auth_code ::
  "(string \<Rightarrow> string) \<Rightarrow> rat \<Rightarrow> string \<Rightarrow> string \<Rightarrow> auth_db \<Rightarrow> auth_code option \<times> auth_db" where
  "consume_auth_code sha now code verifier db =
     (case row_by ac_code code (auth_codes db) of
        None \<Rightarrow> (None, db)
      | Some r \<Rightarrow>
          if AUTH_CODE_EXPIRY_SECONDS < now - ac_created_at r then (None, drop_code code db)
          else if ac_method r = ''S256'' \<and> sha verifier \<noteq> ac_challenge r then (None, db)
          else (Some r, drop_code code db))"

section \<open>Endpoints\<close>

datatype 'a reply = Reject int string | Reply int 'a

text \<open>A store operation that raises leaves the handler as a server error.\<close>

datatype 'a handled = Answer "'a reply" | Raised auth_error

definition audit :: "bool \<Rightarrow> string \<Rightarrow> string \<Rightarrow> string \<Rightarrow> auth_db \<Rightarrow> auth_db" where
  "audit on ev actor target db =
     (if on then db\<lparr>audit_log := audit_log db @
        [\<lparr> au_event = ev, au_actor = actor, au_target = target, au_success = True \<rparr>]\<rparr> else db)"

record RegisterRequest =
  rr_agent_card_id :: string
  rr_allowed_scopes :: "string list option"
  rr_description :: string
  rr_tenant :: string

record registration =
  rg_client_id :: string
  rg_client_secret :: string
  rg_allowed_scopes :: "string list"
  rg_tenant :: string

text \<open>\<open>body\<close> is \<open>None\<close> when the request holds no JSON.\<close>

definition handle_register ::
  "(string \<Rightarrow> string) \<Rightarrow> bool \<Rightarrow> rat \<Rightarrow> string \<Rightarrow> string \<Rightarrow> string \<Rightarrow> RegisterRequest option \<Rightarrow> auth_db
    \<Rightarrow> registration handled \<times> auth_db" where
  "handle_register sha has_audit now cid secret remote req db =
     (case req of
        None \<Rightarrow> (Answer (Reject 400 ''invalid_json''), db)
      | Some q \<Rightarrow>
          if \<not> list_all (\<lambda>s. s \<in> set SCOPES) (case rr_allowed_scopes q of None \<Rightarrow> [] | Some xs \<Rightarrow> xs)
          then (Answer (Reject 400 ''invalid_scope''), db)
          else
            (case register_client sha now cid secret (rr_agent_card_id q) (rr_allowed_scopes q)
                    (rr_description q) (rr_tenant q) db of
               (Inl e, db') \<Rightarrow> (Raised e, db')
             | (Inr (i, sec), db') \<Rightarrow>
                 (Answer (Reply 201 \<lparr> rg_client_id = i, rg_client_secret = sec,
                     rg_allowed_scopes = scopes_or_all (rr_allowed_scopes q), rg_tenant = rr_tenant q \<rparr>),
                  audit has_audit ''CLIENT_CREATE'' (str_or remote ''unknown'') i db')))"

record TokenRequest =
  tr_grant_type :: string
  tr_client_id :: string
  tr_client_secret :: string
  tr_scope :: string
  tr_code :: string
  tr_code_verifier :: string
  tr_redirect_uri :: string

record grant =
  gr_access_token :: string
  gr_scope :: string
  gr_tenant :: string

record auth_env =
  ae_lib :: jwt_lib
  ae_sha :: "string \<Rightarrow> string"
  ae_private_key :: string
  ae_algorithm :: string
  ae_has_audit :: bool
  ae_peek :: "string \<Rightarrow> claims"

text \<open>Issue, record and audit a token; \<open>ae_peek\<close> is \<open>jwt.decode\<close> without verification.\<close>

definition issue ::
  "auth_env \<Rightarrow> rat \<Rightarrow> string \<Rightarrow> string \<Rightarrow> string \<Rightarrow> string \<Rightarrow> auth_db \<Rightarrow> grant reply \<times> auth_db" where
  "issue E now jti cid scope tenant db =
     (let token = create_token (ae_lib E) now jti cid (ae_private_key E) (ae_algorithm E) [] scope
                    TOKEN_EXPIRY_SECONDS ISSUER tenant;
          db' = record_token (ae_peek E token) db
      in (Reply 200 \<lparr> gr_access_token = token, gr_scope = scope, gr_tenant = tenant \<rparr>,
          audit (ae_has_audit E) ''TOKEN_ISSUE'' cid (str_or scope ''all'') db'))"

definition client_tenant :: "string \<Rightarrow> auth_db \<Rightarrow> string" where
  "client_tenant cid db = (case get_client cid db of None \<Rightarrow> [] | Some r \<Rightarrow> cr_tenant r)"

definition granted_scope :: "string \<Rightarrow> string \<Rightarrow> auth_db \<Rightarrow> string" where
  "granted_scope cid scope db =
     (if str_true scope then scope
      else case get_client cid db of None \<Rightarrow> scope | Some r \<Rightarrow> py_join '' '' (cr_allowed_scopes r))"

definition handle_client_credentials ::
  "auth_env \<Rightarrow> rat \<Rightarrow> string \<Rightarrow> string \<Rightarrow> TokenRequest \<Rightarrow> auth_db \<Rightarrow> grant reply \<times> auth_db" where
  "handle_client_credentials E now jti cid q db =
     (if str_true (tr_scope q) \<and> \<not> client_allowed_scopes cid (tr_scope q) db
      then (Reject 400 ''invalid_scope'', db)
      else issue E now jti cid (granted_scope cid (tr_scope q) db) (client_tenant cid db) db)"

definition handle_authorization_code ::
  "auth_env \<Rightarrow> rat \<Rightarrow> string \<Rightarrow> string \<Rightarrow> TokenRequest \<Rightarrow> auth_db \<Rightarrow> grant reply \<times> auth_db" where
  "handle_authorization_code E now jti cid q db =
     (if \<not> str_true (tr_code q) \<or> \<not> str_true (tr_code_verifier q) then (Reject 400 ''invalid_request'', db)
      else
        (case consume_auth_code (ae_sha E) now (tr_code q) (tr_code_verifier q) db of
           (None, db') \<Rightarrow> (Reject 400 ''invalid_grant'', db')
         | (Some r, db') \<Rightarrow>
             if ac_redirect_uri r \<noteq> tr_redirect_uri q then (Reject 400 ''invalid_grant'', db')
             else issue E now jti cid (ac_scope r) (client_tenant cid db') db'))"

text \<open>\<open>req\<close> is \<open>None\<close> when the form data cannot be parsed.\<close>

definition handle_token ::
  "auth_env \<Rightarrow> rat \<Rightarrow> string \<Rightarrow> TokenRequest option \<Rightarrow> auth_db \<Rightarrow> grant reply \<times> auth_db" where
  "handle_token E now jti req db =
     (case req of
        None \<Rightarrow> (Reject 400 ''invalid_request'', db)
      | Some q \<Rightarrow>
          if tr_grant_type q \<notin> {''client_credentials'', ''authorization_code''}
          then (Reject 400 ''unsupported_grant_type'', db)
          else if \<not> verify_client_secret (ae_sha E) (tr_client_id q) (tr_client_secret q) db
          then (Reject 401 ''invalid_client'', db)
          else if tr_grant_type q = ''client_credentials''
          then handle_client_credentials E now jti (tr_client_id q) q db
          else handle_authorization_code E now jti (tr_client_id q) q db)"

end
