(* ===== verification/AuthMiddleware.thy ===== *)
theory AuthMiddleware
  imports OAuth
begin

text \<open>
  The authentication middleware and the scope check of \<open>auth.py\<close>. The middleware yields what
  happens to the request (it is handled, with the identity put into it, or refused) and the metrics
  and audit records it leaves. \<open>session_verify\<close> is the session manager, when there is one. Claims of
  a verified token that are not strings where the code uses them as strings give \<open>Untyped\<close>.
\<close>

record RequestCtx =
  rq_agent_id :: string
  rq_scopes :: string
  rq_payload :: claims
  rq_tenant :: "string option"
  rq_user_session :: "claims option"

record auth_request =
  ar_path :: string
  ar_authorization :: string
  ar_session_cookie :: string
  ar_remote :: string

datatype auth_result = Handle "RequestCtx option" | Unauthorized string | Untyped

datatype auth_effect = TokenMetric bool | AuthFailure string string

record auth_config =
  au_enabled :: bool
  au_has_audit :: bool
  au_lib :: jwt_lib
  au_public_key :: string
  au_algorithm :: string
  au_issuer :: string
  session_verify :: "(string \<Rightarrow> claims option) option"

definition py_endswith :: "string \<Rightarrow> string \<Rightarrow> bool" where
  "py_endswith s p = py_startswith (rev s) (rev p)"

definition public_path :: "string \<Rightarrow> bool" where
  "public_path p =
     (py_startswith p ''/auth/'' \<or> py_startswith p ''/.well-known/'' \<or> py_startswith p ''/assets/'' \<or>
      p \<in> {''/health'', ''/'', ''/metrics'', ''/login'', ''/api/login'', ''/api/logout'', ''/api/me'',
           ''/favicon.ico'', ''/static/login.html''} \<or>
      py_startswith p ''/v2/ws/'' \<or> py_endswith p ''/ws'' \<or> p = ''/.well-known/jwks.json'')"

definition admin_scopes :: string where
  "admin_scopes = ''registry:admin agent:admin agent:register agent:read task:write task:read''"

definition operator_scopes :: string where
  "operator_scopes = ''agent:register agent:read task:write task:read''"

text \<open>The browser session: an admin or operator gets the scopes of the role.\<close>

definition session_ctx :: "claims \<Rightarrow> string \<Rightarrow> string \<Rightarrow> RequestCtx" where
  "session_ctx pl sub scopes =
     \<lparr> rq_agent_id = ''user:'' @ sub, rq_scopes = scopes, rq_payload = pl, rq_tenant = Some [],
       rq_user_session = Some pl \<rparr>"

definition role_scopes :: "json \<Rightarrow> string option" where
  "role_scopes role =
     (if role = JStr ''admin'' then Some admin_scopes
      else if role = JStr ''operator'' then Some operator_scopes else None)"

definition session_fallback :: "auth_config \<Rightarrow> auth_request \<Rightarrow> auth_result option" where
  "session_fallback C rq =
     (case session_verify C of
        None \<Rightarrow> None
      | Some verify \<Rightarrow>
          if \<not> str_true (ar_session_cookie rq) then None
          else
            (case verify (ar_session_cookie rq) of
               None \<Rightarrow> None
             | Some pl \<Rightarrow>
                 (case role_scopes (dict_get pl ''role'' (JStr ''viewer'')) of
                    None \<Rightarrow> None
                  | Some scopes \<Rightarrow>
                      (case json_str_opt (dict_get pl ''sub'' (JStr [])) of
                         None \<Rightarrow> Some Untyped
                       | Some sub \<Rightarrow> Some (Handle (Some (session_ctx pl sub scopes)))))))"

text \<open>The admin scope lifts the tenant filter.\<close>

definition token_ctx :: "claims \<Rightarrow> string \<Rightarrow> string \<Rightarrow> string \<Rightarrow> RequestCtx" where
  "token_ctx pl sub scope tenant =
     \<lparr> rq_agent_id = sub, rq_scopes = scope, rq_payload = pl,
       rq_tenant = Some (if ''registry:admin'' \<in> set (py_split scope) then [] else tenant),
       rq_user_session = None \<rparr>"

definition token_result :: "claims \<Rightarrow> auth_result" where
  "token_result pl =
     (case (json_str_opt (dict_get pl ''sub'' (JStr [])), json_str_opt (dict_get pl ''scope'' (JStr [])),
            json_str_opt (dict_get pl ''tenant'' (JStr []))) of
        (Some sub, Some scope, Some tenant) \<Rightarrow> Handle (Some (token_ctx pl sub scope tenant))
      | _ \<Rightarrow> Untyped)"

definition refused :: "auth_config \<Rightarrow> auth_request \<Rightarrow> auth_effect list" where
  "refused C rq =
     TokenMetric False # (if au_has_audit C then [AuthFailure (str_or (ar_remote rq) ''unknown'') (ar_path rq)] else [])"

definition auth_middleware :: "auth_config \<Rightarrow> rat \<Rightarrow> auth_request \<Rightarrow> auth_result \<times> auth_effect list" where
  "auth_middleware C now rq =
     (if \<not> au_enabled C
      then (Handle (Some \<lparr> rq_agent_id = ''anonymous'', rq_scopes = py_join '' '' SCOPES, rq_payload = [],
                           rq_tenant = None, rq_user_session = None \<rparr>), [])
      else if public_path (ar_path rq) then (Handle None, [])
      else if \<not> py_startswith (ar_authorization rq) ''Bearer ''
      then (case session_fallback C rq of
              Some r \<Rightarrow> (r, [])
            | None \<Rightarrow> (Unauthorized ''unauthorized'', refused C rq))
      else
        (case verify_token (au_lib C) now (drop 7 (ar_authorization rq)) (au_public_key C) (au_algorithm C)
                None (au_issuer C) of
           None \<Rightarrow> (Unauthorized ''invalid_token'', refused C rq)
         | Some pl \<Rightarrow> (token_result pl, [TokenMetric True])))"

section \<open>Scope check\<close>

text \<open>The required scopes a request lacks; the handler runs when there are none, otherwise 403.\<close>

definition missing_scopes :: "string list \<Rightarrow> RequestCtx option \<Rightarrow> string list" where
  "missing_scopes required ctx =
     (let held = (case ctx of None \<Rightarrow> [] | Some c \<Rightarrow> py_split (rq_scopes c))
      in filter (\<lambda>s. s \<notin> set held) required)"

definition require_scope :: "string list \<Rightarrow> RequestCtx option \<Rightarrow> bool" where
  "require_scope required ctx = (missing_scopes required ctx = [])"

lemma require_scope_iff:
  "require_scope required (Some c) \<longleftrightarrow> set required \<subseteq> set (py_split (rq_scopes c))"
  by (auto simp: require_scope_def missing_scopes_def filter_empty_conv)

section \<open>Who gets through\<close>

lemma session_fallback_Handle:
  assumes "session_fallback C rq = Some (Handle ctx)"
  obtains verify pl sub scopes where "session_verify C = Some verify"
    "verify (ar_session_cookie rq) = Some pl" "role_scopes (dict_get pl ''role'' (JStr ''viewer'')) = Some scopes"
    "ctx = Some (session_ctx pl sub scopes)"
  using assms by (auto simp: session_fallback_def split: option.splits if_splits)

lemma token_result_Handle:
  assumes "token_result pl = Handle ctx"
  obtains sub scope tenant where "dict_get pl ''sub'' (JStr []) = JStr sub"
    "dict_get pl ''scope'' (JStr []) = JStr scope" "dict_get pl ''tenant'' (JStr []) = JStr tenant"
    "ctx = Some (token_ctx pl sub scope tenant)"
  using assms by (auto simp: token_result_def json_str_opt_def split: option.splits json.splits)

text \<open>C13: With authentication enabled, a request off the public paths is handled only with an identity that
  comes from a token that verifies or from a verified browser session of an admin or operator; its
  scopes are those of the token or the role, and every other request is refused.\<close>

theorem protected_path_needs_identity:
  assumes "au_enabled C" "\<not> public_path (ar_path rq)" "fst (auth_middleware C now rq) = Handle ctx"
  shows "(\<exists>pl sub scope tenant.
      verify_token (au_lib C) now (drop 7 (ar_authorization rq)) (au_public_key C) (au_algorithm C)
        None (au_issuer C) = Some pl \<and> dict_get pl ''scope'' (JStr []) = JStr scope \<and>
      ctx = Some (token_ctx pl sub scope tenant)) \<or>
    (\<exists>verify pl sub scopes. session_verify C = Some verify \<and> verify (ar_session_cookie rq) = Some pl \<and>
      role_scopes (dict_get pl ''role'' (JStr ''viewer'')) = Some scopes \<and>
      ctx = Some (session_ctx pl sub scopes))"
proof (cases "py_startswith (ar_authorization rq) ''Bearer ''")
  case True
  with assms obtain pl where "verify_token (au_lib C) now (drop 7 (ar_authorization rq)) (au_public_key C)
      (au_algorithm C) None (au_issuer C) = Some pl" "token_result pl = Handle ctx"
    by (auto simp: auth_middleware_def split: option.splits)
  then show ?thesis
    by (auto elim!: token_result_Handle)
next
  case False
  with assms have "session_fallback C rq = Some (Handle ctx)"
    by (auto simp: auth_middleware_def split: option.splits)
  then show ?thesis
    by (auto elim!: session_fallback_Handle)
qed

definition demo_session_config :: auth_config where
  "demo_session_config =
     \<lparr> au_enabled = True, au_has_audit = False, au_lib = demo_lib JNull, au_public_key = ''k'',
       au_algorithm = ''RS256'', au_issuer = ISSUER,
       session_verify = Some (\<lambda>c. if c = ''sid'' then Some [(''sub'', JStr ''ada''), (''role'', JStr ''operator'')] else None) \<rparr>"

definition demo_session_request :: auth_request where
  "demo_session_request =
     \<lparr> ar_path = ''/v2/tasks'', ar_authorization = [], ar_session_cookie = ''sid'', ar_remote = ''1.2.3.4'' \<rparr>"

lemma demo_session_handled:
  "fst (auth_middleware demo_session_config 0 demo_session_request) =
     Handle (Some (session_ctx [(''sub'', JStr ''ada''), (''role'', JStr ''operator'')] ''ada'' operator_scopes))"
  by (simp add: auth_middleware_def demo_session_config_def demo_session_request_def public_path_def
    py_startswith_def py_endswith_def session_fallback_def role_scopes_def)

theorem protected_path_needs_identity_witness:
  "\<exists>verify pl sub scopes. session_verify demo_session_config = Some verify \<and> verify ''sid'' = Some pl \<and>
     role_scopes (dict_get pl ''role'' (JStr ''viewer'')) = Some scopes"
proof -
  have "au_enabled demo_session_config" "\<not> public_path (ar_path demo_session_request)"
    by (simp_all add: demo_session_config_def demo_session_request_def public_path_def
      py_startswith_def py_endswith_def)
  from protected_path_needs_identity [OF this demo_session_handled] show ?thesis
    by (auto simp: demo_session_request_def demo_session_config_def session_ctx_def token_ctx_def)
qed

end
