(* ===== verification/OAuthProps.thy ===== *)
theory OAuthProps
  imports AuthMiddleware
begin

text \<open>
  Properties of the token endpoint: what a grant may hold, how often an authorization code can be
  redeemed and by whom, and that the middleware reads back from an issued token what was granted.
\<close>

section \<open>Reading the tables\<close>

lemma audit_tables [simp]:
  "oauth_clients (audit on ev a t db) = oauth_clients db"
  "oauth_tokens (audit on ev a t db) = oauth_tokens db"
  "auth_codes (audit on ev a t db) = auth_codes db"
  by (simp_all add: audit_def)

lemma record_token_tables [simp]:
  "oauth_clients (record_token pl db) = oauth_clients db"
  "auth_codes (record_token pl db) = auth_codes db"
  by (simp_all add: record_token_def Let_def)

lemma drop_code_tables [simp]:
  "oauth_clients (drop_code code db) = oauth_clients db"
  "row_by ac_code code (auth_codes (drop_code code db)) = None"
  by (simp_all add: drop_code_def row_by_sql_delete_key)

lemma row_by_drop_code: "c \<noteq> code \<Longrightarrow> row_by ac_code c (auth_codes (drop_code code db)) = row_by ac_code c (auth_codes db)"
  by (auto simp: drop_code_def intro!: row_by_sql_delete_other)

lemma client_allowed_scopes_iff:
  "client_allowed_scopes cid req db \<longleftrightarrow>
     (\<exists>r. get_client cid db = Some r \<and> set (py_split req) \<subseteq> set (cr_allowed_scopes r))"
  by (auto simp: client_allowed_scopes_def list_all_iff split: option.splits)

lemma verify_client_secretD:
  assumes "verify_client_secret sha cid secret db"
  obtains r where "get_client cid db = Some r" "cr_secret_hash r = sha secret"
  using assms by (auto simp: verify_client_secret_def split: option.splits)

lemma issue_eq:
  "issue E now jti cid scope tenant db =
     (Reply 200 \<lparr> gr_access_token = create_token (ae_lib E) now jti cid (ae_private_key E) (ae_algorithm E) []
         scope TOKEN_EXPIRY_SECONDS ISSUER tenant, gr_scope = scope, gr_tenant = tenant \<rparr>,
      snd (issue E now jti cid scope tenant db))"
  by (simp add: issue_def Let_def)

lemma issue_codes [simp]: "auth_codes (snd (issue E now jti cid scope tenant db)) = auth_codes db"
  by (simp add: issue_def Let_def)

lemma issue_never_rejects [simp]: "issue E now jti cid scope tenant db \<noteq> (Reject n e, db')"
  by (metis issue_eq prod.inject reply.distinct(1))

lemma fst_issue [simp]:
  "fst (issue E now jti cid scope tenant db) =
     Reply 200 \<lparr> gr_access_token = create_token (ae_lib E) now jti cid (ae_private_key E) (ae_algorithm E) []
         scope TOKEN_EXPIRY_SECONDS ISSUER tenant, gr_scope = scope, gr_tenant = tenant \<rparr>"
  by (simp add: issue_def Let_def)

section \<open>Client credentials\<close>

text \<open>A client-credentials grant is given only for the secret of a registered client; its scopes
  are the requested ones when the client is allowed all of them and the client's own when none are
  requested, and its tenant is the client's.\<close>

theorem client_credentials_grant:
  assumes "tr_grant_type q = ''client_credentials''"
    and "fst (handle_token E now jti (Some q) db) = Reply n g"
  shows "\<exists>r. get_client (tr_client_id q) db = Some r \<and> cr_secret_hash r = ae_sha E (tr_client_secret q) \<and>
    gr_tenant g = cr_tenant r \<and>
    (if tr_scope q = [] then gr_scope g = py_join '' '' (cr_allowed_scopes r)
     else gr_scope g = tr_scope q \<and> set (py_split (tr_scope q)) \<subseteq> set (cr_allowed_scopes r))"
proof -
  have secret: "verify_client_secret (ae_sha E) (tr_client_id q) (tr_client_secret q) db"
    and reply: "fst (handle_client_credentials E now jti (tr_client_id q) q db) = Reply n g"
    using assms by (auto simp: handle_token_def split: if_splits)
  from secret obtain r where r: "get_client (tr_client_id q) db = Some r"
    "cr_secret_hash r = ae_sha E (tr_client_secret q)"
    by (rule verify_client_secretD)
  from reply have allowed: "tr_scope q = [] \<or> client_allowed_scopes (tr_client_id q) (tr_scope q) db"
    and g: "gr_scope g = granted_scope (tr_client_id q) (tr_scope q) db"
      "gr_tenant g = client_tenant (tr_client_id q) db"
    by (auto simp: handle_client_credentials_def split: if_splits)
  from allowed g r show ?thesis
    by (auto simp: granted_scope_def client_tenant_def client_allowed_scopes_iff)
qed

definition demo_auth_db :: auth_db where
  "demo_auth_db =
     empty_auth_db\<lparr>oauth_clients :=
       [\<lparr> cl_id = ''c1'', cl_secret_hash = ''s1'', cl_scopes = ''task:read,task:write'', cl_agent_card_id = [],
          cl_created_at = 0, cl_description = [], cl_tenant = ''t1'' \<rparr>,
        \<lparr> cl_id = ''c2'', cl_secret_hash = ''s2'', cl_scopes = ''agent:read'', cl_agent_card_id = [],
          cl_created_at = 0, cl_description = [], cl_tenant = [] \<rparr>],
       auth_codes :=
       [\<lparr> ac_code = ''z9'', ac_client_id = ''c1'', ac_challenge = ''v'', ac_method = ''S256'',
          ac_redirect_uri = ''u'', ac_scope = ''registry:admin'', ac_created_at = 10 \<rparr>]\<rparr>"

definition demo_auth_env :: auth_env where
  "demo_auth_env =
     \<lparr> ae_lib = demo_lib JNull, ae_sha = (\<lambda>x. x), ae_private_key = ''k'', ae_algorithm = ''RS256'',
       ae_has_audit = True, ae_peek = (\<lambda>t. []) \<rparr>"

definition demo_request :: "string \<Rightarrow> TokenRequest" where
  "demo_request gt =
     \<lparr> tr_grant_type = gt, tr_client_id = ''c2'', tr_client_secret = ''s2'', tr_scope = ''agent:read'',
       tr_code = ''z9'', tr_code_verifier = ''v'', tr_redirect_uri = ''u'' \<rparr>"

lemma py_split_plain:
  assumes "s \<noteq> []" "\<forall>c \<in> set s. \<not> py_isspace c"
  shows "py_split s = [s]"
proof -
  have "dropWhile py_isspace s = s" "takeWhile (\<lambda>c. \<not> py_isspace c) s = s" "dropWhile (\<lambda>c. \<not> py_isspace c) s = []"
    using assms by (cases s; auto)+
  moreover have "py_split [] = []"
    by (simp add: py_split.simps)
  ultimately show ?thesis
    using assms(1) by (subst py_split.simps) (simp add: Let_def del: dropWhile_eq_Nil_conv)
qed

lemma demo_client:
  "get_client ''c2'' demo_auth_db = Some (row_to_client (oauth_clients demo_auth_db ! 1))"
  by (simp add: get_client_def demo_auth_db_def empty_auth_db_def row_by_Cons)

lemma demo_allowed: "client_allowed_scopes ''c2'' ''agent:read'' demo_auth_db"
  by (simp add: client_allowed_scopes_def demo_client py_split_plain py_isspace_def Let_def)
    (simp add: demo_auth_db_def empty_auth_db_def row_to_client_def split_scopes_def)

lemma demo_secret: "verify_client_secret (\<lambda>x. x) ''c2'' ''s2'' demo_auth_db"
  by (simp add: verify_client_secret_def demo_client) (simp add: demo_auth_db_def row_to_client_def)

theorem client_credentials_grant_witness:
  "\<exists>g r. fst (handle_token demo_auth_env 0 ''j'' (Some (demo_request ''client_credentials'')) demo_auth_db) = Reply 200 g \<and>
     get_client ''c2'' demo_auth_db = Some r \<and> set (py_split ''agent:read'') \<subseteq> set (cr_allowed_scopes r)"
proof -
  have "\<exists>g. fst (handle_token demo_auth_env 0 ''j'' (Some (demo_request ''client_credentials'')) demo_auth_db) = Reply 200 g"
    using demo_allowed demo_secret
    by (simp add: handle_token_def handle_client_credentials_def demo_auth_env_def demo_request_def)
  then obtain g where g: "fst (handle_token demo_auth_env 0 ''j'' (Some (demo_request ''client_credentials''))
      demo_auth_db) = Reply 200 g"
    by blast
  from client_credentials_grant [OF _ this] g show ?thesis
    by (auto simp: demo_request_def)
qed

section \<open>Authorization codes\<close>

lemma consume_auth_code_cases:
  "consume_auth_code sha now code v db =
     (case row_by ac_code code (auth_codes db) of
        None \<Rightarrow> (None, db)
      | Some r \<Rightarrow>
          if 600 < now - ac_created_at r then (None, drop_code code db)
          else if ac_method r = ''S256'' \<and> sha v \<noteq> ac_challenge r then (None, db)
          else (Some r, drop_code code db))"
  unfolding consume_auth_code_def AUTH_CODE_EXPIRY_SECONDS_def by (rule refl)

text \<open>C12: An authorization code is accepted only within ten minutes of its creation and, when it was issued
  for the S256 method, only with a verifier that hashes to its challenge (for any other method, such as
  plain, the code never compares the verifier); once accepted it is gone, so no later attempt with it
  succeeds, while every other code stays.\<close>

theorem auth_code_single_use:
  assumes "consume_auth_code sha now code v db = (Some r, db')"
  shows "row_by ac_code code (auth_codes db) = Some r \<and> now - ac_created_at r \<le> 600 \<and>
    (ac_method r = ''S256'' \<longrightarrow> sha v = ac_challenge r) \<and>
    (\<forall>now' v'. consume_auth_code sha now' code v' db' = (None, db')) \<and>
    (\<forall>c. c \<noteq> code \<longrightarrow> row_by ac_code c (auth_codes db') = row_by ac_code c (auth_codes db))"
proof -
  have r: "row_by ac_code code (auth_codes db) = Some r" "now - ac_created_at r \<le> 600"
    "ac_method r = ''S256'' \<longrightarrow> sha v = ac_challenge r" "db' = drop_code code db"
    using assms by (auto simp: consume_auth_code_cases split: option.splits if_splits)
  then have "consume_auth_code sha now' code v' db' = (None, db')" for now' v'
    by (simp add: consume_auth_code_cases)
  with r show ?thesis
    by (simp add: row_by_drop_code)
qed

lemma demo_code:
  "consume_auth_code (\<lambda>x. x) 20 ''z9'' ''v'' demo_auth_db =
     (Some (auth_codes demo_auth_db ! 0), drop_code ''z9'' demo_auth_db)"
  by (simp add: consume_auth_code_cases demo_auth_db_def empty_auth_db_def row_by_Cons)

theorem auth_code_single_use_witness:
  "consume_auth_code (\<lambda>x. x) 21 ''z9'' ''v'' (drop_code ''z9'' demo_auth_db) = (None, drop_code ''z9'' demo_auth_db)"
  using auth_code_single_use [OF demo_code] by blast

text \<open>The code grant does not ask who the code was issued to: any registered client that presents a
  live code with its verifier and redirect address gets a token in its own name with the scope of the
  code, whatever its own allowed scopes are.\<close>

theorem code_grant_ignores_code_owner:
  assumes "tr_grant_type q = ''authorization_code''"
    and "verify_client_secret (ae_sha E) (tr_client_id q) (tr_client_secret q) db"
    and "tr_code q \<noteq> []" "tr_code_verifier q \<noteq> []"
    and "consume_auth_code (ae_sha E) now (tr_code q) (tr_code_verifier q) db = (Some r, db')"
    and "ac_redirect_uri r = tr_redirect_uri q"
  shows "\<exists>g. fst (handle_token E now jti (Some q) db) = Reply 200 g \<and> gr_scope g = ac_scope r \<and>
    gr_access_token g = create_token (ae_lib E) now jti (tr_client_id q) (ae_private_key E) (ae_algorithm E)
      [] (ac_scope r) TOKEN_EXPIRY_SECONDS ISSUER (gr_tenant g)"
  using assms by (simp add: handle_token_def handle_authorization_code_def)

theorem code_grant_ignores_code_owner_witness:
  "\<exists>g. fst (handle_token demo_auth_env 20 ''j'' (Some (demo_request ''authorization_code'')) demo_auth_db) = Reply 200 g \<and>
     gr_scope g = ''registry:admin'' \<and> ac_client_id (auth_codes demo_auth_db ! 0) = ''c1'' \<and>
     tr_client_id (demo_request ''authorization_code'') = ''c2''"
proof -
  have "ac_scope (auth_codes demo_auth_db ! 0) = ''registry:admin''" "ac_client_id (auth_codes demo_auth_db ! 0) = ''c1''"
    "ac_redirect_uri (auth_codes demo_auth_db ! 0) = ''u''"
    by (simp_all add: demo_auth_db_def)
  then show ?thesis
    using code_grant_ignores_code_owner [of "demo_request ''authorization_code''" demo_auth_env demo_auth_db 20
        "auth_codes demo_auth_db ! 0" "drop_code ''z9'' demo_auth_db" "''j''"] demo_code demo_secret
    by (auto simp: demo_request_def demo_auth_env_def)
qed

section \<open>From the grant to the request\<close>

lemma token_result_access_claims:
  "token_result (access_claims now jti sub audience scope expiry issuer tenant) =
     Handle (Some (token_ctx (access_claims now jti sub audience scope expiry issuer tenant) sub scope tenant))"
  by (simp add: token_result_def)

text \<open>A token that was granted opens every protected path until it expires: the middleware reads
  back the client as the caller and exactly the granted scopes, so a handler's scope check passes
  when it asks for no more than the grant; the tenant is the granted one unless the grant holds the
  admin scope. After an hour the same request is refused.\<close>

theorem granted_token_opens_paths:
  assumes "ae_algorithm E = ''RS256''" "au_lib C = ae_lib E" "au_algorithm C = ''RS256''" "au_issuer C = ISSUER"
    and "segment_ok (ae_lib E) jwt_header" "\<forall>m. signature_ok (ae_lib E) (ae_private_key E) (au_public_key C) m"
    and "segment_ok (ae_lib E) (JObj (access_claims now jti cid [] scope TOKEN_EXPIRY_SECONDS ISSUER tenant))"
    and "fst (issue E now jti cid scope tenant db) = Reply 200 g" "0 \<le> now"
    and "au_enabled C" "\<not> public_path (ar_path rq)" "ar_authorization rq = ''Bearer '' @ gr_access_token g"
  shows "(if t \<le> rat_of_int (\<lfloor>now\<rfloor> + 3600)
    then \<exists>ctx. fst (auth_middleware C t rq) = Handle (Some ctx) \<and> rq_agent_id ctx = cid \<and>
      rq_scopes ctx = scope \<and>
      rq_tenant ctx = Some (if ''registry:admin'' \<in> set (py_split scope) then [] else tenant) \<and>
      (\<forall>required. require_scope required (Some ctx) \<longleftrightarrow> set required \<subseteq> set (py_split scope))
    else fst (auth_middleware C t rq) = Unauthorized ''invalid_token'')"
proof -
  let ?pl = "access_claims now jti cid [] scope TOKEN_EXPIRY_SECONDS ISSUER tenant"
  have "gr_access_token g = create_token (ae_lib E) now jti cid (ae_private_key E) ''RS256'' [] scope
      TOKEN_EXPIRY_SECONDS ISSUER tenant"
    using assms(1,8) by auto
  moreover have "0 < \<lfloor>now\<rfloor> + TOKEN_EXPIRY_SECONDS"
    using assms(9) zero_le_floor [of now] by (simp add: TOKEN_EXPIRY_SECONDS_def del: zero_le_floor)
  ultimately have verified: "verify_token (au_lib C) t (drop 7 (ar_authorization rq)) (au_public_key C)
      (au_algorithm C) None (au_issuer C) = (if t \<le> rat_of_int (\<lfloor>now\<rfloor> + 3600) then Some ?pl else None)"
    using assms(2-7,12) by (simp add: verify_create_token TOKEN_EXPIRY_SECONDS_def)
  have "py_startswith (ar_authorization rq) ''Bearer ''"
    using assms(12) by (simp add: py_startswith_def)
  with verified assms(10,11) show ?thesis
    by (simp add: auth_middleware_def token_result_access_claims require_scope_iff token_ctx_def)
qed

definition demo_config :: "claims \<Rightarrow> auth_config" where
  "demo_config pl = demo_session_config\<lparr>au_lib := demo_lib (JObj pl)\<rparr>"

theorem granted_token_opens_paths_witness:
  "\<exists>C rq ctx. fst (auth_middleware C 50 rq) = Handle (Some ctx) \<and> rq_agent_id ctx = ''c2'' \<and>
     rq_tenant ctx = Some ''t'' \<and> fst (auth_middleware C 5000 rq) = Unauthorized ''invalid_token''"
proof -
  let ?pl = "access_claims 10 ''j'' ''c2'' [] ''agent:read'' TOKEN_EXPIRY_SECONDS ISSUER ''t''"
  let ?E = "demo_auth_env\<lparr>ae_lib := demo_lib (JObj ?pl)\<rparr>" and ?C = "demo_config ?pl"
  obtain g where g: "fst (issue ?E 10 ''j'' ''c2'' ''agent:read'' ''t'' demo_auth_db) = Reply 200 g"
    by simp
  define rq where "rq = demo_session_request\<lparr>ar_authorization := ''Bearer '' @ gr_access_token g\<rparr>"
  have "JObj ?pl \<noteq> jwt_header"
    by (simp add: access_claims_def jwt_header_def)
  then have laws: "segment_ok (ae_lib ?E) jwt_header" "segment_ok (ae_lib ?E) (JObj ?pl)"
    "\<forall>m. signature_ok (ae_lib ?E) (ae_private_key ?E) (au_public_key ?C) m"
    by (simp_all add: demo_auth_env_def demo_config_def demo_session_config_def)
  have conf: "ae_algorithm ?E = ''RS256''" "au_lib ?C = ae_lib ?E" "au_algorithm ?C = ''RS256''"
    "au_issuer ?C = ISSUER" "au_enabled ?C"
    by (simp_all add: demo_auth_env_def demo_config_def demo_session_config_def)
  have path: "\<not> public_path (ar_path rq)" "ar_authorization rq = ''Bearer '' @ gr_access_token g"
    by (simp_all add: rq_def demo_session_request_def public_path_def py_startswith_def py_endswith_def)
  have "''registry:admin'' \<notin> set (py_split ''agent:read'')"
    by (simp add: py_split_plain py_isspace_def Let_def)
  then show ?thesis
    using granted_token_opens_paths [OF conf(1-4) laws(1,3,2) g _ conf(5) path, of 50]
      granted_token_opens_paths [OF conf(1-4) laws(1,3,2) g _ conf(5) path, of 5000]
    by (intro exI [of _ ?C] exI [of _ rq]) auto
qed

end
