(* ===== verification/AgentRegistry.thy ===== *)
theory AgentRegistry
  imports JsonText
begin

text \<open>
  The agents table and the authorization matrix of \<open>store.py\<close>. A card is kept parsed; the conversion
  of a submitted card to its stored form (\<open>AgentCard.from_dict\<close> and \<open>to_dict\<close>) and the tenants of
  its interfaces are arguments of the registration, as are ids, tokens and the time. \<open>num\<close> is the
  JSON form of a float. A malformed skills or tags entry counts as not matching.
\<close>

definition HEARTBEAT_TIMEOUT :: rat where
  "HEARTBEAT_TIMEOUT = 120"

definition HEARTBEAT_PURGE :: rat where
  "HEARTBEAT_PURGE = 300"

type_synonym card = "(string \<times> json) list"

record agent_row =
  ag_id :: string
  ag_card :: card
  ag_heartbeat_at :: rat
  ag_disabled :: bool
  ag_registered_at :: string
  ag_created_at :: rat
  ag_tenant :: string
  ag_channel :: string
  ag_callback_url :: string
  ag_callback_token :: string

record authz_row =
  az_id :: nat
  az_source :: string
  az_target :: string
  az_actions :: json
  az_scope_restriction :: "string option"
  az_max_depth :: int
  az_tenant :: string
  az_created_at :: rat
  az_expires_at :: "rat option"

record registry_db =
  agents :: "agent_row list"
  authorizations :: "authz_row list"
  authz_seq :: nat

definition empty_registry :: registry_db where
  "empty_registry = \<lparr> agents = [], authorizations = [], authz_seq = 0 \<rparr>"

section \<open>Queries\<close>

definition elapsed_since :: "rat \<Rightarrow> agent_row \<Rightarrow> rat" where
  "elapsed_since now r = (if ag_heartbeat_at r \<noteq> 0 then now - ag_heartbeat_at r else HEARTBEAT_TIMEOUT + 1)"

definition alive :: "rat \<Rightarrow> agent_row \<Rightarrow> bool" where
  "alive now r = (elapsed_since now r \<le> HEARTBEAT_TIMEOUT)"

definition live_status :: "rat \<Rightarrow> agent_row \<Rightarrow> string" where
  "live_status now r = (if ag_disabled r then ''disabled'' else if alive now r then ''alive'' else ''stale'')"

text \<open>The tenant filter: \<open>None\<close> is no filter, the empty tenant sees only itself, and a tenant also sees
  the agents without a tenant.\<close>

definition visible :: "string option \<Rightarrow> agent_row \<Rightarrow> bool" where
  "visible ten r =
     (case ten of None \<Rightarrow> True | Some t \<Rightarrow> if t = [] then ag_tenant r = [] else ag_tenant r = t \<or> ag_tenant r = [])"

definition put_all :: "(string \<times> json) list \<Rightarrow> card \<Rightarrow> card" where
  "put_all kvs d = fold (\<lambda>(k, v). dict_put k v) kvs d"

definition channel_items :: "agent_row \<Rightarrow> (string \<times> json) list" where
  "channel_items r =
     [(''tenant'', JStr (ag_tenant r)), (''preferred_channel'', JStr (str_or (ag_channel r) ''ws'')),
      (''callback_url'', JStr (ag_callback_url r)), (''callback_token'', JStr (ag_callback_token r))]"

definition get_agent_view :: "rat \<Rightarrow> agent_row \<Rightarrow> card" where
  "get_agent_view now r =
     put_all ([(''id'', JStr (ag_id r))] @ channel_items r @
       [(''status'', JStr (live_status now r)), (''disabled'', JBool (ag_disabled r))]) (ag_card r)"

definition list_agent_view :: "(rat \<Rightarrow> json) \<Rightarrow> rat \<Rightarrow> agent_row \<Rightarrow> card" where
  "list_agent_view num now r =
     put_all ([(''id'', JStr (ag_id r)), (''status'', JStr (live_status now r)),
               (''disabled'', JBool (ag_disabled r)), (''lastHeartbeat'', num (ag_heartbeat_at r))] @
       channel_items r) (ag_card r)"

definition get_agent :: "rat \<Rightarrow> string \<Rightarrow> string option \<Rightarrow> registry_db \<Rightarrow> card option" where
  "get_agent now i ten db =
     map_option (get_agent_view now) (fetchone (filter (\<lambda>r. ag_id r = i \<and> visible ten r) (agents db)))"

definition str_items :: "json \<Rightarrow> string list" where
  "str_items j = (case j of JList js \<Rightarrow> concat (map (\<lambda>x. case x of JStr s \<Rightarrow> [s] | _ \<Rightarrow> []) js) | _ \<Rightarrow> [])"

definition skill_text :: "json \<Rightarrow> string" where
  "skill_text j =
     (case j of
        JObj s \<Rightarrow> str_or (the_default [] (json_str_opt (dict_get s ''name'' (JStr []))))
                       (the_default [] (json_str_opt (dict_get s ''id'' (JStr []))))
      | _ \<Rightarrow> [])"

definition has_skill :: "string \<Rightarrow> card \<Rightarrow> bool" where
  "has_skill sk c = (case dict_get c ''skills'' (JList []) of JList js \<Rightarrow> list_ex (\<lambda>s. py_in sk (skill_text s)) js | _ \<Rightarrow> False)"

definition list_agents ::
  "(rat \<Rightarrow> json) \<Rightarrow> rat \<Rightarrow> string option \<Rightarrow> string option \<Rightarrow> string option \<Rightarrow> string option \<Rightarrow> registry_db \<Rightarrow> card list" where
  "list_agents num now sk tag q ten db =
     filter (\<lambda>c. (opt_true sk \<longrightarrow> has_skill (opt_or sk []) c) \<and>
                 (opt_true tag \<longrightarrow> opt_or tag [] \<in> set (str_items (dict_get c ''tags'' (JList [])))) \<and>
                 (opt_true q \<longrightarrow> py_in (py_lower (opt_or q [])) (py_lower (dumps unicode_opts (JObj c)))))
       (map (list_agent_view num now) (filter (visible ten) (agents db)))"

section \<open>Mutations\<close>

definition card_tenant :: "string \<Rightarrow> card \<Rightarrow> string list \<Rightarrow> string" where
  "card_tenant tenant c interface_tenants =
     (if str_true tenant then tenant
      else
        (let top = the_default [] (json_str_opt (dict_get c ''tenant'' (JStr [])))
         in if str_true top then top else the_default [] (fetchone (filter str_true interface_tenants))))"

text \<open>\<open>None\<close> is a clash of the primary key.\<close>

definition register_agent ::
  "(card \<Rightarrow> card) \<Rightarrow> (card \<Rightarrow> string list) \<Rightarrow> string \<Rightarrow> string \<Rightarrow> rat \<Rightarrow> string \<Rightarrow> card \<Rightarrow> string \<Rightarrow> registry_db
    \<Rightarrow> (string \<times> registry_db) option" where
  "register_agent stored_form interfaces uuid tok now isotime c tenant db =
     (if row_by ag_id uuid (agents db) \<noteq> None then None
      else
        (let channel = the_default ''ws'' (json_str_opt (dict_get c ''preferred_channel'' (JStr ''ws''))) in
         Some (uuid, db\<lparr>agents := agents db @
           [\<lparr> ag_id = uuid, ag_card = stored_form c, ag_heartbeat_at = now, ag_disabled = False,
              ag_registered_at = isotime, ag_created_at = now, ag_tenant = card_tenant tenant c (interfaces c),
              ag_channel = channel,
              ag_callback_url = the_default [] (json_str_opt (dict_get c ''callback_url'' (JStr []))),
              ag_callback_token = (if channel = ''callback'' then tok else []) \<rparr>]\<rparr>)))"

text \<open>\<open>WHERE id=?\<close>, with \<open>AND tenant_id=?\<close> when a tenant is given.\<close>

definition owned :: "string \<Rightarrow> string \<Rightarrow> agent_row \<Rightarrow> bool" where
  "owned i ten r = (ag_id r = i \<and> (str_true ten \<longrightarrow> ag_tenant r = ten))"

definition heartbeat_agent :: "rat \<Rightarrow> string \<Rightarrow> string \<Rightarrow> registry_db \<Rightarrow> bool \<times> registry_db" where
  "heartbeat_agent now i ten db =
     (0 < sql_count (owned i ten) (agents db),
      db\<lparr>agents := sql_update (owned i ten) (\<lambda>r. r\<lparr>ag_heartbeat_at := now\<rparr>) (agents db)\<rparr>)"

definition unregister_agent :: "string \<Rightarrow> string \<Rightarrow> registry_db \<Rightarrow> bool \<times> registry_db" where
  "unregister_agent i ten db =
     (0 < sql_count (owned i ten) (agents db), db\<lparr>agents := sql_delete (owned i ten) (agents db)\<rparr>)"

definition purgeable :: "rat \<Rightarrow> agent_row \<Rightarrow> bool" where
  "purgeable now r = (0 < ag_heartbeat_at r \<and> ag_heartbeat_at r < now - HEARTBEAT_PURGE)"

definition purge_stale :: "rat \<Rightarrow> registry_db \<Rightarrow> nat \<times> registry_db" where
  "purge_stale now db =
     (sql_count (purgeable now) (agents db), db\<lparr>agents := sql_delete (purgeable now) (agents db)\<rparr>)"

definition toggle_agent :: "string \<Rightarrow> string \<Rightarrow> registry_db \<Rightarrow> bool option \<times> registry_db" where
  "toggle_agent i ten db =
     (case fetchone (filter (owned i ten) (agents db)) of
        None \<Rightarrow> (None, db)
      | Some r \<Rightarrow>
          (Some (\<not> ag_disabled r),
           db\<lparr>agents := sql_update (\<lambda>x. ag_id x = i) (\<lambda>x. x\<lparr>ag_disabled := \<not> ag_disabled r\<rparr>) (agents db)\<rparr>))"

section \<open>Statistics\<close>

record agent_stats =
  total_agents :: int
  alive_agents :: int
  stale_agents :: int

definition sql_alive :: "rat \<Rightarrow> agent_row \<Rightarrow> bool" where
  "sql_alive now r = (now - ag_heartbeat_at r \<le> HEARTBEAT_TIMEOUT)"

definition stats_of :: "rat \<Rightarrow> agent_row list \<Rightarrow> agent_stats" where
  "stats_of now rs =
     (let t = int (length rs); a = int (sql_count (sql_alive now) rs)
      in \<lparr> total_agents = t, alive_agents = a, stale_agents = t - a \<rparr>)"

definition registry_stats :: "rat \<Rightarrow> string option \<Rightarrow> registry_db \<Rightarrow> agent_stats" where
  "registry_stats now ten db = stats_of now (filter (\<lambda>r. opt_true ten \<longrightarrow> ten = Some (ag_tenant r)) (agents db))"

definition list_tenants :: "registry_db \<Rightarrow> string list" where
  "list_tenants db = sort (remdups (map ag_tenant (agents db)))"

definition stats_by_tenant_agents :: "rat \<Rightarrow> registry_db \<Rightarrow> (string \<times> agent_stats) list" where
  "stats_by_tenant_agents now db =
     map (\<lambda>t. (t, stats_of now (filter (\<lambda>r. ag_tenant r = t) (agents db)))) (list_tenants db)"

section \<open>Authorization matrix\<close>

definition create_authorization ::
  "rat \<Rightarrow> string \<Rightarrow> string \<Rightarrow> string list option \<Rightarrow> string option \<Rightarrow> int \<Rightarrow> rat option \<Rightarrow> string \<Rightarrow> registry_db
    \<Rightarrow> (authz_row \<times> registry_db) option" where
  "create_authorization now s t acts restr md expires ten db =
     (if list_ex (\<lambda>r. az_source r = s \<and> az_target r = t \<and> az_tenant r = ten) (authorizations db) then None
      else
        (let row = \<lparr> az_id = Suc (authz_seq db), az_source = s, az_target = t,
                     az_actions = JList (map JStr (if the_default [] acts = [] then [''*''] else the_default [] acts)),
                     az_scope_restriction = restr, az_max_depth = md, az_tenant = ten, az_created_at = now,
                     az_expires_at = expires \<rparr>
         in Some (row, db\<lparr>authorizations := authorizations db @ [row], authz_seq := Suc (authz_seq db)\<rparr>)))"

definition get_authorization :: "nat \<Rightarrow> registry_db \<Rightarrow> authz_row option" where
  "get_authorization i db = row_by az_id i (authorizations db)"

definition list_authorizations :: "string option \<Rightarrow> string option \<Rightarrow> string option \<Rightarrow> registry_db \<Rightarrow> authz_row list" where
  "list_authorizations s t ten db =
     order_desc az_created_at
       (filter (\<lambda>r. (opt_true s \<longrightarrow> s = Some (az_source r)) \<and> (opt_true t \<longrightarrow> t = Some (az_target r)) \<and>
                    (ten = None \<or> ten = Some (az_tenant r))) (authorizations db))"

definition delete_authorization :: "nat \<Rightarrow> registry_db \<Rightarrow> bool \<times> registry_db" where
  "delete_authorization i db =
     (0 < sql_count (\<lambda>r. az_id r = i) (authorizations db),
      db\<lparr>authorizations := sql_delete (\<lambda>r. az_id r = i) (authorizations db)\<rparr>)"

section \<open>Facts about the registry\<close>

text \<open>An agent that counts as alive is never purged, since the purge waits longer than the timeout.\<close>

lemma alive_not_purgeable: "alive now r \<Longrightarrow> \<not> purgeable now r"
  by (auto simp: alive_def elapsed_since_def purgeable_def HEARTBEAT_TIMEOUT_def HEARTBEAT_PURGE_def)

lemma map_of_put_all: "k \<notin> fst ` set kvs \<Longrightarrow> map_of (put_all kvs d) k = map_of d k"
  unfolding put_all_def by (induction kvs arbitrary: d) auto

lemma map_of_put_all_last: "map_of (put_all (kvs @ [(k, v)]) d) k = Some v"
  by (simp add: put_all_def)

text \<open>Tenant isolation of the mutations: agents of other tenants keep their rows.\<close>

lemma owned_tenant: "ten \<noteq> [] \<Longrightarrow> ag_tenant r \<noteq> ten \<Longrightarrow> \<not> owned i ten r"
  by (simp add: owned_def)

lemma tenant_isolation_mutations:
  assumes "ten \<noteq> []" "distinct (map ag_id (agents db))"
  shows "filter (\<lambda>r. ag_tenant r \<noteq> ten) (agents (snd (heartbeat_agent now i ten db))) = filter (\<lambda>r. ag_tenant r \<noteq> ten) (agents db)"
    "filter (\<lambda>r. ag_tenant r \<noteq> ten) (agents (snd (unregister_agent i ten db))) = filter (\<lambda>r. ag_tenant r \<noteq> ten) (agents db)"
    "filter (\<lambda>r. ag_tenant r \<noteq> ten) (agents (snd (toggle_agent i ten db))) = filter (\<lambda>r. ag_tenant r \<noteq> ten) (agents db)"
proof -
  have upd: "filter (\<lambda>r. ag_tenant r \<noteq> ten) (sql_update P f rs) = filter (\<lambda>r. ag_tenant r \<noteq> ten) rs"
    if "\<forall>r \<in> set rs. P r \<longrightarrow> ag_tenant r = ten" "\<And>r. ag_tenant (f r) = ag_tenant r" for P f and rs :: "agent_row list"
    using that by (induction rs) auto
  show "filter (\<lambda>r. ag_tenant r \<noteq> ten) (agents (snd (heartbeat_agent now i ten db))) = filter (\<lambda>r. ag_tenant r \<noteq> ten) (agents db)"
    using assms(1) by (auto simp: heartbeat_agent_def owned_def intro!: upd)
  show "filter (\<lambda>r. ag_tenant r \<noteq> ten) (agents (snd (unregister_agent i ten db))) = filter (\<lambda>r. ag_tenant r \<noteq> ten) (agents db)"
    using assms(1) by (auto simp: unregister_agent_def sql_delete_def owned_def intro: filter_cong)
  show "filter (\<lambda>r. ag_tenant r \<noteq> ten) (agents (snd (toggle_agent i ten db))) = filter (\<lambda>r. ag_tenant r \<noteq> ten) (agents db)"
  proof (cases "fetchone (filter (owned i ten) (agents db))")
    case None
    then show ?thesis by (simp add: toggle_agent_def)
  next
    case (Some r)
    then have r: "r \<in> set (agents db)" "owned i ten r" by (auto dest: fetchone_mem)
    have "ag_tenant x = ten" if "x \<in> set (agents db)" "ag_id x = i" for x
      using that r assms by (auto simp: owned_def distinct_map inj_on_def)
    then show ?thesis using Some by (auto simp: toggle_agent_def intro!: upd)
  qed
qed

end
