(* ===== verification/Ape.thy ===== *)
theory Ape
  imports TaskStore AgentRegistry Dtm SecurityEvents
begin

text \<open>
  \<open>security/ape.py\<close>: the authorization policy engine, with its three checkpoints for creating,
  claiming and completing a task and its three modes. Every checkpoint returns its result and the
  store of security events it wrote. Plugins are third-party code: a plugin is the decision its
  hook returns, if it returns one. \<open>ape_execute\<close> says whether the registry store has the method
  \<open>execute\<close> that the authorization matrix is read with (the class \<open>Store\<close> has none). Texts that
  depend on how Python prints a float or a set take these printers from the environment.
\<close>

section \<open>Data\<close>

record APEConfig =
  mode :: string
  delegation_policy :: string
  max_delegation_depth :: int

definition APEConfig_default :: APEConfig where
  "APEConfig_default = \<lparr> mode = ''warn'', delegation_policy = ''open'', max_delegation_depth = 10 \<rparr>"

record CallerIdentity =
  ca_agent_id :: string
  ca_tenant :: string
  ca_scope :: string

record CheckpointResult =
  allowed :: bool
  reason :: string
  cp_effective_scope :: string
  recorded_event :: bool
  response_headers :: "(string \<times> string) list"

datatype AuthzOutcome = ACCEPT | REJECT | DEFER

record AuthzDecision =
  outcome :: AuthzOutcome
  decision_reason :: string

record ape_env =
  ape_config :: APEConfig
  ape_dtm :: dtm
  ape_registry :: registry_db
  ape_tasks :: "task_db option"
  ape_plugins :: "AuthzDecision option list option"
  ape_execute :: bool
  ape_fresh :: "event_store \<Rightarrow> string"
  ape_num :: "rat \<Rightarrow> json"
  ape_fmt :: "rat \<Rightarrow> string"
  ape_set_repr :: "string list \<Rightarrow> string"

section \<open>Recording and modes\<close>

definition record_decision ::
  "ape_env \<Rightarrow> rat \<Rightarrow> string \<Rightarrow> CallerIdentity \<Rightarrow> string \<Rightarrow> string \<Rightarrow> string \<Rightarrow> string option \<Rightarrow> event_store \<Rightarrow> event_store" where
  "record_decision E now ty c target dec why task s =
     snd (record_event (ape_fresh E s) now
       ((EventArgs_default ty (ca_agent_id c) target dec)
          \<lparr> ea_tenant := ca_tenant c, ea_reason := why, ea_scope_used := ca_scope c, ea_task_id := task \<rparr>) s)"

definition warning_value :: "string \<Rightarrow> CallerIdentity \<Rightarrow> string \<Rightarrow> string \<Rightarrow> string" where
  "warning_value ty c target why =
     ''type='' @ ty @ ''; actor='' @ ca_agent_id c @ ''; target='' @ target @ ''; reason='' @ why"

definition deny ::
  "ape_env \<Rightarrow> rat \<Rightarrow> string \<Rightarrow> CallerIdentity \<Rightarrow> string \<Rightarrow> string \<Rightarrow> string option \<Rightarrow> event_store
    \<Rightarrow> CheckpointResult \<times> event_store" where
  "deny E now why c target ty task s =
     (if mode (ape_config E) = ''audit''
      then (\<lparr> allowed = True, reason = why, cp_effective_scope = [], recorded_event = True, response_headers = [] \<rparr>,
            record_decision E now ty c target ''allow'' (why @ '' (audit mode)'') task s)
      else if mode (ape_config E) = ''warn''
      then (\<lparr> allowed = True, reason = why, cp_effective_scope = [], recorded_event = True,
              response_headers = [(''X-Security-Warning'', warning_value ty c target why)] \<rparr>,
            record_decision E now ty c target ''allow'' (why @ '' (warn mode)'') task s)
      else (\<lparr> allowed = False, reason = why, cp_effective_scope = [], recorded_event = True, response_headers = [] \<rparr>,
            record_decision E now ty c target ''deny'' why task s))"

definition allow ::
  "ape_env \<Rightarrow> rat \<Rightarrow> CallerIdentity \<Rightarrow> string \<Rightarrow> string \<Rightarrow> string \<Rightarrow> string option \<Rightarrow> event_store
    \<Rightarrow> CheckpointResult \<times> event_store" where
  "allow E now c target scope why task s =
     (\<lparr> allowed = True, reason = why, cp_effective_scope = str_or scope (ca_scope c), recorded_event = True,
        response_headers = [] \<rparr>,
      record_decision E now ''AUTHORIZATION_ALLOWED'' c target ''allow'' why task s)"

section \<open>Lookups\<close>

definition or_none :: "string \<Rightarrow> string option" where
  "or_none t = (if str_true t then Some t else None)"

definition ape_get_agent :: "ape_env \<Rightarrow> rat \<Rightarrow> string \<Rightarrow> string \<Rightarrow> card option" where
  "ape_get_agent E now i ten =
     (case get_agent now i (or_none ten) (ape_registry E) of
        Some c \<Rightarrow> Some c
      | None \<Rightarrow>
          fetchone (filter (\<lambda>a. dict_get a ''name'' (JStr []) = JStr i)
            (list_agents (ape_num E) now None None None (or_none ten) (ape_registry E))))"

definition ape_get_task :: "ape_env \<Rightarrow> string \<Rightarrow> Task option" where
  "ape_get_task E i =
     (case ape_tasks E of None \<Rightarrow> None | Some db \<Rightarrow> map_option task_of (get_task i db))"

text \<open>\<open>card.get("disabled", 0) == 1\<close>\<close>

definition card_disabled :: "card \<Rightarrow> bool" where
  "card_disabled c = (json_num (dict_get c ''disabled'' (JInt 0)) = Some 1)"

definition card_tenant_of :: "card \<Rightarrow> string" where
  "card_tenant_of c =
     str_or (the_default [] (json_str_opt (dict_get c ''tenant_id'' (JStr []))))
            (the_default [] (json_str_opt (dict_get c ''tenant'' (JStr []))))"

text \<open>First with the caller's tenant, then without a tenant filter.\<close>

definition assignee_card :: "ape_env \<Rightarrow> rat \<Rightarrow> CallerIdentity \<Rightarrow> string \<Rightarrow> card option" where
  "assignee_card E now c a =
     (case ape_get_agent E now a (ca_tenant c) of Some k \<Rightarrow> Some k | None \<Rightarrow> ape_get_agent E now a [])"

section \<open>The authorization matrix\<close>

definition row_covers :: "string list \<Rightarrow> json \<Rightarrow> bool" where
  "row_covers scopes acts = (''*'' \<in> set (str_items acts) \<or> list_ex (\<lambda>s. s \<in> set (str_items acts)) scopes)"

text \<open>The message of a violation, \<open>None\<close> when the call is allowed.\<close>

definition check_agent_authz :: "ape_env \<Rightarrow> rat \<Rightarrow> string \<Rightarrow> string \<Rightarrow> string list \<Rightarrow> string option" where
  "check_agent_authz E now source target scopes =
     (if delegation_policy (ape_config E) = ''open'' then None
      else if \<not> ape_execute E
      then Some (''authorization check failed: '' @ quoted ''Store'' @ '' object has no attribute '' @ quoted ''execute'')
      else
        (case fetchone (filter (\<lambda>r. az_source r = source \<and> az_target r = target) (authorizations (ape_registry E))) of
           None \<Rightarrow> Some ''no authorization record found (restricted policy)''
         | Some r \<Rightarrow>
             if az_expires_at r \<noteq> None \<and> the_default 0 (az_expires_at r) \<noteq> 0 \<and> the_default 0 (az_expires_at r) < now
             then Some ''authorization record has expired''
             else if row_covers scopes (az_actions r) then None
             else Some (''no allowed action covers token scopes '' @ ape_set_repr E scopes)))"

section \<open>Plugins\<close>

definition fire_authz_hooks :: "AuthzDecision option list \<Rightarrow> AuthzDecision list" where
  "fire_authz_hooks ps = concat (map (\<lambda>p. case p of None \<Rightarrow> [] | Some d \<Rightarrow> [d]) ps)"

text \<open>The first decision that settles the question: an accepting one ends the loop of the creation.\<close>

fun create_verdict :: "AuthzDecision list \<Rightarrow> AuthzDecision option" where
  "create_verdict [] = None"
| "create_verdict (d # ds) =
     (case outcome d of REJECT \<Rightarrow> Some d | ACCEPT \<Rightarrow> None | DEFER \<Rightarrow> create_verdict ds)"

fun claim_verdict :: "AuthzDecision list \<Rightarrow> AuthzDecision option" where
  "claim_verdict [] = None"
| "claim_verdict (d # ds) = (if outcome d = REJECT then Some d else claim_verdict ds)"

definition plugin_decisions :: "ape_env \<Rightarrow> AuthzDecision list" where
  "plugin_decisions E = (case ape_plugins E of None \<Rightarrow> [] | Some ps \<Rightarrow> fire_authz_hooks ps)"

section \<open>Creating a task\<close>

definition is_human :: "CallerIdentity \<Rightarrow> bool" where
  "is_human c = py_startswith (ca_agent_id c) ''user:''"

text \<open>A check that fails gives the reason and the type of the event.\<close>

type_synonym violation = "(string \<times> string) option"

definition caller_violation :: "ape_env \<Rightarrow> rat \<Rightarrow> CallerIdentity \<Rightarrow> violation" where
  "caller_violation E now c =
     (if \<not> str_true (ca_agent_id c) then Some (''caller identity is empty'', ''AUTHORIZATION_DENIED'')
      else if ca_agent_id c = ''anonymous'' then Some (''anonymous caller not allowed'', ''AUTHORIZATION_DENIED'')
      else if is_human c then None
      else
        (case ape_get_agent E now (ca_agent_id c) (ca_tenant c) of
           None \<Rightarrow> Some (''caller '' @ quoted (ca_agent_id c) @ '' not registered'', ''AGENT_NOT_FOUND'')
         | Some k \<Rightarrow>
             if card_disabled k
             then Some (''caller '' @ quoted (ca_agent_id c) @ '' is disabled'', ''AGENT_DISABLED'') else None))"

definition assignee_violation :: "ape_env \<Rightarrow> rat \<Rightarrow> CallerIdentity \<Rightarrow> string \<Rightarrow> violation" where
  "assignee_violation E now c a =
     (if \<not> str_true a then None
      else
        (case assignee_card E now c a of
           None \<Rightarrow> Some (''assignee '' @ quoted a @ '' not found'', ''AGENT_NOT_FOUND'')
         | Some k \<Rightarrow>
             if card_disabled k then Some (''assignee '' @ quoted a @ '' is disabled'', ''AGENT_DISABLED'') else None))"

definition scope_violation :: "CallerIdentity \<Rightarrow> violation" where
  "scope_violation c =
     (if ''task:write'' \<notin> set (py_split (ca_scope c)) \<and> ''registry:admin'' \<notin> set (py_split (ca_scope c))
      then Some (''insufficient scope: task:write required'', ''SCOPE_DENIED'') else None)"

definition tenant_violation :: "ape_env \<Rightarrow> rat \<Rightarrow> CallerIdentity \<Rightarrow> string \<Rightarrow> violation" where
  "tenant_violation E now c a =
     (if is_human c \<or> \<not> str_true (ca_tenant c) \<or> \<not> str_true a then None
      else
        (case assignee_card E now c a of
           None \<Rightarrow> None
         | Some k \<Rightarrow>
             if k \<noteq> [] \<and> str_true (card_tenant_of k) \<and> ca_tenant c \<noteq> card_tenant_of k
             then Some (''tenant mismatch: caller='' @ quoted (ca_tenant c) @ '', assignee='' @ quoted (card_tenant_of k),
                        ''TENANT_MISMATCH'')
             else None))"

definition depth_violation :: "ape_env \<Rightarrow> string option \<Rightarrow> violation" where
  "depth_violation E parent =
     (if \<not> opt_true parent then None
      else
        (case ape_get_task E (opt_or parent []) of
           None \<Rightarrow> None
         | Some t \<Rightarrow>
             (let d = the_default 0 (delegation_depth t) in
              if max_delegation_depth (ape_config E) \<le> d
              then Some (''delegation depth exceeded: '' @ str_int d @ '' >= '' @
                           str_int (max_delegation_depth (ape_config E)), ''DELEGATION_DEPTH_EXCEEDED'')
              else None)))"

definition authz_violation :: "ape_env \<Rightarrow> rat \<Rightarrow> CallerIdentity \<Rightarrow> string \<Rightarrow> violation" where
  "authz_violation E now c a =
     (if is_human c \<or> \<not> str_true a \<or> ca_agent_id c = a then None
      else map_option (\<lambda>why. (why, ''AUTHORIZATION_DENIED''))
             (check_agent_authz E now (ca_agent_id c) a (remdups (py_split (ca_scope c)))))"

definition plugin_violation :: "AuthzDecision option \<Rightarrow> string \<Rightarrow> violation" where
  "plugin_violation verdict dflt = map_option (\<lambda>d. (str_or (decision_reason d) dflt, ''PLUGIN_REJECT'')) verdict"

text \<open>The checks run in this order and the first violation decides.\<close>

fun first_some :: "'a option list \<Rightarrow> 'a option" where
  "first_some [] = None"
| "first_some (Some x # xs) = Some x"
| "first_some (None # xs) = first_some xs"

definition create_violation :: "ape_env \<Rightarrow> rat \<Rightarrow> CallerIdentity \<Rightarrow> string \<Rightarrow> string option \<Rightarrow> violation" where
  "create_violation E now c a parent =
     first_some [caller_violation E now c, assignee_violation E now c a, scope_violation c,
       tenant_violation E now c a, depth_violation E parent, authz_violation E now c a,
       plugin_violation (create_verdict (plugin_decisions E)) ''plugin rejected task creation'']"

definition check_task_create ::
  "ape_env \<Rightarrow> rat \<Rightarrow> CallerIdentity \<Rightarrow> string \<Rightarrow> string option \<Rightarrow> event_store \<Rightarrow> CheckpointResult \<times> event_store" where
  "check_task_create E now c a parent s =
     (case create_violation E now c a parent of
        Some (why, ty) \<Rightarrow> deny E now why c a ty None s
      | None \<Rightarrow> allow E now c a (ca_scope c) ''all checks passed'' None s)"

text \<open>The same for an assignee that is \<open>null\<close>: the checks treat it like no assignee, the warning calls it
  \<open>None\<close>, and the event is published (its target is written as the empty text here) but its row is
  not there, because the column \<open>target\<close> is \<open>NOT NULL\<close> and the insertion ignores conflicts.\<close>

definition check_null_assignee ::
  "ape_env \<Rightarrow> rat \<Rightarrow> CallerIdentity \<Rightarrow> string option \<Rightarrow> event_store \<Rightarrow> CheckpointResult \<times> event_store" where
  "check_null_assignee E now c parent s =
     (case check_task_create E now c [] parent s of
        (r, s') \<Rightarrow>
          (r\<lparr>response_headers :=
              (case create_violation E now c [] parent of
                 None \<Rightarrow> response_headers r
               | Some (why, ty) \<Rightarrow> map (\<lambda>(k, _). (k, warning_value ty c ''None'' why)) (response_headers r))\<rparr>,
           s'\<lparr>se_rows := se_rows s\<rparr>))"

section \<open>Claiming a task\<close>

text \<open>\<open>str(e)\<close> for the errors of the token manager.\<close>

definition dtm_error_text :: "ape_env \<Rightarrow> dtm_error \<Rightarrow> string" where
  "dtm_error_text E e =
     (case e of
        TokenMalformed \<Rightarrow> ''Invalid or malformed delegation token''
      | TokenNotFound j \<Rightarrow> ''Delegation token jti='' @ quoted j @ '' not found''
      | TokenExpired q \<Rightarrow> ''Delegation token expired (exp='' @ ape_fmt E q @ '')''
      | TokenTaskMismatch b x \<Rightarrow> ''Token bound to task '' @ quoted b @ '', expected '' @ quoted x
      | TokenSubjectMismatch b x \<Rightarrow> ''Token sub='' @ quoted b @ '', claiming agent='' @ quoted x
      | TokenReplay j \<Rightarrow> ''Delegation token jti='' @ quoted j @ '' already used''
      | UntypedToken \<Rightarrow> [])"

definition opt_str :: "string option \<Rightarrow> string" where
  "opt_str x = (case x of None \<Rightarrow> ''None'' | Some s \<Rightarrow> s)"

text \<open>The token step of a claim: a violation, or the events with what the open mode records.\<close>

definition claim_token ::
  "ape_env \<Rightarrow> rat \<Rightarrow> CallerIdentity \<Rightarrow> string \<Rightarrow> string option \<Rightarrow> token_table \<Rightarrow> event_store
    \<Rightarrow> (string \<times> string) + event_store" where
  "claim_token E now c task token tab s =
     (if opt_true token
      then (case fst (verify_delegation_token (ape_dtm E) now (opt_or token []) task (ca_agent_id c) False tab) of
              Inl e \<Rightarrow> Inl (dtm_error_text E e, ''AUTHORIZATION_DENIED'')
            | Inr t \<Rightarrow> Inr s)
      else if delegation_policy (ape_config E) = ''restricted''
      then Inl (''delegation token required but not provided'', ''SECURITY_VIOLATION'')
      else Inr (record_decision E now (event_type_value SECURITY_VIOLATION) c task ''allow''
                  ''delegation token not provided (open mode)'' (Some task) s))"

definition check_task_claim ::
  "ape_env \<Rightarrow> rat \<Rightarrow> CallerIdentity \<Rightarrow> string \<Rightarrow> string option \<Rightarrow> token_table \<Rightarrow> event_store
    \<Rightarrow> CheckpointResult \<times> event_store" where
  "check_task_claim E now c i token tab s =
     (case ape_get_task E i of
        None \<Rightarrow> deny E now ''task not found'' c i ''AUTHORIZATION_DENIED'' (Some i) s
      | Some t \<Rightarrow>
          if Some (ca_agent_id c) \<noteq> assignee t
          then deny E now (''caller '' @ quoted (ca_agent_id c) @ '' is not the assignee '' @ quoted (opt_str (assignee t)))
                 c i ''AUTHORIZATION_DENIED'' (Some i) s
          else
            (case claim_token E now c i token tab s of
               Inl (why, ty) \<Rightarrow> deny E now why c i ty (Some i) s
             | Inr s1 \<Rightarrow>
                 (case plugin_violation (claim_verdict (plugin_decisions E)) ''plugin rejected task claim'' of
                    Some (why, ty) \<Rightarrow> deny E now why c i ty (Some i) s1
                  | None \<Rightarrow> allow E now c i [] ''claim allowed'' (Some i) s1)))"

section \<open>Completing a task\<close>

definition check_task_complete ::
  "ape_env \<Rightarrow> rat \<Rightarrow> CallerIdentity \<Rightarrow> string \<Rightarrow> string option \<Rightarrow> event_store \<Rightarrow> CheckpointResult \<times> event_store" where
  "check_task_complete E now c i lock s =
     (case ape_get_task E i of
        None \<Rightarrow> deny E now ''task not found'' c i ''AUTHORIZATION_DENIED'' (Some i) s
      | Some t \<Rightarrow>
          if opt_true (claim_lock t) \<and> opt_true lock \<and> claim_lock t \<noteq> lock
          then deny E now ''claim_lock mismatch: caller's lock does not match'' c i ''AUTHORIZATION_DENIED'' (Some i) s
          else allow E now c i [] ''complete allowed'' (Some i) s)"

end
