(* ===== verification/DtmProps.thy ===== *)
theory DtmProps
  imports Dtm
begin

text \<open>
  Properties of delegation tokens: attenuation never widens a scope, a minted token survives its
  signed form, verification accepts only a live token of the right task and agent, and a token of
  the table that was consumed is never accepted again.
\<close>

section \<open>Splitting a joined scope\<close>

definition word :: "string \<Rightarrow> bool" where
  "word w = (w \<noteq> [] \<and> (\<forall>c \<in> set w. \<not> py_isspace c))"

lemma py_split_Nil [simp]: "py_split [] = []"
  by (simp add: py_split.simps)

lemma py_isspace_blank: "py_isspace (CHR '' '')"
  by (simp add: py_isspace_def)

lemma word_parts:
  assumes "word w"
  shows "dropWhile py_isspace (w @ s) = w @ s"
    "takeWhile (\<lambda>c. \<not> py_isspace c) w = w" "dropWhile (\<lambda>c. \<not> py_isspace c) w = []"
    "takeWhile (\<lambda>c. \<not> py_isspace c) (w @ CHR '' '' # s) = w"
    "dropWhile (\<lambda>c. \<not> py_isspace c) (w @ CHR '' '' # s) = CHR '' '' # s"
  using assms py_isspace_blank by (cases w; auto simp: word_def takeWhile_append2 dropWhile_append2)+

lemma py_split_blank: "py_split (CHR '' '' # s) = py_split s"
  by (subst (1 2) py_split.simps) (simp add: py_isspace_blank)

lemma py_split_word_blank:
  assumes "word w"
  shows "py_split (w @ CHR '' '' # s) = w # py_split s"
  using assms word_parts [OF assms] by (subst py_split.simps) (auto simp: Let_def word_def py_split_blank)

lemma py_split_word:
  assumes "word w"
  shows "py_split w = [w]"
  using assms word_parts(1) [OF assms, of "[]"] word_parts(2,3) [OF assms]
  by (subst py_split.simps) (simp add: Let_def word_def del: dropWhile_eq_Nil_conv)

lemma py_split_join:
  assumes "\<forall>w \<in> set ws. word w"
  shows "py_split (py_join '' '' ws) = ws"
  using assms by (induction "'' ''" ws rule: py_join.induct) (auto simp: py_split_word py_split_word_blank)

lemma py_split_words: "\<forall>w \<in> set (py_split s). word w"
proof (induction s rule: py_split.induct)
  case (1 s)
  let ?t = "dropWhile py_isspace s"
  show ?case
  proof (cases "?t = []")
    case True
    then show ?thesis by (subst py_split.simps) (simp add: Let_def)
  next
    case False
    then have "\<not> py_isspace (hd ?t)"
      by (metis hd_dropWhile)
    with False have "word (takeWhile (\<lambda>c. \<not> py_isspace c) ?t)"
      unfolding word_def by (cases ?t) (auto dest: set_takeWhileD)
    then show ?thesis
      using False 1 [OF refl False] by (subst py_split.simps) (auto simp: Let_def)
  qed
qed

section \<open>Attenuation\<close>

lemma restricted_subset: "restricted r parent \<subseteq> parent"
  by (cases r) (auto simp: map_scope_def split: option.splits)

lemma attenuate_scope_restricted:
  "case attenuate_scope parent r of
     None \<Rightarrow> restricted r (set (py_split parent)) = {}
   | Some s \<Rightarrow> set (py_split s) = restricted r (set (py_split parent))"
proof (cases "r = NoRestriction")
  case True
  then show ?thesis by (simp add: attenuate_scope_def)
next
  case False
  let ?R = "restricted r (set (py_split parent))"
  have fin: "finite ?R"
    by (rule finite_subset [OF restricted_subset]) simp
  have words: "\<forall>w \<in> set (sorted_list_of_set ?R). word w"
    using fin restricted_subset py_split_words by fastforce
  have "py_split (py_join '' '' (sorted_list_of_set ?R)) = sorted_list_of_set ?R"
    by (rule py_split_join [OF words])
  moreover have "?R = {}" if "py_join '' '' (sorted_list_of_set ?R) = []"
  proof -
    from that calculation have "sorted_list_of_set ?R = []" by simp
    then show ?thesis using fin by simp
  qed
  ultimately show ?thesis
    using False fin by (auto simp: attenuate_scope_def Let_def)
qed

lemma attenuate_scope_subset: "attenuate_scope parent r = Some s \<Longrightarrow> set (py_split s) \<subseteq> set (py_split parent)"
  using attenuate_scope_restricted [of r parent] restricted_subset by fastforce

text \<open>Attenuation never widens a scope: what is left is part of the parent scope and is exactly what
  the restriction allows, and only a restriction that leaves nothing is rejected.\<close>

theorem attenuation_shrinks:
  "case attenuate_scope parent r of
     None \<Rightarrow> restricted r (set (py_split parent)) = {}
   | Some s \<Rightarrow> set (py_split s) \<subseteq> set (py_split parent) \<and>
       set (py_split s) = restricted r (set (py_split parent))"
  using attenuate_scope_restricted [of r parent] attenuate_scope_subset
  by (auto split: option.splits)

section \<open>Signed form\<close>

definition times_of :: "DelegatedTaskToken \<Rightarrow> rat set" where
  "times_of t = {iat t, exp_at t} \<union> hop_timestamp ` set (delegation_chain t)"

lemma all_some_map: "(\<And>x. x \<in> set xs \<Longrightarrow> f x = Some (g x)) \<Longrightarrow> all_some (map f xs) = Some (map g xs)"
  by (induction xs) auto

lemma hop_of_json: "json_num (num (hop_timestamp h)) = Some (hop_timestamp h) \<Longrightarrow> hop_of (hop_json num h) = Some h"
  by (simp add: hop_of_def hop_json_def)

lemma chain_of_json:
  assumes "\<forall>q \<in> hop_timestamp ` set hs. json_num (num q) = Some q"
  shows "chain_of (JList (map (hop_json num) hs)) = Some hs"
  using assms all_some_map [of hs "\<lambda>h. hop_of (hop_json num h)" id]
  by (simp add: chain_of_def comp_def hop_of_json)

lemma callees_of_json: "callees_of (callees_json c) = Some c"
  using all_some_map [of _ "\<lambda>s. Some s" id] by (cases c) (auto simp: callees_of_def callees_json_def comp_def)

lemma token_of_payload:
  assumes "\<forall>q \<in> times_of t. json_num (num q) = Some q"
  shows "token_of_claims (to_jwt_payload num t) = Some t"
  using assms
  by (simp add: token_of_claims_def to_jwt_payload_def Let_def times_of_def chain_of_json callees_of_json
    json_int_opt_def)

lemma payload_claims:
  assumes "\<forall>q \<in> times_of t. json_num (num q) = Some q" "now \<le> exp_at t" "iss t = ISSUER"
  shows "claims_ok now None ISSUER (to_jwt_payload num t)"
    "past_expiry now (dict_get (to_jwt_payload num t) ''exp'' (JInt 0)) \<noteq> Some True"
  using assms by (auto simp: claims_ok_def past_expiry_def to_jwt_payload_def times_of_def)

lemma early_expiry_sign:
  assumes "segment_ok L jwt_header" "segment_ok L (JObj pl)"
    and "signature_ok L priv pub (b64json L jwt_header @ ''.'' @ b64json L (JObj pl))"
    and "past_expiry now (dict_get pl ''exp'' (JInt 0)) \<noteq> Some True"
  shows "early_expiry L now (rsa_sign_jwt L pl priv) = None"
  using assms
  by (simp add: early_expiry_def rsa_sign_jwt_def Let_def segment_ok_def signature_ok_def
    py_split_on_append py_split_on_none)

lemma from_to_jwt:
  assumes "segment_ok L jwt_header" "segment_ok L (JObj (to_jwt_payload num t))"
    and "\<forall>m. signature_ok L priv pub m" and "\<forall>q \<in> times_of t. json_num (num q) = Some q"
    and "now \<le> exp_at t" "iss t = ISSUER"
  shows "from_jwt L now (to_jwt L num t priv) pub = Inr t"
  using assms payload_claims [OF assms(4-6)] early_expiry_sign [OF assms(1,2) assms(3) [rule_format]]
  by (simp add: from_jwt_def to_jwt_def rsa_verify_sign_jwt token_of_payload)

lemma mint_fields:
  assumes "mint_delegation_token M now uuid s task oa ot scope pc ps r dep md ttl callees = Some t"
  shows "jti t = uuid" "iss t = ISSUER" "sub t = s" "token_task_id t = task" "iat t = now"
    "exp_at t = now + the_default (dtm_default_ttl M) ttl" "attenuate_scope scope r = Some (effective_scope t)"
  using assms by (auto simp: mint_delegation_token_def)

lemma dot_in_to_jwt: "CHR ''.'' \<in> set (to_jwt L num t key)"
  by (simp add: to_jwt_def rsa_sign_jwt_def Let_def)

text \<open>A delegation token that was minted and signed is accepted for its task from its assignee (from any
  agent, when it was minted for nobody) until it expires, with every field as it was minted and a
  scope within the one it was minted from, as long as no row of the table marks it as used.\<close>

theorem minted_token_verifies:
  assumes "mint_delegation_token M now uuid s task oa ot scope pc ps r dep md ttl callees = Some t"
    and "segment_ok (dtm_lib M) jwt_header" "segment_ok (dtm_lib M) (JObj (to_jwt_payload num t))"
    and "\<forall>m. signature_ok (dtm_lib M) priv (dtm_public_key M) m" "\<forall>q \<in> times_of t. json_num (num q) = Some q"
    and "later \<le> now + the_default (dtm_default_ttl M) ttl" "s = [] \<or> agent = s"
    and "filter (\<lambda>r. dt_jti r = uuid \<and> dt_used_at r \<noteq> None) tab = []"
  shows "fst (verify_delegation_token M later (to_jwt (dtm_lib M) num t priv) task agent consume tab) = Inr t \<and>
    set (py_split (effective_scope t)) \<subseteq> set (py_split scope)"
proof -
  note minted = mint_fields [OF assms(1)]
  have "set (py_split (effective_scope t)) \<subseteq> set (py_split scope)"
    by (rule attenuate_scope_subset) (rule minted(7))
  moreover have "from_jwt (dtm_lib M) later (to_jwt (dtm_lib M) num t priv) (dtm_public_key M) = Inr t"
    by (rule from_to_jwt) (use assms minted in simp_all)
  moreover have "token_error later task agent t = None"
    using assms(6,7) minted by (auto simp: token_error_def)
  ultimately show ?thesis
    using assms(8) minted(1) dot_in_to_jwt by (simp add: verify_delegation_token_def verify_jwt_def)
qed

section \<open>Acceptance\<close>

lemma row_error_None_iff:
  "row_error now task agent r = None \<longleftrightarrow>
     now \<le> rat_of_int (dt_expires_at r) \<and> dt_task_id r = task \<and> (dt_sub r = [] \<or> dt_sub r = agent) \<and>
     dt_used_at r = None"
  by (auto simp: row_error_def)

lemma token_error_None_iff:
  "token_error now task agent t = None \<longleftrightarrow>
     now \<le> exp_at t \<and> token_task_id t = task \<and> (sub t = [] \<or> sub t = agent)"
  by (auto simp: token_error_def)

lemma from_jwt_InrD:
  assumes "from_jwt L now token key = Inr t"
  obtains d where "rsa_verify_jwt L now token key None ISSUER = Some d" "token_of_claims d = Some t"
  using assms by (auto simp: from_jwt_def split: option.splits)

text \<open>The claims of a token do not depend on when it is read.\<close>

lemma rsa_verify_jwt_same:
  assumes "rsa_verify_jwt L now token key a i = Some d" "rsa_verify_jwt L now' token key a' i' = Some d'"
  shows "d' = d"
  using assms by (simp add: rsa_verify_jwt_def split: list.splits option.splits json.splits if_splits)

lemma from_jwt_same:
  assumes "from_jwt L now token key = Inr t" "from_jwt L now' token key = Inr t'"
  shows "t' = t"
  using assms by (metis from_jwt_InrD option.inject rsa_verify_jwt_same)

definition recorded_ok :: "rat \<Rightarrow> string \<Rightarrow> string \<Rightarrow> string \<Rightarrow> token_table \<Rightarrow> bool" where
  "recorded_ok now i task agent tab =
     (case row_by dt_jti i tab of
        None \<Rightarrow> False
      | Some r \<Rightarrow> now \<le> rat_of_int (dt_expires_at r) \<and> dt_task_id r = task \<and>
          (dt_sub r = [] \<or> dt_sub r = agent) \<and> dt_used_at r = None)"

definition signed_ok :: "dtm \<Rightarrow> rat \<Rightarrow> string \<Rightarrow> string \<Rightarrow> string \<Rightarrow> DelegatedTaskToken \<Rightarrow> token_table \<Rightarrow> bool" where
  "signed_ok M now token task agent t tab =
     (from_jwt (dtm_lib M) now token (dtm_public_key M) = Inr t \<and> now \<le> exp_at t \<and> token_task_id t = task \<and>
      (sub t = [] \<or> sub t = agent) \<and> list_all (\<lambda>r. dt_jti r = jti t \<longrightarrow> dt_used_at r = None) tab)"

lemma verify_by_id_Inr_iff:
  "verify_by_id now i task agent consume tab = (Inr t, tab') \<longleftrightarrow>
     recorded_ok now i task agent tab \<and>
     t = DelegatedTaskToken_default\<lparr>jti := i, sub := agent, token_task_id := task\<rparr> \<and>
     tab' = (if consume then mark_used now i tab else tab)"
proof (cases "row_by dt_jti i tab")
  case None
  then show ?thesis by (simp add: verify_by_id_def recorded_ok_def)
next
  case (Some r)
  then have "dt_jti r = i" by (rule row_by_key)
  then show ?thesis
    using Some row_error_None_iff [of now task agent r]
    by (auto simp: verify_by_id_def recorded_ok_def split: option.splits)
qed

lemma verify_jwt_Inr_iff:
  "verify_jwt M now token task agent consume tab = (Inr t, tab') \<longleftrightarrow>
     signed_ok M now token task agent t tab \<and>
     tab' = (if consume then mark_used now (jti t) tab else tab)"
proof (cases "from_jwt (dtm_lib M) now token (dtm_public_key M)")
  case (Inl e)
  then show ?thesis by (simp add: verify_jwt_def signed_ok_def)
next
  case (Inr u)
  then show ?thesis
    using token_error_None_iff [of now task agent u]
    by (auto simp: verify_jwt_def signed_ok_def list_all_iff filter_empty_conv split: option.splits if_splits)
qed

text \<open>A delegation token is accepted exactly when it is live, bound to the task, bound to the agent or to
  nobody, and not marked as used, where these are read from the table for a bare token id and from
  the verified claims for a signed token; accepting it marks it as used only on request.\<close>

theorem delegation_token_accepted_iff:
  "verify_delegation_token M now token task agent consume tab = (Inr t, tab') \<longleftrightarrow>
     (if CHR ''.'' \<notin> set token
      then recorded_ok now token task agent tab \<and>
        t = DelegatedTaskToken_default\<lparr>jti := token, sub := agent, token_task_id := task\<rparr>
      else signed_ok M now token task agent t tab) \<and>
     tab' = (if consume then mark_used now (jti t) tab else tab)"
  by (auto simp: verify_delegation_token_def verify_by_id_Inr_iff verify_jwt_Inr_iff)

section \<open>Consumption\<close>

lemma row_by_mark_used:
  "row_by dt_jti i (mark_used now i' tab) =
     map_option (\<lambda>r. if dt_jti r = i' \<and> dt_used_at r = None then r\<lparr>dt_used_at := Some now\<rparr> else r) (row_by dt_jti i tab)"
  unfolding mark_used_def by (rule row_by_sql_update) simp

text \<open>The calls that write the table; a call that raises leaves it as it is.\<close>

datatype token_call =
    PersistToken "string \<Rightarrow> bool" rat DelegatedTaskToken
  | VerifyToken rat string string string bool

definition exec_token :: "dtm \<Rightarrow> token_call \<Rightarrow> token_table \<Rightarrow> token_table" where
  "exec_token M c tab =
     (case c of
        PersistToken exists now t \<Rightarrow> the_default tab (persist_token exists now t tab)
      | VerifyToken now token task agent consume \<Rightarrow> snd (verify_delegation_token M now token task agent consume tab))"

definition used_up :: "string \<Rightarrow> token_table \<Rightarrow> bool" where
  "used_up i tab = (case row_by dt_jti i tab of None \<Rightarrow> False | Some r \<Rightarrow> dt_used_at r \<noteq> None)"

lemma used_up_mark: "used_up i tab \<Longrightarrow> used_up i (mark_used now i' tab)"
  by (auto simp: used_up_def row_by_mark_used split: option.splits)

lemma mark_used_up: "row_by dt_jti i tab \<noteq> None \<Longrightarrow> used_up i (mark_used now i tab)"
  by (auto simp: used_up_def row_by_mark_used split: option.splits dest: row_by_key)

lemma used_up_persist: "used_up i tab \<Longrightarrow> persist_token ex now t tab = Some tab' \<Longrightarrow> used_up i tab'"
  by (auto simp: used_up_def persist_token_def row_by_append split: option.splits if_splits)

lemma used_up_verify: "used_up i tab \<Longrightarrow> used_up i (snd (verify_delegation_token M now token task agent consume tab))"
  by (auto simp: verify_delegation_token_def verify_by_id_def verify_jwt_def used_up_mark split: option.split sum.split)

lemma used_up_exec: "used_up i tab \<Longrightarrow> used_up i (exec_token M c tab)"
  by (auto simp: exec_token_def used_up_verify the_default_def split: token_call.split option.split dest: used_up_persist)

text \<open>A text denotes a token: it is its id, or a signed token with that id.\<close>

definition denotes :: "dtm \<Rightarrow> rat \<Rightarrow> string \<Rightarrow> string \<Rightarrow> bool" where
  "denotes M now token i =
     (if CHR ''.'' \<notin> set token then token = i
      else (case from_jwt (dtm_lib M) now token (dtm_public_key M) of Inl e \<Rightarrow> False | Inr t \<Rightarrow> jti t = i))"

lemma used_up_rejected:
  assumes "used_up i tab" "denotes M now token i"
  shows "fst (verify_delegation_token M now token task agent consume tab) \<noteq> Inr t"
proof
  assume "fst (verify_delegation_token M now token task agent consume tab) = Inr t"
  then obtain tab' where "verify_delegation_token M now token task agent consume tab = (Inr t, tab')"
    by (metis prod.collapse)
  then have acc: "if CHR ''.'' \<notin> set token then recorded_ok now token task agent tab else signed_ok M now token task agent t tab"
    by (auto simp: verify_delegation_token_def verify_by_id_Inr_iff verify_jwt_Inr_iff split: if_splits)
  from assms(1) obtain r where r: "row_by dt_jti i tab = Some r" "dt_used_at r \<noteq> None"
    by (auto simp: used_up_def split: option.splits)
  note row_by_mem [OF r(1)] row_by_key [OF r(1)]
  with acc assms(2) r show False
    by (auto simp: denotes_def recorded_ok_def signed_ok_def list_all_iff split: if_splits)
qed

text \<open>C14: A recorded token that was accepted and consumed, by its id or in signed form, is rejected ever after,
  whatever is done to the table meanwhile: by its id and in every signed form that carries the id, at
  any time, for any task and any agent.\<close>

theorem consumed_token_rejected:
  assumes "verify_delegation_token M now token task agent True tab = (Inr t, tab')"
    and "row_by dt_jti (jti t) tab \<noteq> None"
    and "denotes M now' token' (jti t)"
  shows "fst (verify_delegation_token M now' token' task' agent' consume (fold (exec_token M) cs tab')) \<noteq> Inr t'"
proof -
  have "tab' = mark_used now (jti t) tab"
    using assms(1) by (auto simp: verify_delegation_token_def verify_by_id_Inr_iff verify_jwt_Inr_iff split: if_splits)
  then have "used_up (jti t) tab'" using mark_used_up [OF assms(2)] by simp
  then have "used_up (jti t) (fold (exec_token M) cs tab')"
    by (rule fold_invariant) (simp add: used_up_exec)
  then show ?thesis by (rule used_up_rejected [OF _ assms(3)])
qed

text \<open>A signed token that was never written to the table is not protected: consuming it changes nothing.\<close>

lemma unrecorded_token_replays:
  assumes "row_by dt_jti (jti t) tab = None" "CHR ''.'' \<in> set token"
    and "verify_delegation_token M now token task agent True tab = (Inr t, tab')"
  shows "verify_delegation_token M now token task agent True tab' = (Inr t, tab')"
proof -
  have "mark_used now (jti t) tab = tab"
    using assms(1) by (force simp: mark_used_def sql_update_def row_by_None_iff intro!: map_idI)
  then show ?thesis
    using assms(2,3) by (simp add: verify_delegation_token_def verify_jwt_Inr_iff)
qed

section \<open>A token at work\<close>

definition demo_token :: DelegatedTaskToken where
  "demo_token =
     \<lparr> jti = ''u1'', iss = ISSUER, sub = ''bob'', iat = 100, exp_at = 400, origin_agent = ''ann'', origin_tenant = [],
       delegation_chain = [\<lparr> hop_agent = ''bob'', hop_action = ''delegate'', hop_scope = ''task:read task:write'',
         hop_timestamp = 100 \<rparr>],
       effective_scope = ''task:read'', attenuated_from = ''task:read task:write'', token_max_depth = 10, depth = 1,
       allowed_callees = None, token_task_id = ''t1'' \<rparr>"

definition int_num :: "rat \<Rightarrow> json" where
  "int_num q = JInt \<lfloor>q\<rfloor>"

definition demo_dtm :: dtm where
  "demo_dtm = \<lparr> dtm_lib = demo_lib (JObj (to_jwt_payload int_num demo_token)), dtm_public_key = ''k'',
                dtm_default_ttl = 300, dtm_max_depth = 10 \<rparr>"

definition demo_table :: token_table where
  "demo_table = [\<lparr> dt_jti = ''u1'', dt_task_id = ''t1'', dt_sub = ''bob'', dt_origin_agent = ''ann'', dt_scope = ''task:read'',
                   dt_depth = 1, dt_expires_at = 400, dt_used_at = None, dt_created_at = 100 \<rparr>]"

lemma demo_laws:
  "segment_ok (dtm_lib demo_dtm) jwt_header"
  "segment_ok (dtm_lib demo_dtm) (JObj (to_jwt_payload int_num demo_token))"
  "\<forall>m. signature_ok (dtm_lib demo_dtm) ''k'' (dtm_public_key demo_dtm) m"
proof -
  have "JObj (to_jwt_payload int_num demo_token) \<noteq> jwt_header"
    by (simp add: to_jwt_payload_def jwt_header_def)
  then show "segment_ok (dtm_lib demo_dtm) jwt_header"
    "segment_ok (dtm_lib demo_dtm) (JObj (to_jwt_payload int_num demo_token))"
    "\<forall>m. signature_ok (dtm_lib demo_dtm) ''k'' (dtm_public_key demo_dtm) m"
    by (simp_all add: demo_dtm_def)
qed

lemma demo_times: "\<forall>q \<in> times_of demo_token. json_num (int_num q) = Some q"
  by (simp add: times_of_def demo_token_def int_num_def)

lemma demo_split: "py_split ''task:read task:write'' = [''task:read'', ''task:write'']"
  using py_split_join [of "[''task:read'', ''task:write'']"] by (simp add: word_def py_isspace_def Let_def)

lemma demo_mint:
  "mint_delegation_token demo_dtm 100 ''u1'' ''bob'' ''t1'' ''ann'' [] ''task:read task:write'' [] []
     (ReduceTo [''task:read'']) 1 None None None = Some demo_token"
  by (simp add: mint_delegation_token_def attenuate_scope_def demo_split demo_dtm_def demo_token_def
    str_or_def Int_insert_left)

theorem minted_token_verifies_witness:
  "fst (verify_delegation_token demo_dtm 350 (to_jwt (dtm_lib demo_dtm) int_num demo_token ''k'') ''t1'' ''bob'' False
     demo_table) = Inr demo_token"
proof -
  have "filter (\<lambda>r. dt_jti r = ''u1'' \<and> dt_used_at r \<noteq> None) demo_table = []"
    by (simp add: demo_table_def)
  moreover have "350 \<le> 100 + the_default (dtm_default_ttl demo_dtm) None"
    by (simp add: demo_dtm_def)
  ultimately show ?thesis
    using minted_token_verifies [OF demo_mint demo_laws demo_times, of 350 "''bob''" demo_table False] by simp
qed

lemma demo_accepted:
  "verify_delegation_token demo_dtm 200 ''u1'' ''t1'' ''bob'' True demo_table =
     (Inr (DelegatedTaskToken_default\<lparr>jti := ''u1'', sub := ''bob'', token_task_id := ''t1''\<rparr>),
      mark_used 200 ''u1'' demo_table)"
  by (simp add: verify_delegation_token_def verify_by_id_Inr_iff recorded_ok_def demo_table_def row_by_Cons)

theorem consumed_token_rejected_witness:
  "fst (verify_delegation_token demo_dtm 350 (to_jwt (dtm_lib demo_dtm) int_num demo_token ''k'') ''t1'' ''bob'' False
     (exec_token demo_dtm (PersistToken (\<lambda>_. True) 300 demo_token) (mark_used 200 ''u1'' demo_table))) \<noteq> Inr demo_token"
proof -
  have row: "row_by dt_jti ''u1'' demo_table \<noteq> None"
    by (simp add: demo_table_def row_by_Cons)
  let ?w = "to_jwt (dtm_lib demo_dtm) int_num demo_token ''k''"
  have "denotes demo_dtm 350 ?w ''u1''"
  proof -
    obtain tab where "verify_delegation_token demo_dtm 350 ?w ''t1'' ''bob'' False demo_table = (Inr demo_token, tab)"
      using minted_token_verifies_witness by (metis prod.collapse)
    then show ?thesis
      by (auto simp: denotes_def delegation_token_accepted_iff recorded_ok_def signed_ok_def demo_token_def
          DelegatedTaskToken_default_def split: if_splits)
  qed
  then show ?thesis
    using consumed_token_rejected [OF demo_accepted, of 350 ?w "''t1''" "''bob''" False "[PersistToken (\<lambda>_. True) 300 demo_token]"]
      row by simp
qed

end
