(* ===== verification/ApeProps.thy ===== *)
theory ApeProps
  imports Ape DtmProps
begin

text \<open>
  Properties of the checkpoints: what the enforcing mode lets through, that the other modes decide
  the same and only record it, and what the restricted policy asks for.
\<close>

section \<open>Verdicts\<close>

abbreviation enforcing :: "ape_env \<Rightarrow> bool" where
  "enforcing E \<equiv> mode (ape_config E) \<notin> {''audit'', ''warn''}"

lemma fst_deny:
  "allowed (fst (deny E now why c target ty task s)) \<longleftrightarrow> \<not> enforcing E"
  "reason (fst (deny E now why c target ty task s)) = why"
  by (auto simp: deny_def)

lemma fst_allow [simp]:
  "allowed (fst (allow E now c target scope why task s))"
  "reason (fst (allow E now c target scope why task s)) = why"
  by (simp_all add: allow_def)

lemma first_some_None: "first_some xs = None \<longleftrightarrow> list_all (\<lambda>x. x = None) xs"
proof (induction xs)
  case (Cons x xs)
  then show ?case by (cases x) auto
qed simp

lemma create_allowed_violation:
  "allowed (fst (check_task_create E now c a parent s)) \<longleftrightarrow>
     \<not> enforcing E \<or> create_violation E now c a parent = None"
  by (auto simp: check_task_create_def fst_deny split: option.split)

section \<open>The checks of a creation\<close>

definition may_act :: "card option \<Rightarrow> bool" where
  "may_act k = (case k of None \<Rightarrow> False | Some d \<Rightarrow> \<not> card_disabled d)"

definition same_tenant :: "string \<Rightarrow> card option \<Rightarrow> bool" where
  "same_tenant t k = (case k of None \<Rightarrow> True | Some d \<Rightarrow> d = [] \<or> card_tenant_of d = [] \<or> card_tenant_of d = t)"

definition within_depth :: "ape_env \<Rightarrow> string option \<Rightarrow> bool" where
  "within_depth E parent =
     (case ape_get_task E (opt_or parent []) of
        None \<Rightarrow> True | Some t \<Rightarrow> the_default 0 (delegation_depth t) < max_delegation_depth (ape_config E))"

lemma caller_ok_iff:
  "caller_violation E now c = None \<longleftrightarrow>
     ca_agent_id c \<noteq> [] \<and> ca_agent_id c \<noteq> ''anonymous'' \<and>
     (is_human c \<or> may_act (ape_get_agent E now (ca_agent_id c) (ca_tenant c)))"
  by (auto simp: caller_violation_def may_act_def split: option.splits)

lemma assignee_ok_iff: "assignee_violation E now c a = None \<longleftrightarrow> a = [] \<or> may_act (assignee_card E now c a)"
  by (auto simp: assignee_violation_def may_act_def split: option.splits)

lemma scope_ok_iff:
  "scope_violation c = None \<longleftrightarrow> ''task:write'' \<in> set (py_split (ca_scope c)) \<or> ''registry:admin'' \<in> set (py_split (ca_scope c))"
  by (auto simp: scope_violation_def)

lemma tenant_ok_iff:
  "tenant_violation E now c a = None \<longleftrightarrow>
     is_human c \<or> ca_tenant c = [] \<or> a = [] \<or> same_tenant (ca_tenant c) (assignee_card E now c a)"
  by (auto simp: tenant_violation_def same_tenant_def split: option.splits)

lemma depth_ok_iff: "depth_violation E parent = None \<longleftrightarrow> \<not> opt_true parent \<or> within_depth E parent"
  by (auto simp: depth_violation_def within_depth_def Let_def split: option.splits)

lemma authz_ok_iff:
  "authz_violation E now c a = None \<longleftrightarrow>
     is_human c \<or> a = [] \<or> ca_agent_id c = a \<or>
     check_agent_authz E now (ca_agent_id c) a (remdups (py_split (ca_scope c))) = None"
  by (auto simp: authz_violation_def)

lemma plugin_ok_iff: "plugin_violation v dflt = None \<longleftrightarrow> v = None"
  by (simp add: plugin_violation_def)

lemmas create_checks = caller_ok_iff assignee_ok_iff scope_ok_iff tenant_ok_iff depth_ok_iff authz_ok_iff plugin_ok_iff

text \<open>C15: In the enforcing mode a creation passes exactly when the caller is known by name and, unless a
  human, registered and enabled; the assignee, if any, is registered and enabled and of the caller's
  tenant; the caller holds the scope to write tasks or to administrate; the parent is within the
  delegation depth; the matrix allows an agent to task another agent; and no plugin rejects it.\<close>

theorem create_allowed_iff:
  assumes "mode (ape_config E) = ''enforce''"
  shows "allowed (fst (check_task_create E now c a parent s)) \<longleftrightarrow>
    (ca_agent_id c \<noteq> [] \<and> ca_agent_id c \<noteq> ''anonymous'' \<and>
      (is_human c \<or> may_act (ape_get_agent E now (ca_agent_id c) (ca_tenant c)))) \<and>
    (a = [] \<or> may_act (assignee_card E now c a)) \<and>
    (''task:write'' \<in> set (py_split (ca_scope c)) \<or> ''registry:admin'' \<in> set (py_split (ca_scope c))) \<and>
    (is_human c \<or> ca_tenant c = [] \<or> a = [] \<or> same_tenant (ca_tenant c) (assignee_card E now c a)) \<and>
    (parent = None \<or> parent = Some [] \<or> within_depth E parent) \<and>
    (is_human c \<or> a = [] \<or> ca_agent_id c = a \<or>
      check_agent_authz E now (ca_agent_id c) a (remdups (py_split (ca_scope c))) = None) \<and>
    create_verdict (plugin_decisions E) = None"
  using assms
  by (cases parent) (simp_all add: create_allowed_violation create_violation_def first_some_None create_checks)

definition demo_env :: "APEConfig \<Rightarrow> ape_env" where
  "demo_env conf =
     \<lparr> ape_config = conf,
       ape_dtm = \<lparr> dtm_lib = demo_lib JNull, dtm_public_key = [], dtm_default_ttl = 300, dtm_max_depth = 10 \<rparr>,
       ape_registry = empty_registry, ape_tasks = None, ape_plugins = None, ape_execute = False,
       ape_fresh = (\<lambda>s. ''e''), ape_num = (\<lambda>q. JNull), ape_fmt = (\<lambda>q. []), ape_set_repr = (\<lambda>s. []) \<rparr>"

definition ada :: CallerIdentity where
  "ada = \<lparr> ca_agent_id = ''user:ada'', ca_tenant = [], ca_scope = ''registry:admin'' \<rparr>"

lemma split_admin: "py_split ''registry:admin'' = [''registry:admin'']"
  by (simp add: py_split.simps py_isspace_def Let_def)

definition no_events :: event_store where
  "no_events = \<lparr> se_rows = [], has_bus = False, published = [] \<rparr>"

theorem create_allowed_iff_witness:
  "allowed (fst (check_task_create (demo_env (APEConfig_default\<lparr>mode := ''enforce''\<rparr>)) 0 ada [] None no_events))"
proof -
  have "mode (ape_config (demo_env (APEConfig_default\<lparr>mode := ''enforce''\<rparr>))) = ''enforce''"
    by (simp add: demo_env_def)
  then show ?thesis
    by (subst create_allowed_iff) (simp_all add: ada_def is_human_def py_startswith_def split_admin plugin_decisions_def demo_env_def)
qed

section \<open>Modes\<close>

definition with_mode :: "string \<Rightarrow> ape_env \<Rightarrow> ape_env" where
  "with_mode m E = E\<lparr>ape_config := (ape_config E)\<lparr>mode := m\<rparr>\<rparr>"

lemma with_mode_fields [simp]:
  "mode (ape_config (with_mode m E)) = m"
  "delegation_policy (ape_config (with_mode m E)) = delegation_policy (ape_config E)"
  "max_delegation_depth (ape_config (with_mode m E)) = max_delegation_depth (ape_config E)"
  "ape_dtm (with_mode m E) = ape_dtm E" "ape_registry (with_mode m E) = ape_registry E"
  "ape_tasks (with_mode m E) = ape_tasks E" "ape_plugins (with_mode m E) = ape_plugins E"
  "ape_execute (with_mode m E) = ape_execute E" "ape_fresh (with_mode m E) = ape_fresh E"
  "ape_num (with_mode m E) = ape_num E" "ape_fmt (with_mode m E) = ape_fmt E"
  "ape_set_repr (with_mode m E) = ape_set_repr E"
  by (simp_all add: with_mode_def)

lemma lookups_with_mode [simp]:
  "ape_get_agent (with_mode m E) = ape_get_agent E" "ape_get_task (with_mode m E) = ape_get_task E"
  "check_agent_authz (with_mode m E) = check_agent_authz E"
  "plugin_decisions (with_mode m E) = plugin_decisions E" "dtm_error_text (with_mode m E) = dtm_error_text E"
  unfolding fun_eq_iff ape_get_agent_def ape_get_task_def check_agent_authz_def plugin_decisions_def
    dtm_error_text_def with_mode_fields by (rule refl | intro allI)+

lemma assignee_card_with_mode [simp]: "assignee_card (with_mode m E) = assignee_card E"
  unfolding fun_eq_iff assignee_card_def lookups_with_mode by simp

lemma create_violation_with_mode [simp]: "create_violation (with_mode m E) = create_violation E"
  unfolding fun_eq_iff create_violation_def caller_violation_def assignee_violation_def tenant_violation_def
    depth_violation_def authz_violation_def lookups_with_mode assignee_card_with_mode with_mode_fields by simp

lemma claim_token_with_mode [simp]: "claim_token (with_mode m E) = claim_token E"
  unfolding fun_eq_iff claim_token_def record_decision_def lookups_with_mode with_mode_fields by simp

text \<open>The last event of a store.\<close>

definition last_event :: "event_store \<Rightarrow> SecurityEvent" where
  "last_event s = last (se_rows s)"

lemma last_record_decision:
  assumes "\<forall>x. row_by se_id (ape_fresh E x) (se_rows x) = None"
  shows "se_decision (last_event (record_decision E now ty c target dec why task s)) = dec"
    "se_actor (last_event (record_decision E now ty c target dec why task s)) = ca_agent_id c"
  using assms
  by (simp_all add: record_decision_def rows_record_event last_event_def event_row_def new_event_def EventArgs_default_def)

text \<open>What a checkpoint leaves behind, for a denial and an admission alike.\<close>

definition consistent_trail :: "ape_env \<Rightarrow> CallerIdentity \<Rightarrow> CheckpointResult \<times> event_store \<Rightarrow> bool" where
  "consistent_trail E c r =
     (se_actor (last_event (snd r)) = ca_agent_id c \<and> recorded_event (fst r) \<and>
      (se_decision (last_event (snd r)) = ''deny'' \<longleftrightarrow> \<not> allowed (fst r)))"

lemma trail_deny:
  "\<forall>x. row_by se_id (ape_fresh E x) (se_rows x) = None \<Longrightarrow> consistent_trail E c (deny E now why c target ty task s)"
  by (simp add: consistent_trail_def deny_def last_record_decision)

lemma trail_allow:
  "\<forall>x. row_by se_id (ape_fresh E x) (se_rows x) = None \<Longrightarrow> consistent_trail E c (allow E now c target scope why task s)"
  by (simp add: consistent_trail_def allow_def last_record_decision)

lemmas trail_intros = trail_deny trail_allow

lemma trail_create:
  "\<forall>x. row_by se_id (ape_fresh E x) (se_rows x) = None \<Longrightarrow> consistent_trail E c (check_task_create E now c a parent s)"
  by (auto simp: check_task_create_def intro: trail_intros split: option.split)

lemma trail_claim:
  "\<forall>x. row_by se_id (ape_fresh E x) (se_rows x) = None \<Longrightarrow> consistent_trail E c (check_task_claim E now c i token tab s)"
  by (auto simp: check_task_claim_def intro: trail_intros split: option.split sum.split)

lemma trail_complete:
  "\<forall>x. row_by se_id (ape_fresh E x) (se_rows x) = None \<Longrightarrow> consistent_trail E c (check_task_complete E now c i lock s)"
  by (auto simp: check_task_complete_def intro: trail_intros split: option.split)

text \<open>C16: The modes differ only in what they do with a violation: in the audit and warn modes every
  checkpoint lets the call through, with the reason the enforcing mode gives; and in every mode the
  last event names the caller and records a denial exactly when the call is blocked.\<close>

theorem modes_agree:
  assumes "m \<in> {''audit'', ''warn''}" "\<forall>x. row_by se_id (ape_fresh E x) (se_rows x) = None"
  shows "allowed (fst (check_task_create (with_mode m E) now c a parent s)) \<and>
    allowed (fst (check_task_claim (with_mode m E) now c i token tab s)) \<and>
    allowed (fst (check_task_complete (with_mode m E) now c i lock s)) \<and>
    reason (fst (check_task_create (with_mode m E) now c a parent s)) = reason (fst (check_task_create E now c a parent s)) \<and>
    reason (fst (check_task_claim (with_mode m E) now c i token tab s)) = reason (fst (check_task_claim E now c i token tab s)) \<and>
    reason (fst (check_task_complete (with_mode m E) now c i lock s)) = reason (fst (check_task_complete E now c i lock s)) \<and>
    consistent_trail E c (check_task_create E now c a parent s) \<and>
    consistent_trail E c (check_task_claim E now c i token tab s) \<and>
    consistent_trail E c (check_task_complete E now c i lock s)"
proof (intro conjI)
  show "allowed (fst (check_task_create (with_mode m E) now c a parent s))"
    using assms(1) by (auto simp: check_task_create_def fst_deny split: option.split)
  show "allowed (fst (check_task_claim (with_mode m E) now c i token tab s))"
    using assms(1) by (auto simp: check_task_claim_def fst_deny split: option.split sum.split)
  show "allowed (fst (check_task_complete (with_mode m E) now c i lock s))"
    using assms(1) by (auto simp: check_task_complete_def fst_deny split: option.split)
  show "reason (fst (check_task_create (with_mode m E) now c a parent s)) = reason (fst (check_task_create E now c a parent s))"
    by (auto simp: check_task_create_def fst_deny split: option.split)
  show "reason (fst (check_task_claim (with_mode m E) now c i token tab s)) = reason (fst (check_task_claim E now c i token tab s))"
    by (auto simp: check_task_claim_def fst_deny split: option.split sum.split)
  show "reason (fst (check_task_complete (with_mode m E) now c i lock s)) = reason (fst (check_task_complete E now c i lock s))"
    by (auto simp: check_task_complete_def fst_deny split: option.split)
qed (use assms(2) in \<open>simp_all add: trail_create trail_claim trail_complete\<close>)

definition fresh_id :: "event_store \<Rightarrow> string" where
  "fresh_id s = CHR ''e'' # concat (map se_id (se_rows s))"

lemma fresh_id_new: "row_by se_id (fresh_id s) (se_rows s) = None"
proof -
  have "length (se_id r) < length (fresh_id s)" if "r \<in> set (se_rows s)" for r
  proof -
    have "length (se_id r) \<le> sum_list (map (length \<circ> se_id) (se_rows s))"
      by (rule member_le_sum_list) (use that in auto)
    then show ?thesis by (simp add: fresh_id_def length_concat comp_def)
  qed
  then have "fresh_id s \<noteq> se_id r" if "r \<in> set (se_rows s)" for r
    using that by fastforce
  then show ?thesis by (auto simp: row_by_None_iff)
qed

theorem modes_agree_witness:
  "allowed (fst (check_task_create (with_mode ''warn'' (demo_env APEConfig_default\<lparr>ape_fresh := fresh_id\<rparr>)) 0
     (ada\<lparr>ca_scope := []\<rparr>) [] None no_events))"
  using modes_agree [of "''warn''" "demo_env APEConfig_default\<lparr>ape_fresh := fresh_id\<rparr>"] fresh_id_new by (simp add: no_events_def)

section \<open>The restricted policy\<close>

text \<open>Under the restricted policy the enforcing mode lets an agent claim a task only as its assignee and
  with a delegation token that is accepted for this task and this agent; the claim does not consume
  the token, which is accepted again afterwards.\<close>

theorem restricted_claim_needs_token:
  assumes "mode (ape_config E) = ''enforce''" "delegation_policy (ape_config E) = ''restricted''"
    and "allowed (fst (check_task_claim E now c i token tab s))"
  shows "\<exists>t tok d. ape_get_task E i = Some t \<and> assignee t = Some (ca_agent_id c) \<and> token = Some tok \<and>
    verify_delegation_token (ape_dtm E) now tok i (ca_agent_id c) False tab = (Inr d, tab)"
proof -
  obtain t where t: "ape_get_task E i = Some t" "assignee t = Some (ca_agent_id c)"
    using assms by (auto simp: check_task_claim_def fst_deny split: option.splits if_splits)
  then obtain s1 where s1: "claim_token E now c i token tab s = Inr s1"
    using assms by (auto simp: check_task_claim_def fst_deny split: sum.splits)
  then have token: "opt_true token"
    and ok: "\<exists>d. fst (verify_delegation_token (ape_dtm E) now (opt_or token []) i (ca_agent_id c) False tab) = Inr d"
    using assms(2) by (auto simp: claim_token_def split: if_splits sum.splits)
  from token obtain tok where tok: "token = Some tok" "tok \<noteq> []" by (auto simp: opt_true_iff)
  have unchanged: "snd (verify_delegation_token (ape_dtm E) now tok i (ca_agent_id c) False tab) = tab"
    by (auto simp: verify_delegation_token_def verify_by_id_def verify_jwt_def split: option.split sum.split)
  from ok tok obtain d where "fst (verify_delegation_token (ape_dtm E) now tok i (ca_agent_id c) False tab) = Inr d"
    by (auto simp: opt_or_def str_or_def)
  with unchanged have "verify_delegation_token (ape_dtm E) now tok i (ca_agent_id c) False tab = (Inr d, tab)"
    by (metis prod.collapse)
  with t tok show ?thesis by blast
qed

definition restricted_env :: ape_env where
  "restricted_env = demo_env (APEConfig_default\<lparr>mode := ''enforce'', delegation_policy := ''restricted''\<rparr>)"

definition bob_env :: ape_env where
  "bob_env = restricted_env\<lparr>ape_dtm := demo_dtm,
     ape_tasks := Some (empty_db\<lparr>tasks := [Task_default\<lparr>tid := ''t1'', assignee := Some ''bob''\<rparr>]\<rparr>)\<rparr>"

definition bob :: CallerIdentity where
  "bob = \<lparr> ca_agent_id = ''bob'', ca_tenant = [], ca_scope = [] \<rparr>"

lemma bob_token:
  "fst (verify_delegation_token demo_dtm 200 ''u1'' ''t1'' ''bob'' False demo_table) =
     Inr (DelegatedTaskToken_default\<lparr>jti := ''u1'', sub := ''bob'', token_task_id := ''t1''\<rparr>)"
  by (simp add: verify_delegation_token_def verify_by_id_def row_error_def demo_table_def row_by_Cons)

theorem restricted_claim_needs_token_witness:
  "\<exists>t. ape_get_task bob_env ''t1'' = Some t \<and> assignee t = Some ''bob''"
proof -
  have env: "mode (ape_config bob_env) = ''enforce''" "delegation_policy (ape_config bob_env) = ''restricted''"
    "ape_dtm bob_env = demo_dtm" "ape_plugins bob_env = None"
    by (simp_all add: bob_env_def restricted_env_def demo_env_def)
  have task: "ape_get_task bob_env ''t1'' = Some (Task_default\<lparr>tid := ''t1'', assignee := Some ''bob''\<rparr>)"
    by (simp add: ape_get_task_def bob_env_def get_task_def find_task_def row_by_Cons)
  have "plugin_decisions bob_env = []"
    by (simp add: plugin_decisions_def env)
  moreover have "claim_token bob_env 200 bob ''t1'' (Some ''u1'') demo_table s = Inr s" for s
    using bob_token by (simp add: claim_token_def env bob_def opt_or_def str_or_def)
  ultimately have "allowed (fst (check_task_claim bob_env 200 bob ''t1'' (Some ''u1'') demo_table s))" for s
    by (simp add: check_task_claim_def task plugin_violation_def) (simp add: bob_def)
  from restricted_claim_needs_token [OF env(1,2) this] show ?thesis
    by (auto simp: bob_def)
qed

text \<open>With the registry store of the program, which has no method to run the query of the authorization
  matrix, the restricted policy blocks every creation of a task by an agent for another agent,
  whatever the matrix holds.\<close>

theorem restricted_policy_blocks_delegation:
  assumes "mode (ape_config E) = ''enforce''" "delegation_policy (ape_config E) \<noteq> ''open''" "\<not> ape_execute E"
    and "\<not> is_human c" "a \<noteq> []" "ca_agent_id c \<noteq> a"
  shows "\<not> allowed (fst (check_task_create E now c a parent s))"
  using assms
  by (auto simp: create_allowed_violation create_violation_def first_some_None create_checks check_agent_authz_def)

definition bot :: CallerIdentity where
  "bot = \<lparr> ca_agent_id = ''bot'', ca_tenant = [], ca_scope = ''registry:admin'' \<rparr>"

theorem restricted_policy_blocks_delegation_witness:
  "\<not> allowed (fst (check_task_create restricted_env 0 bot ''helper'' None no_events))"
  by (rule restricted_policy_blocks_delegation)
    (simp_all add: restricted_env_def demo_env_def bot_def is_human_def py_startswith_def)

end
