(* ===== verification/RateLimiter.thy ===== *)
theory RateLimiter
  imports JsonValues
begin

text \<open>
  \<open>rate_limiter.py\<close>: token buckets in memory, and the middleware that charges one token per request. Time and
  token counts are rationals, so float rounding is left out; an operation reads the clock once. The bucket
  in a MySQL table is not modelled: it works on the result of \<open>engine.connect()\<close>, which is \<open>None\<close>, so every
  use of it raises. The middleware takes the bucket as an argument.
\<close>

type_synonym bucket_reply = "bool \<times> int \<times> rat"

definition refill_rate :: "int \<Rightarrow> rat" where
  "refill_rate rate = rat_of_int rate / 60"

definition reset_time :: "rat \<Rightarrow> int \<Rightarrow> rat \<Rightarrow> rat" where
  "reset_time now rate deficit = (if 0 < rate then now + deficit / refill_rate rate else now + 60)"

section \<open>Buckets in memory\<close>

record mem_buckets =
  mb_buckets :: "string \<Rightarrow> rat option"
  mb_last_refill :: "string \<Rightarrow> rat option"
  mb_rates :: "string \<Rightarrow> (int \<times> int) option"

definition empty_buckets :: mem_buckets where
  "empty_buckets = \<lparr> mb_buckets = (\<lambda>_. None), mb_last_refill = (\<lambda>_. None), mb_rates = (\<lambda>_. None) \<rparr>"

definition mem_current :: "rat \<Rightarrow> string \<Rightarrow> int \<Rightarrow> int \<Rightarrow> mem_buckets \<Rightarrow> rat" where
  "mem_current now key rate burst s =
     (case mb_buckets s key of
        None \<Rightarrow> rat_of_int burst
      | Some cur \<Rightarrow>
          min (cur + (now - the_default now (mb_last_refill s key)) * refill_rate rate) (rat_of_int burst))"

definition mem_consume ::
  "rat \<Rightarrow> string \<Rightarrow> int \<Rightarrow> int \<Rightarrow> int \<Rightarrow> mem_buckets \<Rightarrow> bucket_reply \<times> mem_buckets" where
  "mem_consume now key tokens rate burst s =
     (let cur = mem_current now key rate burst s;
          ok = (rat_of_int tokens \<le> cur);
          left = (if ok then cur - rat_of_int tokens else cur)
      in ((ok, py_int left, reset_time now rate (rat_of_int burst - left)),
          \<lparr> mb_buckets = (mb_buckets s)(key \<mapsto> left), mb_last_refill = (mb_last_refill s)(key \<mapsto> now),
            mb_rates = (mb_rates s)(key \<mapsto> (rate, burst)) \<rparr>))"

section \<open>Middleware\<close>

record limited_request =
  lr_method :: string
  lr_agent_id :: string
  lr_forwarded_for :: string
  lr_real_ip :: string
  lr_remote :: "string option"
  lr_path :: string

definition get_client_key :: "limited_request \<Rightarrow> string" where
  "get_client_key rq =
     (if str_true (lr_agent_id rq) \<and> lr_agent_id rq \<noteq> ''anonymous'' then ''client:'' @ lr_agent_id rq
      else if str_true (lr_forwarded_for rq)
      then ''ip:'' @ py_strip (hd (py_split_on (CHR '','') (lr_forwarded_for rq)))
      else if str_true (lr_real_ip rq) then ''ip:'' @ py_strip (lr_real_ip rq)
      else ''ip:'' @ opt_or (lr_remote rq) ''unknown'')"

definition is_whitelisted :: "limited_request \<Rightarrow> string list \<Rightarrow> bool" where
  "is_whitelisted rq wl =
     (if str_true (lr_agent_id rq) \<and> lr_agent_id rq \<in> set wl then True
      else
        (let key = get_client_key rq in
         if py_startswith key ''client:'' then drop (length ''client:'') key \<in> set wl else False))"

definition limited_public_path :: "string \<Rightarrow> bool" where
  "limited_public_path p =
     (py_startswith p ''/auth/'' \<or> py_startswith p ''/.well-known/'' \<or> p = ''/health'' \<or> p = ''/'' \<or> p = ''/metrics'')"

definition merge_vary :: "string \<Rightarrow> string \<Rightarrow> string" where
  "merge_vary existing new =
     (let parts = filter str_true (map py_strip (py_split_on (CHR '','') existing)) in
      py_join '', '' (if new \<in> set parts then parts else parts @ [new]))"

record limiter_config =
  lc_enabled :: bool
  lc_unauthenticated :: int
  lc_authenticated :: int
  lc_whitelist :: "string list"

text \<open>A request that is not limited is handled as it is; a charged one is handled with the limit headers
  or refused with 429 and the seconds to wait.\<close>

datatype limit_outcome =
    Unlimited
  | Admitted "(string \<times> string) list"
  | TooMany int "(string \<times> string) list"

definition request_rate :: "limiter_config \<Rightarrow> limited_request \<Rightarrow> int" where
  "request_rate C rq =
     (let authed = (str_true (lr_agent_id rq) \<and> lr_agent_id rq \<noteq> ''anonymous'') in
      if authed \<and> limited_public_path (lr_path rq) then lc_unauthenticated C
      else if authed then lc_authenticated C else lc_unauthenticated C)"

definition limit_headers :: "int \<Rightarrow> int \<Rightarrow> rat \<Rightarrow> (string \<times> string) list" where
  "limit_headers rate remaining reset_at =
     [(''X-RateLimit-Limit'', str_int rate), (''X-RateLimit-Remaining'', str_int remaining),
      (''X-RateLimit-Reset'', str_int (py_int reset_at))]"

definition rate_limit_middleware ::
  "limiter_config \<Rightarrow> (rat \<Rightarrow> string \<Rightarrow> int \<Rightarrow> int \<Rightarrow> int \<Rightarrow> 's \<Rightarrow> bucket_reply \<times> 's) \<Rightarrow> rat \<Rightarrow> limited_request \<Rightarrow> 's
    \<Rightarrow> limit_outcome \<times> 's" where
  "rate_limit_middleware C consume now rq s =
     (if \<not> lc_enabled C \<or> lr_method rq = ''OPTIONS'' \<or> is_whitelisted rq (lc_whitelist C) then (Unlimited, s)
      else
        (let rate = request_rate C rq;
             ((ok, remaining, reset_at), s') = consume now (get_client_key rq) 1 rate rate s;
             headers = limit_headers rate remaining reset_at
         in if ok then (Admitted headers, s')
            else
              (let retry_after = max 1 (py_int (reset_at - now))
               in (TooMany retry_after (headers @ [(''Retry-After'', str_int retry_after)]), s'))))"

end
