(* ===== verification/JsonTextProps.thy ===== *)
theory JsonTextProps
  imports JsonText
begin

text \<open>Reading back what was printed: \<open>loads (dumps p v) = Some v\<close> for every value whose dicts have
  distinct keys and whose floats are printed as plain decimals.\<close>

section \<open>Strings\<close>

lemma of_char_small: "n < 256 \<Longrightarrow> (of_char (char_of n) :: nat) = n"
  by simp

lemma hex_val_char_of:
  assumes "n < 256"
  shows "hex_val (char_of n) =
    (if 48 \<le> n \<and> n \<le> 57 then Some (n - 48) else if 97 \<le> n \<and> n \<le> 102 then Some (n - 87)
     else if 65 \<le> n \<and> n \<le> 70 then Some (n - 55) else None)"
  unfolding hex_val_def Let_def of_char_small [OF assms] by (rule refl)

lemma hex_val_digit:
  assumes "k < 16"
  shows "hex_val (hex_digit k) = Some k"
proof (cases "k < 10")
  case True
  then have "hex_digit k = char_of (48 + k)" by (simp only: hex_digit_def if_True)
  moreover from True have "48 + k < 256" by linarith
  ultimately show ?thesis
    using True by (simp only: hex_val_char_of) (simp del: of_char_of)
next
  case False
  then have "hex_digit k = char_of (87 + k)" by (simp only: hex_digit_def if_False)
  moreover from assms have "87 + k < 256" by linarith
  moreover from False assms have "\<not> 87 + k \<le> 57" "97 \<le> 87 + k" "87 + k \<le> 102" by linarith+
  ultimately show ?thesis
    by (simp only: hex_val_char_of simp_thms if_True if_False) simp
qed

lemma char_nibbles:
  fixes n :: nat
  shows "n < 256 \<Longrightarrow> n div 16 < 16" "n mod 16 < 16" "16 * (n div 16) + n mod 16 = n"
  by (simp_all add: less_mult_imp_div_less)

lemma hex_char_escape:
  "hex_char (CHR ''0'') (CHR ''0'') (hex_digit ((of_char c :: nat) div 16)) (hex_digit ((of_char c :: nat) mod 16)) = Some c"
  unfolding hex_char_def hex_val_digit [OF char_nibbles(1) [OF nat_of_char_less_256]] hex_val_digit [OF char_nibbles(2)]
  by (simp only: char_nibbles(3) char_of_char simp_thms if_True option.case prod.case)

lemma read_print_char: "read_str (print_char a c @ r) = push_char (Some c) (read_str r)"
proof -
  have plain: "read_str (c # r) = push_char (Some c) (read_str r)"
    if "c \<noteq> quote" "c \<noteq> backslash" "\<not> (of_char c :: nat) < 32"
    using that by simp
  have esc: "read_str (escape_u c @ r) = push_char (Some c) (read_str r)"
    by (simp add: escape_u_def Let_def hex_char_escape)
  show ?thesis
    unfolding print_char_def using plain esc
    by (auto simp: simple_escape_def)
qed

lemma read_print_str: "read_str (concat (map (print_char a) s) @ quote # r) = Some (s, r)"
  by (induction s) (simp_all add: read_print_char push_char_def)

section \<open>Numbers\<close>

definition stops :: "string \<Rightarrow> bool" where
  "stops r = (case r of [] \<Rightarrow> True | c # _ \<Rightarrow> \<not> is_digit c \<and> c \<notin> {CHR ''.'', CHR ''e'', CHR ''E''})"

lemma is_digit_char_of: "k < 10 \<Longrightarrow> is_digit (char_of (48 + k :: nat))"
  by (simp add: is_digit_def)

lemma digit_val_char_of: "k < 10 \<Longrightarrow> digit_val (char_of (48 + k :: nat)) = int k"
  by (simp add: digit_val_def)

lemma str_nat_digits: "list_all is_digit (str_nat n)"
proof (induction n rule: str_nat.induct)
  case (1 n)
  then show ?case
    using is_digit_char_of [of n] is_digit_char_of [of "n mod 10"] by (subst str_nat.simps) simp
qed

lemma str_nat_nonempty [simp]: "str_nat n \<noteq> []"
  by (subst str_nat.simps) simp

lemma digits_val_snoc: "digits_val (s @ [c]) = 10 * digits_val s + digit_val c"
  by (simp add: digits_val_def)

lemma digits_val_str_nat: "digits_val (str_nat n) = int n"
proof (induction n rule: str_nat.induct)
  case (1 n)
  show ?case
  proof (cases "n < 10")
    case True
    then show ?thesis
      using digit_val_char_of [of n] by (subst str_nat.simps) (simp add: digits_val_def)
  next
    case False
    then have "digits_val (str_nat n) = 10 * int (n div 10) + int (n mod 10)"
      using 1 [OF False] digit_val_char_of [of "n mod 10"] by (subst str_nat.simps) (simp add: digits_val_snoc)
    also have "\<dots> = int n" by presburger
    finally show ?thesis .
  qed
qed

lemma hd_str_nat: "n \<noteq> 0 \<Longrightarrow> hd (str_nat n) \<noteq> CHR ''0''"
proof (induction n rule: str_nat.induct)
  case (1 n)
  show ?case
  proof (cases "n < 10")
    case True
    have "char_of (48 + n) \<noteq> CHR ''0''"
    proof
      assume "char_of (48 + n) = CHR ''0''"
      then have "(of_char (char_of (48 + n)) :: nat) = of_char (CHR ''0'')" by simp
      with True 1(2) show False by simp
    qed
    then show ?thesis using True by (subst str_nat.simps) simp
  next
    case False
    then show ?thesis using 1 by (subst str_nat.simps) simp
  qed
qed

lemma takeWhile_digits: "list_all is_digit ds \<Longrightarrow> stops r \<Longrightarrow> takeWhile is_digit (ds @ r) = ds"
  by (induction ds) (auto simp: stops_def split: list.splits)

text \<open>A digit string without a superfluous leading zero.\<close>

definition int_digits :: "string \<Rightarrow> bool" where
  "int_digits ds = (ds \<noteq> [] \<and> list_all is_digit ds \<and> (hd ds = CHR ''0'' \<longrightarrow> ds = ''0''))"

lemma int_digits_str_nat: "int_digits (str_nat n)"
proof (cases "n = 0")
  case True
  have "str_nat 0 = ''0''" by (subst str_nat.simps) (simp add: char_of_eq_iff)
  with True show ?thesis by (simp add: int_digits_def is_digit_def)
qed (simp add: int_digits_def str_nat_digits hd_str_nat)

lemma digit_not_minus: "is_digit c \<Longrightarrow> c \<noteq> CHR ''-''"
  by (auto simp: is_digit_def)

lemma read_int_digits:
  assumes "int_digits ds" "sign \<in> {[], ''-''}" "r = [] \<or> \<not> is_digit (hd r)"
  shows "read_int (sign @ ds @ r) = Some (sign @ ds, r)"
proof -
  obtain d ds' where ds: "ds = d # ds'" using assms(1) by (cases ds) (auto simp: int_digits_def)
  have d: "is_digit d" "d \<noteq> CHR ''-''" "d = CHR ''0'' \<Longrightarrow> ds' = []"
    using assms(1) ds digit_not_minus by (auto simp: int_digits_def)
  have all: "list_all is_digit ds" using assms(1) by (simp add: int_digits_def)
  have "takeWhile is_digit (ds @ r) = ds"
    using all assms(3) by (cases r) (auto simp: takeWhile_append2 list_all_iff)
  then show ?thesis
    using assms(2) ds d by (auto simp: read_int_def Let_def)
qed

lemma read_frac_exp_stop: "stops r \<Longrightarrow> read_frac r = ([], r) \<and> read_exp r = ([], r)"
  by (cases r) (auto simp: read_frac_def read_exp_def stops_def Let_def)

lemma stops_not_digit: "stops r \<Longrightarrow> r = [] \<or> \<not> is_digit (hd r)"
  by (auto simp: stops_def split: list.splits)

lemma read_literal_number:
  assumes "int_digits ds" "sign \<in> {[], ''-''}"
  shows "read_literal literals (sign @ ds @ r) = None"
proof -
  obtain d ds' where ds: "ds = d # ds'" "is_digit d"
    using assms(1) by (cases ds) (auto simp: int_digits_def)
  then have "d \<notin> {CHR ''n'', CHR ''t'', CHR ''f'', CHR ''N'', CHR ''I'', CHR ''-''}"
    by (auto simp: is_digit_def)
  with ds(1) assms(2) show ?thesis
    by (auto simp: literals_def)
qed

lemma int_val_sign:
  "int_digits ds \<Longrightarrow> int_val ds = digits_val ds" "int_val (CHR ''-'' # ds) = - digits_val ds"
  by (cases ds; auto simp: int_val_def int_digits_def is_digit_def)+

lemma read_atom_int:
  assumes "stops r"
  shows "read_atom (str_int i @ r) = Some (JInt i, r)"
proof -
  define sign where "sign = (if i < 0 then ''-'' else [])"
  define ds where "ds = str_nat (nat \<bar>i\<bar>)"
  have str: "str_int i = sign @ ds"
    by (auto simp: str_int_def sign_def ds_def)
  have ok: "int_digits ds" "sign \<in> {[], ''-''}"
    by (simp_all add: ds_def sign_def int_digits_str_nat)
  have "read_number (sign @ ds @ r) = Some (JInt (int_val (sign @ ds)), r)"
    using read_int_digits [OF ok stops_not_digit [OF assms]] read_frac_exp_stop [OF assms]
    by (simp add: read_number_def)
  moreover have "int_val (sign @ ds) = i"
    using int_val_sign [of ds] ok(1) by (auto simp: sign_def ds_def digits_val_str_nat)
  ultimately show ?thesis
    using read_literal_number [OF ok] by (simp add: str read_atom_def)
qed

text \<open>The plain decimal form of a float.\<close>

definition float_text :: "string \<Rightarrow> bool" where
  "float_text s =
     (let sign = (if take 1 s = ''-'' then ''-'' else []); t = drop (length sign) s;
          ds = takeWhile is_digit t; fs = drop (Suc (length ds)) t
      in int_digits ds \<and> t = ds @ ''.'' @ fs \<and> fs \<noteq> [] \<and> list_all is_digit fs)"

lemma float_textE:
  assumes "float_text s"
  obtains sign ds fs where "s = sign @ ds @ CHR ''.'' # fs" "sign \<in> {[], ''-''}" "int_digits ds" "fs \<noteq> []"
    "list_all is_digit fs"
proof -
  define sign where "sign = (if take 1 s = ''-'' then ''-'' else [])"
  define t where "t = drop (length sign) s"
  define ds where "ds = takeWhile is_digit t"
  define fs where "fs = drop (Suc (length ds)) t"
  have "s = sign @ t" by (cases s) (auto simp: sign_def t_def)
  moreover have "int_digits ds" "t = ds @ ''.'' @ fs" "fs \<noteq> []" "list_all is_digit fs"
    using assms unfolding float_text_def Let_def sign_def [symmetric] t_def [symmetric] ds_def [symmetric]
      fs_def [symmetric] by blast+
  ultimately show ?thesis
    using that [of sign ds fs] by (simp add: sign_def)
qed

lemma read_atom_float:
  assumes "float_text s" "stops r"
  shows "read_atom (s @ r) = Some (JFloat s, r)"
proof -
  from assms(1) obtain sign ds fs where s: "s = sign @ ds @ CHR ''.'' # fs" "sign \<in> {[], ''-''}" "int_digits ds"
    "fs \<noteq> []" "list_all is_digit fs"
    by (rule float_textE)
  let ?f = "CHR ''.'' # fs @ r"
  have "read_int (sign @ ds @ ?f) = Some (sign @ ds, ?f)"
    by (rule read_int_digits [OF s(3,2)]) (simp add: is_digit_def)
  moreover have "read_frac ?f = (CHR ''.'' # fs, r)"
    using takeWhile_digits [OF s(5) assms(2)] s(4) by (simp add: read_frac_def)
  ultimately have "read_number (sign @ ds @ ?f) = Some (JFloat s, r)"
    using read_frac_exp_stop [OF assms(2)] s(1) by (simp add: read_number_def)
  then show ?thesis
    using read_literal_number [OF s(3,2), of ?f] s(1) by (simp add: read_atom_def)
qed

section \<open>Values\<close>

fun text_ok :: "json \<Rightarrow> bool" where
  "text_ok (JFloat s) = float_text s"
| "text_ok (JList js) = (\<forall>j \<in> set js. text_ok j)"
| "text_ok (JObj d) = (distinct (map fst d) \<and> (\<forall>kv \<in> set d. text_ok (snd kv)))"
| "text_ok _ = True"

definition opts_ok :: "dumps_opts \<Rightarrow> bool" where
  "opts_ok p = (item_sep p \<in> {'','', '', ''} \<and> key_sep p \<in> {'':'', '': ''})"

lemma opts_ok_used [simp]: "opts_ok plain_opts" "opts_ok unicode_opts" "opts_ok compact_opts"
  by (simp_all add: opts_ok_def plain_opts_def unicode_opts_def compact_opts_def)

text \<open>The characters that open an atom.\<close>

definition atom_start :: "char \<Rightarrow> bool" where
  "atom_start c = (is_digit c \<or> c \<in> {CHR ''-'', CHR ''n'', CHR ''t'', CHR ''f''})"

lemma atom_start_not: "atom_start c \<Longrightarrow>
  \<not> json_ws c \<and> c \<noteq> quote \<and> c \<noteq> CHR ''['' \<and> c \<noteq> CHR '']'' \<and> c \<noteq> CHR ''{'' \<and> c \<noteq> CHR ''}''"
  by (auto simp: atom_start_def is_digit_def json_ws_def)

lemma int_digits_start:
  "int_digits ds \<Longrightarrow> sign \<in> {[], ''-''} \<Longrightarrow> \<exists>c t. sign @ ds @ r = c # t \<and> atom_start c"
  by (cases ds) (auto simp: int_digits_def atom_start_def)

lemma str_int_start: "\<exists>c t. str_int i = c # t \<and> atom_start c"
  using int_digits_start [of "str_nat (nat (- i))" "''-''" "[]"]
    int_digits_start [of "str_nat (nat i)" "[]" "[]"] int_digits_str_nat
  by (auto simp: str_int_def)

lemma float_start: "float_text s \<Longrightarrow> \<exists>c t. s = c # t \<and> atom_start c"
  by (erule float_textE) (metis int_digits_start)

definition atomic :: "json \<Rightarrow> bool" where
  "atomic v = (case v of JStr _ \<Rightarrow> False | JList _ \<Rightarrow> False | JObj _ \<Rightarrow> False | _ \<Rightarrow> True)"

lemma atom_text:
  assumes "atomic v" "text_ok v"
  shows "\<exists>c t. dumps p v = c # t \<and> atom_start c"
  using assms str_int_start float_start by (cases v) (auto simp: atomic_def atom_start_def)

lemma read_atom_text:
  assumes "atomic v" "text_ok v" "stops r"
  shows "read_atom (dumps p v @ r) = Some (v, r)"
  using assms read_atom_int read_atom_float
  by (cases v) (auto simp: atomic_def read_atom_def literals_def)

lemma dumps_start:
  assumes "text_ok v"
  shows "\<exists>c t. dumps p v = c # t \<and> \<not> json_ws c \<and> c \<noteq> CHR '']''"
proof (cases "atomic v")
  case True
  then show ?thesis using atom_text [OF True assms, of p] atom_start_not by blast
next
  case False
  then show ?thesis by (cases v) (auto simp: atomic_def print_str_def json_ws_def)
qed

lemma skip_ws_start: "\<not> json_ws c \<Longrightarrow> skip_ws (c # t) = c # t"
  by (simp add: skip_ws_def)

lemma skip_ws_dumps: "text_ok v \<Longrightarrow> skip_ws (dumps p v @ r) = dumps p v @ r"
  using dumps_start [of v p] by (auto simp: skip_ws_def)

lemma skip_ws_blank: "skip_ws (CHR '' '' # t) = skip_ws t"
  by (simp add: skip_ws_def json_ws_def)

lemma stops_close: "stops (CHR '']'' # r)" "stops (CHR ''}'' # r)" "stops (CHR '','' # r)" "stops []"
  by (simp_all add: stops_def is_digit_def)

text \<open>Reading one item or member of a list, given that its value is read back.\<close>

lemma length_dumps_pos: "text_ok v \<Longrightarrow> 0 < length (dumps p v)"
  using dumps_start [of v p] by auto

definition reads :: "dumps_opts \<Rightarrow> json \<Rightarrow> bool" where
  "reads p v = (\<forall>n r. stops r \<longrightarrow> length (dumps p v) \<le> n \<longrightarrow> read_value n (dumps p v @ r) = Some (v, r))"

lemma skip_sep:
  assumes "opts_ok p"
  obtains t where "item_sep p @ r = CHR '','' # t" "skip_ws t = skip_ws r"
  using assms by (auto simp: opts_ok_def skip_ws_blank)

lemma dumps_items_start:
  assumes "js \<noteq> []" "\<forall>j \<in> set js. text_ok j"
  shows "\<exists>c t. dumps_items p js @ r = c # t \<and> \<not> json_ws c \<and> c \<noteq> CHR '']''"
proof -
  obtain j js' where js: "js = j # js'" using assms(1) by (cases js) auto
  then have "\<exists>u. dumps_items p js = dumps p j @ u" by (cases js') auto
  moreover have "text_ok j" using assms(2) js by simp
  ultimately show ?thesis using dumps_start [of j p] by auto
qed

lemma read_items_back:
  assumes "opts_ok p" "js \<noteq> []" "\<forall>j \<in> set js. text_ok j \<and> reads p j" "length (dumps_items p js) < n"
  shows "read_items n (dumps_items p js @ CHR '']'' # r) = Some (js, r)"
  using assms(2-4)
proof (induction js arbitrary: n)
  case (Cons j js)
  obtain m where n: "n = Suc m" using Cons.prems(3) by (cases n) auto
  have j: "text_ok j" "reads p j" using Cons.prems(2) by auto
  show ?case
  proof (cases js)
    case Nil
    with Cons.prems(3) n have "length (dumps p j) \<le> m" by simp
    with j(2) have "read_value m (dumps p j @ CHR '']'' # r) = Some (j, CHR '']'' # r)"
      by (simp add: reads_def stops_close)
    then show ?thesis using Nil n by (simp add: skip_ws_start json_ws_def)
  next
    case (Cons j' js')
    then have ne: "js \<noteq> []" by simp
    let ?r = "dumps_items p js @ CHR '']'' # r"
    from assms(1) obtain t where t: "item_sep p @ ?r = CHR '','' # t" "skip_ws t = skip_ws ?r"
      by (rule skip_sep)
    have out: "dumps_items p (j # js) @ CHR '']'' # r = dumps p j @ CHR '','' # t"
      using Cons t(1) by simp
    have len: "length (dumps p j) \<le> m" "length (dumps_items p js) < m"
      using Cons.prems(3) n Cons assms(1) length_dumps_pos [OF j(1)] by (auto simp: opts_ok_def)
    have "read_value m (dumps p j @ CHR '','' # t) = Some (j, CHR '','' # t)"
      using j(2) len(1) by (simp add: reads_def stops_close)
    moreover have "skip_ws t = ?r"
      using t(2) dumps_items_start [OF ne, of p "CHR '']'' # r"] Cons.prems(2) by (auto simp: skip_ws_start)
    moreover have "read_items m ?r = Some (js, r)"
      using Cons.IH [OF ne _ len(2)] Cons.prems(2) by simp
    ultimately show ?thesis
      unfolding out n by (simp add: skip_ws_start json_ws_def)
  qed
qed simp

lemma skip_key_sep:
  assumes "opts_ok p"
  obtains t where "key_sep p @ r = CHR '':'' # t" "skip_ws t = skip_ws r"
  using assms by (auto simp: opts_ok_def skip_ws_blank)

lemma read_members_back:
  assumes "opts_ok p" "d \<noteq> []" "\<forall>kv \<in> set d. text_ok (snd kv) \<and> reads p (snd kv)"
    "length (dumps_members p d) < n"
  shows "read_members n (dumps_members p d @ CHR ''}'' # r) = Some (d, r)"
  using assms(2-4)
proof (induction d arbitrary: n)
  case (Cons kv d)
  obtain k v where kv: "kv = (k, v)" by (cases kv)
  obtain m where n: "n = Suc m" using Cons.prems(3) by (cases n) auto
  have v: "text_ok v" "reads p v" using Cons.prems(2) kv by auto
  have key: "read_str (concat (map (print_char (ascii_only p)) k) @ quote # u) = Some (k, u)" for u
    by (rule read_print_str)
  show ?case
  proof (cases d)
    case Nil
    let ?r = "CHR ''}'' # r"
    from assms(1) obtain t where t: "key_sep p @ dumps p v @ ?r = CHR '':'' # t" "skip_ws t = skip_ws (dumps p v @ ?r)"
      by (rule skip_key_sep)
    have "length (dumps p v) \<le> m"
      using Cons.prems(3) n Nil kv by (simp add: print_str_def)
    with v(2) have "read_value m (dumps p v @ ?r) = Some (v, ?r)"
      by (simp add: reads_def stops_close)
    with t key show ?thesis
      unfolding n by (simp add: Nil kv print_str_def skip_ws_dumps [OF v(1)] skip_ws_start json_ws_def)
  next
    case (Cons kv' d')
    then have ne: "d \<noteq> []" by simp
    obtain k' v' where kv': "kv' = (k', v')" by (cases kv')
    let ?r = "dumps_members p d @ CHR ''}'' # r"
    from assms(1) obtain s where s: "item_sep p @ ?r = CHR '','' # s" "skip_ws s = skip_ws ?r"
      by (rule skip_sep)
    from assms(1) obtain t where t: "key_sep p @ dumps p v @ CHR '','' # s = CHR '':'' # t"
      "skip_ws t = skip_ws (dumps p v @ CHR '','' # s)"
      by (rule skip_key_sep)
    have out: "dumps_members p (kv # d) @ CHR ''}'' # r =
        quote # concat (map (print_char (ascii_only p)) k) @ quote # CHR '':'' # t"
      using Cons kv kv' s(1) t(1) by (simp add: print_str_def)
    have len: "length (dumps p v) \<le> m" "length (dumps_members p d) < m"
      using Cons.prems(3) n Cons kv kv' by (auto simp: print_str_def)
    have "read_value m (dumps p v @ CHR '','' # s) = Some (v, CHR '','' # s)"
      using v(2) len(1) by (simp add: reads_def stops_close)
    moreover have "skip_ws s = ?r"
      using s(2) Cons kv' by (cases d') (auto simp: print_str_def skip_ws_start json_ws_def)
    moreover have "read_members m ?r = Some (d, r)"
      using Cons.IH [OF ne _ len(2)] Cons.prems(2) by simp
    ultimately show ?thesis
      unfolding out n using t(2) key by (simp add: kv skip_ws_dumps [OF v(1)] skip_ws_start json_ws_def)
  qed
qed simp

lemma make_dict_distinct: "distinct (map fst d) \<Longrightarrow> make_dict d = d"
proof -
  have "distinct (map fst (e @ d)) \<Longrightarrow> fold (\<lambda>(k, v). dict_put k v) d e = e @ d" for e
  proof (induction d arbitrary: e)
    case (Cons kv d)
    then have "fst kv \<notin> fst ` set e" by auto
    with Cons show ?case by (cases kv) (simp add: dict_put_new)
  qed simp
  then show "distinct (map fst d) \<Longrightarrow> make_dict d = d"
    by (simp add: make_dict_def)
qed

lemma reads_list:
  assumes "opts_ok p" "\<forall>j \<in> set js. text_ok j \<and> reads p j"
  shows "reads p (JList js)"
  unfolding reads_def
proof (intro allI impI)
  fix n r assume "length (dumps p (JList js)) \<le> n"
  then obtain m where m: "n = Suc m" "length (dumps_items p js) < m" by (cases n) auto
  show "read_value n (dumps p (JList js) @ r) = Some (JList js, r)"
  proof (cases "js = []")
    case True
    then show ?thesis using m by (simp add: skip_ws_start json_ws_def)
  next
    case False
    moreover obtain c t where c: "dumps_items p js @ CHR '']'' # r = c # t" "\<not> json_ws c" "c \<noteq> CHR '']''"
      using dumps_items_start [OF False, of p] assms(2) by blast
    moreover have "read_items m (dumps_items p js @ CHR '']'' # r) = Some (js, r)"
      by (rule read_items_back) (use False assms m in auto)
    ultimately show ?thesis
      using m by (simp add: skip_ws_start)
  qed
qed

lemma dumps_members_start: "d \<noteq> [] \<Longrightarrow> \<exists>t. dumps_members p d @ r = quote # t"
  by (cases "(p, d)" rule: dumps_members.cases) (auto simp: print_str_def)

lemma reads_obj:
  assumes "opts_ok p" "distinct (map fst d)" "\<forall>kv \<in> set d. text_ok (snd kv) \<and> reads p (snd kv)"
  shows "reads p (JObj d)"
  unfolding reads_def
proof (intro allI impI)
  fix n r assume "length (dumps p (JObj d)) \<le> n"
  then obtain m where m: "n = Suc m" "length (dumps_members p d) < m" by (cases n) auto
  show "read_value n (dumps p (JObj d) @ r) = Some (JObj d, r)"
  proof (cases "d = []")
    case True
    then show ?thesis using m by (simp add: skip_ws_start json_ws_def)
  next
    case False
    moreover obtain t where "dumps_members p d @ CHR ''}'' # r = quote # t"
      using dumps_members_start [OF False] by blast
    moreover have "read_members m (dumps_members p d @ CHR ''}'' # r) = Some (d, r)"
      by (rule read_members_back) (use False assms m in auto)
    ultimately show ?thesis
      using m make_dict_distinct [OF assms(2)] by (simp add: skip_ws_start json_ws_def)
  qed
qed

lemma reads_atom:
  assumes "atomic v" "text_ok v"
  shows "reads p v"
  unfolding reads_def
proof (intro allI impI)
  fix n r assume r: "stops r" "length (dumps p v) \<le> n"
  obtain c t where c: "dumps p v = c # t" "atom_start c"
    using atom_text [OF assms, of p] by blast
  with r(2) obtain m where "n = Suc m" by (cases n) auto
  with c r(1) atom_start_not [OF c(2)] read_atom_text [OF assms r(1), of p]
  show "read_value n (dumps p v @ r) = Some (v, r)" by simp
qed

lemma reads_back: "opts_ok p \<Longrightarrow> text_ok v \<Longrightarrow> reads p v"
proof (induction v)
  case (JStr s)
  show ?case
    unfolding reads_def by (intro allI impI) (case_tac n, simp_all add: print_str_def read_print_str)
next
  case (JList js)
  then show ?case by (intro reads_list) auto
next
  case (JObj d)
  have "reads p (snd kv)" if "kv \<in> set d" "text_ok (snd kv)" for kv
    using JObj.IH [OF that(1) _ JObj.prems(1) that(2)] by (cases kv) simp
  with JObj.prems show ?case by (intro reads_obj) auto
qed (auto intro!: reads_atom simp: atomic_def)

lemma loads_dumps:
  assumes "opts_ok p" "text_ok v"
  shows "loads (dumps p v) = Some v"
proof -
  have "read_value (Suc (length (dumps p v))) (dumps p v @ []) = Some (v, [])"
    using reads_back [OF assms] unfolding reads_def by (simp only: stops_close simp_thms)
  then show ?thesis
    using skip_ws_dumps [OF assms(2), of p "[]"] by (simp add: loads_def skip_ws_def)
qed

end
