(* ===== verification/BucketLaws.thy ===== *)
theory BucketLaws
  imports RateLimiter JsonTextProps
begin

text \<open>
  The contract of a token bucket as a locale: how much a key has left, as a function of the time,
  and how one request changes it. The bound on the number of admitted requests is proved once from
  the contract and holds for the bucket in memory by interpretation; so does what a client gets that waits as
  long as the middleware tells it.
\<close>

section \<open>Histories of requests\<close>

text \<open>One token per request, all at the same rate and burst; the result tells which were admitted.\<close>

primrec serve ::
  "(rat \<Rightarrow> string \<Rightarrow> int \<Rightarrow> int \<Rightarrow> int \<Rightarrow> 's \<Rightarrow> bucket_reply \<times> 's) \<Rightarrow> int \<Rightarrow> int \<Rightarrow> (rat \<times> string) list \<Rightarrow> 's \<Rightarrow> bucket_reply list \<times> 's" where
  "serve consume rate burst [] s = ([], s)"
| "serve consume rate burst (q # qs) s =
     (let (r, s') = consume (fst q) (snd q) 1 rate burst s; (rs, s'') = serve consume rate burst qs s' in (r # rs, s''))"

text \<open>The admitted requests of a key.\<close>

definition admitted :: "string \<Rightarrow> (rat \<times> string) list \<Rightarrow> bucket_reply list \<Rightarrow> nat" where
  "admitted key qs rs = length (filter (\<lambda>(q, r). snd q = key \<and> fst r) (zip qs rs))"

fun in_order :: "rat \<Rightarrow> (rat \<times> string) list \<Rightarrow> bool" where
  "in_order t [] = True"
| "in_order t (q # qs) = (t \<le> fst q \<and> in_order (fst q) qs)"

fun end_time :: "rat \<Rightarrow> (rat \<times> string) list \<Rightarrow> rat" where
  "end_time t [] = t"
| "end_time t (q # qs) = end_time (fst q) qs"

section \<open>The contract\<close>

locale token_bucket =
  fixes consume :: "rat \<Rightarrow> string \<Rightarrow> int \<Rightarrow> int \<Rightarrow> int \<Rightarrow> 's \<Rightarrow> bucket_reply \<times> 's"
    and level :: "int \<Rightarrow> int \<Rightarrow> string \<Rightarrow> rat \<Rightarrow> 's \<Rightarrow> rat"
  assumes level_cap: "level rate burst key now s \<le> rat_of_int burst"
    and level_later: "0 < rate \<Longrightarrow> now \<le> now' \<Longrightarrow>
      level rate burst key now s \<le> level rate burst key now' s \<and>
      level rate burst key now' s \<le> level rate burst key now s + (now' - now) * refill_rate rate"
    and admit_iff: "0 < rate \<Longrightarrow> 0 < burst \<Longrightarrow>
      fst (fst (consume now key 1 rate burst s)) \<longleftrightarrow> 1 \<le> level rate burst key now s"
    and level_after: "0 < rate \<Longrightarrow> 0 < burst \<Longrightarrow> consume now key 1 rate burst s = (r, s') \<Longrightarrow>
      level rate burst key' now s' =
        (if key' = key \<and> fst r then level rate burst key' now s - 1 else level rate burst key' now s)"
    and reset_full: "0 < rate \<Longrightarrow> 0 < burst \<Longrightarrow> consume now key 1 rate burst s = (r, s') \<Longrightarrow>
      level rate burst key (snd (snd r)) s' = rat_of_int burst"
begin

lemma admitted_bound:
  assumes "0 < rate" "0 < burst" "in_order t qs" "0 \<le> level rate burst key t s"
    and "serve consume rate burst qs s = (rs, s')"
  shows "rat_of_nat (admitted key qs rs) \<le> level rate burst key t s + (end_time t qs - t) * refill_rate rate"
  using assms(3-5)
proof (induction qs arbitrary: t s rs)
  case Nil
  then show ?case by (simp add: admitted_def)
next
  case (Cons q qs)
  obtain now k where q: "q = (now, k)" by (cases q)
  obtain r s1 where r: "consume now k 1 rate burst s = (r, s1)" by (cases "consume now k 1 rate burst s")
  obtain rs' where rs': "serve consume rate burst qs s1 = (rs', s')" "rs = r # rs'"
    using Cons.prems(3) q r by (auto split: prod.splits)
  have times: "t \<le> now" "in_order now qs" using Cons.prems(1) q by auto
  note later = level_later [OF assms(1) times(1), of burst key s]
  note after = level_after [OF assms(1,2) r, of key]
  have ok: "fst r \<longleftrightarrow> 1 \<le> level rate burst k now s"
    using admit_iff [OF assms(1,2), of now k s] r by simp
  have nonneg: "0 \<le> level rate burst key now s1"
    using after ok later Cons.prems(2) by (auto split: if_splits)
  have count: "admitted key (q # qs) (r # rs') = (if k = key \<and> fst r then 1 else 0) + admitted key qs rs'"
    by (simp add: admitted_def q)
  have "rat_of_nat (admitted key qs rs') \<le> level rate burst key now s1 + (end_time now qs - now) * refill_rate rate"
    by (rule Cons.IH [OF times(2) nonneg rs'(1)])
  moreover have "(end_time now qs - t) * refill_rate rate =
      (end_time now qs - now) * refill_rate rate + (now - t) * refill_rate rate"
    by (simp add: algebra_simps)
  ultimately show ?case
    using count after later rs'(2) q by (auto split: if_splits)
qed

lemma admitted_at_most:
  assumes "0 < rate" "0 < burst" "in_order t qs" "level rate burst key t s = rat_of_int burst"
    and "serve consume rate burst qs s = (rs, s')"
  shows "rat_of_nat (admitted key qs rs) \<le> rat_of_int burst + (end_time t qs - t) * rat_of_int rate / 60"
  using admitted_bound [OF assms(1-3) _ assms(5), of key] assms(2,4) by (simp add: refill_rate_def)

text \<open>The announced times are truncated to seconds: a second before the reset at most the refill of a second is missing.\<close>

lemma admitted_near_reset:
  assumes "2 \<le> rate" "consume now key 1 rate rate s = (r, s')" "now \<le> now'" "snd (snd r) < now' + 1"
  shows "1 \<le> level rate rate key now' s'"
proof -
  have pos: "0 < rate" using assms(1) by simp
  have full: "level rate rate key (snd (snd r)) s' = rat_of_int rate" by (rule reset_full [OF pos pos assms(2)])
  have "rat_of_int rate - refill_rate rate \<le> level rate rate key now' s'"
  proof (cases "now' \<le> snd (snd r)")
    case True
    have "(snd (snd r) - now') * refill_rate rate \<le> 1 * refill_rate rate"
      using assms(4) pos by (intro mult_right_mono) (simp_all add: refill_rate_def)
    then show ?thesis using level_later [OF pos True, of rate key s'] full by simp
  next
    case False
    then show ?thesis
      using level_later [OF pos, of "snd (snd r)" now' rate key s'] full pos by (simp add: refill_rate_def)
  qed
  moreover have "1 \<le> rat_of_int rate - refill_rate rate"
  proof -
    have "(2 :: rat) \<le> rat_of_int rate" using assms(1) by simp
    then show ?thesis by (simp add: refill_rate_def)
  qed
  ultimately show ?thesis by linarith
qed

end

section \<open>The bucket in memory keeps the contract\<close>

definition mem_level :: "int \<Rightarrow> int \<Rightarrow> string \<Rightarrow> rat \<Rightarrow> mem_buckets \<Rightarrow> rat" where
  "mem_level rate burst key now s =
     (case mb_buckets s key of
        None \<Rightarrow> rat_of_int burst
      | Some cur \<Rightarrow> min (cur + (now - the_default now (mb_last_refill s key)) * refill_rate rate) (rat_of_int burst))"

lemma refill_rate_pos: "0 < rate \<Longrightarrow> 0 < refill_rate rate"
  by (simp add: refill_rate_def)

lemma refill_mono:
  assumes "0 < rate" "now \<le> now'"
  shows "(now - l) * refill_rate rate \<le> (now' - l) * refill_rate rate"
    "(now' - l) * refill_rate rate = (now - l) * refill_rate rate + (now' - now) * refill_rate rate"
    "0 \<le> (now' - now) * refill_rate rate"
proof -
  have pos: "0 \<le> refill_rate rate" using refill_rate_pos [OF assms(1)] by simp
  show "(now - l) * refill_rate rate \<le> (now' - l) * refill_rate rate"
    using assms(2) pos by (intro mult_right_mono) simp_all
  show "(now' - l) * refill_rate rate = (now - l) * refill_rate rate + (now' - now) * refill_rate rate"
    by (simp add: algebra_simps)
  show "0 \<le> (now' - now) * refill_rate rate"
    using assms(2) pos by simp
qed

lemma min_later:
  fixes a b d c :: rat
  assumes "a \<le> b" "b = a + d" "0 \<le> d"
  shows "min (c + a) m \<le> min (c + b) m \<and> min (c + b) m \<le> min (c + a) m + d"
  using assms by (simp add: min_def)

lemmas refill_later = min_later [OF refill_mono]

lemma fill_up:
  assumes "0 < rate"
  shows "(reset_time now rate d - now) * refill_rate rate = d"
  using refill_rate_pos [OF assms] assms by (simp add: reset_time_def)

interpretation mem: token_bucket mem_consume mem_level
proof (unfold_locales, goal_cases)
  case (1 rate burst key now s)
  then show ?case by (simp add: mem_level_def split: option.splits)
next
  case (2 rate now now' burst key s)
  then show ?case
    using refill_later [OF 2] refill_mono(3) [OF 2]
    by (simp add: mem_level_def split: option.splits) (cases "mb_last_refill s key"; simp)
next
  case (3 rate burst now key s)
  then show ?case by (simp add: mem_level_def mem_consume_def mem_current_def Let_def)
next
  case (4 rate burst now key s r s' key')
  then show ?case
    by (auto simp: mem_level_def mem_consume_def mem_current_def Let_def split: option.splits if_splits)
next
  case (5 rate burst now key s r s')
  then show ?case
    using fill_up [OF 5(1)]
    by (auto simp: mem_level_def mem_consume_def Let_def)
qed

section \<open>Histories of the middleware\<close>

primrec limited_state :: "limiter_config \<Rightarrow> (rat \<times> limited_request) list \<Rightarrow> mem_buckets \<Rightarrow> mem_buckets" where
  "limited_state C [] s = s"
| "limited_state C (q # qs) s = limited_state C qs (snd (rate_limit_middleware C mem_consume (fst q) (snd q) s))"

lemma int_val_str_int: "int_val (str_int i) = i"
  by (simp add: str_int_def int_val_sign int_digits_str_nat digits_val_str_nat)

lemma mem_level_other: "k \<noteq> key \<Longrightarrow> mem_level rate burst key now (snd (mem_consume t k n r b s)) = mem_level rate burst key now s"
  by (simp add: mem_level_def mem_consume_def Let_def split: option.split)

lemma middleware_level_other:
  "get_client_key rq \<noteq> key \<Longrightarrow>
    mem_level rate burst key now (snd (rate_limit_middleware C mem_consume t rq s)) = mem_level rate burst key now s"
  using mem_level_other [of "get_client_key rq" key rate burst now t 1 "request_rate C rq" "request_rate C rq" s]
  by (simp add: rate_limit_middleware_def Let_def split: prod.split) (auto simp: case_prod_beta)

lemma others_keep_level:
  "\<forall>q \<in> set qs. get_client_key (snd q) \<noteq> key \<Longrightarrow>
    mem_level rate burst key now (limited_state C qs s) = mem_level rate burst key now s"
  by (induction qs arbitrary: s) (simp_all add: middleware_level_other)

definition let_through :: "limit_outcome \<Rightarrow> bool" where
  "let_through a = (case a of TooMany _ _ \<Rightarrow> False | _ \<Rightarrow> True)"

text \<open>The client waits: for the seconds of a refusal, else until the reset time of the headers.\<close>

definition has_waited :: "rat \<Rightarrow> limit_outcome \<Rightarrow> rat \<Rightarrow> bool" where
  "has_waited now a later =
     (now \<le> later \<and>
      (case a of
         Unlimited \<Rightarrow> True
       | Admitted hs \<Rightarrow> (case map_of hs ''X-RateLimit-Reset'' of None \<Rightarrow> False | Some x \<Rightarrow> rat_of_int (int_val x) \<le> later)
       | TooMany n hs \<Rightarrow> now + rat_of_int n \<le> later))"

lemma py_int_gt: "q < rat_of_int (py_int q) + 1"
  using floor_correct [of q] order_le_less_trans [OF le_of_int_ceiling, of q "rat_of_int \<lceil>q\<rceil> + 1"]
  by (auto simp: py_int_def)

lemma waited_for_reset:
  assumes "rate_limit_middleware C mem_consume now rq s = (a, s1)" "has_waited now a later" "a \<noteq> Unlimited"
  shows "\<exists>r. mem_consume now (get_client_key rq) 1 (request_rate C rq) (request_rate C rq) s = (r, s1) \<and>
    snd (snd r) < later + 1"
proof -
  obtain ok left reset_at s2 where m:
      "mem_consume now (get_client_key rq) 1 (request_rate C rq) (request_rate C rq) s = ((ok, left, reset_at), s2)"
    by (metis prod_cases3 surj_pair)
  have "s1 = s2 \<and> (if ok then rat_of_int (py_int reset_at) \<le> later
      else now + rat_of_int (max 1 (py_int (reset_at - now))) \<le> later)"
    using assms m
    by (auto simp: rate_limit_middleware_def Let_def has_waited_def limit_headers_def int_val_str_int split: if_splits)
  moreover have "reset_at - now < rat_of_int (max 1 (py_int (reset_at - now))) + 1"
    by (rule order_less_le_trans [OF py_int_gt]) simp
  ultimately have "reset_at < later + 1"
    using py_int_gt [of reset_at] by (auto split: if_splits)
  with m \<open>s1 = s2 \<and> _\<close> show ?thesis by auto
qed

section \<open>The properties\<close>

text \<open>C17: In any stretch of requests in time order that starts with a bucket that is fresh for the key, the
  bucket in memory admits at most the burst plus what is refilled over the elapsed time.\<close>

theorem admitted_requests_bounded:
  assumes "0 < rate" "0 < burst" "in_order t qs" "mb_buckets s key = None"
  shows "rat_of_nat (admitted key qs (fst (serve mem_consume rate burst qs s)))
        \<le> rat_of_int burst + (end_time t qs - t) * rat_of_int rate / 60"
  using mem.admitted_at_most [OF assms(1-3) _ surjective_pairing, of key s] assms(4)
  by (simp add: mem_level_def)

theorem admitted_requests_bounded_witness:
  "rat_of_nat (admitted ''k'' [(0, ''k''), (1, ''k''), (2, ''k'')]
      (fst (serve mem_consume 30 2 [(0, ''k''), (1, ''k''), (2, ''k'')] empty_buckets))) \<le> 3"
  using admitted_requests_bounded [of 30 2 0 "[(0, ''k''), (1, ''k''), (2, ''k'')]" empty_buckets "''k''"]
  by (simp add: empty_buckets_def)

text \<open>C18: With the bucket in memory and a limit of at least two requests a minute, a client that waits as long as the
  middleware tells it is served: after a refusal for the seconds of \<open>Retry-After\<close>, after an admission until the
  \<open>X-RateLimit-Reset\<close> of the headers, both truncated to seconds, whatever other clients do meanwhile.\<close>

theorem admitted_after_announced_reset:
  assumes "rate_limit_middleware C mem_consume now rq s = (a, s1)" and "2 \<le> request_rate C rq"
    and "has_waited now a later" and "\<forall>q \<in> set qs. get_client_key (snd q) \<noteq> get_client_key rq"
  shows "let_through (fst (rate_limit_middleware C mem_consume later rq (limited_state C qs s1)))"
proof (cases "a = Unlimited")
  case True
  then show ?thesis
    using assms(1) by (auto simp: rate_limit_middleware_def let_through_def Let_def split: if_splits prod.splits)
next
  case False
  let ?k = "get_client_key rq" and ?n = "request_rate C rq"
  obtain r where r: "mem_consume now ?k 1 ?n ?n s = (r, s1)" "snd (snd r) < later + 1"
    using waited_for_reset [OF assms(1,3) False] by blast
  have "1 \<le> mem_level ?n ?n ?k later s1"
    using mem.admitted_near_reset [OF assms(2) r(1)] r(2) assms(3) by (simp add: has_waited_def)
  then have "fst (fst (mem_consume later ?k 1 ?n ?n (limited_state C qs s1)))"
    using mem.admit_iff [of ?n ?n later ?k] assms(2) by (simp add: others_keep_level [OF assms(4)])
  then show ?thesis
    by (auto simp: rate_limit_middleware_def let_through_def Let_def split: prod.splits)
qed

definition sample_limits :: limiter_config where
  "sample_limits = \<lparr> lc_enabled = True, lc_unauthenticated = 2, lc_authenticated = 600, lc_whitelist = [] \<rparr>"

definition sample_request :: limited_request where
  "sample_request = \<lparr> lr_method = ''GET'', lr_agent_id = [], lr_forwarded_for = [], lr_real_ip = [],
     lr_remote = None, lr_path = ''/health'' \<rparr>"

text \<open>Two requests empty the bucket, the third has to wait 60 seconds.\<close>

definition emptied_buckets :: mem_buckets where
  "emptied_buckets = limited_state sample_limits [(0, sample_request), (0, sample_request)] empty_buckets"

theorem admitted_after_announced_reset_witness:
  "\<exists>hs s1. rate_limit_middleware sample_limits mem_consume 0 sample_request emptied_buckets = (TooMany 60 hs, s1) \<and>
     let_through (fst (rate_limit_middleware sample_limits mem_consume 60 sample_request s1))"
proof -
  have "(case fst (rate_limit_middleware sample_limits mem_consume 0 sample_request emptied_buckets) of
      TooMany n hs \<Rightarrow> n = 60 | _ \<Rightarrow> False)"
    by code_simp
  then obtain hs s1 where s1:
      "rate_limit_middleware sample_limits mem_consume 0 sample_request emptied_buckets = (TooMany 60 hs, s1)"
    by (cases "rate_limit_middleware sample_limits mem_consume 0 sample_request emptied_buckets")
      (auto split: limit_outcome.splits)
  have "2 \<le> request_rate sample_limits sample_request" by code_simp
  with admitted_after_announced_reset [OF s1, of 60 "[]"] s1 show ?thesis by (simp add: has_waited_def)
qed

end
