(* ===== verification/Masking.thy ===== *)
theory Masking
  imports Guardrail
begin

text \<open>
  What the masking of a text leaves behind. A pass of \<open>pattern.sub\<close> copies the text or puts the mask, so what
  matches afterwards without touching an asterisk matched before; hence, after the passes of all sensitive
  patterns, every match that is left touches a mask. A pattern only looks at the text from its begin to one
  character behind its end, except for the first one, which also looks at the character before.
\<close>

section \<open>Patterns that only look forward\<close>

primrec looks_forward :: "regex \<Rightarrow> bool" where
  "looks_forward Empty = True"
| "looks_forward (Sym P) = True"
| "looks_forward (Many P lo) = True"
| "looks_forward (Lazy P lo) = True"
| "looks_forward (Seq a b) = (looks_forward a \<and> looks_forward b)"
| "looks_forward (Alt a b) = (looks_forward a \<and> looks_forward b)"
| "looks_forward (NotBehind P) = False"
| "looks_forward (NotAhead P) = True"
| "looks_forward WordEdge = False"
| "looks_forward AtStart = False"
| "looks_forward AtEnd = True"

text \<open>The least length of a match.\<close>

primrec width :: "regex \<Rightarrow> nat" where
  "width Empty = 0"
| "width (Sym P) = 1"
| "width (Many P lo) = lo"
| "width (Lazy P lo) = lo"
| "width (Seq a b) = width a + width b"
| "width (Alt a b) = min (width a) (width b)"
| "width (NotBehind P) = 0"
| "width (NotAhead P) = 0"
| "width WordEdge = 0"
| "width AtStart = 0"
| "width AtEnd = 0"

lemma ends_width: "j \<in> set (ends r s i) \<Longrightarrow> i + width r \<le> j"
proof (induction r arbitrary: i j)
  case (Seq a b)
  then obtain k where "k \<in> set (ends a s i)" "j \<in> set (ends b s k)" by auto
  with Seq.IH have "i + width a \<le> k" "k + width b \<le> j" by blast+
  then show ?case by simp
next
  case (Alt a b)
  then show ?case by (fastforce simp: min_def)
qed (auto simp: here_def split: if_splits)

lemma ends_after: "j \<in> set (ends r s i) \<Longrightarrow> i \<le> j"
  using ends_width by fastforce

text \<open>Two texts agree from \<open>i\<close> and \<open>i'\<close> on over \<open>n\<close> characters and the one after.\<close>

definition agree :: "nat \<Rightarrow> string \<Rightarrow> nat \<Rightarrow> string \<Rightarrow> nat \<Rightarrow> bool" where
  "agree n s i s' i' =
     (\<forall>k \<le> n. (i + k < length s \<longleftrightarrow> i' + k < length s') \<and> (i + k = length s \<longleftrightarrow> i' + k = length s') \<and>
       (i + k < length s \<longrightarrow> s ! (i + k) = s' ! (i' + k)) \<and>
       (Suc (i + k) = length s \<longleftrightarrow> Suc (i' + k) = length s'))"

lemma agreeD:
  assumes "agree n s i s' i'" "k \<le> n"
  shows "i + k < length s \<longleftrightarrow> i' + k < length s'" "i + k < length s \<Longrightarrow> s' ! (i' + k) = s ! (i + k)"
    "i + k = length s \<longleftrightarrow> i' + k = length s'" "Suc (i + k) = length s \<longleftrightarrow> Suc (i' + k) = length s'"
  using assms unfolding agree_def by auto

lemma agree_sub: "agree n s i s' i' \<Longrightarrow> k + m \<le> n \<Longrightarrow> agree m s (i + k) s' (i' + k)"
  unfolding agree_def by (auto simp: add.assoc dest!: spec [of _ "k + _"])

lemma run_length_prefix:
  "k \<le> run_length P s i \<longleftrightarrow> (\<forall>m < k. i + m < length s \<and> P (s ! (i + m)))"
proof -
  have "k \<le> length (takeWhile P xs) \<longleftrightarrow> (\<forall>m < k. m < length xs \<and> P (xs ! m))" for xs
  proof (induction xs arbitrary: k)
    case Nil
    then show ?case by auto
  next
    case (Cons x xs)
    show ?case
    proof (cases k)
      case (Suc l)
      then show ?thesis
        using Cons.IH [of l] by (auto simp: less_Suc_eq_0_disj)
    qed simp
  qed
  from this [of "drop i s"] show ?thesis
    unfolding run_length_def by (auto simp: less_diff_conv add.commute)
qed

lemma run_length_agree:
  assumes "agree n s i s' i'" "k \<le> n" "k \<le> run_length P s i" shows "k \<le> run_length P s' i'"
  unfolding run_length_prefix
proof (intro allI impI)
  fix m assume "m < k"
  then have "i + m < length s \<and> P (s ! (i + m))" using assms(3) by (simp add: run_length_prefix)
  moreover have "m \<le> n" using \<open>m < k\<close> assms(2) by simp
  ultimately show "i' + m < length s' \<and> P (s' ! (i' + m))"
    using agreeD(1,2) [OF assms(1)] by auto
qed

lemma ends_agree:
  assumes "looks_forward r" "agree n s i s' i'" "i + n \<in> set (ends r s i)"
  shows "i' + n \<in> set (ends r s' i')"
  using assms
proof (induction r arbitrary: n i i')
  case (Sym P)
  then show ?case using agreeD [of 1 s i s' i' 0] by (auto split: if_splits)
next
  case (Many P lo)
  then show ?case using run_length_agree [of n s i s' i' n P] by (auto simp: less_Suc_eq_le)
next
  case (Lazy P lo)
  then show ?case using run_length_agree [of n s i s' i' n P] by (auto simp: less_Suc_eq_le)
next
  case (Seq a b)
  then obtain k where k: "k \<in> set (ends a s i)" "i + n \<in> set (ends b s k)" by auto
  have le: "i \<le> k" "k \<le> i + n" using ends_after [OF k(1)] ends_after [OF k(2)] by auto
  define m where "m = k - i"
  have m: "k = i + m" "m \<le> n" using le by (auto simp: m_def)
  have "agree m s i s' i'" using agree_sub [OF Seq.prems(2), of 0 m] m by simp
  then have 1: "i' + m \<in> set (ends a s' i')" using Seq.IH(1) Seq.prems(1) k(1) m by simp
  have "agree (n - m) s (i + m) s' (i' + m)" using agree_sub [OF Seq.prems(2), of m "n - m"] m by simp
  then have "(i' + m) + (n - m) \<in> set (ends b s' (i' + m))"
    using Seq.IH(2) [of "n - m" "i + m" "i' + m"] Seq.prems(1) k(2) m by simp
  with 1 m show ?case by auto
next
  case (NotAhead P)
  then show ?case using agreeD [of 0 s i s' i' 0] by (auto simp: here_def split: if_splits)
next
  case AtEnd
  have "i + n = length s \<longleftrightarrow> i' + n = length s'" "i + n < length s \<longleftrightarrow> i' + n < length s'" "i + n < length s \<Longrightarrow> s' ! (i' + n) = s ! (i + n)"
    "Suc (i + n) = length s \<longleftrightarrow> Suc (i' + n) = length s'"
    using agreeD [OF AtEnd(2), of n] by auto
  moreover have "n = 0" using AtEnd(3) by (auto simp: here_def split: if_splits)
  ultimately show ?case using AtEnd(3) by (auto simp: here_def split: if_splits)
qed auto

section \<open>One pass\<close>

abbreviation star :: char where
  "star \<equiv> CHR ''*''"

lemma sub_nonempty: "repl \<noteq> [] \<Longrightarrow> x < length s \<Longrightarrow> rx_sub_from r repl s x \<noteq> []"
  by (subst rx_sub_from.simps) (simp split: list.split)

lemma sub_done: "length s \<le> x \<Longrightarrow> rx_sub_from r repl s x = []"
  by (subst rx_sub_from.simps) simp

text \<open>Where the pass copies: no match of the pattern begins there.\<close>

definition copied :: "regex \<Rightarrow> string \<Rightarrow> nat \<Rightarrow> bool" where
  "copied r s i = (ends r s i = [] \<or> hd (ends r s i) \<le> i)"

text \<open>What stands before position \<open>i\<close> of the result: the begin, the copied character, or the mask of a match that ends here.\<close>

definition behind :: "regex \<Rightarrow> string \<Rightarrow> nat \<Rightarrow> string \<Rightarrow> nat \<Rightarrow> nat \<Rightarrow> bool" where
  "behind r s x u i i0 =
     ((i = 0 \<and> i0 = x) \<or> (0 < i \<and> x < i0 \<and> u ! (i - 1) = s ! (i0 - 1)) \<or>
      (0 < i \<and> (\<exists>b. x \<le> b \<and> b < i0 \<and> ends r s b \<noteq> [] \<and> hd (ends r s b) = i0)))"

definition window :: "regex \<Rightarrow> string \<Rightarrow> nat \<Rightarrow> string \<Rightarrow> nat \<Rightarrow> nat \<Rightarrow> nat \<Rightarrow> bool" where
  "window r s x u i n i0 =
     (x \<le> i0 \<and> i0 + n \<le> length s \<and> (\<forall>k < n. s ! (i0 + k) = u ! (i + k)) \<and> copied r s i0 \<and>
      (i + n = length u \<longleftrightarrow> i0 + n = length s) \<and> behind r s x u i i0)"

lemma window_shift:
  assumes "window r s y u i n i0" "x < y" "v \<noteq> []"
    and "i = 0 \<Longrightarrow> last v = s ! (y - 1) \<or> (\<exists>b. x \<le> b \<and> b < y \<and> ends r s b \<noteq> [] \<and> hd (ends r s b) = y)"
  shows "window r s x (v @ u) (length v + i) n i0"
proof -
  have "behind r s x (v @ u) (length v + i) i0"
  proof (cases i)
    case 0
    then have "i0 = y" using assms(1) by (simp add: window_def behind_def)
    moreover have "(v @ u) ! (length v - 1) = last v" using assms(3) by (simp add: nth_append last_conv_nth)
    ultimately show ?thesis using 0 assms(2-4) by (auto simp: behind_def)
  next
    case (Suc i')
    then have "(v @ u) ! (length v + i - 1) = u ! i'" by (simp add: nth_append)
    then show ?thesis
      using assms(1,2) Suc unfolding window_def behind_def by (auto intro: order_trans [of x y, OF less_imp_le])
  qed
  then show ?thesis
    using assms(1,2) by (auto simp: window_def nth_append add.assoc)
qed

lemma sub_window:
  assumes "x \<le> length s" "0 < n" "i + n \<le> length (rx_sub_from r ''***'' s x)"
    and "\<forall>k < n. rx_sub_from r ''***'' s x ! (i + k) \<noteq> star"
  shows "\<exists>i0. window r s x (rx_sub_from r ''***'' s x) i n i0"
  using assms
proof (induction "length s - x" arbitrary: x i n rule: less_induct)
  case less
  let ?u = "rx_sub_from r ''***'' s"
  have x: "x < length s" using less.prems(2,3) sub_done [of s x r "''***''"] by (cases "x < length s") auto
  show ?case
  proof (cases "copied r s x")
    case True
    have u: "?u x = s ! x # ?u (Suc x)"
      using x True by (subst rx_sub_from.simps) (auto simp: copied_def split: list.splits)
    show ?thesis
    proof (cases i)
      case 0
      show ?thesis
      proof (cases "n = 1")
        case True
        have "?u (Suc x) = [] \<longleftrightarrow> Suc x = length s"
          using x sub_nonempty [of "''***''" "Suc x" s r] sub_done [of s "Suc x" r "''***''"]
          by (cases "Suc x < length s") auto
        then have "window r s x (?u x) i n x"
          using 0 True x \<open>copied r s x\<close> u by (auto simp: window_def behind_def)
        then show ?thesis by blast
      next
        case False
        then obtain m where m: "n = Suc m" "0 < m" using less.prems(2) by (cases n) auto
        have "?u (Suc x) ! (0 + k) \<noteq> star" if "k < m" for k
          using less.prems(4) [rule_format, of "Suc k"] that u 0 m by simp
        then have "\<exists>i0. window r s (Suc x) (?u (Suc x)) 0 m i0"
          using less.hyps [of "Suc x" m 0] less.prems(3) x u 0 m by simp
        then have "window r s (Suc x) (?u (Suc x)) 0 m (Suc x)" by (auto simp: window_def behind_def)
        then have "window r s x (?u x) i n x"
          using 0 m x u \<open>copied r s x\<close> by (auto simp: window_def behind_def nth_Cons split: nat.split)
        then show ?thesis by blast
      qed
    next
      case (Suc i')
      have "\<exists>i0. window r s (Suc x) (?u (Suc x)) i' n i0"
        using less.hyps [of "Suc x" n i'] less.prems(2-4) x u Suc by simp
      then obtain i0 where "window r s (Suc x) (?u (Suc x)) i' n i0" by blast
      then have "window r s x ([s ! x] @ ?u (Suc x)) (length [s ! x] + i') n i0"
        by (rule window_shift) auto
      then show ?thesis using u Suc by auto
    qed
  next
    case False
    then obtain j js where j: "ends r s x = j # js" "x < j" by (cases "ends r s x") (auto simp: copied_def)
    have u: "?u x = ''***'' @ ?u j" using x j by (subst rx_sub_from.simps) simp
    have le: "j \<le> length s" using ends_bounds [of j r s x] j(1) x by simp
    have "\<not> i < 3"
    proof
      assume "i < 3"
      then have "i = 0 \<or> i = 1 \<or> i = 2" by auto
      then show False using less.prems(2) less.prems(4) [rule_format, of 0] u by auto
    qed
    then obtain i' where i: "i = 3 + i'" by (metis add_diff_inverse_nat)
    have "\<exists>i0. window r s j (?u j) i' n i0"
      using less.hyps [of j n i'] less.prems(2-4) x le j(2) u i by (simp add: nth_append)
    then obtain i0 where "window r s j (?u j) i' n i0" by blast
    then have "window r s x (''***'' @ ?u j) (length ''***'' + i') n i0"
      using j by (intro window_shift [where y = j]) auto
    then show ?thesis using u i by (auto simp: numeral_3_eq_3)
  qed
qed

section \<open>Matches that touch no mask\<close>

definition touches_star :: "string \<Rightarrow> nat \<Rightarrow> nat \<Rightarrow> bool" where
  "touches_star t i j = (\<exists>k. i \<le> k \<and> k \<le> j \<and> k < length t \<and> t ! k = star)"

definition hides :: "regex \<Rightarrow> string \<Rightarrow> bool" where
  "hides r t = (\<forall>i \<le> length t. \<forall>j \<in> set (ends r t i). touches_star t i j)"

lemma forward_match_before:
  assumes "looks_forward q" "0 < width q" "u = rx_sub r ''***'' s" "i \<le> length u" "j \<in> set (ends q u i)" "\<not> touches_star u i j"
  shows "\<exists>i0 j0. i0 \<le> length s \<and> j0 \<in> set (ends q s i0) \<and> \<not> touches_star s i0 j0 \<and> copied r s i0 \<and>
    behind r s 0 u i i0 \<and> i0 < length s \<and> s ! i0 = u ! i"
proof -
  have u: "u = rx_sub_from r ''***'' s 0" using assms(3) by (simp add: rx_sub_def)
  have j: "i < j" "j \<le> length u" using ends_width [OF assms(5)] ends_bounds [OF assms(5,4)] assms(2) by auto
  define m where "m = j - i"
  define n where "n = (if j < length u then Suc m else m)"
  have free: "\<forall>k < n. u ! (i + k) \<noteq> star"
    using assms(6) j by (auto simp: touches_star_def n_def m_def split: if_splits)
  have n: "0 < n" "i + n \<le> length u" "i + m = j" using j by (auto simp: n_def m_def)
  then obtain i0 where w: "window r s 0 u i n i0"
    using sub_window [of 0 s n i] free u by auto
  then have i0: "i0 + n \<le> length s" "\<And>k. k < n \<Longrightarrow> s ! (i0 + k) = u ! (i + k)" "copied r s i0"
    "i + n = length u \<longleftrightarrow> i0 + n = length s" "behind r s 0 u i i0"
    by (auto simp: window_def)
  have "agree m u i s i0"
    unfolding agree_def
  proof (intro allI impI)
    fix k assume "k \<le> m"
    then show "(i + k < length u \<longleftrightarrow> i0 + k < length s) \<and> (i + k = length u \<longleftrightarrow> i0 + k = length s) \<and>
        (i + k < length u \<longrightarrow> u ! (i + k) = s ! (i0 + k)) \<and> (Suc (i + k) = length u \<longleftrightarrow> Suc (i0 + k) = length s)"
      using n i0(1,2,4) j by (cases "j < length u") (auto simp: n_def m_def)
  qed
  then have "i0 + m \<in> set (ends q s i0)"
    using ends_agree [OF assms(1)] assms(5) n(3) by blast
  moreover have "\<not> touches_star s i0 (i0 + m)"
  proof
    assume "touches_star s i0 (i0 + m)"
    then obtain k where k: "k \<le> m" "i0 + k < length s" "s ! (i0 + k) = star"
      unfolding touches_star_def by (metis le_Suc_ex nat_add_left_cancel_le)
    then have "k < n" using n i0(4) j by (auto simp: n_def split: if_splits)
    then show False using free i0(2) k(3) by simp
  qed
  moreover have "i0 < length s" "s ! i0 = u ! i" using i0(1) i0(2) [of 0] n(1) by auto
  ultimately show ?thesis using i0(1,3,5) by (intro exI [of _ i0] exI [of _ "i0 + m"]) simp
qed

section \<open>How a match ends\<close>

text \<open>A match does not end with a character the first pattern refuses before its begin, or no letter or digit follows.\<close>

definition key_char :: "char \<Rightarrow> bool" where
  "key_char c = (alnum c \<or> in_chars ''+/='' c)"

definition ends_well :: "string \<Rightarrow> nat \<Rightarrow> bool" where
  "ends_well s j = ((0 < j \<and> j \<le> length s \<and> \<not> key_char (s ! (j - 1))) \<or> length s \<le> j \<or> \<not> alnum (s ! j))"

primrec tail_ok :: "regex \<Rightarrow> bool" where
  "tail_ok Empty = False"
| "tail_ok (Sym P) = (\<forall>c. P c \<longrightarrow> \<not> key_char c)"
| "tail_ok (Many P lo) = False"
| "tail_ok (Lazy P lo) = False"
| "tail_ok (Seq a b) = tail_ok b"
| "tail_ok (Alt a b) = (tail_ok a \<and> tail_ok b)"
| "tail_ok (NotBehind P) = False"
| "tail_ok (NotAhead P) = (\<forall>c. alnum c \<longrightarrow> P c)"
| "tail_ok WordEdge = False"
| "tail_ok AtStart = False"
| "tail_ok AtEnd = True"

lemma tail_ok_ends: "tail_ok r \<Longrightarrow> i \<le> length s \<Longrightarrow> j \<in> set (ends r s i) \<Longrightarrow> ends_well s j"
proof (induction r arbitrary: i j)
  case (Seq a b)
  then obtain k where k: "k \<in> set (ends a s i)" "j \<in> set (ends b s k)" by auto
  then have "k \<le> length s" using ends_bounds Seq.prems(2) by blast
  with Seq k show ?case by auto
next
  case AtEnd
  then show ?case by (auto simp: ends_well_def here_def alnum_def split: if_splits)
qed (auto simp: ends_well_def here_def split: if_splits)

section \<open>The sensitive patterns\<close>

text \<open>The first pattern is a lookbehind and a pattern that looks forward; all others look forward.\<close>

definition aws_key :: regex where
  "aws_key = seqs [lit ''AKIA'', exactly upper_digit 16, NotAhead alnum]"

lemma aws_pattern: "hd SENSITIVE_PATTERNS = Seq (NotBehind key_char) aws_key"
  by (simp add: SENSITIVE_PATTERNS_def aws_key_def key_char_def [abs_def])

lemma width_seqs [simp]: "width (seqs rs) = sum_list (map width rs)"
  by (induction rs rule: seqs.induct) simp_all

lemma looks_forward_seqs [simp]: "looks_forward (seqs rs) = list_all looks_forward rs"
  by (induction rs rule: seqs.induct) simp_all

lemma looks_forward_alts [simp]: "looks_forward (alts rs) = list_all looks_forward rs"
  by (induction rs rule: alts.induct) simp_all

lemma tail_ok_seqs: "rs \<noteq> [] \<Longrightarrow> tail_ok (seqs rs) = tail_ok (last rs)"
  by (induction rs rule: seqs.induct) simp_all

lemma tail_ok_alts: "rs \<noteq> [] \<Longrightarrow> tail_ok (alts rs) = list_all tail_ok rs"
  by (induction rs rule: alts.induct) auto

lemma words_forward [simp]: "looks_forward (lit w)" "looks_forward (ci w)" "looks_forward (exactly P n)"
  "looks_forward spaces" "looks_forward spaces0" "looks_forward (opt r) = looks_forward r" "looks_forward api_key"
  by (simp_all add: lit_def ci_def exactly_def spaces_def spaces0_def opt_def api_key_def list_all_iff)

lemma words_width [simp]: "width (lit w) = length w" "width (exactly P n) = n"
  by (simp_all add: lit_def exactly_def comp_def sum_list_triv sum_list_replicate)

lemma not_key_chars: "py_isspace c \<Longrightarrow> \<not> key_char c" "\<not> key_char (CHR 0x22)" "\<not> key_char (CHR 0x27)" "\<not> key_char (CHR ''-'')"
  "\<not> key_char (CHR ''@'')"
  by (auto simp: key_char_def alnum_def in_chars_def py_isspace_def Let_def)

lemma patterns_forward: "list_all (\<lambda>q. looks_forward q \<and> 0 < width q) (aws_key # tl SENSITIVE_PATTERNS)"
  by (simp add: SENSITIVE_PATTERNS_def aws_key_def)

lemma patterns_end_well: "list_all tail_ok SENSITIVE_PATTERNS"
  by (simp add: SENSITIVE_PATTERNS_def tail_ok_seqs tail_ok_alts lit_def dquote_def in_chars_def not_key_chars)

section \<open>All passes\<close>

lemma hd_or_tl: "x \<in> set xs \<Longrightarrow> x = hd xs \<or> x \<in> set (tl xs)"
  by (cases xs) auto

lemma pattern_cases:
  assumes "q \<in> set SENSITIVE_PATTERNS"
  shows "q = Seq (NotBehind key_char) aws_key \<or> (looks_forward q \<and> 0 < width q)"
  using hd_or_tl [OF assms] patterns_forward aws_pattern by (auto simp: list_all_iff)

lemma pattern_width: "q \<in> set SENSITIVE_PATTERNS \<Longrightarrow> 0 < width q"
  using pattern_cases [of q] patterns_forward by auto

lemma aws_key_ends: "j \<in> set (ends (Seq (NotBehind key_char) aws_key) s i) \<longleftrightarrow>
    \<not> (0 < i \<and> i \<le> length s \<and> key_char (s ! (i - 1))) \<and> j \<in> set (ends aws_key s i)"
  by (auto simp: here_def)

lemma aws_key_begin: "j \<in> set (ends aws_key s i) \<Longrightarrow> i < length s \<and> s ! i = CHR ''A''"
  by (auto simp: aws_key_def lit_def split: if_splits)

text \<open>A match without a mask after the pass of a sensitive pattern was there before, in a part that was copied.\<close>

lemma match_before:
  assumes "q \<in> set SENSITIVE_PATTERNS" "r \<in> set SENSITIVE_PATTERNS" "u = rx_sub r ''***'' s"
    and "i \<le> length u" "j \<in> set (ends q u i)" "\<not> touches_star u i j"
  shows "\<exists>i0 j0. i0 \<le> length s \<and> j0 \<in> set (ends q s i0) \<and> \<not> touches_star s i0 j0 \<and> copied r s i0 \<and> i0 < j0"
proof (cases "q = Seq (NotBehind key_char) aws_key")
  case False
  then have q: "looks_forward q" "0 < width q" using pattern_cases [OF assms(1)] by auto
  then obtain i0 j0 where m: "i0 \<le> length s" "j0 \<in> set (ends q s i0)" "\<not> touches_star s i0 j0" "copied r s i0"
    using forward_match_before [OF q assms(3-6)] by blast
  with ends_width [OF m(2)] q(2) show ?thesis by fastforce
next
  case q: True
  have k: "looks_forward aws_key" "0 < width aws_key" using patterns_forward by auto
  have here: "j \<in> set (ends aws_key u i)" "\<not> (0 < i \<and> i \<le> length u \<and> key_char (u ! (i - 1)))"
    using assms(5) unfolding q aws_key_ends by auto
  obtain i0 j0 where m: "i0 \<le> length s" "j0 \<in> set (ends aws_key s i0)" "\<not> touches_star s i0 j0" "copied r s i0"
      "behind r s 0 u i i0" "i0 < length s" "s ! i0 = u ! i"
    using forward_match_before [OF k assms(3,4) here(1) assms(6)] by blast
  have "\<not> (0 < i0 \<and> i0 \<le> length s \<and> key_char (s ! (i0 - 1)))"
  proof
    assume key: "0 < i0 \<and> i0 \<le> length s \<and> key_char (s ! (i0 - 1))"
    with m(5) here(2) assms(4) obtain b where b: "b < i0" "ends r s b \<noteq> []" "hd (ends r s b) = i0"
      by (auto simp: behind_def)
    then have "i0 \<in> set (ends r s b)" by (metis hd_in_set)
    moreover have "tail_ok r" using assms(2) patterns_end_well by (simp add: list_all_iff)
    ultimately have "ends_well s i0" using tail_ok_ends b(1) m(6) by (metis less_imp_le less_trans)
    moreover have "alnum (s ! i0)" using aws_key_begin [OF m(2)] by (simp add: alnum_def)
    ultimately show False using key m(6) by (simp add: ends_well_def)
  qed
  then have "j0 \<in> set (ends q s i0)" using m(2) unfolding q aws_key_ends by simp
  moreover have "i0 < j0" using ends_width [OF m(2)] k(2) by simp
  ultimately show ?thesis using m(1,3,4) by blast
qed

lemma mask_hides:
  assumes "r \<in> set SENSITIVE_PATTERNS"
  shows "hides r (fst (mask_with r (s, b)))"
proof (cases "rx_found r s")
  case True
  have "touches_star (rx_sub r ''***'' s) i j"
    if ij: "i \<le> length (rx_sub r ''***'' s)" "j \<in> set (ends r (rx_sub r ''***'' s) i)" for i j
  proof (rule ccontr)
    assume "\<not> touches_star (rx_sub r ''***'' s) i j"
    then obtain i0 j0 where m: "j0 \<in> set (ends r s i0)" "copied r s i0" "i0 < j0" "i0 \<le> length s"
      using match_before [OF assms assms refl ij] by blast
    then have "hd (ends r s i0) = i0"
      using ends_after [of "hd (ends r s i0)" r s i0] by (cases "ends r s i0") (auto simp: copied_def)
    then have "i0 \<in> set (ends r s i0)" using m(1) by (metis empty_iff hd_in_set list.set(1))
    then show False using ends_width [of i0 r s i0] pattern_width [OF assms] by simp
  qed
  then show ?thesis using True by (simp add: mask_with_def hides_def)
next
  case False
  then show ?thesis by (auto simp: mask_with_def hides_def rx_found_iff)
qed

lemma mask_keeps_hidden:
  assumes "q \<in> set SENSITIVE_PATTERNS" "r \<in> set SENSITIVE_PATTERNS" "hides q s"
  shows "hides q (fst (mask_with r (s, b)))"
proof (cases "rx_found r s")
  case True
  then show ?thesis
    using match_before [OF assms(1,2) refl] assms(3) by (simp add: mask_with_def hides_def) blast
next
  case False
  then show ?thesis using assms(3) by (simp add: mask_with_def)
qed

lemma fold_mask_hides:
  "set rs \<subseteq> set SENSITIVE_PATTERNS \<Longrightarrow> \<forall>q \<in> Q. hides q (fst st) \<Longrightarrow> Q \<subseteq> set SENSITIVE_PATTERNS \<Longrightarrow>
    \<forall>q \<in> Q \<union> set rs. hides q (fst (fold mask_with rs st))"
proof (induction rs arbitrary: Q st)
  case (Cons r rs)
  have "\<forall>q \<in> insert r Q. hides q (fst (mask_with r st))"
    using Cons.prems mask_hides [of r "fst st" "snd st"] mask_keeps_hidden [of _ r "fst st" "snd st"] by auto
  then have "\<forall>q \<in> insert r Q \<union> set rs. hides q (fst (fold mask_with rs (mask_with r st)))"
    using Cons.IH [of "insert r Q" "mask_with r st"] Cons.prems by auto
  then show ?case by simp
qed simp

text \<open>After masking, every match of a sensitive pattern touches a mask.\<close>

definition masked_text :: "string \<Rightarrow> bool" where
  "masked_text t = (\<forall>r \<in> set SENSITIVE_PATTERNS. hides r t)"

lemma mask_text_masked: "masked_text (fst (mask_text t))"
  using fold_mask_hides [of SENSITIVE_PATTERNS "{}" "(t, False)"] by (simp add: masked_text_def mask_text_def)

lemma mask_masked: "masked_text ''***''"
proof -
  have "touches_star ''***'' i j" if "r \<in> set SENSITIVE_PATTERNS" "i \<le> 3" "j \<in> set (ends r ''***'' i)" for r i j
  proof -
    have "i < j" using ends_width [OF that(3)] pattern_width [OF that(1)] by simp
    moreover have "j \<le> 3" using ends_bounds [OF that(3)] that(2) by simp
    ultimately have "i < 3" "i \<le> j" by auto
    then have "''***'' ! i = star" by (auto simp: less_Suc_eq numeral_3_eq_3)
    with \<open>i < 3\<close> \<open>i \<le> j\<close> show ?thesis by (auto simp: touches_star_def)
  qed
  then show ?thesis by (simp add: masked_text_def hides_def)
qed

end
