(* ===== verification/GuardrailProps.thy ===== *)
theory GuardrailProps
  imports Masking
begin

text \<open>
  What the guardrails promise: masking keeps the shape of the output, hides the strings under
  sensitive keys and reports exactly the data it changed; the scan blocks exactly the input whose
  flattened text holds an injection pattern, down to its depth limit.
\<close>

section \<open>Masking a text\<close>








section \<open>Masking a tree\<close>






lemma sanitised_simps [simp]:
  "sanitised (add_path p rep)" "sanitised (add_report rep child) \<longleftrightarrow> sanitised rep \<or> sanitised child"
  "\<not> sanitised SanitizeReport_default"
  by (simp_all add: add_path_def add_report_def SanitizeReport_default_def)







section \<open>Flattening\<close>

text \<open>What the scan does not see: the values below depth \<open>m\<close>.\<close>

fun prune :: "nat \<Rightarrow> nat \<Rightarrow> json \<Rightarrow> json" where
  "prune d m (JObj kvs) = (if m < d then JNull else JObj (map (\<lambda>(k, v). (k, prune (Suc d) m v)) kvs))"
| "prune d m (JList js) = (if m < d then JNull else JList (map (prune (Suc d) m) js))"
| "prune d m j = (if m < d then JNull else j)"

lemma flatten_prune: "flatten_to_text d m (prune d m j) = flatten_to_text d m j"
proof (induction d m j rule: prune.induct)
  case (1 d m kvs)
  have "flatten_to_text (Suc d) m (prune (Suc d) m (snd kv)) = flatten_to_text (Suc d) m (snd kv)"
    if "\<not> m < d" "kv \<in> set kvs" for kv
    by (rule 1 [OF that surjective_pairing [symmetric]])
  then show ?case by (simp add: comp_def case_prod_beta cong: map_cong)
next
  case (2 d m js)
  then show ?case by (auto simp: comp_def cong: map_cong)
qed simp_all

section \<open>The properties\<close>

lemma rows_guard_event:
  "row_by se_id eid (se_rows s) = None \<Longrightarrow>
    se_rows (guard_event eid now ty target dec c why meta s) =
      se_rows s @ [event_row eid now ((EventArgs_default (event_type_value ty) (gc_actor c) target dec)
        \<lparr> ea_tenant := gc_tenant c, ea_reason := why, ea_metadata := meta, ea_task_id := gc_task_id c \<rparr>)]"
  by (simp add: guard_event_def rows_record_event)

lemma event_row_fields [simp]:
  "se_decision (event_row eid now a) = ea_decision a" "se_actor (event_row eid now a) = ea_actor a"
  "se_target (event_row eid now a) = ea_target a" "se_type (event_row eid now a) = ea_type a"
  by (simp_all add: event_row_def new_event_def)

lemma EventArgs_default_fields [simp]:
  "ea_decision (EventArgs_default ty ac tg dec) = dec" "ea_actor (EventArgs_default ty ac tg dec) = ac"
  "ea_target (EventArgs_default ty ac tg dec) = tg" "ea_type (EventArgs_default ty ac tg dec) = ty"
  by (simp_all add: EventArgs_default_def)



definition demo_guard_caller :: guard_caller where
  "demo_guard_caller = \<lparr> gc_actor = ''a'', gc_tenant = [], gc_task_id = None \<rparr>"

definition empty_trail :: event_store where
  "empty_trail = \<lparr> se_rows = [], has_bus = False, published = [] \<rparr>"





lemma first_match_None_iff: "first_match rs t = None \<longleftrightarrow> list_all (\<lambda>r. \<not> rx_found r t) rs"
  by (auto simp: first_match_def find_None_iff list_all_iff)

text \<open>The inbound scan reacts exactly when an injection pattern is found in the flattened input: then it
  records one event that names the submitter and blocks the input unless the mode is audit or warn;
  otherwise it allows the input and records nothing. Values below the eighth level make no
  difference.\<close>

theorem check_inbound_spec:
  assumes "check_inbound em eid now data md c s = (r, s')" "row_by se_id eid (se_rows s) = None"
  shows "(gr_allowed r \<longleftrightarrow>
      list_all (\<lambda>p. \<not> rx_found p (flatten_to_text 0 8 data)) INJECTION_PATTERNS \<or>
      flatten_to_text 0 8 data = [] \<or> opt_or md em \<in> {''audit'', ''warn''}) \<and>
    (if list_all (\<lambda>p. \<not> rx_found p (flatten_to_text 0 8 data)) INJECTION_PATTERNS \<or> flatten_to_text 0 8 data = []
     then s' = s
     else \<exists>ev. se_rows s' = se_rows s @ [ev] \<and> se_actor ev = gc_actor c \<and>
       se_decision ev = (if gr_allowed r then ''allow'' else ''deny'')) \<and>
    check_inbound em eid now (prune 0 8 data) md c s = (r, s')"
proof -
  have "check_inbound em eid now (prune 0 8 data) md c s = (r, s')"
    using assms(1) by (simp add: check_inbound_def flatten_prune)
  then show ?thesis
    using assms rows_guard_event [OF assms(2)] first_match_None_iff [of INJECTION_PATTERNS "flatten_to_text 0 8 data"]
    by (auto simp: check_inbound_def Let_def apply_mode_def GuardrailResult_default_def split: option.splits if_splits)
qed

theorem check_inbound_spec_witness:
  "\<not> gr_allowed (fst (check_inbound ''warn'' ''e'' 0 (JObj [(''q'', JStr ''{{x}}'')])
     (Some ''enforce'') demo_guard_caller empty_trail))"
proof -
  have "rx_found (INJECTION_PATTERNS ! 8) (flatten_to_text 0 8 (JObj [(''q'', JStr ''{{x}}'')]))"
    by code_simp
  then have "\<not> list_all (\<lambda>p. \<not> rx_found p (flatten_to_text 0 8 (JObj [(''q'', JStr ''{{x}}'')])))
      INJECTION_PATTERNS"
    by (auto simp: list_all_iff INJECTION_PATTERNS_def)
  then show ?thesis
    using check_inbound_spec [OF surjective_pairing, where s = empty_trail and md = "Some ''enforce''" and
        data = "JObj [(''q'', JStr ''{{x}}'')]"]
    by (simp add: empty_trail_def opt_or_def str_or_def)
qed

end
