(* ===== verification/EventBus.thy ===== *)
theory EventBus
  imports Prelude "HOL-Library.Sublist"
begin

text \<open>
  \<open>events/event_bus.py\<close>: the broadcast bus with one bounded queue per subscriber. The queues are
  the dict from subscriber ids to pending events; a queue size that is not positive is no bound.
  Ids and the time of an event are arguments; a subscriber that waits is a \<open>receive\<close> that finds
  nothing.
\<close>

record 'd bus_event =
  be_type :: string
  be_data :: 'd
  be_id :: string
  be_timestamp :: int
  be_tenant :: string

datatype BackpressurePolicy = DROP_OLDEST | DROP_NEWEST | BLOCK

definition DEFAULT_MAX_QUEUE_SIZE :: int where
  "DEFAULT_MAX_QUEUE_SIZE = 1024"

record 'e event_bus =
  max_queue_size :: int
  backpressure :: BackpressurePolicy
  queues :: "(string \<times> 'e list) list"
  closed :: bool

definition new_bus :: "int \<Rightarrow> BackpressurePolicy \<Rightarrow> 'e event_bus" where
  "new_bus n p = \<lparr> max_queue_size = n, backpressure = p, queues = [], closed = False \<rparr>"

definition subscriber_count :: "'e event_bus \<Rightarrow> nat" where
  "subscriber_count b = length (queues b)"

text \<open>\<open>subscribe\<close>: \<open>None\<close> is the \<open>RuntimeError\<close> of a closed bus.\<close>

definition subscribe :: "string \<Rightarrow> 'e event_bus \<Rightarrow> 'e event_bus option" where
  "subscribe i b = (if closed b then None else Some (b\<lparr>queues := dict_put i [] (queues b)\<rparr>))"

definition unsubscribe :: "string \<Rightarrow> 'e event_bus \<Rightarrow> 'e event_bus" where
  "unsubscribe i b = b\<lparr>queues := filter (\<lambda>q. fst q \<noteq> i) (queues b)\<rparr>"

definition queue_full :: "int \<Rightarrow> 'e list \<Rightarrow> bool" where
  "queue_full n q = (0 < n \<and> n \<le> int (length q))"

definition put_event :: "int \<Rightarrow> BackpressurePolicy \<Rightarrow> 'e \<Rightarrow> 'e list \<Rightarrow> 'e list" where
  "put_event n p e q =
     (if \<not> queue_full n q then q @ [e]
      else (case p of DROP_OLDEST \<Rightarrow> tl q @ [e] | DROP_NEWEST \<Rightarrow> q | BLOCK \<Rightarrow> q))"

definition publish :: "'e \<Rightarrow> 'e event_bus \<Rightarrow> 'e event_bus" where
  "publish e b =
     (if closed b then b
      else b\<lparr>queues := map (\<lambda>(i, q). (i, put_event (max_queue_size b) (backpressure b) e q)) (queues b)\<rparr>)"

text \<open>One turn of the iterator of \<open>events\<close>: an unknown subscriber raises, a closed bus ends the
  iteration, and an empty queue waits.\<close>

datatype 'e turn = NoSubscriber | Ended | Waiting | Event 'e

definition receive :: "string \<Rightarrow> 'e event_bus \<Rightarrow> 'e turn \<times> 'e event_bus" where
  "receive i b =
     (case map_of (queues b) i of
        None \<Rightarrow> (NoSubscriber, b)
      | Some q \<Rightarrow>
          if closed b then (Ended, b)
          else (case q of [] \<Rightarrow> (Waiting, b) | e # q' \<Rightarrow> (Event e, b\<lparr>queues := dict_put i q' (queues b)\<rparr>)))"

definition close :: "'e event_bus \<Rightarrow> 'e event_bus" where
  "close b = b\<lparr>closed := True, queues := []\<rparr>"

section \<open>One subscriber among others\<close>

datatype 'e bus_op = Subscribe string | Unsubscribe string | Publish 'e | Receive string

primrec bus_step :: "'e bus_op \<Rightarrow> 'e event_bus \<Rightarrow> 'e turn option \<times> 'e event_bus" where
  "bus_step (Subscribe i) b = (None, case subscribe i b of None \<Rightarrow> b | Some b' \<Rightarrow> b')"
| "bus_step (Unsubscribe i) b = (None, unsubscribe i b)"
| "bus_step (Publish e) b = (None, publish e b)"
| "bus_step (Receive i) b = (let (t, b') = receive i b in (Some t, b'))"

text \<open>The operations leave the subscription of \<open>i\<close> alone; and what \<open>i\<close> gets in a run.\<close>

fun keeps_subscription :: "string \<Rightarrow> 'e bus_op list \<Rightarrow> bool" where
  "keeps_subscription i [] = True"
| "keeps_subscription i (Subscribe j # ops) = (j \<noteq> i \<and> keeps_subscription i ops)"
| "keeps_subscription i (Unsubscribe j # ops) = (j \<noteq> i \<and> keeps_subscription i ops)"
| "keeps_subscription i (_ # ops) = keeps_subscription i ops"

fun published_events :: "'e bus_op list \<Rightarrow> 'e list" where
  "published_events [] = []"
| "published_events (Publish e # ops) = e # published_events ops"
| "published_events (_ # ops) = published_events ops"

definition hands :: "string \<Rightarrow> 'e bus_op \<Rightarrow> 'e event_bus \<Rightarrow> 'e list" where
  "hands i opn b = (case (opn, fst (bus_step opn b)) of (Receive j, Some (Event e)) \<Rightarrow> if j = i then [e] else [] | _ \<Rightarrow> [])"

primrec received_by :: "string \<Rightarrow> 'e bus_op list \<Rightarrow> 'e event_bus \<Rightarrow> 'e list" where
  "received_by i [] b = []"
| "received_by i (opn # ops) b = hands i opn b @ received_by i ops (snd (bus_step opn b))"

definition run_bus :: "'e bus_op list \<Rightarrow> 'e event_bus \<Rightarrow> 'e event_bus" where
  "run_bus ops b = fold (\<lambda>opn b. snd (bus_step opn b)) ops b"

lemma run_bus_simps [simp]:
  "run_bus [] b = b" "run_bus (opn # ops) b = run_bus ops (snd (bus_step opn b))"
  by (simp_all add: run_bus_def)

lemma bus_step_frame [simp]:
  "closed (snd (bus_step opn b)) = closed b"
  "max_queue_size (snd (bus_step opn b)) = max_queue_size b"
  "backpressure (snd (bus_step opn b)) = backpressure b"
  by (cases opn; simp add: subscribe_def unsubscribe_def publish_def receive_def Let_def split: prod.splits option.splits list.splits)+

lemma map_of_each_queue: "map_of (map (\<lambda>(i, q). (i, f q)) qs) k = map_option f (map_of qs k)"
  by (induction qs) auto

lemma map_of_drop_key: "k \<noteq> i \<Longrightarrow> map_of (filter (\<lambda>q. fst q \<noteq> i) qs) k = map_of qs k"
  by (induction qs) auto

text \<open>What one operation does to the queue of \<open>i\<close>.\<close>

lemma step_queue:
  assumes "map_of (queues b) i = Some q" "\<not> closed b" "keeps_subscription i [opn]"
  shows "\<exists>q'. map_of (queues (snd (bus_step opn b))) i = Some q' \<and>
    (case opn of
       Publish e \<Rightarrow> hands i opn b = [] \<and> q' = put_event (max_queue_size b) (backpressure b) e q
     | _ \<Rightarrow> hands i opn b @ q' = q)"
  using assms
  by (cases opn)
    (auto simp: hands_def subscribe_def unsubscribe_def publish_def receive_def map_of_each_queue map_of_drop_key
      split: option.splits list.splits)

lemma keeps_Cons: "keeps_subscription i (opn # ops) \<longleftrightarrow> keeps_subscription i [opn] \<and> keeps_subscription i ops"
  by (cases opn) auto

lemma suffix_tl_snoc: "suffix (tl q @ [e]) (q @ [e])"
  by (cases q) (simp_all add: suffix_Cons)

lemma put_event_subseq: "subseq (put_event n p e q) (q @ [e])"
  using suffix_imp_subseq [OF suffix_tl_snoc [of q e]] prefix_imp_subseq [of q "q @ [e]"]
  by (simp add: put_event_def split: BackpressurePolicy.splits)

lemma put_event_suffix: "p = DROP_OLDEST \<Longrightarrow> suffix (put_event n p e q) (q @ [e])"
  using suffix_tl_snoc [of q e] by (simp add: put_event_def)

lemma subseq_same_prefix: "subseq xs ys \<Longrightarrow> subseq (zs @ xs) (zs @ ys)"
  by (rule list_emb_append_mono) simp_all

lemma put_event_length: "length q \<le> k \<Longrightarrow> 0 < n \<Longrightarrow> n \<le> int k \<Longrightarrow> length (put_event n p e q) \<le> k"
  by (auto simp: put_event_def queue_full_def split: BackpressurePolicy.splits)

text \<open>Whenever an event is published, the queue of \<open>i\<close> has room for it.\<close>

primrec has_room :: "string \<Rightarrow> 'e bus_op list \<Rightarrow> 'e event_bus \<Rightarrow> bool" where
  "has_room i [] b = True"
| "has_room i (opn # ops) b =
     ((case (opn, map_of (queues b) i) of (Publish e, Some q) \<Rightarrow> \<not> queue_full (max_queue_size b) q | _ \<Rightarrow> True) \<and>
      has_room i ops (snd (bus_step opn b)))"

text \<open>A run seen by one subscriber: nothing comes twice or out of order; under \<open>DROP_OLDEST\<close> the pending
  events are the latest ones; the queue keeps its bound; an event that finds room is not lost.\<close>

lemma run_bus_subscriber:
  assumes "map_of (queues b) i = Some q" "\<not> closed b" "keeps_subscription i ops"
  shows "\<exists>q'. map_of (queues (run_bus ops b)) i = Some q' \<and>
    subseq (received_by i ops b @ q') (q @ published_events ops) \<and>
    (backpressure b = DROP_OLDEST \<longrightarrow> suffix q' (q @ published_events ops)) \<and>
    (\<forall>k. length q \<le> k \<and> 0 < max_queue_size b \<and> max_queue_size b \<le> int k \<longrightarrow> length q' \<le> k) \<and>
    (has_room i ops b \<longrightarrow> received_by i ops b @ q' = q @ published_events ops)"
  using assms
proof (induction ops arbitrary: b q)
  case Nil
  then show ?case by simp
next
  case (Cons opn ops)
  have keeps: "keeps_subscription i [opn]" "keeps_subscription i ops"
    using Cons.prems(3) keeps_Cons by blast+
  obtain q1 where q1: "map_of (queues (snd (bus_step opn b))) i = Some q1"
    and step: "case opn of
       Publish e \<Rightarrow> hands i opn b = [] \<and> q1 = put_event (max_queue_size b) (backpressure b) e q
     | _ \<Rightarrow> hands i opn b @ q1 = q"
    using step_queue [OF Cons.prems(1,2) keeps(1)] by blast
  have "\<not> closed (snd (bus_step opn b))" using Cons.prems(2) by simp
  note IH = Cons.IH [OF q1 this keeps(2)]
  show ?case
  proof (cases "\<exists>e. opn = Publish e")
    case True
    then obtain e where opn: "opn = Publish e" by blast
    have put: "hands i opn b = []" "q1 = put_event (max_queue_size b) (backpressure b) e q"
      using step opn by auto
    have pub: "published_events (opn # ops) = e # published_events ops" using opn by simp
    obtain q' where q': "map_of (queues (run_bus (opn # ops) b)) i = Some q'"
      and sub: "subseq (received_by i (opn # ops) b @ q') (q1 @ published_events ops)"
      and suf: "backpressure b = DROP_OLDEST \<longrightarrow> suffix q' (q1 @ published_events ops)"
      and len: "\<And>k. length q1 \<le> k \<Longrightarrow> 0 < max_queue_size b \<Longrightarrow> max_queue_size b \<le> int k \<Longrightarrow> length q' \<le> k"
      and all: "has_room i ops (snd (bus_step opn b)) \<longrightarrow> received_by i (opn # ops) b @ q' = q1 @ published_events ops"
      using IH put(1) by auto
    have "subseq (q1 @ published_events ops) (q @ e # published_events ops)"
      using list_emb_append_mono [OF put_event_subseq subseq_order.order_refl] put(2) by fastforce
    then have 1: "subseq (received_by i (opn # ops) b @ q') (q @ published_events (opn # ops))"
      using sub pub subseq_order.order_trans by fastforce
    have 2: "suffix q' (q @ published_events (opn # ops))" if "backpressure b = DROP_OLDEST"
    proof -
      have "suffix (q1 @ published_events ops) ((q @ [e]) @ published_events ops)"
        using put_event_suffix [OF that, of "max_queue_size b" e q] put(2) by (auto simp: suffix_def)
      then show ?thesis using suf that pub suffix_order.order_trans by fastforce
    qed
    have 3: "length q' \<le> k" if "length q \<le> k" "0 < max_queue_size b" "max_queue_size b \<le> int k" for k
      using len [OF _ that(2,3)] put_event_length [OF that] put(2) by simp
    have 4: "received_by i (opn # ops) b @ q' = q @ published_events (opn # ops)"
      if "has_room i (opn # ops) b"
    proof -
      have "q1 = q @ [e]"
        unfolding put(2) using that Cons.prems(1) opn by (simp add: put_event_def)
      then show ?thesis using all that pub by auto
    qed
    show ?thesis using q' 1 2 3 4 by blast
  next
    case False
    then have "hands i opn b @ q1 = q" "published_events (opn # ops) = published_events ops"
      using step by (cases opn; simp)+
    then show ?thesis
      using IH by (auto simp: suffix_def intro!: subseq_same_prefix)
  qed
qed

text \<open>C20: Whatever other subscribers do, a subscriber of an open bus gets events in the order of their
  publication and none twice; with the policy of dropping the oldest its pending events are always
  the latest ones, never more than the bound; and if its queue has room whenever an event is
  published, for instance because it keeps receiving, it gets or still has every one of them.\<close>

theorem subscriber_gets_events_in_order:
  assumes "subscribe i b0 = Some b" "keeps_subscription i ops" "0 < max_queue_size b0"
  shows "\<exists>pending. map_of (queues (run_bus ops b)) i = Some pending \<and>
    subseq (received_by i ops b @ pending) (published_events ops) \<and>
    int (length pending) \<le> max_queue_size b0 \<and>
    (backpressure b0 = DROP_OLDEST \<longrightarrow> suffix pending (published_events ops)) \<and>
    (has_room i ops b \<longrightarrow> received_by i ops b @ pending = published_events ops)"
proof -
  have b: "map_of (queues b) i = Some []" "\<not> closed b" "max_queue_size b = max_queue_size b0"
    "backpressure b = backpressure b0"
    using assms(1) by (auto simp: subscribe_def split: if_splits)
  obtain pending where p: "map_of (queues (run_bus ops b)) i = Some pending"
    "subseq (received_by i ops b @ pending) (published_events ops)"
    "backpressure b0 = DROP_OLDEST \<longrightarrow> suffix pending (published_events ops)"
    "has_room i ops b \<longrightarrow> received_by i ops b @ pending = published_events ops"
    "\<And>k. max_queue_size b0 \<le> int k \<Longrightarrow> length pending \<le> k"
    using run_bus_subscriber [OF b(1,2) assms(2)] assms(3) b(3,4) by auto
  have "int (length pending) \<le> max_queue_size b0"
    using p(5) [of "nat (max_queue_size b0)"] assms(3) by simp
  with p show ?thesis by blast
qed

definition demo_ops :: "nat bus_op list" where
  "demo_ops = [Publish 1, Receive ''a'', Publish 2, Subscribe ''b'', Receive ''a'', Publish 3]"

definition demo_bus :: "nat event_bus" where
  "demo_bus = \<lparr> max_queue_size = 1, backpressure = DROP_OLDEST, queues = [(''a'', [])], closed = False \<rparr>"

theorem subscriber_gets_events_in_order_witness:
  "received_by ''a'' demo_ops demo_bus = [1, 2] \<and> map_of (queues (run_bus demo_ops demo_bus)) ''a'' = Some [3] \<and>
   subseq [1, 2, 3] (published_events demo_ops) \<and> received_by ''a'' demo_ops demo_bus @ [3] = published_events demo_ops"
proof -
  have run: "received_by ''a'' demo_ops demo_bus = [1, 2]" "map_of (queues (run_bus demo_ops demo_bus)) ''a'' = Some [3]"
    "has_room ''a'' demo_ops demo_bus"
    by (simp_all add: demo_ops_def demo_bus_def hands_def subscribe_def publish_def receive_def put_event_def
      queue_full_def dict_put_def)
  have "subscribe ''a'' (new_bus 1 DROP_OLDEST) = Some demo_bus"
    by (simp add: subscribe_def new_bus_def demo_bus_def dict_put_def)
  from subscriber_gets_events_in_order [OF this, of demo_ops] run show ?thesis
    by (auto simp: demo_ops_def new_bus_def)
qed

end
