(* ===== verification/Swarm.thy ===== *)
theory Swarm
  imports TaskStore JsonText
begin

text \<open>
  \<open>orchestration/swarm.py\<close>: the topology of root, workers, verifier and synthesizer on entry of the task
  store, and the blackboard kept in comments of the root task. \<open>uid k\<close> is the id the store gives to
  the \<open>k\<close>th task of the swarm. The fixed texts with characters beyond code point 255 (the protocol
  appended to every body, the skills hint and the instruction of the verifier) are arguments.
\<close>

definition BLACKBOARD_PREFIX :: string where
  "BLACKBOARD_PREFIX = ''[swarm:blackboard]''"

record SwarmWorkerSpec =
  sw_profile :: string
  sw_title :: string
  sw_body :: string
  sw_skills :: "string list"
  sw_priority :: int
  sw_max_runtime :: "int option"

record SwarmCreated =
  sc_root_id :: string
  sc_worker_ids :: "string list"
  sc_verifier_id :: string
  sc_synthesizer_id :: string

record swarm_texts =
  swarm_context :: "string \<Rightarrow> string \<Rightarrow> string"
  skills_hint :: "string list \<Rightarrow> string"
  verifier_intro :: "nat \<Rightarrow> string"

record SwarmArgs =
  sa_goal :: string
  sa_workers :: "SwarmWorkerSpec list"
  sa_verifier_profile :: string
  sa_synthesizer_profile :: string
  sa_root_title :: "string option"
  sa_verifier_title :: string
  sa_synthesizer_title :: string
  sa_tenant :: "string option"
  sa_created_by :: string
  sa_priority :: int

section \<open>The blackboard\<close>

definition make_blackboard_body :: "string \<Rightarrow> json \<Rightarrow> string" where
  "make_blackboard_body key value =
     BLACKBOARD_PREFIX @ dumps unicode_opts (JObj [(''key'', JStr key), (''value'', value)])"

definition post_blackboard :: "int \<Rightarrow> string \<Rightarrow> string \<Rightarrow> string \<Rightarrow> json \<Rightarrow> TaskComment store_op" where
  "post_blackboard now rid who key value = add_comment now rid who (make_blackboard_body key value)"

text \<open>The values and the authors by key, without the entry \<open>_authors\<close> that the final dict gives to the
  authors.\<close>

record blackboard =
  bb_values :: "(json \<times> json) list"
  bb_authors :: "(json \<times> string) list"

definition strip_prefix :: "string \<Rightarrow> string option" where
  "strip_prefix b =
     (if py_startswith b BLACKBOARD_PREFIX
      then Some (dropWhile (\<lambda>c. c = CHR '' '') (drop (length BLACKBOARD_PREFIX) b))
      else None)"

fun hashable :: "json \<Rightarrow> bool" where
  "hashable (JList js) = False"
| "hashable (JObj d) = False"
| "hashable j = True"

text \<open>One comment: \<open>None\<close> is the \<open>AttributeError\<close> of a value that is no dict, or the \<open>TypeError\<close> of a
  key that is not hashable.\<close>

definition read_comment :: "TaskComment \<Rightarrow> blackboard \<Rightarrow> blackboard option" where
  "read_comment c bb =
     (case strip_prefix (comment_body c) of
        None \<Rightarrow> Some bb
      | Some t \<Rightarrow>
          (case loads t of
             None \<Rightarrow> Some bb
           | Some (JObj d) \<Rightarrow>
               (let key = dict_get d ''key'' JNull; value = dict_get d ''value'' JNull in
                if key = JNull then Some bb
                else if \<not> hashable key then None
                else Some \<lparr> bb_values = dict_put key value (bb_values bb),
                            bb_authors = dict_put key (author c) (bb_authors bb) \<rparr>)
           | Some _ \<Rightarrow> None))"

primrec read_comments :: "TaskComment list \<Rightarrow> blackboard \<Rightarrow> blackboard option" where
  "read_comments [] bb = Some bb"
| "read_comments (c # cs) bb =
     (case read_comment c bb of None \<Rightarrow> None | Some bb' \<Rightarrow> read_comments cs bb')"

definition empty_blackboard :: blackboard where
  "empty_blackboard = \<lparr> bb_values = [], bb_authors = [] \<rparr>"

definition blackboard_of :: "TaskComment list \<Rightarrow> blackboard option" where
  "blackboard_of cs =
     map_option (\<lambda>bb. bb\<lparr>bb_values := filter (\<lambda>kv. fst kv \<noteq> JStr ''_authors'') (bb_values bb)\<rparr>)
       (read_comments cs empty_blackboard)"

text \<open>
  The query orders the comments by their second only; \<open>get_comments\<close> is the answer that keeps comments of the
  same second in the order of their insertion. What is read does not depend on that, as \<open>SwarmProps\<close> shows.
\<close>

definition read_blackboard :: "string \<Rightarrow> task_db \<Rightarrow> blackboard option" where
  "read_blackboard rid db = blackboard_of (get_comments rid db)"

section \<open>Creating a swarm\<close>

datatype swarm_error = SwarmValueError string | StoreRaised store_error

fun worker_error :: "SwarmWorkerSpec list \<Rightarrow> swarm_error option" where
  "worker_error [] = None"
| "worker_error (w # ws) =
     (if \<not> str_true (sw_profile w) then Some (SwarmValueError ''Each worker must have a profile'')
      else if \<not> str_true (sw_title w) then Some (SwarmValueError ''Each worker must have a title'')
      else worker_error ws)"

definition swarm_args_error :: "SwarmArgs \<Rightarrow> swarm_error option" where
  "swarm_args_error a =
     (if sa_workers a = [] then Some (SwarmValueError ''At least one worker is required'')
      else case worker_error (sa_workers a) of
        Some e \<Rightarrow> Some e
      | None \<Rightarrow>
          if \<not> str_true (sa_verifier_profile a) then Some (SwarmValueError ''Verifier profile is required'')
          else if \<not> str_true (sa_synthesizer_profile a) then Some (SwarmValueError ''Synthesizer profile is required'')
          else None)"

definition swarm_nl :: string where
  "swarm_nl = [CHR 0x0A]"

definition root_args :: "SwarmArgs \<Rightarrow> CreateArgs" where
  "root_args a =
     (CreateArgs_default (opt_or (sa_root_title a) (''Swarm: '' @ take 60 (sa_goal a))))
       \<lparr> arg_body := Some (''# Swarm Root: '' @ sa_goal a @ swarm_nl @ swarm_nl @
           ''Swarm orchestration root task.'' @ swarm_nl @ swarm_nl @
           ''Workers: '' @ str_nat (length (sa_workers a)) @ swarm_nl @
           ''Verifier: '' @ sa_verifier_profile a @ swarm_nl @
           ''Synthesizer: '' @ sa_synthesizer_profile a),
         arg_assignee := Some ''swarm-orchestrator'', arg_priority := sa_priority a,
         arg_tenant := sa_tenant a, arg_created_by := Some (sa_created_by a) \<rparr>"

definition augmented_body :: "swarm_texts \<Rightarrow> string \<Rightarrow> string \<Rightarrow> string list \<Rightarrow> string" where
  "augmented_body T b context skills = b @ context @ (if skills \<noteq> [] then skills_hint T skills else [])"

definition worker_args :: "swarm_texts \<Rightarrow> SwarmArgs \<Rightarrow> string \<Rightarrow> SwarmWorkerSpec \<Rightarrow> CreateArgs" where
  "worker_args T a rid w =
     (CreateArgs_default (sw_title w))
       \<lparr> arg_body := Some (augmented_body T (sw_body w) (swarm_context T rid (sa_goal a)) (sw_skills w)),
         arg_assignee := Some (sw_profile w),
         arg_priority := (if sw_priority w \<noteq> 0 then sw_priority w else sa_priority a),
         arg_parents := [ParentStr rid], arg_max_runtime_seconds := sw_max_runtime w,
         arg_tenant := sa_tenant a, arg_created_by := Some (sa_created_by a) \<rparr>"

definition verifier_args :: "swarm_texts \<Rightarrow> SwarmArgs \<Rightarrow> string \<Rightarrow> string list \<Rightarrow> CreateArgs" where
  "verifier_args T a rid workers =
     (CreateArgs_default (sa_verifier_title a))
       \<lparr> arg_body := Some (verifier_intro T (length (sa_workers a)) @ swarm_context T rid (sa_goal a)),
         arg_assignee := Some (sa_verifier_profile a), arg_priority := sa_priority a,
         arg_parents := map ParentStr workers, arg_tenant := sa_tenant a,
         arg_created_by := Some (sa_created_by a) \<rparr>"

definition synthesizer_args :: "swarm_texts \<Rightarrow> SwarmArgs \<Rightarrow> string \<Rightarrow> string \<Rightarrow> CreateArgs" where
  "synthesizer_args T a rid verifier =
     (CreateArgs_default (sa_synthesizer_title a))
       \<lparr> arg_body := Some (''Synthesize the results from '' @ str_nat (length (sa_workers a)) @ '' swarm workers.'' @
           swarm_nl @ swarm_nl @
           ''Read all worker results and blackboard entries, then produce a consolidated output.'' @ swarm_nl @
           swarm_context T rid (sa_goal a)),
         arg_assignee := Some (sa_synthesizer_profile a), arg_priority := sa_priority a,
         arg_parents := [ParentStr verifier], arg_tenant := sa_tenant a,
         arg_created_by := Some (sa_created_by a) \<rparr>"

text \<open>The steps stop at the first one that raises; what was written before stays.\<close>

definition and_then :: "'a store_op \<Rightarrow> ('a \<Rightarrow> task_db \<Rightarrow> (swarm_error + 'b) \<times> task_db) \<Rightarrow> task_db
    \<Rightarrow> (swarm_error + 'b) \<times> task_db" where
  "and_then opn k db = (case opn db of (Inl e, db') \<Rightarrow> (Inl (StoreRaised e), db') | (Inr x, db') \<Rightarrow> k x db')"

fun create_workers ::
  "(nat \<Rightarrow> string) \<Rightarrow> int \<Rightarrow> (SwarmWorkerSpec \<Rightarrow> CreateArgs) \<Rightarrow> nat \<Rightarrow> SwarmWorkerSpec list \<Rightarrow> string list store_op" where
  "create_workers uid now f k [] db = (Inr [], db)"
| "create_workers uid now f k (w # ws) db =
     (case create_task now (uid k) (f w) db of
        (Inl e, db') \<Rightarrow> (Inl e, db')
      | (Inr t, db') \<Rightarrow>
          (case create_workers uid now f (Suc k) ws db' of
             (Inl e, db'') \<Rightarrow> (Inl e, db'')
           | (Inr ids, db'') \<Rightarrow> (Inr (tid t # ids), db'')))"

definition topology :: "SwarmArgs \<Rightarrow> SwarmCreated \<Rightarrow> json" where
  "topology a r =
     JObj [(''goal'', JStr (sa_goal a)), (''root_id'', JStr (sc_root_id r)),
           (''worker_ids'', JList (map JStr (sc_worker_ids r))), (''verifier_id'', JStr (sc_verifier_id r)),
           (''synthesizer_id'', JStr (sc_synthesizer_id r)),
           (''worker_specs'', JList (map (\<lambda>w. JObj [(''profile'', JStr (sw_profile w)), (''title'', JStr (sw_title w)),
              (''skills'', JList (map JStr (sw_skills w)))]) (sa_workers a))),
           (''verifier_profile'', JStr (sa_verifier_profile a)),
           (''synthesizer_profile'', JStr (sa_synthesizer_profile a))]"

definition root_metadata :: "SwarmArgs \<Rightarrow> (string \<times> json) list" where
  "root_metadata a =
     [(''kind'', JStr ''kanban_swarm_v1''), (''goal'', JStr (sa_goal a)),
      (''worker_count'', JInt (int (length (sa_workers a))))]"

definition create_swarm ::
  "(nat \<Rightarrow> string) \<Rightarrow> int \<Rightarrow> swarm_texts \<Rightarrow> SwarmArgs \<Rightarrow> task_db \<Rightarrow> (swarm_error + SwarmCreated) \<times> task_db" where
  "create_swarm uid now T a db =
     (case swarm_args_error a of
        Some e \<Rightarrow> (Inl e, db)
      | None \<Rightarrow>
          (let n = length (sa_workers a) in
           and_then (create_task now (uid 0) (root_args a)) (\<lambda>rid.
           and_then (create_workers uid now (worker_args T a (tid rid)) 1 (sa_workers a)) (\<lambda>ws.
           and_then (create_task now (uid (n + 1)) (verifier_args T a (tid rid) ws)) (\<lambda>ver.
           and_then (create_task now (uid (n + 2)) (synthesizer_args T a (tid rid) (tid ver))) (\<lambda>syn.
           and_then (update_task_status now (tid rid) (status_value RUNNING) None None None []) (\<lambda>_.
           and_then (update_task_status now (tid rid) (status_value COMPLETED) None None None (root_metadata a)) (\<lambda>_.
             (let r = \<lparr> sc_root_id = tid rid, sc_worker_ids = ws, sc_verifier_id = tid ver, sc_synthesizer_id = tid syn \<rparr> in
              and_then (post_blackboard now (tid rid) (sa_created_by a) ''topology'' (topology a r)) (\<lambda>_ db'.
                (Inr r, db'))))))))) db))"

section \<open>Status\<close>

record task_brief =
  br_id :: string
  br_status :: string
  br_assignee :: "string option"
  br_created_at :: int
  br_started_at :: "int option"
  br_completed_at :: "int option"

definition task_brief_of :: "string \<Rightarrow> task_db \<Rightarrow> task_brief option" where
  "task_brief_of i db =
     map_option (\<lambda>t. \<lparr> br_id = tid t, br_status = status t, br_assignee = assignee t, br_created_at = created_at t,
                      br_started_at = started_at t, br_completed_at = completed_at t \<rparr>) (find_task db i)"

record swarm_status =
  st_root :: "string \<times> string"
  st_ids :: "string list \<times> string \<times> string"
  st_workers :: "task_brief list"
  st_verifier :: "task_brief option"
  st_synthesizer :: "task_brief option"
  st_blackboard :: blackboard

fun json_strs :: "json \<Rightarrow> string list option" where
  "json_strs (JList []) = Some []"
| "json_strs (JList (JStr s # js)) = map_option ((#) s) (json_strs (JList js))"
| "json_strs _ = None"

text \<open>The ids of the topology entry, or, when it names no workers, a guess from the children of the
  root; \<open>None\<close> is an exception over an entry of another form.\<close>

definition swarm_ids :: "json \<Rightarrow> string list \<Rightarrow> (string list \<times> string \<times> string) option" where
  "swarm_ids entry child_ids =
     (case entry of
        JObj d \<Rightarrow>
          (case (json_strs (dict_get d ''worker_ids'' (JList [])), json_str_opt (dict_get d ''verifier_id'' (JStr [])),
                 json_str_opt (dict_get d ''synthesizer_id'' (JStr []))) of
             (Some ws, Some ver, Some syn) \<Rightarrow>
               Some (if ws = [] \<and> child_ids \<noteq> []
                     then (if 2 \<le> length child_ids
                           then (take (length child_ids - 2) child_ids, child_ids ! (length child_ids - 2), last child_ids)
                           else ([], hd child_ids, syn))
                     else (ws, ver, syn))
           | _ \<Rightarrow> None)
      | _ \<Rightarrow> None)"

definition get_swarm_status :: "string \<Rightarrow> task_db \<Rightarrow> swarm_status option option" where
  "get_swarm_status rid db =
     (case find_task db rid of
        None \<Rightarrow> Some None
      | Some t \<Rightarrow>
          (case read_blackboard rid db of
             None \<Rightarrow> None
           | Some bb \<Rightarrow>
               (case swarm_ids (case map_of (bb_values bb) (JStr ''topology'') of None \<Rightarrow> JObj [] | Some v \<Rightarrow> v)
                       (map fst (get_children rid db)) of
                  None \<Rightarrow> None
                | Some (ws, ver, syn) \<Rightarrow>
                    Some (Some \<lparr> st_root = (rid, status t), st_ids = (ws, ver, syn),
                      st_workers = concat (map (\<lambda>w. case task_brief_of w db of None \<Rightarrow> [] | Some x \<Rightarrow> [x]) ws),
                      st_verifier = (if str_true ver then task_brief_of ver db else None),
                      st_synthesizer = (if str_true syn then task_brief_of syn db else None),
                      st_blackboard = bb \<rparr>))))"

end
