(* ===== verification/TaskCreation.thy ===== *)
theory TaskCreation
  imports WorkflowApply
begin

text \<open>
  What the creation of a task adds to the database of the task store, for the components that
  create tasks: the swarm and the cron scheduler.
\<close>

definition plain_link :: "string \<Rightarrow> string \<Rightarrow> TaskLink" where
  "plain_link p c = \<lparr>parent_id = p, child_id = c, condition = None\<rparr>"

lemma parent_specs_strings:
  "\<forall>p \<in> set ps. p \<noteq> [] \<Longrightarrow> parent_specs (map ParentStr ps) = Inr (map (\<lambda>p. (p, None)) ps)"
  by (induction ps) auto

lemma insert_links_effect:
  "insert_links c ss db = Inr db' \<Longrightarrow>
    task_links db' = task_links db @ map (\<lambda>(p, cond). \<lparr>parent_id = p, child_id = c, condition = cond\<rparr>) ss \<and>
    task_comments db' = task_comments db"
proof (induction c ss db rule: insert_links.induct)
  case (2 c p cond ss db)
  then show ?case by (auto simp: insert_link_def split: if_splits)
qed simp

lemma emit_event_comments [simp]: "task_comments (emit_event now i k run pl db) = task_comments db"
  by (simp add: emit_event_def)

lemma create_task_links:
  assumes "create_task now i a db = (Inr t, db')" "parent_specs (arg_parents a) = Inr ss"
  shows "task_links db' = task_links db @ map (\<lambda>(p, cond). \<lparr>parent_id = p, child_id = i, condition = cond\<rparr>) ss \<and>
    task_comments db' = task_comments db"
proof -
  from assms have "create_body now (new_task now i a (ss \<noteq> [])) ss db = Inr (t, db')"
    by (auto simp: create_task_def tx_def split: sum.splits)
  then obtain db2 where "insert_links i ss (db\<lparr>tasks := tasks db @ [new_task now i a (ss \<noteq> [])]\<rparr>) = Inr db2"
    and "task_links db' = task_links db2" "task_comments db' = task_comments db2"
    by (auto simp: create_body_def insert_task_def frame_simps split: sum.splits option.splits)
  from insert_links_effect [OF this(1)] this(2,3) show ?thesis by simp
qed

text \<open>Everything a creation under existing, named parents does.\<close>

definition created_as :: "int \<Rightarrow> string \<Rightarrow> string list \<Rightarrow> CreateArgs \<Rightarrow> task_db \<Rightarrow> Task \<Rightarrow> task_db \<Rightarrow> bool" where
  "created_as now i ps a db t db' \<longleftrightarrow>
     create_task now i a db = (Inr t, db') \<and> tid t = i \<and> db_ok db' \<and> find_task db' i = Some t \<and>
     status t = status_value (if ps = [] then READY else TODO) \<and> assignee t = arg_assignee a \<and>
     title t = arg_title a \<and> body t = arg_body a \<and> priority t = arg_priority a \<and> tenant t = arg_tenant a \<and>
     task_links db' = task_links db @ map (\<lambda>p. plain_link p i) ps \<and> task_comments db' = task_comments db \<and>
     (\<forall>j. j \<noteq> i \<longrightarrow> find_task db' j = find_task db j)"

lemma create_task_row:
  assumes "create_task now i a db = (Inr t, db')"
  shows "assignee t = arg_assignee a \<and> claim_lock t = None \<and> title t = arg_title a \<and> body t = arg_body a \<and>
    priority t = arg_priority a \<and> tenant t = arg_tenant a"
  using assms
  by (auto simp: create_task_def tx_def create_body_def new_task_def Task_default_def split: sum.splits)

lemma create_named:
  assumes "db_ok db" "find_task db i = None" "distinct ps" "arg_parents a = map ParentStr ps"
    and "\<And>p. p \<in> set ps \<Longrightarrow> p \<noteq> [] \<and> find_task db p \<noteq> None"
  obtains t db' where "created_as now i ps a db t db'"
proof -
  let ?ss = "map (\<lambda>p. (p, None)) ps"
  have specs: "parent_specs (arg_parents a) = Inr ?ss"
    using assms(4,5) parent_specs_strings by simp
  have "\<exists>t db'. create_task now i a db = (Inr t, db')"
    by (rule create_task_succeeds [OF assms(1) specs assms(2)]) (use assms(3,5) in \<open>auto simp: comp_def\<close>)
  then obtain t db' where res: "create_task now i a db = (Inr t, db')" by blast
  have "db_ok db'"
    using step_ok_create_task [of db now i a] assms(1) res by (simp add: step_ok_def)
  moreover have "task_links db' = task_links db @ map (\<lambda>p. plain_link p i) ps" "task_comments db' = task_comments db"
    using create_task_links [OF res specs] by (simp_all add: plain_link_def comp_def)
  moreover have "find_task db' i = Some t" "status t = status_value (if ps = [] then READY else TODO)"
    "\<forall>j. j \<noteq> i \<longrightarrow> find_task db' j = find_task db j"
    using create_task_effect [OF assms(1) res] assms(4) by auto
  moreover have "tid t = i"
    using find_task_row calculation(4) by blast
  ultimately have "created_as now i ps a db t db'"
    using res create_task_row [OF res] by (simp add: created_as_def)
  then show thesis by (rule that)
qed

end
