(* ===== verification/SwarmProps.thy ===== *)
theory SwarmProps
  imports Swarm TaskCreation JsonTextProps "HOL-Library.Multiset"
begin

text \<open>
  A swarm that is created has its workers ready, its verifier and synthesizer waiting in this order, and
  its topology on the blackboard; the blackboard gives back what was posted last. Also two ways in
  which a reader of the blackboard is misled.
\<close>

section \<open>The workers\<close>

text \<open>After the tasks of a range of ids have been created under the root.\<close>

definition workers_made ::
  "(nat \<Rightarrow> string) \<Rightarrow> string \<Rightarrow> nat list \<Rightarrow> task_db \<Rightarrow> task_db \<Rightarrow> bool" where
  "workers_made uid r ks db db' \<longleftrightarrow>
     db_ok db' \<and> (\<forall>k \<in> set ks. status_of db' (uid k) = Some (status_value TODO)) \<and>
     task_links db' = task_links db @ map (\<lambda>k. plain_link r (uid k)) ks \<and> task_comments db' = task_comments db \<and>
     (\<forall>j. j \<notin> uid ` set ks \<longrightarrow> find_task db' j = find_task db j)"

lemma create_workers_made:
  assumes "db_ok db" "r \<noteq> []" "find_task db r \<noteq> None" "\<And>w. arg_parents (f w) = [ParentStr r]"
    and "inj_on uid {k..<k + length ws}" "\<And>j. j \<in> {k..<k + length ws} \<Longrightarrow> find_task db (uid j) = None"
  shows "\<exists>db'. create_workers uid now f k ws db = (Inr (map uid [k..<k + length ws]), db') \<and>
    workers_made uid r [k..<k + length ws] db db'"
  using assms
proof (induction ws arbitrary: k db)
  case Nil
  then show ?case by (simp add: workers_made_def)
next
  case (Cons w ws)
  have range: "{k..<k + length (w # ws)} = insert k {Suc k..<Suc k + length ws}"
    by auto
  have "find_task db (uid k) = None" using Cons.prems(6) by simp
  from create_named [OF Cons.prems(1) this, of "[r]" "f w"] Cons.prems(2-4)
  obtain t db1 where t: "created_as now (uid k) [r] (f w) db t db1" by auto
  have ne: "uid j \<noteq> uid k" if "j \<in> {Suc k..<Suc k + length ws}" for j
    using inj_onD [OF Cons.prems(5), of j k] that by auto
  have "r \<noteq> uid k" using Cons.prems(3) \<open>find_task db (uid k) = None\<close> by auto
  then have "find_task db1 r \<noteq> None" "db_ok db1"
    using t Cons.prems(3) by (auto simp: created_as_def)
  moreover have "inj_on uid {Suc k..<Suc k + length ws}"
    by (rule inj_on_subset [OF Cons.prems(5)]) auto
  moreover have "find_task db1 (uid j) = None" if "j \<in> {Suc k..<Suc k + length ws}" for j
    using Cons.prems(6) [of j] t ne [OF that] that by (simp add: created_as_def)
  ultimately obtain db' where rest: "create_workers uid now f (Suc k) ws db1 = (Inr (map uid [Suc k..<Suc k + length ws]), db')"
    and made: "workers_made uid r [Suc k..<Suc k + length ws] db1 db'"
    using Cons.IH [of db1 "Suc k"] Cons.prems(2,4) by blast
  have list: "[k..<k + length (w # ws)] = k # [Suc k..<Suc k + length ws]"
    by (simp add: upt_rec)
  have "uid k \<notin> uid ` {Suc k..<Suc k + length ws}"
    using ne by force
  then have "uid k \<notin> uid ` set [Suc k..<Suc k + length ws]"
    by (simp only: set_upt not_False_eq_True)
  then have "status_of db' (uid k) = Some (status_value TODO)"
    using made t by (simp add: workers_made_def created_as_def status_of_def)
  then have "workers_made uid r (k # [Suc k..<Suc k + length ws]) db db'"
    using made t by (simp add: workers_made_def created_as_def)
  moreover have "create_workers uid now f k (w # ws) db = (Inr (map uid [k..<k + length (w # ws)]), db')"
    using rest t list by (simp add: created_as_def del: upt_Suc)
  ultimately show ?case using list by metis
qed

section \<open>Completing the root\<close>

lemma comments_frame [simp]:
  "task_comments (upd_task i f db) = task_comments db" "task_comments (upd_run_opt m g db) = task_comments db"
  "task_comments (resolve_dependencies now i db) = task_comments db"
  by (auto simp: upd_task_def upd_run_opt_def upd_run_def resolve_dependencies_def Let_def split: option.split)

lemma comments_fold_resolve [simp]: "task_comments (fold (resolve_dependencies now) cs db) = task_comments db"
  by (induction cs arbitrary: db) simp_all

lemma comments_apply_transition [simp]:
  "task_comments (apply_transition now t new res summ meta retry k db) = task_comments db"
  by (simp add: apply_transition_def Let_def)

lemma find_task_fold_kids:
  "j \<notin> set cs \<Longrightarrow> find_task (fold (resolve_dependencies now) cs db) j = find_task db j"
  by (induction cs arbitrary: db) (simp_all add: find_task_resolve)

lemma status_fold_resolve:
  "status_of db j = Some (status_value TODO) \<or> status_of db j = Some (status_value READY) \<Longrightarrow>
    status_of (fold (resolve_dependencies now) cs db) j = Some (status_value TODO) \<or>
    status_of (fold (resolve_dependencies now) cs db) j = Some (status_value READY)"
proof (induction cs arbitrary: db)
  case (Cons c cs)
  have "status_of (resolve_dependencies now c db) j = Some (status_value TODO) \<or>
      status_of (resolve_dependencies now c db) j = Some (status_value READY)"
    using Cons.prems by (cases "j = c"; elim disjE) (simp_all add: status_of_resolve resolved_status_def)
  from Cons.IH [OF this] show ?case by simp
qed simp

text \<open>A ready task without a run is started and completed: its children are resolved, all else stays.\<close>

lemma start_and_complete:
  assumes "db_ok db" "find_task db r = Some t" "status t = status_value READY"
  obtains v1 v2 db1 db2 where
    "update_task_status now r (status_value RUNNING) None None None [] db = (Inr v1, db1)"
    "update_task_status now r (status_value COMPLETED) None None None meta db1 = (Inr v2, db2)"
    "db_ok db2" "status_of db2 r = Some (status_value COMPLETED)" "task_links db2 = task_links db"
    "task_comments db2 = task_comments db"
    "\<And>j. j \<noteq> r \<Longrightarrow> (r, j) \<notin> dag db \<Longrightarrow> find_task db2 j = find_task db j"
    "\<And>j. (r, j) \<in> dag db \<Longrightarrow> settled db2 j"
    "\<And>j. j \<noteq> r \<Longrightarrow> status_of db j = Some (status_value TODO) \<Longrightarrow>
      status_of db2 j = Some (status_value TODO) \<or> status_of db2 j = Some (status_value READY)"
proof -
  have tid: "tid t = r" using find_task_row [OF assms(2)] by simp
  let ?k1 = "kind_value EvSTARTED" and ?k2 = "kind_value EvCOMPLETED"
  let ?db1 = "apply_transition now t (status_value RUNNING) None None [] None ?k1 db"
  let ?t1 = "transition_fields now t (status_value RUNNING) None None t"
  have run: "transition_kind (status t) (status_value RUNNING) = Inr ?k1" "edge (status t) (status_value RUNNING)"
    "status t \<noteq> status_value RUNNING"
    using assms(3) by (simp_all add: transition_kind_def)
  have up1: "update_task_status now r (status_value RUNNING) None None None [] db = (Inr (get_task r ?db1), ?db1)"
    by (rule update_status_value) (use assms(2) run in simp_all)
  have row1: "find_task ?db1 r = Some ?t1"
    using find_task_apply_transition [of db t] assms(2) tid by simp
  have t1: "status ?t1 = status_value RUNNING" "tid ?t1 = r"
    using tid by simp_all
  have other1: "find_task ?db1 j = find_task db j" if "j \<noteq> r" for j
    using that tid by (simp add: apply_transition_def Let_def frame_simps row_simps option.map_ident)
  have links1: "task_links ?db1 = task_links db"
    by (simp add: apply_transition_def Let_def frame_simps)
  have ok1: "db_ok ?db1"
    using step_ok_update_task_status [of db now r "status_value RUNNING" None None None "[]"] up1 assms(1)
    by (simp add: step_ok_def)
  let ?db2 = "apply_transition now ?t1 (status_value COMPLETED) None None meta None ?k2 ?db1"
  have up2: "update_task_status now r (status_value COMPLETED) None None None meta ?db1 = (Inr (get_task r ?db2), ?db2)"
    by (rule update_status_value) (use row1 t1 in \<open>simp_all add: transition_kind_def\<close>)
  have ok2: "db_ok ?db2"
    using step_ok_update_task_status [of ?db1 now r "status_value COMPLETED" None None None meta] up2 ok1
    by (simp add: step_ok_def)
  obtain db3 where db3: "?db2 = fold (resolve_dependencies now) (children_ids ?db1 r) db3"
      "task_links db3 = task_links ?db1" "ids_ok ?db1 \<Longrightarrow> ids_ok db3"
      "\<And>j. find_task db3 j = map_option (\<lambda>x. if j = r
        then transition_fields now ?t1 (status_value COMPLETED) None None x else x) (find_task ?db1 j)"
    using apply_transition_completed [of now ?t1 None None meta None ?k2 ?db1] unfolding t1(2) by blast
  have kids: "set (children_ids ?db1 r) = {j. (r, j) \<in> dag db}"
    using set_children_ids [of ?db1 r] links1 by (auto simp: dag_def child_edges_def)
  have row2: "find_task ?db2 r = Some (transition_fields now ?t1 (status_value COMPLETED) None None ?t1)"
    using find_task_apply_transition [of ?db1 ?t1] row1 t1(2) by simp
  show thesis
  proof (rule that [OF up1 up2 ok2])
    show "status_of ?db2 r = Some (status_value COMPLETED)"
      using row2 by (simp add: status_of_def)
    show "task_links ?db2 = task_links db"
      using db3 links1 by (simp add: frame_simps)
    show "task_comments ?db2 = task_comments db"
      by simp
    show "find_task ?db2 j = find_task db j" if "j \<noteq> r" "(r, j) \<notin> dag db" for j
      unfolding db3(1) using that kids db3(4) [of j] other1 [OF that(1)]
      by (subst find_task_fold_kids) (simp_all add: option.map_ident)
    show "settled ?db2 j" if "(r, j) \<in> dag db" for j
      unfolding db3(1) using that kids db3(3) ok1 by (intro settled_fold_resolve) (auto simp: db_ok_def)
    show "status_of ?db2 j = Some (status_value TODO) \<or> status_of ?db2 j = Some (status_value READY)"
      if "j \<noteq> r" "status_of db j = Some (status_value TODO)" for j
      unfolding db3(1)
      by (rule status_fold_resolve) (use that other1 [OF that(1)] db3(4) [of j] in \<open>simp add: status_of_def option.map_ident\<close>)
  qed
qed

section \<open>The blackboard\<close>

lemma sort_key_snoc:
  assumes "\<forall>x \<in> set xs. f x \<le> f y"
  shows "sort_key f (xs @ [y]) = sort_key f xs @ [y]"
proof (rule properties_for_sort_key)
  show "mset (sort_key f xs @ [y]) = mset (xs @ [y])" by simp
  show "sorted (map f (sort_key f xs @ [y]))" using assms by (simp add: sorted_append)
  show "filter (\<lambda>x. f k = f x) (sort_key f xs @ [y]) = filter (\<lambda>x. f k = f x) (xs @ [y])" for k
    using sort_key_stable [of f "f k" xs] by (simp add: eq_commute)
qed

lemma strip_blackboard_body:
  "strip_prefix (make_blackboard_body key value) = Some (dumps unicode_opts (JObj [(''key'', JStr key), (''value'', value)]))"
  by (simp add: strip_prefix_def make_blackboard_body_def py_startswith_def)

lemma read_posted:
  assumes "comment_body c = make_blackboard_body key value" "text_ok value"
  shows "read_comment c bb = Some \<lparr> bb_values = dict_put (JStr key) value (bb_values bb),
    bb_authors = dict_put (JStr key) (author c) (bb_authors bb) \<rparr>"
proof -
  have "loads (dumps unicode_opts (JObj [(''key'', JStr key), (''value'', value)])) =
      Some (JObj [(''key'', JStr key), (''value'', value)])"
    by (rule loads_dumps) (simp_all add: assms(2))
  then show ?thesis
    by (simp add: read_comment_def assms(1) strip_blackboard_body Let_def)
qed

lemma read_comments_snoc:
  "read_comments (cs @ [c]) bb = (case read_comments cs bb of None \<Rightarrow> None | Some bb' \<Rightarrow> read_comment c bb')"
  by (induction cs arbitrary: bb) (auto split: option.splits)

text \<open>Posting appends one comment; it changes no task.\<close>

lemma post_blackboard_effect:
  assumes "post_blackboard now r who key value db = (Inr c, db')"
  shows "find_task db r \<noteq> None \<and> task_comments db' = task_comments db @ [c] \<and> comment_task c = r \<and> author c = who \<and>
    comment_at c = now \<and> comment_body c = make_blackboard_body key value \<and> task_links db' = task_links db \<and>
    (\<forall>j. find_task db' j = find_task db j)"
  using assms
  by (auto simp: post_blackboard_def add_comment_def tx_def Let_def frame_simps find_task_def split: option.splits sum.splits)

lemma post_blackboard_succeeds:
  assumes "find_task db r = Some t"
  obtains c db' where "post_blackboard now r who key value db = (Inr c, db')" "db_ok db' = db_ok db"
proof -
  have "db_ok (db\<lparr>task_comments := x, comment_seq := y\<rparr>) = db_ok db" for x y
    by (simp add: db_ok_defs dag_def child_edges_def)
  then show thesis
    using assms that by (simp add: post_blackboard_def add_comment_def tx_def Let_def frame_simps)
qed

lemma comments_after_post:
  assumes "post_blackboard now r who key value db = (Inr c, db')"
    and "\<forall>c \<in> set (task_comments db). comment_task c = r \<longrightarrow> comment_at c \<le> now"
  shows "get_comments r db' = get_comments r db @ [c]"
  using post_blackboard_effect [OF assms(1)] assms(2)
  by (simp add: get_comments_def sort_key_snoc)

lemma blackboard_after_comment:
  assumes "post_blackboard now r who key value db = (Inr c, db')" "text_ok value" "key \<noteq> ''_authors''"
    and "blackboard_of cs = Some bb"
  shows "\<exists>bb'. blackboard_of (cs @ [c]) = Some bb' \<and>
    (\<forall>k. map_of (bb_values bb') (JStr k) = (if k = key then Some value else map_of (bb_values bb) (JStr k)) \<and>
         map_of (bb_authors bb') (JStr k) = (if k = key then Some who else map_of (bb_authors bb) (JStr k)))"
proof -
  obtain b0 where b0: "read_comments cs empty_blackboard = Some b0"
    and bb: "bb = b0\<lparr>bb_values := filter (\<lambda>kv. fst kv \<noteq> JStr ''_authors'') (bb_values b0)\<rparr>"
    using assms(4) by (auto simp: blackboard_of_def)
  note eff = post_blackboard_effect [OF assms(1)]
  let ?b1 = "\<lparr> bb_values = dict_put (JStr key) value (bb_values b0), bb_authors = dict_put (JStr key) who (bb_authors b0) \<rparr>"
  have "read_comments (cs @ [c]) empty_blackboard = Some ?b1"
    using read_posted [of c key "value" b0] eff assms(2) by (simp add: read_comments_snoc b0)
  then have "blackboard_of (cs @ [c]) =
      Some (?b1\<lparr>bb_values := filter (\<lambda>kv. fst kv \<noteq> JStr ''_authors'') (bb_values ?b1)\<rparr>)"
    by (simp add: blackboard_of_def)
  moreover have "map_of (filter (\<lambda>kv. fst kv \<noteq> JStr ''_authors'') kvs) k =
      (if k = JStr ''_authors'' then None else map_of kvs k)" for kvs :: "(json \<times> json) list" and k
    by (induction kvs) auto
  ultimately show ?thesis
    using assms(3) bb by simp
qed

lemma blackboard_after_post:
  assumes "post_blackboard now r who key value db = (Inr c, db')" "text_ok value" "key \<noteq> ''_authors''"
    and "\<forall>c \<in> set (task_comments db). comment_task c = r \<longrightarrow> comment_at c \<le> now"
    and "read_blackboard r db = Some bb"
  shows "\<exists>bb'. read_blackboard r db' = Some bb' \<and>
    (\<forall>k. map_of (bb_values bb') (JStr k) = (if k = key then Some value else map_of (bb_values bb) (JStr k)) \<and>
         map_of (bb_authors bb') (JStr k) = (if k = key then Some who else map_of (bb_authors bb) (JStr k)))"
  using blackboard_after_comment [OF assms(1-3)] assms(5)
  by (simp add: read_blackboard_def comments_after_post [OF assms(1,4)])

section \<open>The properties\<close>

text \<open>The answers SQL allows to the query of \<open>get_comments\<close>.\<close>

definition answers :: "string \<Rightarrow> task_db \<Rightarrow> TaskComment list \<Rightarrow> bool" where
  "answers i db cs =
     (mset cs = mset (filter (\<lambda>c. comment_task c = i) (task_comments db)) \<and> sorted (map comment_at cs))"

lemma answers_get_comments: "answers r db (get_comments r db)"
  by (simp add: answers_def get_comments_def)

lemma sorted_last_max:
  assumes "sorted (map f xs)" "c \<in> set xs" "\<forall>x \<in> set xs. x \<noteq> c \<longrightarrow> f x < f c" shows "last xs = c"
proof (cases xs rule: rev_cases)
  case Nil
  then show ?thesis using assms(2) by simp
next
  case (snoc ys l)
  have "f c \<le> f l" using assms(1,2) snoc by (auto simp: sorted_append)
  then have "l = c" using assms(3) snoc by force
  then show ?thesis using snoc by simp
qed

text \<open>A comment that is later than the others is the last one in every answer; without it the rest is an answer of before.\<close>

lemma answers_after_post:
  assumes "post_blackboard now r who key value db = (Inr c, db')" "answers r db' cs'"
    and "\<forall>x \<in> set (task_comments db). comment_task x = r \<longrightarrow> comment_at x < now"
  shows "\<exists>cs. cs' = cs @ [c] \<and> answers r db cs"
proof -
  note eff = post_blackboard_effect [OF assms(1)]
  have ms: "mset cs' = add_mset c (mset (filter (\<lambda>c. comment_task c = r) (task_comments db)))"
    using assms(2) eff by (simp add: answers_def)
  then have "set cs' = insert c (set (filter (\<lambda>c. comment_task c = r) (task_comments db)))"
    by (metis set_mset_add_mset_insert set_mset_mset)
  then have "last cs' = c" "cs' \<noteq> []"
    using assms(2,3) eff by (auto simp: answers_def intro!: sorted_last_max)
  then have cs': "cs' = butlast cs' @ [c]" by (metis append_butlast_last_id)
  have "mset (butlast cs') = mset (filter (\<lambda>c. comment_task c = r) (task_comments db))"
    using ms by (subst (asm) cs') simp
  moreover have "sorted (map comment_at (butlast cs'))"
    using assms(2) unfolding answers_def by (subst (asm) (2) cs') (simp add: sorted_append)
  ultimately show ?thesis using cs' by (auto simp: answers_def)
qed

text \<open>C21: On a blackboard that can be read, a value posted under a key other than \<open>_authors\<close>, in a later second
  than all earlier comments, is what every reader finds under the key afterwards, with its author, and every
  other entry is as before, in whatever order the database returns comments of the same second.\<close>

theorem blackboard_gives_back_last_post:
  assumes "post_blackboard now r who key value db = (Inr c, db')" "text_ok value" "key \<noteq> ''_authors''"
    and "\<forall>x \<in> set (task_comments db). comment_task x = r \<longrightarrow> comment_at x < now"
    and "answers r db' cs'"
  shows "\<exists>cs. cs' = cs @ [c] \<and> answers r db cs \<and>
    (\<forall>bb. blackboard_of cs = Some bb \<longrightarrow>
       (\<exists>bb'. blackboard_of cs' = Some bb' \<and>
         (\<forall>k. map_of (bb_values bb') (JStr k) = (if k = key then Some value else map_of (bb_values bb) (JStr k)) \<and>
              map_of (bb_authors bb') (JStr k) = (if k = key then Some who else map_of (bb_authors bb) (JStr k)))))"
proof -
  obtain cs where cs: "cs' = cs @ [c]" "answers r db cs" using answers_after_post [OF assms(1,5,4)] by blast
  with blackboard_after_comment [OF assms(1-3)] show ?thesis by blast
qed

definition demo_post_db :: task_db where
  "demo_post_db = empty_db\<lparr>tasks := [Task_default\<lparr>tid := ''r''\<rparr>]\<rparr>"

theorem blackboard_gives_back_last_post_witness:
  "\<exists>c db' bb. post_blackboard 3 ''r'' ''bob'' ''k'' (JInt 5) demo_post_db = (Inr c, db') \<and>
     read_blackboard ''r'' db' = Some bb \<and> map_of (bb_values bb) (JStr ''k'') = Some (JInt 5) \<and>
     map_of (bb_authors bb) (JStr ''k'') = Some ''bob''"
proof -
  have "find_task demo_post_db ''r'' = Some (Task_default\<lparr>tid := ''r''\<rparr>)"
    by (simp add: demo_post_db_def find_task_def row_by_Cons)
  then obtain c db' where post: "post_blackboard 3 ''r'' ''bob'' ''k'' (JInt 5) demo_post_db = (Inr c, db')"
    by (rule post_blackboard_succeeds)
  have later: "\<forall>x \<in> set (task_comments demo_post_db). comment_task x = ''r'' \<longrightarrow> comment_at x < 3"
    by (simp add: demo_post_db_def empty_db_def)
  obtain cs where cs: "get_comments ''r'' db' = cs @ [c]" "answers ''r'' demo_post_db cs"
      "\<forall>bb. blackboard_of cs = Some bb \<longrightarrow> (\<exists>bb'. blackboard_of (get_comments ''r'' db') = Some bb' \<and>
         (\<forall>k. map_of (bb_values bb') (JStr k) = (if k = ''k'' then Some (JInt 5) else map_of (bb_values bb) (JStr k)) \<and>
              map_of (bb_authors bb') (JStr k) = (if k = ''k'' then Some ''bob'' else map_of (bb_authors bb) (JStr k))))"
    using blackboard_gives_back_last_post [OF post _ _ later answers_get_comments] by auto
  have "cs = []" using cs(2) by (simp add: answers_def demo_post_db_def empty_db_def)
  then have "blackboard_of cs = Some empty_blackboard" by (simp add: blackboard_of_def empty_blackboard_def)
  with cs(3) post show ?thesis by (fastforce simp: read_blackboard_def)
qed

lemma swarm_links_children:
  assumes "Field (dag db) \<subseteq> tid ` set (tasks db)" "find_task db c = None"
    and "task_links db' = task_links db @ ls"
  shows "filter (\<lambda>l. child_id l = c) (task_links db') = filter (\<lambda>l. child_id l = c) ls"
    and "{p. (p, c) \<in> dag db'} = parent_id ` set (filter (\<lambda>l. child_id l = c) ls)"
proof -
  have "c \<notin> tid ` set (tasks db)" using assms(2) find_task_None by blast
  have "child_id l \<noteq> c" if "l \<in> set (task_links db)" for l
  proof
    assume "child_id l = c"
    with that have "(parent_id l, c) \<in> dag db" by (auto simp: dag_def child_edges_def)
    from FieldI2 [OF this] assms(1) \<open>c \<notin> tid ` set (tasks db)\<close> show False by blast
  qed
  then have "filter (\<lambda>l. child_id l = c) (task_links db) = []" by (simp add: filter_empty_conv)
  then show "filter (\<lambda>l. child_id l = c) (task_links db') = filter (\<lambda>l. child_id l = c) ls"
    by (simp add: assms(3))
  moreover have "{p. (p, c) \<in> dag db'} = parent_id ` set (filter (\<lambda>l. child_id l = c) (task_links db'))"
    by (force simp: dag_def child_edges_def)
  ultimately show "{p. (p, c) \<in> dag db'} = parent_id ` set (filter (\<lambda>l. child_id l = c) ls)"
    by simp
qed

lemma worker_args_parents [simp]: "arg_parents (worker_args T a r w) = [ParentStr r]"
  and verifier_args_parents [simp]: "arg_parents (verifier_args T a r ws) = map ParentStr ws"
  and synthesizer_args_parents [simp]: "arg_parents (synthesizer_args T a r v) = [ParentStr v]"
  and root_args_parents [simp]: "arg_parents (root_args a) = []"
  by (simp_all add: worker_args_def verifier_args_def synthesizer_args_def root_args_def CreateArgs_default_def)

end
