(* ===== verification/SwarmTopology.thy ===== *)
theory SwarmTopology
  imports SwarmProps
begin

text \<open>The creation of a swarm, from the steps of \<open>SwarmProps\<close>.\<close>

section \<open>The tasks of a swarm\<close>

definition swarm_links :: "(nat \<Rightarrow> string) \<Rightarrow> nat \<Rightarrow> TaskLink list" where
  "swarm_links uid n =
     map (\<lambda>k. plain_link (uid 0) (uid k)) [1..<1 + n] @ map (\<lambda>k. plain_link (uid k) (uid (n + 1))) [1..<1 + n] @
     [plain_link (uid (n + 1)) (uid (n + 2))]"

definition fresh_ids :: "(nat \<Rightarrow> string) \<Rightarrow> nat \<Rightarrow> task_db \<Rightarrow> bool" where
  "fresh_ids uid m db \<longleftrightarrow> inj_on uid {..m} \<and> (\<forall>k \<le> m. uid k \<noteq> [] \<and> find_task db (uid k) = None)"

lemma fresh_id_eq: "fresh_ids uid m db \<Longrightarrow> j \<le> m \<Longrightarrow> k \<le> m \<Longrightarrow> uid j = uid k \<longleftrightarrow> j = k"
  by (auto simp: fresh_ids_def inj_on_def)

lemma fresh_id_notin: "fresh_ids uid m db \<Longrightarrow> j \<le> m \<Longrightarrow> (\<forall>k \<in> ks. k \<le> m \<and> k \<noteq> j) \<Longrightarrow> uid j \<notin> uid ` ks"
  by (auto simp: fresh_id_eq)

lemma swarm_tasks_made:
  assumes "db_ok db" "fresh_ids uid (n + 2) db" "length ws = n" "0 < n"
  obtains t_root ver syn db1 db2 db3 db4 where
    "create_task now (uid 0) (root_args a) db = (Inr t_root, db1)"
    "create_workers uid now (worker_args T a (uid 0)) 1 ws db1 = (Inr (map uid [1..<1 + n]), db2)"
    "create_task now (uid (n + 1)) (verifier_args T a (uid 0) (map uid [1..<1 + n])) db2 = (Inr ver, db3)"
    "create_task now (uid (n + 2)) (synthesizer_args T a (uid 0) (uid (n + 1))) db3 = (Inr syn, db4)"
    "tid t_root = uid 0" "tid ver = uid (n + 1)" "tid syn = uid (n + 2)"
    "db_ok db4" "find_task db4 (uid 0) = Some t_root" "status t_root = status_value READY"
    "\<forall>k \<in> {1..n + 2}. status_of db4 (uid k) = Some (status_value TODO)"
    "task_links db4 = task_links db @ swarm_links uid n" "task_comments db4 = task_comments db"
    "\<forall>j. j \<notin> uid ` {..n + 2} \<longrightarrow> find_task db4 j = find_task db j"
proof -
  note eq = fresh_id_eq [OF assms(2)] and notin = fresh_id_notin [OF assms(2)]
  have new: "uid k \<noteq> [] \<and> find_task db (uid k) = None" if "k \<le> n + 2" for k
    using assms(2) that by (simp add: fresh_ids_def)
  obtain t_root db1 where 1: "created_as now (uid 0) [] (root_args a) db t_root db1"
    using create_named [OF assms(1), of "uid 0" "[]" "root_args a"] new [of 0] by auto
  have "find_task db1 (uid j) = None" if "j \<in> {1..<1 + length ws}" for j
    using 1 that new [of j] eq [of j 0] assms(3) by (auto simp: created_as_def)
  moreover have "inj_on uid {1..<1 + length ws}"
    using assms(2,3) by (auto simp: fresh_ids_def intro: inj_on_subset)
  ultimately obtain db2 where 2: "create_workers uid now (worker_args T a (uid 0)) 1 ws db1 = (Inr (map uid [1..<1 + n]), db2)"
    "workers_made uid (uid 0) [1..<1 + n] db1 db2"
    using create_workers_made [of db1 "uid 0" "worker_args T a (uid 0)" uid 1 ws now] 1 new [of 0] assms(3)
    by (auto simp: created_as_def simp del: upt_Suc)
  have keep2: "find_task db2 j = find_task db1 j" if "j \<notin> uid ` {1..<1 + n}" for j
    using 2(2) that by (simp add: workers_made_def del: upt_Suc)
  have ok2: "db_ok db2" using 2(2) by (simp add: workers_made_def)
  have none2: "find_task db2 (uid (n + 1)) = None"
    using keep2 [OF notin [of "n + 1"]] 1 new [of "n + 1"] eq [of "n + 1" 0] by (auto simp: created_as_def)
  have dist2: "distinct (map uid [1..<1 + n])"
    using assms(2) by (auto simp: distinct_map fresh_ids_def intro: inj_on_subset)
  have parents2: "p \<noteq> [] \<and> find_task db2 p \<noteq> None" if "p \<in> set (map uid [1..<1 + n])" for p
    using that 2(2) new by (auto simp: workers_made_def status_of_Some_iff simp del: upt_Suc)
  obtain ver db3 where 3: "created_as now (uid (n + 1)) (map uid [1..<1 + n])
      (verifier_args T a (uid 0) (map uid [1..<1 + n])) db2 ver db3"
    by (rule create_named [OF ok2 none2 dist2 verifier_args_parents parents2])
  have "find_task db3 (uid (n + 2)) = None"
    using 3 keep2 [OF notin [of "n + 2"]] 1 new [of "n + 2"] eq [of "n + 2" 0] eq [of "n + 2" "n + 1"]
    by (auto simp: created_as_def)
  then obtain syn db4 where 4: "created_as now (uid (n + 2)) [uid (n + 1)] (synthesizer_args T a (uid 0) (uid (n + 1))) db3 syn db4"
    using create_named [of db3 "uid (n + 2)" "[uid (n + 1)]" "synthesizer_args T a (uid 0) (uid (n + 1))"] 3 new [of "n + 1"]
    by (auto simp: created_as_def)
  have keep: "find_task db4 j = find_task db2 j" if "j \<noteq> uid (n + 1)" "j \<noteq> uid (n + 2)" for j
    using 3 4 that by (simp add: created_as_def)
  have "find_task db4 (uid 0) = Some t_root"
    using keep [of "uid 0"] keep2 [OF notin [of 0]] 1 eq [of 0 "n + 1"] eq [of 0 "n + 2"] by (auto simp: created_as_def)
  moreover have "status_of db4 (uid k) = Some (status_value TODO)" if k: "k \<in> {1..n + 2}" for k
  proof -
    consider "k \<in> {1..<1 + n}" | "k = n + 1" | "k = n + 2" using k by fastforce
    then show ?thesis
    proof cases
      case 1
      then show ?thesis
        using keep [of "uid k"] 2(2) eq [of k "n + 1"] eq [of k "n + 2"]
        by (auto simp: status_of_def workers_made_def simp del: upt_Suc)
    next
      case 2
      then show ?thesis
        using 3 4 eq [of "n + 1" "n + 2"] assms(4) by (auto simp: status_of_def created_as_def simp del: upt_Suc split: if_splits)
    next
      case 3
      then show ?thesis using 4 by (simp add: status_of_def created_as_def)
    qed
  qed
  moreover have "find_task db4 j = find_task db j" if "j \<notin> uid ` {..n + 2}" for j
  proof -
    have "j \<notin> uid ` {1..<1 + n}" "j \<noteq> uid 0" "j \<noteq> uid (n + 1)" "j \<noteq> uid (n + 2)" using that by auto
    then show ?thesis using keep keep2 1 by (simp add: created_as_def)
  qed
  ultimately show thesis
    using 1 2 3 4
    by (intro that [of t_root db1 db2 ver db3 syn db4])
      (simp_all add: created_as_def workers_made_def swarm_links_def comp_def del: upt_Suc)
qed

section \<open>The property\<close>

lemma text_ok_topology: "text_ok (topology a r)"
  by (simp add: topology_def)

lemma swarm_parents:
  assumes "inj_on uid {..n + 2}"
  shows "k \<in> {1..n} \<Longrightarrow> filter (\<lambda>l. child_id l = uid k) (swarm_links uid n) = [plain_link (uid 0) (uid k)]"
    and "filter (\<lambda>l. child_id l = uid (n + 1)) (swarm_links uid n) = map (\<lambda>k. plain_link (uid k) (uid (n + 1))) [1..<1 + n]"
    and "filter (\<lambda>l. child_id l = uid (n + 2)) (swarm_links uid n) = [plain_link (uid (n + 1)) (uid (n + 2))]"
proof -
  have eq: "uid j = uid k \<longleftrightarrow> j = k" if "j \<le> n + 2" "k \<le> n + 2" for j k
    using assms that by (auto simp: inj_on_def)
  have one: "filter (\<lambda>j. j = k) [1..<1 + n] = (if k \<in> {1..n} then [k] else [])" for k
    by (induction n) auto
  have range: "filter (\<lambda>l. child_id l = uid k) (map (\<lambda>j. plain_link (uid 0) (uid j)) [1..<1 + n])
      = (if k \<in> {1..n} then [plain_link (uid 0) (uid k)] else [])" if "k \<le> n + 2" for k
  proof -
    have "filter (\<lambda>j. uid j = uid k) [1..<1 + n] = filter (\<lambda>j. j = k) [1..<1 + n]"
      using eq that by (intro filter_cong) auto
    then show ?thesis
      using one [of k] by (simp add: filter_map comp_def plain_link_def del: upt_Suc)
  qed
  have sink: "filter (\<lambda>l. child_id l = uid k) (map (\<lambda>j. plain_link (uid j) (uid (n + 1))) xs)
      = (if k = n + 1 then map (\<lambda>j. plain_link (uid j) (uid (n + 1))) xs else [])" if "k \<le> n + 2" for k xs
    using eq [of "n + 1" k] that by (simp add: filter_map comp_def plain_link_def del: upt_Suc)
  show "k \<in> {1..n} \<Longrightarrow> filter (\<lambda>l. child_id l = uid k) (swarm_links uid n) = [plain_link (uid 0) (uid k)]"
    using range [of k] sink [of k] eq [of "n + 2" k] by (simp add: swarm_links_def plain_link_def del: upt_Suc)
  show "filter (\<lambda>l. child_id l = uid (n + 1)) (swarm_links uid n) = map (\<lambda>k. plain_link (uid k) (uid (n + 1))) [1..<1 + n]"
    using range [of "n + 1"] sink [of "n + 1"] eq [of "n + 2" "n + 1"]
    by (simp add: swarm_links_def del: upt_Suc) (simp add: plain_link_def)
  show "filter (\<lambda>l. child_id l = uid (n + 2)) (swarm_links uid n) = [plain_link (uid (n + 1)) (uid (n + 2))]"
    using range [of "n + 2"] sink [of "n + 2"] by (simp add: swarm_links_def plain_link_def del: upt_Suc)
qed

text \<open>The parents of the tasks of a swarm, in a database whose links are the old ones and those of the swarm.\<close>

definition swarm_parent_ids :: "(nat \<Rightarrow> string) \<Rightarrow> nat \<Rightarrow> nat \<Rightarrow> string set" where
  "swarm_parent_ids uid n k =
     (if k \<in> {1..n} then {uid 0} else if k = n + 1 then uid ` {1..n} else {uid (n + 1)})"

lemma swarm_dag:
  assumes "db_ok db" "fresh_ids uid (n + 2) db" "task_links x = task_links db @ swarm_links uid n" "k \<in> {1..n + 2}"
  shows "{p. (p, uid k) \<in> dag x} = swarm_parent_ids uid n k"
    and "filter (\<lambda>l. child_id l = uid k) (task_links x) = filter (\<lambda>l. child_id l = uid k) (swarm_links uid n)"
proof -
  have fld: "Field (dag db) \<subseteq> tid ` set (tasks db)"
    using assms(1) by (simp add: db_ok_def links_ok_def)
  have none: "find_task db (uid k) = None" and inj: "inj_on uid {..n + 2}"
    using assms(2,4) by (simp_all add: fresh_ids_def)
  note parents = swarm_parents [OF inj] and links = swarm_links_children [OF fld none assms(3)]
  show "filter (\<lambda>l. child_id l = uid k) (task_links x) = filter (\<lambda>l. child_id l = uid k) (swarm_links uid n)"
    by (rule links(1))
  consider "k \<in> {1..n}" | "k = n + 1" | "k = n + 2" using assms(4) by fastforce
  then show "{p. (p, uid k) \<in> dag x} = swarm_parent_ids uid n k"
  proof cases
    case 1
    show ?thesis unfolding links(2) parents(1) [OF 1] using 1 by (simp add: plain_link_def swarm_parent_ids_def)
  next
    case 2
    show ?thesis unfolding links(2) unfolding 2 parents(2)
      by (simp add: plain_link_def swarm_parent_ids_def image_image atLeastLessThanSuc_atLeastAtMost del: upt_Suc)
  next
    case 3
    show ?thesis unfolding links(2) unfolding 3 parents(3) by (simp add: plain_link_def swarm_parent_ids_def)
  qed
qed

lemma swarm_dag_outside:
  assumes "db_ok db" "fresh_ids uid (n + 2) db" "task_links x = task_links db @ swarm_links uid n"
    and "j \<notin> uid ` {..n + 2}"
  shows "(uid 0, j) \<notin> dag x"
proof
  assume "(uid 0, j) \<in> dag x"
  moreover have "uid 0 \<notin> tid ` set (tasks db)"
    using assms(2) find_task_None by (fastforce simp: fresh_ids_def)
  then have "(uid 0, j) \<notin> dag db"
    using assms(1) by (auto simp: db_ok_def links_ok_def Field_def)
  ultimately have "(uid 0, j) \<in> (\<lambda>l. (parent_id l, child_id l)) ` set (swarm_links uid n)"
    using assms(3) by (auto simp: dag_def child_edges_def)
  then show False using assms(4) by (auto simp: swarm_links_def plain_link_def)
qed

text \<open>What the completion of the root settles: the workers become ready, the tasks behind them wait.\<close>

lemma swarm_settled:
  assumes "db_ok db" "fresh_ids uid (n + 2) db" "task_links db4 = task_links db @ swarm_links uid n"
    and todo: "\<forall>k \<in> {1..n + 2}. status_of db4 (uid k) = Some (status_value TODO)"
    and links: "task_links db6 = task_links db4" and fin: "status_of db6 (uid 0) = Some (status_value COMPLETED)"
    and other: "\<And>j. j \<noteq> uid 0 \<Longrightarrow> (uid 0, j) \<notin> dag db4 \<Longrightarrow> find_task db6 j = find_task db4 j"
    and settled: "\<And>j. (uid 0, j) \<in> dag db4 \<Longrightarrow> settled db6 j"
    and stays: "\<And>j. j \<noteq> uid 0 \<Longrightarrow> status_of db4 j = Some (status_value TODO) \<Longrightarrow>
      status_of db6 j = Some (status_value TODO) \<or> status_of db6 j = Some (status_value READY)"
    and "k \<in> {1..n + 2}"
  shows "status_of db6 (uid k) = Some (status_value (if k \<le> n then READY else TODO))"
proof -
  have ne: "uid k \<noteq> uid 0"
    using fresh_id_eq [OF assms(2), of k 0] assms(10) by auto
  have par: "(uid 0, uid k) \<in> dag db4 \<longleftrightarrow> uid 0 \<in> swarm_parent_ids uid n k"
    using swarm_dag(1) [OF assms(1-3,10)] by blast
  show ?thesis
  proof (cases "k \<le> n")
    case True
    then have k: "k \<in> {1..n}" using assms(10) by simp
    then have "settled db6 (uid k)" using settled par by (simp add: swarm_parent_ids_def)
    have "filter (\<lambda>l. child_id l = uid k) (task_links db6) = [plain_link (uid 0) (uid k)]"
      using swarm_dag(2) [OF assms(1-3,10)] swarm_parents(1) [OF _ k] links assms(2) by (simp add: fresh_ids_def)
    moreover obtain t6 where "find_task db6 (uid 0) = Some t6" "status t6 = status_value COMPLETED"
      using fin by (auto simp: status_of_Some_iff)
    ultimately have "deps_done db6 (uid k)"
      by (simp add: deps_done_def link_satisfied_def plain_link_def done_of_def done_part_def)
    then show ?thesis
      using \<open>settled db6 (uid k)\<close> stays [OF ne] todo assms(10) True by (auto simp: settled_def)
  next
    case False
    moreover have "uid 0 \<notin> uid ` {1..n}" "uid 0 \<noteq> uid (n + 1)"
      using fresh_id_eq [OF assms(2), of 0 "n + 1"] fresh_id_notin [OF assms(2), of 0 "{1..n}"] by auto
    ultimately have "(uid 0, uid k) \<notin> dag db4" using par by (simp add: swarm_parent_ids_def)
    then show ?thesis
      using other [OF ne] todo assms(10) False by (auto simp: status_of_def)
  qed
qed

lemma topology_posted:
  assumes "find_task db r = Some t" "\<forall>c \<in> set (task_comments db). comment_task c \<noteq> r"
  obtains c db' bb where "post_blackboard now r who ''topology'' (topology a x) db = (Inr c, db')" "db_ok db' = db_ok db"
    "read_blackboard r db' = Some bb" "map_of (bb_values bb) (JStr ''topology'') = Some (topology a x)"
proof -
  obtain c db' where post: "post_blackboard now r who ''topology'' (topology a x) db = (Inr c, db')"
    and ok: "db_ok db' = db_ok db"
    by (rule post_blackboard_succeeds [OF assms(1)])
  have "get_comments r db = []"
    using assms(2) by (auto simp: get_comments_def filter_empty_conv)
  then have "read_blackboard r db = Some empty_blackboard"
    by (simp add: read_blackboard_def blackboard_of_def empty_blackboard_def)
  moreover have "\<forall>c \<in> set (task_comments db). comment_task c = r \<longrightarrow> comment_at c \<le> now"
    using assms(2) by blast
  ultimately obtain bb where "read_blackboard r db' = Some bb"
    "map_of (bb_values bb) (JStr ''topology'') = Some (topology a x)"
    using blackboard_after_post [OF post text_ok_topology] by auto
  with post ok show thesis by (rule that)
qed

text \<open>Creating a swarm from valid arguments with fresh ids succeeds and keeps the database consistent: the
  root is completed, every worker is ready under the root alone, the verifier waits for exactly the
  workers and the synthesizer for the verifier, no other task changes, and the topology can be read
  from the blackboard.\<close>

theorem create_swarm_spec:
  assumes "db_ok db" "swarm_args_error a = None" "length (sa_workers a) = n" "fresh_ids uid (n + 2) db"
    and "\<forall>c \<in> set (task_comments db). comment_task c \<noteq> uid 0"
  shows "\<exists>r db'. create_swarm uid now T a db = (Inr r, db') \<and>
    r = \<lparr> sc_root_id = uid 0, sc_worker_ids = map uid [1..<1 + n], sc_verifier_id = uid (n + 1),
          sc_synthesizer_id = uid (n + 2) \<rparr> \<and> db_ok db' \<and>
    status_of db' (uid 0) = Some (status_value COMPLETED) \<and>
    (\<forall>k \<in> {1..n}. status_of db' (uid k) = Some (status_value READY) \<and> {p. (p, uid k) \<in> dag db'} = {uid 0}) \<and>
    status_of db' (uid (n + 1)) = Some (status_value TODO) \<and> {p. (p, uid (n + 1)) \<in> dag db'} = uid ` {1..n} \<and>
    status_of db' (uid (n + 2)) = Some (status_value TODO) \<and> {p. (p, uid (n + 2)) \<in> dag db'} = {uid (n + 1)} \<and>
    (\<forall>j. j \<notin> uid ` {..n + 2} \<longrightarrow> find_task db' j = find_task db j) \<and>
    (\<exists>bb. read_blackboard (uid 0) db' = Some bb \<and> map_of (bb_values bb) (JStr ''topology'') = Some (topology a r))"
proof -
  let ?r = "\<lparr> sc_root_id = uid 0, sc_worker_ids = map uid [1..<1 + n], sc_verifier_id = uid (n + 1),
     sc_synthesizer_id = uid (n + 2) \<rparr>"
  have n: "0 < n" using assms(2,3) by (auto simp: swarm_args_error_def split: if_splits)
  obtain t_root ver syn db1 db2 db3 db4 where made:
    "create_task now (uid 0) (root_args a) db = (Inr t_root, db1)"
    "create_workers uid now (worker_args T a (uid 0)) 1 (sa_workers a) db1 = (Inr (map uid [1..<1 + n]), db2)"
    "create_task now (uid (n + 1)) (verifier_args T a (uid 0) (map uid [1..<1 + n])) db2 = (Inr ver, db3)"
    "create_task now (uid (n + 2)) (synthesizer_args T a (uid 0) (uid (n + 1))) db3 = (Inr syn, db4)"
    "tid t_root = uid 0" "tid ver = uid (n + 1)" "tid syn = uid (n + 2)"
    and db4: "db_ok db4" "find_task db4 (uid 0) = Some t_root" "status t_root = status_value READY"
    "\<forall>k \<in> {1..n + 2}. status_of db4 (uid k) = Some (status_value TODO)"
    "task_links db4 = task_links db @ swarm_links uid n" "task_comments db4 = task_comments db"
    "\<forall>j. j \<notin> uid ` {..n + 2} \<longrightarrow> find_task db4 j = find_task db j"
    by (rule swarm_tasks_made [OF assms(1,4,3) n])
  obtain v1 v2 db5 db6 where up:
    "update_task_status now (uid 0) (status_value RUNNING) None None None [] db4 = (Inr v1, db5)"
    "update_task_status now (uid 0) (status_value COMPLETED) None None None (root_metadata a) db5 = (Inr v2, db6)"
    and db6: "db_ok db6" "status_of db6 (uid 0) = Some (status_value COMPLETED)" "task_links db6 = task_links db4"
    "task_comments db6 = task_comments db4"
    "\<And>j. j \<noteq> uid 0 \<Longrightarrow> (uid 0, j) \<notin> dag db4 \<Longrightarrow> find_task db6 j = find_task db4 j"
    "\<And>j. (uid 0, j) \<in> dag db4 \<Longrightarrow> settled db6 j"
    "\<And>j. j \<noteq> uid 0 \<Longrightarrow> status_of db4 j = Some (status_value TODO) \<Longrightarrow>
      status_of db6 j = Some (status_value TODO) \<or> status_of db6 j = Some (status_value READY)"
    by (rule start_and_complete [OF db4(1,2,3), of now "root_metadata a"]) (rule that; assumption)
  obtain t6 where "find_task db6 (uid 0) = Some t6"
    using db6(2) by (auto simp: status_of_Some_iff)
  then obtain c db7 bb where post: "post_blackboard now (uid 0) (sa_created_by a) ''topology'' (topology a ?r) db6 = (Inr c, db7)"
    and ok7: "db_ok db7 = db_ok db6" and bb: "read_blackboard (uid 0) db7 = Some bb"
    "map_of (bb_values bb) (JStr ''topology'') = Some (topology a ?r)"
    using assms(5) db6(4) db4(6) by (elim topology_posted) simp_all
  have eff: "task_links db7 = task_links db @ swarm_links uid n" "\<And>j. find_task db7 j = find_task db6 j"
    using post_blackboard_effect [OF post] db6(3) db4(5) by simp_all
  have "create_swarm uid now T a db = (Inr ?r, db7)"
    using made up post by (simp add: create_swarm_def assms(2,3) and_then_def Let_def del: upt_Suc)
  moreover have "status_of db7 (uid k) = Some (status_value (if k \<le> n then READY else TODO))" if "k \<in> {1..n + 2}" for k
    using swarm_settled [OF assms(1,4) db4(5,4) db6(3,2,5,6,7) that] eff(2) by (simp add: status_of_def)
  moreover have "status_of db7 (uid 0) = Some (status_value COMPLETED)"
    using db6(2) eff(2) by (simp add: status_of_def)
  moreover note dag = swarm_dag(1) [OF assms(1,4) eff(1)]
  have "{p. (p, uid k) \<in> dag db7} = {uid 0}" if "k \<in> {1..n}" for k
    using dag [of k] that by (simp add: swarm_parent_ids_def)
  moreover have "{p. (p, uid (n + 1)) \<in> dag db7} = uid ` {1..n}" "{p. (p, uid (n + 2)) \<in> dag db7} = {uid (n + 1)}"
    using dag [of "n + 1"] dag [of "n + 2"] by (simp_all add: swarm_parent_ids_def)
  moreover have "find_task db7 j = find_task db j" if "j \<notin> uid ` {..n + 2}" for j
    using swarm_dag_outside [OF assms(1,4) db4(5) that] db6(5) [of j] db4(7) eff(2) that by force
  ultimately show ?thesis
    using ok7 db6(1) bb by (intro exI [of _ ?r] exI [of _ db7] conjI) simp_all
qed

definition demo_worker :: SwarmWorkerSpec where
  "demo_worker = \<lparr> sw_profile = ''p'', sw_title = ''w'', sw_body = [], sw_skills = [], sw_priority = 0, sw_max_runtime = None \<rparr>"

definition demo_swarm :: SwarmArgs where
  "demo_swarm = \<lparr> sa_goal = ''g'', sa_workers = [demo_worker, demo_worker], sa_verifier_profile = ''v'',
     sa_synthesizer_profile = ''s'', sa_root_title = None, sa_verifier_title = ''Verify'',
     sa_synthesizer_title = ''Synthesize'', sa_tenant = None, sa_created_by = ''o'', sa_priority = 0 \<rparr>"

definition demo_texts :: swarm_texts where
  "demo_texts = \<lparr> swarm_context = (\<lambda>r g. g), skills_hint = (\<lambda>s. []), verifier_intro = (\<lambda>n. []) \<rparr>"

definition demo_uid :: "nat \<Rightarrow> string" where
  "demo_uid k = replicate (Suc k) (CHR ''t'')"

lemma demo_uid_fresh: "fresh_ids demo_uid m empty_db"
  by (auto simp: fresh_ids_def demo_uid_def inj_on_def find_task_def empty_db_def replicate_eq_replicate)

theorem create_swarm_spec_witness:
  "\<exists>r db'. create_swarm demo_uid 5 demo_texts demo_swarm empty_db = (Inr r, db') \<and> sc_worker_ids r = [''tt'', ''ttt''] \<and>
     status_of db' ''tt'' = Some (status_value READY)"
proof -
  have "swarm_args_error demo_swarm = None" "length (sa_workers demo_swarm) = 2"
    by (simp_all add: swarm_args_error_def demo_swarm_def demo_worker_def)
  moreover have "\<forall>c \<in> set (task_comments empty_db). comment_task c \<noteq> demo_uid 0"
    by (simp add: empty_db_def)
  ultimately obtain r db' where swarm: "create_swarm demo_uid 5 demo_texts demo_swarm empty_db = (Inr r, db')"
    "sc_worker_ids r = map demo_uid [1..<1 + 2]"
    "\<forall>k \<in> {1..2}. status_of db' (demo_uid k) = Some (status_value READY)"
    using create_swarm_spec [OF db_ok_empty _ _ demo_uid_fresh, of demo_swarm 2 5 demo_texts] by auto
  have ids: "demo_uid 1 = ''tt''" "map demo_uid [1..<1 + 2] = [''tt'', ''ttt'']"
    by (simp_all add: demo_uid_def upt_rec numeral_2_eq_2)
  have "status_of db' (demo_uid 1) = Some (status_value READY)" using swarm(3) by simp
  with swarm(1,2) ids show ?thesis by (intro exI [of _ r] exI [of _ db']) simp
qed

section \<open>Misled readers\<close>

text \<open>One comment with a JSON value that is no dict makes every later read of the blackboard raise.\<close>

lemma malformed_comment_breaks_reading:
  assumes "comment_body c = BLACKBOARD_PREFIX @ ''5''" "c \<in> set (get_comments r db)"
  shows "read_blackboard r db = None"
proof -
  have "loads ''5'' = Some (JInt 5)" by code_simp
  then have bad: "read_comment c bb = None" for bb
    by (simp add: read_comment_def strip_prefix_def assms(1) py_startswith_def)
  have "c \<in> set cs \<Longrightarrow> read_comments cs bb = None" for cs bb
    by (induction cs arbitrary: bb) (auto simp: bad split: option.split)
  then show ?thesis by (simp add: read_blackboard_def blackboard_of_def assms(2))
qed

text \<open>Without the topology entry the guess takes the last two workers for verifier and synthesizer, since
  only the workers are children of the root.\<close>

lemma guess_takes_workers:
  "swarm_ids (JObj []) [''w1'', ''w2'', ''w3''] = Some ([''w1''], ''w2'', ''w3'')"
  by (simp add: swarm_ids_def)

end
