(* ===== verification/SharedWorkspace.thy ===== *)
theory SharedWorkspace
  imports JsonText Interfaces
begin

text \<open>
  Shared workspaces, \<open>orchestration/shared_workspace.py\<close>: the two tables, membership, file locks and
  the reaper. The file system is a parameter, \<open>ws_env\<close>: how it resolves a path (\<open>Path.resolve\<close>) and
  what it says of the size and the digest of a file; the creation of directories is left out. Ids
  and times are arguments, every operation reads the clock once, and the broadcast function only
  adds to the list of broadcasts.
\<close>

section \<open>Paths\<close>

text \<open>A \<open>PurePosixPath\<close>: its root (empty, one or two slashes) and its parts.\<close>

record pure_path =
  path_root :: string
  path_parts :: "string list"

definition path_of :: "string \<Rightarrow> pure_path" where
  "path_of s =
     (let k = length (takeWhile (\<lambda>c. c = CHR ''/'') s) in
      \<lparr> path_root = (if k = 0 then [] else if k = 2 then ''//'' else ''/''),
        path_parts = filter (\<lambda>p. p \<noteq> [] \<and> p \<noteq> ''.'') (py_split_on (CHR ''/'') s) \<rparr>)"

definition path_str :: "pure_path \<Rightarrow> string" where
  "path_str p =
     (if path_root p = [] \<and> path_parts p = [] then ''.'' else path_root p @ py_join ''/'' (path_parts p))"

definition is_absolute :: "pure_path \<Rightarrow> bool" where
  "is_absolute p = (path_root p \<noteq> [])"

text \<open>\<open>p / q\<close>\<close>

definition path_join :: "pure_path \<Rightarrow> pure_path \<Rightarrow> pure_path" where
  "path_join p q =
     (if is_absolute q then q else \<lparr> path_root = path_root p, path_parts = path_parts p @ path_parts q \<rparr>)"

text \<open>\<open>p.relative_to(base)\<close>; \<open>None\<close> is the \<open>ValueError\<close> of a path outside the base.\<close>

definition relative_to :: "pure_path \<Rightarrow> pure_path \<Rightarrow> pure_path option" where
  "relative_to p base =
     (if path_root p = path_root base \<and> take (length (path_parts base)) (path_parts p) = path_parts base
      then Some \<lparr> path_root = [], path_parts = drop (length (path_parts base)) (path_parts p) \<rparr>
      else None)"

section \<open>Tables and environment\<close>

record ws_row =
  ws_id :: string
  ws_name :: string
  ws_path :: string
  ws_tenant :: string
  ws_members :: string
  ws_created_by :: string
  ws_created_at :: int

record file_row =
  wf_id :: nat
  wf_workspace :: string
  wf_path :: string
  wf_locked_by :: "string option"
  wf_lock_expires :: "int option"
  wf_checksum :: "string option"
  wf_version :: int
  wf_updated_at :: int

record ws_db =
  ws_rows :: "ws_row list"
  ws_files :: "file_row list"
  ws_seq :: nat
  ws_broadcasts :: "(string \<times> (string \<times> json) list) list"

definition empty_ws_db :: ws_db where
  "empty_ws_db = \<lparr> ws_rows = [], ws_files = [], ws_seq = 0, ws_broadcasts = [] \<rparr>"

record ws_env =
  env_resolve :: "pure_path \<Rightarrow> pure_path"
  env_size :: "pure_path \<Rightarrow> int option"
  env_digest :: "pure_path \<Rightarrow> string option"
  env_root :: pure_path
  env_lock_ttl :: int
  env_broadcasts :: bool

definition DEFAULT_LOCK_TTL :: int where
  "DEFAULT_LOCK_TTL = 300"

definition MAX_FILE_SIZE_BYTES :: int where
  "MAX_FILE_SIZE_BYTES = 100 * 1024 * 1024"

datatype ws_error =
    WorkspaceNotFound string
  | LockError string
  | MemberError string
  | NotCreator string
  | OutsideWorkspace
  | DuplicateKey

section \<open>Private helpers\<close>

definition path_alias :: "ws_env \<Rightarrow> string \<Rightarrow> string" where
  "path_alias E p =
     (let q = path_of p in path_str (env_resolve E (if is_absolute q then q else path_join (env_root E) q)))"

definition compute_checksum :: "ws_env \<Rightarrow> pure_path \<Rightarrow> string option" where
  "compute_checksum E p =
     (case env_size E p of
        None \<Rightarrow> None
      | Some n \<Rightarrow> if MAX_FILE_SIZE_BYTES < n then None else env_digest E p)"

definition ws_broadcast :: "ws_env \<Rightarrow> string \<Rightarrow> (string \<times> json) list \<Rightarrow> ws_db \<Rightarrow> ws_db" where
  "ws_broadcast E ty d db =
     (if env_broadcasts E then db\<lparr>ws_broadcasts := ws_broadcasts db @ [(ty, d)]\<rparr> else db)"

definition str_list :: "json \<Rightarrow> string list" where
  "str_list j = (case j of JList js \<Rightarrow> concat (map (\<lambda>x. case x of JStr s \<Rightarrow> [s] | _ \<Rightarrow> []) js) | _ \<Rightarrow> [])"

text \<open>The members of a row as \<open>get\<close> parses them, and the column \<open>json.dumps(sorted(set))\<close> writes.\<close>

definition row_members :: "ws_row \<Rightarrow> string list" where
  "row_members r = (case loads (ws_members r) of None \<Rightarrow> [] | Some j \<Rightarrow> str_list j)"

definition members_text :: "string list \<Rightarrow> string" where
  "members_text xs = dumps plain_opts (JList (map JStr (sort (remdups xs))))"

definition ws_record :: "ws_row \<Rightarrow> (string \<times> json) list" where
  "ws_record r =
     [(''id'', JStr (ws_id r)), (''name'', JStr (ws_name r)), (''path'', JStr (ws_path r)),
      (''tenant'', JStr (ws_tenant r)), (''member_agent_ids'', JList (map JStr (row_members r))),
      (''created_by'', JStr (ws_created_by r)), (''created_at'', JInt (ws_created_at r))]"

section \<open>Workspaces and membership\<close>

definition get_ws :: "string \<Rightarrow> ws_db \<Rightarrow> ws_row option" where
  "get_ws w db = row_by ws_id w (ws_rows db)"

definition ws_create ::
  "ws_env \<Rightarrow> int \<Rightarrow> string \<Rightarrow> string \<Rightarrow> string \<Rightarrow> string \<Rightarrow> string list \<Rightarrow> string option \<Rightarrow> ws_db
    \<Rightarrow> (ws_error + ws_row) \<times> ws_db" where
  "ws_create E now w name creator ten members p db =
     (let r = \<lparr> ws_id = w, ws_name = name,
                ws_path = (if opt_true p then path_alias E (opt_or p []) else path_str (path_join (env_root E) (path_of w))),
                ws_tenant = ten, ws_members = members_text (creator # members), ws_created_by = creator,
                ws_created_at = now \<rparr>
      in if get_ws w db \<noteq> None then (Inl DuplicateKey, db)
         else (Inr r, ws_broadcast E ''workspace_created'' (ws_record r) (db\<lparr>ws_rows := ws_rows db @ [r]\<rparr>)))"

definition list_accessible :: "string option \<Rightarrow> string option \<Rightarrow> ws_db \<Rightarrow> ws_row list" where
  "list_accessible agent ten db =
     filter (\<lambda>r. (opt_true ten \<longrightarrow> ws_tenant r = opt_or ten []) \<and>
                 (opt_true agent \<longrightarrow> sql_like (''%'' @ opt_or agent [] @ ''%'') (ws_members r))) (ws_rows db)"

definition ws_delete :: "ws_env \<Rightarrow> string \<Rightarrow> string \<Rightarrow> ws_db \<Rightarrow> (ws_error + bool) \<times> ws_db" where
  "ws_delete E w caller db =
     (case get_ws w db of
        None \<Rightarrow> (Inr False, db)
      | Some r \<Rightarrow>
          if str_true caller \<and> str_true (ws_created_by r) \<and> ws_created_by r \<noteq> caller then (Inl (NotCreator caller), db)
          else (Inr True, ws_broadcast E ''workspace_deleted'' [(''id'', JStr w)]
                 (db\<lparr>ws_files := sql_delete (\<lambda>f. wf_workspace f = w) (ws_files db),
                     ws_rows := sql_delete (\<lambda>r. ws_id r = w) (ws_rows db)\<rparr>)))"

definition set_members :: "string \<Rightarrow> string list \<Rightarrow> ws_db \<Rightarrow> ws_db" where
  "set_members w xs db =
     db\<lparr>ws_rows := sql_update (\<lambda>r. ws_id r = w) (\<lambda>r. r\<lparr>ws_members := members_text xs\<rparr>) (ws_rows db)\<rparr>"

text \<open>The updated record, broadcast and returned; \<open>self.get(...) or {}\<close>.\<close>

definition ws_updated :: "ws_env \<Rightarrow> string \<Rightarrow> ws_db \<Rightarrow> (ws_error + ws_row option) \<times> ws_db" where
  "ws_updated E w db =
     (Inr (get_ws w db),
      ws_broadcast E ''workspace_updated'' (case get_ws w db of None \<Rightarrow> [] | Some r \<Rightarrow> ws_record r) db)"

definition join_ws :: "ws_env \<Rightarrow> string \<Rightarrow> string \<Rightarrow> ws_db \<Rightarrow> (ws_error + ws_row option) \<times> ws_db" where
  "join_ws E w agent db =
     (case get_ws w db of
        None \<Rightarrow> (Inl (WorkspaceNotFound w), db)
      | Some r \<Rightarrow>
          if agent \<in> set (row_members r) then (Inr (Some r), db)
          else ws_updated E w (set_members w (agent # row_members r) db))"

definition leave_ws :: "ws_env \<Rightarrow> int \<Rightarrow> string \<Rightarrow> string \<Rightarrow> ws_db \<Rightarrow> (ws_error + ws_row option) \<times> ws_db" where
  "leave_ws E now w agent db =
     (case get_ws w db of
        None \<Rightarrow> (Inl (WorkspaceNotFound w), db)
      | Some r \<Rightarrow>
          if agent \<notin> set (row_members r) then (Inr (Some r), db)
          else
            (let db1 = set_members w (filter (\<lambda>a. a \<noteq> agent) (row_members r)) db in
             ws_updated E w
               (db1\<lparr>ws_files := sql_update
                   (\<lambda>f. wf_workspace f = w \<and> wf_locked_by f = Some agent \<and>
                        (case wf_lock_expires f of None \<Rightarrow> True | Some e \<Rightarrow> now < e))
                   (\<lambda>f. f\<lparr>wf_locked_by := None, wf_lock_expires := None\<rparr>) (ws_files db1)\<rparr>)))"

section \<open>File locks\<close>

definition abs_file :: "ws_row \<Rightarrow> string \<Rightarrow> pure_path" where
  "abs_file r file = path_join (path_of (ws_path r)) (path_of file)"

definition rel_path :: "ws_env \<Rightarrow> ws_row \<Rightarrow> string \<Rightarrow> string option" where
  "rel_path E r file =
     map_option path_str (relative_to (env_resolve E (abs_file r file)) (env_resolve E (path_of (ws_path r))))"

definition find_file :: "string \<Rightarrow> string \<Rightarrow> ws_db \<Rightarrow> file_row option" where
  "find_file w p db = fetchone (filter (\<lambda>f. wf_workspace f = w \<and> wf_path f = p) (ws_files db))"

definition upd_file :: "nat \<Rightarrow> (file_row \<Rightarrow> file_row) \<Rightarrow> ws_db \<Rightarrow> ws_db" where
  "upd_file n g db = db\<lparr>ws_files := sql_update (\<lambda>f. wf_id f = n) g (ws_files db)\<rparr>"

definition locked_by_other :: "int \<Rightarrow> string \<Rightarrow> file_row \<Rightarrow> bool" where
  "locked_by_other now agent f =
     (opt_true (wf_locked_by f) \<and> wf_locked_by f \<noteq> Some agent \<and> now < the_default 0 (wf_lock_expires f))"

definition lock_event :: "string \<Rightarrow> string \<Rightarrow> string \<Rightarrow> (string \<times> json) list" where
  "lock_event w p agent = [(''workspace_id'', JStr w), (''path'', JStr p), (''agent_id'', JStr agent)]"

definition lock_write ::
  "ws_env \<Rightarrow> int \<Rightarrow> string \<Rightarrow> string \<Rightarrow> pure_path \<Rightarrow> string \<Rightarrow> int \<Rightarrow> ws_db \<Rightarrow> ws_db" where
  "lock_write E now w p q agent expires db =
     (case find_file w p db of
        Some f \<Rightarrow>
          upd_file (wf_id f)
            (\<lambda>f. f\<lparr>wf_locked_by := Some agent, wf_lock_expires := Some expires, wf_version := wf_version f + 1\<rparr>) db
      | None \<Rightarrow>
          db\<lparr>ws_seq := Suc (ws_seq db),
             ws_files := ws_files db @
               [\<lparr> wf_id = Suc (ws_seq db), wf_workspace = w, wf_path = p, wf_locked_by = Some agent,
                  wf_lock_expires = Some expires, wf_checksum = compute_checksum E q, wf_version = 1,
                  wf_updated_at = now \<rparr>]\<rparr>)"

definition lock ::
  "ws_env \<Rightarrow> int \<Rightarrow> string \<Rightarrow> string \<Rightarrow> string \<Rightarrow> int option \<Rightarrow> ws_db \<Rightarrow> (ws_error + file_row option) \<times> ws_db" where
  "lock E now w file agent ttl db =
     (case get_ws w db of
        None \<Rightarrow> (Inl (WorkspaceNotFound w), db)
      | Some r \<Rightarrow>
          if agent \<notin> set (row_members r) then (Inl (MemberError agent), db)
          else
            (case rel_path E r file of
               None \<Rightarrow> (Inl OutsideWorkspace, db)
             | Some p \<Rightarrow>
                 if (case find_file w p db of None \<Rightarrow> False | Some f \<Rightarrow> locked_by_other now agent f)
                 then (Inl (LockError p), db)
                 else
                   (let db1 = lock_write E now w p (abs_file r file) agent (now + the_default (env_lock_ttl E) ttl) db
                    in (Inr (find_file w p db1), ws_broadcast E ''file_locked'' (lock_event w p agent) db1))))"

definition unlock ::
  "ws_env \<Rightarrow> int \<Rightarrow> string \<Rightarrow> string \<Rightarrow> string \<Rightarrow> ws_db \<Rightarrow> (ws_error + file_row option) \<times> ws_db" where
  "unlock E now w file agent db =
     (case get_ws w db of
        None \<Rightarrow> (Inl (WorkspaceNotFound w), db)
      | Some r \<Rightarrow>
          (case rel_path E r file of
             None \<Rightarrow> (Inl OutsideWorkspace, db)
           | Some p \<Rightarrow>
               (case find_file w p db of
                  None \<Rightarrow> (Inr None, db)
                | Some f \<Rightarrow>
                    if opt_true (wf_locked_by f) \<and> wf_locked_by f \<noteq> Some agent then (Inl (LockError p), db)
                    else
                      (let db1 = upd_file (wf_id f)
                         (\<lambda>f. f\<lparr>wf_locked_by := None, wf_lock_expires := None,
                                 wf_checksum := compute_checksum E (abs_file r file),
                                 wf_version := wf_version f + 1, wf_updated_at := now\<rparr>) db
                       in (Inr (row_by wf_id (wf_id f) (ws_files db1)),
                           ws_broadcast E ''file_unlocked'' (lock_event w p agent) db1)))))"

section \<open>File tracking and the reaper\<close>

definition list_files :: "string \<Rightarrow> ws_db \<Rightarrow> file_row list" where
  "list_files w db = sort_key wf_path (filter (\<lambda>f. wf_workspace f = w) (ws_files db))"

text \<open>The outer option is a raised \<open>ValueError\<close>.\<close>

definition get_file_status :: "ws_env \<Rightarrow> string \<Rightarrow> string \<Rightarrow> ws_db \<Rightarrow> file_row option option" where
  "get_file_status E w file db =
     (case get_ws w db of
        None \<Rightarrow> Some None
      | Some r \<Rightarrow> map_option (\<lambda>p. find_file w p db) (rel_path E r file))"

definition reap_stale_locks :: "ws_env \<Rightarrow> int \<Rightarrow> int option \<Rightarrow> ws_db \<Rightarrow> nat \<times> ws_db" where
  "reap_stale_locks E now max_age db =
     (let cutoff = now - the_default (env_lock_ttl E) max_age;
          stale = (\<lambda>f. col_less (wf_lock_expires f) cutoff)
      in (sql_count stale (ws_files db),
          db\<lparr>ws_files := sql_update stale (\<lambda>f. f\<lparr>wf_locked_by := None, wf_lock_expires := None\<rparr>) (ws_files db)\<rparr>))"

end
