(* ===== verification/SharedWorkspaceProps.thy ===== *)
theory SharedWorkspaceProps
  imports SharedWorkspace JsonTextProps
begin

text \<open>
  The operations that write, as calls; the invariant of the tables, with the confinement of the
  tracked files; and the file lock as a lease.
\<close>

section \<open>Calls\<close>

datatype ws_call =
    CreateWs string string string string "string list" "string option"
  | DeleteWs string string
  | JoinWs string string
  | LeaveWs string string
  | LockFile string string string "int option"
  | UnlockFile string string string
  | ReapLocks "int option"

definition exec_ws :: "ws_env \<Rightarrow> int \<times> ws_call \<Rightarrow> ws_db \<Rightarrow> ws_db" where
  "exec_ws E c db =
     (case c of (now, x) \<Rightarrow>
       (case x of
          CreateWs w name creator ten members p \<Rightarrow> snd (ws_create E now w name creator ten members p db)
        | DeleteWs w caller \<Rightarrow> snd (ws_delete E w caller db)
        | JoinWs w agent \<Rightarrow> snd (join_ws E w agent db)
        | LeaveWs w agent \<Rightarrow> snd (leave_ws E now w agent db)
        | LockFile w file agent ttl \<Rightarrow> snd (lock E now w file agent ttl db)
        | UnlockFile w file agent \<Rightarrow> snd (unlock E now w file agent db)
        | ReapLocks m \<Rightarrow> snd (reap_stale_locks E now m db)))"

text \<open>The tables after a sequence of calls on a new database.\<close>

definition ws_after :: "ws_env \<Rightarrow> (int \<times> ws_call) list \<Rightarrow> ws_db" where
  "ws_after E cs = fold (exec_ws E) cs empty_ws_db"

section \<open>The invariant\<close>

definition members_ok :: "ws_row \<Rightarrow> bool" where
  "members_ok r \<longleftrightarrow> (\<exists>xs. sorted xs \<and> distinct xs \<and> ws_members r = dumps plain_opts (JList (map JStr xs)))"

definition workspaces_ok :: "ws_db \<Rightarrow> bool" where
  "workspaces_ok db \<longleftrightarrow> distinct (map ws_id (ws_rows db)) \<and> (\<forall>r \<in> set (ws_rows db). members_ok r)"

definition file_ok :: "file_row \<Rightarrow> bool" where
  "file_ok f \<longleftrightarrow> 1 \<le> wf_version f \<and> (wf_locked_by f = None \<longleftrightarrow> wf_lock_expires f = None)"

abbreviation file_key :: "file_row \<Rightarrow> string \<times> string" where
  "file_key f \<equiv> (wf_workspace f, wf_path f)"

definition files_ok :: "ws_db \<Rightarrow> bool" where
  "files_ok db \<longleftrightarrow> distinct (map wf_id (ws_files db)) \<and> distinct (map file_key (ws_files db)) \<and>
     (\<forall>f \<in> set (ws_files db). file_ok f \<and> wf_id f \<le> ws_seq db)"

text \<open>A tracked path is that of a file below the directory of its workspace, links resolved.\<close>

definition inside :: "ws_env \<Rightarrow> ws_row \<Rightarrow> string \<Rightarrow> bool" where
  "inside E r p \<longleftrightarrow>
     (\<exists>q rel. env_resolve E q = path_join (env_resolve E (path_of (ws_path r))) rel \<and> \<not> is_absolute rel \<and> p = path_str rel)"

definition files_inside :: "ws_env \<Rightarrow> ws_db \<Rightarrow> bool" where
  "files_inside E db \<longleftrightarrow>
     (\<forall>f \<in> set (ws_files db). \<exists>r. get_ws (wf_workspace f) db = Some r \<and> inside E r (wf_path f))"

definition ws_ok :: "ws_env \<Rightarrow> ws_db \<Rightarrow> bool" where
  "ws_ok E db \<longleftrightarrow> workspaces_ok db \<and> files_ok db \<and> files_inside E db"

lemma ws_ok_empty: "ws_ok E empty_ws_db"
  by (simp add: ws_ok_def workspaces_ok_def files_ok_def files_inside_def empty_ws_db_def)

subsection \<open>The writes\<close>

lemma broadcast_frame [frame_simps]:
  "ws_rows (ws_broadcast E ty d db) = ws_rows db" "ws_files (ws_broadcast E ty d db) = ws_files db"
  "ws_seq (ws_broadcast E ty d db) = ws_seq db" "get_ws w (ws_broadcast E ty d db) = get_ws w db"
  "find_file w p (ws_broadcast E ty d db) = find_file w p db"
  by (simp_all add: ws_broadcast_def get_ws_def find_file_def)

lemma ws_ok_broadcast [frame_simps]: "ws_ok E (ws_broadcast E' ty d db) = ws_ok E db"
  by (simp add: ws_ok_def workspaces_ok_def files_ok_def files_inside_def frame_simps)

lemma members_ok_text: "members_ok (r\<lparr>ws_members := members_text xs\<rparr>)"
  unfolding members_ok_def members_text_def by (rule exI [of _ "sort (remdups xs)"]) simp

lemma set_members_frame [frame_simps]:
  "ws_files (set_members w xs db) = ws_files db" "ws_seq (set_members w xs db) = ws_seq db"
  "find_file v p (set_members w xs db) = find_file v p db"
  "get_ws v (set_members w xs db) =
     map_option (\<lambda>r. if ws_id r = w then r\<lparr>ws_members := members_text xs\<rparr> else r) (get_ws v db)"
  by (simp_all add: set_members_def find_file_def get_ws_def row_by_sql_update)

lemma inside_members [simp]: "inside E (r\<lparr>ws_members := t\<rparr>) p = inside E r p"
  by (simp add: inside_def)

lemma ws_ok_set_members: "ws_ok E db \<Longrightarrow> ws_ok E (set_members w xs db)"
proof -
  assume ok: "ws_ok E db"
  then have "workspaces_ok (set_members w xs db)"
    by (auto simp: ws_ok_def workspaces_ok_def set_members_def map_sql_update set_sql_update members_ok_text)
  moreover have "files_inside E (set_members w xs db)"
    unfolding files_inside_def set_members_frame
  proof
    fix f assume "f \<in> set (ws_files db)"
    with ok obtain r where "get_ws (wf_workspace f) db = Some r" "inside E r (wf_path f)"
      by (auto simp: ws_ok_def files_inside_def)
    then show "\<exists>r. map_option (\<lambda>r. if ws_id r = w then r\<lparr>ws_members := members_text xs\<rparr> else r)
        (get_ws (wf_workspace f) db) = Some r \<and> inside E r (wf_path f)"
      by simp
  qed
  ultimately show ?thesis
    using ok by (simp add: ws_ok_def files_ok_def frame_simps)
qed

text \<open>An update that keeps the keys of the rows and their form.\<close>

lemma ws_ok_update_files:
  assumes "ws_ok E db"
    and "\<And>f. P f \<Longrightarrow> wf_id (g f) = wf_id f \<and> file_key (g f) = file_key f \<and> (file_ok f \<longrightarrow> file_ok (g f))"
  shows "ws_ok E (db\<lparr>ws_files := sql_update P g (ws_files db)\<rparr>)"
proof -
  have "map wf_id (sql_update P g (ws_files db)) = map wf_id (ws_files db)"
    "map file_key (sql_update P g (ws_files db)) = map file_key (ws_files db)"
    by (rule map_sql_update, use assms(2) in simp)+
  then show ?thesis
    using assms
    by (fastforce simp: ws_ok_def workspaces_ok_def files_ok_def files_inside_def get_ws_def set_sql_update)
qed

lemma find_file_mem: "find_file w p db = Some f \<Longrightarrow> f \<in> set (ws_files db) \<and> file_key f = (w, p)"
  by (auto simp: find_file_def dest!: fetchone_mem)

lemma find_file_None: "find_file w p db = None \<longleftrightarrow> (w, p) \<notin> file_key ` set (ws_files db)"
  by (auto simp: find_file_def filter_empty_conv)

lemma rel_path_inside: "rel_path E r file = Some p \<Longrightarrow> inside E r p"
proof -
  assume "rel_path E r file = Some p"
  then obtain rel where "relative_to (env_resolve E (abs_file r file)) (env_resolve E (path_of (ws_path r))) = Some rel"
    "p = path_str rel"
    by (auto simp: rel_path_def)
  then show ?thesis
    unfolding inside_def
    by (intro exI [of _ "abs_file r file"] exI [of _ rel])
      (auto simp: relative_to_def path_join_def is_absolute_def split: if_splits intro!: pure_path.equality,
       metis append_take_drop_id)
qed

lemma ws_ok_lock_write:
  assumes "ws_ok E db" "get_ws w db = Some r" "inside E r p"
  shows "ws_ok E (lock_write E now w p q agent e db)"
proof (cases "find_file w p db")
  case None
  define f where "f = \<lparr> wf_id = Suc (ws_seq db), wf_workspace = w, wf_path = p, wf_locked_by = Some agent,
    wf_lock_expires = Some e, wf_checksum = compute_checksum E q, wf_version = 1, wf_updated_at = now \<rparr>"
  have eq: "lock_write E now w p q agent e db = db\<lparr>ws_seq := Suc (ws_seq db), ws_files := ws_files db @ [f]\<rparr>"
    using None by (simp add: lock_write_def f_def)
  have f: "file_key f = (w, p)" "wf_id f = Suc (ws_seq db)" "file_ok f"
    by (simp_all add: f_def file_ok_def)
  have "files_ok (lock_write E now w p q agent e db)"
    using assms(1) None f unfolding eq by (fastforce simp: ws_ok_def files_ok_def find_file_None)
  moreover have "files_inside E (lock_write E now w p q agent e db)"
    using assms f unfolding eq by (auto simp: ws_ok_def files_inside_def get_ws_def)
  ultimately show ?thesis
    using assms(1) unfolding eq by (simp add: ws_ok_def workspaces_ok_def)
next
  case (Some f)
  have "ws_ok E (upd_file (wf_id f)
      (\<lambda>f. f\<lparr>wf_locked_by := Some agent, wf_lock_expires := Some e, wf_version := wf_version f + 1\<rparr>) db)"
    unfolding upd_file_def using assms(1) by (rule ws_ok_update_files) (auto simp: file_ok_def)
  with Some show ?thesis by (simp add: lock_write_def)
qed

subsection \<open>The operations\<close>

lemma ws_ok_create: "ws_ok E db \<Longrightarrow> ws_ok E (snd (ws_create E now w name creator ten members p db))"
proof -
  assume ok: "ws_ok E db"
  have "ws_ok E (db\<lparr>ws_rows := ws_rows db @ [r]\<rparr>)" if "get_ws w db = None" "ws_id r = w" "members_ok r" for r
  proof -
    have "w \<notin> ws_id ` set (ws_rows db)" using that(1) by (simp add: get_ws_def row_by_None_iff)
    then show ?thesis
      using ok that(2,3)
      by (auto simp: ws_ok_def workspaces_ok_def files_ok_def files_inside_def get_ws_def row_by_append split: option.splits)
  qed
  moreover have "members_ok r" if "ws_members r = members_text xs" for r xs
    using members_ok_text [of xs r] that by (simp add: members_ok_def)
  ultimately show ?thesis
    using ok by (auto simp: ws_create_def Let_def ws_ok_broadcast)
qed

lemma ws_ok_delete: "ws_ok E db \<Longrightarrow> ws_ok E (snd (ws_delete E w caller db))"
proof -
  assume ok: "ws_ok E db"
  let ?fs = "sql_delete (\<lambda>f. wf_workspace f = w) (ws_files db)"
  and ?rs = "sql_delete (\<lambda>r. ws_id r = w) (ws_rows db)"
  have keep: "row_by ws_id v ?rs = row_by ws_id v (ws_rows db)" if "v \<noteq> w" for v
    by (rule row_by_sql_delete_other) (use that in auto)
  have "files_inside E (db\<lparr>ws_files := ?fs, ws_rows := ?rs\<rparr>)"
    using ok keep by (auto simp: ws_ok_def files_inside_def get_ws_def)
  then have "ws_ok E (db\<lparr>ws_files := ?fs, ws_rows := ?rs\<rparr>)"
    using ok by (auto simp: ws_ok_def workspaces_ok_def files_ok_def intro!: distinct_sql_delete)
  then show ?thesis
    using ok by (simp add: ws_delete_def ws_ok_broadcast split: option.split)
qed

lemma ws_ok_join: "ws_ok E db \<Longrightarrow> ws_ok E (snd (join_ws E w agent db))"
  by (simp add: join_ws_def ws_updated_def ws_ok_broadcast ws_ok_set_members split: option.split)

lemma ws_ok_leave: "ws_ok E db \<Longrightarrow> ws_ok E (snd (leave_ws E now w agent db))"
  by (auto simp: leave_ws_def ws_updated_def ws_ok_broadcast Let_def file_ok_def
    intro!: ws_ok_update_files ws_ok_set_members split: option.split)

lemma ws_ok_lock: "ws_ok E db \<Longrightarrow> ws_ok E (snd (lock E now w file agent ttl db))"
  by (auto simp: lock_def Let_def ws_ok_broadcast intro!: ws_ok_lock_write rel_path_inside split: option.split)

lemma ws_ok_unlock: "ws_ok E db \<Longrightarrow> ws_ok E (snd (unlock E now w file agent db))"
  by (auto simp: unlock_def Let_def ws_ok_broadcast upd_file_def file_ok_def intro!: ws_ok_update_files split: option.split)

lemma ws_ok_reap: "ws_ok E db \<Longrightarrow> ws_ok E (snd (reap_stale_locks E now m db))"
  by (auto simp: reap_stale_locks_def Let_def file_ok_def intro!: ws_ok_update_files)

lemmas ws_ok_operations =
  ws_ok_create ws_ok_delete ws_ok_join ws_ok_leave ws_ok_lock ws_ok_unlock ws_ok_reap

lemma ws_ok_exec: "ws_ok E db \<Longrightarrow> ws_ok E (exec_ws E c db)"
  by (auto simp: exec_ws_def ws_ok_operations split: prod.split ws_call.split)

section \<open>The file lock as a lease\<close>

definition held_lock :: "string \<times> string \<times> string \<Rightarrow> string \<times> int \<Rightarrow> ws_db \<Rightarrow> bool" where
  "held_lock k o' db =
     (case (k, o') of ((w, dir, p), (agent, e)) \<Rightarrow>
       agent \<noteq> [] \<and> map_option ws_path (get_ws w db) = Some dir \<and>
       (case find_file w p db of None \<Rightarrow> False
        | Some f \<Rightarrow> wf_locked_by f = Some agent \<and> \<not> col_less (wf_lock_expires f) e \<and> wf_lock_expires f \<noteq> None))"

text \<open>The calls that leave the lock of \<open>agent\<close> on a file of \<open>w\<close> alone: before the expiry, everything
  but the deletion of the workspace and what the agent itself does there.\<close>

definition spares_lock :: "ws_env \<Rightarrow> string \<times> string \<times> string \<Rightarrow> string \<times> int \<Rightarrow> int \<times> ws_call \<Rightarrow> bool" where
  "spares_lock E k o' c =
     (case (k, o', c) of ((w, _, _), (agent, e), (now, x)) \<Rightarrow>
       now < e \<and>
       (case x of
          DeleteWs v _ \<Rightarrow> v \<noteq> w
        | LeaveWs v a \<Rightarrow> v \<noteq> w \<or> a \<noteq> agent
        | LockFile v _ a _ \<Rightarrow> v \<noteq> w \<or> a \<noteq> agent
        | UnlockFile v _ a \<Rightarrow> v \<noteq> w \<or> a \<noteq> agent
        | ReapLocks m \<Rightarrow> 0 \<le> the_default (env_lock_ttl E) m
        | _ \<Rightarrow> True))"

lemma held_lock_iff:
  "held_lock (w, dir, p) (agent, e) db \<longleftrightarrow>
     agent \<noteq> [] \<and> (\<exists>r. get_ws w db = Some r \<and> ws_path r = dir) \<and>
     (\<exists>f x. find_file w p db = Some f \<and> wf_locked_by f = Some agent \<and> wf_lock_expires f = Some x \<and> e \<le> x)"
  by (auto simp: held_lock_def col_less_iff split: option.split)

lemma find_file_row_by: "find_file w p db = row_by file_key (w, p) (ws_files db)"
  by (simp add: find_file_def row_by_def)

lemma find_file_update:
  assumes "\<And>f. P f \<Longrightarrow> file_key (g f) = file_key f"
  shows "find_file w p (db\<lparr>ws_files := sql_update P g (ws_files db)\<rparr>) =
    map_option (\<lambda>f. if P f then g f else f) (find_file w p db)"
  using assms by (simp add: find_file_row_by row_by_sql_update)

lemma get_ws_files [simp]: "get_ws w (db\<lparr>ws_files := fs\<rparr>) = get_ws w db"
  by (simp add: get_ws_def)

lemma held_lock_cong:
  "map_option ws_path (get_ws (fst k) db') = map_option ws_path (get_ws (fst k) db) \<Longrightarrow>
   find_file (fst k) (snd (snd k)) db' = find_file (fst k) (snd (snd k)) db \<Longrightarrow> held_lock k o' db' = held_lock k o' db"
  by (cases k; cases o') (simp add: held_lock_def del: map_option_eq_Some)

lemma held_lock_broadcast [frame_simps]: "held_lock k o' (ws_broadcast E ty d db) = held_lock k o' db"
  by (rule held_lock_cong) (simp_all add: frame_simps)

lemma held_lock_set_members [frame_simps]: "held_lock k o' (set_members w xs db) = held_lock k o' db"
  by (rule held_lock_cong) (auto simp: frame_simps option.map_comp comp_def intro!: option.map_cong)

text \<open>Updates that miss the row of the lock.\<close>

lemma held_lock_update_files:
  assumes "held_lock (w, dir, p) (agent, e) db" "\<And>f. P f \<Longrightarrow> file_key (g f) = file_key f"
    and "\<And>f x. find_file w p db = Some f \<Longrightarrow> wf_locked_by f = Some agent \<Longrightarrow> wf_lock_expires f = Some x \<Longrightarrow>
      e \<le> x \<Longrightarrow> \<not> P f"
  shows "held_lock (w, dir, p) (agent, e) (db\<lparr>ws_files := sql_update P g (ws_files db)\<rparr>)"
proof -
  obtain r f x where "agent \<noteq> []" "get_ws w db = Some r" "ws_path r = dir" "find_file w p db = Some f"
    "wf_locked_by f = Some agent" "wf_lock_expires f = Some x" "e \<le> x"
    using assms(1) by (auto simp: held_lock_iff)
  moreover from this have "\<not> P f" using assms(3) by blast
  ultimately show ?thesis using assms(2) by (simp add: held_lock_iff find_file_update)
qed

lemma held_lock_upd_other:
  assumes "held_lock (w, dir, p) (agent, e) db" "ws_ok E db" "find_file v q db = Some f0" "(v, q) \<noteq> (w, p)"
    and "\<And>f. file_key (g f) = file_key f"
  shows "held_lock (w, dir, p) (agent, e) (upd_file (wf_id f0) g db)"
  unfolding upd_file_def
proof (rule held_lock_update_files [OF assms(1)])
  fix f assume "find_file w p db = Some f"
  then have "f \<in> set (ws_files db)" "f0 \<in> set (ws_files db)" "f \<noteq> f0"
    using find_file_mem [of w p db f] find_file_mem [OF assms(3)] assms(4) by auto
  moreover have "inj_on wf_id (set (ws_files db))"
    using assms(2) by (simp add: ws_ok_def files_ok_def distinct_map)
  ultimately show "wf_id f \<noteq> wf_id f0" by (auto dest: inj_onD)
qed (rule assms(5))

lemma held_lock_write:
  assumes "held_lock (w, dir, p) (agent, e) db" "ws_ok E db" "(v, q) \<noteq> (w, p)"
  shows "held_lock (w, dir, p) (agent, e) (lock_write E' now v q u b x db)"
proof (cases "find_file v q db")
  case None
  with assms(1) show ?thesis
    by (auto simp: lock_write_def held_lock_iff find_file_row_by row_by_append get_ws_def)
next
  case (Some f)
  have "held_lock (w, dir, p) (agent, e) (upd_file (wf_id f)
      (\<lambda>f. f\<lparr>wf_locked_by := Some b, wf_lock_expires := Some x, wf_version := wf_version f + 1\<rparr>) db)"
    by (rule held_lock_upd_other [OF assms(1,2) Some assms(3)]) simp
  with Some show ?thesis by (simp add: lock_write_def)
qed

lemma held_blocks_lock:
  assumes "held_lock (w, dir, p) (agent, e) db" "get_ws w db = Some r" "rel_path E r file = Some p"
    and "now < e" "b \<noteq> agent"
  shows "\<exists>err. lock E now w file b ttl db = (Inl err, db)" and "unlock E now w file b db = (Inl (LockError p), db)"
  using assms by (auto simp: lock_def unlock_def held_lock_iff locked_by_other_def)

lemma held_lock_lock:
  assumes "held_lock (w, dir, p) (agent, e) db" "ws_ok E db" "now < e" "v \<noteq> w \<or> b \<noteq> agent"
  shows "held_lock (w, dir, p) (agent, e) (snd (lock E now v file b ttl db))"
proof (cases "\<exists>r. v = w \<and> get_ws w db = Some r \<and> rel_path E r file = Some p")
  case True
  then obtain err where "lock E now v file b ttl db = (Inl err, db)"
    using held_blocks_lock(1) [OF assms(1)] assms(3,4) by blast
  with assms(1) show ?thesis by simp
next
  case False
  with assms(1,2) show ?thesis
    by (auto simp: lock_def Let_def frame_simps intro!: held_lock_write split: option.split)
qed

lemma held_lock_unlock:
  assumes "held_lock (w, dir, p) (agent, e) db" "ws_ok E db" "now < e" "v \<noteq> w \<or> b \<noteq> agent"
  shows "held_lock (w, dir, p) (agent, e) (snd (unlock E now v file b db))"
proof (cases "\<exists>r. v = w \<and> get_ws w db = Some r \<and> rel_path E r file = Some p")
  case True
  then have "unlock E now v file b db = (Inl (LockError p), db)"
    using held_blocks_lock(2) [OF assms(1)] assms(3,4) by blast
  with assms(1) show ?thesis by simp
next
  case False
  with assms(1,2) show ?thesis
    by (auto simp: unlock_def Let_def frame_simps intro!: held_lock_upd_other split: option.split)
qed

lemma held_lock_delete:
  "held_lock (w, dir, p) (agent, e) db \<Longrightarrow> v \<noteq> w \<Longrightarrow> held_lock (w, dir, p) (agent, e) (snd (ws_delete E v caller db))"
proof -
  assume held: "held_lock (w, dir, p) (agent, e) db" and "v \<noteq> w"
  then have "row_by ws_id w (sql_delete (\<lambda>r. ws_id r = v) (ws_rows db)) = row_by ws_id w (ws_rows db)"
    "row_by file_key (w, p) (sql_delete (\<lambda>f. wf_workspace f = v) (ws_files db)) = row_by file_key (w, p) (ws_files db)"
    by (auto intro!: row_by_sql_delete_other)
  with held show ?thesis
    by (auto simp: ws_delete_def frame_simps held_lock_iff get_ws_def find_file_row_by split: option.split)
qed

lemma held_lock_create:
  "held_lock (w, dir, p) (agent, e) db \<Longrightarrow>
    held_lock (w, dir, p) (agent, e) (snd (ws_create E now v name creator ten members path db))"
  by (auto simp: ws_create_def Let_def frame_simps held_lock_iff get_ws_def find_file_row_by row_by_append
    split: option.split)

lemma held_lock_leave:
  assumes "held_lock (w, dir, p) (agent, e) db" "v \<noteq> w \<or> b \<noteq> agent"
  shows "held_lock (w, dir, p) (agent, e) (snd (leave_ws E now v b db))"
proof -
  have "held_lock (w, dir, p) (agent, e) (d\<lparr>ws_files := sql_update
      (\<lambda>f. wf_workspace f = v \<and> wf_locked_by f = Some b \<and> (case wf_lock_expires f of None \<Rightarrow> True | Some x \<Rightarrow> now < x))
      (\<lambda>f. f\<lparr>wf_locked_by := None, wf_lock_expires := None\<rparr>) (ws_files d)\<rparr>)"
    if "d = set_members v xs db" for d xs
    by (rule held_lock_update_files) (use that assms in \<open>auto simp: frame_simps dest: find_file_mem\<close>)
  from this [OF refl] assms(1) show ?thesis
    by (simp add: leave_ws_def ws_updated_def Let_def held_lock_broadcast split: option.split)
qed

lemma held_lock_join:
  "held_lock (w, dir, p) (agent, e) db \<Longrightarrow> held_lock (w, dir, p) (agent, e) (snd (join_ws E v b db))"
  by (simp add: join_ws_def ws_updated_def frame_simps split: option.split)

lemma held_lock_reap:
  "held_lock (w, dir, p) (agent, e) db \<Longrightarrow> now < e \<Longrightarrow> 0 \<le> the_default (env_lock_ttl E) m \<Longrightarrow>
    held_lock (w, dir, p) (agent, e) (snd (reap_stale_locks E now m db))"
  by (auto simp: reap_stale_locks_def Let_def col_less_iff intro!: held_lock_update_files)

lemma held_lock_exec:
  assumes "ws_ok E db" "held_lock k o' db" "spares_lock E k o' c"
  shows "held_lock k o' (exec_ws E c db)"
proof -
  obtain w dir p agent e now x where [simp]: "k = (w, dir, p)" "o' = (agent, e)" "c = (now, x)"
    by (cases k; cases o'; cases c) auto
  show ?thesis
    using assms by (cases x) (auto simp: exec_ws_def spares_lock_def held_lock_create held_lock_delete held_lock_join
      held_lock_leave held_lock_lock held_lock_unlock held_lock_reap)
qed

interpretation locks: lease_system "exec_ws E" "ws_ok E" empty_ws_db held_lock "spares_lock E"
  for E :: ws_env
  by unfold_locales (rule ws_ok_empty, erule ws_ok_exec, rule held_lock_exec)

lemma lock_success_held:
  assumes "lock E now w file agent ttl db = (Inr x, db1)" "agent \<noteq> []" "get_ws w db = Some r"
  shows "\<exists>p. rel_path E r file = Some p \<and>
    held_lock (w, ws_path r, p) (agent, now + the_default (env_lock_ttl E) ttl) db1"
proof -
  obtain p where p: "rel_path E r file = Some p"
    and db1: "db1 = ws_broadcast E ''file_locked'' (lock_event w p agent)
      (lock_write E now w p (abs_file r file) agent (now + the_default (env_lock_ttl E) ttl) db)"
    using assms by (auto simp: lock_def Let_def split: option.splits if_splits)
  have "held_lock (w, ws_path r, p) (agent, e) (lock_write E now w p q agent e db)" for q e
    using assms(2,3) by (cases "find_file w p db")
      (auto simp: held_lock_iff lock_write_def upd_file_def find_file_update find_file_row_by row_by_append row_by_Cons
        get_ws_def row_by_sql_update)
  with p db1 show ?thesis by (simp add: frame_simps)
qed

section \<open>Properties\<close>

lemma row_members_text: "members_ok r \<Longrightarrow> sorted (row_members r) \<and> distinct (row_members r) \<and>
    ws_members r = members_text (row_members r)"
proof -
  assume "members_ok r"
  then obtain xs where xs: "sorted xs" "distinct xs" "ws_members r = dumps plain_opts (JList (map JStr xs))"
    by (auto simp: members_ok_def)
  have "concat (map ((\<lambda>x. case x of JStr s \<Rightarrow> [s] | _ \<Rightarrow> []) \<circ> JStr) ys) = ys" for ys
    by (induction ys) simp_all
  then have "row_members r = xs"
    using loads_dumps [of plain_opts "JList (map JStr xs)"] by (simp add: row_members_def xs(3) str_list_def)
  with xs show ?thesis by (simp add: members_text_def distinct_remdups_id sorted_sort_id)
qed

text \<open>C22: Whatever calls the workspace manager gets, its tables stay well-typed: workspace ids, file ids and the
  pairs of workspace and path are unique, every member column is the JSON text of a sorted list
  without repetition and reads back as it, a file has an owner exactly when it has an expiry, its
  version is positive, its workspace exists, and its path, links resolved, lies below the directory
  of the workspace.\<close>

theorem workspace_tables_typed:
  shows "distinct (map ws_id (ws_rows (ws_after E cs))) \<and> distinct (map wf_id (ws_files (ws_after E cs))) \<and>
    distinct (map file_key (ws_files (ws_after E cs))) \<and>
    (\<forall>r \<in> set (ws_rows (ws_after E cs)). sorted (row_members r) \<and> distinct (row_members r) \<and>
       ws_members r = members_text (row_members r)) \<and>
    (\<forall>f \<in> set (ws_files (ws_after E cs)). (wf_locked_by f = None \<longleftrightarrow> wf_lock_expires f = None) \<and> 1 \<le> wf_version f \<and>
       (\<exists>r. get_ws (wf_workspace f) (ws_after E cs) = Some r \<and> inside E r (wf_path f)))"
proof -
  have "ws_ok E (ws_after E cs)" unfolding ws_after_def by (rule locks.reach_ok)
  then show ?thesis
    using row_members_text by (simp add: ws_ok_def workspaces_ok_def files_ok_def files_inside_def file_ok_def)
qed

definition demo_env :: ws_env where
  "demo_env = \<lparr> env_resolve = id, env_size = (\<lambda>_. None), env_digest = (\<lambda>_. None), env_root = path_of ''/srv'',
     env_lock_ttl = 300, env_broadcasts = False \<rparr>"

definition demo_ws_calls :: "(int \<times> ws_call) list" where
  "demo_ws_calls = [(1, CreateWs ''w'' ''n'' ''b'' [] [''c''] None), (2, JoinWs ''w'' ''a''),
     (3, LockFile ''w'' ''./f'' ''a'' None), (4, LockFile ''w'' ''f'' ''b'' None)]"

theorem workspace_tables_typed_witness:
  "row_members (hd (ws_rows (ws_after demo_env demo_ws_calls))) = [''a'', ''b'', ''c''] \<and>
   wf_locked_by (hd (ws_files (ws_after demo_env demo_ws_calls))) = Some ''a'' \<and>
   wf_lock_expires (hd (ws_files (ws_after demo_env demo_ws_calls))) \<noteq> None"
proof -
  have "row_members (hd (ws_rows (ws_after demo_env demo_ws_calls))) = [''a'', ''b'', ''c'']"
    "wf_locked_by (hd (ws_files (ws_after demo_env demo_ws_calls))) = Some ''a''"
    "ws_files (ws_after demo_env demo_ws_calls) \<noteq> []" by code_simp+
  with workspace_tables_typed [of demo_env demo_ws_calls] show ?thesis by (metis hd_in_set option.distinct(1))
qed

text \<open>C23: A file lock is exclusive: once an agent has it, then until its expiry and whatever other agents do,
  every other agent that tries to lock or unlock that file, under any name that resolves to it, is
  refused without effect, unless the agent acts on the workspace itself or the workspace is deleted.\<close>

theorem file_lock_is_exclusive:
  assumes "ws_ok E db" "lock E now w file agent ttl db = (Inr x, db1)" "agent \<noteq> []" "get_ws w db = Some r"
    and "e = now + the_default (env_lock_ttl E) ttl" "rel_path E r file = Some p"
    and "\<forall>c \<in> set cs. spares_lock E (w, ws_path r, p) (agent, e) c"
    and "now' < e" "other \<noteq> agent" "rel_path E r name = Some p"
  shows "(\<exists>err. lock E now' w name other ttl' (fold (exec_ws E) cs db1) = (Inl err, fold (exec_ws E) cs db1)) \<and>
    unlock E now' w name other (fold (exec_ws E) cs db1) = (Inl (LockError p), fold (exec_ws E) cs db1) \<and>
    held_lock (w, ws_path r, p) (agent, e) (fold (exec_ws E) cs db1)"
proof -
  have "held_lock (w, ws_path r, p) (agent, e) db1"
    using lock_success_held [OF assms(2-4)] assms(5,6) by simp
  moreover have "ws_ok E db1" using ws_ok_lock [OF assms(1)] assms(2) by (metis snd_conv)
  ultimately have held: "held_lock (w, ws_path r, p) (agent, e) (fold (exec_ws E) cs db1)"
    using assms(7) by (blast intro: locks.run_spares)
  then obtain r' where "get_ws w (fold (exec_ws E) cs db1) = Some r'" "ws_path r' = ws_path r"
    by (auto simp: held_lock_iff)
  moreover from this have "rel_path E r' name = Some p" using assms(10) by (simp add: rel_path_def abs_file_def)
  ultimately show ?thesis using held_blocks_lock [OF held _ _ assms(8,9)] held by blast
qed

definition demo_ws_db :: ws_db where
  "demo_ws_db = fold (exec_ws demo_env) [(1, CreateWs ''w'' ''n'' ''a'' [] [''b''] None)] empty_ws_db"

definition demo_ws_row :: ws_row where
  "demo_ws_row = \<lparr> ws_id = ''w'', ws_name = ''n'', ws_path = ''/srv/w'', ws_tenant = [],
     ws_members = members_text [''a'', ''b''], ws_created_by = ''a'', ws_created_at = 1 \<rparr>"

lemma demo_ws: "get_ws ''w'' demo_ws_db = Some demo_ws_row" "rel_path demo_env demo_ws_row ''f'' = Some ''f''"
  "rel_path demo_env demo_ws_row ''./f'' = Some ''f''" "rel_path demo_env demo_ws_row ''/etc/f'' = None"
  by code_simp+

theorem file_lock_is_exclusive_witness:
  "\<exists>x db1. lock demo_env 10 ''w'' ''f'' ''a'' None demo_ws_db = (Inr x, db1) \<and>
     (\<exists>err. lock demo_env 200 ''w'' ''./f'' ''b'' None (exec_ws demo_env (100, ReapLocks None) db1) =
       (Inl err, exec_ws demo_env (100, ReapLocks None) db1))"
proof -
  have ok: "ws_ok demo_env demo_ws_db" unfolding demo_ws_db_def by (rule locks.reach_ok)
  have "find_file ''w'' ''f'' demo_ws_db = None" "''a'' \<in> set (row_members demo_ws_row)" by code_simp+
  then obtain x db1 where lock: "lock demo_env 10 ''w'' ''f'' ''a'' None demo_ws_db = (Inr x, db1)"
    using demo_ws by (simp add: lock_def Let_def)
  have "\<forall>c \<in> set [(100, ReapLocks None)]. spares_lock demo_env (''w'', ws_path demo_ws_row, ''f'') (''a'', 310) c"
    by (simp add: spares_lock_def demo_env_def)
  from file_lock_is_exclusive [OF ok lock _ demo_ws(1) _ demo_ws(2) this _ _ demo_ws(3), of 200 "''b''" None]
  show ?thesis using lock by (simp add: demo_env_def)
qed

text \<open>The search for the workspaces of an agent finds those of others whose id contains its own.\<close>

lemma list_accessible_finds_others:
  "list_accessible (Some ''b'') None
     (fold (exec_ws demo_env) [(1, CreateWs ''w'' ''n'' ''abc'' [] [] None)] empty_ws_db) \<noteq> []"
  by code_simp

text \<open>An expired lock stays in the table for another lifetime.\<close>

lemma reaper_waits_twice:
  "wf_locked_by f = Some agent \<Longrightarrow> wf_lock_expires f = Some e \<Longrightarrow> now \<le> e + env_lock_ttl E \<Longrightarrow>
    f \<in> set (ws_files db) \<Longrightarrow> f \<in> set (ws_files (snd (reap_stale_locks E now None db)))"
  by (auto simp: reap_stale_locks_def Let_def set_sql_update col_less_iff image_iff intro!: bexI [of _ f])

end
