(* ===== verification/EnvelopeProps.thy ===== *)
theory EnvelopeProps
  imports Envelope DispatcherProps JsonTextProps GuardrailProps
begin

text \<open>
  What reaches the agent: the envelope of a task survives its journey as JSON text, and the fence
  with an enforcing guardrail keeps the dispatcher from sending suspicious input.
\<close>

section \<open>The round trip\<close>

definition body_readable :: "Task \<Rightarrow> bool" where
  "body_readable t \<longleftrightarrow> (\<forall>s \<in> {body t, metadata t}. pred_option text_ok (Option.bind s loads))"

lemma body_readableD:
  "body_readable t \<Longrightarrow> loads (opt_or (body t) []) = Some v \<Longrightarrow> opt_true (body t) \<Longrightarrow> text_ok v"
  "body_readable t \<Longrightarrow> loads (opt_or (metadata t) []) = Some v \<Longrightarrow> opt_true (metadata t) \<Longrightarrow> text_ok v"
  by (auto simp: body_readable_def opt_true_iff opt_or_def str_or_def)

definition dict_ok :: "(string \<times> json) list \<Rightarrow> bool" where
  "dict_ok d \<longleftrightarrow> distinct (map fst d) \<and> (\<forall>kv \<in> set d. text_ok (snd kv))"

lemma text_ok_obj: "text_ok (JObj d) = dict_ok d"
  by (simp add: dict_ok_def)

lemma dict_okD: "dict_ok d \<Longrightarrow> map_of d k = Some v \<Longrightarrow> text_ok v"
  by (force simp: dict_ok_def dest: map_of_SomeD)

lemma dict_ok_put: "dict_ok d \<Longrightarrow> text_ok v \<Longrightarrow> dict_ok (dict_put k v d)"
  by (auto simp: dict_ok_def distinct_dict_put) (auto simp: dict_put_def split: if_splits)

lemma dict_ok_present: "dict_ok d \<Longrightarrow> dict_ok (present d)"
  by (auto simp: dict_ok_def present_def distinct_map_filter)

lemma dict_ok_merge: "dict_ok d \<Longrightarrow> dict_ok extra \<Longrightarrow> dict_ok (merge_extra extra d)"
  unfolding merge_extra_def
  by (rule fold_invariant [where P = dict_ok])
    (auto split: option.split intro!: dict_ok_put intro: dict_okD)

lemma dict_ok_body: "body_readable t \<Longrightarrow> dict_ok (body_input t)"
  using body_readableD(1) [of t]
  by (auto simp: body_input_def dict_ok_def opt_json_def split: option.split json.split)
    (metis text_ok.simps snd_conv)+

lemma metadata_value_ok: "body_readable t \<Longrightarrow> metadata_value t k = Some v \<Longrightarrow> text_ok v"
  using body_readableD(2) [of t]
  by (fastforce simp: metadata_value_def text_ok_obj dict_ok_def split: option.splits json.splits if_splits
    dest: map_of_SomeD)

definition context_text_ok :: "SecurityContext \<Rightarrow> bool" where
  "context_text_ok c \<longleftrightarrow> text_ok (ctx_scope c) \<and> text_ok (ctx_depth c) \<and> text_ok (ctx_deadline_ms c) \<and> text_ok (ctx_chain_id c)"

lemma build_envelope_text_ok:
  assumes "body_readable t" "dict_ok extra" "context_text_ok (context_of t c)"
    and "envelope_to_dict (build_envelope t c extra m) = Some d"
  shows "text_ok (JObj d)"
proof -
  let ?e = "build_envelope t c extra m"
  have d: "d = present
       [(''task_id'', te_task_id ?e), (''interaction_mode'', JStr (mode_value (the_default DEFAULT_INTERACTION_MODE m))),
        (''skill'', te_skill ?e), (''input_schema'', te_input_schema ?e), (''input'', te_input ?e),
        (''output_contract'', opt_obj contract_to_dict (te_output_contract ?e)),
        (''security_context'', opt_obj context_to_dict (te_security_context ?e)),
        (''tenant_id'', te_tenant_id ?e), (''workspace_uri'', te_workspace_uri ?e)]"
    using assms(4) by (simp add: envelope_to_dict_def build_envelope_def)
  have meta: "text_ok (the_default x (metadata_value t k))" if "text_ok x" for x k
    using metadata_value_ok [OF assms(1)] that by (cases "metadata_value t k") auto
  have "text_ok (te_input ?e)"
    unfolding build_envelope_def TaskEnvelope.simps text_ok_obj by (intro dict_ok_merge dict_ok_body assms)
  moreover have "text_ok (opt_obj context_to_dict (te_security_context ?e))"
  proof -
    have "dict_ok (context_to_dict (context_of t c))"
      unfolding context_to_dict_def using assms(3) by (intro dict_ok_present) (simp add: dict_ok_def context_text_ok_def)
    then show ?thesis by (simp add: build_envelope_def opt_obj_def dict_ok_def)
  qed
  moreover have "text_ok (opt_obj contract_to_dict (te_output_contract ?e))"
    by (simp add: build_envelope_def opt_obj_def contract_to_dict_def present_def)
  moreover have "text_ok (te_skill ?e)" "text_ok (te_input_schema ?e)" "text_ok (te_task_id ?e)" "text_ok (te_tenant_id ?e)"
    "text_ok (te_workspace_uri ?e)"
    by (simp_all add: build_envelope_def meta opt_json_def workspace_uri_of_def Let_def)
  ultimately show ?thesis
    unfolding d text_ok_obj by (intro dict_ok_present) (simp add: dict_ok_def)
qed

text \<open>C24: The envelope of a task reaches the agent as it was built: turned into a dict, sent as JSON text, parsed and
  read back it is the same envelope, provided that the body and the extra fields hold floats in plain
  form, that the context has no null field, and that the metadata of the task do not name the skill
  null: null fields of the context and a null skill are left out of the dict and read back as defaults.\<close>

theorem envelope_survives_the_wire:
  assumes "body_readable t" "dict_ok extra" "context_text_ok (context_of t c)" "context_full (context_of t c)"
    and "metadata_value t ''skill'' \<noteq> Some JNull"
  shows "\<exists>d. envelope_to_dict (build_envelope t c extra m) = Some d \<and> loads (dumps plain_opts (JObj d)) = Some (JObj d) \<and>
    envelope_from_dict d = Some (build_envelope t c extra m)"
proof -
  have "envelope_full (build_envelope t c extra m)"
    using assms(4,5) by (cases "metadata_value t ''skill''")
      (simp_all add: envelope_full_def build_envelope_def contract_full_def opt_json_def)
  then obtain d where d: "envelope_to_dict (build_envelope t c extra m) = Some d"
    "envelope_from_dict d = Some (build_envelope t c extra m)"
    using envelope_round_trip by blast
  have "loads (dumps plain_opts (JObj d)) = Some (JObj d)"
    by (rule loads_dumps [OF opts_ok_used(1) build_envelope_text_ok [OF assms(1-3) d(1)]])
  with d show ?thesis by blast
qed

definition demo_task :: Task where
  "demo_task = Task_default\<lparr>tid := ''t'', body := Some (dumps plain_opts (JObj [(''q'', JStr ''hi'')])), assignee := Some ''a''\<rparr>"

theorem envelope_survives_the_wire_witness:
  "\<exists>d. envelope_to_dict (build_envelope demo_task NoContext [] None) = Some d \<and>
    envelope_from_dict d = Some (build_envelope demo_task NoContext [] None) \<and>
    te_input (build_envelope demo_task NoContext [] None) = JObj [(''q'', JStr ''hi'')]"
proof -
  have body: "loads (dumps plain_opts (JObj [(''q'', JStr ''hi'')])) = Some (JObj [(''q'', JStr ''hi'')])"
    by (rule loads_dumps) simp_all
  have ne: "dumps plain_opts (JObj [(''q'', JStr ''hi'')]) \<noteq> []" by simp
  have demo: "body demo_task = Some (dumps plain_opts (JObj [(''q'', JStr ''hi'')]))" "metadata demo_task = None"
    by (simp_all add: demo_task_def Task_default_def)
  have "body_readable demo_task" using body by (simp add: body_readable_def demo del: dumps.simps)
  moreover have "context_text_ok (context_of demo_task NoContext)" "context_full (context_of demo_task NoContext)"
    by (simp_all add: context_of_def synthesise_security_context_def context_text_ok_def context_full_def opt_json_def)
  moreover have "metadata_value demo_task ''skill'' \<noteq> Some JNull" by (simp add: metadata_value_def demo)
  moreover have "te_input (build_envelope demo_task NoContext [] None) = JObj [(''q'', JStr ''hi'')]"
    using body ne
    by (simp add: build_envelope_def body_input_def demo opt_or_def str_or_def merge_extra_def extra_keys_def
      del: dumps.simps)
  ultimately show ?thesis
    using envelope_survives_the_wire [of demo_task "[]" NoContext None] by (auto simp: dict_ok_def)
qed

text \<open>The chain id of a delegated envelope is the id of its own token, so it changes with every hop.\<close>

lemma chain_id_is_token_id: "derive_provenance_chain num tok = JStr (jti tok)"
  by (simp add: derive_provenance_chain_def hop_dict_def hop_json_def split: list.split)

section \<open>The fence in front of the dispatcher\<close>

definition suspicious :: "json \<Rightarrow> bool" where
  "suspicious j \<longleftrightarrow> flatten_to_text 0 8 j \<noteq> [] \<and> list_ex (\<lambda>p. rx_found p (flatten_to_text 0 8 j)) INJECTION_PATTERNS"

text \<open>The fence of the dispatcher: the envelope it builds for the task, checked by the engine.\<close>

definition guard_fence :: "string option \<Rightarrow> string \<Rightarrow> rat \<Rightarrow> event_store \<Rightarrow> TaskEnvelope \<Rightarrow> string + bool" where
  "guard_fence engine eid clock trail e = Inr (fst (check_ingress_security_fence engine eid clock e trail))"

lemma check_inbound_blocks:
  "suspicious j \<Longrightarrow> opt_or md em \<notin> {''audit'', ''warn''} \<Longrightarrow> \<not> gr_allowed (fst (check_inbound em eid now j md c s))"
  by (auto simp: suspicious_def check_inbound_def Let_def apply_mode_def GuardrailResult_default_def first_match_def
    find_None_iff list_ex_iff split: option.split)

lemma guard_fence_blocks:
  assumes "suspicious (te_input e)" "md \<notin> {''audit'', ''warn''}"
  shows "guard_fence (Some md) eid clock trail e = Inr False"
  using assms check_inbound_blocks [OF assms(1), of None md]
  by (simp add: guard_fence_def check_ingress_security_fence_def opt_or_def)

text \<open>What a step adds to the messages on the WebSockets satisfies \<open>P\<close>.\<close>

definition sends_only :: "(TaskEnvelope \<Rightarrow> bool) \<Rightarrow> DispatchState \<Rightarrow> DispatchState \<Rightarrow> bool" where
  "sends_only P s s' = (\<exists>ms. d_wire s' = d_wire s @ ms \<and> (\<forall>m \<in> set ms. P (snd m)))"

lemma sends_refl [simp]: "sends_only P s s"
  by (simp add: sends_only_def)

lemma sends_trans: "sends_only P a b \<Longrightarrow> sends_only P b c \<Longrightarrow> sends_only P a c"
proof -
  assume "sends_only P a b" "sends_only P b c"
  then obtain ms ns where "d_wire b = d_wire a @ ms" "\<forall>m \<in> set ms. P (snd m)" "d_wire c = d_wire b @ ns" "\<forall>m \<in> set ns. P (snd m)"
    by (auto simp: sends_only_def)
  then show ?thesis unfolding sends_only_def by (intro exI [of _ "ms @ ns"]) auto
qed

lemma wire_frame [simp]:
  "d_wire (snd (on_db f s)) = d_wire s" "d_wire (snd (fail_claim now i msg s)) = d_wire s"
  "d_wire (block_task now i a s) = d_wire s" "d_wire (snd (notify_flow now a r)) = d_wire (snd r)"
  by (auto simp: on_db_def fail_claim_def block_task_def notify_flow_def split: prod.split sum.split)

lemma wire_fail_in_try [simp]: "d_wire (snd (fail_in_try env now i msg pre s)) = d_wire s"
  using wire_frame(2) [of now i msg s] wire_frame(2) [of now i _ "snd (fail_claim now i msg s)"]
  by (auto simp: fail_in_try_def simp del: wire_frame(2) split: prod.split sum.split)

lemma wire_fail_quietly [simp]: "d_wire (snd (fail_quietly now i msg s)) = d_wire s"
  by (simp add: fail_quietly_def)

lemma wire_on_db_eq: "on_db f s = (r, s') \<Longrightarrow> d_wire s' = d_wire s"
  using wire_frame(1) [of f s] by simp

lemma wire_other_channels [simp]:
  "d_wire (snd (dispatch_via_callback env cfg now url t s)) = d_wire s"
  "d_wire (snd (dispatch_via_worker_command env cfg now t s)) = d_wire s"
  by (auto simp: dispatch_via_callback_def dispatch_via_worker_command_def Let_def dest: wire_on_db_eq
      split: prod.split sum.split option.split post_result.split)

lemma sends_via_ws:
  assumes "\<And>e. fence env e = Inr True \<Longrightarrow> P e"
  shows "sends_only P s (snd (dispatch_via_ws env cfg now t s))"
  using assms
  by (auto simp: dispatch_via_ws_def Let_def sends_only_def put_on_wire_def dest!: wire_on_db_eq
      split: prod.split sum.split option.split bool.split)

lemma sends_single:
  assumes "\<And>e. fence env e = Inr True \<Longrightarrow> P e"
  shows "sends_only P s (snd (dispatch_single_task env cfg now t s))"
proof -
  have "sends_only P s (snd (dispatch_via_ws env cfg now t (s\<lparr>d_flow := f\<rparr>)))" for f
    using sends_via_ws [OF assms, where s = "s\<lparr>d_flow := f\<rparr>" and cfg = cfg and now = now and t = t] by (simp add: sends_only_def)
  then show ?thesis
    by (auto simp: dispatch_single_task_def Let_def sends_only_def split: prod.split option.split)
qed

lemma sends_loop:
  assumes "\<And>t s. sends_only P s (snd (f t s))"
  shows "sends_only P s (snd (dispatch_loop f b ts n ids s))"
proof (induction ts arbitrary: n ids s)
  case (Cons t ts)
  obtain r s' where f: "f t s = (r, s')" by fastforce
  then have "sends_only P s s'" using assms [of s t] by simp
  then show ?case using Cons f by (auto intro: sends_trans split: sum.split)
qed simp

lemma sends_groups:
  assumes "\<And>t s. sends_only P s (snd (f t s))"
  shows "sends_only P s (snd (groups_loop f gs n ids s))"
proof (induction gs arbitrary: n ids s)
  case (Cons g gs)
  obtain k ts where g: "g = (k, ts)" by fastforce
  let ?d = "dispatch_loop f (k = None) (if k = None then sort_key consecutive_failures ts else ts) n ids s"
  obtain r s' where d: "?d = (r, s')" by fastforce
  then have "sends_only P s s'" using sends_loop [where f = f and P = P and s = s, OF assms] by (metis snd_conv)
  then show ?case using Cons g d by (auto intro: sends_trans split: sum.split)
qed simp

lemma sends_poll_cycle:
  assumes "\<And>e. fence env e = Inr True \<Longrightarrow> P e"
  shows "sends_only P s (snd (poll_cycle env cfg now s))"
proof -
  have "sends_only P s2 (snd (claim_and_spawn env cfg now s2))" for s2
    using sends_groups [OF sends_single [OF assms]] by (simp add: claim_and_spawn_def Let_def)
  moreover obtain r1 s1 where 1: "on_db (release_expired_claims now (disp_tenant cfg)) (s\<lparr>flow_blocked := 0\<rparr>) = (r1, s1)"
    by fastforce
  moreover obtain r2 s2 where 2: "on_db (promote_retryable_tasks now (disp_tenant cfg)) s1 = (r2, s2)" by fastforce
  moreover obtain r3 s3 where 3: "claim_and_spawn env cfg now s2 = (r3, s3)" by fastforce
  moreover have "d_wire s2 = d_wire s" using wire_on_db_eq [OF 1] wire_on_db_eq [OF 2] by simp
  moreover have "snd (poll_cycle env cfg now s) = s3" by (simp add: poll_cycle_def Let_def 1 2 3)
  ultimately show ?thesis by (metis sends_only_def snd_conv)
qed

text \<open>C25: With the guardrail in enforcing mode behind the fence, a whole poll cycle hands no envelope to a WebSocket
  whose input, flattened, contains an injection pattern: what it adds to the messages that were handed
  over before has none.\<close>

theorem fenced_dispatch_sends_nothing_suspicious:
  assumes "fence env = guard_fence (Some md) eid clock trail" "md \<notin> {''audit'', ''warn''}"
  shows "\<exists>ms. d_wire (snd (poll_cycle env cfg now s)) = d_wire s @ ms \<and> (\<forall>m \<in> set ms. \<not> suspicious (te_input (snd m)))"
proof -
  have "\<not> suspicious (te_input e)" if "fence env e = Inr True" for e
    using that guard_fence_blocks [OF _ assms(2), of e eid clock trail] by (auto simp: assms(1))
  then show ?thesis using sends_poll_cycle [of env "\<lambda>e. \<not> suspicious (te_input e)"] by (simp add: sends_only_def)
qed

definition fenced_env :: DispatchEnv where
  "fenced_env = quiet_env\<lparr>ws_connections := [(''a'', False)], fence := guard_fence (Some ''enforce'') ''e'' 0 empty_trail\<rparr>"

definition bad_task :: Task where
  "bad_task = Task_default\<lparr>tid := ''t'', body := Some ''{{x}}'', assignee := Some ''a''\<rparr>"

lemma bad_task_suspicious: "suspicious (te_input (ws_envelope p bad_task))"
proof -
  have input: "body_input bad_task = [(''body'', JStr ''{{x}}'')]" by code_simp
  have "rx_found (INJECTION_PATTERNS ! 8) (flatten_to_text 0 8 (JObj [(''body'', JStr ''{{x}}'')]))" by code_simp
  then have "suspicious (JObj (body_input bad_task))"
    unfolding input by (auto simp: suspicious_def list_ex_iff INJECTION_PATTERNS_def)
  then show ?thesis by (simp add: ws_envelope_def build_envelope_def merge_extra_def extra_keys_def)
qed

theorem fenced_dispatch_sends_nothing_suspicious_witness:
  "(''a'', ws_envelope ''/ws/t'' bad_task) \<notin> set (d_wire (snd (poll_cycle fenced_env DispatcherConfig_default 5 demo_state)))"
proof -
  obtain ms where "d_wire (snd (poll_cycle fenced_env DispatcherConfig_default 5 demo_state)) = d_wire demo_state @ ms"
      "\<forall>m \<in> set ms. \<not> suspicious (te_input (snd m))"
    using fenced_dispatch_sends_nothing_suspicious [of fenced_env "''enforce''" "''e''" 0 empty_trail DispatcherConfig_default 5 demo_state]
    by (auto simp: fenced_env_def)
  then show ?thesis using bad_task_suspicious by (force simp: demo_state_def)
qed

text \<open>An envelope the fence lets through is sent, once the claim succeeds and the directory is there.\<close>

lemma unsuspicious_task_is_sent:
  assumes "claim_task now (tid t) (''ws-'' @ opt_or (assignee t) []) (os_getpid env) (claim_ttl cfg) (d_db s) = (Inr (Some got), db)"
    and "allocate env t = Inr p" "fence env (ws_envelope p t) = Inr True" "ws_send env (opt_or (assignee t) []) (ws_envelope p t) = None"
  shows "fst (dispatch_via_ws env cfg now t s) = Inr 1 \<and>
    d_wire (snd (dispatch_via_ws env cfg now t s)) = d_wire s @ [(opt_or (assignee t) [], ws_envelope p t)]"
  using assms by (auto simp: dispatch_via_ws_def Let_def put_on_wire_def on_db_def split: prod.split)

text \<open>The other channel for agents, the callback, does not consult the fence.\<close>

lemma fail_in_try_fence [simp]: "fail_in_try (env\<lparr>fence := f\<rparr>) now i msg pre s = fail_in_try env now i msg pre s"
  by (simp add: fail_in_try_def split: sum.split prod.split)

lemma callback_ignores_fence: "dispatch_via_callback (env\<lparr>fence := f\<rparr>) cfg now url t s = dispatch_via_callback env cfg now url t s"
  by (simp add: dispatch_via_callback_def Let_def split: option.split sum.split post_result.split prod.split)

end
