(* ===== verification/Cron.thy ===== *)
theory Cron
  imports TaskStore JsonText
begin

text \<open>
  The cron scheduler, \<open>orchestration/cron.py\<close>: the two tables and one tick of the background loop,
  which creates a task in the task store for every definition that is due. The evaluation of cron
  expressions is the package \<open>croniter\<close>: \<open>croniter e t\<close> is the first time after \<open>t\<close> the expression
  \<open>e\<close> matches, or \<open>None\<close> when it raises. A tick reads the clock once. A template value of a type
  that a task field does not have is outside the model and counts as an exception.
\<close>

section \<open>Tables\<close>

record CronTask =
  ct_id :: string
  ct_name :: string
  ct_assignee :: string
  ct_expression :: string
  ct_template :: string
  ct_enabled :: bool
  ct_last_run :: "int option"
  ct_next_run :: "int option"
  ct_created_by :: string
  ct_created_at :: int
  ct_tenant :: "string option"

record CronExecution =
  ce_id :: nat
  ce_cron :: string
  ce_task :: string
  ce_scheduled_at :: int
  ce_started_at :: "int option"
  ce_completed_at :: "int option"
  ce_status :: string

record cron_db =
  cron_tasks :: "CronTask list"
  cron_executions :: "CronExecution list"
  cron_seq :: nat

definition empty_cron_db :: cron_db where
  "empty_cron_db = \<lparr> cron_tasks = [], cron_executions = [], cron_seq = 0 \<rparr>"

datatype cron_error = CronKeyViolation | CronForeignKey

type_synonym croniter = "string \<Rightarrow> int \<Rightarrow> int option"

section \<open>The store\<close>

definition first_run :: "croniter \<Rightarrow> int \<Rightarrow> string \<Rightarrow> int" where
  "first_run croniter now e = (case croniter e (now - 1) of None \<Rightarrow> now + 3600 | Some n \<Rightarrow> n)"

definition get_cron_task :: "string \<Rightarrow> cron_db \<Rightarrow> CronTask option" where
  "get_cron_task i db = row_by ct_id i (cron_tasks db)"

definition create_cron_task :: "croniter \<Rightarrow> int \<Rightarrow> CronTask \<Rightarrow> cron_db \<Rightarrow> (cron_error + string) \<times> cron_db" where
  "create_cron_task croniter now c db =
     (if get_cron_task (ct_id c) db \<noteq> None then (Inl CronKeyViolation, db)
      else (Inr (ct_id c),
            db\<lparr>cron_tasks := cron_tasks db @
                [c\<lparr>ct_created_at := now, ct_next_run := Some (first_run croniter now (ct_expression c))\<rparr>]\<rparr>))"

definition list_cron_tasks :: "bool \<Rightarrow> cron_db \<Rightarrow> CronTask list" where
  "list_cron_tasks enabled_only db =
     order_desc ct_created_at (if enabled_only then filter ct_enabled (cron_tasks db) else cron_tasks db)"

definition delete_cron_task :: "string \<Rightarrow> cron_db \<Rightarrow> bool \<times> cron_db" where
  "delete_cron_task i db =
     (sql_count (\<lambda>c. ct_id c = i) (cron_tasks db) > 0,
      db\<lparr>cron_executions := sql_delete (\<lambda>e. ce_cron e = i) (cron_executions db),
         cron_tasks := sql_delete (\<lambda>c. ct_id c = i) (cron_tasks db)\<rparr>)"

definition upd_cron :: "string \<Rightarrow> (CronTask \<Rightarrow> CronTask) \<Rightarrow> cron_db \<Rightarrow> cron_db" where
  "upd_cron i f db = db\<lparr>cron_tasks := sql_update (\<lambda>c. ct_id c = i) f (cron_tasks db)\<rparr>"

definition update_next_run :: "string \<Rightarrow> int \<Rightarrow> int \<Rightarrow> cron_db \<Rightarrow> cron_db" where
  "update_next_run i last_t next_t db =
     upd_cron i (\<lambda>c. c\<lparr>ct_last_run := Some last_t, ct_next_run := Some next_t\<rparr>) db"

definition set_enabled :: "string \<Rightarrow> bool \<Rightarrow> cron_db \<Rightarrow> bool \<times> cron_db" where
  "set_enabled i b db =
     (sql_count (\<lambda>c. ct_id c = i) (cron_tasks db) > 0, upd_cron i (\<lambda>c. c\<lparr>ct_enabled := b\<rparr>) db)"

definition create_execution :: "CronExecution \<Rightarrow> cron_db \<Rightarrow> (cron_error + nat) \<times> cron_db" where
  "create_execution e db =
     (if get_cron_task (ce_cron e) db = None then (Inl CronForeignKey, db)
      else (Inr (Suc (cron_seq db)),
            db\<lparr>cron_seq := Suc (cron_seq db),
               cron_executions := cron_executions db @ [e\<lparr>ce_id := Suc (cron_seq db)\<rparr>]\<rparr>))"

definition update_execution_status :: "nat \<Rightarrow> string \<Rightarrow> int option \<Rightarrow> cron_db \<Rightarrow> cron_db" where
  "update_execution_status n st completed db =
     db\<lparr>cron_executions := sql_update (\<lambda>e. ce_id e = n)
          (\<lambda>e. e\<lparr>ce_status := st, ce_completed_at := (case completed of None \<Rightarrow> ce_completed_at e | Some t \<Rightarrow> Some t)\<rparr>)
          (cron_executions db)\<rparr>"

definition list_executions :: "string \<Rightarrow> int \<Rightarrow> int \<Rightarrow> cron_db \<Rightarrow> CronExecution list" where
  "list_executions i max_n off db =
     limit_offset max_n off (order_desc ce_scheduled_at (filter (\<lambda>e. ce_cron e = i) (cron_executions db)))"

section \<open>The scheduler\<close>

record cron_state =
  cs_cron :: cron_db
  cs_tasks :: task_db

definition load_due_cron_tasks :: "int \<Rightarrow> cron_db \<Rightarrow> CronTask list" where
  "load_due_cron_tasks now db = filter (\<lambda>c. col_le (ct_next_run c) now) (list_cron_tasks True db)"

text \<open>The parsed template; text that is not JSON is the empty dict, a value that is not a dict has no \<open>get\<close>.\<close>

definition parse_template :: "string \<Rightarrow> (string \<times> json) list option" where
  "parse_template raw =
     (if raw = [] then Some []
      else (case loads raw of None \<Rightarrow> Some [] | Some (JObj d) \<Rightarrow> Some d | Some _ \<Rightarrow> None))"

definition cron_args :: "string \<Rightarrow> CronTask \<Rightarrow> CreateArgs option" where
  "cron_args creator c =
     (case parse_template (ct_template c) of
        None \<Rightarrow> None
      | Some d \<Rightarrow>
          (case (dict_get d ''title'' (JStr (ct_name c)), dict_get d ''body'' (JStr []), dict_get d ''priority'' (JInt 0)) of
             (JStr ti, JStr bo, JInt pr) \<Rightarrow>
               Some ((CreateArgs_default ti)
                 \<lparr> arg_body := Some bo, arg_assignee := Some (ct_assignee c), arg_priority := pr,
                   arg_tenant := ct_tenant c, arg_created_by := Some creator \<rparr>)
           | _ \<Rightarrow> None))"

definition advance_cron :: "croniter \<Rightarrow> int \<Rightarrow> CronTask \<Rightarrow> cron_db \<Rightarrow> cron_db" where
  "advance_cron croniter now c db =
     (case croniter (ct_expression c) (now - 1) of
        Some n \<Rightarrow> update_next_run (ct_id c) now n db
      | None \<Rightarrow> snd (set_enabled (ct_id c) False db))"

text \<open>One firing; the flag is whether it ran to its end without an exception.\<close>

definition fire_cron_task ::
  "croniter \<Rightarrow> string \<Rightarrow> string \<Rightarrow> int \<Rightarrow> CronTask \<Rightarrow> cron_state \<Rightarrow> bool \<times> cron_state" where
  "fire_cron_task croniter creator i now c s =
     (case cron_args creator c of
        None \<Rightarrow> (False, s)
      | Some a \<Rightarrow>
          (case create_task now i a (cs_tasks s) of
             (Inl _, tdb) \<Rightarrow> (False, s\<lparr>cs_tasks := tdb\<rparr>)
           | (Inr t, tdb) \<Rightarrow>
               (let s1 = s\<lparr>cs_tasks := tdb\<rparr> in
                case create_execution \<lparr> ce_id = 0, ce_cron = ct_id c, ce_task = tid t, ce_scheduled_at = now,
                       ce_started_at = Some now, ce_completed_at = None, ce_status = ''running'' \<rparr> (cs_cron s1) of
                  (Inl _, cdb) \<Rightarrow> (False, s1\<lparr>cs_cron := cdb\<rparr>)
                | (Inr n, cdb) \<Rightarrow>
                    (True, s1\<lparr>cs_cron := advance_cron croniter now c
                                (update_execution_status n ''completed'' (Some now) cdb)\<rparr>))))"

text \<open>The due definitions in order; \<open>uid k\<close> is the id of the task of the \<open>k\<close>-th.\<close>

fun fire_all ::
  "croniter \<Rightarrow> string \<Rightarrow> (nat \<Rightarrow> string) \<Rightarrow> int \<Rightarrow> nat \<Rightarrow> CronTask list \<Rightarrow> cron_state \<Rightarrow> nat \<times> cron_state" where
  "fire_all croniter creator uid now k [] s = (0, s)"
| "fire_all croniter creator uid now k (c # cs) s =
     (let (done1, s1) = fire_cron_task croniter creator (uid k) now c s;
          (n, s2) = fire_all croniter creator uid now (Suc k) cs s1
      in ((if done1 then Suc n else n), s2))"

definition tick :: "croniter \<Rightarrow> string \<Rightarrow> (nat \<Rightarrow> string) \<Rightarrow> int \<Rightarrow> cron_state \<Rightarrow> nat \<times> cron_state" where
  "tick croniter creator uid now s = fire_all croniter creator uid now 0 (load_due_cron_tasks now (cs_cron s)) s"

end
