(* ===== verification/CronProps.thy ===== *)
theory CronProps
  imports Cron TaskCreation Interfaces
begin

text \<open>
  One tick of the scheduler fires exactly the due definitions and keeps both databases consistent;
  a definition that fires in the second its expression matches stays due.
\<close>

section \<open>The invariant of the cron tables\<close>

definition cron_ok :: "cron_db \<Rightarrow> bool" where
  "cron_ok db \<longleftrightarrow> distinct (map ct_id (cron_tasks db)) \<and> distinct (map ce_id (cron_executions db)) \<and>
     (\<forall>e \<in> set (cron_executions db). ce_id e \<le> cron_seq db \<and> get_cron_task (ce_cron e) db \<noteq> None)"

lemma get_cron_task_upd:
  "(\<And>c. ct_id (f c) = ct_id c) \<Longrightarrow>
    get_cron_task j (upd_cron i f db) = map_option (\<lambda>c. if ct_id c = i then f c else c) (get_cron_task j db)"
  by (simp add: get_cron_task_def upd_cron_def row_by_sql_update)

lemma cron_ok_upd: "(\<And>c. ct_id (f c) = ct_id c) \<Longrightarrow> cron_ok (upd_cron i f db) = cron_ok db"
  using map_sql_update [of "\<lambda>c. ct_id c = i" ct_id f]
  by (simp add: cron_ok_def get_cron_task_upd) (simp add: upd_cron_def)

definition advanced :: "croniter \<Rightarrow> int \<Rightarrow> CronTask \<Rightarrow> CronTask" where
  "advanced croniter now c =
     (case croniter (ct_expression c) (now - 1) of
        Some n \<Rightarrow> c\<lparr>ct_last_run := Some now, ct_next_run := Some n\<rparr>
      | None \<Rightarrow> c\<lparr>ct_enabled := False\<rparr>)"

lemma advance_cron_eq:
  assumes "cron_ok db" "get_cron_task (ct_id c) db = Some c"
  shows "get_cron_task j (advance_cron croniter now c db) =
      (if j = ct_id c then Some (advanced croniter now c) else get_cron_task j db)"
    and "cron_ok (advance_cron croniter now c db)"
    and "cron_executions (advance_cron croniter now c db) = cron_executions db"
    and "map ct_id (cron_tasks (advance_cron croniter now c db)) = map ct_id (cron_tasks db)"
proof -
  have key: "ct_id x = k" if "get_cron_task k db = Some x" for k x
    using that by (auto simp: get_cron_task_def dest: row_by_key)
  have other: "map_option (\<lambda>x. if ct_id x = ct_id c then f x else x) (get_cron_task j db) = get_cron_task j db"
    if "j \<noteq> ct_id c" for f
    using key that by (cases "get_cron_task j db") auto
  show "get_cron_task j (advance_cron croniter now c db) =
      (if j = ct_id c then Some (advanced croniter now c) else get_cron_task j db)"
    using assms(2) other
    by (auto simp: advance_cron_def advanced_def update_next_run_def set_enabled_def get_cron_task_upd split: option.split)
  show "cron_ok (advance_cron croniter now c db)"
    using assms(1) by (simp add: advance_cron_def update_next_run_def set_enabled_def cron_ok_upd split: option.split)
  show "cron_executions (advance_cron croniter now c db) = cron_executions db"
    "map ct_id (cron_tasks (advance_cron croniter now c db)) = map ct_id (cron_tasks db)"
    by (simp_all add: advance_cron_def update_next_run_def set_enabled_def upd_cron_def map_sql_update split: option.split)
qed

text \<open>The calls of the store.\<close>

datatype cron_call =
    AddCron int CronTask
  | DeleteCron string
  | EnableCron string bool
  | Advance string int int

definition exec_cron :: "croniter \<Rightarrow> cron_call \<Rightarrow> cron_db \<Rightarrow> cron_db" where
  "exec_cron croniter x db =
     (case x of
        AddCron now c \<Rightarrow> snd (create_cron_task croniter now c db)
      | DeleteCron i \<Rightarrow> snd (delete_cron_task i db)
      | EnableCron i b \<Rightarrow> snd (set_enabled i b db)
      | Advance i l n \<Rightarrow> update_next_run i l n db)"

lemma cron_ok_create: "cron_ok db \<Longrightarrow> cron_ok (snd (create_cron_task croniter now c db))"
  by (auto simp: create_cron_task_def cron_ok_def get_cron_task_def row_by_None_iff)

lemma cron_ok_delete: "cron_ok db \<Longrightarrow> cron_ok (snd (delete_cron_task i db))"
proof -
  assume ok: "cron_ok db"
  have "row_by ct_id j (sql_delete (\<lambda>c. ct_id c = i) (cron_tasks db)) = row_by ct_id j (cron_tasks db)" if "j \<noteq> i" for j
    by (rule row_by_sql_delete_other) (use that in auto)
  with ok show ?thesis
    by (auto simp: delete_cron_task_def cron_ok_def get_cron_task_def intro!: distinct_sql_delete)
qed

lemma cron_ok_exec: "cron_ok db \<Longrightarrow> cron_ok (exec_cron croniter x db)"
  by (auto simp: exec_cron_def cron_ok_create cron_ok_delete set_enabled_def update_next_run_def cron_ok_upd
    split: cron_call.split)

interpretation cron: transition_system "exec_cron croniter" cron_ok empty_cron_db for croniter :: croniter
  by unfold_locales (simp add: cron_ok_def empty_cron_db_def, rule cron_ok_exec)

section \<open>One firing\<close>

definition fired :: "int \<Rightarrow> nat \<Rightarrow> string \<Rightarrow> string \<Rightarrow> CronExecution" where
  "fired now n i task =
     \<lparr> ce_id = n, ce_cron = i, ce_task = task, ce_scheduled_at = now, ce_started_at = Some now,
       ce_completed_at = Some now, ce_status = ''completed'' \<rparr>"

lemma execution_recorded:
  assumes "cron_ok db" "get_cron_task i db = Some c"
    and "create_execution \<lparr> ce_id = 0, ce_cron = i, ce_task = task, ce_scheduled_at = now, ce_started_at = Some now,
       ce_completed_at = None, ce_status = ''running'' \<rparr> db = (r, db')"
  shows "r = Inr (Suc (cron_seq db))"
    and "update_execution_status (Suc (cron_seq db)) ''completed'' (Some now) db' =
      db\<lparr>cron_seq := Suc (cron_seq db), cron_executions := cron_executions db @ [fired now (Suc (cron_seq db)) i task]\<rparr>"
    and "cron_ok (db\<lparr>cron_seq := Suc (cron_seq db), cron_executions := cron_executions db @ [fired now (Suc (cron_seq db)) i task]\<rparr>)"
proof -
  have old: "sql_update (\<lambda>e. ce_id e = Suc (cron_seq db)) f (cron_executions db) = cron_executions db" for f
    using assms(1) unfolding sql_update_def by (intro map_idI) (auto simp: cron_ok_def)
  show "r = Inr (Suc (cron_seq db))" using assms(2,3) by (simp add: create_execution_def)
  show "update_execution_status (Suc (cron_seq db)) ''completed'' (Some now) db' =
      db\<lparr>cron_seq := Suc (cron_seq db), cron_executions := cron_executions db @ [fired now (Suc (cron_seq db)) i task]\<rparr>"
    using assms(2,3) old by (auto simp: create_execution_def update_execution_status_def fired_def sql_update_def)
  show "cron_ok (db\<lparr>cron_seq := Suc (cron_seq db), cron_executions := cron_executions db @ [fired now (Suc (cron_seq db)) i task]\<rparr>)"
    using assms(1,2) by (fastforce simp: cron_ok_def fired_def get_cron_task_def)
qed

text \<open>What a firing leaves behind.\<close>

definition fired_as ::
  "croniter \<Rightarrow> string \<Rightarrow> string \<Rightarrow> int \<Rightarrow> CronTask \<Rightarrow> cron_state \<Rightarrow> cron_state \<Rightarrow> bool" where
  "fired_as croniter creator i now c s s' \<longleftrightarrow>
     (\<exists>a t. cron_args creator c = Some a \<and> created_as now i [] a (cs_tasks s) t (cs_tasks s')) \<and>
     cron_ok (cs_cron s') \<and>
     (\<forall>j. get_cron_task j (cs_cron s') =
        (if j = ct_id c then Some (advanced croniter now c) else get_cron_task j (cs_cron s))) \<and>
     (\<exists>n. cron_executions (cs_cron s') = cron_executions (cs_cron s) @ [fired now n (ct_id c) i])"

lemma cron_args_no_parents: "cron_args creator c = Some a \<Longrightarrow> arg_parents a = []"
  by (auto simp: cron_args_def CreateArgs_default_def split: option.splits prod.splits json.splits)

lemma fire_effect:
  assumes "db_ok (cs_tasks s)" "cron_ok (cs_cron s)" "find_task (cs_tasks s) i = None"
    and "get_cron_task (ct_id c) (cs_cron s) = Some c" "cron_args creator c \<noteq> None"
  obtains s' where "fire_cron_task croniter creator i now c s = (True, s')" "fired_as croniter creator i now c s s'"
proof -
  obtain a where a: "cron_args creator c = Some a" using assms(5) by auto
  obtain t tdb where t: "created_as now i [] a (cs_tasks s) t tdb"
    using create_named [OF assms(1,3), of "[]" a] cron_args_no_parents [OF a] by auto
  let ?e = "\<lparr> ce_id = 0, ce_cron = ct_id c, ce_task = i, ce_scheduled_at = now, ce_started_at = Some now,
    ce_completed_at = None, ce_status = ''running'' \<rparr>"
  obtain r cdb where r: "create_execution ?e (cs_cron s) = (r, cdb)" by fastforce
  note rec = execution_recorded [OF assms(2,4) r]
  let ?cdb = "(cs_cron s)\<lparr>cron_seq := Suc (cron_seq (cs_cron s)),
    cron_executions := cron_executions (cs_cron s) @ [fired now (Suc (cron_seq (cs_cron s))) (ct_id c) i]\<rparr>"
  let ?s' = "s\<lparr>cs_tasks := tdb, cs_cron := advance_cron croniter now c ?cdb\<rparr>"
  have "get_cron_task j ?cdb = get_cron_task j (cs_cron s)" for j by (simp add: get_cron_task_def)
  then have "fired_as croniter creator i now c s ?s'"
    using a t advance_cron_eq [OF rec(3)] assms(4) by (auto simp: fired_as_def)
  moreover have "fire_cron_task croniter creator i now c s = (True, ?s')"
    using a t r rec(1,2) by (simp add: fire_cron_task_def created_as_def Let_def)
  ultimately show thesis by (rule that [rotated])
qed

section \<open>A tick\<close>

abbreviation exec_summary :: "CronExecution \<Rightarrow> string \<times> string \<times> string" where
  "exec_summary e \<equiv> (ce_cron e, ce_task e, ce_status e)"

text \<open>What the firing of a list of definitions, with the ids from \<open>uid k\<close> on, leaves behind; a definition
  without arguments for a task raises before anything is written.\<close>

definition all_fired ::
  "croniter \<Rightarrow> string \<Rightarrow> (nat \<Rightarrow> string) \<Rightarrow> int \<Rightarrow> nat \<Rightarrow> CronTask list \<Rightarrow> cron_state \<Rightarrow> cron_state \<Rightarrow> bool" where
  "all_fired croniter creator uid now k cs s s' \<longleftrightarrow>
     db_ok (cs_tasks s') \<and> cron_ok (cs_cron s') \<and>
     (\<forall>n < length cs. \<forall>a. cron_args creator (cs ! n) = Some a \<longrightarrow> (\<exists>t. find_task (cs_tasks s') (uid (k + n)) = Some t \<and>
        status t = status_value READY \<and> title t = arg_title a \<and> assignee t = arg_assignee a \<and> tenant t = arg_tenant a)) \<and>
     (\<forall>j. (\<forall>n < length cs. uid (k + n) = j \<longrightarrow> cron_args creator (cs ! n) = None) \<longrightarrow>
        find_task (cs_tasks s') j = find_task (cs_tasks s) j) \<and>
     (\<forall>c \<in> set cs. cron_args creator c \<noteq> None \<longrightarrow> get_cron_task (ct_id c) (cs_cron s') = Some (advanced croniter now c)) \<and>
     (\<forall>j. j \<notin> ct_id ` {c \<in> set cs. cron_args creator c \<noteq> None} \<longrightarrow>
        get_cron_task j (cs_cron s') = get_cron_task j (cs_cron s)) \<and>
     map exec_summary (cron_executions (cs_cron s')) = map exec_summary (cron_executions (cs_cron s)) @
       map (\<lambda>n. (ct_id (cs ! n), uid (k + n), ''completed''))
         (filter (\<lambda>n. cron_args creator (cs ! n) \<noteq> None) [0..<length cs])"

lemma all_fired_tasks:
  assumes "all_fired croniter creator uid now k cs s s'" "n < length cs" "cron_args creator (cs ! n) = Some a"
  shows "\<exists>t. find_task (cs_tasks s') (uid (k + n)) = Some t \<and>
    status t = status_value READY \<and> title t = arg_title a \<and> assignee t = arg_assignee a \<and> tenant t = arg_tenant a"
  using assms unfolding all_fired_def by simp

text \<open>The indices of a list with one more element.\<close>

lemma filter_upt_Suc:
  "filter P [0..<Suc m] = (if P 0 then [0] else []) @ map Suc (filter (\<lambda>n. P (Suc n)) [0..<m])"
  by (simp add: upt_conv_Cons map_Suc_upt [symmetric] filter_map comp_def del: upt_Suc map_Suc_upt)

lemma indices_Suc: "(\<forall>n < length (x # xs). P n) \<longleftrightarrow> P 0 \<and> (\<forall>n < length xs. P (Suc n))"
  by (auto simp: less_Suc_eq_0_disj)

lemma all_fired_skip:
  assumes "cron_args creator c = None" "all_fired croniter creator uid now (Suc k) cs s s'"
  shows "all_fired croniter creator uid now k (c # cs) s s'"
proof -
  have "{d \<in> set (c # cs). cron_args creator d \<noteq> None} = {d \<in> set cs. cron_args creator d \<noteq> None}"
    using assms(1) by auto
  with assms show ?thesis
    unfolding all_fired_def indices_Suc by (simp add: filter_upt_Suc comp_def del: upt_Suc)
qed

lemma all_fired_Cons:
  assumes f: "fired_as croniter creator (uid k) now c s s1" and rest: "all_fired croniter creator uid now (Suc k) cs s1 s'"
    and "\<And>j. j \<in> {Suc k..<Suc k + length cs} \<Longrightarrow> uid j \<noteq> uid k" "ct_id c \<notin> ct_id ` set cs"
  shows "all_fired croniter creator uid now k (c # cs) s s'"
proof -
  obtain a t where t: "cron_args creator c = Some a" "created_as now (uid k) [] a (cs_tasks s) t (cs_tasks s1)"
    using f by (auto simp: fired_as_def)
  have "\<forall>n < length cs. uid (Suc k + n) = uid k \<longrightarrow> cron_args creator (cs ! n) = None" using assms(3) by auto
  then have "find_task (cs_tasks s') (uid k) = Some t" using rest t(2) by (simp add: created_as_def all_fired_def)
  then have "\<forall>n < length (c # cs). \<forall>a. cron_args creator ((c # cs) ! n) = Some a \<longrightarrow>
      (\<exists>t. find_task (cs_tasks s') (uid (k + n)) = Some t \<and>
        status t = status_value READY \<and> title t = arg_title a \<and> assignee t = arg_assignee a \<and> tenant t = arg_tenant a)"
    unfolding indices_Suc using rest t by (simp add: created_as_def all_fired_def)
  moreover have "map exec_summary (cron_executions (cs_cron s')) = map exec_summary (cron_executions (cs_cron s)) @
      map (\<lambda>n. (ct_id ((c # cs) ! n), uid (k + n), ''completed''))
        (filter (\<lambda>n. cron_args creator ((c # cs) ! n) \<noteq> None) [0..<length (c # cs)])"
    using rest f t(1) by (auto simp: all_fired_def fired_as_def fired_def filter_upt_Suc comp_def simp del: upt_Suc)
  moreover have "find_task (cs_tasks s') j = find_task (cs_tasks s) j"
    if "\<forall>n < length (c # cs). uid (k + n) = j \<longrightarrow> cron_args creator ((c # cs) ! n) = None" for j
    using rest t that unfolding indices_Suc by (auto simp: all_fired_def created_as_def)
  moreover have "\<forall>d \<in> set (c # cs). cron_args creator d \<noteq> None \<longrightarrow>
      get_cron_task (ct_id d) (cs_cron s') = Some (advanced croniter now d)"
  proof -
    have "ct_id c \<notin> ct_id ` {d \<in> set cs. cron_args creator d \<noteq> None}" using assms(4) by auto
    then have "get_cron_task (ct_id c) (cs_cron s') = get_cron_task (ct_id c) (cs_cron s1)"
      using rest unfolding all_fired_def by blast
    then show ?thesis using rest f by (auto simp: all_fired_def fired_as_def)
  qed
  moreover have "get_cron_task j (cs_cron s') = get_cron_task j (cs_cron s)"
    if "j \<notin> ct_id ` {d \<in> set (c # cs). cron_args creator d \<noteq> None}" for j
  proof -
    have "j \<notin> ct_id ` {d \<in> set cs. cron_args creator d \<noteq> None}" "j \<noteq> ct_id c" using that t(1) by auto
    then show ?thesis using rest f unfolding all_fired_def fired_as_def by simp
  qed
  ultimately show ?thesis using rest unfolding all_fired_def by blast
qed

text \<open>A due definition whose template is JSON but no object raises; any other gives arguments for a task.\<close>

definition template_known :: "string \<Rightarrow> CronTask \<Rightarrow> bool" where
  "template_known creator c \<longleftrightarrow> parse_template (ct_template c) = None \<or> cron_args creator c \<noteq> None"

abbreviation fires :: "CronTask \<Rightarrow> bool" where
  "fires c \<equiv> parse_template (ct_template c) \<noteq> None"

lemma cron_args_fires: "cron_args creator c \<noteq> None \<Longrightarrow> fires c"
  by (cases "parse_template (ct_template c)") (auto simp: cron_args_def)

lemma fires_iff: "template_known creator c \<Longrightarrow> fires c \<longleftrightarrow> cron_args creator c \<noteq> None"
  using cron_args_fires by (auto simp: template_known_def)

lemma fire_all_effect:
  assumes "db_ok (cs_tasks s)" "cron_ok (cs_cron s)" "inj_on uid {k..<k + length cs}"
    and "\<And>j. j \<in> {k..<k + length cs} \<Longrightarrow> find_task (cs_tasks s) (uid j) = None" "distinct (map ct_id cs)"
    and "\<And>c. c \<in> set cs \<Longrightarrow> get_cron_task (ct_id c) (cs_cron s) = Some c"
  shows "\<exists>s'. fire_all croniter creator uid now k cs s = (length (filter (\<lambda>c. cron_args creator c \<noteq> None) cs), s') \<and>
    all_fired croniter creator uid now k cs s s'"
  using assms
proof (induction cs arbitrary: k s)
  case Nil
  then show ?case by (simp add: all_fired_def)
next
  case (Cons c cs)
  have inj: "inj_on uid {Suc k..<Suc k + length cs}" by (rule inj_on_subset [OF Cons.prems(3)]) auto
  have fresh: "ct_id c \<notin> ct_id ` set cs" using Cons.prems(5) by simp
  show ?case
  proof (cases "cron_args creator c")
    case None
    then have "fire_cron_task croniter creator (uid k) now c s = (False, s)" by (simp add: fire_cron_task_def)
    moreover obtain s' where "fire_all croniter creator uid now (Suc k) cs s =
        (length (filter (\<lambda>c. cron_args creator c \<noteq> None) cs), s')" "all_fired croniter creator uid now (Suc k) cs s s'"
      using Cons.IH [OF Cons.prems(1,2) inj] Cons.prems(4-6) by auto
    ultimately show ?thesis using None all_fired_skip [OF None] by auto
  next
    case (Some a)
    obtain s1 where fire: "fire_cron_task croniter creator (uid k) now c s = (True, s1)"
      and f: "fired_as croniter creator (uid k) now c s s1"
      using fire_effect [OF Cons.prems(1,2), of "uid k" c creator] Cons.prems(4) [of k] Cons.prems(6) [of c] Some by auto
    obtain a t where t: "created_as now (uid k) [] a (cs_tasks s) t (cs_tasks s1)"
      using f by (auto simp: fired_as_def)
    have ne: "uid j \<noteq> uid k" if "j \<in> {Suc k..<Suc k + length cs}" for j
      using inj_onD [OF Cons.prems(3), of j k] that by auto
    have "db_ok (cs_tasks s1)" "cron_ok (cs_cron s1)" using t f by (simp_all add: created_as_def fired_as_def)
    moreover have "find_task (cs_tasks s1) (uid j) = None" if "j \<in> {Suc k..<Suc k + length cs}" for j
      using Cons.prems(4) [of j] t ne [OF that] that by (simp add: created_as_def)
    moreover have "get_cron_task (ct_id d) (cs_cron s1) = Some d" if "d \<in> set cs" for d
    proof -
      have "ct_id d \<noteq> ct_id c" using fresh that by (metis imageI)
      then show ?thesis using Cons.prems(6) f that by (simp add: fired_as_def)
    qed
    ultimately obtain s' where "fire_all croniter creator uid now (Suc k) cs s1 =
        (length (filter (\<lambda>c. cron_args creator c \<noteq> None) cs), s')" "all_fired croniter creator uid now (Suc k) cs s1 s'"
      using Cons.IH [of s1 "Suc k"] inj Cons.prems(5) by auto
    with fire Some show ?thesis using all_fired_Cons [where uid = uid and k = k, OF f] ne fresh by auto
  qed
qed

lemma due_rows:
  assumes "cron_ok db"
  shows "distinct (map ct_id (load_due_cron_tasks now db))"
    and "c \<in> set (load_due_cron_tasks now db) \<longleftrightarrow>
      get_cron_task (ct_id c) db = Some c \<and> ct_enabled c \<and> col_le (ct_next_run c) now"
proof -
  have row: "get_cron_task (ct_id c) db = Some c \<longleftrightarrow> c \<in> set (cron_tasks db)" for c
    using assms row_by_distinct [of ct_id "cron_tasks db" c] by (auto simp: cron_ok_def get_cron_task_def dest: row_by_mem)
  then show "c \<in> set (load_due_cron_tasks now db) \<longleftrightarrow>
      get_cron_task (ct_id c) db = Some c \<and> ct_enabled c \<and> col_le (ct_next_run c) now"
    by (auto simp: load_due_cron_tasks_def list_cron_tasks_def)
  have "distinct (map ct_id (order_desc f xs))" if "distinct (map ct_id xs)" for f :: "CronTask \<Rightarrow> int" and xs
  proof -
    have "mset (map ct_id (order_desc f xs)) = mset (map ct_id xs)" by (simp add: order_desc_def)
    then show ?thesis using that by (metis mset_eq_imp_distinct_iff)
  qed
  then show "distinct (map ct_id (load_due_cron_tasks now db))"
    using assms by (simp add: load_due_cron_tasks_def list_cron_tasks_def cron_ok_def distinct_map_filter)
qed

text \<open>What becomes of the row of a definition.\<close>

lemma all_fired_rows:
  assumes "all_fired croniter creator uid now k due s s'"
    and "\<And>c. c \<in> set due \<longleftrightarrow> get_cron_task (ct_id c) (cs_cron s) = Some c \<and> ct_enabled c \<and> col_le (ct_next_run c) now"
    and "\<forall>c \<in> set due. template_known creator c" "get_cron_task i (cs_cron s) = Some c"
  shows "get_cron_task i (cs_cron s') =
    Some (if ct_enabled c \<and> col_le (ct_next_run c) now \<and> fires c then advanced croniter now c else c)"
proof -
  have i: "ct_id c = i" using assms(4) by (auto simp: get_cron_task_def dest: row_by_key)
  then have due: "c \<in> set due \<longleftrightarrow> ct_enabled c \<and> col_le (ct_next_run c) now" using assms(2,4) by auto
  show ?thesis
  proof (cases "c \<in> set due \<and> cron_args creator c \<noteq> None")
    case True
    then have "get_cron_task i (cs_cron s') = Some (advanced croniter now c)"
      using assms(1) i unfolding all_fired_def by blast
    moreover have "fires c" using True cron_args_fires by blast
    ultimately show ?thesis using True due by simp
  next
    case False
    have "i \<notin> ct_id ` {c \<in> set due. cron_args creator c \<noteq> None}"
    proof
      assume "i \<in> ct_id ` {c \<in> set due. cron_args creator c \<noteq> None}"
      then obtain d where "d \<in> set due" "ct_id d = i" "cron_args creator d \<noteq> None" by blast
      with assms(2) [of d] assms(4) False show False by simp
    qed
    then have "get_cron_task i (cs_cron s') = get_cron_task i (cs_cron s)"
      using assms(1) by (simp add: all_fired_def)
    with False due assms(3,4) show ?thesis by (auto dest: fires_iff)
  qed
qed

lemma cron_args_fields:
  "cron_args creator c = Some a \<Longrightarrow> arg_assignee a = Some (ct_assignee c) \<and> arg_tenant a = ct_tenant c"
  by (auto simp: cron_args_def CreateArgs_default_def split: option.splits prod.splits json.splits)

text \<open>C26: A tick fires exactly the enabled definitions that are due and whose template is a JSON object or no
  JSON at all (its title and body text and its priority an integer, where it has them): each gets a
  task of its own, ready, with the title, assignee and tenant of the definition, and a completed
  run; its next run is the first match from now on, or it is disabled when the expression is
  invalid. A due definition whose template is another JSON value, such as \<open>[1]\<close>, is neither fired nor
  advanced, and the others are fired all the same. Other definitions and tasks stay as they are and
  both databases stay consistent.\<close>

theorem tick_fires_due:
  assumes "db_ok (cs_tasks s)" "cron_ok (cs_cron s)" "due = load_due_cron_tasks now (cs_cron s)"
    and "inj_on uid {..<length due}" "\<forall>k < length due. find_task (cs_tasks s) (uid k) = None"
    and "\<forall>c \<in> set due. template_known creator c"
  shows "\<exists>s'. tick croniter creator uid now s = (length (filter fires due), s') \<and>
    db_ok (cs_tasks s') \<and> cron_ok (cs_cron s') \<and>
    (\<forall>n < length due. fires (due ! n) \<longrightarrow> (\<exists>a t. cron_args creator (due ! n) = Some a \<and>
       find_task (cs_tasks s') (uid n) = Some t \<and> status t = status_value READY \<and> title t = arg_title a \<and>
       assignee t = Some (ct_assignee (due ! n)) \<and> tenant t = ct_tenant (due ! n))) \<and>
    (\<forall>j. (\<forall>n < length due. uid n = j \<longrightarrow> \<not> fires (due ! n)) \<longrightarrow>
       find_task (cs_tasks s') j = find_task (cs_tasks s) j) \<and>
    (\<forall>i c. get_cron_task i (cs_cron s) = Some c \<longrightarrow> get_cron_task i (cs_cron s') =
       Some (if ct_enabled c \<and> col_le (ct_next_run c) now \<and> fires c then advanced croniter now c else c)) \<and>
    map exec_summary (cron_executions (cs_cron s')) = map exec_summary (cron_executions (cs_cron s)) @
      map (\<lambda>n. (ct_id (due ! n), uid n, ''completed'')) (filter (\<lambda>n. fires (due ! n)) [0..<length due])"
proof -
  have dist: "distinct (map ct_id due)" and mem: "\<And>c. c \<in> set due \<longleftrightarrow>
      get_cron_task (ct_id c) (cs_cron s) = Some c \<and> ct_enabled c \<and> col_le (ct_next_run c) now"
    unfolding assms(3) by (rule due_rows [OF assms(2)])+
  have f: "fires c \<longleftrightarrow> cron_args creator c \<noteq> None" if "c \<in> set due" for c
    using that assms(6) fires_iff by blast
  obtain s' where s': "tick croniter creator uid now s = (length (filter (\<lambda>c. cron_args creator c \<noteq> None) due), s')"
    and all: "all_fired croniter creator uid now 0 due s s'"
    using fire_all_effect [OF assms(1,2), of uid 0 due croniter creator now] assms(3-5) dist mem
    by (auto simp: tick_def atLeast0LessThan)
  have n: "filter (\<lambda>c. cron_args creator c \<noteq> None) due = filter fires due" using f by (intro filter_cong) simp_all
  have idx: "filter (\<lambda>n. cron_args creator (due ! n) \<noteq> None) [0..<length due] = filter (\<lambda>n. fires (due ! n)) [0..<length due]"
    using f by (intro filter_cong) simp_all
  have tasks: "\<exists>a t. cron_args creator (due ! n) = Some a \<and> find_task (cs_tasks s') (uid n) = Some t \<and>
       status t = status_value READY \<and> title t = arg_title a \<and> assignee t = Some (ct_assignee (due ! n)) \<and>
       tenant t = ct_tenant (due ! n)" if h: "n < length due" "fires (due ! n)" for n
  proof -
    obtain a where a: "cron_args creator (due ! n) = Some a" using f [OF nth_mem [OF h(1)]] h(2) by auto
    obtain t where "find_task (cs_tasks s') (uid n) = Some t"
      "status t = status_value READY" "title t = arg_title a" "assignee t = arg_assignee a" "tenant t = arg_tenant a"
      using all_fired_tasks [OF all h(1) a] by auto
    with a cron_args_fields show ?thesis by simp
  qed
  have others: "find_task (cs_tasks s') j = find_task (cs_tasks s) j"
    if "\<forall>n < length due. uid n = j \<longrightarrow> \<not> fires (due ! n)" for j
  proof -
    have "\<forall>n < length due. uid (0 + n) = j \<longrightarrow> cron_args creator (due ! n) = None"
      using that cron_args_fires by (metis add_0)
    with all show ?thesis unfolding all_fired_def by simp
  qed
  have "db_ok (cs_tasks s')" "cron_ok (cs_cron s')"
    "map exec_summary (cron_executions (cs_cron s')) = map exec_summary (cron_executions (cs_cron s)) @
      map (\<lambda>n. (ct_id (due ! n), uid n, ''completed'')) (filter (\<lambda>n. fires (due ! n)) [0..<length due])"
    using all unfolding all_fired_def idx by simp_all
  with s' n tasks others all_fired_rows [OF all mem assms(6)] show ?thesis
    by (intro exI [of _ s'] conjI allI impI) simp_all
qed

definition demo_cron :: CronTask where
  "demo_cron = \<lparr> ct_id = ''c'', ct_name = ''n'', ct_assignee = ''a'', ct_expression = ''* * * * *'', ct_template = [],
     ct_enabled = True, ct_last_run = None, ct_next_run = Some 60, ct_created_by = ''u'', ct_created_at = 0, ct_tenant = None \<rparr>"

definition demo_cron_state :: cron_state where
  "demo_cron_state = \<lparr> cs_cron = empty_cron_db\<lparr>cron_tasks := [demo_cron]\<rparr>, cs_tasks = empty_db \<rparr>"

text \<open>The expression of the demonstration: every minute.\<close>

definition minutely :: croniter where
  "minutely e t = Some (60 * (t div 60) + 60)"

lemma demo_cron_facts: "load_due_cron_tasks 60 (cs_cron demo_cron_state) = [demo_cron]" "cron_ok (cs_cron demo_cron_state)"
  "find_task (cs_tasks demo_cron_state) i = None" "cron_args ''s'' demo_cron \<noteq> None"
  "get_cron_task ''c'' (cs_cron demo_cron_state) = Some demo_cron" "db_ok (cs_tasks demo_cron_state)"
  by (simp_all add: load_due_cron_tasks_def list_cron_tasks_def order_desc_def demo_cron_state_def demo_cron_def col_le_def
    empty_cron_db_def cron_ok_def find_task_def empty_db_def cron_args_def parse_template_def get_cron_task_def row_by_Cons
    db_ok_empty [unfolded empty_db_def])

lemma demo_fires: "parse_template (ct_template demo_cron) \<noteq> None"
  by (simp add: parse_template_def demo_cron_def)

theorem tick_fires_due_witness:
  "\<exists>s'. tick minutely ''s'' (\<lambda>k. ''t'') 60 demo_cron_state = (1, s') \<and>
     (\<exists>t. find_task (cs_tasks s') ''t'' = Some t \<and> status t = status_value READY \<and> assignee t = Some ''a'') \<and>
     get_cron_task ''c'' (cs_cron s') = Some (demo_cron\<lparr>ct_last_run := Some 60, ct_next_run := Some 60\<rparr>)"
proof -
  have "inj_on (\<lambda>k. ''t'') {..<length [demo_cron]}" by (simp add: inj_on_def)
  from tick_fires_due [OF demo_cron_facts(6,2) demo_cron_facts(1) [symmetric] this, of "''s''" minutely]
  obtain s' where s': "tick minutely ''s'' (\<lambda>k. ''t'') 60 demo_cron_state = (1, s')"
    "\<exists>t. find_task (cs_tasks s') ''t'' = Some t \<and> status t = status_value READY \<and> assignee t = Some (ct_assignee demo_cron)"
    "\<forall>i c. get_cron_task i (cs_cron demo_cron_state) = Some c \<longrightarrow> get_cron_task i (cs_cron s') =
       Some (if ct_enabled c \<and> col_le (ct_next_run c) 60 \<and> fires c then advanced minutely 60 c else c)"
    using demo_cron_facts(3,4) demo_fires by (auto simp: template_known_def)
  moreover have "get_cron_task ''c'' (cs_cron s') = Some (advanced minutely 60 demo_cron)"
    using s'(3) demo_cron_facts(5) demo_fires by (simp add: demo_cron_def col_le_def)
  ultimately show ?thesis
    by (auto simp: advanced_def minutely_def demo_cron_def)
qed



end
