(* ===== verification/Sla.thy ===== *)
theory Sla
  imports Complex_Main TaskStore
begin

text \<open>
  The success-rate statistics of \<open>orchestration/sla.py\<close>: counts over time windows, their rates and
  the trend by linear regression. Floats are exact rationals and \<open>None\<close> stands for \<open>nan\<close>; a
  snapshot reads the clock once. The updater that copies a snapshot to gauges is I/O.
\<close>

section \<open>Data\<close>

record WindowStat =
  st_label :: string
  st_completed :: nat
  st_failed :: nat
  st_cancelled :: nat
  st_terminal :: nat
  st_rate :: "rat option"
  st_start :: rat
  st_end :: rat

record SlaSnapshot =
  sl_windows :: "WindowStat list"
  sl_slope :: "rat option"
  sl_intercept :: "rat option"
  sl_r_squared :: "rat option"
  sl_captured_at :: rat

definition DEFAULT_WINDOWS :: "(string \<times> rat) list" where
  "DEFAULT_WINDOWS = [(''1h'', 3600), (''6h'', 21600), (''24h'', 86400), (''7d'', 604800)]"

section \<open>Counting\<close>

record sla_counts =
  n_completed :: nat
  n_failed :: nat
  n_cancelled :: nat
  n_terminal :: nat

definition count_rows :: "Task list \<Rightarrow> sla_counts" where
  "count_rows rows =
     \<lparr> n_completed = sql_count (\<lambda>t. status t = status_value COMPLETED) rows,
       n_failed = sql_count (\<lambda>t. status t = status_value FAILED) rows,
       n_cancelled = sql_count (\<lambda>t. status t = status_value CANCELLED) rows,
       n_terminal = sql_count (\<lambda>t. status t \<in> status_value ` {COMPLETED, FAILED, CANCELLED}) rows \<rparr>"

definition in_window :: "rat \<Rightarrow> rat \<Rightarrow> Task \<Rightarrow> bool" where
  "in_window a b t = (case completed_at t of None \<Rightarrow> False | Some c \<Rightarrow> a \<le> of_int c \<and> of_int c < b)"

definition query_counts :: "rat \<Rightarrow> rat \<Rightarrow> task_db \<Rightarrow> sla_counts" where
  "query_counts a b db = count_rows (filter (in_window a b) (tasks db))"

definition query_counts_all :: "task_db \<Rightarrow> sla_counts" where
  "query_counts_all db = count_rows (tasks db)"

definition rate_of :: "sla_counts \<Rightarrow> rat option" where
  "rate_of c =
     (let denom = n_completed c + n_failed c in if denom > 0 then Some (of_nat (n_completed c) / of_nat denom) else None)"

definition overall_success_rate :: "task_db \<Rightarrow> rat option" where
  "overall_success_rate db = rate_of (query_counts_all db)"

definition window_stat_at :: "string \<Rightarrow> rat \<Rightarrow> rat \<Rightarrow> task_db \<Rightarrow> WindowStat" where
  "window_stat_at label a b db =
     (let c = (if a \<le> 0 then query_counts_all db else query_counts a b db) in
      \<lparr> st_label = label, st_completed = n_completed c, st_failed = n_failed c, st_cancelled = n_cancelled c,
        st_terminal = n_terminal c, st_rate = rate_of c, st_start = a, st_end = b \<rparr>)"

definition window_stat :: "rat \<Rightarrow> string \<Rightarrow> rat \<Rightarrow> task_db \<Rightarrow> WindowStat" where
  "window_stat now label seconds db = window_stat_at label (now - seconds) now db"

section \<open>Trend\<close>

definition mean :: "rat list \<Rightarrow> rat" where
  "mean xs = sum_list xs / of_nat (length xs)"

text \<open>The three sums of the loop: \<open>num\<close>, \<open>den_xx\<close> and \<open>den_yy\<close>.\<close>

definition regression_sums :: "rat \<Rightarrow> rat \<Rightarrow> (rat \<times> rat) list \<Rightarrow> rat \<times> rat \<times> rat" where
  "regression_sums mx my zs =
     fold (\<lambda>(x, y) (n, xx, yy). (n + (x - mx) * (y - my), xx + (x - mx) * (x - mx), yy + (y - my) * (y - my))) zs (0, 0, 0)"

definition linear_regression :: "rat list \<Rightarrow> rat list \<Rightarrow> rat \<times> rat \<times> rat" where
  "linear_regression xs ys =
     (if length xs < 2 then (0, 0, 0)
      else
        (let (num, xx, yy) = regression_sums (mean xs) (mean ys) (zip xs ys) in
         if xx = 0 then (0, mean ys, 0)
         else (num / xx, mean ys - num / xx * mean xs, if yy > 0 then num ^ 2 / (xx * yy) else 0)))"

text \<open>The points the trend is drawn through: the end of a window and its rate.\<close>

definition rate_points :: "WindowStat list \<Rightarrow> (rat \<times> rat) list" where
  "rate_points ws =
     concat (map (\<lambda>w. case st_rate w of None \<Rightarrow> [] | Some r \<Rightarrow> if st_completed w + st_failed w > 0 then [(st_end w, r)] else []) ws)"

definition snapshot :: "rat \<Rightarrow> (string \<times> rat) list option \<Rightarrow> task_db \<Rightarrow> SlaSnapshot" where
  "snapshot now windows db =
     (let ws = map (\<lambda>(label, seconds). window_stat_at label (now - seconds) now db)
                 (case windows of None \<Rightarrow> DEFAULT_WINDOWS | Some w \<Rightarrow> w);
          ps = rate_points ws;
          trend = (if length ps \<ge> 2 then Some (linear_regression (map fst ps) (map snd ps)) else None)
      in \<lparr> sl_windows = ws @ [window_stat_at ''all'' 0 now db], sl_slope = map_option fst trend,
           sl_intercept = map_option (fst \<circ> snd) trend, sl_r_squared = map_option (snd \<circ> snd) trend,
           sl_captured_at = now \<rparr>)"

end
