(* ===== verification/SlaProps.thy ===== *)
theory SlaProps
  imports Sla StoreCalls
begin

text \<open>
  The regression is the least-squares line with a coefficient of determination between zero and one;
  the counts of a snapshot add up; and the trend of a snapshot is always flat, because all its
  points have the same abscissa.
\<close>

section \<open>Least squares\<close>

abbreviation total :: "('a \<Rightarrow> rat) \<Rightarrow> 'a list \<Rightarrow> rat" where
  "total f zs \<equiv> sum_list (map f zs)"

lemma total_add: "total (\<lambda>z. f z + g z) zs = total f zs + total g zs"
  by (induction zs) auto

lemma total_diff: "total (\<lambda>z. f z - g z) zs = total f zs - total g zs"
  by (induction zs) auto

lemma total_mult: "total (\<lambda>z. c * f z) zs = c * total f zs"
  by (induction zs) (auto simp: algebra_simps)

lemma total_const: "total (\<lambda>z. c) zs = of_nat (length zs) * c"
  by (induction zs) (auto simp: algebra_simps)

lemma total_nonneg: "(\<And>z. 0 \<le> f z) \<Longrightarrow> 0 \<le> total f zs"
  by (induction zs) (auto intro: add_nonneg_nonneg)

lemmas total_simps = total_add total_diff total_mult total_const

lemma regression_sums_eq:
  "regression_sums mx my zs =
    (total (\<lambda>(x, y). (x - mx) * (y - my)) zs, total (\<lambda>(x, y). (x - mx) * (x - mx)) zs,
     total (\<lambda>(x, y). (y - my) * (y - my)) zs)"
proof -
  have "fold (\<lambda>(x, y) (n, xx, yy). (n + (x - mx) * (y - my), xx + (x - mx) * (x - mx), yy + (y - my) * (y - my))) zs (n, xx, yy)
    = (n + total (\<lambda>(x, y). (x - mx) * (y - my)) zs, xx + total (\<lambda>(x, y). (x - mx) * (x - mx)) zs,
       yy + total (\<lambda>(x, y). (y - my) * (y - my)) zs)" for n xx yy
    by (induction zs arbitrary: n xx yy) (auto simp: algebra_simps)
  then show ?thesis by (simp add: regression_sums_def)
qed

definition squared_error :: "rat \<Rightarrow> rat \<Rightarrow> (rat \<times> rat) list \<Rightarrow> rat" where
  "squared_error a b zs = total (\<lambda>(x, y). (y - (a * x + b))\<^sup>2) zs"

text \<open>A line whose errors are orthogonal to the constants and the abscissas is optimal.\<close>

lemma orthogonal_optimal:
  assumes "total (\<lambda>(x, y). y - (s * x + t)) zs = 0" "total (\<lambda>(x, y). x * (y - (s * x + t))) zs = 0"
  shows "squared_error s t zs \<le> squared_error a b zs"
proof -
  let ?e = "\<lambda>z. snd z - (s * fst z + t)" and ?d = "\<lambda>z. (s - a) * fst z + (t - b)"
  have "squared_error a b zs = total (\<lambda>z. (?e z)\<^sup>2 + (?d z)\<^sup>2 + (2 * (s - a) * (fst z * ?e z) + 2 * (t - b) * ?e z)) zs"
    unfolding squared_error_def by (intro arg_cong [where f = sum_list] map_cong) (auto simp: power2_eq_square algebra_simps)
  also have "\<dots> = total (\<lambda>z. (?e z)\<^sup>2) zs + total (\<lambda>z. (?d z)\<^sup>2) zs +
      (2 * (s - a) * total (\<lambda>z. fst z * ?e z) zs + 2 * (t - b) * total ?e zs)"
    by (simp only: total_add total_mult)
  also have "\<dots> = total (\<lambda>z. (?e z)\<^sup>2) zs + total (\<lambda>z. (?d z)\<^sup>2) zs"
    using assms by (simp add: case_prod_unfold)
  finally have eq: "squared_error a b zs = total (\<lambda>z. (?e z)\<^sup>2) zs + total (\<lambda>z. (?d z)\<^sup>2) zs" .
  have "squared_error s t zs = total (\<lambda>z. (?e z)\<^sup>2) zs"
    by (simp add: squared_error_def case_prod_unfold)
  moreover have "0 \<le> total (\<lambda>z. (?d z)\<^sup>2) zs" by (rule total_nonneg) simp
  ultimately show ?thesis using eq by linarith
qed

lemma total_zero: "(\<And>z. 0 \<le> f z) \<Longrightarrow> total f zs = 0 \<Longrightarrow> z \<in> set zs \<Longrightarrow> f z = 0"
  by (induction zs) (auto simp: add_nonneg_eq_0_iff total_nonneg)

text \<open>The centred sums of the points.\<close>

definition cross_sum :: "(rat \<times> rat \<Rightarrow> rat) \<Rightarrow> (rat \<times> rat \<Rightarrow> rat) \<Rightarrow> (rat \<times> rat) list \<Rightarrow> rat" where
  "cross_sum f g zs = total (\<lambda>z. f z * g z) zs"

lemma regression_cases:
  assumes "2 \<le> length xs" "dx = (\<lambda>z. fst z - mean xs)" "dy = (\<lambda>z. snd z - mean ys)"
  shows "linear_regression xs ys =
    (if cross_sum dx dx (zip xs ys) = 0 then (0, mean ys, 0)
     else (cross_sum dx dy (zip xs ys) / cross_sum dx dx (zip xs ys),
           mean ys - cross_sum dx dy (zip xs ys) / cross_sum dx dx (zip xs ys) * mean xs,
           if cross_sum dy dy (zip xs ys) > 0
           then cross_sum dx dy (zip xs ys) ^ 2 / (cross_sum dx dx (zip xs ys) * cross_sum dy dy (zip xs ys)) else 0))"
  using assms by (simp add: linear_regression_def regression_sums_eq case_prod_unfold cross_sum_def Let_def)

lemma centred:
  assumes "length xs = length ys" "2 \<le> length xs"
  shows "total (\<lambda>z. fst z - mean xs) (zip xs ys) = 0" "total (\<lambda>z. snd z - mean ys) (zip xs ys) = 0"
proof -
  have "total fst (zip xs ys) = sum_list xs" "total snd (zip xs ys) = sum_list ys"
    using assms(1) by (simp_all add: map_fst_zip map_snd_zip)
  moreover have "of_nat (length (zip xs ys)) * mean xs = sum_list xs" "of_nat (length (zip xs ys)) * mean ys = sum_list ys"
    using assms by (auto simp: mean_def)
  ultimately show "total (\<lambda>z. fst z - mean xs) (zip xs ys) = 0" "total (\<lambda>z. snd z - mean ys) (zip xs ys) = 0"
    by (simp_all add: total_diff total_const)
qed

lemma regression_optimal:
  assumes "linear_regression xs ys = (s, t, r)" "length xs = length ys" "2 \<le> length xs"
  shows "squared_error s t (zip xs ys) \<le> squared_error a b (zip xs ys)"
proof -
  define dx dy where "dx = (\<lambda>z :: rat \<times> rat. fst z - mean xs)" and "dy = (\<lambda>z :: rat \<times> rat. snd z - mean ys)"
  let ?zs = "zip xs ys" and ?xx = "cross_sum dx dx (zip xs ys)" and ?xy = "cross_sum dx dy (zip xs ys)"
  note reg = regression_cases [OF assms(3) dx_def dy_def]
  have t: "t = mean ys - s * mean xs" using assms(1) by (auto simp: reg split: if_splits)
  have orth: "?xy = s * ?xx"
  proof (cases "?xx = 0")
    case True
    then have "dx z = 0" if "z \<in> set ?zs" for z
      using total_zero [of "\<lambda>z. dx z * dx z" ?zs z] that by (simp add: cross_sum_def)
    then have "?xy = total (\<lambda>z. 0) ?zs"
      unfolding cross_sum_def by (intro arg_cong [where f = sum_list] map_cong) auto
    with True show ?thesis by (simp add: total_const)
  next
    case False
    with assms(1) show ?thesis by (auto simp: reg)
  qed
  have "total (\<lambda>z. snd z - (s * fst z + t)) ?zs = total (\<lambda>z. dy z - s * dx z) ?zs"
    by (simp add: t dx_def dy_def algebra_simps)
  also have "\<dots> = 0" using centred [OF assms(2,3)] by (simp add: total_diff total_mult dx_def dy_def)
  finally have e0: "total (\<lambda>z. snd z - (s * fst z + t)) ?zs = 0" .
  define e where "e = (\<lambda>z :: rat \<times> rat. snd z - (s * fst z + t))"
  have "total (\<lambda>z. fst z * e z) ?zs = total (\<lambda>z. mean xs * e z + (dx z * dy z - s * (dx z * dx z))) ?zs"
    by (simp add: e_def t dx_def dy_def algebra_simps)
  also have "\<dots> = mean xs * total e ?zs + (?xy - s * ?xx)"
    unfolding total_add total_mult total_diff cross_sum_def by (rule refl)
  also have "\<dots> = 0" using e0 orth by (simp add: e_def)
  finally show ?thesis
    using orthogonal_optimal [of s t ?zs a b] e0 by (simp add: case_prod_unfold e_def)
qed

lemma cross_sum_square: "0 \<le> cross_sum f f zs"
  unfolding cross_sum_def by (rule total_nonneg) simp

lemma cauchy_schwarz: "(cross_sum f g zs)\<^sup>2 \<le> cross_sum f f zs * cross_sum g g zs"
proof (cases "cross_sum f f zs = 0")
  case True
  then have "f z = 0" if "z \<in> set zs" for z
    using total_zero [of "\<lambda>z. f z * f z" zs z] that by (simp add: cross_sum_def)
  then have "cross_sum f g zs = total (\<lambda>z. 0) zs"
    unfolding cross_sum_def by (intro arg_cong [where f = sum_list] map_cong) auto
  with True show ?thesis by (simp add: total_const)
next
  case False
  let ?A = "cross_sum f f zs" and ?B = "cross_sum f g zs" and ?C = "cross_sum g g zs"
  have pos: "0 < ?A" using False cross_sum_square [of f zs] by simp
  have "0 \<le> cross_sum (\<lambda>z. ?A * g z - ?B * f z) (\<lambda>z. ?A * g z - ?B * f z) zs" by (rule cross_sum_square)
  also have "\<dots> = total (\<lambda>z. ?A\<^sup>2 * (g z * g z) - 2 * ?A * ?B * (f z * g z) + ?B\<^sup>2 * (f z * f z)) zs"
    unfolding cross_sum_def [of "\<lambda>z. ?A * g z - ?B * f z"] by (simp add: power2_eq_square algebra_simps)
  also have "\<dots> = ?A\<^sup>2 * ?C - 2 * ?A * ?B * ?B + ?B\<^sup>2 * ?A"
    unfolding total_add total_diff total_mult cross_sum_def by (rule refl)
  also have "\<dots> = ?A * (?A * ?C - ?B\<^sup>2)" by (simp add: power2_eq_square algebra_simps)
  finally show ?thesis using pos by (simp add: zero_le_mult_iff)
qed

lemma regression_r_squared:
  assumes "linear_regression xs ys = (s, t, r)" "2 \<le> length xs"
  shows "0 \<le> r \<and> r \<le> 1"
proof -
  define dx dy where "dx = (\<lambda>z :: rat \<times> rat. fst z - mean xs)" and "dy = (\<lambda>z :: rat \<times> rat. snd z - mean ys)"
  let ?zs = "zip xs ys"
  note reg = regression_cases [OF assms(2) dx_def dy_def]
  show ?thesis
  proof (cases "cross_sum dx dx ?zs = 0 \<or> cross_sum dy dy ?zs = 0")
    case True
    with assms(1) show ?thesis by (auto simp: reg split: if_splits)
  next
    case False
    then have "0 < cross_sum dx dx ?zs * cross_sum dy dy ?zs"
      using cross_sum_square [of dx ?zs] cross_sum_square [of dy ?zs] by (simp add: zero_less_mult_iff)
    then show ?thesis
      using assms(1) cauchy_schwarz [of dx dy ?zs] False by (auto simp: reg split: if_splits)
  qed
qed

section \<open>Snapshots\<close>

lemma window_stat_counts:
  "st_terminal (window_stat_at l a b db) =
     st_completed (window_stat_at l a b db) + st_failed (window_stat_at l a b db) + st_cancelled (window_stat_at l a b db)"
  "st_completed (window_stat_at l a b db) \<le> n_completed (query_counts_all db)"
  "pred_option (\<lambda>r. 0 \<le> r \<and> r \<le> 1) (st_rate (window_stat_at l a b db))"
  "st_rate (window_stat_at l a b db) = None \<longleftrightarrow>
     st_completed (window_stat_at l a b db) + st_failed (window_stat_at l a b db) = 0"
  "st_end (window_stat_at l a b db) = b"
proof -
  have terminal: "n_terminal (count_rows rows) = n_completed (count_rows rows) + n_failed (count_rows rows) + n_cancelled (count_rows rows)"
    for rows
    by (induction rows) (auto simp: count_rows_def sql_count_def)
  have part: "n_completed (count_rows (filter P rows)) \<le> n_completed (count_rows rows)" for P rows
    by (induction rows) (auto simp: count_rows_def sql_count_def)
  have unit: "pred_option (\<lambda>r. 0 \<le> r \<and> r \<le> 1) (rate_of c)" for c
    by (auto simp: rate_of_def Let_def divide_le_eq)
  show "st_terminal (window_stat_at l a b db) =
     st_completed (window_stat_at l a b db) + st_failed (window_stat_at l a b db) + st_cancelled (window_stat_at l a b db)"
    by (simp add: window_stat_at_def Let_def query_counts_def query_counts_all_def terminal)
  show "st_completed (window_stat_at l a b db) \<le> n_completed (query_counts_all db)"
    by (simp add: window_stat_at_def Let_def query_counts_def query_counts_all_def part)
  show "pred_option (\<lambda>r. 0 \<le> r \<and> r \<le> 1) (st_rate (window_stat_at l a b db))"
    by (simp add: window_stat_at_def Let_def unit)
  show "st_rate (window_stat_at l a b db) = None \<longleftrightarrow>
     st_completed (window_stat_at l a b db) + st_failed (window_stat_at l a b db) = 0"
    by (simp add: window_stat_at_def Let_def rate_of_def)
  show "st_end (window_stat_at l a b db) = b"
    by (simp add: window_stat_at_def Let_def)
qed

lemma flat_regression:
  assumes "2 \<le> length ps" "\<And>p. p \<in> set ps \<Longrightarrow> fst p = c"
  shows "linear_regression (map fst ps) (map snd ps) = (0, mean (map snd ps), 0)"
proof -
  have same: "map fst ps = replicate (length ps) c" using assms(2) by (simp add: list_eq_iff_nth_eq)
  then have "mean (map fst ps) = c" using assms(1) by (auto simp: mean_def sum_list_replicate)
  moreover have "x = c" if "(x, y) \<in> set (zip (map fst ps) (map snd ps))" for x y
    using that set_zip_leftD [OF that] same by auto
  ultimately have "cross_sum (\<lambda>z. fst z - mean (map fst ps)) (\<lambda>z. fst z - mean (map fst ps)) (zip (map fst ps) (map snd ps)) =
      total (\<lambda>z. 0) (zip (map fst ps) (map snd ps))"
    unfolding cross_sum_def by (intro arg_cong [where f = sum_list] map_cong) auto
  then show ?thesis
    using regression_cases [of "map fst ps" _ _ "map snd ps", OF _ refl refl] assms(1) by (simp add: total_const)
qed

lemma snapshot_trend_flat:
  "sl_slope (snapshot now ws db) = None \<or> sl_slope (snapshot now ws db) = Some 0 \<and> sl_r_squared (snapshot now ws db) = Some 0"
proof -
  define wins where "wins = (case ws of None \<Rightarrow> DEFAULT_WINDOWS | Some w \<Rightarrow> w)"
  define ps where "ps = rate_points (map (\<lambda>(label, seconds). window_stat_at label (now - seconds) now db) wins)"
  have "fst p = now" if "p \<in> set ps" for p
    using that window_stat_counts(5)
    by (auto simp: ps_def rate_points_def split: option.splits if_splits)
  then have "length ps \<ge> 2 \<Longrightarrow> linear_regression (map fst ps) (map snd ps) = (0, mean (map snd ps), 0)"
    by (intro flat_regression)
  then show ?thesis
    by (simp add: snapshot_def Let_def ps_def [symmetric] wins_def [symmetric])
qed

text \<open>The regression behind the trend is the line of least squares: no other line has a smaller squared error,
  and its coefficient of determination lies between zero and one.\<close>

theorem regression_is_least_squares:
  assumes "linear_regression xs ys = (slope, intercept, r)" "length xs = length ys" "2 \<le> length xs"
  shows "squared_error slope intercept (zip xs ys) \<le> squared_error a b (zip xs ys) \<and> 0 \<le> r \<and> r \<le> 1"
  using regression_optimal [OF assms] regression_r_squared [OF assms(1,3)] by blast

theorem regression_is_least_squares_witness:
  "linear_regression [0, 1, 2] [1, 3, 4] = (3 / 2, 7 / 6, 27 / 28) \<and>
   squared_error (3 / 2) (7 / 6) (zip [0, 1, 2] [1, 3, 4]) \<le> squared_error 2 1 (zip [0, 1, 2] [1, 3, 4])"
proof -
  have "linear_regression [0, 1, 2] [1, 3, 4] = (3 / 2, 7 / 6, 27 / 28)"
    by (simp add: linear_regression_def regression_sums_def mean_def power2_eq_square)
  from regression_is_least_squares [OF this] this show ?thesis by simp
qed

text \<open>In every snapshot the counts of a window add up, its rate is missing exactly when nothing was completed or
  failed and lies between zero and one otherwise, and no window counts more completions than there
  are; but the trend, if there is one, is always flat, whatever happened.\<close>

theorem snapshot_counts_and_trend:
  "list_all (\<lambda>w. st_terminal w = st_completed w + st_failed w + st_cancelled w \<and>
      (st_rate w = None \<longleftrightarrow> st_completed w + st_failed w = 0) \<and> pred_option (\<lambda>r. 0 \<le> r \<and> r \<le> 1) (st_rate w) \<and>
      st_completed w \<le> n_completed (query_counts_all db) \<and> st_end w = now) (sl_windows (snapshot now ws db)) \<and>
   (sl_slope (snapshot now ws db) = None \<or> sl_slope (snapshot now ws db) = Some 0 \<and> sl_r_squared (snapshot now ws db) = Some 0)"
  using snapshot_trend_flat window_stat_counts by (auto simp: snapshot_def Let_def list_all_iff)

end
