(* ===== verification/Provenance.thy ===== *)
theory Provenance
  imports JsonValues Interfaces
begin

text \<open>
  \<open>security/pt.py\<close>: the tracker of delegation chains. A chain is a row of \<open>provenance_chains\<close>, its
  hops are rows of \<open>provenance_hops\<close>, whose foreign key SQLite enforces: \<open>record_hop\<close> for a chain
  that does not exist raises \<open>IntegrityError\<close> (\<open>None\<close>) and writes nothing. The times are arguments.
\<close>

section \<open>Tables\<close>

record ProvenanceHop =
  from_agent :: string
  to_agent :: string
  hop_action :: string
  scope_at :: string
  hop_time :: rat
  token_jti :: string

record chain_row =
  pc_id :: string
  pc_origin_agent :: string
  pc_origin_tenant :: string
  pc_root_task :: string
  pc_parent_task :: "string option"
  pc_depth :: nat
  pc_task :: string
  pc_created_at :: rat

record prov_db =
  prov_chains :: "chain_row list"
  prov_hops :: "(string \<times> ProvenanceHop) list"

record ProvenanceChain =
  chain_id :: string
  chain_origin_agent :: string
  chain_origin_tenant :: string
  chain_root_task :: string
  chain_parent_task :: "string option"
  chain_depth :: nat
  chain_hops :: "ProvenanceHop list"

definition empty_prov :: prov_db where
  "empty_prov = \<lparr> prov_chains = [], prov_hops = [] \<rparr>"

section \<open>Recording\<close>

definition hops_of :: "string \<Rightarrow> prov_db \<Rightarrow> ProvenanceHop list" where
  "hops_of c db = map snd (filter (\<lambda>h. fst h = c) (prov_hops db))"

definition record_hop :: "string \<Rightarrow> ProvenanceHop \<Rightarrow> prov_db \<Rightarrow> ProvenanceHop option \<times> prov_db" where
  "record_hop c h db =
     (if row_by pc_id c (prov_chains db) = None then (None, db)
      else
        (let db1 = db\<lparr>prov_hops := prov_hops db @ [(c, h)]\<rparr> in
         (Some h, db1\<lparr>prov_chains := sql_update (\<lambda>r. pc_id r = c)
                        (\<lambda>r. r\<lparr>pc_depth := length (hops_of c db1)\<rparr>) (prov_chains db1)\<rparr>)))"

text \<open>\<open>INSERT OR IGNORE\<close>\<close>

definition ensure_chain ::
  "rat \<Rightarrow> string \<Rightarrow> string \<Rightarrow> string \<Rightarrow> string \<Rightarrow> string option \<Rightarrow> string \<Rightarrow> prov_db \<Rightarrow> prov_db" where
  "ensure_chain now c origin ten root_id parent task db =
     (if row_by pc_id c (prov_chains db) \<noteq> None then db
      else db\<lparr>prov_chains := prov_chains db @
             [\<lparr> pc_id = c, pc_origin_agent = origin, pc_origin_tenant = ten, pc_root_task = root_id,
                pc_parent_task = parent, pc_depth = 0, pc_task = task, pc_created_at = now \<rparr>]\<rparr>)"

section \<open>Queries\<close>

definition load_chain :: "prov_db \<Rightarrow> chain_row \<Rightarrow> ProvenanceChain" where
  "load_chain db r =
     \<lparr> chain_id = pc_id r, chain_origin_agent = pc_origin_agent r, chain_origin_tenant = pc_origin_tenant r,
       chain_root_task = pc_root_task r, chain_parent_task = pc_parent_task r, chain_depth = pc_depth r,
       chain_hops = sort_key hop_time (hops_of (pc_id r) db) \<rparr>"

definition get_chain_by_task :: "string \<Rightarrow> prov_db \<Rightarrow> ProvenanceChain option" where
  "get_chain_by_task i db = map_option (load_chain db) (row_by pc_task i (prov_chains db))"

definition list_chains_by_root :: "string \<Rightarrow> prov_db \<Rightarrow> ProvenanceChain list" where
  "list_chains_by_root i db =
     map (load_chain db) (sort_key pc_created_at (filter (\<lambda>r. pc_root_task r = i) (prov_chains db)))"

text \<open>\<open>num\<close> prints a time.\<close>

definition hop_to_json :: "(rat \<Rightarrow> json) \<Rightarrow> ProvenanceHop \<Rightarrow> json" where
  "hop_to_json num h =
     JObj [(''from_agent'', JStr (from_agent h)), (''to_agent'', JStr (to_agent h)), (''action'', JStr (hop_action h)),
           (''scope_at'', JStr (scope_at h)), (''timestamp'', num (hop_time h)), (''token_jti'', JStr (token_jti h))]"

definition chain_to_dict :: "(rat \<Rightarrow> json) \<Rightarrow> ProvenanceChain \<Rightarrow> json" where
  "chain_to_dict num c =
     JObj [(''chain_id'', JStr (chain_id c)), (''origin_agent'', JStr (chain_origin_agent c)),
           (''origin_tenant'', JStr (chain_origin_tenant c)), (''root_task_id'', JStr (chain_root_task c)),
           (''parent_task_id'', json_opt_str (chain_parent_task c)), (''depth'', JInt (int (chain_depth c))),
           (''hops'', JList (map (hop_to_json num) (chain_hops c)))]"

section \<open>The invariant\<close>

text \<open>Chain ids are unique, every hop has its chain, and the depth of a chain is the number of its hops.\<close>

definition prov_ok :: "prov_db \<Rightarrow> bool" where
  "prov_ok db \<longleftrightarrow> distinct (map pc_id (prov_chains db)) \<and> fst ` set (prov_hops db) \<subseteq> pc_id ` set (prov_chains db) \<and>
     (\<forall>r \<in> set (prov_chains db). pc_depth r = length (hops_of (pc_id r) db))"

datatype prov_call =
    RecordHop string ProvenanceHop
  | EnsureChain rat string string string string "string option" string

definition exec_prov :: "prov_call \<Rightarrow> prov_db \<Rightarrow> prov_db" where
  "exec_prov c db =
     (case c of
        RecordHop i h \<Rightarrow> snd (record_hop i h db)
      | EnsureChain now i origin ten root_id parent task \<Rightarrow> ensure_chain now i origin ten root_id parent task db)"

lemma hops_of_update [simp]: "hops_of c (db\<lparr>prov_chains := x\<rparr>) = hops_of c db"
  by (simp add: hops_of_def)

lemma hops_of_append:
  "hops_of c (db\<lparr>prov_hops := prov_hops db @ [(i, h)]\<rparr>) = (if i = c then hops_of c db @ [h] else hops_of c db)"
  by (simp add: hops_of_def)

lemma chain_ids_update: "pc_id ` set (sql_update P (\<lambda>r. r\<lparr>pc_depth := n\<rparr>) rs) = pc_id ` set rs"
  by (induction rs) auto

lemma prov_ok_record_hop:
  assumes "prov_ok db"
  shows "prov_ok (snd (record_hop c h db))"
proof (cases "row_by pc_id c (prov_chains db)")
  case None
  then show ?thesis using assms by (simp add: record_hop_def)
next
  case (Some r)
  let ?db = "snd (record_hop c h db)"
  have "\<forall>r \<in> set (prov_chains ?db). pc_depth r = length (hops_of (pc_id r) ?db)"
    using assms Some by (auto simp: record_hop_def Let_def prov_ok_def set_sql_update hops_of_append)
  moreover have "c \<in> pc_id ` set (prov_chains db)" using Some by (metis row_by_None_iff option.distinct(1))
  ultimately show ?thesis
    using assms Some by (auto simp: record_hop_def Let_def prov_ok_def map_sql_update chain_ids_update)
qed

lemma prov_ok_ensure_chain: "prov_ok db \<Longrightarrow> prov_ok (ensure_chain now c origin ten root_id parent task db)"
  by (auto simp: ensure_chain_def prov_ok_def row_by_None_iff hops_of_def filter_empty_conv)

lemma prov_ok_exec: "prov_ok db \<Longrightarrow> prov_ok (exec_prov c db)"
  by (simp add: exec_prov_def prov_ok_record_hop prov_ok_ensure_chain split: prov_call.split)

interpretation provenance: transition_system exec_prov prov_ok empty_prov
  by unfold_locales (simp add: prov_ok_def empty_prov_def, erule prov_ok_exec)

text \<open>A chain read by its task has as many hops as its depth, in the order of time.\<close>

lemma get_chain_depth:
  assumes "prov_ok db" "get_chain_by_task i db = Some c"
  shows "chain_depth c = length (chain_hops c) \<and> sorted (map hop_time (chain_hops c))"
  using assms by (auto simp: get_chain_by_task_def load_chain_def prov_ok_def dest: row_by_mem)

lemma record_hop_fails_iff: "fst (record_hop c h db) = None \<longleftrightarrow> row_by pc_id c (prov_chains db) = None"
  by (simp add: record_hop_def Let_def)

lemma record_hop_fails: "fst (record_hop c h db) = None \<Longrightarrow> snd (record_hop c h db) = db"
  by (simp add: record_hop_def Let_def split: if_splits)

end
