(* ===== verification/TaskRequests.thy ===== *)
theory TaskRequests
  imports Ape AuthMiddleware Contract Provenance
begin

text \<open>
  Requests and responses of the task API, the first part of \<open>orchestration/routes.py\<close>: reading the
  fields of a body, the dicts of tasks, runs, comments and events, the texts of the store's
  exceptions and the bookkeeping of provenance. The state a handler works on is \<open>api_state\<close>; what
  it is wired to is \<open>api_env\<close>. An operation ends with a reply or with an exception no handler
  catches, which the web server turns into status 500 (\<open>Raised\<close>). A field of a type its column
  does not have is outside the model (\<open>Odd\<close>). Dashes and arrows outside Latin-1 in messages are
  written \<open>-\<close> and \<open>->\<close>.
\<close>

section \<open>State and outcome\<close>

record api_state =
  as_tasks :: task_db
  as_prov :: prov_db
  as_trail :: event_store
  as_sent :: "(string \<times> json) list"

record api_env =
  ae_ape :: "ape_env option"
  ae_tokens :: token_table
  ae_registry :: "registry_db option"
  ae_pt :: bool
  ae_trail :: bool
  ae_broadcasts :: bool
  ae_fresh_id :: string
  ae_event_id :: "event_store \<Rightarrow> string"
  ae_num :: "rat \<Rightarrow> json"

datatype outcome = Reply int json "(string \<times> string) list" | Raised | Odd

type_synonym api = "api_state \<Rightarrow> outcome \<times> api_state"

record api_request =
  rq_ctx :: "RequestCtx option"
  rq_body :: "json option"
  rq_query :: "(string \<times> string) list"
  rq_remote :: "string option"

definition json_reply :: "int \<Rightarrow> json \<Rightarrow> api" where
  "json_reply st j s = (Reply st j [], s)"

definition json_error :: "int \<Rightarrow> string \<Rightarrow> string \<Rightarrow> api" where
  "json_error st code detail = json_reply st (JObj [(''error'', JStr code), (''detail'', JStr detail)])"

text \<open>A step that gives a value or ends the handler.\<close>

definition require :: "outcome + 'a \<Rightarrow> ('a \<Rightarrow> api) \<Rightarrow> api" where
  "require r f s = (case r of Inl e \<Rightarrow> (e, s) | Inr v \<Rightarrow> f v s)"

text \<open>The parsed body; text that is not JSON is a bad request, a value without \<open>get\<close> an exception.\<close>

definition with_body :: "api_request \<Rightarrow> ((string \<times> json) list \<Rightarrow> api) \<Rightarrow> api" where
  "with_body rq f =
     (case rq_body rq of
        None \<Rightarrow> json_error 400 ''invalid_json'' ''Invalid JSON body''
      | Some (JObj d) \<Rightarrow> f d
      | Some _ \<Rightarrow> (\<lambda>s. (Raised, s)))"

text \<open>The same where text that is not JSON counts as the empty dict.\<close>

definition with_body_or_empty :: "api_request \<Rightarrow> ((string \<times> json) list \<Rightarrow> api) \<Rightarrow> api" where
  "with_body_or_empty rq f =
     (case rq_body rq of None \<Rightarrow> f [] | Some (JObj d) \<Rightarrow> f d | Some _ \<Rightarrow> (\<lambda>s. (Raised, s)))"

section \<open>Fields\<close>

text \<open>\<open>(v or "").strip()\<close> and \<open>v.strip()\<close>\<close>

definition stripped :: "json \<Rightarrow> outcome + string" where
  "stripped v = (case v of JStr s \<Rightarrow> Inr (py_strip s) | _ \<Rightarrow> Inl Raised)"

definition stripped_or :: "string \<Rightarrow> json \<Rightarrow> outcome + string" where
  "stripped_or dflt v = (if json_true v then stripped v else Inr (py_strip dflt))"

definition opt_str_field :: "(string \<times> json) list \<Rightarrow> string \<Rightarrow> outcome + string option" where
  "opt_str_field d k = (case dict_get d k JNull of JNull \<Rightarrow> Inr None | JStr s \<Rightarrow> Inr (Some s) | _ \<Rightarrow> Inl Odd)"

definition opt_int_field :: "(string \<times> json) list \<Rightarrow> string \<Rightarrow> outcome + int option" where
  "opt_int_field d k = (case dict_get d k JNull of JNull \<Rightarrow> Inr None | JInt i \<Rightarrow> Inr (Some i) | _ \<Rightarrow> Inl Odd)"

definition str_field :: "(string \<times> json) list \<Rightarrow> string \<Rightarrow> string \<Rightarrow> outcome + string" where
  "str_field d k dflt = (case dict_get d k (JStr dflt) of JStr s \<Rightarrow> Inr s | _ \<Rightarrow> Inl Odd)"

definition priority_names :: "(string \<times> int) list" where
  "priority_names = [(''low'', 1), (''normal'', 0), (''high'', 10), (''critical'', 20)]"

text \<open>A name of the table or \<open>int(v)\<close>; what is no number counts as 0, but \<open>int\<close> of infinity raises.\<close>

definition priority_of :: "json \<Rightarrow> outcome + int" where
  "priority_of v =
     (case v of
        JStr s \<Rightarrow> Inr (the_default 0 (map_of priority_names (py_lower s)))
      | JInt i \<Rightarrow> Inr i
      | JBool b \<Rightarrow> Inr (if b then 1 else 0)
      | JFloat s \<Rightarrow> if s = ''NaN'' then Inr 0 else if s \<in> {''Infinity'', ''-Infinity''} then Inl Raised
                   else Inr (py_int (float_val s))
      | _ \<Rightarrow> Inr 0)"

definition parent_id_field :: "(string \<times> json) list \<Rightarrow> outcome + string option" where
  "parent_id_field m =
     (case dict_get m ''parent_id'' (JStr []) of JStr s \<Rightarrow> Inr (Some s) | JNull \<Rightarrow> Inr None | _ \<Rightarrow> Inl Odd)"

text \<open>An element of the list of parents: a dict, or anything else by its \<open>str\<close>.\<close>

definition parent_of_json :: "json \<Rightarrow> outcome + parent_arg" where
  "parent_of_json v =
     (case v of
        JObj m \<Rightarrow>
          (case (parent_id_field m, opt_str_field m ''condition'') of
             (Inr p, Inr c) \<Rightarrow> Inr (ParentDict p c) | _ \<Rightarrow> Inl Odd)
      | JStr s \<Rightarrow> Inr (ParentStr s)
      | JInt i \<Rightarrow> Inr (ParentStr (str_int i))
      | JBool b \<Rightarrow> Inr (ParentStr (if b then ''True'' else ''False''))
      | JNull \<Rightarrow> Inr (ParentStr ''None'')
      | _ \<Rightarrow> Inl Odd)"

fun parse_all :: "('a \<Rightarrow> outcome + 'b) \<Rightarrow> 'a list \<Rightarrow> outcome + 'b list" where
  "parse_all f [] = Inr []"
| "parse_all f (x # xs) =
     (case f x of Inl e \<Rightarrow> Inl e | Inr y \<Rightarrow> (case parse_all f xs of Inl e \<Rightarrow> Inl e | Inr ys \<Rightarrow> Inr (y # ys)))"

text \<open>\<open>for p in parents or []\<close>\<close>

definition parents_field :: "json \<Rightarrow> outcome + parent_arg list" where
  "parents_field v =
     (if \<not> json_true v then Inr []
      else
        (case v of
           JList vs \<Rightarrow> parse_all parent_of_json vs
         | JStr s \<Rightarrow> Inr (map (\<lambda>c. ParentStr [c]) s)
         | JObj m \<Rightarrow> Inr (map (\<lambda>kv. ParentStr (fst kv)) m)
         | _ \<Rightarrow> Inl Raised))"

definition create_args :: "(string \<times> json) list \<Rightarrow> string \<Rightarrow> int \<Rightarrow> outcome + CreateArgs" where
  "create_args d ti pr =
     (case (opt_str_field d ''body'', opt_str_field d ''assignee'', opt_str_field d ''workspace_kind'',
            opt_str_field d ''workspace_path'', opt_int_field d ''max_runtime_seconds'',
            opt_int_field d ''max_retries'', opt_str_field d ''tenant'', opt_str_field d ''created_by'',
            opt_str_field d ''parallel_group'') of
        (Inr bo, Inr asg, Inr wk, Inr wp, Inr rt, Inr mr, Inr ten, Inr cb, Inr pg) \<Rightarrow>
          map_sum id (\<lambda>ps.
            \<lparr> arg_title = ti, arg_body = bo, arg_assignee = asg, arg_priority = pr, arg_parents = ps,
              arg_workspace_kind = wk, arg_workspace_path = wp, arg_max_runtime_seconds = rt,
              arg_max_retries = mr, arg_tenant = ten, arg_created_by = cb, arg_parallel_group = pg \<rparr>)
          (parents_field (dict_get d ''parents'' JNull))
      | _ \<Rightarrow> Inl Odd)"

section \<open>Dicts of the model\<close>

definition json_opt_int :: "int option \<Rightarrow> json" where
  "json_opt_int x = (case x of None \<Rightarrow> JNull | Some i \<Rightarrow> JInt i)"

definition task_to_brief :: "Task \<Rightarrow> (string \<times> json) list" where
  "task_to_brief t =
     [(''id'', JStr (tid t)), (''title'', JStr (title t)), (''status'', JStr (status t)),
      (''assignee'', json_opt_str (assignee t)), (''priority'', JInt (priority t)),
      (''created_at'', JInt (created_at t)), (''started_at'', json_opt_int (started_at t)),
      (''completed_at'', json_opt_int (completed_at t)), (''tenant'', json_opt_str (tenant t))]"

text \<open>\<open>json.loads(text) if text else None\<close>; the outer \<open>None\<close> is a \<open>JSONDecodeError\<close>.\<close>

definition loads_or_null :: "string option \<Rightarrow> json option" where
  "loads_or_null x = (if opt_true x then loads (opt_or x []) else Some JNull)"

definition task_to_detail :: "Task \<Rightarrow> json option" where
  "task_to_detail t =
     (case (loads_or_null (result t), loads_or_null (metadata t)) of
        (Some res, Some meta) \<Rightarrow>
          Some (JObj (task_to_brief t @
            [(''body'', json_opt_str (body t)), (''created_by'', json_opt_str (created_by t)),
             (''workspace_kind'', json_opt_str (workspace_kind t)), (''workspace_path'', json_opt_str (workspace_path t)),
             (''claim_lock'', json_opt_str (claim_lock t)), (''claim_expires'', json_opt_int (claim_expires t)),
             (''max_runtime_seconds'', json_opt_int (max_runtime_seconds t)), (''max_retries'', json_opt_int (max_retries t)),
             (''consecutive_failures'', JInt (int (consecutive_failures t))),
             (''current_run_id'', json_opt_int (map_option int (current_run_id t))),
             (''parallel_group'', json_opt_str (parallel_group t)), (''result'', res), (''summary'', json_opt_str (summary t)),
             (''metadata'', meta), (''tags'', json_opt_str (tags t)), (''circuit_state'', json_opt_str (circuit_state t))]))
      | _ \<Rightarrow> None)"

text \<open>The text a JSON column holds, and the \<open>metadata\<close> of a run parsed back where that succeeds.\<close>

definition column_text :: "json option \<Rightarrow> json" where
  "column_text x = (case x of None \<Rightarrow> JNull | Some j \<Rightarrow> JStr (dumps plain_opts j))"

definition parsed_metadata :: "json option \<Rightarrow> json" where
  "parsed_metadata x =
     (case x of None \<Rightarrow> JNull | Some j \<Rightarrow> the_default (JStr (dumps plain_opts j)) (loads (dumps plain_opts j)))"

definition run_to_dict :: "TaskRun \<Rightarrow> json" where
  "run_to_dict r =
     JObj (present
       [(''id'', JInt (int (run_id r))), (''task_id'', JStr (run_task r)), (''profile'', json_opt_str (profile r)),
        (''status'', JStr (run_status r)), (''claim_lock'', json_opt_str (run_claim_lock r)),
        (''claim_expires'', json_opt_int (run_claim_expires r)), (''worker_pid'', json_opt_int (run_worker_pid r)),
        (''max_runtime_seconds'', json_opt_int (run_max_runtime_seconds r)),
        (''last_heartbeat_at'', json_opt_int (run_last_heartbeat_at r)), (''started_at'', JInt (run_started_at r)),
        (''ended_at'', json_opt_int (run_ended_at r)), (''outcome'', json_opt_str (TaskRun.outcome r)),
        (''summary'', json_opt_str (run_summary r)), (''metadata'', parsed_metadata (run_metadata r)),
        (''error'', json_opt_str (run_error r))])"

definition comment_to_dict :: "TaskComment \<Rightarrow> json" where
  "comment_to_dict c =
     JObj [(''id'', JInt (int (comment_id c))), (''task_id'', JStr (comment_task c)), (''author'', JStr (author c)),
           (''body'', JStr (comment_body c)), (''created_at'', JInt (comment_at c))]"

definition event_to_dict :: "TaskEvent \<Rightarrow> json" where
  "event_to_dict e =
     JObj (present
       [(''id'', JInt (int (event_id e))), (''task_id'', JStr (event_task e)),
        (''run_id'', json_opt_int (map_option int (event_run e))), (''kind'', JStr (kind e)),
        (''payload'', column_text (payload e)), (''created_at'', JInt (event_at e))])"

definition link_to_dict :: "string \<times> string \<times> string \<times> string option \<Rightarrow> json" where
  "link_to_dict l =
     (case l of (i, ti, st, cond) \<Rightarrow>
        JObj [(''id'', JStr i), (''title'', JStr ti), (''status'', JStr st), (''condition'', json_opt_str cond)])"

section \<open>Texts of exceptions\<close>

text \<open>\<open>str(e)\<close> of what the store raises; a cycle found by \<open>create_task\<close> names the parent.\<close>

definition error_text :: "store_error \<Rightarrow> string" where
  "error_text e =
     (case e of
        TaskNotFound i \<Rightarrow> ''Task '' @ quoted i @ '' not found''
      | ParentNotFound i \<Rightarrow> ''Parent task '' @ quoted i @ '' not found''
      | EmptyParent \<Rightarrow> ''Each parent must have a non-empty '' @ quoted ''parent_id''
      | WouldCycle i \<Rightarrow> ''Cannot add parent '' @ quoted i @ '' - would create a cycle''
      | SelfLink \<Rightarrow> ''Self-links are not allowed''
      | InvalidTransition a b \<Rightarrow> ''Invalid transition: '' @ quoted a @ '' -> '' @ quoted b
      | LockMismatch l m \<Rightarrow> ''Claim lock mismatch: expected '' @ quoted (opt_str l) @ '', got '' @ quoted m
      | NoAttribute a \<Rightarrow> ''type object '' @ quoted ''TaskEventKind'' @ '' has no attribute '' @ quoted a
      | PrimaryKeyViolation \<Rightarrow> ''UNIQUE constraint failed''
      | FloatOverflow \<Rightarrow> ''int too large to convert to float'')"

definition depend_error_text :: "store_error \<Rightarrow> string" where
  "depend_error_text e = (case e of WouldCycle i \<Rightarrow> ''Would create a cycle'' | _ \<Rightarrow> error_text e)"

text \<open>\<open>word in str(e).lower()\<close>\<close>

definition mentions :: "string \<Rightarrow> string \<Rightarrow> bool" where
  "mentions word msg = py_in word (py_lower msg)"

definition is_value_error :: "store_error \<Rightarrow> bool" where
  "is_value_error e = (class_of e = ValueErr)"

text \<open>\<open>except ValueError\<close> with 404 for a text that says \<open>not found\<close>.\<close>

definition not_found_or_invalid :: "store_error \<Rightarrow> api" where
  "not_found_or_invalid e =
     (if mentions ''not found'' (error_text e) then json_error 404 ''task_not_found'' (error_text e)
      else json_error 400 ''validation_error'' (error_text e))"

section \<open>The caller\<close>

definition ctx_agent :: "string \<Rightarrow> api_request \<Rightarrow> string" where
  "ctx_agent dflt rq = (case rq_ctx rq of None \<Rightarrow> dflt | Some c \<Rightarrow> rq_agent_id c)"

definition ctx_scopes :: "api_request \<Rightarrow> string" where
  "ctx_scopes rq = (case rq_ctx rq of None \<Rightarrow> [] | Some c \<Rightarrow> rq_scopes c)"

definition build_caller :: "api_request \<Rightarrow> CallerIdentity" where
  "build_caller rq =
     \<lparr> ca_agent_id = ctx_agent ''anonymous'' rq,
       ca_tenant = (case rq_ctx rq of None \<Rightarrow> [] | Some c \<Rightarrow> the_default [] (rq_tenant c)),
       ca_scope = ctx_scopes rq \<rparr>"

definition ctx_jti :: "api_request \<Rightarrow> outcome + string" where
  "ctx_jti rq = str_field (case rq_ctx rq of None \<Rightarrow> [] | Some c \<Rightarrow> rq_payload c) ''jti'' []"

text \<open>A checkpoint of the policy engine: its refusal is the answer, its headers go with a later answer.\<close>

definition checkpoint ::
  "api_env \<Rightarrow> (ape_env \<Rightarrow> event_store \<Rightarrow> CheckpointResult \<times> event_store) \<Rightarrow> ((string \<times> string) list \<Rightarrow> api) \<Rightarrow> api" where
  "checkpoint E chk f s =
     (case ae_ape E of
        None \<Rightarrow> f [] s
      | Some A \<Rightarrow>
          (case chk (A\<lparr>ape_tasks := Some (as_tasks s)\<rparr>) (as_trail s) of
             (r, tr) \<Rightarrow>
               if allowed r then f (response_headers r) (s\<lparr>as_trail := tr\<rparr>)
               else json_error 403 ''security_denied'' (reason r) (s\<lparr>as_trail := tr\<rparr>)))"

text \<open>The broadcast to the admin clients before the final answer.\<close>

definition notify :: "api_env \<Rightarrow> string \<Rightarrow> json option \<Rightarrow> api \<Rightarrow> api" where
  "notify E ty what final s =
     (if \<not> ae_broadcasts E then final s
      else (case what of None \<Rightarrow> (Raised, s) | Some j \<Rightarrow> final (s\<lparr>as_sent := as_sent s @ [(ty, j)]\<rparr>)))"

text \<open>The same for the task as it is in the store, left out when it is not there.\<close>

definition notify_task :: "api_env \<Rightarrow> string \<Rightarrow> string \<Rightarrow> api \<Rightarrow> api" where
  "notify_task E ty i final s =
     (case get_task i (as_tasks s) of
        None \<Rightarrow> final s | Some v \<Rightarrow> notify E ty (task_to_detail (task_of v)) final s)"

section \<open>Provenance\<close>

text \<open>The root and the parent of a chain; a task as \<open>create_task\<close> returns it has no parents loaded.\<close>

definition chain_origin :: "string \<Rightarrow> (string \<times> string \<times> string) list \<Rightarrow> string \<times> string option" where
  "chain_origin i parents = (case parents of [] \<Rightarrow> (i, None) | (p, _) # _ \<Rightarrow> (p, Some p))"

definition record_hop_of ::
  "rat \<Rightarrow> string \<Rightarrow> string \<Rightarrow> string \<Rightarrow> string \<Rightarrow> api_request \<Rightarrow> api \<Rightarrow> api" where
  "record_hop_of now c from to act rq final =
     require (ctx_jti rq) (\<lambda>jti s.
       (case record_hop c \<lparr> from_agent = from, to_agent = to, hop_action = act, scope_at = ctx_scopes rq,
                hop_time = now, token_jti = jti \<rparr> (as_prov s) of
          (None, p) \<Rightarrow> (Raised, s\<lparr>as_prov := p\<rparr>)
        | (Some _, p) \<Rightarrow> final (s\<lparr>as_prov := p\<rparr>)))"

definition record_provenance_create :: "api_env \<Rightarrow> rat \<Rightarrow> Task \<Rightarrow> api_request \<Rightarrow> api \<Rightarrow> api" where
  "record_provenance_create E now t rq final s =
     (if \<not> ae_pt E then final s
      else
        (let caller = opt_or (created_by t) (ctx_agent ''anonymous'' rq);
             (root_id, parent) = chain_origin (tid t) [];
             s1 = s\<lparr>as_prov := ensure_chain now (tid t) caller (opt_or (tenant t) []) root_id parent (tid t) (as_prov s)\<rparr>
         in if opt_true (assignee t)
            then record_hop_of now (tid t) caller (opt_or (assignee t) []) ''delegate'' rq final s1
            else final s1))"

definition record_provenance_claim :: "api_env \<Rightarrow> rat \<Rightarrow> string \<Rightarrow> string \<Rightarrow> api_request \<Rightarrow> api \<Rightarrow> api" where
  "record_provenance_claim E now i worker rq final s =
     (if \<not> ae_pt E then final s
      else
        (case get_task i (as_tasks s) of
           None \<Rightarrow> final s
         | Some v \<Rightarrow> record_hop_of now i (opt_or (assignee (task_of v)) ''unknown'') worker ''claim'' rq final s))"

end
