(* ===== verification/TaskApi.thy ===== *)
theory TaskApi
  imports TaskRequests
begin

text \<open>
  The handlers of \<open>orchestration/routes.py\<close> and the table of routes with the scopes they ask for.
  A handler reads the clock once (\<open>now\<close>). The cleanup of a workspace, whose exceptions the handler
  swallows, is file-system work and left out.
\<close>

definition reply :: "int \<Rightarrow> (string \<times> json) list \<Rightarrow> (string \<times> string) list \<Rightarrow> api" where
  "reply st d hdrs s = (Reply st (JObj d) hdrs, s)"

text \<open>A store operation with its two continuations.\<close>

definition on_tasks :: "'a store_op \<Rightarrow> (store_error \<Rightarrow> api) \<Rightarrow> ('a \<Rightarrow> api) \<Rightarrow> api" where
  "on_tasks f err ok s =
     (case f (as_tasks s) of
        (Inl e, db) \<Rightarrow> err e (s\<lparr>as_tasks := db\<rparr>)
      | (Inr x, db) \<Rightarrow> ok x (s\<lparr>as_tasks := db\<rparr>))"

definition raised :: api where
  "raised s = (Raised, s)"

definition value_errors :: "(store_error \<Rightarrow> api) \<Rightarrow> store_error \<Rightarrow> api" where
  "value_errors f e = (if is_value_error e then f e else raised)"

text \<open>The exceptions of a status change; an invalid transition is caught before other value errors.\<close>

definition status_errors :: "store_error \<Rightarrow> api" where
  "status_errors e =
     (case e of
        InvalidTransition a b \<Rightarrow> json_error 400 ''invalid_status'' (error_text e)
      | LockMismatch l m \<Rightarrow> json_error 403 ''claim_mismatch'' (error_text e)
      | _ \<Rightarrow> value_errors not_found_or_invalid e)"

section \<open>Create and update\<close>

definition create_errors :: "store_error \<Rightarrow> api" where
  "create_errors = value_errors (\<lambda>e.
     let msg = error_text e in
     if mentions ''cycle'' msg then json_error 400 ''cycle_detected'' msg
     else if mentions ''not found'' msg then json_error 400 ''parent_not_found'' msg
     else json_error 400 ''validation_error'' msg)"

definition trail_event :: "api_env \<Rightarrow> rat \<Rightarrow> EventArgs \<Rightarrow> api_state \<Rightarrow> api_state" where
  "trail_event E now a s = s\<lparr>as_trail := snd (record_event (ae_event_id E (as_trail s)) now a (as_trail s))\<rparr>"

definition record_created :: "api_env \<Rightarrow> rat \<Rightarrow> Task \<Rightarrow> string option \<Rightarrow> api_request \<Rightarrow> api_state \<Rightarrow> api_state" where
  "record_created E now t asg rq s =
     (if \<not> ae_trail E then s
      else
        (let caller = ctx_agent (opt_or (created_by t) (opt_or (rq_remote rq) ''unknown'')) rq;
             target = opt_or (if opt_true asg then asg else None) ''unknown'';
             args = (\<lambda>ty dec why. (EventArgs_default (event_type_value ty) caller target dec)
                       \<lparr> ea_tenant := opt_or (tenant t) [], ea_reason := why, ea_task_id := Some (tid t) \<rparr>);
             s1 = (case ae_registry E of
                     None \<Rightarrow> s
                   | Some reg \<Rightarrow>
                       if get_agent now caller None reg = None
                       then trail_event E now (args AGENT_NOT_FOUND ''deny''
                              (''Caller agent '' @ quoted caller @ '' is not registered'')) s
                       else s)
         in trail_event E now (args AUTHORIZATION_ALLOWED ''allow'' ''Task created successfully'') s1))"

text \<open>The assignee the policy engine and the trail see: \<open>None\<close> for \<open>null\<close>, the empty text when there is none.\<close>

definition assignee_arg :: "(string \<times> json) list \<Rightarrow> outcome + string option" where
  "assignee_arg d =
     (case dict_get d ''assignee'' (JStr []) of JStr x \<Rightarrow> Inr (Some x) | JNull \<Rightarrow> Inr None | _ \<Rightarrow> Inl Odd)"

definition create_check ::
  "ape_env \<Rightarrow> rat \<Rightarrow> CallerIdentity \<Rightarrow> string option \<Rightarrow> string option \<Rightarrow> event_store \<Rightarrow> CheckpointResult \<times> event_store" where
  "create_check A now c asg parent =
     (case asg of None \<Rightarrow> check_null_assignee A now c parent | Some a \<Rightarrow> check_task_create A now c a parent)"

text \<open>What follows once the checkpoint has let the request through.\<close>

definition create_stored :: "api_env \<Rightarrow> int \<Rightarrow> api_request \<Rightarrow> string option \<Rightarrow> (string \<times> string) list \<Rightarrow> CreateArgs \<Rightarrow> api" where
  "create_stored E now rq asg hdrs a =
     on_tasks (create_task now (ae_fresh_id E) a) create_errors (\<lambda>t.
     record_provenance_create E (of_int now) t rq (\<lambda>s.
       notify E ''created'' (task_to_detail t) (\<lambda>s.
         (case task_to_detail t of None \<Rightarrow> raised s | Some j \<Rightarrow> reply 201 [(''task'', j)] hdrs s))
       (record_created E (of_int now) t asg rq s)))"

definition handle_create_task :: "api_env \<Rightarrow> int \<Rightarrow> api_request \<Rightarrow> api" where
  "handle_create_task E now rq =
     with_body rq (\<lambda>d.
     require (stripped_or [] (dict_get d ''title'' JNull)) (\<lambda>ti.
     if ti = [] then json_error 400 ''validation_error'' (''Missing required '' @ quoted ''title'' @ '' field'')
     else
     require (priority_of (dict_get d ''priority'' (JInt 0))) (\<lambda>pr.
     require (assignee_arg d) (\<lambda>asg.
     require (opt_str_field d ''parent_id'') (\<lambda>parent.
     checkpoint E (\<lambda>A. create_check A (of_int now) (build_caller rq) asg parent) (\<lambda>hdrs.
     require (create_args d ti pr) (create_stored E now rq asg hdrs)))))))"

definition update_errors :: "store_error \<Rightarrow> api" where
  "update_errors e =
     (if is_value_error e then not_found_or_invalid e else json_error 400 ''status_error'' (error_text e))"

definition task_reply :: "Task \<Rightarrow> api" where
  "task_reply t = (case task_to_detail t of None \<Rightarrow> raised | Some j \<Rightarrow> reply 200 [(''task'', j)] [])"

definition updated_reply :: "api_env \<Rightarrow> string \<Rightarrow> Task \<Rightarrow> api" where
  "updated_reply E ty t = notify E ty (task_to_detail t) (task_reply t)"

definition update_priority :: "json \<Rightarrow> outcome + int option" where
  "update_priority v = (if v = JNull then Inr None else map_sum id Some (priority_of v))"

text \<open>The \<open>OverflowError\<close> of an infinite priority is caught here.\<close>

definition infinite_priority :: "json \<Rightarrow> bool" where
  "infinite_priority v = (v \<in> {JFloat ''Infinity'', JFloat ''-Infinity''})"

text \<open>The promotion of a root task that has got an assignee.\<close>

definition auto_promote :: "api_env \<Rightarrow> int \<Rightarrow> string \<Rightarrow> (string \<times> json) list \<Rightarrow> Task \<Rightarrow> api" where
  "auto_promote E now i d t s =
     (if ''assignee'' \<in> fst ` set d \<and> opt_true (assignee t) \<and> status t = status_value TODO
      then (case get_task i (as_tasks s) of
              Some v \<Rightarrow>
                if parents_of v = []
                then on_tasks (update_task_status now i (status_value READY) None None None []) update_errors
                       (\<lambda>r. case r of None \<Rightarrow> raised | Some v' \<Rightarrow> updated_reply E ''updated'' (task_of v')) s
                else updated_reply E ''updated'' t s
            | None \<Rightarrow> updated_reply E ''updated'' t s)
      else updated_reply E ''updated'' t s)"

definition update_body :: "api_env \<Rightarrow> int \<Rightarrow> string \<Rightarrow> (string \<times> json) list \<Rightarrow> api" where
  "update_body E now i d =
     (if infinite_priority (dict_get d ''priority'' JNull)
      then json_error 400 ''status_error'' ''cannot convert float infinity to integer''
      else
     require (update_priority (dict_get d ''priority'' JNull)) (\<lambda>pr.
     if ''status'' \<in> fst ` set d
     then require (str_field d ''status'' []) (\<lambda>new.
          on_tasks (update_task_status now i new None None None []) update_errors
            (\<lambda>r. case r of None \<Rightarrow> raised | Some v \<Rightarrow> updated_reply E ''status_changed'' (task_of v)))
     else require (opt_str_field d ''title'') (\<lambda>ti.
          require (opt_str_field d ''body'') (\<lambda>bo.
          require (opt_str_field d ''assignee'') (\<lambda>asg.
          on_tasks (update_task now i ti bo asg pr) update_errors (auto_promote E now i d))))))"

text \<open>A body that is not a dict is outside the model of this handler.\<close>

definition handle_update_task :: "api_env \<Rightarrow> int \<Rightarrow> string \<Rightarrow> api_request \<Rightarrow> api" where
  "handle_update_task E now i rq =
     (case rq_body rq of
        None \<Rightarrow> json_error 400 ''invalid_json'' ''Invalid JSON body''
      | Some (JObj d) \<Rightarrow>
          if {''title'', ''body'', ''assignee'', ''priority'', ''status''} \<inter> fst ` set d = {}
          then json_error 400 ''validation_error'' ''Must provide at least one of: title, body, assignee, priority, status''
          else update_body E now i d
      | Some _ \<Rightarrow> (\<lambda>s. (Odd, s)))"

section \<open>Reading\<close>

text \<open>\<open>int(text)\<close> for decimal text, with blanks around it, a sign and single underscores.\<close>

definition py_int_text :: "string \<Rightarrow> int option" where
  "py_int_text x =
     (let s = py_strip x; neg = (take 1 s = ''-''); u = (if neg \<or> take 1 s = ''+'' then drop 1 s else s);
          parts = py_split_on (CHR ''_'') u
      in if list_all (\<lambda>p. p \<noteq> [] \<and> list_all is_digit p) parts
         then Some (if neg then - digits_val (concat parts) else digits_val (concat parts)) else None)"

definition query_int :: "api_request \<Rightarrow> string \<Rightarrow> int \<Rightarrow> int" where
  "query_int rq k dflt = (case map_of (rq_query rq) k of None \<Rightarrow> dflt | Some x \<Rightarrow> the_default dflt (py_int_text x))"

definition query_opt :: "api_request \<Rightarrow> string \<Rightarrow> string option" where
  "query_opt rq k = (case map_of (rq_query rq) k of Some x \<Rightarrow> or_none x | None \<Rightarrow> None)"

definition list_args :: "api_request \<Rightarrow> ListArgs" where
  "list_args rq =
     \<lparr> f_status = query_opt rq ''status'', f_assignee = query_opt rq ''assignee'', f_tenant = query_opt rq ''tenant'',
       f_parent = query_opt rq ''parent_id'', f_q = query_opt rq ''q'',
       f_limit = (case map_of (rq_query rq) ''limit'' of None \<Rightarrow> 50
                  | Some x \<Rightarrow> (case py_int_text x of None \<Rightarrow> 50 | Some n \<Rightarrow> min n 200)),
       f_offset = max (query_int rq ''offset'' 0) 0,
       f_sort = the_default ''-created_at'' (map_of (rq_query rq) ''sort'') \<rparr>"

definition handle_list_tasks :: "api_request \<Rightarrow> api" where
  "handle_list_tasks rq s =
     (let a = list_args rq; (ts, n) = list_tasks a (as_tasks s) in
      reply 200 [(''total'', JInt (int n)), (''limit'', JInt (f_limit a)), (''offset'', JInt (f_offset a)),
                 (''tasks'', JList (map (\<lambda>t. JObj (task_to_brief t)) ts))] [] s)"

definition task_missing :: "string \<Rightarrow> api" where
  "task_missing i = json_error 404 ''task_not_found'' (''Task '' @ quoted i @ '' not found'')"

definition provenance_of :: "api_env \<Rightarrow> string \<Rightarrow> api_state \<Rightarrow> json option" where
  "provenance_of E i s =
     (if ae_pt E then map_option (chain_to_dict (ae_num E)) (get_chain_by_task i (as_prov s)) else None)"

definition handle_get_task :: "api_env \<Rightarrow> string \<Rightarrow> api" where
  "handle_get_task E i s =
     (case get_task i (as_tasks s) of
        None \<Rightarrow> task_missing i s
      | Some v \<Rightarrow>
          (case task_to_detail (task_of v) of
             None \<Rightarrow> raised s
           | Some j \<Rightarrow>
               reply 200 ([(''task'', j), (''parents'', JList (map link_to_dict (get_parents i (as_tasks s)))),
                 (''children'', JList (map link_to_dict (get_children i (as_tasks s)))),
                 (''runs'', JList (map run_to_dict (get_runs i (as_tasks s)))),
                 (''comments'', JList (map comment_to_dict (get_comments i (as_tasks s)))),
                 (''events'', JList (map event_to_dict (get_events i 50 (as_tasks s))))] @
                 (case provenance_of E i s of None \<Rightarrow> [] | Some p \<Rightarrow> [(''provenance'', p)])) [] s))"

definition handle_get_provenance :: "api_env \<Rightarrow> string \<Rightarrow> api" where
  "handle_get_provenance E i s =
     reply 200 [(''task_id'', JStr i),
       (''provenance'', if get_task i (as_tasks s) = None then JNull else the_default JNull (provenance_of E i s))] [] s"

section \<open>Claim and completion\<close>

definition claim_to_dict :: "ClaimInfo \<Rightarrow> (string \<times> json) list" where
  "claim_to_dict c =
     [(''task_id'', JStr (ci_task c)), (''claim_lock'', JStr (ci_lock c)), (''claim_expires'', JInt (ci_expires c)),
      (''workspace_path'', json_opt_str (ci_workspace c))]"

definition int_field :: "(string \<times> json) list \<Rightarrow> string \<Rightarrow> int \<Rightarrow> outcome + int" where
  "int_field d k dflt = (case dict_get d k (JInt dflt) of JInt i \<Rightarrow> Inr i | _ \<Rightarrow> Inl Odd)"

definition claim_conflict :: "string \<Rightarrow> api" where
  "claim_conflict i s =
     (if get_task i (as_tasks s) = None then task_missing i s
      else json_error 409 ''claim_conflict'' (''Task '' @ quoted i @ '' is not ready or already claimed'') s)"

definition handle_claim :: "api_env \<Rightarrow> int \<Rightarrow> string \<Rightarrow> api_request \<Rightarrow> api" where
  "handle_claim E now i rq =
     with_body rq (\<lambda>d.
     require (stripped (dict_get d ''worker_id'' (JStr ''unknown''))) (\<lambda>worker.
     require (int_field d ''pid'' 0) (\<lambda>pid.
     require (opt_int_field d ''ttl'') (\<lambda>ttl.
     require (opt_str_field d ''delegation_token'') (\<lambda>token.
     checkpoint E (\<lambda>A. check_task_claim A (of_int now) (build_caller rq) i token (ae_tokens E)) (\<lambda>hdrs.
     on_tasks (claim_task now i worker pid (the_default DEFAULT_CLAIM_TTL ttl)) (\<lambda>e. raised) (\<lambda>r.
     case r of
       None \<Rightarrow> claim_conflict i
     | Some c \<Rightarrow>
         record_provenance_claim E (of_int now) i worker rq
           (notify_task E ''status_changed'' i (reply 200 (claim_to_dict c) hdrs)))))))))"

text \<open>\<open>repr\<close> of a text, a float and any value; a text is quoted with double quotes when it holds a single
  quote and no double one.\<close>

definition repr_char :: "char \<Rightarrow> char \<Rightarrow> string" where
  "repr_char q c =
     (let n = of_char c :: nat in
      if c = q \<or> c = backslash then [backslash, c]
      else if c = CHR 0x09 then [backslash, CHR ''t'']
      else if c = CHR 0x0A then [backslash, CHR ''n'']
      else if c = CHR 0x0D then [backslash, CHR ''r'']
      else if n < 32 \<or> 126 < n \<and> n < 161 \<or> n = 173
      then [backslash, CHR ''x'', hex_digit (n div 16), hex_digit (n mod 16)]
      else [c])"

definition repr_str :: "string \<Rightarrow> string" where
  "repr_str s =
     (let q = (if CHR 0x27 \<in> set s \<and> quote \<notin> set s then quote else CHR 0x27)
      in q # concat (map (repr_char q) s) @ [q])"

definition repr_float :: "string \<Rightarrow> string" where
  "repr_float s =
     (if s = ''NaN'' then ''nan'' else if s = ''Infinity'' then ''inf'' else if s = ''-Infinity'' then ''-inf'' else s)"

fun py_repr :: "json \<Rightarrow> string"
  and repr_items :: "json list \<Rightarrow> string"
  and repr_members :: "(string \<times> json) list \<Rightarrow> string" where
  "py_repr JNull = ''None''"
| "py_repr (JBool b) = (if b then ''True'' else ''False'')"
| "py_repr (JInt i) = str_int i"
| "py_repr (JFloat s) = repr_float s"
| "py_repr (JStr s) = repr_str s"
| "py_repr (JList js) = ''['' @ repr_items js @ '']''"
| "py_repr (JObj d) = ''{'' @ repr_members d @ ''}''"
| "repr_items [] = []"
| "repr_items [j] = py_repr j"
| "repr_items (j # js) = py_repr j @ '', '' @ repr_items js"
| "repr_members [] = []"
| "repr_members [(k, v)] = repr_str k @ '': '' @ py_repr v"
| "repr_members ((k, v) # d) = repr_str k @ '': '' @ py_repr v @ '', '' @ repr_members d"

text \<open>\<open>json.dumps(result)\<close> of a dict, \<open>str(result)\<close> of anything else.\<close>

definition result_text :: "json \<Rightarrow> string option" where
  "result_text v =
     (case v of
        JNull \<Rightarrow> None
      | JObj m \<Rightarrow> Some (dumps plain_opts (JObj m))
      | JStr s \<Rightarrow> Some s
      | _ \<Rightarrow> Some (py_repr v))"

definition metadata_field :: "json \<Rightarrow> outcome + (string \<times> json) list" where
  "metadata_field v = (if \<not> json_true v then Inr [] else (case v of JObj m \<Rightarrow> Inr m | _ \<Rightarrow> Inl Odd))"

text \<open>The dict that is checked: the result, or what its text parses to.\<close>

definition output_to_check :: "json \<Rightarrow> string option \<Rightarrow> outcome + json" where
  "output_to_check v txt =
     (case v of
        JObj m \<Rightarrow> Inr v
      | _ \<Rightarrow> if opt_true txt then (case loads (opt_or txt []) of None \<Rightarrow> Inl Raised | Some j \<Rightarrow> Inr j) else Inr JNull)"

text \<open>The validation error of the output, if there is one.\<close>

definition contract_error :: "(string \<times> json) list \<Rightarrow> json \<Rightarrow> string option \<Rightarrow> outcome + string option" where
  "contract_error d v txt =
     (case dict_get d ''output_contract'' JNull of
        JNull \<Rightarrow> Inr None
      | raw \<Rightarrow>
          (let oc = (case raw of JObj m \<Rightarrow> contract_from_dict m | _ \<Rightarrow> OutputContract_default) in
           (case output_to_check v txt of
              Inl e \<Rightarrow> Inl e
            | Inr (JObj m) \<Rightarrow>
                (case validate_output (JObj m) oc of
                   None \<Rightarrow> Inl Raised
                 | Some (ok, err) \<Rightarrow> Inr (if ok then None else err))
            | Inr _ \<Rightarrow> Inr None)))"

text \<open>\<open>except (InvalidTransitionError, PermissionError, ValueError)\<close>\<close>

definition failure_errors :: "store_error \<Rightarrow> api" where
  "failure_errors e =
     (if class_of e \<in> {ValueErr, PermissionErr} then json_error 400 ''status_error'' (error_text e) else raised)"

definition complete_with ::
  "api_env \<Rightarrow> int \<Rightarrow> string \<Rightarrow> string option \<Rightarrow> string option \<Rightarrow> string option \<Rightarrow> (string \<times> json) list
    \<Rightarrow> string option \<Rightarrow> (string \<times> string) list \<Rightarrow> api" where
  "complete_with E now i lock txt summ meta err hdrs =
     (case err of
        Some msg \<Rightarrow>
          on_tasks (update_task_status now i (status_value FAILED) lock (Some msg) (Some (opt_or summ msg)) meta) failure_errors
            (\<lambda>_. notify_task E ''status_changed'' i
               (reply 200 [(''task_id'', JStr i), (''status'', JStr (status_value FAILED)), (''failure_reason'', JStr msg)] hdrs))
      | None \<Rightarrow>
          on_tasks (update_task_status now i (status_value COMPLETED) lock txt summ meta) status_errors
            (\<lambda>_. notify_task E ''status_changed'' i
               (reply 200 [(''task_id'', JStr i), (''status'', JStr (status_value COMPLETED))] hdrs)))"

definition handle_complete :: "api_env \<Rightarrow> int \<Rightarrow> string \<Rightarrow> api_request \<Rightarrow> api" where
  "handle_complete E now i rq =
     with_body_or_empty rq (\<lambda>d.
     require (opt_str_field d ''claim_lock'') (\<lambda>lock.
     require (opt_str_field d ''summary'') (\<lambda>summ.
     require (metadata_field (dict_get d ''metadata'' JNull)) (\<lambda>meta.
     checkpoint E (\<lambda>A. check_task_complete A (of_int now) (build_caller rq) i lock) (\<lambda>hdrs.
     let txt = result_text (dict_get d ''result'' JNull) in
     require (contract_error d (dict_get d ''result'' JNull) txt) (\<lambda>err.
     complete_with E now i lock txt summ meta err hdrs))))))"

section \<open>Block, unblock, heartbeat\<close>

text \<open>A comment whose exceptions are swallowed.\<close>

definition add_comment_quietly :: "int \<Rightarrow> string \<Rightarrow> string \<Rightarrow> api_state \<Rightarrow> api_state" where
  "add_comment_quietly now i txt s = s\<lparr>as_tasks := snd (add_comment now i ''system'' txt (as_tasks s))\<rparr>"

text \<open>A reason that is text or nothing.\<close>

definition reason_field :: "(string \<times> json) list \<Rightarrow> string \<Rightarrow> outcome + string option" where
  "reason_field d dflt =
     (case dict_get d ''reason'' (JStr dflt) of JStr x \<Rightarrow> Inr (Some x) | JNull \<Rightarrow> Inr None | _ \<Rightarrow> Inl Odd)"

definition comment_reason :: "int \<Rightarrow> string \<Rightarrow> string \<Rightarrow> string option \<Rightarrow> api_state \<Rightarrow> api_state" where
  "comment_reason now i prefix x s = (if opt_true x then add_comment_quietly now i (prefix @ opt_or x []) s else s)"

definition handle_block :: "api_env \<Rightarrow> int \<Rightarrow> string \<Rightarrow> api_request \<Rightarrow> api" where
  "handle_block E now i rq =
     with_body_or_empty rq (\<lambda>d.
     require (opt_str_field d ''claim_lock'') (\<lambda>lock.
     require (reason_field d ''Blocked by human-in-the-loop'') (\<lambda>why.
     on_tasks (update_task_status now i (status_value BLOCKED) lock None None []) status_errors (\<lambda>_ s.
       notify_task E ''status_changed'' i
         (reply 200 [(''task_id'', JStr i), (''status'', JStr (status_value BLOCKED)), (''block_reason'', json_opt_str why)] [])
         (comment_reason now i ''Block reason: '' why s)))))"

text \<open>Unblocking names no lock: a mismatch cannot arise, and a \<open>PermissionError\<close> would not be caught.\<close>

definition unblock_errors :: "store_error \<Rightarrow> api" where
  "unblock_errors e =
     (case e of
        InvalidTransition a b \<Rightarrow> json_error 400 ''invalid_status'' (error_text e)
      | _ \<Rightarrow> value_errors not_found_or_invalid e)"

definition handle_unblock :: "api_env \<Rightarrow> int \<Rightarrow> string \<Rightarrow> api_request \<Rightarrow> api" where
  "handle_unblock E now i rq =
     with_body_or_empty rq (\<lambda>d.
     require (reason_field d ''Unblocked'') (\<lambda>why.
     on_tasks (update_task_status now i (status_value RUNNING) None None None []) unblock_errors (\<lambda>_ s.
       notify_task E ''status_changed'' i
         (reply 200 [(''task_id'', JStr i), (''status'', JStr (status_value RUNNING))] [])
         (comment_reason now i ''Unblock reason: '' why s))))"

definition handle_heartbeat :: "api_env \<Rightarrow> int \<Rightarrow> string \<Rightarrow> api_request \<Rightarrow> api" where
  "handle_heartbeat E now i rq =
     with_body_or_empty rq (\<lambda>d.
     require (str_field d ''claim_lock'' []) (\<lambda>lock.
     on_tasks (heartbeat now i lock) (\<lambda>e. raised) (\<lambda>ok s.
       if \<not> ok
       then (if get_task i (as_tasks s) = None then task_missing i s
             else json_error 403 ''claim_mismatch''
                    (''Heartbeat rejected: claim_lock '' @ quoted lock @ '' does not match'') s)
       else reply 200 [(''task_id'', JStr i),
              (''claim_expires'', case get_task i (as_tasks s) of None \<Rightarrow> JInt 0
                                  | Some v \<Rightarrow> json_opt_int (claim_expires (task_of v)))] [] s)))"

section \<open>Comments, archiving, dependencies\<close>

text \<open>The comment goes in front of the detail of the task, whose keys win.\<close>

definition comment_payload :: "TaskComment \<Rightarrow> string \<Rightarrow> string \<Rightarrow> Task \<Rightarrow> json option" where
  "comment_payload c who txt t =
     (case task_to_detail t of
        Some (JObj d) \<Rightarrow>
          Some (JObj ((''comment'', JObj [(''id'', JInt (int (comment_id c))), (''author'', JStr who),
                 (''body'', JStr txt), (''created_at'', JInt (comment_at c))]) # d))
      | _ \<Rightarrow> None)"

definition handle_add_comment :: "api_env \<Rightarrow> int \<Rightarrow> string \<Rightarrow> api_request \<Rightarrow> api" where
  "handle_add_comment E now i rq =
     with_body rq (\<lambda>d.
     require (stripped_or ''anonymous'' (dict_get d ''author'' JNull)) (\<lambda>who.
     require (stripped_or [] (dict_get d ''body'' JNull)) (\<lambda>txt.
     if txt = [] then json_error 400 ''validation_error'' (''Missing required '' @ quoted ''body'' @ '' field'')
     else on_tasks (add_comment now i who txt) (value_errors not_found_or_invalid) (\<lambda>c s.
       let final = reply 201 [(''comment_id'', JInt (int (comment_id c))), (''created_at'', JInt (comment_at c))] [] in
       (case get_task i (as_tasks s) of
          None \<Rightarrow> final s
        | Some v \<Rightarrow> notify E ''comment_added'' (comment_payload c who txt (task_of v)) final s)))))"

definition finished_status :: "string \<Rightarrow> bool" where
  "finished_status st = (st \<in> status_value ` {COMPLETED, FAILED, CANCELLED})"

definition delete_errors :: "store_error \<Rightarrow> api" where
  "delete_errors e =
     (case e of InvalidTransition a b \<Rightarrow> json_error 400 ''invalid_status'' (error_text e) | _ \<Rightarrow> raised)"

definition handle_delete_task :: "api_env \<Rightarrow> int \<Rightarrow> string \<Rightarrow> api" where
  "handle_delete_task E now i s =
     (case get_task i (as_tasks s) of
        None \<Rightarrow> task_missing i s
      | Some v \<Rightarrow>
          if \<not> finished_status (status (task_of v))
          then json_error 400 ''invalid_status''
                 (''Task '' @ quoted i @ '' is '' @ quoted (status (task_of v)) @
                  ''; only completed, failed, or cancelled tasks can be archived'') s
          else
            on_tasks (update_task_status now i (status_value ARCHIVED) None None None []) delete_errors
              (\<lambda>_. notify E ''deleted'' (Some (JObj [(''id'', JStr i), (''title'', JStr (title (task_of v))),
                                              (''status'', JStr (status_value ARCHIVED))]))
                     (reply 200 [(''task_id'', JStr i), (''status'', JStr (status_value ARCHIVED))] [])) s)"

definition depend_errors :: "string \<Rightarrow> store_error \<Rightarrow> api" where
  "depend_errors p = value_errors (\<lambda>e.
     let msg = depend_error_text e in
     if mentions ''cycle'' msg then json_error 400 ''cycle_detected'' msg
     else if mentions ''not found'' msg
     then (if py_in p msg then json_error 400 ''parent_not_found'' msg else json_error 404 ''task_not_found'' msg)
     else json_error 400 ''validation_error'' msg)"

text \<open>\<open>str(condition).strip() or None\<close>\<close>

definition stripped_condition :: "string option \<Rightarrow> string option" where
  "stripped_condition c = Option.bind c (\<lambda>x. or_none (py_strip x))"

definition handle_add_dependency :: "api_env \<Rightarrow> int \<Rightarrow> string \<Rightarrow> api_request \<Rightarrow> api" where
  "handle_add_dependency E now i rq =
     with_body rq (\<lambda>d.
     require (stripped (dict_get d ''parent_id'' (JStr []))) (\<lambda>p.
     if p = [] then json_error 400 ''validation_error'' (''Missing required '' @ quoted ''parent_id'' @ '' field'')
     else
     require (opt_str_field d ''condition'') (\<lambda>c.
     on_tasks (add_dependency now i p (stripped_condition c)) (depend_errors p)
       (\<lambda>_. notify_task E ''updated'' i
          (reply 200 [(''task_id'', JStr i), (''parent_id'', JStr p), (''condition'', json_opt_str (stripped_condition c)),
                      (''status'', JStr ''dependency_added'')] [])))))"

definition handle_remove_dependency :: "api_env \<Rightarrow> int \<Rightarrow> string \<Rightarrow> string \<Rightarrow> api" where
  "handle_remove_dependency E now i p =
     on_tasks (remove_dependency now i p) (\<lambda>e. raised) (\<lambda>removed.
       if \<not> removed
       then json_error 404 ''dependency_not_found''
              (''Dependency parent='' @ quoted p @ '' -> child='' @ quoted i @ '' not found'')
       else notify_task E ''updated'' i
              (reply 200 [(''task_id'', JStr i), (''parent_id'', JStr p), (''status'', JStr ''dependency_removed'')] []))"

section \<open>Statistics and batches\<close>

definition handle_stats :: api where
  "handle_stats s =
     (let (n, by) = stats None (as_tasks s) in
      reply 200 [(''total'', JInt (int n)), (''by_status'', JObj (map (\<lambda>(st, k). (st, JInt (int k))) by))] [] s)"

definition tenant_totals :: "int \<Rightarrow> (string \<times> int) list \<Rightarrow> json" where
  "tenant_totals n by =
     JObj [(''total'', JInt n), (''tenants'', JObj (map (\<lambda>(t, k). (t, JObj [(''total'', JInt k)])) by))]"

definition handle_stats_by_tenant :: "api_env \<Rightarrow> int \<Rightarrow> api" where
  "handle_stats_by_tenant E now s =
     (let (n, by) = stats_by_tenant (as_tasks s) in
      reply 200
        ((''task_stats'', tenant_totals (int n) (map (\<lambda>(t, k). (t, int k)) by)) #
         (case ae_registry E of
            None \<Rightarrow> []
          | Some reg \<Rightarrow>
              (let ags = map (\<lambda>(t, st). (t, total_agents st)) (stats_by_tenant_agents (of_int now) reg) in
               [(''agent_stats'', tenant_totals (sum_list (map snd ags)) ags)]))) [] s)"

definition ids_field :: "(string \<times> json) list \<Rightarrow> outcome + string list option" where
  "ids_field d =
     (case dict_get d ''task_ids'' (JList []) of
        JList [] \<Rightarrow> Inr None
      | JList vs \<Rightarrow> map_sum id Some (parse_all (\<lambda>v. case v of JStr s \<Rightarrow> Inr s | _ \<Rightarrow> Inl Odd) vs)
      | _ \<Rightarrow> Inr None)"

definition opt_reason :: "(string \<times> json) list \<Rightarrow> outcome + string option" where
  "opt_reason d = opt_str_field d ''reason''"

definition batch_result :: "string \<Rightarrow> nat \<times> (string \<times> store_error) list \<Rightarrow> (string \<times> json) list" where
  "batch_result key r =
     [(key, JInt (int (fst r))),
      (''failed'', JList (map (\<lambda>(i, e). JObj [(''task_id'', JStr i), (''error'', JStr (error_text e))]) (snd r)))]"

text \<open>The comment on every listed task that has the new status.\<close>

definition comment_batch :: "int \<Rightarrow> string list \<Rightarrow> string \<Rightarrow> string \<Rightarrow> api_state \<Rightarrow> api_state" where
  "comment_batch now is st txt s =
     fold (\<lambda>i s. case get_task i (as_tasks s) of
             Some v \<Rightarrow> if status (task_of v) = st then add_comment_quietly now i txt s else s
           | None \<Rightarrow> s) is s"

definition batch_reply ::
  "api_env \<Rightarrow> int \<Rightarrow> string list \<Rightarrow> string \<Rightarrow> string \<Rightarrow> string \<Rightarrow> string \<Rightarrow> string option
    \<Rightarrow> nat \<times> (string \<times> store_error) list \<Rightarrow> api" where
  "batch_reply E now is st key ty prefix why r s =
     notify E ty (Some (JObj (batch_result key r))) (reply 200 (batch_result key r) [])
       (if opt_true why \<and> fst r > 0 then comment_batch now is st (prefix @ opt_or why []) s else s)"

definition batch_ids :: "(string \<times> json) list \<Rightarrow> (string list \<Rightarrow> api) \<Rightarrow> api" where
  "batch_ids d f =
     require (ids_field d) (\<lambda>r.
     case r of
       None \<Rightarrow> json_error 400 ''validation_error'' (quoted ''task_ids'' @ '' must be a non-empty array'')
     | Some is \<Rightarrow> f is)"

definition handle_batch_status :: "api_env \<Rightarrow> int \<Rightarrow> api_request \<Rightarrow> api" where
  "handle_batch_status E now rq =
     with_body rq (\<lambda>d.
     batch_ids d (\<lambda>is.
     require (stripped_or [] (dict_get d ''status'' JNull)) (\<lambda>st.
     if st = [] then json_error 400 ''validation_error'' (''Missing required '' @ quoted ''status'' @ '' field'')
     else
     require (opt_reason d) (\<lambda>why.
     on_tasks (batch_update_status now is st) (\<lambda>e. raised)
       (batch_reply E now is st ''updated'' ''batch_status'' (''Batch status update -> '' @ st @ '': '') why)))))"

definition handle_batch_delete :: "api_env \<Rightarrow> int \<Rightarrow> api_request \<Rightarrow> api" where
  "handle_batch_delete E now rq =
     with_body rq (\<lambda>d.
     batch_ids d (\<lambda>is.
     require (opt_reason d) (\<lambda>why.
     on_tasks (batch_delete now is) (\<lambda>e. raised)
       (batch_reply E now is (status_value ARCHIVED) ''deleted'' ''batch_delete'' ''Batch archived: '' why))))"

section \<open>Routes\<close>

datatype api_route =
    PostTask | PatchTask string | ListTasks | GetTask string | PostClaim string | PostComplete string
  | PostBlock string | PostUnblock string | PostHeartbeat string | PostComment string | DelTask string
  | GetProvenance string | PostDepend string | DelDepend string string | GetStats | GetTenantStats
  | PostBatchStatus | PostBatchDelete

definition route_scope :: "api_route \<Rightarrow> string" where
  "route_scope r =
     (case r of
        ListTasks \<Rightarrow> ''task:read'' | GetTask i \<Rightarrow> ''task:read'' | GetProvenance i \<Rightarrow> ''task:read''
      | GetStats \<Rightarrow> ''registry:admin'' | GetTenantStats \<Rightarrow> ''registry:admin''
      | PostBatchStatus \<Rightarrow> ''registry:admin'' | PostBatchDelete \<Rightarrow> ''registry:admin''
      | _ \<Rightarrow> ''task:write'')"

definition handler_of :: "api_env \<Rightarrow> int \<Rightarrow> api_route \<Rightarrow> api_request \<Rightarrow> api" where
  "handler_of E now r rq =
     (case r of
        PostTask \<Rightarrow> handle_create_task E now rq
      | PatchTask i \<Rightarrow> handle_update_task E now i rq
      | ListTasks \<Rightarrow> handle_list_tasks rq
      | GetTask i \<Rightarrow> handle_get_task E i
      | PostClaim i \<Rightarrow> handle_claim E now i rq
      | PostComplete i \<Rightarrow> handle_complete E now i rq
      | PostBlock i \<Rightarrow> handle_block E now i rq
      | PostUnblock i \<Rightarrow> handle_unblock E now i rq
      | PostHeartbeat i \<Rightarrow> handle_heartbeat E now i rq
      | PostComment i \<Rightarrow> handle_add_comment E now i rq
      | DelTask i \<Rightarrow> handle_delete_task E now i
      | GetProvenance i \<Rightarrow> handle_get_provenance E i
      | PostDepend i \<Rightarrow> handle_add_dependency E now i rq
      | DelDepend i p \<Rightarrow> handle_remove_dependency E now i p
      | GetStats \<Rightarrow> handle_stats
      | GetTenantStats \<Rightarrow> handle_stats_by_tenant E now
      | PostBatchStatus \<Rightarrow> handle_batch_status E now rq
      | PostBatchDelete \<Rightarrow> handle_batch_delete E now rq)"

text \<open>The answer of the scope check to a request that lacks the scope.\<close>

definition scope_refusal :: "string \<Rightarrow> outcome" where
  "scope_refusal sc =
     Reply 403 (JObj [(''error'', JStr ''insufficient_scope''), (''detail'', JStr (''Missing required scope(s): '' @ sc))])
       [(''WWW-Authenticate'', ''Bearer realm=\"simple-a2a-registry\", error=\"insufficient_scope\", scope=\"'' @ sc @ ''\"'')]"

definition serve :: "api_env \<Rightarrow> int \<Rightarrow> api_route \<Rightarrow> api_request \<Rightarrow> api" where
  "serve E now r rq s =
     (if require_scope [route_scope r] (rq_ctx rq) then handler_of E now r rq s
      else (scope_refusal (route_scope r), s))"

end
