(* ===== verification/TaskApiProps.thy ===== *)
theory TaskApiProps
  imports TaskApi StoreCalls ClaimProps Resolution
begin

text \<open>
  What holds of every request to the task API: it changes the task database only by store calls and
  the provenance only by tracker calls, and a request that is answered with an error status changes
  neither. Both are proved by rules for the combinators the handlers are built from.
\<close>

section \<open>Requests make calls\<close>

definition api_step :: "api_state \<Rightarrow> api_state \<Rightarrow> bool" where
  "api_step s s' \<longleftrightarrow> (\<exists>cs. as_tasks s' = fold exec_call cs (as_tasks s)) \<and> (\<exists>ps. as_prov s' = fold exec_prov ps (as_prov s))"

definition steps :: "api \<Rightarrow> bool" where
  "steps f \<longleftrightarrow> (\<forall>s. api_step s (snd (f s)))"

named_theorems steps_intros \<open>handlers that only make calls\<close>

lemma api_step_refl [simp]: "api_step s s"
  by (auto simp: api_step_def intro: exI [of _ "[]"])

lemma api_step_trans: "api_step a b \<Longrightarrow> api_step b c \<Longrightarrow> api_step a c"
  unfolding api_step_def by (metis fold_append comp_apply)

lemma api_step_call: "api_step s (s\<lparr>as_tasks := exec_call c (as_tasks s)\<rparr>)"
  by (auto simp: api_step_def intro: exI [of _ "[c]"] exI [of _ "[]"])

lemma api_step_prov: "api_step s (s\<lparr>as_prov := exec_prov c (as_prov s)\<rparr>)"
  by (auto simp: api_step_def intro: exI [of _ "[c]"] exI [of _ "[]"])

lemma api_step_other: "as_tasks s' = as_tasks s \<Longrightarrow> as_prov s' = as_prov s \<Longrightarrow> api_step s s'"
  by (auto simp: api_step_def intro: exI [of _ "[]"])

lemma steps_after: "(\<And>s. api_step s (g s)) \<Longrightarrow> steps f \<Longrightarrow> steps (\<lambda>s. f (g s))"
  unfolding steps_def using api_step_trans by blast

lemma steps_const [steps_intros]: "steps (\<lambda>s. (x, s))"
  by (simp add: steps_def)

lemma steps_replies [steps_intros]:
  "steps raised" "steps (reply st d h)" "steps (json_reply st j)" "steps (json_error st c m)" "steps (task_missing i)"
  by (simp_all add: steps_def raised_def reply_def json_reply_def json_error_def task_missing_def)

lemma steps_require [steps_intros]: "(\<And>v. steps (f v)) \<Longrightarrow> steps (require r f)"
  by (auto simp: steps_def require_def split: sum.split)

lemma steps_with_body [steps_intros]:
  "(\<And>d. steps (f d)) \<Longrightarrow> steps (with_body rq f)" "(\<And>d. steps (f d)) \<Longrightarrow> steps (with_body_or_empty rq f)"
  by (auto simp: with_body_def with_body_or_empty_def steps_intros split: option.split json.split)

lemma steps_checkpoint [steps_intros]:
  assumes "\<And>h. steps (f h)"
  shows "steps (checkpoint E chk f)"
  unfolding steps_def
proof
  fix s
  have "api_step s (snd (g (s\<lparr>as_trail := tr\<rparr>)))" if g: "steps g" for g tr
    using g api_step_trans [OF api_step_other [of "s\<lparr>as_trail := tr\<rparr>" s]] by (simp add: steps_def)
  then show "api_step s (snd (checkpoint E chk f s))"
    using assms steps_replies(4)
    by (auto simp: checkpoint_def steps_def split: option.split prod.split)
qed

lemma steps_notify [steps_intros]:
  assumes "steps final"
  shows "steps (notify E ty what final)"
  unfolding steps_def
proof
  fix s
  have "api_step s (snd (final (s\<lparr>as_sent := x\<rparr>)))" for x
    using assms api_step_trans [OF api_step_other [of "s\<lparr>as_sent := x\<rparr>" s]] by (simp add: steps_def)
  then show "api_step s (snd (notify E ty what final s))"
    using assms by (auto simp: notify_def steps_def split: option.split)
qed

lemma steps_notify_task [steps_intros]: "steps final \<Longrightarrow> steps (notify_task E ty i final)"
  using steps_notify by (auto simp: notify_task_def steps_def split: option.split)

text \<open>A store operation is a call.\<close>

definition is_call :: "'a store_op \<Rightarrow> bool" where
  "is_call f \<longleftrightarrow> (\<exists>c. \<forall>db. snd (f db) = exec_call c db)"

lemma is_call_ops [steps_intros]:
  "is_call (create_task now i a)" "is_call (update_task now i ti bo asg pr)"
  "is_call (update_task_status now i new l res summ meta)" "is_call (claim_task now i w pid ttl)"
  "is_call (heartbeat now i hl)" "is_call (add_comment now i who txt)" "is_call (add_dependency now i p cond)"
  "is_call (remove_dependency now i p)" "is_call (batch_update_status now is st)" "is_call (batch_delete now is)"
  unfolding is_call_def
  by (rule exI [of _ "(now, CreateTask i a)"] exI [of _ "(now, UpdateTask i ti bo asg pr)"]
       exI [of _ "(now, UpdateStatus i new l res summ meta)"] exI [of _ "(now, ClaimTask i w pid ttl)"]
       exI [of _ "(now, Heartbeat i hl)"] exI [of _ "(now, AddComment i who txt)"] exI [of _ "(now, AddDependency i p cond)"]
       exI [of _ "(now, RemoveDependency i p)"] exI [of _ "(now, BatchUpdateStatus is st)"] exI [of _ "(now, BatchDelete is)"],
      simp add: exec_call_def)+

lemma steps_on_tasks [steps_intros]:
  assumes "is_call f" "\<And>e. steps (err e)" "\<And>x. steps (ok x)"
  shows "steps (on_tasks f err ok)"
  unfolding steps_def
proof
  fix s
  obtain c where c: "snd (f db) = exec_call c db" for db using assms(1) by (auto simp: is_call_def)
  have "api_step s (snd (g (s\<lparr>as_tasks := snd (f (as_tasks s))\<rparr>)))" if g: "steps g" for g
    using g api_step_trans [OF api_step_call [of s c]] by (simp add: steps_def c)
  with assms(2,3) show "api_step s (snd (on_tasks f err ok s))"
    by (cases "f (as_tasks s)") (auto simp: on_tasks_def split: sum.split dest: spec)
qed

lemma steps_record_hop_of [steps_intros]:
  assumes "steps final"
  shows "steps (record_hop_of now c from to act rq final)"
proof -
  have "steps (\<lambda>s. case record_hop c (h jti s) (as_prov s) of
      (None, p) \<Rightarrow> (Raised, s\<lparr>as_prov := p\<rparr>) | (Some _, p) \<Rightarrow> final (s\<lparr>as_prov := p\<rparr>))" for h :: "_ \<Rightarrow> _ \<Rightarrow> ProvenanceHop" and jti
    unfolding steps_def
  proof
    fix s
    have s1: "api_step s (s\<lparr>as_prov := snd (record_hop c (h jti s) (as_prov s))\<rparr>)"
      using api_step_prov [of s "RecordHop c (h jti s)"] by (simp add: exec_prov_def)
    with assms have "api_step s (snd (final (s\<lparr>as_prov := snd (record_hop c (h jti s) (as_prov s))\<rparr>)))"
      using api_step_trans unfolding steps_def by blast
    with s1 show "api_step s (snd (case record_hop c (h jti s) (as_prov s) of
        (None, p) \<Rightarrow> (Raised, s\<lparr>as_prov := p\<rparr>) | (Some _, p) \<Rightarrow> final (s\<lparr>as_prov := p\<rparr>)))"
      by (auto split: prod.split option.split)
  qed
  from this [of "\<lambda>jti s. \<lparr> from_agent = from, to_agent = to, hop_action = act, scope_at = ctx_scopes rq,
      hop_time = now, token_jti = jti \<rparr>"] show ?thesis
    unfolding record_hop_of_def by (intro steps_require)
qed

lemma steps_record_provenance_create [steps_intros]:
  assumes "steps final"
  shows "steps (record_provenance_create E now t rq final)"
proof -
  have "steps (\<lambda>s. final (s\<lparr>as_prov := ensure_chain now c origin ten root_id parent i (as_prov s)\<rparr>))"
    "steps (\<lambda>s. record_hop_of now c origin to act rq final
       (s\<lparr>as_prov := ensure_chain now c origin ten root_id parent i (as_prov s)\<rparr>))" for c origin ten root_id parent i to act
    by (rule steps_after, rule api_step_prov [of _ "EnsureChain now c origin ten root_id parent i", unfolded exec_prov_def prov_call.case],
        intro steps_intros assms)+
  then show ?thesis
    using assms by (auto simp: record_provenance_create_def steps_def Let_def split: prod.split)
qed

lemma steps_record_provenance_claim [steps_intros]:
  "steps final \<Longrightarrow> steps (record_provenance_claim E now i w rq final)"
  using steps_record_hop_of by (auto simp: record_provenance_claim_def steps_def split: option.split)

lemma api_step_trail [simp]: "api_step s (record_created E now t a rq s)"
  by (rule api_step_other) (auto simp: record_created_def trail_event_def Let_def split: option.split)

lemma api_step_comment [simp]: "api_step s (add_comment_quietly now i txt s)"
  using api_step_call [of s "(now, AddComment i ''system'' txt)"] by (simp add: add_comment_quietly_def exec_call_def)

lemma api_step_comment_reason [simp]: "api_step s (comment_reason now i p x s)"
  by (simp add: comment_reason_def)

lemma api_step_comment_batch [simp]: "api_step s (comment_batch now is st txt s)"
  unfolding comment_batch_def
  by (rule fold_relation) (auto intro: api_step_trans split: option.split)

section \<open>The handlers\<close>

lemma steps_errors [steps_intros]:
  "(\<And>e. steps (f e)) \<Longrightarrow> steps (value_errors f e)" "steps (not_found_or_invalid e)" "steps (status_errors e)"
  "steps (create_errors e)" "steps (update_errors e)" "steps (failure_errors e)" "steps (unblock_errors e)"
  "steps (delete_errors e)" "steps (depend_errors p e)" "steps (claim_conflict i)"
  by (auto simp: value_errors_def not_found_or_invalid_def status_errors_def create_errors_def update_errors_def
    failure_errors_def unblock_errors_def delete_errors_def depend_errors_def Let_def steps_intros claim_conflict_def
    steps_def json_error_def json_reply_def task_missing_def raised_def split: store_error.split)

lemma steps_case_option [steps_intros]:
  "steps f \<Longrightarrow> (\<And>x. steps (g x)) \<Longrightarrow> steps (case k of None \<Rightarrow> f | Some x \<Rightarrow> g x)"
  "steps f \<Longrightarrow> (\<And>x. steps (g x)) \<Longrightarrow> steps (\<lambda>s. case k of None \<Rightarrow> f s | Some x \<Rightarrow> g x s)"
  by (cases k, simp_all)+

lemma steps_if [steps_intros]: "steps f \<Longrightarrow> steps g \<Longrightarrow> steps (if b then f else g)"
  by simp

lemma steps_create: "steps (handle_create_task E now rq)"
proof -
  have "steps (\<lambda>s. notify E ty j (\<lambda>s. case k of None \<Rightarrow> raised s | Some j \<Rightarrow> reply 201 [(''task'', j)] h s)
      (record_created E (of_int now) t a rq s))" for ty j k h t a
    by (rule steps_after) (auto intro!: steps_intros)
  then show ?thesis
    unfolding handle_create_task_def create_stored_def [abs_def] by (auto intro!: steps_intros)
qed

lemma steps_update: "steps (handle_update_task E now i rq)"
proof -
  have reply: "steps (updated_reply E ty t)" for ty t
    by (auto simp: updated_reply_def task_reply_def intro!: steps_intros split: option.split)
  have "steps (auto_promote E now i d t)" for d t
    unfolding steps_def
  proof
    fix s
    have "steps (on_tasks (update_task_status now i (status_value READY) None None None []) update_errors
        (\<lambda>r. case r of None \<Rightarrow> raised | Some v' \<Rightarrow> updated_reply E ''updated'' (task_of v')))"
      by (auto intro!: steps_intros reply split: option.split)
    with reply show "api_step s (snd (auto_promote E now i d t s))"
      by (auto simp: auto_promote_def steps_def split: option.split)
  qed
  with reply have "steps (update_body E now i d)" for d
    unfolding update_body_def by (auto intro!: steps_intros split: option.split)
  then show ?thesis
    by (auto simp: handle_update_task_def intro!: steps_intros split: option.split json.split)
qed

lemma stepsD: "steps f \<Longrightarrow> api_step s (snd (f s))"
  by (simp add: steps_def)

lemma stepsI: "(\<And>s. api_step s (snd (f s))) \<Longrightarrow> steps f"
  by (simp add: steps_def)

lemma steps_batch_ids [steps_intros]: "(\<And>is. steps (f is)) \<Longrightarrow> steps (batch_ids d f)"
  unfolding batch_ids_def by (auto intro!: steps_intros)

lemma steps_batch_reply [steps_intros]: "steps (batch_reply E now is st key ty p why r)"
  unfolding batch_reply_def [abs_def] by (rule steps_after) (auto intro!: steps_intros)

lemma steps_complete_with [steps_intros]: "steps (complete_with E now i lock txt summ meta err hdrs)"
  unfolding complete_with_def by (auto intro!: steps_intros)

lemma snd_replies [simp]:
  "snd (raised s) = s" "snd (reply st d h s) = s" "snd (json_reply st j s) = s" "snd (json_error st c m s) = s"
  "snd (task_missing i s) = s"
  by (simp_all add: raised_def reply_def json_reply_def json_error_def task_missing_def)

lemma steps_reads:
  "steps (handle_list_tasks rq)" "steps (handle_get_task E i)" "steps (handle_get_provenance E i)" "steps handle_stats"
  "steps (handle_stats_by_tenant E now)"
  by (auto simp: handle_list_tasks_def handle_get_task_def handle_get_provenance_def handle_stats_def
    handle_stats_by_tenant_def Let_def intro!: stepsI split: option.split prod.split)

lemma steps_changes:
  "steps (handle_claim E now i rq)" "steps (handle_complete E now i rq)" "steps (handle_add_dependency E now i rq)"
  "steps (handle_remove_dependency E now i p)" "steps (handle_batch_status E now rq)" "steps (handle_batch_delete E now rq)"
  unfolding handle_claim_def handle_complete_def handle_add_dependency_def handle_remove_dependency_def
    handle_batch_status_def handle_batch_delete_def Let_def
  by (auto intro!: steps_intros)

lemma steps_block: "steps (handle_block E now i rq)" "steps (handle_unblock E now i rq)"
proof -
  have "steps (\<lambda>s. notify_task E ty i (reply st d h) (comment_reason now i p x s))" for ty st d h p x
    by (rule steps_after) (auto intro!: steps_intros)
  then show "steps (handle_block E now i rq)" "steps (handle_unblock E now i rq)"
    unfolding handle_block_def handle_unblock_def by (auto intro!: steps_intros)
qed

lemma steps_heartbeat: "steps (handle_heartbeat E now i rq)"
proof -
  have "steps (\<lambda>s. if \<not> ok then (if get_task i (as_tasks s) = None then task_missing i s else json_error 403 c m s)
      else reply 200 (d s) h s)" for ok c m d h
    by (auto intro!: stepsI intro: stepsD [OF steps_replies(5)] stepsD [OF steps_replies(4)] stepsD [OF steps_replies(2)])
  then show ?thesis unfolding handle_heartbeat_def by (auto intro!: steps_intros)
qed

lemma steps_add_comment: "steps (handle_add_comment E now i rq)"
proof -
  have "steps (\<lambda>s. case get_task i (as_tasks s) of None \<Rightarrow> reply st d h s
      | Some v \<Rightarrow> notify E ty (f v) (reply st d h) s)" for st d h ty f
    by (auto intro!: stepsI intro: stepsD [OF steps_replies(2)] stepsD [OF steps_notify [OF steps_replies(2)]] split: option.split)
  then show ?thesis unfolding handle_add_comment_def by (auto intro!: steps_intros simp: Let_def)
qed

lemma steps_delete: "steps (handle_delete_task E now i)"
proof (rule stepsI)
  fix s
  have "steps (on_tasks (update_task_status now i st None None None []) delete_errors (\<lambda>_. notify E ty j (reply c d h)))"
    for st ty j c d h by (auto intro!: steps_intros)
  then show "api_step s (snd (handle_delete_task E now i s))"
    using stepsD [OF steps_replies(4)] stepsD [OF steps_replies(5)]
    by (auto simp: handle_delete_task_def intro: stepsD split: option.split)
qed

lemma steps_handler: "steps (handler_of E now r rq)"
  by (cases r) (simp_all add: handler_of_def steps_create steps_update steps_reads steps_changes steps_block
    steps_heartbeat steps_add_comment steps_delete)

text \<open>
  A request is one step of the API: what it serves, at a time and in an environment of its own. The
  ids that are drawn, the tables of the policy engine, the registered agents and the tokens are those
  of the moment, so they may differ from one request to the next.
\<close>

definition exec_request :: "api_env \<times> int \<times> api_route \<times> api_request \<Rightarrow> api_state \<Rightarrow> api_state" where
  "exec_request c s = (case c of (E, now, r, rq) \<Rightarrow> snd (serve E now r rq s))"

definition api_ok :: "api_state \<Rightarrow> bool" where
  "api_ok s \<longleftrightarrow> db_ok (as_tasks s) \<and> prov_ok (as_prov s)"

definition empty_api :: api_state where
  "empty_api = \<lparr> as_tasks = empty_db, as_prov = empty_prov,
     as_trail = \<lparr> se_rows = [], has_bus = False, published = [] \<rparr>, as_sent = [] \<rparr>"

lemma api_step_serve: "api_step s (snd (serve E now r rq s))"
  using steps_handler by (simp add: serve_def steps_def)

lemma api_step_ok: "api_step s s' \<Longrightarrow> api_ok s \<Longrightarrow> api_ok s'"
  by (auto simp: api_step_def api_ok_def store.run_ok provenance.run_ok)

lemma api_step_moves:
  assumes "api_step s s'" "api_ok s" "status_of (as_tasks s) i = Some st"
  shows "\<exists>st'. status_of (as_tasks s') i = Some st' \<and> edge\<^sup>*\<^sup>* st st'"
  using assms machine.run_moves by (auto simp: api_step_def api_ok_def)

lemma api_step_exec: "api_step s (exec_request c s)"
  by (simp add: exec_request_def api_step_serve split: prod.split)

interpretation api: status_system exec_request api_ok empty_api "\<lambda>s. status_of (as_tasks s)" edge
proof unfold_locales
  show "api_ok empty_api"
    using store.init_ok provenance.init_ok by (simp add: api_ok_def empty_api_def)
qed (use api_step_exec api_step_ok api_step_moves in blast)+

section \<open>Refused requests change nothing\<close>

text \<open>Equal but for the security events, which a refusal records.\<close>

definition same_data :: "api_state \<Rightarrow> api_state \<Rightarrow> bool" where
  "same_data s s' \<longleftrightarrow> as_tasks s' = as_tasks s \<and> as_prov s' = as_prov s \<and> as_sent s' = as_sent s"

definition error_reply :: "outcome \<Rightarrow> bool" where
  "error_reply x \<longleftrightarrow> (\<exists>st j h. x = Reply st j h \<and> 400 \<le> st)"

text \<open>An error reply leaves the data alone; and there is none.\<close>

definition refuses :: "api \<Rightarrow> bool" where
  "refuses f \<longleftrightarrow> (\<forall>s. error_reply (fst (f s)) \<longrightarrow> same_data s (snd (f s)))"

definition succeeds :: "api \<Rightarrow> bool" where
  "succeeds f \<longleftrightarrow> (\<forall>s. \<not> error_reply (fst (f s)))"

named_theorems refuses_intros \<open>handlers whose error replies leave the data alone\<close>

lemma error_reply_simps [simp]: "\<not> error_reply Raised" "\<not> error_reply Odd" "error_reply (Reply st j h) \<longleftrightarrow> 400 \<le> st"
  by (auto simp: error_reply_def)

lemma same_data_refl [simp]: "same_data s s" "same_data s (s\<lparr>as_trail := tr\<rparr>)"
  by (simp_all add: same_data_def)

lemma same_data_trans: "same_data a b \<Longrightarrow> same_data b c \<Longrightarrow> same_data a c"
  by (simp add: same_data_def)

lemma refuses_pure: "(\<And>s. snd (f s) = s) \<Longrightarrow> refuses f"
  by (simp add: refuses_def)

lemma refuses_replies [refuses_intros]:
  "refuses raised" "refuses (reply st d h)" "refuses (json_reply st j)" "refuses (json_error st c m)"
  "refuses (task_missing i)" "refuses (\<lambda>s. (x, s))"
  by (simp_all add: refuses_pure)

lemma succeeds_refuses: "succeeds f \<Longrightarrow> refuses f"
  by (simp add: succeeds_def refuses_def)

lemma succeeds_replies [refuses_intros]: "succeeds raised" "st < 400 \<Longrightarrow> succeeds (reply st d h)"
  by (simp_all add: succeeds_def raised_def reply_def)

lemma refuses_require [refuses_intros]: "(\<And>v. refuses (f v)) \<Longrightarrow> refuses (require r f)"
  by (auto simp: refuses_def require_def split: sum.split)

lemma succeeds_require:
  "(\<And>e. r = Inl e \<Longrightarrow> \<not> error_reply e) \<Longrightarrow> (\<And>v. succeeds (f v)) \<Longrightarrow> succeeds (require r f)"
  by (auto simp: succeeds_def require_def split: sum.split)

lemma refuses_with_body [refuses_intros]:
  "(\<And>d. refuses (f d)) \<Longrightarrow> refuses (with_body rq f)" "(\<And>d. refuses (f d)) \<Longrightarrow> refuses (with_body_or_empty rq f)"
  by (auto simp: with_body_def with_body_or_empty_def refuses_intros split: option.split json.split)

lemma refuses_if [refuses_intros]: "refuses f \<Longrightarrow> refuses g \<Longrightarrow> refuses (if b then f else g)"
  by simp

lemma refuses_case_option [refuses_intros]:
  "refuses f \<Longrightarrow> (\<And>x. refuses (g x)) \<Longrightarrow> refuses (case k of None \<Rightarrow> f | Some x \<Rightarrow> g x)"
  "succeeds f \<Longrightarrow> (\<And>x. succeeds (g x)) \<Longrightarrow> succeeds (case k of None \<Rightarrow> f | Some x \<Rightarrow> g x)"
  "succeeds f \<Longrightarrow> (\<And>x. succeeds (g x)) \<Longrightarrow> succeeds (\<lambda>s. case k of None \<Rightarrow> f s | Some x \<Rightarrow> g x s)"
  by (cases k, simp_all)+

lemma succeeds_after: "succeeds f \<Longrightarrow> succeeds (\<lambda>s. f (g s))"
  by (simp add: succeeds_def)

lemma refuses_checkpoint [refuses_intros]:
  assumes "\<And>h. refuses (f h)"
  shows "refuses (checkpoint E chk f)"
  unfolding refuses_def
proof (intro allI impI)
  fix s
  assume err: "error_reply (fst (checkpoint E chk f s))"
  have "same_data s (snd (f h (s\<lparr>as_trail := tr\<rparr>)))" if "error_reply (fst (f h (s\<lparr>as_trail := tr\<rparr>)))" for h tr
    using assms that same_data_trans [OF same_data_refl(2) [of s tr]] by (auto simp: refuses_def)
  with err assms show "same_data s (snd (checkpoint E chk f s))"
    by (auto simp: checkpoint_def refuses_def split: option.splits prod.splits if_splits)
qed

lemma succeeds_notify [refuses_intros]: "succeeds final \<Longrightarrow> succeeds (notify E ty what final)"
  by (auto simp: succeeds_def notify_def split: option.split)

lemma succeeds_notify_task [refuses_intros]: "succeeds final \<Longrightarrow> succeeds (notify_task E ty i final)"
  using succeeds_notify by (auto simp: succeeds_def notify_task_def split: option.split)

lemma refuses_on_tasks:
  assumes "\<And>db e. fst (f db) = Inl e \<Longrightarrow> snd (f db) = db \<or> succeeds (err e)" "\<And>e. refuses (err e)"
    and "\<And>db x db'. f db = (Inr x, db') \<Longrightarrow> succeeds (ok x) \<or> (db' = db \<and> refuses (ok x))"
  shows "refuses (on_tasks f err ok)"
  unfolding refuses_def
proof (intro allI impI)
  fix s
  assume err: "error_reply (fst (on_tasks f err ok s))"
  obtain r db where r: "f (as_tasks s) = (r, db)" by (cases "f (as_tasks s)")
  have same: "db = as_tasks s \<Longrightarrow> s\<lparr>as_tasks := db\<rparr> = s" by simp
  show "same_data s (snd (on_tasks f err ok s))"
  proof (cases r)
    case (Inl e)
    with r have f: "on_tasks f err ok s = err e (s\<lparr>as_tasks := db\<rparr>)" by (simp add: on_tasks_def)
    with err have "\<not> succeeds (err e)" by (auto simp: succeeds_def)
    with assms(1) [of "as_tasks s" e] r Inl have "s\<lparr>as_tasks := db\<rparr> = s" by (simp add: same)
    with f err assms(2) show ?thesis by (simp add: refuses_def)
  next
    case (Inr x)
    with r have f: "on_tasks f err ok s = ok x (s\<lparr>as_tasks := db\<rparr>)" by (simp add: on_tasks_def)
    with err have "\<not> succeeds (ok x)" by (auto simp: succeeds_def)
    with assms(3) r Inr have "db = as_tasks s" "refuses (ok x)" by blast+
    with f err show ?thesis using same by (simp add: refuses_def)
  qed
qed

lemma succeeds_record_hop_of [refuses_intros]:
  assumes "succeeds final"
  shows "succeeds (record_hop_of now c from to act rq final)"
  unfolding record_hop_of_def
proof (rule succeeds_require)
  fix e
  assume "ctx_jti rq = Inl e"
  then show "\<not> error_reply e"
    by (auto simp: ctx_jti_def str_field_def split: option.splits json.splits)
qed (use assms in \<open>auto simp: succeeds_def split: prod.split option.split\<close>)

lemma succeeds_provenance [refuses_intros]:
  "succeeds final \<Longrightarrow> succeeds (record_provenance_create E now t rq final)"
  "succeeds final \<Longrightarrow> succeeds (record_provenance_claim E now i w rq final)"
  using succeeds_record_hop_of
  by (auto simp: succeeds_def record_provenance_create_def record_provenance_claim_def Let_def split: prod.split option.split)

lemma refuses_errors [refuses_intros]:
  "(\<And>e. refuses (f e)) \<Longrightarrow> refuses (value_errors f e)" "refuses (not_found_or_invalid e)" "refuses (status_errors e)"
  "refuses (create_errors e)" "refuses (update_errors e)" "refuses (failure_errors e)" "refuses (unblock_errors e)"
  "refuses (delete_errors e)" "refuses (depend_errors p e)" "refuses (claim_conflict i)"
  by (auto simp: value_errors_def not_found_or_invalid_def status_errors_def create_errors_def update_errors_def
    failure_errors_def unblock_errors_def delete_errors_def depend_errors_def Let_def claim_conflict_def refuses_replies
    refuses_def split: store_error.split)

lemma op_errors:
  "fst (create_task now i a db) = Inl e \<Longrightarrow> snd (create_task now i a db) = db"
  "fst (update_task now i ti bo asg pr db) = Inl e \<Longrightarrow> snd (update_task now i ti bo asg pr db) = db"
  "fst (update_task_status now i new lk res summ meta db) = Inl e \<Longrightarrow> snd (update_task_status now i new lk res summ meta db) = db"
  "fst (add_comment now i who txt db) = Inl e \<Longrightarrow> snd (add_comment now i who txt db) = db"
  "fst (add_dependency now i p cond db) = Inl e \<Longrightarrow> snd (add_dependency now i p cond db) = db"
  by (auto simp: create_task_error update_task_status_error update_task_def add_comment_def add_dependency_def
    intro: tx_error_keeps_state create_task_error update_task_status_error)

lemma claim_task_None:
  assumes "claim_task now i w pid ttl db = (Inr None, db')"
  shows "db' = db"
  using assms by (auto simp: claim_task_def tx_def claim_body_eq split: if_splits)

lemma heartbeat_False: "heartbeat now i l db = (Inr False, db') \<Longrightarrow> db' = db"
  by (auto simp: heartbeat_def tx_def Let_def split: option.splits if_splits)

lemma remove_dependency_False: "remove_dependency now i p db = (Inr False, db') \<Longrightarrow> db' = db"
  by (auto simp: remove_dependency_def tx_def Let_def sql_delete_def filter_id_conv zero_less_iff_neq_zero split: if_splits simp del: neq0_conv)

lemma refuses_create: "refuses (handle_create_task E now rq)"
proof -
  have "succeeds (\<lambda>s. notify E ty j (\<lambda>s. case k of None \<Rightarrow> raised s | Some j \<Rightarrow> reply 201 [(''task'', j)] h s)
      (record_created E (of_int now) t a rq s))" for ty j k h t a
    by (rule succeeds_after) (auto intro!: refuses_intros)
  then show ?thesis
    unfolding handle_create_task_def create_stored_def [abs_def] by (auto intro!: refuses_intros refuses_on_tasks disjI1 op_errors)
qed

text \<open>What \<open>update_task\<close> returns is the row of the task.\<close>

lemma edit_task_frame:
  "edit_task ti bo asg pr t = (c, t') \<Longrightarrow>
     t' = t\<lparr>title := title t', body := body t', assignee := assignee t', priority := priority t'\<rparr> \<and> (\<not> c \<longrightarrow> t' = t)"
  by (auto simp: edit_task_def Let_def split: option.splits if_splits prod.splits)

lemma update_task_row:
  assumes "update_task now i ti bo asg pr db = (Inr t, db')"
  shows "find_task db' i = Some t"
proof -
  from assms obtain r c where r: "find_task db i = Some r" "edit_task ti bo asg pr r = (c, t)"
    and db': "db' = db \<and> \<not> c \<or> (\<exists>pl. db' = emit_event now i (kind_value EvUPDATED) None pl
        (upd_task i (\<lambda>r. r\<lparr>title := title t, body := body t, assignee := assignee t, priority := priority t\<rparr>) db))"
    by (auto simp: update_task_def tx_def split: option.splits prod.splits if_splits)
  have "t = r\<lparr>title := title t, body := body t, assignee := assignee t, priority := priority t\<rparr>" "\<not> c \<longrightarrow> t = r"
    using edit_task_frame [OF r(2)] by auto
  with db' r(1) show ?thesis
    by (auto simp: find_task_frame find_task_upd_task)
qed

lemma promotion_succeeds:
  assumes "find_task db i = Some t" "status t = status_value TODO"
  shows "\<exists>v. fst (update_task_status now i (status_value READY) None None None [] db) = Inr (Some v)"
proof -
  have "edge (status_value TODO) (status_value READY)" by (auto simp: edge_iff)
  then obtain meta retry k where run: "tx (transition_body now i (status_value READY) None None None []) db =
      (Inr (), apply_transition now t (status_value READY) None None meta retry k db)"
    using assms by (auto simp: tx_def transition_body_def validate_cases transition_kind_def)
  have "tid t = i" using assms(1) by (auto simp: find_task_def dest: row_by_key)
  with assms(1) have "find_task (apply_transition now t (status_value READY) None None meta retry k db) i \<noteq> None"
    using find_task_apply_transition [of db t] by simp
  with run show ?thesis by (auto simp: update_task_status_def get_task_def)
qed

lemma succeeds_updated_reply [refuses_intros]: "succeeds (updated_reply E ty t)"
  by (auto simp: updated_reply_def task_reply_def intro!: refuses_intros)

lemma auto_promote_succeeds:
  assumes "find_task (as_tasks s) i = Some t"
  shows "\<not> error_reply (fst (auto_promote E now i d t s))"
proof -
  have fine: "\<not> error_reply (fst (updated_reply E ty t s))" for ty t s
    using succeeds_updated_reply by (simp add: succeeds_def)
  obtain r db where r: "update_task_status now i (status_value READY) None None None [] (as_tasks s) = (r, db)"
    by (cases "update_task_status now i (status_value READY) None None None [] (as_tasks s)")
  show ?thesis
  proof (cases "status t = status_value TODO")
    case True
    from promotion_succeeds [OF assms this, of now] r obtain v where "r = Inr (Some v)" by auto
    with r fine show ?thesis by (auto simp: auto_promote_def on_tasks_def split: option.split)
  qed (simp add: auto_promote_def fine)
qed

lemma refuses_update_task:
  "refuses (on_tasks (update_task now i ti bo asg pr) update_errors (auto_promote E now i d))"
  unfolding refuses_def
proof (intro allI impI)
  fix s
  let ?f = "on_tasks (update_task now i ti bo asg pr) update_errors (auto_promote E now i d)"
  assume err: "error_reply (fst (?f s))"
  show "same_data s (snd (?f s))"
  proof (cases "update_task now i ti bo asg pr (as_tasks s)")
    case (Pair r db)
    with err have "\<nexists>t. r = Inr t"
      using auto_promote_succeeds [of "s\<lparr>as_tasks := db\<rparr>"] update_task_row [of now i ti bo asg pr "as_tasks s"]
      by (auto simp: on_tasks_def)
    then obtain e where r: "r = Inl e" by (cases r) auto
    with op_errors(2) [of now i ti bo asg pr "as_tasks s" e] Pair have "db = as_tasks s" by simp
    then show ?thesis
      using Pair r err refuses_errors(5) [of e] by (simp add: on_tasks_def refuses_def)
  qed
qed

lemma refuses_update: "refuses (handle_update_task E now i rq)"
proof -
  have "refuses (update_body E now i d)" for d
    unfolding update_body_def by (auto intro!: refuses_intros refuses_update_task refuses_on_tasks disjI1 op_errors)
  then show ?thesis
    by (auto simp: handle_update_task_def intro!: refuses_intros split: option.split json.split)
qed

lemma refuses_reads:
  "refuses (handle_list_tasks rq)" "refuses (handle_get_task E i)" "refuses (handle_get_provenance E i)"
  "refuses handle_stats" "refuses (handle_stats_by_tenant E now)"
  by (auto simp: handle_list_tasks_def handle_get_task_def handle_get_provenance_def handle_stats_def
    handle_stats_by_tenant_def Let_def intro!: refuses_pure split: option.split prod.split)

lemma refuses_complete_with: "refuses (complete_with E now i lock txt summ meta err hdrs)"
  unfolding complete_with_def by (auto intro!: refuses_intros refuses_on_tasks disjI1 op_errors)

lemma succeeds_batch_reply [refuses_intros]: "succeeds (batch_reply E now is st key ty p why r)"
  unfolding batch_reply_def [abs_def] by (rule succeeds_after) (auto intro!: refuses_intros)

lemma refuses_claim: "refuses (handle_claim E now i rq)"
proof -
  have claim: "refuses (on_tasks (claim_task now i w pid ttl) (\<lambda>e. raised) (\<lambda>r. case r of None \<Rightarrow> claim_conflict i
      | Some c \<Rightarrow> record_provenance_claim E q i w rq (notify_task E ty i (reply 200 (g c) h))))" for w pid ttl q ty g h
  proof (rule refuses_on_tasks)
    fix db r db'
    assume "claim_task now i w pid ttl db = (Inr r, db')"
    with claim_task_None [of now i w pid ttl db db']
    show "succeeds (case r of None \<Rightarrow> claim_conflict i
        | Some c \<Rightarrow> record_provenance_claim E q i w rq (notify_task E ty i (reply 200 (g c) h))) \<or>
      (db' = db \<and> refuses (case r of None \<Rightarrow> claim_conflict i
        | Some c \<Rightarrow> record_provenance_claim E q i w rq (notify_task E ty i (reply 200 (g c) h))))"
      by (cases r) (auto intro!: refuses_intros)
  qed (simp_all add: refuses_intros claim_task_no_error)
  show ?thesis unfolding handle_claim_def by (auto intro!: refuses_intros claim)
qed

lemma refuses_raising: "(\<And>x. succeeds (ok x)) \<Longrightarrow> refuses (on_tasks f (\<lambda>e. raised) ok)"
  by (rule refuses_on_tasks) (auto intro: refuses_intros)

lemma refuses_changes:
  "refuses (handle_complete E now i rq)" "refuses (handle_add_dependency E now i rq)"
  unfolding handle_complete_def handle_add_dependency_def Let_def
  by (auto intro!: refuses_intros refuses_complete_with refuses_on_tasks disjI1 op_errors)

lemma refuses_batches: "refuses (handle_batch_status E now rq)" "refuses (handle_batch_delete E now rq)"
  unfolding handle_batch_status_def handle_batch_delete_def batch_ids_def
  by (auto intro!: refuses_intros refuses_raising)

lemma refuses_block: "refuses (handle_block E now i rq)" "refuses (handle_unblock E now i rq)"
proof -
  have "succeeds (\<lambda>s. notify_task E ty i (reply 200 d h) (comment_reason now i p x s))" for ty d h p x
    by (rule succeeds_after) (auto intro!: refuses_intros)
  then show "refuses (handle_block E now i rq)" "refuses (handle_unblock E now i rq)"
    unfolding handle_block_def handle_unblock_def by (auto intro!: refuses_intros refuses_on_tasks disjI1 op_errors)
qed

text \<open>An operation whose answer says whether anything happened.\<close>

lemma refuses_on_flag:
  assumes "\<And>db db'. f db = (Inr False, db') \<Longrightarrow> db' = db" "refuses (ok False)" "succeeds (ok True)"
  shows "refuses (on_tasks f (\<lambda>e. raised) ok)"
proof (rule refuses_on_tasks)
  fix db x db'
  assume "f db = (Inr x, db')"
  with assms show "succeeds (ok x) \<or> (db' = db \<and> refuses (ok x))" by (cases x) auto
qed (simp_all add: refuses_intros)

lemma refuses_flags: "refuses (handle_heartbeat E now i rq)" "refuses (handle_remove_dependency E now i p)"
proof -
  have pure: "refuses (\<lambda>s. if \<not> False then (if get_task i (as_tasks s) = None then task_missing i s else json_error 403 c m s)
      else reply 200 (d s) h s)" for c m d h
    by (rule refuses_pure) simp
  have "succeeds (\<lambda>s. if \<not> True then g s else reply 200 (d s) h s)" for g d h
    by (simp add: succeeds_def reply_def)
  with pure have beat: "refuses (on_tasks (heartbeat now i l) (\<lambda>e. raised) (\<lambda>ok s.
      if \<not> ok then (if get_task i (as_tasks s) = None then task_missing i s else json_error 403 c m s)
      else reply 200 (d s) h s))" for l c m d h
    by (intro refuses_on_flag) (rule heartbeat_False)
  show "refuses (handle_heartbeat E now i rq)"
    unfolding handle_heartbeat_def by (auto intro!: refuses_intros beat)
  show "refuses (handle_remove_dependency E now i p)"
    unfolding handle_remove_dependency_def
    by (rule refuses_on_flag) (auto intro!: refuses_intros dest: remove_dependency_False)
qed

lemma refuses_add_comment: "refuses (handle_add_comment E now i rq)"
proof -
  have "succeeds (\<lambda>s. case get_task i (as_tasks s) of None \<Rightarrow> reply 201 d h s
      | Some v \<Rightarrow> notify E ty (f v) (reply 201 d h) s)" for d h ty f
    using succeeds_notify [of "reply 201 d h" E ty] by (auto simp: succeeds_def reply_def split: option.split)
  then show ?thesis
    unfolding handle_add_comment_def by (auto intro!: refuses_intros refuses_on_tasks disjI1 op_errors simp: Let_def)
qed

lemma refuses_delete: "refuses (handle_delete_task E now i)"
proof -
  have "refuses (on_tasks (update_task_status now i st None None None []) delete_errors (\<lambda>_. notify E ty j (reply 200 d h)))"
    for st ty j d h by (auto intro!: refuses_intros refuses_on_tasks disjI1 op_errors)
  then show ?thesis
    by (auto simp: refuses_def handle_delete_task_def split: option.split)
qed

lemma refuses_handler: "refuses (handler_of E now r rq)"
  by (cases r) (simp_all add: handler_of_def refuses_create refuses_update refuses_reads refuses_changes refuses_batches refuses_block
    refuses_claim refuses_flags refuses_add_comment refuses_delete)

end
