(* ===== verification/TaskApiLaws.thy ===== *)
theory TaskApiLaws
  imports TaskApiProps ApeProps JsonTextProps
begin

text \<open>
  The properties of the task API: it refines the stores, an error reply changes nothing, a task is
  created only when the checkpoint allows it, and three requests whose outcome surprises.
\<close>

section \<open>What an answered request has passed\<close>

lemma require_Reply:
  assumes "require r f s = (Reply st j h, s')" "\<And>e. r = Inl e \<Longrightarrow> e \<in> {Raised, Odd}"
  obtains v where "r = Inr v" "f v s = (Reply st j h, s')"
  using assms by (cases r) (auto simp: require_def)

lemma with_body_Reply:
  assumes "with_body rq f s = (Reply st j h, s')" "st \<noteq> 400"
  obtains d where "rq_body rq = Some (JObj d)" "f d s = (Reply st j h, s')"
  using assms by (auto simp: with_body_def json_error_def json_reply_def split: option.splits json.splits)

lemma checkpoint_Reply:
  assumes "checkpoint E chk f s = (Reply st j h, s')" "st \<noteq> 403"
  obtains hd tr where "f hd (s\<lparr>as_trail := tr\<rparr>) = (Reply st j h, s')"
    "\<And>A. ae_ape E = Some A \<Longrightarrow> allowed (fst (chk (A\<lparr>ape_tasks := Some (as_tasks s)\<rparr>) (as_trail s)))"
proof (cases "ae_ape E")
  case None
  with assms that [of "[]" "as_trail s"] show ?thesis by (simp add: checkpoint_def)
next
  case (Some A)
  obtain r tr where r: "chk (A\<lparr>ape_tasks := Some (as_tasks s)\<rparr>) (as_trail s) = (r, tr)" by fastforce
  with Some assms have "allowed r" "f (response_headers r) (s\<lparr>as_trail := tr\<rparr>) = (Reply st j h, s')"
    by (auto simp: checkpoint_def json_error_def json_reply_def split: if_splits)
  with Some r that show ?thesis by auto
qed

lemma on_tasks_Reply:
  assumes "on_tasks g err ok s = (Reply st j h, s')"
    and "\<And>e s. fst (err e s) \<noteq> Reply st j h"
  obtains x db where "g (as_tasks s) = (Inr x, db)" "ok x (s\<lparr>as_tasks := db\<rparr>) = (Reply st j h, s')"
  using assms by (auto simp: on_tasks_def split: prod.splits sum.splits) (metis fst_conv)

lemma opt_field_fails:
  "stripped v = Inl e \<Longrightarrow> e \<in> {Raised, Odd}" "opt_str_field d k = Inl e \<Longrightarrow> e \<in> {Raised, Odd}"
  "opt_int_field d k = Inl e \<Longrightarrow> e \<in> {Raised, Odd}" "assignee_arg d = Inl e \<Longrightarrow> e \<in> {Raised, Odd}"
  by (auto simp: stripped_def opt_str_field_def opt_int_field_def assignee_arg_def split: json.splits if_splits)

lemma priority_fails: "stripped_or x v = Inl e \<Longrightarrow> e \<in> {Raised, Odd}" "priority_of v = Inl e \<Longrightarrow> e \<in> {Raised, Odd}"
  by (auto simp: stripped_or_def stripped_def priority_of_def split: json.splits if_splits)

lemma parents_fail: "parents_field v = Inl e \<Longrightarrow> e \<in> {Raised, Odd}"
proof -
  have "parse_all parent_of_json vs = Inl e \<Longrightarrow> e \<in> {Raised, Odd}" for vs
    by (induction vs) (auto simp: parent_of_json_def split: sum.splits json.splits)
  then show "parents_field v = Inl e \<Longrightarrow> e \<in> {Raised, Odd}"
    by (auto simp: parents_field_def split: json.splits if_splits)
qed

lemma create_args_fails: "create_args d ti pr = Inl e \<Longrightarrow> e \<in> {Raised, Odd}"
  using parents_fail [of "dict_get d ''parents'' JNull" e]
  by (cases "parents_field (dict_get d ''parents'' JNull)") (auto simp: create_args_def split: sum.splits)

section \<open>The chain of a new task\<close>

definition new_chain :: "string \<Rightarrow> ProvenanceHop list \<Rightarrow> prov_db \<Rightarrow> bool" where
  "new_chain i hs db \<longleftrightarrow> (\<exists>c. get_chain_by_task i db = Some c \<and> chain_root_task c = i \<and> chain_parent_task c = None \<and>
     chain_hops c = hs)"

lemma no_hops_without_chain: "prov_ok db \<Longrightarrow> row_by pc_id i (prov_chains db) = None \<Longrightarrow> hops_of i db = []"
  by (force simp: prov_ok_def row_by_None_iff hops_of_def filter_empty_conv)

lemma chain_created:
  assumes "prov_ok db" "row_by pc_id i (prov_chains db) = None" "row_by pc_task i (prov_chains db) = None"
  shows "new_chain i [] (ensure_chain now i origin ten i None i db)"
    and "record_hop i h (ensure_chain now i origin ten i None i db) = (r, db') \<Longrightarrow> r = Some h \<and> new_chain i [h] db'"
proof -
  have hops: "hops_of i db = []" using assms(1,2) by (rule no_hops_without_chain)
  then have empty: "filter (\<lambda>x. fst x = i) (prov_hops db) = []" by (simp add: hops_of_def)
  show "new_chain i [] (ensure_chain now i origin ten i None i db)"
    using assms(2,3) empty
    by (simp add: new_chain_def ensure_chain_def get_chain_by_task_def row_by_append row_by_Cons load_chain_def hops_of_def)
  show "r = Some h \<and> new_chain i [h] db'" if "record_hop i h (ensure_chain now i origin ten i None i db) = (r, db')"
    using that assms(2,3) empty
    by (auto simp: new_chain_def ensure_chain_def get_chain_by_task_def row_by_append row_by_Cons load_chain_def hops_of_def
      record_hop_def Let_def row_by_sql_update)
qed

lemma record_hop_of_Reply:
  assumes "record_hop_of now c from to act rq final s = (Reply st j h, s')"
  obtains hop x db where "to_agent hop = to" "record_hop c hop (as_prov s) = (Some x, db)"
    "final (s\<lparr>as_prov := db\<rparr>) = (Reply st j h, s')"
proof -
  have "\<And>e. ctx_jti rq = Inl e \<Longrightarrow> e \<in> {Raised, Odd}"
    by (auto simp: ctx_jti_def str_field_def split: option.splits json.splits)
  with assms obtain jti where run: "(case record_hop c \<lparr> from_agent = from, to_agent = to, hop_action = act,
      scope_at = ctx_scopes rq, hop_time = now, token_jti = jti \<rparr> (as_prov s) of
        (None, p) \<Rightarrow> (Raised, s\<lparr>as_prov := p\<rparr>) | (Some _, p) \<Rightarrow> final (s\<lparr>as_prov := p\<rparr>)) = (Reply st j h, s')"
    unfolding record_hop_of_def by (elim require_Reply)
  let ?hop = "\<lparr> from_agent = from, to_agent = to, hop_action = act, scope_at = ctx_scopes rq, hop_time = now, token_jti = jti \<rparr>"
  obtain r db where r: "record_hop c ?hop (as_prov s) = (r, db)" by fastforce
  with run obtain x where "r = Some x" by (cases r) auto
  with run r that [of ?hop x db] show ?thesis by simp
qed

lemma record_provenance_create_Reply:
  assumes "record_provenance_create E now t rq final s = (Reply st j h, s')"
    and final: "\<And>s. as_tasks (snd (final s)) = as_tasks s \<and> as_prov (snd (final s)) = as_prov s"
    and "prov_ok (as_prov s)" "row_by pc_id (tid t) (prov_chains (as_prov s)) = None"
      "row_by pc_task (tid t) (prov_chains (as_prov s)) = None"
  shows "as_tasks s' = as_tasks s \<and>
    (ae_pt E \<longrightarrow> (\<exists>hs. new_chain (tid t) hs (as_prov s') \<and>
       map to_agent hs = (if opt_true (assignee t) then [opt_or (assignee t) []] else [])))"
proof -
  note chain = chain_created [OF assms(3-5)]
  have end_of: "as_tasks s' = as_tasks s1 \<and> as_prov s' = as_prov s1" if "final s1 = (Reply st j h, s')" for s1
    using final [of s1] that by simp
  show ?thesis
  proof (cases "ae_pt E")
    case False
    with assms(1) end_of [of s] show ?thesis by (simp add: record_provenance_create_def)
  next
    case True
    let ?caller = "opt_or (created_by t) (ctx_agent ''anonymous'' rq)"
    let ?p = "ensure_chain now (tid t) ?caller (opt_or (tenant t) []) (tid t) None (tid t) (as_prov s)"
    show ?thesis
    proof (cases "opt_true (assignee t)")
      case False
      with True assms(1) end_of [of "s\<lparr>as_prov := ?p\<rparr>"] chain(1) show ?thesis
        by (auto simp: record_provenance_create_def chain_origin_def intro!: exI [of _ "[]"])
    next
      case asg: True
      with True assms(1) obtain hop x db where "to_agent hop = opt_or (assignee t) []"
        "record_hop (tid t) hop (as_prov (s\<lparr>as_prov := ?p\<rparr>)) = (Some x, db)"
        "final (s\<lparr>as_prov := ?p\<rparr>\<lparr>as_prov := db\<rparr>) = (Reply st j h, s')"
        by (auto simp: record_provenance_create_def chain_origin_def Let_def elim: record_hop_of_Reply)
      with asg chain(2) [of hop now ?caller "opt_or (tenant t) []" "Some x" db] end_of show ?thesis
        by (auto intro!: exI [of _ "[hop]"])
    qed
  qed
qed

section \<open>Properties\<close>

text \<open>C28: The task API refines the stores behind it: whatever requests arrive, each with a clock, a fresh id, a
  policy engine, a registry and tokens of its own, the task database changes only by calls of the
  task store and the provenance only by calls of the tracker, also where a request ends in an
  exception. So the database stays consistent, statuses follow the state machine and the depth of a
  chain is the number of its hops. Requests with a field of a type its column does not have (a
  number for a body, say) are outside the model and take no step in it.\<close>

theorem api_refines_stores:
  assumes "api_ok s" "s' = fold exec_request rqs s"
  shows "(\<exists>cs. as_tasks s' = fold exec_call cs (as_tasks s)) \<and> (\<exists>ps. as_prov s' = fold exec_prov ps (as_prov s)) \<and>
    db_ok (as_tasks s') \<and>
    (\<forall>i st. status_of (as_tasks s) i = Some st \<longrightarrow>
       (\<exists>st'. status_of (as_tasks s') i = Some st' \<and> edge\<^sup>*\<^sup>* st st')) \<and>
    (\<forall>i c. get_chain_by_task i (as_prov s') = Some c \<longrightarrow> chain_depth c = length (chain_hops c))"
proof -
  have "api_step s s'"
    unfolding assms(2) by (rule fold_relation) (auto intro: api_step_trans api_step_exec)
  moreover have "api_ok s'" using assms api.run_ok by simp
  ultimately show ?thesis
    using api_step_moves [OF _ assms(1)] get_chain_depth by (auto simp: api_step_def api_ok_def)
qed

text \<open>C29: A request to which a handler itself replies with an error status has changed nothing but the trail of
  security events: tasks, provenance and broadcasts are as before. An exception that no handler
  catches, which the web server answers with status 500, is not such a reply; it may come after a
  change, as \<open>claim_without_chain_is_kept\<close> shows.\<close>

theorem error_reply_changes_nothing:
  assumes "serve E now r rq s = (Reply st j h, s')" "400 \<le> st"
  shows "as_tasks s' = as_tasks s \<and> as_prov s' = as_prov s \<and> as_sent s' = as_sent s"
proof (cases "require_scope [route_scope r] (rq_ctx rq)")
  case True
  with assms have "handler_of E now r rq s = (Reply st j h, s')" by (simp add: serve_def)
  moreover have "error_reply (fst (handler_of E now r rq s)) \<longrightarrow> same_data s (snd (handler_of E now r rq s))"
    using refuses_handler by (simp add: refuses_def)
  ultimately show ?thesis using assms(2) by (simp add: same_data_def)
qed (use assms in \<open>simp add: serve_def\<close>)

text \<open>The end of a successful creation leaves tasks and provenance alone.\<close>

lemma create_final_frame:
  "as_tasks (snd (notify E ty k (\<lambda>s. case k of None \<Rightarrow> raised s | Some j \<Rightarrow> reply 201 [(''task'', j)] h s)
     (record_created E now t a rq s))) = as_tasks s \<and>
   as_prov (snd (notify E ty k (\<lambda>s. case k of None \<Rightarrow> raised s | Some j \<Rightarrow> reply 201 [(''task'', j)] h s)
     (record_created E now t a rq s))) = as_prov s"
  by (auto simp: notify_def record_created_def trail_event_def Let_def split: option.split)

lemma create_errors_Reply: "fst (create_errors e s) \<noteq> Reply 201 j h"
  by (auto simp: create_errors_def value_errors_def Let_def json_error_def json_reply_def raised_def)

lemma create_task_tid: "create_task now i a db = (Inr t, db') \<Longrightarrow> tid t = i"
  by (auto simp: create_task_def tx_def create_body_def new_task_def split: sum.splits)

text \<open>The policy engine lets a \<open>null\<close> assignee through where it lets none through.\<close>

lemma create_check_allowed:
  "allowed (fst (create_check A now c asg parent s)) = allowed (fst (check_task_create A now c (the_default [] asg) parent s))"
  by (auto simp: create_check_def check_null_assignee_def split: option.split prod.split)

lemma refusal_elim:
  assumes "(if b then json_error 400 c m else f) s = (Reply 201 j h, s')" "\<not> b \<Longrightarrow> f s = (Reply 201 j h, s') \<Longrightarrow> P"
  shows P
  using assms by (auto simp: json_error_def json_reply_def split: if_splits)

lemmas request_elims =
  with_body_Reply [where st = 201] checkpoint_Reply [where st = 201] refusal_elim
  require_Reply [OF _ priority_fails(1)] require_Reply [OF _ priority_fails(2)] require_Reply [OF _ opt_field_fails(2)]
  require_Reply [OF _ opt_field_fails(4)] require_Reply [OF _ create_args_fails]

text \<open>C30: \<open>POST /v2/tasks\<close> creates a task only when the caller holds the scope for it and the checkpoint of the
  policy engine, where there is one, allows it (an assignee that is \<open>null\<close> is judged like none); then
  exactly the store's new task is there, and with a provenance tracker, for an id without a chain,
  its provenance is a chain of its own, with one hop to the assignee, whatever parents the task has.
  The routes of swarms and workflows, which create tasks without the policy engine, are not meant.\<close>

theorem created_only_when_allowed:
  assumes "serve E now PostTask rq s = (Reply 201 j h, s')" "prov_ok (as_prov s)"
    and "row_by pc_id (ae_fresh_id E) (prov_chains (as_prov s)) = None"
      "row_by pc_task (ae_fresh_id E) (prov_chains (as_prov s)) = None"
  shows "''task:write'' \<in> set (py_split (ctx_scopes rq)) \<and>
    (\<exists>d ti pr asg parent a t. rq_body rq = Some (JObj d) \<and> stripped_or [] (dict_get d ''title'' JNull) = Inr ti \<and> ti \<noteq> [] \<and>
      priority_of (dict_get d ''priority'' (JInt 0)) = Inr pr \<and> create_args d ti pr = Inr a \<and>
      assignee_arg d = Inr asg \<and> opt_str_field d ''parent_id'' = Inr parent \<and>
      (\<forall>A. ae_ape E = Some A \<longrightarrow> allowed (fst (check_task_create (A\<lparr>ape_tasks := Some (as_tasks s)\<rparr>) (of_int now)
         (build_caller rq) (the_default [] asg) parent (as_trail s)))) \<and>
      create_task now (ae_fresh_id E) a (as_tasks s) = (Inr t, as_tasks s') \<and>
      (ae_pt E \<longrightarrow> (\<exists>hs. new_chain (tid t) hs (as_prov s') \<and>
         map to_agent hs = (if opt_true (assignee t) then [opt_or (assignee t) []] else []))))"
proof -
  have scope: "require_scope [''task:write''] (rq_ctx rq)" and
    run: "handle_create_task E now rq s = (Reply 201 j h, s')"
    using assms(1) by (auto simp: serve_def route_scope_def handler_of_def scope_refusal_def split: if_splits)
  from run obtain d ti pr asg parent hd tr a where fields: "rq_body rq = Some (JObj d)" "ti \<noteq> []"
      "stripped_or [] (dict_get d ''title'' JNull) = Inr ti" "priority_of (dict_get d ''priority'' (JInt 0)) = Inr pr"
      "assignee_arg d = Inr asg" "opt_str_field d ''parent_id'' = Inr parent" "create_args d ti pr = Inr a"
    and allowed: "\<And>A. ae_ape E = Some A \<Longrightarrow> allowed (fst (check_task_create (A\<lparr>ape_tasks := Some (as_tasks s)\<rparr>)
         (of_int now) (build_caller rq) (the_default [] asg) parent (as_trail s)))"
    and stored: "create_stored E now rq asg hd a (s\<lparr>as_trail := tr\<rparr>) = (Reply 201 j h, s')"
    unfolding handle_create_task_def by (elim request_elims) (simp_all add: create_check_allowed)
  from stored obtain t db where t: "create_task now (ae_fresh_id E) a (as_tasks s) = (Inr t, db)"
    and prov: "record_provenance_create E (of_int now) t rq (\<lambda>s.
       notify E ''created'' (task_to_detail t) (\<lambda>s.
         (case task_to_detail t of None \<Rightarrow> raised s | Some j \<Rightarrow> reply 201 [(''task'', j)] hd s))
       (record_created E (of_int now) t asg rq s)) (s\<lparr>as_trail := tr, as_tasks := db\<rparr>) = (Reply 201 j h, s')"
    unfolding create_stored_def by (rule on_tasks_Reply) (simp_all add: create_errors_Reply)
  have "tid t = ae_fresh_id E" using create_task_tid t by blast
  then have "as_tasks s' = db \<and> (ae_pt E \<longrightarrow> (\<exists>hs. new_chain (tid t) hs (as_prov s') \<and>
      map to_agent hs = (if opt_true (assignee t) then [opt_or (assignee t) []] else [])))"
    using record_provenance_create_Reply [OF prov create_final_frame] assms(2-4) by simp
  with fields allowed t have "\<exists>d ti pr asg parent a t. rq_body rq = Some (JObj d) \<and> stripped_or [] (dict_get d ''title'' JNull) = Inr ti \<and> ti \<noteq> [] \<and>
      priority_of (dict_get d ''priority'' (JInt 0)) = Inr pr \<and> create_args d ti pr = Inr a \<and>
      assignee_arg d = Inr asg \<and> opt_str_field d ''parent_id'' = Inr parent \<and>
      (\<forall>A. ae_ape E = Some A \<longrightarrow> allowed (fst (check_task_create (A\<lparr>ape_tasks := Some (as_tasks s)\<rparr>) (of_int now)
         (build_caller rq) (the_default [] asg) parent (as_trail s)))) \<and>
      create_task now (ae_fresh_id E) a (as_tasks s) = (Inr t, as_tasks s') \<and>
      (ae_pt E \<longrightarrow> (\<exists>hs. new_chain (tid t) hs (as_prov s') \<and>
         map to_agent hs = (if opt_true (assignee t) then [opt_or (assignee t) []] else [])))"
    by (intro exI [of _ d] exI [of _ ti] exI [of _ pr] exI [of _ asg] exI [of _ parent] exI [of _ a] exI [of _ t]) simp
  moreover have "''task:write'' \<in> set (py_split (ctx_scopes rq))"
    using scope by (auto simp: require_scope_def missing_scopes_def ctx_scopes_def Let_def split: option.splits if_splits)
  ultimately show ?thesis by blast
qed

section \<open>Requests whose outcome surprises\<close>

text \<open>What a request that changes the task database has passed.\<close>

lemma with_body_moves:
  assumes "with_body rq f s = (r, s')" "as_tasks s' \<noteq> as_tasks s"
  obtains d where "rq_body rq = Some (JObj d)" "f d s = (r, s')"
  using assms by (auto simp: with_body_def json_error_def json_reply_def split: option.splits json.splits)

lemma with_body_or_empty_moves:
  assumes "with_body_or_empty rq f s = (r, s')" "rq_body rq = Some (JObj d)"
  obtains "f d s = (r, s')"
  using assms by (simp add: with_body_or_empty_def)

lemma require_moves:
  assumes "require v f s = (r, s')" "as_tasks s' \<noteq> as_tasks s"
  obtains x where "v = Inr x" "f x s = (r, s')"
  using assms by (cases v) (auto simp: require_def)

lemma checkpoint_moves:
  assumes "checkpoint E chk f s = (r, s')" "as_tasks s' \<noteq> as_tasks s"
  obtains h tr where "f h (s\<lparr>as_trail := tr\<rparr>) = (r, s')"
proof (cases "ae_ape E")
  case None
  with assms that [of "[]" "as_trail s"] show ?thesis by (simp add: checkpoint_def)
next
  case (Some A)
  obtain c tr where "chk (A\<lparr>ape_tasks := Some (as_tasks s)\<rparr>) (as_trail s) = (c, tr)" by fastforce
  with Some assms that show ?thesis
    by (auto simp: checkpoint_def json_error_def json_reply_def split: if_splits)
qed

lemma on_tasks_moves:
  assumes "on_tasks g err ok s = (r, s')" "as_tasks s' \<noteq> as_tasks s"
    and "\<And>e. fst (g (as_tasks s)) = Inl e \<Longrightarrow> snd (g (as_tasks s)) = as_tasks s"
    and "\<And>e s. as_tasks (snd (err e s)) = as_tasks s"
  obtains x db where "g (as_tasks s) = (Inr x, db)" "ok x (s\<lparr>as_tasks := db\<rparr>) = (r, s')"
  using assms by (auto simp: on_tasks_def split: prod.splits sum.splits)
   (metis api_state.select_convs(1) api_state.surjective api_state.update_convs(1) fst_conv snd_conv)

lemma status_errors_frame: "as_tasks (snd (status_errors e s)) = as_tasks s"
  by (auto simp: status_errors_def value_errors_def not_found_or_invalid_def json_error_def json_reply_def raised_def
    split: store_error.split)

lemma unreadable_result:
  assumes "find_task db i = Some t" "result t = Some x" "x \<noteq> []" "loads x = None"
  shows "\<exists>v. get_task i db = Some v \<and> task_of v = t \<and> task_to_detail t = None"
proof -
  have "loads_or_null (result t) = None" using assms by (simp add: loads_or_null_def opt_or_def str_or_def)
  then have "task_to_detail t = None" by (simp add: task_to_detail_def)
  with assms(1) show ?thesis by (simp add: get_task_def)
qed

text \<open>A task that is completed with a plain string as its result can never be read again: the string is stored
  as it is and every reader parses the column as JSON. The completion stays, even where its own
  broadcast already fails.\<close>

theorem string_result_breaks_reads:
  assumes "serve E now (PostComplete i) rq s = (r, s')" "as_tasks s' \<noteq> as_tasks s"
    and "rq_body rq = Some (JObj d)" "dict_get d ''result'' JNull = JStr x" "x \<noteq> []" "loads x = None"
    and "dict_get d ''output_contract'' JNull = JNull" "require_scope [''task:read''] (rq_ctx rq')"
  shows "status_of (as_tasks s') i = Some (status_value COMPLETED) \<and> (ae_broadcasts E \<longrightarrow> r = Raised) \<and>
    serve E later (GetTask i) rq' s' = (Raised, s')"
proof -
  have fields: "result_text (JStr x) = Some x" "contract_error d (JStr x) (Some x) = Inr None"
    using assms by (simp_all add: result_text_def contract_error_def)
  have "handle_complete E now i rq s = (r, s')"
    using assms(1,2) by (auto simp: serve_def route_scope_def handler_of_def split: if_splits)
  then obtain lock summ meta h tr where
    "complete_with E now i lock (Some x) summ meta None h (s\<lparr>as_trail := tr\<rparr>) = (r, s')"
    unfolding handle_complete_def Let_def
    by (elim with_body_or_empty_moves [OF _ assms(3)] require_moves [OF _ assms(2)] checkpoint_moves [OF _ assms(2)])
      (use assms(2,4) fields in \<open>auto simp: require_def\<close>)
  then obtain v db where upd: "update_task_status now i (status_value COMPLETED) lock (Some x) summ meta (as_tasks s) = (Inr v, db)"
    and ok: "notify_task E ''status_changed'' i
      (reply 200 [(''task_id'', JStr i), (''status'', JStr (status_value COMPLETED))] h) (s\<lparr>as_trail := tr, as_tasks := db\<rparr>) = (r, s')"
    unfolding complete_with_def option.case
    by (rule on_tasks_moves) (use assms(2) in \<open>simp_all add: status_errors_frame op_errors\<close>)
  from upd obtain t where t: "find_task db i = Some t" "result t = Some x" "status t = status_value COMPLETED"
    by (elim completed_row) (use assms(5) in \<open>simp add: transition_fields_def Let_def opt_true_def\<close>)
  then obtain w where w: "get_task i db = Some w" "task_of w = t" "task_to_detail t = None"
    using unreadable_result assms(5,6) by blast
  then have "as_tasks s' = db" "ae_broadcasts E \<longrightarrow> r = Raised"
    using ok by (auto simp: notify_task_def notify_def reply_def split: if_splits)
  with t w assms(8) show ?thesis
    by (simp add: serve_def route_scope_def handler_of_def handle_get_task_def raised_def status_of_def)
qed

text \<open>A claim of a task without a provenance chain, such as one created by a workflow, a swarm or the cron
  scheduler, ends in an exception after the claim has been stored: the worker never learns its lock.\<close>

theorem claim_without_chain_is_kept:
  assumes "serve E now (PostClaim i) rq s = (r, s')" "as_tasks s' \<noteq> as_tasks s"
    and "ae_pt E" "row_by pc_id i (prov_chains (as_prov s)) = None" "ctx_jti rq = Inr token"
    "db_ok (as_tasks s)"
  shows "r = Raised \<and> (\<exists>w pid. held i (lock_name w pid) (as_tasks s'))"
proof -
  have "handle_claim E now i rq s = (r, s')"
    using assms(1,2) by (auto simp: serve_def route_scope_def handler_of_def split: if_splits)
  then obtain d w pid ttl h tr where
    "on_tasks (claim_task now i w pid (the_default DEFAULT_CLAIM_TTL ttl)) (\<lambda>e. raised) (\<lambda>r.
     case r of
       None \<Rightarrow> claim_conflict i
     | Some c \<Rightarrow>
         record_provenance_claim E (of_int now) i w rq
           (notify_task E ''status_changed'' i (reply 200 (claim_to_dict c) h))) (s\<lparr>as_trail := tr\<rparr>) = (r, s')"
    unfolding handle_claim_def
    by (elim with_body_moves [OF _ assms(2)] require_moves [OF _ assms(2)] checkpoint_moves [OF _ assms(2)]) blast
  then obtain c db where claim: "claim_task now i w pid (the_default DEFAULT_CLAIM_TTL ttl) (as_tasks s) = (Inr c, db)"
    and ok: "(case c of None \<Rightarrow> claim_conflict i
     | Some c \<Rightarrow> record_provenance_claim E (of_int now) i w rq
           (notify_task E ''status_changed'' i (reply 200 (claim_to_dict c) h))) (s\<lparr>as_trail := tr, as_tasks := db\<rparr>) = (r, s')"
    by (rule on_tasks_moves) (use assms(2) in \<open>simp_all add: raised_def claim_task_no_error\<close>)
  have "as_tasks (snd (claim_conflict i s)) = as_tasks s" for s
    by (simp add: claim_conflict_def task_missing_def json_error_def json_reply_def)
  then have "c \<noteq> None"
    using claim_task_None [of now i w pid "the_default DEFAULT_CLAIM_TTL ttl" "as_tasks s" db] claim ok assms(2)
    by (metis (mono_tags) api_state.select_convs(1) api_state.surjective api_state.update_convs(1) api_state.update_convs(3) option.simps(4) snd_conv)
  then obtain ci where ci: "c = Some ci" by blast
  with ok claimed_row [OF claim [unfolded ci] assms(6)] assms(3-5) have "r = Raised" "as_tasks s' = db"
    by (auto simp: record_provenance_claim_def record_hop_of_def require_def record_hop_def Let_def split: prod.splits option.splits)
  with claimed_row [OF claim [unfolded ci] assms(6)] show ?thesis by blast
qed

section \<open>A small run\<close>

definition demo_api :: api_env where
  "demo_api = \<lparr> ae_ape = None, ae_tokens = [], ae_registry = None, ae_pt = True, ae_trail = False,
     ae_broadcasts = False, ae_fresh_id = ''t_1'', ae_event_id = (\<lambda>_. ''e_1''), ae_num = (\<lambda>_. JNull) \<rparr>"

definition ada_request :: "json option \<Rightarrow> api_request" where
  "ada_request b =
     \<lparr> rq_ctx = Some \<lparr> rq_agent_id = ''ada'', rq_scopes = ''task:read task:write'', rq_payload = [], rq_tenant = None,
         rq_user_session = None \<rparr>,
       rq_body = b, rq_query = [], rq_remote = None \<rparr>"

definition post_request :: api_request where
  "post_request = ada_request (Some (JObj [(''title'', JStr ''report''), (''assignee'', JStr ''bob'')]))"

definition claim_request :: api_request where
  "claim_request = ada_request (Some (JObj [(''worker_id'', JStr ''bob'')]))"

definition finish_request :: api_request where
  "finish_request = ada_request (Some (JObj [(''claim_lock'', JStr (lock_name ''bob'' 0)), (''result'', JStr ''done'')]))"

text \<open>The task is created and claimed.\<close>

definition claimed_api :: api_state where
  "claimed_api = fold exec_request [(demo_api, 5, PostTask, post_request), (demo_api, 6, PostClaim ''t_1'', claim_request)] empty_api"

text \<open>Two tasks with ids of their own.\<close>

definition two_requests :: "(api_env \<times> int \<times> api_route \<times> api_request) list" where
  "two_requests = [(demo_api, 5, PostTask, post_request), (demo_api\<lparr>ae_fresh_id := ''t_2''\<rparr>, 6, PostTask, post_request)]"

theorem api_refines_stores_witness:
  "db_ok (as_tasks (fold exec_request two_requests empty_api)) \<and>
   status_of (as_tasks (fold exec_request two_requests empty_api)) ''t_1'' = Some (status_value READY) \<and>
   status_of (as_tasks (fold exec_request two_requests empty_api)) ''t_2'' = Some (status_value READY)"
proof -
  have "map (status_of (as_tasks (fold exec_request two_requests empty_api))) [''t_1'', ''t_2''] =
      [Some (status_value READY), Some (status_value READY)]"
    by code_simp
  with api_refines_stores [OF api.init_ok refl, of two_requests] show ?thesis by simp
qed

theorem string_result_breaks_reads_witness:
  "\<exists>s. serve demo_api 7 (PostComplete ''t_1'') finish_request claimed_api =
       (Reply 200 (JObj [(''task_id'', JStr ''t_1''), (''status'', JStr ''completed'')]) [], s) \<and>
     serve demo_api 8 (GetTask ''t_1'') (ada_request None) s = (Raised, s)"
proof -
  obtain r s where run: "serve demo_api 7 (PostComplete ''t_1'') finish_request claimed_api = (r, s)" by fastforce
  have out: "fst (serve demo_api 7 (PostComplete ''t_1'') finish_request claimed_api) =
      Reply 200 (JObj [(''task_id'', JStr ''t_1''), (''status'', JStr ''completed'')]) []"
    by code_simp
  have "status_of (as_tasks (snd (serve demo_api 7 (PostComplete ''t_1'') finish_request claimed_api))) ''t_1'' \<noteq>
      status_of (as_tasks claimed_api) ''t_1''"
    by code_simp
  with run have moved: "as_tasks s \<noteq> as_tasks claimed_api" by auto
  have body: "rq_body finish_request = Some (JObj [(''claim_lock'', JStr (lock_name ''bob'' 0)), (''result'', JStr ''done'')])"
    "require_scope [''task:read''] (rq_ctx (ada_request None))" "loads ''done'' = None"
    by code_simp+
  from string_result_breaks_reads [OF run moved body(1) _ _ body(3) _ body(2), of 8] run out show ?thesis
    by (simp add: dict_get_def)
qed

theorem created_only_when_allowed_witness:
  "get_chain_by_task ''t_1'' (as_prov (snd (serve demo_api 5 PostTask post_request empty_api))) \<noteq> None"
proof -
  obtain st j h s where run: "serve demo_api 5 PostTask post_request empty_api = (Reply st j h, s)" and "st = 201"
  proof -
    have "case fst (serve demo_api 5 PostTask post_request empty_api) of Reply st _ _ \<Rightarrow> st = 201 | _ \<Rightarrow> False"
      by code_simp
    with that show ?thesis
      by (cases "serve demo_api 5 PostTask post_request empty_api") (auto split: outcome.splits)
  qed
  have "prov_ok (as_prov empty_api)" using api.init_ok by (simp add: api_ok_def)
  with created_only_when_allowed [OF run [unfolded \<open>st = 201\<close>]] obtain hs t db a where
    "new_chain (tid t) hs (as_prov s)" "create_task 5 ''t_1'' a empty_db = (Inr t, db)"
    by (auto simp: demo_api_def empty_api_def empty_prov_def)
  then show ?thesis using run create_task_tid by (auto simp: new_chain_def)
qed

theorem error_reply_changes_nothing_witness:
  "as_tasks (snd (serve demo_api 7 (PostClaim ''t_1'') claim_request claimed_api)) = as_tasks claimed_api"
proof -
  have "case fst (serve demo_api 7 (PostClaim ''t_1'') claim_request claimed_api) of Reply st _ _ \<Rightarrow> 400 \<le> st | _ \<Rightarrow> False"
    by code_simp
  then obtain st j h s where "serve demo_api 7 (PostClaim ''t_1'') claim_request claimed_api = (Reply st j h, s)" "400 \<le> st"
    by (cases "serve demo_api 7 (PostClaim ''t_1'') claim_request claimed_api") (auto split: outcome.splits)
  from error_reply_changes_nothing [OF this] this(1) show ?thesis by simp
qed
end
