(* ===== verification/InputChecks.thy ===== *)
theory InputChecks
  imports JsonValues OAuth
begin

text \<open>
  \<open>validation.py\<close>: the checks of an agent card, of path parameters, scopes and token claims, and the
  HTML encoding of cards. A check gives the list of its errors, each a field and a detail. Types of
  Python are those of JSON values.
\<close>

section \<open>Checks of one field\<close>

record ValidationError =
  ve_field :: string
  ve_detail :: string

definition invalid :: "string \<Rightarrow> string \<Rightarrow> ValidationError" where
  "invalid f d = \<lparr> ve_field = f, ve_detail = d \<rparr>"

datatype py_type = PyStr | PyDict | PyList

definition py_type_name :: "py_type \<Rightarrow> string" where
  "py_type_name t = (case t of PyStr \<Rightarrow> ''str'' | PyDict \<Rightarrow> ''dict'' | PyList \<Rightarrow> ''list'')"

definition is_instance :: "py_type \<Rightarrow> json \<Rightarrow> bool" where
  "is_instance t v = (type_name v = py_type_name t)"

definition no_error :: "bool \<Rightarrow> ValidationError \<Rightarrow> ValidationError list" where
  "no_error ok e = (if ok then [] else [e])"

definition blank :: "json \<Rightarrow> bool" where
  "blank v = (case v of JNull \<Rightarrow> True | JStr s \<Rightarrow> py_strip s = [] | _ \<Rightarrow> False)"

definition check_required_field :: "(string \<times> json) list \<Rightarrow> string \<Rightarrow> string \<Rightarrow> ValidationError list" where
  "check_required_field d f label =
     no_error (\<not> blank (dict_get d f JNull)) (invalid f (label @ '' is required and cannot be empty''))"

definition long_string :: "nat \<Rightarrow> json \<Rightarrow> bool" where
  "long_string n v = (case v of JStr s \<Rightarrow> n < length s | _ \<Rightarrow> False)"

definition json_len :: "json \<Rightarrow> nat" where
  "json_len v = (case v of JStr s \<Rightarrow> length s | JList vs \<Rightarrow> length vs | JObj m \<Rightarrow> length m | _ \<Rightarrow> 0)"

definition check_string_length :: "(string \<times> json) list \<Rightarrow> string \<Rightarrow> nat \<Rightarrow> ValidationError list" where
  "check_string_length d f n =
     no_error (\<not> long_string n (dict_get d f JNull))
       (invalid f (''Must not exceed '' @ str_nat n @ '' characters (got '' @ str_nat (json_len (dict_get d f JNull)) @ '')''))"

definition check_type :: "(string \<times> json) list \<Rightarrow> string \<Rightarrow> py_type \<Rightarrow> string \<Rightarrow> ValidationError list" where
  "check_type d f t label =
     (let v = dict_get d f JNull in
      no_error (v = JNull \<or> is_instance t v)
        (invalid f (str_or label f @ '' must be '' @ py_type_name t @ '', got '' @ type_name v)))"

text \<open>The first item of another type, with its position.\<close>

definition wrong_item :: "py_type \<Rightarrow> json list \<Rightarrow> (nat \<times> json) option" where
  "wrong_item t vs = find (\<lambda>(i, v). \<not> is_instance t v) (enumerate 0 vs)"

definition check_list_type ::
  "(string \<times> json) list \<Rightarrow> string \<Rightarrow> py_type \<Rightarrow> nat \<Rightarrow> string \<Rightarrow> ValidationError list" where
  "check_list_type d f t n label =
     (case dict_get d f JNull of
        JNull \<Rightarrow> []
      | JList vs \<Rightarrow>
          if n < length vs
          then [invalid f (str_or label f @ '' must not exceed '' @ str_nat n @ '' items (got '' @ str_nat (length vs) @ '')'')]
          else (case wrong_item t vs of
                  None \<Rightarrow> []
                | Some (i, v) \<Rightarrow> [invalid f (str_or label f @ ''['' @ str_nat i @ ''] must be '' @ py_type_name t @
                                    '', got '' @ type_name v)])
      | v \<Rightarrow> [invalid f (str_or label f @ '' must be a list, got '' @ type_name v)])"

section \<open>Agent cards\<close>

definition provider_errors :: "json \<Rightarrow> ValidationError list" where
  "provider_errors v =
     (case v of
        JNull \<Rightarrow> []
      | JObj p \<Rightarrow> check_string_length p ''url'' 2048 @ check_string_length p ''organization'' 255
      | _ \<Rightarrow> [invalid ''provider'' ''Provider must be a dict''])"

definition item_label :: "string \<Rightarrow> nat \<Rightarrow> string \<Rightarrow> string" where
  "item_label w i f = w @ ''['' @ str_nat i @ ''].'' @ f"

definition tag_errors :: "nat \<Rightarrow> json \<Rightarrow> ValidationError list" where
  "tag_errors i v =
     (case v of
        JList ts \<Rightarrow>
          concat (map (\<lambda>(j, g).
            no_error (\<not> long_string 64 g)
              (invalid (''skills['' @ str_nat i @ ''].tags['' @ str_nat j @ '']'')
                 (''Tag must not exceed 64 characters (got '' @ str_nat (json_len g) @ '')'')))
            (enumerate 0 ts))
      | _ \<Rightarrow> [])"

definition skill_errors :: "nat \<Rightarrow> json \<Rightarrow> ValidationError list" where
  "skill_errors i v =
     (case v of
        JObj s \<Rightarrow>
          concat (map (\<lambda>f. check_required_field s f (item_label ''Skill'' i f)) [''id'', ''name'', ''description'']) @
          concat (map (\<lambda>(f, n). check_string_length s f n) [(''id'', 128), (''name'', 128), (''description'', 2000)]) @
          concat (map (\<lambda>(f, n). check_list_type s f PyStr n (item_label ''Skill'' i f))
            [(''tags'', 50), (''examples'', 50), (''input_modes'', 20), (''output_modes'', 20), (''uri_schemes'', 50)]) @
          tag_errors i (dict_get s ''tags'' (JList []))
      | _ \<Rightarrow> [])"

definition interface_errors :: "nat \<Rightarrow> json \<Rightarrow> ValidationError list" where
  "interface_errors i v =
     (case v of
        JObj s \<Rightarrow>
          concat (map (\<lambda>f. check_required_field s f (item_label ''Interface'' i f))
            [''url'', ''protocol_binding'', ''protocol_version'']) @
          concat (map (\<lambda>(f, n). check_string_length s f n)
            [(''url'', 2048), (''protocol_binding'', 32), (''protocol_version'', 32), (''tenant'', 128)])
      | _ \<Rightarrow> [])"

definition each_item :: "(nat \<Rightarrow> json \<Rightarrow> ValidationError list) \<Rightarrow> json \<Rightarrow> ValidationError list" where
  "each_item f v = (case v of JList vs \<Rightarrow> concat (map (\<lambda>(i, x). f i x) (enumerate 0 vs)) | _ \<Rightarrow> [])"

text \<open>\<open>str(v)\<close> of a scalar that is not \<open>None\<close>\<close>

definition scalar_text :: "json \<Rightarrow> string" where
  "scalar_text v =
     (case v of JStr s \<Rightarrow> s | JInt i \<Rightarrow> str_int i | JBool b \<Rightarrow> (if b then ''True'' else ''False'') | JFloat s \<Rightarrow> s | _ \<Rightarrow> [])"

text \<open>The valid scheme types, sorted as the message lists them.\<close>

definition scheme_types :: "string list" where
  "scheme_types = [''apiKey'', ''http'', ''mutualTls'', ''oauth2'', ''openIdConnect'']"

text \<open>A scheme type that is a list or a dict cannot be looked up in the set of valid types: \<open>None\<close> is the \<open>TypeError\<close>.\<close>

definition scheme_error :: "string \<times> json \<Rightarrow> ValidationError list option" where
  "scheme_error kv =
     (case snd kv of
        JObj s \<Rightarrow>
          (let ty = dict_get s ''scheme_type'' (JStr []) in
           if \<not> json_true ty then Some []
           else if is_instance PyList ty \<or> is_instance PyDict ty then None
           else Some (no_error (ty \<in> JStr ` set scheme_types)
                  (invalid (''security_schemes.'' @ fst kv @ ''.scheme_type'')
                    (''Unknown scheme type '' @ quoted (scalar_text ty) @ ''. Valid: '' @ py_join '', '' scheme_types))))
      | _ \<Rightarrow> Some [])"

fun all_errors :: "('a \<Rightarrow> 'b list option) \<Rightarrow> 'a list \<Rightarrow> 'b list option" where
  "all_errors f [] = Some []"
| "all_errors f (x # xs) =
     (case f x of None \<Rightarrow> None | Some es \<Rightarrow> map_option (\<lambda>r. es @ r) (all_errors f xs))"

definition scheme_errors :: "json \<Rightarrow> ValidationError list option" where
  "scheme_errors v =
     (case v of
        JObj m \<Rightarrow>
          map_option (\<lambda>r.
            no_error (length m \<le> 20)
              (invalid ''security_schemes'' (''Must not exceed 20 schemes (got '' @ str_nat (length m) @ '')'')) @ r)
            (all_errors scheme_error m)
      | _ \<Rightarrow> Some [])"

definition card_type_checks :: "(string \<times> py_type \<times> string) list" where
  "card_type_checks =
     [(''description'', PyStr, ''Description''), (''version'', PyStr, ''Version''),
      (''documentation_url'', PyStr, ''Documentation URL''), (''icon_url'', PyStr, ''Icon URL''),
      (''security_schemes'', PyDict, ''security_schemes''), (''security_requirements'', PyList, ''security_requirements''),
      (''signatures'', PyList, ''Signatures''), (''default_input_modes'', PyList, ''default_input_modes''),
      (''default_output_modes'', PyList, ''default_output_modes'')]"

definition validate_agent_card :: "(string \<times> json) list \<Rightarrow> ValidationError list option" where
  "validate_agent_card d =
     map_option (\<lambda>schemes.
       check_required_field d ''name'' ''Agent name'' @
       concat (map (\<lambda>(f, n). check_string_length d f n)
         [(''name'', 255), (''description'', 2000), (''version'', 255), (''documentation_url'', 2048), (''icon_url'', 2048)]) @
       concat (map (\<lambda>(f, t, l). check_type d f t l) card_type_checks) @
       check_list_type d ''skills'' PyDict 200 ''skills'' @
       check_list_type d ''supported_interfaces'' PyDict 10 ''supported_interfaces'' @
       provider_errors (dict_get d ''provider'' JNull) @
       each_item skill_errors (dict_get d ''skills'' (JList [])) @
       each_item interface_errors (dict_get d ''supported_interfaces'' (JList [])) @
       schemes)
       (scheme_errors (dict_get d ''security_schemes'' (JObj [])))"

section \<open>Path parameters\<close>

definition alnum :: "char \<Rightarrow> bool" where
  "alnum c = (let n = of_char c :: nat in (48 \<le> n \<and> n \<le> 57) \<or> (65 \<le> n \<and> n \<le> 90) \<or> (97 \<le> n \<and> n \<le> 122))"

definition id_char :: "char \<Rightarrow> bool" where
  "id_char c = (alnum c \<or> c \<in> set ''._-'')"

text \<open>\<open>$\<close> also matches before a newline at the end.\<close>

definition at_end :: "string \<Rightarrow> bool" where
  "at_end s = (s \<in> {[], [CHR 0x0A]})"

text \<open>\<open>^[a-zA-Z0-9][a-zA-Z0-9._-]{0,127}$\<close>\<close>

definition AGENT_ID_PATTERN :: "string \<Rightarrow> bool" where
  "AGENT_ID_PATTERN s =
     (case s of
        [] \<Rightarrow> False
      | c # cs \<Rightarrow> alnum c \<and> length (takeWhile id_char cs) \<le> 127 \<and> at_end (dropWhile id_char cs))"

definition hex_char :: "char \<Rightarrow> bool" where
  "hex_char c = (let n = of_char c :: nat in (48 \<le> n \<and> n \<le> 57) \<or> (65 \<le> n \<and> n \<le> 70) \<or> (97 \<le> n \<and> n \<le> 102))"

text \<open>A UUID, or \<open>t_\<close> with 8 to 16 hexadecimal digits; upper and lower case are the same.\<close>

definition TASK_ID_PATTERN :: "string \<Rightarrow> bool" where
  "TASK_ID_PATTERN s =
     (let groups = (\<lambda>x. map length (py_split_on (CHR ''-'') x) = [8, 4, 4, 4, 12] \<and>
            list_all (list_all hex_char) (py_split_on (CHR ''-'') x));
          t = (if s \<noteq> [] \<and> last s = CHR 0x0A then butlast s else s);
          n = length t - 2
      in groups t \<or>
         (2 \<le> length t \<and> py_lower (take 2 t) = ''t_'' \<and> 8 \<le> n \<and> n \<le> 16 \<and> list_all hex_char (drop 2 t)))"

definition validate_id :: "string \<Rightarrow> (string \<Rightarrow> bool) \<Rightarrow> string \<Rightarrow> string \<Rightarrow> string \<Rightarrow> string \<Rightarrow> ValidationError option" where
  "validate_id what pat msg rule p v =
     (if v = [] then Some (invalid p (what @ '' must be a non-empty string''))
      else if \<not> pat v then Some (invalid p (''Invalid '' @ msg @ '' format: '' @ quoted v @ ''. Must be '' @ rule))
      else None)"

definition validate_agent_id :: "string \<Rightarrow> string \<Rightarrow> ValidationError option" where
  "validate_agent_id =
     validate_id ''Agent ID'' AGENT_ID_PATTERN ''agent_id'' ''1-128 alphanumeric characters, hyphens, underscores, or dots.''"

definition validate_task_id :: "string \<Rightarrow> string \<Rightarrow> ValidationError option" where
  "validate_task_id = validate_id ''Task ID'' TASK_ID_PATTERN ''task_id'' ''a UUID or t_<hex>.''"

definition validate_client_id :: "string \<Rightarrow> string \<Rightarrow> ValidationError option" where
  "validate_client_id =
     validate_id ''Client ID'' AGENT_ID_PATTERN ''client_id'' ''1-128 alphanumeric characters, hyphens, underscores, or dots.''"

section \<open>Scopes and claims\<close>

definition sorted_scopes :: "string list" where
  "sorted_scopes = [''agent:admin'', ''agent:read'', ''agent:register'', ''registry:admin'', ''task:read'', ''task:write'']"

definition validate_scope_name :: "string \<Rightarrow> ValidationError option" where
  "validate_scope_name s =
     (if s \<in> set SCOPES then None
      else Some (invalid ''scope'' (''Invalid scope '' @ quoted s @ ''. Valid scopes: '' @ py_join '', '' sorted_scopes)))"

definition validate_scope_list :: "string list \<Rightarrow> ValidationError list" where
  "validate_scope_list ss = List.map_filter validate_scope_name ss"

definition validate_scope_string :: "string \<Rightarrow> ValidationError list" where
  "validate_scope_string s = (if s = [] then [] else validate_scope_list (py_split s))"

definition lower_char :: "char \<Rightarrow> bool" where
  "lower_char c = (let n = of_char c :: nat in 97 \<le> n \<and> n \<le> 122)"

text \<open>\<open>^[a-z]+:[a-z]+(?: [a-z]+:[a-z]+)*$\<close>\<close>

definition scope_pair :: "string \<Rightarrow> bool" where
  "scope_pair w = (case py_split_on (CHR '':'') w of
     [a, b] \<Rightarrow> a \<noteq> [] \<and> b \<noteq> [] \<and> list_all lower_char a \<and> list_all lower_char b | _ \<Rightarrow> False)"

definition JWT_SCOPE_PATTERN :: "string \<Rightarrow> bool" where
  "JWT_SCOPE_PATTERN s =
     (let t = (if s \<noteq> [] \<and> last s = CHR 0x0A then butlast s else s) in list_all scope_pair (py_split_on (CHR '' '') t))"

definition claim_string_error :: "string \<Rightarrow> json \<Rightarrow> ValidationError list" where
  "claim_string_error k v =
     (case v of
        JStr s \<Rightarrow> if s = [] then [invalid k (''JWT '' @ quoted k @ '' claim is required'')] else []
      | _ \<Rightarrow> [invalid k (''JWT '' @ quoted k @ '' claim is required'')])"

definition scope_claim_errors :: "json \<Rightarrow> ValidationError list" where
  "scope_claim_errors v =
     (case v of
        JNull \<Rightarrow> []
      | JStr s \<Rightarrow>
          no_error (JWT_SCOPE_PATTERN s)
            (invalid ''scope'' (''JWT '' @ quoted ''scope'' @ '' format invalid. Must be space-separated '' @
               quoted ''category:action'' @ '' pairs (e.g. '' @ quoted ''task:read task:write'' @ '').'')) @
          validate_scope_string s
      | _ \<Rightarrow> [invalid ''scope'' (''JWT '' @ quoted ''scope'' @ '' claim must be a space-separated string'')])"

definition validate_jwt_claims :: "(string \<times> json) list \<Rightarrow> ValidationError list" where
  "validate_jwt_claims p =
     (let iss = dict_get p ''iss'' (JStr []); ex = dict_get p ''exp'' JNull; jti = dict_get p ''jti'' (JStr []) in
      claim_string_error ''iss'' iss @
      no_error (\<not> long_string 64 iss)
        (invalid ''iss'' (''JWT '' @ quoted ''iss'' @ '' must not exceed 64 characters (got '' @ str_nat (json_len iss) @ '')'')) @
      claim_string_error ''sub'' (dict_get p ''sub'' (JStr [])) @
      no_error (ex = JNull \<or> json_num ex \<noteq> None)
        (invalid ''exp'' (''JWT '' @ quoted ''exp'' @ '' claim must be a number (Unix timestamp)'')) @
      no_error (\<not> json_true jti \<or> is_instance PyStr jti)
        (invalid ''jti'' (''JWT '' @ quoted ''jti'' @ '' claim must be a string'')) @
      scope_claim_errors (dict_get p ''scope'' JNull))"

section \<open>HTML encoding\<close>

text \<open>\<open>html.escape(s, quote=True)\<close>\<close>

definition escape_char :: "char \<Rightarrow> string" where
  "escape_char c =
     (if c = CHR ''&'' then ''&amp;'' else if c = CHR ''<'' then ''&lt;'' else if c = CHR ''>'' then ''&gt;''
      else if c = CHR 0x22 then ''&quot;'' else if c = CHR 0x27 then ''&#x27;'' else [c])"

definition html_escape :: "string \<Rightarrow> string" where
  "html_escape s = concat (map escape_char s)"

definition sanitize_html :: "json \<Rightarrow> json" where
  "sanitize_html v = (case v of JStr s \<Rightarrow> JStr (html_escape s) | _ \<Rightarrow> v)"

definition already_encoded :: "string \<Rightarrow> bool" where
  "already_encoded s = (py_in ''&amp;'' s \<or> py_in ''&#x'' s \<or> py_in ''&lt;'' s \<or> py_in ''&gt;'' s)"

fun sanitize_card_output :: "nat \<Rightarrow> json \<Rightarrow> json" where
  "sanitize_card_output n (JObj d) =
     (if 20 < n then JObj d else JObj (map (\<lambda>(k, v). (k, sanitize_card_output (Suc n) v)) d))"
| "sanitize_card_output n (JList vs) = (if 20 < n then JList vs else JList (map (sanitize_card_output (Suc n)) vs))"
| "sanitize_card_output n (JStr s) = (if 20 < n \<or> already_encoded s then JStr s else JStr (html_escape s))"
| "sanitize_card_output n v = v"

section \<open>Middleware\<close>

text \<open>The handling of a request: the response of a middleware, or the handler goes on.\<close>

datatype gate = Refuse int string string | Pass

definition body_size_gate :: "(string \<Rightarrow> int option) \<Rightarrow> int \<Rightarrow> string \<Rightarrow> string option \<Rightarrow> gate" where
  "body_size_gate to_int limit meth content_length =
     (if meth \<in> {''POST'', ''PUT'', ''PATCH''} \<and> opt_true content_length
      then (case to_int (opt_or content_length []) of
              None \<Rightarrow> Pass
            | Some n \<Rightarrow>
                if n > limit
                then Refuse 413 ''payload_too_large''
                       (''Request body exceeds maximum size of '' @ str_int limit @ '' bytes ('' @ str_int n @ '' bytes received)'')
                else Pass)
      else Pass)"

definition default_rules :: "(string \<times> (string \<Rightarrow> string \<Rightarrow> ValidationError option)) list" where
  "default_rules = [(''agent_id'', validate_agent_id), (''task_id'', validate_task_id), (''client_id'', validate_client_id)]"

fun apply_rules ::
  "(string \<times> (string \<Rightarrow> string \<Rightarrow> ValidationError option)) list \<Rightarrow> (string \<times> string) list \<Rightarrow> gate" where
  "apply_rules [] match_info = Pass"
| "apply_rules ((p, f) # rules) match_info =
     (case map_of match_info p of
        None \<Rightarrow> apply_rules rules match_info
      | Some v \<Rightarrow>
          (case f p v of
             None \<Rightarrow> apply_rules rules match_info
           | Some e \<Rightarrow> Refuse 400 ''validation_error'' (ve_detail e)))"

definition path_param_gate ::
  "(string \<times> (string \<Rightarrow> string \<Rightarrow> ValidationError option)) list option \<Rightarrow> string \<Rightarrow> (string \<times> string) list \<Rightarrow> gate" where
  "path_param_gate rules meth match_info =
     (if meth \<in> {''GET'', ''POST'', ''PUT'', ''PATCH'', ''DELETE''}
      then apply_rules (case rules of None \<Rightarrow> default_rules | Some rs \<Rightarrow> if rs = [] then default_rules else rs) match_info
      else Pass)"

end
