(* ===== verification/AgentCards.thy ===== *)
theory AgentCards
  imports Contract
begin

text \<open>
  \<open>models.py\<close>: the agent card and its parts, and the conversion from and to dicts. Python checks no
  types here, so a field holds any JSON value and \<open>None\<close> is \<open>JNull\<close>; a field that the conversion builds
  from dicts has a record of its own. The conversion to a dict drops \<open>None\<close> fields; the conversion from a
  dict raises (\<open>None\<close>) where Python calls \<open>get\<close> on something else than a dict, iterates over a number or
  passes an unknown keyword.
\<close>

section \<open>Data\<close>

record AgentInterface =
  if_url :: json
  if_binding :: json
  if_version :: json
  if_tenant :: json

record AgentExtension =
  ex_name :: json
  ex_url :: json
  ex_required :: json
  ex_properties :: json

record AgentCapabilities =
  cap_streaming :: json
  cap_push :: json
  cap_extensions :: "AgentExtension list option"
  cap_extended :: json

record SecurityRequirement =
  sr_schemes :: json

record AgentSkill =
  sk_id :: json
  sk_name :: json
  sk_description :: json
  sk_tags :: json
  sk_examples :: json
  sk_input_modes :: json
  sk_output_modes :: json
  sk_security :: "SecurityRequirement list option"
  sk_uri_schemes :: json
  sk_input_schema :: json
  sk_output_schema :: json

record AgentCardSignature =
  sg_alg :: json
  sg_signature :: json
  sg_key_url :: json
  sg_kid :: json

text \<open>A data class without nested classes is the list of its fields, in their order.\<close>

type_synonym flat = "(string \<times> json) list"

record OAuthFlows =
  fl_authorization_code :: "flat option"
  fl_client_credentials :: "flat option"
  fl_device_code :: "flat option"
  fl_implicit :: "flat option"
  fl_password :: "flat option"

record OAuth2SecurityScheme =
  o2_flows :: "OAuthFlows option"
  o2_metadata_url :: json

record SecurityScheme =
  ss_type :: json
  ss_description :: json
  ss_api_key :: "flat option"
  ss_http_auth :: "flat option"
  ss_oauth2 :: "OAuth2SecurityScheme option"
  ss_open_id_connect :: "flat option"
  ss_mtls :: "flat option"

record AgentCard =
  cd_name :: json
  cd_description :: json
  cd_interfaces :: "AgentInterface list"
  cd_provider :: "flat option"
  cd_version :: json
  cd_documentation_url :: json
  cd_capabilities :: AgentCapabilities
  cd_security_schemes :: "(string \<times> SecurityScheme) list"
  cd_security_requirements :: "SecurityRequirement list"
  cd_input_modes :: json
  cd_output_modes :: json
  cd_skills :: "AgentSkill list"
  cd_signatures :: "AgentCardSignature list"
  cd_icon_url :: json

text \<open>The fields of the flat classes with their defaults.\<close>

definition AgentProvider :: flat where
  "AgentProvider = [(''url'', JStr []), (''organization'', JStr [])]"

definition APIKeySecurityScheme :: flat where
  "APIKeySecurityScheme = [(''name'', JStr []), (''key_format'', JNull)]"

definition HTTPAuthSecurityScheme :: flat where
  "HTTPAuthSecurityScheme = [(''scheme'', JStr [])]"

definition OpenIdConnectSecurityScheme :: flat where
  "OpenIdConnectSecurityScheme = [(''issuer_url'', JStr []), (''discovery_url'', JNull)]"

definition MutualTlsSecurityScheme :: flat where
  "MutualTlsSecurityScheme = [(''certificate_authority'', JNull), (''certificate_requirements'', JNull)]"

definition AuthorizationCodeOAuthFlow :: flat where
  "AuthorizationCodeOAuthFlow =
     [(''authorization_url'', JStr []), (''token_url'', JStr []), (''refresh_url'', JNull), (''scopes'', JObj [])]"

definition ClientCredentialsOAuthFlow :: flat where
  "ClientCredentialsOAuthFlow = [(''token_url'', JStr []), (''refresh_url'', JNull), (''scopes'', JObj [])]"

definition DeviceCodeOAuthFlow :: flat where
  "DeviceCodeOAuthFlow = [(''device_authorization_url'', JStr []), (''token_url'', JStr []), (''scopes'', JObj [])]"

definition ImplicitOAuthFlow :: flat where
  "ImplicitOAuthFlow = [(''authorization_url'', JStr []), (''refresh_url'', JNull), (''scopes'', JObj [])]"

definition PasswordOAuthFlow :: flat where
  "PasswordOAuthFlow = [(''token_url'', JStr []), (''refresh_url'', JNull), (''scopes'', JObj [])]"

section \<open>To dicts\<close>

definition flat_to_dict :: "flat \<Rightarrow> json" where
  "flat_to_dict f = JObj (present f)"

definition json_opt :: "('a \<Rightarrow> json) \<Rightarrow> 'a option \<Rightarrow> json" where
  "json_opt f x = (case x of None \<Rightarrow> JNull | Some v \<Rightarrow> f v)"

definition json_list :: "('a \<Rightarrow> json) \<Rightarrow> 'a list \<Rightarrow> json" where
  "json_list f xs = JList (map f xs)"

definition interface_to_dict :: "AgentInterface \<Rightarrow> json" where
  "interface_to_dict i =
     JObj (present [(''url'', if_url i), (''protocol_binding'', if_binding i), (''protocol_version'', if_version i),
                    (''tenant'', if_tenant i)])"

definition extension_to_dict :: "AgentExtension \<Rightarrow> json" where
  "extension_to_dict e =
     JObj (present [(''name'', ex_name e), (''url'', ex_url e), (''required'', ex_required e), (''properties'', ex_properties e)])"

definition capabilities_to_dict :: "AgentCapabilities \<Rightarrow> json" where
  "capabilities_to_dict c =
     JObj (present [(''streaming'', cap_streaming c), (''push_notifications'', cap_push c),
                    (''extensions'', json_opt (json_list extension_to_dict) (cap_extensions c)),
                    (''extended_agent_card'', cap_extended c)])"

definition requirement_to_dict :: "SecurityRequirement \<Rightarrow> json" where
  "requirement_to_dict r = JObj (present [(''schemes'', sr_schemes r)])"

definition skill_to_dict :: "AgentSkill \<Rightarrow> json" where
  "skill_to_dict s =
     JObj (present [(''id'', sk_id s), (''name'', sk_name s), (''description'', sk_description s), (''tags'', sk_tags s),
                    (''examples'', sk_examples s), (''input_modes'', sk_input_modes s), (''output_modes'', sk_output_modes s),
                    (''security_requirements'', json_opt (json_list requirement_to_dict) (sk_security s)),
                    (''uri_schemes'', sk_uri_schemes s), (''input_schema'', sk_input_schema s),
                    (''output_schema'', sk_output_schema s)])"

definition signature_to_dict :: "AgentCardSignature \<Rightarrow> json" where
  "signature_to_dict s =
     JObj (present [(''alg'', sg_alg s), (''signature'', sg_signature s), (''key_url'', sg_key_url s), (''kid'', sg_kid s)])"

definition flows_to_dict :: "OAuthFlows \<Rightarrow> json" where
  "flows_to_dict f =
     JObj (present [(''authorization_code'', json_opt flat_to_dict (fl_authorization_code f)),
                    (''client_credentials'', json_opt flat_to_dict (fl_client_credentials f)),
                    (''device_code'', json_opt flat_to_dict (fl_device_code f)),
                    (''implicit'', json_opt flat_to_dict (fl_implicit f)), (''password'', json_opt flat_to_dict (fl_password f))])"

definition oauth2_to_dict :: "OAuth2SecurityScheme \<Rightarrow> json" where
  "oauth2_to_dict a = JObj (present [(''flows'', json_opt flows_to_dict (o2_flows a)), (''oauth2_metadata_url'', o2_metadata_url a)])"

definition scheme_to_dict :: "SecurityScheme \<Rightarrow> json" where
  "scheme_to_dict s =
     JObj (present [(''scheme_type'', ss_type s), (''description'', ss_description s),
                    (''api_key'', json_opt flat_to_dict (ss_api_key s)), (''http_auth'', json_opt flat_to_dict (ss_http_auth s)),
                    (''oauth2'', json_opt oauth2_to_dict (ss_oauth2 s)),
                    (''open_id_connect'', json_opt flat_to_dict (ss_open_id_connect s)),
                    (''mtls'', json_opt flat_to_dict (ss_mtls s))])"

definition card_to_dict :: "AgentCard \<Rightarrow> (string \<times> json) list" where
  "card_to_dict c =
     present [(''name'', cd_name c), (''description'', cd_description c),
              (''supported_interfaces'', json_list interface_to_dict (cd_interfaces c)),
              (''provider'', json_opt flat_to_dict (cd_provider c)), (''version'', cd_version c),
              (''documentation_url'', cd_documentation_url c), (''capabilities'', capabilities_to_dict (cd_capabilities c)),
              (''security_schemes'', JObj (map (\<lambda>(k, s). (k, scheme_to_dict s)) (cd_security_schemes c))),
              (''security_requirements'', json_list requirement_to_dict (cd_security_requirements c)),
              (''default_input_modes'', cd_input_modes c), (''default_output_modes'', cd_output_modes c),
              (''skills'', json_list skill_to_dict (cd_skills c)), (''signatures'', json_list signature_to_dict (cd_signatures c)),
              (''icon_url'', cd_icon_url c)]"

section \<open>From dicts\<close>

text \<open>\<open>cls(**d)\<close>: an unknown keyword is a \<open>TypeError\<close>.\<close>

definition construct :: "flat \<Rightarrow> (string \<times> json) list \<Rightarrow> flat option" where
  "construct cls d =
     (if fst ` set d \<subseteq> fst ` set cls then Some (map (\<lambda>(k, dflt). (k, dict_get d k dflt)) cls) else None)"

definition construct_if_dict :: "flat \<Rightarrow> json \<Rightarrow> flat option option" where
  "construct_if_dict cls v = (case v of JObj d \<Rightarrow> map_option Some (construct cls d) | _ \<Rightarrow> Some None)"

fun map_all :: "('a \<Rightarrow> 'b option) \<Rightarrow> 'a list \<Rightarrow> 'b list option" where
  "map_all f [] = Some []"
| "map_all f (x # xs) = (case f x of None \<Rightarrow> None | Some y \<Rightarrow> map_option ((#) y) (map_all f xs))"

text \<open>\<open>[f(x) for x in v]\<close> where \<open>f\<close> reads a dict: a string or a dict must be empty, as its items are strings.\<close>

definition each_dict :: "((string \<times> json) list \<Rightarrow> 'a option) \<Rightarrow> json \<Rightarrow> 'a list option" where
  "each_dict f v =
     (case v of
        JList vs \<Rightarrow> map_all (\<lambda>x. case x of JObj d \<Rightarrow> f d | _ \<Rightarrow> None) vs
      | JStr s \<Rightarrow> if s = [] then Some [] else None
      | JObj d \<Rightarrow> if d = [] then Some [] else None
      | _ \<Rightarrow> None)"

text \<open>\<open>[f(x) for x in (v or [])]\<close>\<close>

definition each_dict_or_empty :: "((string \<times> json) list \<Rightarrow> 'a option) \<Rightarrow> json \<Rightarrow> 'a list option" where
  "each_dict_or_empty f v = (if json_true v then each_dict f v else Some [])"

definition dict_to_requirement :: "(string \<times> json) list \<Rightarrow> SecurityRequirement option" where
  "dict_to_requirement d = Some \<lparr> sr_schemes = dict_get d ''schemes'' (JObj []) \<rparr>"

definition requirements_of :: "json \<Rightarrow> SecurityRequirement list option option" where
  "requirements_of v = (if v = JNull then Some None else map_option Some (each_dict dict_to_requirement v))"

definition dict_to_skill :: "(string \<times> json) list \<Rightarrow> AgentSkill option" where
  "dict_to_skill d =
     map_option (\<lambda>sec.
       \<lparr> sk_id = dict_get d ''id'' (JStr []), sk_name = dict_get d ''name'' (JStr []),
         sk_description = dict_get d ''description'' (JStr []), sk_tags = dict_get d ''tags'' (JList []),
         sk_examples = dict_get d ''examples'' JNull, sk_input_modes = dict_get d ''input_modes'' JNull,
         sk_output_modes = dict_get d ''output_modes'' JNull, sk_security = sec,
         sk_uri_schemes = dict_get d ''uri_schemes'' (JList []), sk_input_schema = dict_get d ''input_schema'' JNull,
         sk_output_schema = dict_get d ''output_schema'' JNull \<rparr>)
       (requirements_of (dict_get d ''security_requirements'' JNull))"

definition dict_to_interface :: "(string \<times> json) list \<Rightarrow> AgentInterface option" where
  "dict_to_interface d =
     Some \<lparr> if_url = dict_get d ''url'' (JStr []), if_binding = dict_get d ''protocol_binding'' (JStr ''JSONRPC''),
            if_version = dict_get d ''protocol_version'' (JStr ''1.0''), if_tenant = dict_get d ''tenant'' JNull \<rparr>"

definition dict_to_extension :: "(string \<times> json) list \<Rightarrow> AgentExtension option" where
  "dict_to_extension d =
     Some \<lparr> ex_name = dict_get d ''name'' (JStr []), ex_url = dict_get d ''url'' (JStr []),
            ex_required = dict_get d ''required'' JNull, ex_properties = dict_get d ''properties'' JNull \<rparr>"

definition extensions_of :: "json \<Rightarrow> AgentExtension list option option" where
  "extensions_of v = (if v = JNull then Some None else map_option Some (each_dict dict_to_extension v))"

definition dict_to_capabilities :: "(string \<times> json) list \<Rightarrow> AgentCapabilities option" where
  "dict_to_capabilities d =
     map_option (\<lambda>exs.
       \<lparr> cap_streaming = dict_get d ''streaming'' JNull, cap_push = dict_get d ''push_notifications'' JNull,
         cap_extensions = exs, cap_extended = dict_get d ''extended_agent_card'' JNull \<rparr>)
       (extensions_of (dict_get d ''extensions'' JNull))"

definition AgentCapabilities_default :: AgentCapabilities where
  "AgentCapabilities_default = \<lparr> cap_streaming = JNull, cap_push = JNull, cap_extensions = None, cap_extended = JNull \<rparr>"

definition capabilities_of :: "json \<Rightarrow> AgentCapabilities option" where
  "capabilities_of v = (case v of JObj d \<Rightarrow> dict_to_capabilities d | _ \<Rightarrow> Some AgentCapabilities_default)"

definition dict_to_signature :: "(string \<times> json) list \<Rightarrow> AgentCardSignature option" where
  "dict_to_signature d =
     Some \<lparr> sg_alg = dict_get d ''alg'' (JStr []), sg_signature = dict_get d ''signature'' (JStr []),
            sg_key_url = dict_get d ''key_url'' (JStr []), sg_kid = dict_get d ''kid'' JNull \<rparr>"

definition dict_to_oauth_flows :: "(string \<times> json) list \<Rightarrow> OAuthFlows option" where
  "dict_to_oauth_flows d =
     (case (construct_if_dict AuthorizationCodeOAuthFlow (dict_get d ''authorization_code'' JNull),
            construct_if_dict ClientCredentialsOAuthFlow (dict_get d ''client_credentials'' JNull),
            construct_if_dict DeviceCodeOAuthFlow (dict_get d ''device_code'' JNull),
            construct_if_dict ImplicitOAuthFlow (dict_get d ''implicit'' JNull),
            construct_if_dict PasswordOAuthFlow (dict_get d ''password'' JNull)) of
        (Some a, Some c, Some v, Some i, Some p) \<Rightarrow>
          Some \<lparr> fl_authorization_code = a, fl_client_credentials = c, fl_device_code = v, fl_implicit = i, fl_password = p \<rparr>
      | _ \<Rightarrow> None)"

definition flows_of :: "json \<Rightarrow> OAuthFlows option option" where
  "flows_of v =
     (if \<not> json_true v then Some None
      else (case v of JObj d \<Rightarrow> map_option Some (dict_to_oauth_flows d) | _ \<Rightarrow> None))"

definition oauth2_of :: "json \<Rightarrow> OAuth2SecurityScheme option option" where
  "oauth2_of v =
     (case v of
        JObj d \<Rightarrow>
          map_option (\<lambda>f. Some \<lparr> o2_flows = f, o2_metadata_url = dict_get d ''oauth2_metadata_url'' JNull \<rparr>)
            (flows_of (dict_get d ''flows'' JNull))
      | _ \<Rightarrow> Some None)"

text \<open>Only the part that belongs to the scheme type is read.\<close>

definition part_of :: "string \<Rightarrow> json \<Rightarrow> flat \<Rightarrow> json \<Rightarrow> flat option option" where
  "part_of ty v cls x = (if v = JStr ty then construct_if_dict cls x else Some None)"

definition oauth2_part :: "json \<Rightarrow> json \<Rightarrow> OAuth2SecurityScheme option option" where
  "oauth2_part v x = (if v = JStr ''oauth2'' then oauth2_of x else Some None)"

definition dict_to_scheme :: "(string \<times> json) list \<Rightarrow> SecurityScheme option" where
  "dict_to_scheme d =
     (let ty = dict_get d ''scheme_type'' (JStr []) in
      (case (part_of ''apiKey'' ty APIKeySecurityScheme (dict_get d ''api_key'' JNull),
             part_of ''http'' ty HTTPAuthSecurityScheme (dict_get d ''http_auth'' JNull),
             oauth2_part ty (dict_get d ''oauth2'' JNull),
             part_of ''openIdConnect'' ty OpenIdConnectSecurityScheme (dict_get d ''open_id_connect'' JNull),
             part_of ''mutualTls'' ty MutualTlsSecurityScheme (dict_get d ''mtls'' JNull)) of
         (Some k, Some h, Some a, Some c, Some m) \<Rightarrow>
           Some \<lparr> ss_type = ty, ss_description = dict_get d ''description'' JNull, ss_api_key = k, ss_http_auth = h,
                  ss_oauth2 = a, ss_open_id_connect = c, ss_mtls = m \<rparr>
       | _ \<Rightarrow> None))"

definition schemes_of :: "json \<Rightarrow> (string \<times> SecurityScheme) list option" where
  "schemes_of v =
     (if \<not> json_true v then Some []
      else
        (case v of
           JObj d \<Rightarrow> map_all (\<lambda>(k, x). case x of JObj m \<Rightarrow> map_option (Pair k) (dict_to_scheme m) | _ \<Rightarrow> None) d
         | _ \<Rightarrow> None))"

text \<open>Skills at the top level, or those of an old card inside its capabilities.\<close>

definition skills_raw :: "(string \<times> json) list \<Rightarrow> json" where
  "skills_raw d =
     (case dict_get d ''skills'' JNull of
        JNull \<Rightarrow> (case dict_get d ''capabilities'' (JObj []) of JObj c \<Rightarrow> dict_get c ''skills'' JNull | _ \<Rightarrow> JNull)
      | v \<Rightarrow> v)"

definition text_plain :: json where
  "text_plain = JList [JStr ''text/plain'']"

definition dict_to_agent_card :: "(string \<times> json) list \<Rightarrow> AgentCard option" where
  "dict_to_agent_card d =
     (case (each_dict_or_empty dict_to_interface (dict_get d ''supported_interfaces'' JNull),
            each_dict_or_empty dict_to_skill (skills_raw d),
            capabilities_of (dict_get d ''capabilities'' (JObj [])),
            construct_if_dict AgentProvider (dict_get d ''provider'' JNull),
            each_dict_or_empty dict_to_signature (dict_get d ''signatures'' JNull),
            schemes_of (dict_get d ''security_schemes'' JNull),
            requirements_of (dict_get d ''security_requirements'' JNull)) of
        (Some ifs, Some sks, Some caps, Some prov, Some sigs, Some schs, Some reqs) \<Rightarrow>
          Some \<lparr> cd_name = dict_get d ''name'' (JStr []), cd_description = dict_get d ''description'' (JStr []),
                 cd_interfaces = ifs, cd_provider = prov, cd_version = dict_get d ''version'' (JStr ''1.0.0''),
                 cd_documentation_url = dict_get d ''documentation_url'' JNull, cd_capabilities = caps,
                 cd_security_schemes = schs, cd_security_requirements = the_default [] reqs,
                 cd_input_modes = dict_get d ''default_input_modes'' text_plain,
                 cd_output_modes = dict_get d ''default_output_modes'' text_plain, cd_skills = sks,
                 cd_signatures = sigs, cd_icon_url = dict_get d ''icon_url'' JNull \<rparr>
      | _ \<Rightarrow> None)"

section \<open>Factories\<close>

definition make_agent_skill :: "string \<Rightarrow> string \<Rightarrow> string \<Rightarrow> string list \<Rightarrow> string list \<Rightarrow> json" where
  "make_agent_skill i nm desc tags uris =
     skill_to_dict \<lparr> sk_id = JStr i, sk_name = JStr nm, sk_description = JStr desc, sk_tags = JList (map JStr tags),
       sk_examples = JNull, sk_input_modes = JNull, sk_output_modes = JNull, sk_security = None,
       sk_uri_schemes = JList (map JStr uris), sk_input_schema = JNull, sk_output_schema = JNull \<rparr>"

definition make_agent_card ::
  "string \<Rightarrow> string \<Rightarrow> string \<Rightarrow> (string \<times> json) list list \<Rightarrow> (string \<times> json) list \<Rightarrow> (string \<times> json) list option" where
  "make_agent_card nm desc url skills prov =
     (case (map_all dict_to_skill skills, if prov = [] then Some None else map_option Some (construct AgentProvider prov)) of
        (Some sks, Some p) \<Rightarrow>
          Some (card_to_dict
            \<lparr> cd_name = JStr nm, cd_description = JStr desc,
              cd_interfaces = (if url = [] then []
                 else [\<lparr> if_url = JStr url, if_binding = JStr ''JSONRPC'', if_version = JStr ''1.0'', if_tenant = JNull \<rparr>]),
              cd_provider = p, cd_version = JStr ''1.0.0'', cd_documentation_url = JNull,
              cd_capabilities = AgentCapabilities_default, cd_security_schemes = [], cd_security_requirements = [],
              cd_input_modes = text_plain, cd_output_modes = text_plain, cd_skills = sks, cd_signatures = [],
              cd_icon_url = JNull \<rparr>)
      | _ \<Rightarrow> None)"
end
