(* ===== verification/InputProps.thy ===== *)
theory InputProps
  imports InputChecks AgentCards
begin

text \<open>
  The checks of \<open>validation.py\<close>: what a card without errors looks like, which ids pass, and what the HTML
  encoding of a card leaves.
\<close>

section \<open>Cards without errors\<close>

lemma no_error_Nil [simp]: "no_error b e = [] \<longleftrightarrow> b"
  by (simp add: no_error_def)

lemma check_field_Nil [simp]:
  "check_required_field d f l = [] \<longleftrightarrow> \<not> blank (dict_get d f JNull)"
  "check_string_length d f n = [] \<longleftrightarrow> \<not> long_string n (dict_get d f JNull)"
  "check_type d f t l = [] \<longleftrightarrow> dict_get d f JNull = JNull \<or> is_instance t (dict_get d f JNull)"
  by (simp_all add: check_required_field_def check_string_length_def check_type_def Let_def)

definition list_of :: "py_type \<Rightarrow> nat \<Rightarrow> json \<Rightarrow> bool" where
  "list_of t n v \<longleftrightarrow> v = JNull \<or> (\<exists>vs. v = JList vs \<and> length vs \<le> n \<and> list_all (is_instance t) vs)"

lemma set_enumerate_0: "set (enumerate 0 vs) = (\<lambda>i. (i, vs ! i)) ` {..<length vs}"
  by (auto simp: in_set_enumerate_eq)

lemma concat_enumerate: "concat (map (\<lambda>(i, x). g i x) (enumerate 0 vs)) = [] \<longleftrightarrow> (\<forall>i < length vs. g i (vs ! i) = [])"
  by (auto simp: set_enumerate_0)

lemma wrong_item_None: "wrong_item t vs = None \<longleftrightarrow> list_all (is_instance t) vs"
  by (simp add: wrong_item_def find_None_iff set_enumerate_0 list_all_length Ball_def)

lemma check_list_Nil [simp]: "check_list_type d f t n l = [] \<longleftrightarrow> list_of t n (dict_get d f JNull)"
  by (auto simp: check_list_type_def list_of_def wrong_item_None not_less
    split: json.split option.split simp flip: wrong_item_None)

definition short_field :: "(string \<times> json) list \<Rightarrow> string \<times> nat \<Rightarrow> bool" where
  "short_field d fn \<longleftrightarrow> \<not> long_string (snd fn) (dict_get d (fst fn) JNull)"

definition filled :: "(string \<times> json) list \<Rightarrow> string \<Rightarrow> bool" where
  "filled d f \<longleftrightarrow> \<not> blank (dict_get d f JNull)"

definition skill_valid :: "(string \<times> json) list \<Rightarrow> bool" where
  "skill_valid s \<longleftrightarrow> list_all (filled s) [''id'', ''name'', ''description''] \<and>
     list_all (short_field s) [(''id'', 128), (''name'', 128), (''description'', 2000)] \<and>
     list_of PyStr 50 (dict_get s ''tags'' JNull) \<and> list_of PyStr 50 (dict_get s ''examples'' JNull) \<and>
     list_of PyStr 20 (dict_get s ''input_modes'' JNull) \<and> list_of PyStr 20 (dict_get s ''output_modes'' JNull) \<and>
     list_of PyStr 50 (dict_get s ''uri_schemes'' JNull) \<and>
     (\<forall>vs. dict_get s ''tags'' JNull = JList vs \<longrightarrow> (\<forall>v \<in> set vs. \<not> long_string 64 v))"

definition interface_valid :: "(string \<times> json) list \<Rightarrow> bool" where
  "interface_valid s \<longleftrightarrow> list_all (filled s) [''url'', ''protocol_binding'', ''protocol_version''] \<and>
     list_all (short_field s) [(''url'', 2048), (''protocol_binding'', 32), (''protocol_version'', 32), (''tenant'', 128)]"

definition scheme_valid :: "json \<Rightarrow> bool" where
  "scheme_valid v \<longleftrightarrow> (\<forall>s. v = JObj s \<longrightarrow> json_true (dict_get s ''scheme_type'' (JStr [])) \<longrightarrow>
     dict_get s ''scheme_type'' (JStr []) \<in> JStr ` set scheme_types)"

definition typed_field :: "(string \<times> json) list \<Rightarrow> string \<times> py_type \<times> string \<Rightarrow> bool" where
  "typed_field d c \<longleftrightarrow> dict_get d (fst c) JNull = JNull \<or> is_instance (fst (snd c)) (dict_get d (fst c) JNull)"

definition card_valid :: "(string \<times> json) list \<Rightarrow> bool" where
  "card_valid d \<longleftrightarrow>
     (\<forall>m. dict_get d ''security_schemes'' JNull = JObj m \<longrightarrow> length m \<le> 20 \<and> (\<forall>v \<in> snd ` set m. scheme_valid v)) \<and>
     filled d ''name'' \<and>
     list_all (short_field d) [(''name'', 255), (''description'', 2000), (''version'', 255), (''documentation_url'', 2048), (''icon_url'', 2048)] \<and>
     list_all (typed_field d) card_type_checks \<and>
     list_of PyDict 200 (dict_get d ''skills'' JNull) \<and> list_of PyDict 10 (dict_get d ''supported_interfaces'' JNull) \<and>
     (case dict_get d ''provider'' JNull of
        JNull \<Rightarrow> True | JObj p \<Rightarrow> list_all (short_field p) [(''url'', 2048), (''organization'', 255)] | _ \<Rightarrow> False) \<and>
     (\<forall>vs s. dict_get d ''skills'' JNull = JList vs \<longrightarrow> JObj s \<in> set vs \<longrightarrow> skill_valid s) \<and>
     (\<forall>vs s. dict_get d ''supported_interfaces'' JNull = JList vs \<longrightarrow> JObj s \<in> set vs \<longrightarrow> interface_valid s)"

lemma dict_get_default:
  "dict_get d f (JList []) = JList vs \<longleftrightarrow> dict_get d f JNull = JList vs \<or> (dict_get d f JNull = JNull \<and> map_of d f = None \<and> vs = [])"
  "dict_get d f (JObj []) = JObj m \<longleftrightarrow> dict_get d f JNull = JObj m \<or> (dict_get d f JNull = JNull \<and> map_of d f = None \<and> m = [])"
  by (auto simp: dict_get_def split: option.splits)

lemma each_item_Nil: "each_item g v = [] \<longleftrightarrow> (\<forall>vs. v = JList vs \<longrightarrow> (\<forall>i < length vs. g i (vs ! i) = []))"
  by (simp add: each_item_def concat_enumerate del: concat_eq_Nil_conv split: json.split)

lemma tag_errors_Nil: "tag_errors i v = [] \<longleftrightarrow> (\<forall>vs. v = JList vs \<longrightarrow> (\<forall>x \<in> set vs. \<not> long_string 64 x))"
  by (simp add: tag_errors_def concat_enumerate all_set_conv_all_nth del: concat_eq_Nil_conv split: json.split)

lemma skill_errors_Nil: "skill_errors i v = [] \<longleftrightarrow> (\<forall>s. v = JObj s \<longrightarrow> skill_valid s)"
  by (auto simp: skill_errors_def skill_valid_def filled_def short_field_def tag_errors_Nil dict_get_default split: json.split)

lemma interface_errors_Nil: "interface_errors i v = [] \<longleftrightarrow> (\<forall>s. v = JObj s \<longrightarrow> interface_valid s)"
  by (auto simp: interface_errors_def interface_valid_def filled_def short_field_def split: json.split)

lemma each_skill_Nil:
  assumes "\<And>i x. g i x = [] \<longleftrightarrow> (\<forall>s. x = JObj s \<longrightarrow> P s)"
  shows "each_item g (dict_get d f (JList [])) = [] \<longleftrightarrow> (\<forall>vs s. dict_get d f JNull = JList vs \<longrightarrow> JObj s \<in> set vs \<longrightarrow> P s)"
  unfolding each_item_Nil assms dict_get_default by (auto simp: in_set_conv_nth)

lemma scheme_error_Nil: "scheme_error kv = Some [] \<longleftrightarrow> scheme_valid (snd kv)"
  by (auto simp: scheme_error_def scheme_valid_def Let_def is_instance_def py_type_name_def split: json.split)

lemma all_errors_Nil: "all_errors f xs = Some [] \<longleftrightarrow> (\<forall>x \<in> set xs. f x = Some [])"
  by (induction xs) (auto split: option.split)

lemma scheme_errors_Nil:
  "scheme_errors v = Some [] \<longleftrightarrow> (\<forall>m. v = JObj m \<longrightarrow> length m \<le> 20 \<and> (\<forall>x \<in> snd ` set m. scheme_valid x))"
  by (auto simp: scheme_errors_def all_errors_Nil scheme_error_Nil split: json.split)

lemma provider_errors_Nil:
  "provider_errors v = [] \<longleftrightarrow> (case v of JNull \<Rightarrow> True
     | JObj p \<Rightarrow> list_all (short_field p) [(''url'', 2048), (''organization'', 255)] | _ \<Rightarrow> False)"
  by (auto simp: provider_errors_def short_field_def split: json.split)

text \<open>C35: The validation of an agent card gives no error exactly for a card with a name, fields of their types and
  within their lengths, at most 200 skills and 10 interfaces that are dicts with all required fields,
  and at most 20 security schemes of known types.\<close>

theorem validate_agent_card_correct: "validate_agent_card d = Some [] \<longleftrightarrow> card_valid d"
proof -
  have schemes: "scheme_errors (dict_get d ''security_schemes'' (JObj [])) = Some [] \<longleftrightarrow>
      (\<forall>m. dict_get d ''security_schemes'' JNull = JObj m \<longrightarrow> length m \<le> 20 \<and> (\<forall>v \<in> snd ` set m. scheme_valid v))"
    unfolding scheme_errors_Nil dict_get_default by auto
  have types: "concat (map (\<lambda>(f, t, l). check_type d f t l) cs) = [] \<longleftrightarrow> list_all (typed_field d) cs" for cs
    by (induction cs) (auto simp: typed_field_def)
  show ?thesis
    by (simp add: validate_agent_card_def card_valid_def each_skill_Nil [OF skill_errors_Nil]
        each_skill_Nil [OF interface_errors_Nil] schemes provider_errors_Nil types filled_def short_field_def conj_assoc
        del: concat_eq_Nil_conv)
qed

section \<open>What the encoding of a card leaves\<close>

text \<open>The strings a reader of the card sees, down to the depth limit, and the structure without them.\<close>

fun shown :: "nat \<Rightarrow> json \<Rightarrow> string list" where
  "shown n (JObj d) = (if 20 < n then [] else concat (map (\<lambda>(k, v). shown (Suc n) v) d))"
| "shown n (JList vs) = (if 20 < n then [] else concat (map (shown (Suc n)) vs))"
| "shown n (JStr s) = (if 20 < n then [] else [s])"
| "shown n v = []"

fun skeleton :: "json \<Rightarrow> json" where
  "skeleton (JObj d) = JObj (map (\<lambda>(k, v). (k, skeleton v)) d)"
| "skeleton (JList vs) = JList (map skeleton vs)"
| "skeleton (JStr s) = JStr []"
| "skeleton v = v"

definition harmless :: "string \<Rightarrow> bool" where
  "harmless s \<longleftrightarrow> set s \<inter> {CHR ''<'', CHR ''>'', CHR 0x22, CHR 0x27} = {}"

lemma escape_harmless: "harmless (html_escape s)"
  by (induction s) (auto simp: harmless_def html_escape_def escape_char_def)

lemma py_in_append: "py_in w s \<Longrightarrow> py_in w (x @ s)"
  by (induction x) (auto elim: py_in.elims)

lemma py_in_prefix: "py_in w (w @ y)"
  by (cases "w @ y") (auto simp: py_startswith_def, metis append_eq_conv_conj)

lemma encoded_shown:
  "s \<in> set (shown n (sanitize_card_output n v)) \<Longrightarrow> harmless s \<or> already_encoded s"
  by (induction n v rule: sanitize_card_output.induct) (auto simp: escape_harmless split: if_splits)

lemma encoded_skeleton: "skeleton (sanitize_card_output n v) = skeleton v"
  by (induction n v rule: sanitize_card_output.induct) (auto split: prod.split)

text \<open>The encoding of a card keeps its structure, and every string it leaves within the depth limit has no
  angle brackets and no quotes, or it contained an entity before. That exception is a hole: a text with
  an entity anywhere is passed on as it is, whatever markup is around it.\<close>

theorem card_output_is_encoded:
  "(\<forall>s \<in> set (shown n (sanitize_card_output n v)). harmless s \<or> already_encoded s) \<and>
   skeleton (sanitize_card_output n v) = skeleton v \<and>
   sanitize_card_output 0 (JStr (x @ ''&amp;'' @ y)) = JStr (x @ ''&amp;'' @ y)"
  using encoded_shown encoded_skeleton py_in_append [OF py_in_prefix, of "''&amp;''" x y]
  by (simp add: already_encoded_def)

theorem card_output_is_encoded_witness:
  "harmless ''&lt;b&gt;'' \<or> already_encoded ''&lt;b&gt;''"
  using card_output_is_encoded [of 0 "JStr ''<b>''" "[]" "[]"]
  by (simp add: already_encoded_def html_escape_def escape_char_def py_startswith_def)

text \<open>An agent id may end with a newline, and a card that passes the validation may still make the conversion
  raise: an unknown field of the provider is enough.\<close>

lemma newline_passes: "validate_agent_id p (''agent-1'' @ [CHR 0x0A]) = None"
  by (simp add: validate_agent_id_def validate_id_def AGENT_ID_PATTERN_def alnum_def id_char_def at_end_def)

lemma valid_card_raises:
  assumes "dict_get d ''provider'' JNull = JObj p" "k \<in> fst ` set p" "k \<notin> {''url'', ''organization''}"
  shows "dict_to_agent_card d = None"
proof -
  have "construct AgentProvider p = None"
    using assms(2,3) by (auto simp: construct_def AgentProvider_def)
  then have "construct_if_dict AgentProvider (dict_get d ''provider'' JNull) = None"
    by (simp add: assms(1) construct_if_dict_def)
  then show ?thesis by (simp add: dict_to_agent_card_def split: option.split)
qed
end
