(* ===== verification/CardProps.thy ===== *)
theory CardProps
  imports AgentCards
begin

text \<open>
  Storing an agent card: the conversion to a dict and back. A card read from a dict comes back, with the
  defaults filled in for fields that were \<open>null\<close>; after that it is stable.
\<close>

section \<open>One field\<close>

definition fill :: "json \<Rightarrow> json \<Rightarrow> json" where
  "fill d v = (if v = JNull then d else v)"

lemma fill_null [simp]: "fill JNull v = v"
  by (simp add: fill_def)

lemma fill_fill [simp]: "fill d (fill d v) = fill d v"
  by (simp add: fill_def)

lemma dict_get_present_Cons [simp]:
  "dict_get (present ((k', v) # d)) k x = (if k' = k then fill (dict_get (present d) k x) v else dict_get (present d) k x)"
  by (simp add: present_def fill_def)

lemma dict_get_present_Nil [simp]: "dict_get (present []) k x = x"
  by (simp add: present_def)

lemma json_opt_simps [simp]: "json_opt f None = JNull" "json_opt f (Some v) = f v"
  by (simp_all add: json_opt_def)

section \<open>The stable form of a card\<close>

text \<open>What a card is once it has been stored and read back: defaults for \<open>null\<close>, and no empty OAuth flows.\<close>

definition norm_flat :: "flat \<Rightarrow> flat \<Rightarrow> flat" where
  "norm_flat cls f = map (\<lambda>(k, dflt). (k, fill dflt (dict_get f k dflt))) cls"

definition norm_interface :: "AgentInterface \<Rightarrow> AgentInterface" where
  "norm_interface i =
     i\<lparr>if_url := fill (JStr []) (if_url i), if_binding := fill (JStr ''JSONRPC'') (if_binding i),
       if_version := fill (JStr ''1.0'') (if_version i)\<rparr>"

definition norm_extension :: "AgentExtension \<Rightarrow> AgentExtension" where
  "norm_extension e = e\<lparr>ex_name := fill (JStr []) (ex_name e), ex_url := fill (JStr []) (ex_url e)\<rparr>"

definition norm_capabilities :: "AgentCapabilities \<Rightarrow> AgentCapabilities" where
  "norm_capabilities c = c\<lparr>cap_extensions := map_option (map norm_extension) (cap_extensions c)\<rparr>"

definition norm_requirement :: "SecurityRequirement \<Rightarrow> SecurityRequirement" where
  "norm_requirement r = r\<lparr>sr_schemes := fill (JObj []) (sr_schemes r)\<rparr>"

definition norm_skill :: "AgentSkill \<Rightarrow> AgentSkill" where
  "norm_skill s =
     s\<lparr>sk_id := fill (JStr []) (sk_id s), sk_name := fill (JStr []) (sk_name s),
       sk_description := fill (JStr []) (sk_description s), sk_tags := fill (JList []) (sk_tags s),
       sk_security := map_option (map norm_requirement) (sk_security s), sk_uri_schemes := fill (JList []) (sk_uri_schemes s)\<rparr>"

definition norm_signature :: "AgentCardSignature \<Rightarrow> AgentCardSignature" where
  "norm_signature s =
     s\<lparr>sg_alg := fill (JStr []) (sg_alg s), sg_signature := fill (JStr []) (sg_signature s),
       sg_key_url := fill (JStr []) (sg_key_url s)\<rparr>"

definition norm_flows :: "OAuthFlows \<Rightarrow> OAuthFlows" where
  "norm_flows f =
     \<lparr> fl_authorization_code = map_option (norm_flat AuthorizationCodeOAuthFlow) (fl_authorization_code f),
       fl_client_credentials = map_option (norm_flat ClientCredentialsOAuthFlow) (fl_client_credentials f),
       fl_device_code = map_option (norm_flat DeviceCodeOAuthFlow) (fl_device_code f),
       fl_implicit = map_option (norm_flat ImplicitOAuthFlow) (fl_implicit f),
       fl_password = map_option (norm_flat PasswordOAuthFlow) (fl_password f) \<rparr>"

text \<open>Flows of which none is known come back as no flows.\<close>

definition no_flows :: "OAuthFlows \<Rightarrow> bool" where
  "no_flows f \<longleftrightarrow> fl_authorization_code f = None \<and> fl_client_credentials f = None \<and> fl_device_code f = None \<and>
     fl_implicit f = None \<and> fl_password f = None"

definition norm_oauth2 :: "OAuth2SecurityScheme \<Rightarrow> OAuth2SecurityScheme" where
  "norm_oauth2 a =
     a\<lparr>o2_flows := (case o2_flows a of None \<Rightarrow> None | Some f \<Rightarrow> if no_flows f then None else Some (norm_flows f))\<rparr>"

definition norm_scheme :: "SecurityScheme \<Rightarrow> SecurityScheme" where
  "norm_scheme s =
     s\<lparr>ss_type := fill (JStr []) (ss_type s), ss_api_key := map_option (norm_flat APIKeySecurityScheme) (ss_api_key s),
       ss_http_auth := map_option (norm_flat HTTPAuthSecurityScheme) (ss_http_auth s),
       ss_oauth2 := map_option norm_oauth2 (ss_oauth2 s),
       ss_open_id_connect := map_option (norm_flat OpenIdConnectSecurityScheme) (ss_open_id_connect s),
       ss_mtls := map_option (norm_flat MutualTlsSecurityScheme) (ss_mtls s)\<rparr>"

definition norm_card :: "AgentCard \<Rightarrow> AgentCard" where
  "norm_card c =
     c\<lparr>cd_name := fill (JStr []) (cd_name c), cd_description := fill (JStr []) (cd_description c),
       cd_interfaces := map norm_interface (cd_interfaces c), cd_provider := map_option (norm_flat AgentProvider) (cd_provider c),
       cd_version := fill (JStr ''1.0.0'') (cd_version c), cd_capabilities := norm_capabilities (cd_capabilities c),
       cd_security_schemes := map (\<lambda>(k, s). (k, norm_scheme s)) (cd_security_schemes c),
       cd_security_requirements := map norm_requirement (cd_security_requirements c),
       cd_input_modes := fill text_plain (cd_input_modes c), cd_output_modes := fill text_plain (cd_output_modes c),
       cd_skills := map norm_skill (cd_skills c), cd_signatures := map norm_signature (cd_signatures c)\<rparr>"

section \<open>What the conversion gives\<close>

definition of_class :: "flat \<Rightarrow> flat \<Rightarrow> bool" where
  "of_class cls f \<longleftrightarrow> map fst f = map fst cls"

definition flows_ok :: "OAuthFlows \<Rightarrow> bool" where
  "flows_ok f \<longleftrightarrow> pred_option (of_class AuthorizationCodeOAuthFlow) (fl_authorization_code f) \<and>
     pred_option (of_class ClientCredentialsOAuthFlow) (fl_client_credentials f) \<and>
     pred_option (of_class DeviceCodeOAuthFlow) (fl_device_code f) \<and>
     pred_option (of_class ImplicitOAuthFlow) (fl_implicit f) \<and> pred_option (of_class PasswordOAuthFlow) (fl_password f)"

definition scheme_ok :: "SecurityScheme \<Rightarrow> bool" where
  "scheme_ok s \<longleftrightarrow>
     pred_option (of_class APIKeySecurityScheme) (ss_api_key s) \<and> (ss_api_key s \<noteq> None \<longrightarrow> ss_type s = JStr ''apiKey'') \<and>
     pred_option (of_class HTTPAuthSecurityScheme) (ss_http_auth s) \<and> (ss_http_auth s \<noteq> None \<longrightarrow> ss_type s = JStr ''http'') \<and>
     pred_option (\<lambda>a. pred_option flows_ok (o2_flows a)) (ss_oauth2 s) \<and> (ss_oauth2 s \<noteq> None \<longrightarrow> ss_type s = JStr ''oauth2'') \<and>
     pred_option (of_class OpenIdConnectSecurityScheme) (ss_open_id_connect s) \<and>
     (ss_open_id_connect s \<noteq> None \<longrightarrow> ss_type s = JStr ''openIdConnect'') \<and>
     pred_option (of_class MutualTlsSecurityScheme) (ss_mtls s) \<and> (ss_mtls s \<noteq> None \<longrightarrow> ss_type s = JStr ''mutualTls'')"

definition card_ok :: "AgentCard \<Rightarrow> bool" where
  "card_ok c \<longleftrightarrow> pred_option (of_class AgentProvider) (cd_provider c) \<and> (\<forall>s \<in> snd ` set (cd_security_schemes c). scheme_ok s)"

lemma construct_of_class: "construct cls d = Some f \<Longrightarrow> of_class cls f"
  by (auto simp: construct_def of_class_def o_def case_prod_beta split: if_splits)

lemma construct_if_dict_of_class: "construct_if_dict cls v = Some x \<Longrightarrow> pred_option (of_class cls) x"
  by (auto simp: construct_if_dict_def construct_of_class split: json.splits)

lemma part_of_ok:
  "part_of ty v cls x = Some y \<Longrightarrow> pred_option (of_class cls) y \<and> (y \<noteq> None \<longrightarrow> v = JStr ty)"
  by (auto simp: part_of_def construct_if_dict_of_class split: if_splits)

lemma flows_of_ok: "flows_of v = Some x \<Longrightarrow> pred_option flows_ok x"
  by (auto simp: flows_of_def dict_to_oauth_flows_def flows_ok_def
    split: if_splits json.splits option.splits dest!: construct_if_dict_of_class)

lemma oauth2_of_ok: "oauth2_of v = Some x \<Longrightarrow> pred_option (\<lambda>a. pred_option flows_ok (o2_flows a)) x"
  by (auto simp: oauth2_of_def dest: flows_of_ok split: json.splits)

lemma oauth2_part_ok:
  "oauth2_part v x = Some y \<Longrightarrow> pred_option (\<lambda>a. pred_option flows_ok (o2_flows a)) y \<and> (y \<noteq> None \<longrightarrow> v = JStr ''oauth2'')"
  by (auto simp: oauth2_part_def oauth2_of_ok split: if_splits)

lemma dict_to_scheme_ok: "dict_to_scheme d = Some s \<Longrightarrow> scheme_ok s"
  by (auto simp: dict_to_scheme_def Let_def scheme_ok_def split: option.splits dest!: part_of_ok oauth2_part_ok)

lemma map_all_Some: "map_all f xs = Some ys \<Longrightarrow> y \<in> set ys \<Longrightarrow> \<exists>x \<in> set xs. f x = Some y"
  by (induction xs arbitrary: ys) (auto split: option.splits)

lemma schemes_of_ok: "schemes_of v = Some m \<Longrightarrow> (k, s) \<in> set m \<Longrightarrow> scheme_ok s"
  by (auto simp: schemes_of_def dest!: map_all_Some dict_to_scheme_ok split: if_splits json.splits)

lemma dict_to_agent_card_ok: "dict_to_agent_card d = Some c \<Longrightarrow> card_ok c"
  by (auto simp: dict_to_agent_card_def card_ok_def split: option.splits
    dest!: construct_if_dict_of_class dest: schemes_of_ok)

section \<open>Back from the dict\<close>

lemma json_true_map [simp]: "json_true (JList (map f xs)) = (xs \<noteq> [])"
  by simp

lemma each_dict_json_list:
  assumes "\<And>x. x \<in> set xs \<Longrightarrow> \<exists>d. to x = JObj d \<and> f d = Some (g x)"
  shows "each_dict f (json_list to xs) = Some (map g xs)"
proof -
  have "map_all (\<lambda>x. case x of JObj d \<Rightarrow> f d | _ \<Rightarrow> None) (map to xs) = Some (map g xs)"
    using assms by (induction xs) fastforce+
  then show ?thesis by (simp add: each_dict_def json_list_def)
qed

lemma each_dict_or_empty_json_list:
  assumes "\<And>x. x \<in> set xs \<Longrightarrow> \<exists>d. to x = JObj d \<and> f d = Some (g x)"
  shows "each_dict_or_empty f (json_list to xs) = Some (map g xs)"
  using each_dict_json_list [of xs to f g] assms by (simp add: each_dict_or_empty_def) (simp add: json_list_def)

lemma interface_back: "\<exists>d. interface_to_dict i = JObj d \<and> dict_to_interface d = Some (norm_interface i)"
  by (simp add: interface_to_dict_def dict_to_interface_def norm_interface_def)

lemma extension_back: "\<exists>d. extension_to_dict e = JObj d \<and> dict_to_extension d = Some (norm_extension e)"
  by (simp add: extension_to_dict_def dict_to_extension_def norm_extension_def)

lemma requirement_back: "\<exists>d. requirement_to_dict r = JObj d \<and> dict_to_requirement d = Some (norm_requirement r)"
  by (simp add: requirement_to_dict_def dict_to_requirement_def norm_requirement_def)

lemma signature_back: "\<exists>d. signature_to_dict s = JObj d \<and> dict_to_signature d = Some (norm_signature s)"
  by (simp add: signature_to_dict_def dict_to_signature_def norm_signature_def)

lemma json_list_not_null [simp]: "json_list f xs \<noteq> JNull"
  by (simp add: json_list_def)

lemma requirements_of_back:
  "requirements_of (json_opt (json_list requirement_to_dict) x) = Some (map_option (map norm_requirement) x)"
  by (cases x) (simp_all add: requirements_of_def each_dict_json_list [OF requirement_back])

lemma extensions_of_back:
  "extensions_of (json_opt (json_list extension_to_dict) x) = Some (map_option (map norm_extension) x)"
  by (cases x) (simp_all add: extensions_of_def each_dict_json_list [OF extension_back])

lemma skill_back: "\<exists>d. skill_to_dict s = JObj d \<and> dict_to_skill d = Some (norm_skill s)"
  by (simp add: skill_to_dict_def dict_to_skill_def norm_skill_def requirements_of_back)

lemma capabilities_back: "capabilities_of (capabilities_to_dict c) = Some (norm_capabilities c)"
  by (simp add: capabilities_to_dict_def capabilities_of_def dict_to_capabilities_def norm_capabilities_def extensions_of_back)

lemma construct_back:
  assumes "of_class cls f" "distinct (map fst cls)"
  shows "construct cls (present f) = Some (norm_flat cls f)"
proof -
  have keys: "distinct (map fst f)" using assms by (simp add: of_class_def)
  have "dict_get (present f) k x = fill x (dict_get f k x)" for k x
    using keys by (simp add: dict_get_def map_of_present fill_def split: option.split)
  moreover have "fst ` set (present f) \<subseteq> fst ` set cls"
    using assms(1) by (metis (no_types, lifting) of_class_def filter_is_subset image_mono list.set_map present_def)
  ultimately show ?thesis by (simp add: construct_def norm_flat_def)
qed

lemma class_keys [simp]:
  "distinct (map fst AgentProvider)" "distinct (map fst APIKeySecurityScheme)" "distinct (map fst HTTPAuthSecurityScheme)"
  "distinct (map fst OpenIdConnectSecurityScheme)" "distinct (map fst MutualTlsSecurityScheme)"
  "distinct (map fst AuthorizationCodeOAuthFlow)" "distinct (map fst ClientCredentialsOAuthFlow)"
  "distinct (map fst DeviceCodeOAuthFlow)" "distinct (map fst ImplicitOAuthFlow)" "distinct (map fst PasswordOAuthFlow)"
  by code_simp+

lemma construct_if_dict_back:
  assumes "pred_option (of_class cls) x" "distinct (map fst cls)"
  shows "construct_if_dict cls (json_opt flat_to_dict x) = Some (map_option (norm_flat cls) x)"
  using assms by (cases x) (simp_all add: construct_if_dict_def flat_to_dict_def construct_back)

lemma from_null [simp]: "construct_if_dict cls JNull = Some None" "oauth2_of JNull = Some None"
  by (simp_all add: construct_if_dict_def oauth2_of_def)

lemma flows_back:
  assumes "flows_ok f"
  shows "\<exists>d. flows_to_dict f = JObj d \<and> dict_to_oauth_flows d = Some (norm_flows f) \<and> (d = [] \<longleftrightarrow> no_flows f)"
proof -
  let ?d = "present [(''authorization_code'', json_opt flat_to_dict (fl_authorization_code f)),
    (''client_credentials'', json_opt flat_to_dict (fl_client_credentials f)),
    (''device_code'', json_opt flat_to_dict (fl_device_code f)),
    (''implicit'', json_opt flat_to_dict (fl_implicit f)), (''password'', json_opt flat_to_dict (fl_password f))]"
  have null: "json_opt flat_to_dict x = JNull \<longleftrightarrow> x = None" for x
    by (cases x) (simp_all add: flat_to_dict_def)
  have "dict_to_oauth_flows ?d = Some (norm_flows f)"
    using assms by (simp add: dict_to_oauth_flows_def norm_flows_def flows_ok_def construct_if_dict_back)
  moreover have "?d = [] \<longleftrightarrow> no_flows f"
    unfolding present_def no_flows_def by (simp add: filter_empty_conv null)
  ultimately show ?thesis by (simp add: flows_to_dict_def)
qed

lemma oauth2_back:
  assumes "pred_option flows_ok (o2_flows a)"
  shows "oauth2_of (oauth2_to_dict a) = Some (Some (norm_oauth2 a))"
proof (cases "o2_flows a")
  case None
  then show ?thesis by (simp add: oauth2_to_dict_def oauth2_of_def flows_of_def norm_oauth2_def)
next
  case (Some f)
  with assms obtain d where "flows_to_dict f = JObj d" "dict_to_oauth_flows d = Some (norm_flows f)" "d = [] \<longleftrightarrow> no_flows f"
    using flows_back by auto
  with Some show ?thesis by (simp add: oauth2_to_dict_def oauth2_of_def flows_of_def norm_oauth2_def)
qed

lemma part_of_back:
  assumes "pred_option (of_class cls) x" "distinct (map fst cls)" "x \<noteq> None \<longrightarrow> v = JStr ty"
  shows "part_of ty (fill (JStr []) v) cls (json_opt flat_to_dict x) = Some (map_option (norm_flat cls) x)"
  using assms construct_if_dict_back [OF assms(1,2)] by (cases x) (simp_all add: part_of_def fill_def)

lemma scheme_back:
  assumes "scheme_ok s"
  shows "\<exists>d. scheme_to_dict s = JObj d \<and> dict_to_scheme d = Some (norm_scheme s)"
proof -
  have o2: "oauth2_part (fill (JStr []) (ss_type s)) (json_opt oauth2_to_dict (ss_oauth2 s)) =
      Some (map_option norm_oauth2 (ss_oauth2 s))"
    using assms by (cases "ss_oauth2 s") (auto simp: scheme_ok_def oauth2_back fill_def oauth2_part_def)
  have parts:
    "part_of ''apiKey'' (fill (JStr []) (ss_type s)) APIKeySecurityScheme (json_opt flat_to_dict (ss_api_key s)) =
       Some (map_option (norm_flat APIKeySecurityScheme) (ss_api_key s))"
    "part_of ''http'' (fill (JStr []) (ss_type s)) HTTPAuthSecurityScheme (json_opt flat_to_dict (ss_http_auth s)) =
       Some (map_option (norm_flat HTTPAuthSecurityScheme) (ss_http_auth s))"
    "part_of ''openIdConnect'' (fill (JStr []) (ss_type s)) OpenIdConnectSecurityScheme (json_opt flat_to_dict (ss_open_id_connect s)) =
       Some (map_option (norm_flat OpenIdConnectSecurityScheme) (ss_open_id_connect s))"
    "part_of ''mutualTls'' (fill (JStr []) (ss_type s)) MutualTlsSecurityScheme (json_opt flat_to_dict (ss_mtls s)) =
       Some (map_option (norm_flat MutualTlsSecurityScheme) (ss_mtls s))"
    using assms by (simp_all add: scheme_ok_def part_of_back)
  show ?thesis
    by (simp add: scheme_to_dict_def dict_to_scheme_def norm_scheme_def Let_def parts o2)
qed

lemma schemes_back:
  assumes "\<forall>s \<in> snd ` set m. scheme_ok s"
  shows "schemes_of (JObj (map (\<lambda>(k, s). (k, scheme_to_dict s)) m)) = Some (map (\<lambda>(k, s). (k, norm_scheme s)) m)"
proof -
  have "map_all (\<lambda>(k, x). case x of JObj m \<Rightarrow> map_option (Pair k) (dict_to_scheme m) | _ \<Rightarrow> None)
      (map (\<lambda>(k, s). (k, scheme_to_dict s)) m) = Some (map (\<lambda>(k, s). (k, norm_scheme s)) m)"
    using assms
  proof (induction m)
    case (Cons ks m)
    obtain k s where ks: "ks = (k, s)" by fastforce
    obtain d where "scheme_to_dict s = JObj d" "dict_to_scheme d = Some (norm_scheme s)"
      using Cons.prems scheme_back by (auto simp: ks)
    with Cons show ?case by (simp add: ks)
  qed simp
  then show ?thesis by (auto simp: schemes_of_def)
qed

lemma card_back:
  assumes "card_ok c"
  shows "dict_to_agent_card (card_to_dict c) = Some (norm_card c)"
proof -
  have caps: "fill (JObj []) (capabilities_to_dict x) = capabilities_to_dict x" for x
    by (simp add: capabilities_to_dict_def fill_def)
  have "skills_raw (card_to_dict c) = json_list skill_to_dict (cd_skills c)"
    by (simp add: skills_raw_def card_to_dict_def json_list_def)
  moreover have "requirements_of (json_list requirement_to_dict x) = Some (Some (map norm_requirement x))" for x
    using requirements_of_back [of "Some x"] by simp
  ultimately show ?thesis
    using assms unfolding dict_to_agent_card_def
    by (simp add: card_ok_def card_to_dict_def caps capabilities_back construct_if_dict_back schemes_back norm_card_def
      each_dict_or_empty_json_list [OF interface_back] each_dict_or_empty_json_list [OF skill_back]
      each_dict_or_empty_json_list [OF signature_back])
qed

section \<open>Stability\<close>

lemma dict_get_norm_flat:
  assumes "distinct (map fst cls)" "(k, dflt) \<in> set cls"
  shows "dict_get (norm_flat cls f) k x = fill dflt (dict_get f k dflt)"
proof -
  have "distinct (map fst (norm_flat cls f))"
    using assms(1) by (simp add: norm_flat_def o_def case_prod_beta)
  moreover have "(k, fill dflt (dict_get f k dflt)) \<in> set (norm_flat cls f)"
    using assms(2) by (force simp: norm_flat_def)
  ultimately show ?thesis by (simp add: dict_get_def)
qed

lemma norm_flat_stable [simp]:
  assumes "distinct (map fst cls)"
  shows "norm_flat cls (norm_flat cls f) = norm_flat cls f"
proof -
  have "fill dflt (dict_get (norm_flat cls f) k dflt) = fill dflt (dict_get f k dflt)" if "(k, dflt) \<in> set cls" for k dflt
    using assms that by (simp add: dict_get_norm_flat)
  then show ?thesis
    unfolding norm_flat_def [of cls "norm_flat cls f"] unfolding norm_flat_def [of cls f, symmetric]
    by (auto simp: norm_flat_def [of cls f])
qed

lemma norm_flat_class [simp]: "of_class cls (norm_flat cls f)"
  by (simp add: norm_flat_def of_class_def o_def case_prod_beta)

lemma no_flows_norm [simp]: "no_flows (norm_flows f) = no_flows f"
  by (simp add: no_flows_def norm_flows_def)

lemma map_stable: "(\<And>x. g (g x) = g x) \<Longrightarrow> map g (map g xs) = map g xs"
  by simp

lemma norm_stable:
  "norm_interface (norm_interface i) = norm_interface i" "norm_extension (norm_extension e) = norm_extension e"
  "norm_requirement (norm_requirement r) = norm_requirement r" "norm_signature (norm_signature s) = norm_signature s"
  by (simp_all add: norm_interface_def norm_extension_def norm_requirement_def norm_signature_def)

lemma norm_parts_stable:
  "norm_capabilities (norm_capabilities c) = norm_capabilities c" "norm_skill (norm_skill k) = norm_skill k"
  by (simp_all add: norm_capabilities_def norm_skill_def option.map_comp o_def norm_stable)

lemma norm_flows_stable [simp]: "norm_flows (norm_flows f) = norm_flows f"
  by (simp add: norm_flows_def option.map_comp o_def)

lemma norm_oauth2_stable [simp]: "norm_oauth2 (norm_oauth2 a) = norm_oauth2 a"
  by (cases "o2_flows a") (simp_all add: norm_oauth2_def)

lemma norm_scheme_stable: "norm_scheme (norm_scheme s) = norm_scheme s"
  by (simp add: norm_scheme_def option.map_comp o_def)

lemma norm_card_stable: "norm_card (norm_card c) = norm_card c"
  by (simp add: norm_card_def norm_stable norm_parts_stable norm_scheme_stable option.map_comp o_def case_prod_beta)

lemma flows_ok_norm: "flows_ok (norm_flows f)"
  by (simp add: flows_ok_def norm_flows_def option.pred_map o_def option.pred_True)

lemma scheme_ok_norm: "scheme_ok s \<Longrightarrow> scheme_ok (norm_scheme s)"
  by (auto simp: scheme_ok_def norm_scheme_def norm_oauth2_def option.pred_map o_def fill_def option.pred_True flows_ok_norm
    pred_option_def split: option.splits if_splits)

lemma card_ok_norm: "card_ok c \<Longrightarrow> card_ok (norm_card c)"
  by (auto simp: card_ok_def norm_card_def option.pred_map o_def option.pred_True scheme_ok_norm)

text \<open>C36: A card that was read from a dict survives being stored, with two exceptions: fields that were \<open>null\<close>
  are read back with their defaults, and an OAuth scheme whose flows name no known flow, such as
  \<open>{"flows": {"foo": {}}}\<close>, is read back without flows. From then on the card does not change any more, and
  its interfaces, skills and signatures in number, and its security schemes by name, are all kept.\<close>

theorem stored_card_is_stable:
  assumes "dict_to_agent_card d = Some c"
  shows "\<exists>c'. dict_to_agent_card (card_to_dict c) = Some c' \<and> dict_to_agent_card (card_to_dict c') = Some c' \<and>
    c' = norm_card c \<and>
    length (cd_interfaces c') = length (cd_interfaces c) \<and> length (cd_skills c') = length (cd_skills c) \<and>
    length (cd_signatures c') = length (cd_signatures c) \<and>
    map fst (cd_security_schemes c') = map fst (cd_security_schemes c)"
proof -
  have ok: "card_ok c" using assms by (rule dict_to_agent_card_ok)
  have "dict_to_agent_card (card_to_dict (norm_card c)) = Some (norm_card c)"
    using card_back [OF card_ok_norm [OF ok]] by (simp add: norm_card_stable)
  with card_back [OF ok] show ?thesis
    by (simp add: norm_card_def o_def case_prod_beta)
qed

definition demo_card :: "(string \<times> json) list" where
  "demo_card =
     [(''name'', JNull), (''provider'', JObj [(''url'', JStr ''http://x'')]),
      (''skills'', JList [JObj [(''id'', JStr ''s''), (''tags'', JNull)]]),
      (''security_schemes'', JObj [(''o'', JObj [(''scheme_type'', JStr ''oauth2''), (''oauth2'', JObj
         [(''flows'', JObj [(''implicit'', JObj [(''scopes'', JObj [])])])])])])]"

theorem stored_card_is_stable_witness:
  "\<exists>c. dict_to_agent_card demo_card = Some c \<and> cd_name c = JNull \<and>
     (\<exists>c'. dict_to_agent_card (card_to_dict c) = Some c' \<and> dict_to_agent_card (card_to_dict c') = Some c')"
proof -
  have "case dict_to_agent_card demo_card of None \<Rightarrow> False | Some c \<Rightarrow> cd_name c = JNull"
    by code_simp
  then obtain c where "dict_to_agent_card demo_card = Some c" "cd_name c = JNull"
    by (auto split: option.splits)
  with stored_card_is_stable [OF this(1)] show ?thesis by blast
qed

end
