(* ===== verification/AgentLink.thy ===== *)
theory AgentLink
  imports Dispatcher AgentRegistry Envelope
begin

text \<open>
  The messages of connected agents: the handlers of \<open>registry_handler.py\<close>. The registry keeps the
  tasks of its agents as dicts in memory, next to the task store; an open WebSocket is a number, and
  what is sent over it is recorded. A message whose id is not a string is outside the model
  (\<open>Outside\<close>), and so is a result that is no column value; a handler that raises ends the connection
  (\<open>Broken\<close>). Each handler reads the clock once. \<open>le_closed\<close> tells the closed WebSockets; sending over
  an open one succeeds.
\<close>

section \<open>State\<close>

type_synonym link_task = "(string \<times> json) list"

record link_state =
  ln_tasks :: "(string \<times> link_task) list"
  ln_conns :: "(string \<times> nat) list"
  ln_timers :: "string list"
  ln_dangling :: "string list"
  ln_sync_at :: "(string \<times> rat) list"
  ln_store :: "task_db option"
  ln_dispatched :: "(string \<times> string) list option"
  ln_registry :: registry_db
  ln_sent :: "(nat \<times> json) list"
  ln_progress :: "(string \<times> json \<times> json) list"

text \<open>Floats in JSON, \<open>float(v)\<close>, \<open>str\<close> of a result, and the two roundings of the rate limit's answer.\<close>

record link_env =
  le_num :: "rat \<Rightarrow> json"
  le_float :: "json \<Rightarrow> rat option"
  le_py_str :: "task_result \<Rightarrow> string"
  le_round0 :: "rat \<Rightarrow> string"
  le_round1 :: "rat \<Rightarrow> json"
  le_broadcast :: bool
  le_closed :: "nat \<Rightarrow> bool"

datatype ws_result = Done | Closing | Broken | Outside

type_synonym ws_handler = "link_env \<Rightarrow> rat \<Rightarrow> string \<Rightarrow> nat \<Rightarrow> (string \<times> json) list \<Rightarrow> link_state \<Rightarrow> ws_result \<times> link_state"

definition send_json :: "nat \<Rightarrow> (string \<times> json) list \<Rightarrow> link_state \<Rightarrow> link_state" where
  "send_json c m s = s\<lparr>ln_sent := ln_sent s @ [(c, JObj m)]\<rparr>"

definition put_task :: "string \<Rightarrow> link_task \<Rightarrow> link_state \<Rightarrow> link_state" where
  "put_task i t s = s\<lparr>ln_tasks := dict_put i t (ln_tasks s)\<rparr>"

definition task_field :: "link_task \<Rightarrow> string \<Rightarrow> json" where
  "task_field t k = dict_get t k JNull"

section \<open>Timers\<close>

definition cancel_task_timeout :: "string \<Rightarrow> link_state \<Rightarrow> link_state" where
  "cancel_task_timeout i s = s\<lparr>ln_timers := removeAll i (ln_timers s)\<rparr>"

definition schedule_task_timeout :: "string \<Rightarrow> link_state \<Rightarrow> link_state" where
  "schedule_task_timeout i s =
     (let s1 = cancel_task_timeout i s in
      if map_of (ln_tasks s1) i = None then s1 else s1\<lparr>ln_timers := ln_timers s1 @ [i]\<rparr>)"

definition reset_task_timeout :: "string \<Rightarrow> link_state \<Rightarrow> link_state" where
  "reset_task_timeout = schedule_task_timeout"

definition cancel_dangling_timer :: "string \<Rightarrow> link_state \<Rightarrow> link_state" where
  "cancel_dangling_timer a s = s\<lparr>ln_dangling := removeAll a (ln_dangling s)\<rparr>"

section \<open>The task store behind\<close>

text \<open>A status update whose exceptions are logged, and whether it went through.\<close>

definition quiet_status :: "int \<Rightarrow> string \<Rightarrow> string \<Rightarrow> string option \<Rightarrow> link_state \<Rightarrow> bool \<times> link_state" where
  "quiet_status now i st res s =
     (case ln_store s of
        None \<Rightarrow> (False, s)
      | Some db \<Rightarrow>
          (case update_task_status now i st None res None [] db of
             (Inl e, db') \<Rightarrow> (False, s\<lparr>ln_store := Some db'\<rparr>)
           | (Inr v, db') \<Rightarrow> (True, s\<lparr>ln_store := Some db'\<rparr>)))"

text \<open>Whether a task was sent over a WebSocket by the dispatcher.\<close>

definition was_dispatched :: "string \<Rightarrow> link_state \<Rightarrow> bool" where
  "was_dispatched i s =
     (ln_store s \<noteq> None \<and> (case ln_dispatched s of None \<Rightarrow> False | Some d \<Rightarrow> map_of d i \<noteq> None))"

text \<open>A result the store can take: nothing, a text or a dict.\<close>

definition result_of :: "json \<Rightarrow> task_result option" where
  "result_of v =
     (case v of
        JNull \<Rightarrow> Some ResNone | JStr x \<Rightarrow> Some (ResStr x) | JObj d \<Rightarrow> Some (ResDict (dumps plain_opts (JObj d))) | _ \<Rightarrow> None)"

definition error_of :: "json \<Rightarrow> string option option" where
  "error_of v = (case v of JNull \<Rightarrow> Some None | JStr x \<Rightarrow> Some (Some x) | _ \<Rightarrow> None)"

text \<open>The handlers pass no flow controller on: no permit is given back.\<close>

definition reconcile :: "link_env \<Rightarrow> int \<Rightarrow> string \<Rightarrow> json \<Rightarrow> json \<Rightarrow> json \<Rightarrow> link_state \<Rightarrow> ws_result \<times> link_state" where
  "reconcile E now i st res err s =
     (if \<not> was_dispatched i s then (Done, s)
      else if st = JStr (status_value RUNNING) then (Done, snd (quiet_status now i (status_value RUNNING) None s))
      else if st = JStr (status_value COMPLETED) \<or> st = JStr ''success''
      then (case result_of res of
              None \<Rightarrow> (Outside, s)
            | Some r \<Rightarrow> (Done, snd (quiet_status now i (status_value COMPLETED) (result_text r) s)))
      else if st = JStr (status_value FAILED) \<or> st = JStr ''error''
      then (case (result_of res, if json_true res then error_of err else Some None) of
              (Some r, Some e) \<Rightarrow>
                (Done, snd (quiet_status now i (status_value FAILED) (Some (failure_text (le_py_str E) e r)) s))
            | _ \<Rightarrow> (Outside, s))
      else (Done, s))"

section \<open>Reading a message\<close>

text \<open>The id of a message: without one the handler returns, and another value is outside the model.\<close>

definition with_id :: "(string \<times> json) list \<Rightarrow> (string \<Rightarrow> link_state \<Rightarrow> ws_result \<times> link_state) \<Rightarrow> link_state
    \<Rightarrow> ws_result \<times> link_state" where
  "with_id d f s =
     (let v = dict_get d ''id'' (JStr []) in
      if \<not> json_true v then (Done, s) else (case v of JStr i \<Rightarrow> f i s | _ \<Rightarrow> (Outside, s)))"

text \<open>\<open>f\<close> after a reconciliation that is inside the model.\<close>

definition then_do :: "ws_result \<times> link_state \<Rightarrow> (link_state \<Rightarrow> link_state) \<Rightarrow> ws_result \<times> link_state" where
  "then_do r f = (case r of (Done, s) \<Rightarrow> (Done, f s) | _ \<Rightarrow> r)"

text \<open>Change the task if it is there, else create it.\<close>

definition update_or_create ::
  "string \<Rightarrow> (link_task \<Rightarrow> link_task) \<Rightarrow> link_task \<Rightarrow> link_state \<Rightarrow> link_state" where
  "update_or_create i f new s =
     put_task i (case map_of (ln_tasks s) i of None \<Rightarrow> new | Some t \<Rightarrow> f t) s"

section \<open>Acknowledgement, progress, results\<close>

definition handle_task_ack :: ws_handler where
  "handle_task_ack E now a c d =
     with_id d (\<lambda>i s.
       let t = le_num E now; st = dict_get d ''status'' (JStr ''accepted''); began = dict_get d ''started_at'' t in
       then_do
         (reconcile E \<lfloor>now\<rfloor> i (JStr (status_value RUNNING)) JNull JNull
           (update_or_create i (put_all [(''state'', st), (''started_at'', began), (''updated_at'', t)])
             [(''id'', JStr i), (''agent_id'', JStr a), (''state'', st), (''result'', JNull), (''error'', JNull),
              (''started_at'', began), (''created_at'', t), (''updated_at'', t)] s))
         (reset_task_timeout i))"

text \<open>The broadcast of progress needs a number; its exceptions are swallowed.\<close>

definition broadcast_progress :: "link_env \<Rightarrow> string \<Rightarrow> (string \<times> json) list \<Rightarrow> link_state \<Rightarrow> link_state" where
  "broadcast_progress E i d s =
     (if \<not> le_broadcast E then s
      else (case le_float E (dict_get d ''progress'' (JInt 0)) of
              None \<Rightarrow> s
            | Some q \<Rightarrow> s\<lparr>ln_progress := ln_progress s @
                [(i, le_num E q, JObj [(''message'', dict_get d ''message'' JNull),
                                       (''status'', dict_get d ''status'' (JStr ''working''))])]\<rparr>))"

definition handle_task_progress :: ws_handler where
  "handle_task_progress E now a c d =
     with_id d (\<lambda>i s.
       let t = le_num E now; st = dict_get d ''status'' (JStr ''working'');
           p = dict_get d ''progress'' JNull; m = dict_get d ''message'' JNull in
       (Done,
        broadcast_progress E i d
          (reset_task_timeout i
            (update_or_create i
              (put_all ([(''state'', st), (''updated_at'', t)] @ (if p \<noteq> JNull then [(''progress'', p)] else []) @
                 (if json_true m then [(''message'', m)] else [])))
              [(''id'', JStr i), (''agent_id'', JStr a), (''state'', st), (''progress'', p), (''message'', m),
               (''result'', JNull), (''error'', JNull), (''created_at'', t), (''updated_at'', t)] s))))"

definition handle_task_complete :: ws_handler where
  "handle_task_complete E now a c d =
     with_id d (\<lambda>i s.
       let t = le_num E now; res = dict_get d ''result'' (JObj []); m = dict_get d ''metrics'' JNull in
       then_do
         (reconcile E \<lfloor>now\<rfloor> i (JStr (status_value COMPLETED)) (dict_get d ''result'' JNull) JNull
           (update_or_create i
             (put_all [(''state'', JStr ''completed''), (''result'', res), (''error'', JNull), (''metrics'', m), (''updated_at'', t)])
             [(''id'', JStr i), (''agent_id'', JStr a), (''state'', JStr ''completed''), (''result'', res), (''error'', JNull),
              (''metrics'', m), (''created_at'', t), (''updated_at'', t)] s))
         (cancel_task_timeout i))"

definition handle_task_fail :: ws_handler where
  "handle_task_fail E now a c d =
     with_id d (\<lambda>i s.
       let t = le_num E now; err = dict_get d ''error'' (JStr ''Unknown error''); code = dict_get d ''code'' (JStr []) in
       then_do
         (reconcile E \<lfloor>now\<rfloor> i (JStr (status_value FAILED)) JNull err
           (update_or_create i
             (put_all [(''state'', JStr ''failed''), (''error'', err), (''error_code'', code), (''updated_at'', t)])
             [(''id'', JStr i), (''agent_id'', JStr a), (''state'', JStr ''failed''), (''error'', err), (''error_code'', code),
              (''result'', JNull), (''created_at'', t), (''updated_at'', t)] s))
         (cancel_task_timeout i))"

definition handle_task_result :: ws_handler where
  "handle_task_result E now a c d =
     with_id d (\<lambda>i s.
       let t = le_num E now; st = dict_get d ''status'' (JStr ''completed''); res = dict_get d ''result'' (JObj []);
           err = dict_get d ''error'' JNull in
       then_do
         (reconcile E \<lfloor>now\<rfloor> i st (dict_get d ''result'' JNull) err
           (update_or_create i (put_all [(''state'', st), (''result'', res), (''error'', err), (''updated_at'', t)])
             [(''id'', JStr i), (''agent_id'', JStr a), (''state'', st), (''result'', res), (''error'', err),
              (''created_at'', t), (''updated_at'', t)] s))
         (cancel_task_timeout i))"

section \<open>Ping\<close>

definition finished_for_ping :: "json \<Rightarrow> bool" where
  "finished_for_ping st = (st \<in> {JStr ''completed'', JStr ''failed'', JStr ''canceled''})"

definition pending_tasks :: "string \<Rightarrow> (string \<times> link_task) list \<Rightarrow> json list" where
  "pending_tasks a ts =
     map (\<lambda>(i, t). JObj [(''id'', JStr i), (''title'', dict_get t ''title'' (JStr [])), (''state'', dict_get t ''state'' (JStr [])),
                         (''progress'', task_field t ''progress''), (''body'', dict_get t ''body'' (JStr []))])
       (filter (\<lambda>(i, t). str_true a \<and> dict_get t ''agent_id'' (JStr []) = JStr a \<and>
                         \<not> finished_for_ping (dict_get t ''state'' (JStr []))) ts)"

text \<open>The handler of the router; the listen loop answers a ping itself.\<close>

text \<open>A list or dict as \<open>active_task\<close> cannot be a key.\<close>

definition no_key :: "json \<Rightarrow> bool" where
  "no_key v = (case v of JList js \<Rightarrow> js \<noteq> [] | JObj m \<Rightarrow> m \<noteq> [] | _ \<Rightarrow> False)"

definition note_active :: "link_env \<Rightarrow> rat \<Rightarrow> (string \<times> json) list \<Rightarrow> link_state \<Rightarrow> link_state" where
  "note_active E now d s =
     (case dict_get d ''active_task'' JNull of
        JStr i \<Rightarrow>
          (case map_of (ln_tasks s) i of
             None \<Rightarrow> s
           | Some t \<Rightarrow>
               if i = [] then s
               else (let st = dict_get d ''task_status'' JNull; p = dict_get d ''task_progress'' JNull in
                     put_task i (put_all ((if json_true st then [(''state'', st)] else []) @
                       (if p \<noteq> JNull then [(''progress'', p)] else []) @ [(''updated_at'', le_num E now)]) t) s))
      | _ \<Rightarrow> s)"

definition handle_ping :: ws_handler where
  "handle_ping E now a c d s =
     (if no_key (dict_get d ''active_task'' JNull) then (Broken, s)
      else
        (let s1 = note_active E now d s in
         (Done, send_json c [(''type'', JStr ''pong''), (''ts'', JInt \<lfloor>now\<rfloor>),
                             (''pending_tasks'', JList (pending_tasks a (ln_tasks s1)))] s1)))"

section \<open>State synchronisation\<close>

definition STATE_SYNC_COOLDOWN :: rat where
  "STATE_SYNC_COOLDOWN = 30"

text \<open>\<open>None\<close> lets the message through and notes the time; otherwise the seconds to wait.\<close>

definition check_state_sync_rate_limit :: "rat \<Rightarrow> string \<Rightarrow> link_state \<Rightarrow> rat option \<times> link_state" where
  "check_state_sync_rate_limit now a s =
     (let seen = the_default 0 (map_of (ln_sync_at s) a); elapsed = now - seen in
      if elapsed < STATE_SYNC_COOLDOWN \<and> 0 < seen then (Some (STATE_SYNC_COOLDOWN - elapsed), s)
      else (None, s\<lparr>ln_sync_at := dict_put a now (ln_sync_at s)\<rparr>))"

text \<open>The reported tasks: dicts, whose ids are strings where they have one.\<close>

definition reported_task :: "json \<Rightarrow> (string option \<times> (string \<times> json) list) option" where
  "reported_task v =
     (case v of
        JObj t \<Rightarrow> (case map_of t ''id'' of None \<Rightarrow> Some (None, t) | Some (JStr i) \<Rightarrow> Some (Some i, t) | _ \<Rightarrow> None)
      | _ \<Rightarrow> None)"

fun all_reported :: "json list \<Rightarrow> (string option \<times> (string \<times> json) list) list option" where
  "all_reported [] = Some []"
| "all_reported (v # vs) =
     (case (reported_task v, all_reported vs) of (Some t, Some ts) \<Rightarrow> Some (t # ts) | _ \<Rightarrow> None)"

definition active_reports :: "(string \<times> json) list \<Rightarrow> (string option \<times> (string \<times> json) list) list option" where
  "active_reports d = (case dict_get d ''active_tasks'' (JList []) of JList vs \<Rightarrow> all_reported vs | _ \<Rightarrow> None)"

text \<open>The stored tasks that were sent to the agent: id, status and result.\<close>

definition db_dispatched :: "string \<Rightarrow> link_state \<Rightarrow> (string \<times> string \<times> string option) list" where
  "db_dispatched a s =
     (case (ln_store s, ln_dispatched s) of
        (Some db, Some sent) \<Rightarrow>
          concat (map (\<lambda>(i, asg). if asg \<noteq> a then []
              else (case get_task i db of None \<Rightarrow> [] | Some v \<Rightarrow> [(i, status (task_of v), result (task_of v))])) sent)
      | _ \<Rightarrow> [])"

definition restore_missing :: "link_env \<Rightarrow> rat \<Rightarrow> string \<Rightarrow> (string \<times> string \<times> string option) list \<Rightarrow> link_state \<Rightarrow> link_state" where
  "restore_missing E now a rows s =
     fold (\<lambda>(i, st, res) s.
       if map_of (ln_tasks s) i = None \<and> st \<notin> {''completed'', ''failed''}
       then put_task i [(''id'', JStr i), (''agent_id'', JStr a), (''state'', JStr st), (''result'', JNull), (''error'', JNull),
                        (''created_at'', le_num E now), (''updated_at'', le_num E now)] s
       else s) rows s"

definition finished_report :: "json \<Rightarrow> bool" where
  "finished_report st = (st \<in> JStr ` {''completed'', ''failed'', ''success'', ''done''})"

definition merge_report :: "link_env \<Rightarrow> rat \<Rightarrow> string \<Rightarrow> string \<Rightarrow> json \<Rightarrow> (string \<times> json) list \<Rightarrow> link_state \<Rightarrow> link_state" where
  "merge_report E now a i st t s =
     (case map_of (ln_tasks s) i of
        Some u \<Rightarrow> put_task i (put_all [(''state'', st), (''updated_at'', le_num E now)] u) s
      | None \<Rightarrow>
          if finished_report st then s
          else put_task i [(''id'', JStr i), (''agent_id'', JStr a), (''state'', st),
                 (''started_at'', dict_get t ''started_at'' (le_num E now)), (''result'', JNull), (''error'', JNull),
                 (''created_at'', le_num E now), (''updated_at'', le_num E now)] s)"

text \<open>A task the store holds as dangling runs again when its agent reports it active.\<close>

definition heal_report :: "rat \<Rightarrow> string \<Rightarrow> json \<Rightarrow> link_state \<Rightarrow> bool \<times> link_state" where
  "heal_report now i st s =
     (case ln_store s of
        None \<Rightarrow> (False, s)
      | Some db \<Rightarrow>
          if st \<in> JStr ` {''working'', ''running'', ''accepted''} \<and> was_dispatched i s \<and>
             map_option (\<lambda>v. status (task_of v)) (get_task i db) = Some (status_value DANGLING)
          then quiet_status \<lfloor>now\<rfloor> i (status_value RUNNING) None s
          else (False, s))"

definition merge_reports ::
  "link_env \<Rightarrow> rat \<Rightarrow> string \<Rightarrow> (string option \<times> (string \<times> json) list) list \<Rightarrow> nat \<times> link_state \<Rightarrow> nat \<times> link_state" where
  "merge_reports E now a ts ns =
     fold (\<lambda>(i, t) (n, s).
       (case i of
          None \<Rightarrow> (n, s)
        | Some i \<Rightarrow>
            (let st = dict_get t ''status'' JNull in
             if i = [] \<or> \<not> json_true st then (n, s)
             else (case heal_report now i st (merge_report E now a i st t s) of
                     (healed, s') \<Rightarrow> (if healed then Suc n else n, s'))))) ts ns"

text \<open>The finished tasks the agent does not know of, from memory and then from the store.\<close>

definition orphan_replies :: "string \<Rightarrow> string list \<Rightarrow> (string \<times> link_task) list \<Rightarrow> (string \<times> json) list" where
  "orphan_replies a known ts =
     map (\<lambda>(i, t). (i, JObj [(''id'', JStr i), (''status'', dict_get t ''state'' (JStr [])), (''result'', task_field t ''result''),
                          (''error'', task_field t ''error'')]))
       (filter (\<lambda>(i, t). task_field t ''agent_id'' = JStr a \<and> i \<notin> set known \<and>
                         dict_get t ''state'' (JStr []) \<in> {JStr ''completed'', JStr ''failed''}) ts)"

definition stored_orphans :: "string list \<Rightarrow> (string \<times> string \<times> string option) list \<Rightarrow> json list" where
  "stored_orphans known rows =
     map (\<lambda>(i, st, res). JObj [(''id'', JStr i), (''status'', JStr st), (''result'', json_opt_str res), (''error'', JNull)])
       (filter (\<lambda>(i, st, res). i \<notin> set known \<and> st \<in> {''completed'', ''failed''}) rows)"

text \<open>A report without an id that says completed breaks the log line behind it.\<close>

definition nameless_completed :: "(string option \<times> (string \<times> json) list) list \<Rightarrow> bool" where
  "nameless_completed ts =
     list_ex (\<lambda>(i, t). i = None \<and> dict_get t ''status'' JNull \<in> JStr ` {''completed'', ''success'', ''done''}) ts"

definition sync_error :: "nat \<Rightarrow> string \<Rightarrow> (string \<times> json) list \<Rightarrow> link_state \<Rightarrow> ws_result \<times> link_state" where
  "sync_error c msg extra s = (Done, send_json c ([(''type'', JStr ''error''), (''detail'', JStr msg)] @ extra) s)"

definition sync_tasks :: "link_env \<Rightarrow> rat \<Rightarrow> string \<Rightarrow> nat \<Rightarrow> (string \<times> json) list \<Rightarrow> link_state \<Rightarrow> ws_result \<times> link_state" where
  "sync_tasks E now a c d s =
     (case active_reports d of
        None \<Rightarrow> (Outside, s)
      | Some ts \<Rightarrow>
          (let known = List.map_filter fst ts;
               rows = db_dispatched a s;
               (n, s1) = merge_reports E now a ts (0, restore_missing E now a rows s);
               s2 = (if n > 0 then cancel_dangling_timer a s1 else s1);
               mem = orphan_replies a known (ln_tasks s2)
           in if nameless_completed ts then (Broken, s2)
              else (Done, send_json c [(''type'', JStr ''state_sync_reply''),
                      (''orphaned_tasks'', JList (map snd mem @ stored_orphans (known @ map fst mem) rows))] s2)))"

definition accept_sync :: ws_handler where
  "accept_sync E now a c d s =
     (case check_state_sync_rate_limit now a s of
        (Some wait, s1) \<Rightarrow>
          sync_error c (''state_sync rate limited: retry after '' @ le_round0 E wait @ ''s'')
            [(''retry_after'', le_round1 E wait)] s1
      | (None, s1) \<Rightarrow>
          (case AgentRegistry.get_agent now a None (ln_registry s1) of
             None \<Rightarrow> sync_error c (''Agent '' @ quoted a @ '' is not registered'') [] s1
           | Some ag \<Rightarrow>
               if json_true (dict_get ag ''disabled'' (JBool False))
               then sync_error c (''Agent '' @ quoted a @ '' is disabled'') [] s1
               else sync_tasks E now a c d s1))"

definition handle_state_sync :: ws_handler where
  "handle_state_sync E now a c d s =
     (let v = dict_get d ''agent_id'' (JStr []) in
      if \<not> json_true v \<or> v = JStr a then accept_sync E now a c d s
      else (case v of
              JStr claimed \<Rightarrow>
                sync_error c (''state_sync agent_id '' @ quoted claimed @ '' does not match connection owner '' @ quoted a) [] s
            | _ \<Rightarrow> (Outside, s)))"

section \<open>The router\<close>

definition handle_close :: ws_handler where
  "handle_close E now a c d s = (Done, s)"

definition handle_job_subtask_result :: ws_handler where
  "handle_job_subtask_result E now a c d s = (Done, s)"

text \<open>The handlers the default router registers, but for the answers of synchronous calls.\<close>

definition create_default_router :: "(string \<times> ws_handler) list" where
  "create_default_router =
     [(''ping'', handle_ping), (''task_ack'', handle_task_ack), (''task_progress'', handle_task_progress),
      (''task_complete'', handle_task_complete), (''task_fail'', handle_task_fail), (''task_result'', handle_task_result),
      (''state_sync'', handle_state_sync), (''close'', handle_close), (''job_subtask_result'', handle_job_subtask_result)]"

definition get_ws_handler :: "string \<Rightarrow> ws_handler option" where
  "get_ws_handler ty = map_of create_default_router ty"

text \<open>The routing of the class itself, which the listen loop of the server does not use: an exception is logged.\<close>

definition register_handler :: "string \<Rightarrow> ws_handler \<Rightarrow> (string \<times> ws_handler) list \<Rightarrow> (string \<times> ws_handler) list" where
  "register_handler ty h r = dict_put ty h r"

definition unregister_handler :: "string \<Rightarrow> (string \<times> ws_handler) list \<Rightarrow> (string \<times> ws_handler) list" where
  "unregister_handler ty r = filter (\<lambda>kv. fst kv \<noteq> ty) r"

definition route_message :: "(string \<times> ws_handler) list \<Rightarrow> ws_handler" where
  "route_message r E now a c d s =
     (case dict_get d ''type'' (JStr []) of
        JStr ty \<Rightarrow>
          (case map_of r ty of
             None \<Rightarrow> (Done, s)
           | Some h \<Rightarrow> (case h E now a c d s of (Broken, s') \<Rightarrow> (Done, s') | x \<Rightarrow> x))
      | JList js \<Rightarrow> (Broken, s)
      | JObj m \<Rightarrow> (Broken, s)
      | _ \<Rightarrow> (Done, s))"

end
