(* ===== verification/AgentHub.thy ===== *)
theory AgentHub
  imports AgentLink "HOL-Library.AList"
begin

text \<open>
  The WebSocket side of \<open>RegistryHandler\<close> in \<open>server.py\<close>: connecting, the listen loop, the clean-up
  of a connection, and the timers of tasks and agents. A timer that is cancelled never acts, so a
  timer is the id it was set for; that it fires is an event. The relation \<open>hub_step\<close> lets connections,
  messages and timers come in any order; \<open>hb_loops\<close> holds the connections whose loop still runs. The
  path between two awaits is not interleaved, and the clean-up of a connection counts as one step.
\<close>

section \<open>Pending work of an agent that connects\<close>

text \<open>One blocked task: it runs again and is sent, with no flow controller to ask.\<close>

definition redispatch :: "int \<Rightarrow> nat \<Rightarrow> string \<Rightarrow> Task \<Rightarrow> link_state \<Rightarrow> link_state" where
  "redispatch now c a t s =
     (case quiet_status now (tid t) (status_value RUNNING) None s of
        (False, s1) \<Rightarrow> s1
      | (True, s1) \<Rightarrow>
          (case envelope_to_dict (build_envelope t NoContext [] (Some TASK)) of
             None \<Rightarrow> s1
           | Some m \<Rightarrow> (send_json c m s1)\<lparr>ln_dispatched := map_option (dict_put (tid t) a) (ln_dispatched s1)\<rparr>))"

definition blocked_for :: "string \<Rightarrow> task_db \<Rightarrow> Task list" where
  "blocked_for a db =
     fst (list_tasks (ListArgs_default\<lparr>f_status := Some (status_value BLOCKED), f_assignee := Some a,
                        f_limit := 50, f_sort := ''-priority''\<rparr>) db)"

definition maybe_dispatch_pending :: "int \<Rightarrow> nat \<Rightarrow> string \<Rightarrow> link_state \<Rightarrow> link_state" where
  "maybe_dispatch_pending now c a s =
     (case ln_store s of None \<Rightarrow> s | Some db \<Rightarrow> fold (redispatch now c a) (blocked_for a db) s)"

section \<open>Tasks of an agent that is gone\<close>

definition set_task :: "string \<Rightarrow> (string \<times> json) list \<Rightarrow> link_state \<Rightarrow> link_state" where
  "set_task i kvs s = (case map_of (ln_tasks s) i of None \<Rightarrow> s | Some t \<Rightarrow> put_task i (put_all kvs t) s)"

definition task_state :: "link_task \<Rightarrow> json" where
  "task_state t = dict_get t ''state'' (JStr [])"

definition tasks_of :: "string \<Rightarrow> (json \<Rightarrow> bool) \<Rightarrow> link_state \<Rightarrow> string list" where
  "tasks_of a P s = map fst (filter (\<lambda>(i, t). task_field t ''agent_id'' = JStr a \<and> P (task_state t)) (ln_tasks s))"

definition status_if_dispatched :: "int \<Rightarrow> string \<Rightarrow> string \<Rightarrow> string \<Rightarrow> link_state \<Rightarrow> link_state" where
  "status_if_dispatched now st msg i s = (if was_dispatched i s then snd (quiet_status now i st (Some msg) s) else s)"

definition dangle_agent_tasks :: "link_env \<Rightarrow> rat \<Rightarrow> string \<Rightarrow> link_state \<Rightarrow> link_state" where
  "dangle_agent_tasks E now a s =
     (let ids = tasks_of a (\<lambda>st. st \<notin> JStr ` {''completed'', ''failed'', ''cancelled'', ''dangling''}) s;
          s1 = fold (\<lambda>i s. cancel_task_timeout i
                 (set_task i [(''state'', JStr ''dangling''), (''error'', JStr ''agent_disconnected_grace''),
                              (''updated_at'', le_num E now)] s)) ids s
      in if ids = [] then s
         else
           (let s2 = cancel_dangling_timer a
                 (fold (status_if_dispatched \<lfloor>now\<rfloor> (status_value DANGLING) ''Agent disconnected - grace period'') ids s1)
            in s2\<lparr>ln_dangling := ln_dangling s2 @ [a]\<rparr>))"

text \<open>The grace period of an agent is over.\<close>

definition dangle_timeout :: "link_env \<Rightarrow> rat \<Rightarrow> string \<Rightarrow> link_state \<Rightarrow> link_state" where
  "dangle_timeout E now a s =
     (let ids = tasks_of a (\<lambda>st. st = JStr ''dangling'') s;
          s1 = fold (\<lambda>i. set_task i [(''state'', JStr ''failed''), (''error'', JStr ''agent_disconnected_timeout''),
                              (''updated_at'', le_num E now)]) ids s
      in cancel_dangling_timer a
           (fold (status_if_dispatched \<lfloor>now\<rfloor> (status_value FAILED) ''Dangling grace period expired'') ids s1))"

section \<open>The timer of a task\<close>

definition open_conn :: "link_env \<Rightarrow> string \<Rightarrow> link_state \<Rightarrow> nat option" where
  "open_conn E a s =
     (case map_of (ln_conns s) a of Some c \<Rightarrow> if le_closed E c then None else Some c | None \<Rightarrow> None)"

definition send_cancel :: "link_env \<Rightarrow> string \<Rightarrow> link_task \<Rightarrow> link_state \<Rightarrow> link_state" where
  "send_cancel E i t s =
     (case dict_get t ''agent_id'' (JStr []) of
        JStr a \<Rightarrow>
          (case open_conn E a s of
             None \<Rightarrow> s
           | Some c \<Rightarrow> send_json c [(''type'', JStr ''task_cancel''), (''id'', JStr i), (''reason'', JStr ''timeout''),
                         (''dispatched_at'', dict_get t ''dispatched_at'' (JInt 0))] s)
      | _ \<Rightarrow> s)"

text \<open>The worker of \<open>_schedule_task_timeout\<close> after its sleep of \<open>limit\<close> seconds.\<close>

definition timeout_worker :: "link_env \<Rightarrow> int \<Rightarrow> rat \<Rightarrow> string \<Rightarrow> link_state \<Rightarrow> link_state" where
  "timeout_worker E limit now i s =
     (case map_of (ln_tasks s) i of
        None \<Rightarrow> cancel_task_timeout i s
      | Some t \<Rightarrow>
          if task_state t \<in> JStr ` {''completed'', ''failed'', ''cancelled''} then cancel_task_timeout i s
          else
            cancel_task_timeout i
              (status_if_dispatched \<lfloor>now\<rfloor> (status_value FAILED) (''Task timed out after '' @ str_int limit @ ''s'') i
                (send_cancel E i t
                  (set_task i [(''state'', JStr ''failed''), (''error'', JStr ''timeout''),
                               (''updated_at'', le_num E now)] s))))"

section \<open>A connection\<close>

text \<open>From the accepted upgrade to the listen loop; \<open>ten\<close> is the tenant of the connection.\<close>

definition ws_connect :: "link_env \<Rightarrow> rat \<Rightarrow> string \<Rightarrow> nat \<Rightarrow> string option \<Rightarrow> link_state \<Rightarrow> link_state" where
  "ws_connect E now a c ten s =
     (let s1 = (case open_conn E a s of
                  None \<Rightarrow> s | Some old \<Rightarrow> send_json old [(''type'', JStr ''close''), (''reason'', JStr ''replaced'')] s);
          s2 = s1\<lparr>ln_conns := AList.delete a (ln_conns s1) @ [(a, c)],
                  ln_registry := snd (heartbeat_agent now a (opt_or ten []) (ln_registry s1))\<rparr>
      in maybe_dispatch_pending \<lfloor>now\<rfloor> c a s2)"

text \<open>One text message in the listen loop. A type that cannot be a key of a dict raises.\<close>

definition ws_receive :: "link_env \<Rightarrow> rat \<Rightarrow> string \<Rightarrow> nat \<Rightarrow> string \<Rightarrow> link_state \<Rightarrow> ws_result \<times> link_state" where
  "ws_receive E now a c text s =
     (case loads text of
        None \<Rightarrow> (Done, send_json c [(''type'', JStr ''error''), (''detail'', JStr ''Invalid JSON'')] s)
      | Some (JObj d) \<Rightarrow>
          (case dict_get d ''type'' (JStr []) of
             JStr ty \<Rightarrow>
               if ty = ''ping'' then (Done, send_json c [(''type'', JStr ''pong'')] s)
               else if ty = ''close'' then (Closing, s)
               else (case get_ws_handler ty of None \<Rightarrow> (Done, s) | Some h \<Rightarrow> h E now a c d s)
           | JList js \<Rightarrow> (Broken, s)
           | JObj m \<Rightarrow> (Broken, s)
           | _ \<Rightarrow> (Done, s))
      | Some _ \<Rightarrow> (Broken, s))"

text \<open>The \<open>finally\<close> of the loop: the entry goes only if it is still this connection, the tasks are
  marked in either case.\<close>

definition ws_disconnect :: "link_env \<Rightarrow> rat \<Rightarrow> string \<Rightarrow> nat \<Rightarrow> link_state \<Rightarrow> link_state" where
  "ws_disconnect E now a c s =
     dangle_agent_tasks E now a
       (if map_of (ln_conns s) a = Some c then s\<lparr>ln_conns := AList.delete a (ln_conns s)\<rparr> else s)"

section \<open>All connections\<close>

record hub_state =
  hb_link :: link_state
  hb_loops :: "(nat \<times> string) list"

datatype hub_event =
    Connects string nat "string option"
  | Receives nat string
  | Closes nat
  | TaskTimer string
  | GraceTimer string

definition end_loop :: "link_env \<Rightarrow> rat \<Rightarrow> string \<Rightarrow> nat \<Rightarrow> hub_state \<Rightarrow> hub_state" where
  "end_loop E now a c h =
     h\<lparr>hb_link := ws_disconnect E now a c (hb_link h), hb_loops := removeAll (c, a) (hb_loops h)\<rparr>"

text \<open>What an event does where it can happen; a message outside the model has no step.\<close>

definition hub_event_step :: "link_env \<Rightarrow> int \<Rightarrow> rat \<Rightarrow> hub_event \<Rightarrow> hub_state \<Rightarrow> hub_state option" where
  "hub_event_step E limit now e h =
     (let s = hb_link h in
      case e of
        Connects a c ten \<Rightarrow>
          if map_of (hb_loops h) c = None
          then Some (h\<lparr>hb_link := ws_connect E now a c ten s, hb_loops := hb_loops h @ [(c, a)]\<rparr>) else None
      | Receives c text \<Rightarrow>
          (case map_of (hb_loops h) c of
             None \<Rightarrow> None
           | Some a \<Rightarrow>
               (case ws_receive E now a c text s of
                  (Done, s') \<Rightarrow> Some (h\<lparr>hb_link := s'\<rparr>)
                | (Outside, s') \<Rightarrow> None
                | (r, s') \<Rightarrow> Some (end_loop E now a c (h\<lparr>hb_link := s'\<rparr>))))
      | Closes c \<Rightarrow> map_option (\<lambda>a. end_loop E now a c h) (map_of (hb_loops h) c)
      | TaskTimer i \<Rightarrow> if i \<in> set (ln_timers s) then Some (h\<lparr>hb_link := timeout_worker E limit now i s\<rparr>) else None
      | GraceTimer a \<Rightarrow> if a \<in> set (ln_dangling s) then Some (h\<lparr>hb_link := dangle_timeout E now a s\<rparr>) else None)"

inductive hub_step :: "link_env \<Rightarrow> int \<Rightarrow> hub_state \<Rightarrow> hub_state \<Rightarrow> bool" for E limit where
  hub_event: "hub_event_step E limit now e h = Some h' \<Longrightarrow> hub_step E limit h h'"

text \<open>A sequence of events, for concrete runs.\<close>

fun hub_run :: "link_env \<Rightarrow> int \<Rightarrow> (rat \<times> hub_event) list \<Rightarrow> hub_state \<Rightarrow> hub_state option" where
  "hub_run E limit [] h = Some h"
| "hub_run E limit ((now, e) # es) h =
     (case hub_event_step E limit now e h of None \<Rightarrow> None | Some h' \<Rightarrow> hub_run E limit es h')"

end
