(* ===== verification/ErrorReplies.thy ===== *)
theory ErrorReplies
  imports TaskRequests
begin

text \<open>
  \<open>errors.py\<close>: the uniform error response, the exception classes of the registry and the middleware that
  turns an exception into a response. The time stamp of a response is an argument.
\<close>

definition STATUS_TO_ERROR_CODE :: "(int \<times> string) list" where
  "STATUS_TO_ERROR_CODE =
     [(400, ''bad_request''), (401, ''unauthorized''), (403, ''forbidden''), (404, ''not_found''),
      (405, ''method_not_allowed''), (409, ''conflict''), (410, ''gone''), (422, ''unprocessable_entity''),
      (429, ''too_many_requests''), (500, ''internal_error''), (502, ''bad_gateway''), (503, ''service_unavailable'')]"

definition status_to_error_code :: "int \<Rightarrow> string" where
  "status_to_error_code st = the_default (''http_'' @ str_int st) (map_of STATUS_TO_ERROR_CODE st)"

record APIError =
  er_error :: string
  er_detail :: string
  er_request_id :: string
  er_timestamp :: string
  er_extra :: "(string \<times> json) list"

definition to_response :: "APIError \<Rightarrow> int \<Rightarrow> outcome" where
  "to_response e st =
     outcome.Reply st (JObj ([(''error'', JStr (er_error e)), (''detail'', JStr (er_detail e)),
        (''request_id'', JStr (er_request_id e)), (''timestamp'', JStr (er_timestamp e))] @
        (if er_extra e = [] then [] else [(''extra'', JObj (er_extra e))]))) []"

text \<open>The id the request carries, or that of its header.\<close>

definition extract_request_id :: "string \<Rightarrow> (string \<times> string) list \<Rightarrow> string" where
  "extract_request_id rid headers = (if str_true rid then rid else the_default [] (map_of headers ''X-Request-Id''))"

definition error_response ::
  "string \<Rightarrow> string \<Rightarrow> (string \<times> json) list \<Rightarrow> int \<Rightarrow> string \<Rightarrow> string \<Rightarrow> outcome" where
  "error_response stamp rid extra st code detail =
     to_response \<lparr> er_error = code, er_detail = detail, er_request_id = rid, er_timestamp = stamp, er_extra = extra \<rparr> st"

section \<open>Exceptions\<close>

record A2ARegistryError =
  ae_code :: string
  ae_detail :: string
  ae_status :: int
  ae_extra :: "(string \<times> json) list"

definition registry_error :: "string \<Rightarrow> string \<Rightarrow> int \<Rightarrow> (string \<times> json) list \<Rightarrow> A2ARegistryError" where
  "registry_error code detail st extra = \<lparr> ae_code = code, ae_detail = detail, ae_status = st, ae_extra = extra \<rparr>"

definition validation_exception :: "string \<Rightarrow> (string \<times> json) list \<Rightarrow> A2ARegistryError" where
  "validation_exception detail extra = registry_error ''validation_error'' detail 400 extra"

definition invalid_json_exception :: "string \<Rightarrow> A2ARegistryError" where
  "invalid_json_exception detail = registry_error ''invalid_json'' detail 400 []"

definition py_upper_char :: "char \<Rightarrow> char" where
  "py_upper_char c = (let n = of_char c :: nat in if 97 \<le> n \<and> n \<le> 122 then char_of (n - 32) else c)"

text \<open>\<open>s.capitalize()\<close> for ASCII.\<close>

definition capitalize :: "string \<Rightarrow> string" where
  "capitalize s = (case s of [] \<Rightarrow> [] | c # cs \<Rightarrow> py_upper_char c # py_lower cs)"

definition not_found_exception :: "string \<Rightarrow> string \<Rightarrow> A2ARegistryError" where
  "not_found_exception what i =
     registry_error (what @ ''_not_found'') (capitalize what @ '' '' @ quoted i @ '' not found'') 404 []"

definition conflict_exception :: "string \<Rightarrow> A2ARegistryError" where
  "conflict_exception detail = registry_error ''conflict'' detail 409 []"

definition auth_exception :: "string \<Rightarrow> string \<Rightarrow> int \<Rightarrow> A2ARegistryError" where
  "auth_exception code detail st = registry_error code detail st []"

definition rate_limit_exception :: "string \<Rightarrow> int \<Rightarrow> A2ARegistryError" where
  "rate_limit_exception detail retry = registry_error ''too_many_requests'' detail 429 [(''retry_after'', JInt retry)]"

definition protected_exception :: "string \<Rightarrow> A2ARegistryError" where
  "protected_exception detail = registry_error ''protected'' detail 403 []"

section \<open>Middleware\<close>

text \<open>What a handler raises: an error of the registry, an HTTP exception of the web server with its status and
  reason, a body that is not JSON, or anything else.\<close>

datatype raised_in = RegistryRaised A2ARegistryError | HttpRaised int string | JsonRaised | OtherRaised

definition error_middleware :: "string \<Rightarrow> string \<Rightarrow> raised_in + outcome \<Rightarrow> outcome" where
  "error_middleware stamp rid r =
     (case r of
        Inr (outcome.Reply st j h) \<Rightarrow> outcome.Reply st j h
      | Inr outcome.Raised \<Rightarrow> error_response stamp rid [] 500 ''internal_error'' ''Internal server error''
      | Inr Odd \<Rightarrow> Odd
      | Inl (RegistryRaised e) \<Rightarrow> error_response stamp rid (ae_extra e) (ae_status e) (ae_code e) (ae_detail e)
      | Inl (HttpRaised st why) \<Rightarrow> error_response stamp rid [] st (status_to_error_code st) why
      | Inl JsonRaised \<Rightarrow> error_response stamp rid [] 400 ''invalid_json'' ''Invalid JSON body''
      | Inl OtherRaised \<Rightarrow> error_response stamp rid [] 500 ''internal_error'' ''Internal server error'')"

text \<open>\<open>finished\<close> is the answer of the handler when it comes within the time.\<close>

definition timeout_middleware :: "string \<Rightarrow> string \<Rightarrow> bool \<Rightarrow> int option \<Rightarrow> (int \<Rightarrow> outcome option) \<Rightarrow> outcome \<Rightarrow> outcome" where
  "timeout_middleware stamp rid upgrade limit finished without_limit =
     (if upgrade then without_limit
      else
        (let n = the_default 30 limit in
         case finished n of
           Some r \<Rightarrow> r
         | None \<Rightarrow> error_response stamp rid [] 503 ''request_timeout'' (''Request exceeded timeout of '' @ str_int n @ ''s'')))"

end
