(* ===== verification/AgentRoutes.thy ===== *)
theory AgentRoutes
  imports AgentHub TaskApi AgentCards InputChecks ErrorReplies
begin

text \<open>
  The HTTP handlers of \<open>RegistryHandler\<close> and \<open>AdminHandler\<close> in \<open>server.py\<close>. The state is the one of the
  WebSockets with the OAuth tables beside it; ids, secrets, the clock, the answer of an agent's callback
  and the check of a token are fields of \<open>hub_env\<close>. Tenants, channels and callback URLs of a submitted
  card are strings or left out; another value is outside the model (\<open>Odd\<close>).
\<close>

section \<open>Requests, state and replies\<close>

record hub_request =
  hq_id :: string
  hq_tenant :: "string option"
  hq_query :: "(string \<times> string) list"
  hq_headers :: "(string \<times> string) list"
  hq_body :: "json option"
  hq_remote :: "string option"
  hq_origin :: string

record hub_app =
  ha_link :: link_state
  ha_auth :: auth_db
  ha_sent :: "json list"

record hub_env =
  he_link :: link_env
  he_now :: rat
  he_stamp :: string
  he_iso :: string
  he_uuid :: string
  he_token :: string
  he_client_id :: string
  he_secret :: string
  he_sha :: "string \<Rightarrow> string"
  he_scope_order :: "string list \<Rightarrow> string list"
  he_auth :: bool
  he_audit :: bool
  he_admin :: bool
  he_verify :: "string \<Rightarrow> claims option"
  he_post :: "string \<Rightarrow> (string \<times> json) list \<Rightarrow> (string \<times> string) list \<Rightarrow> post_result"
  he_fence :: "TaskEnvelope \<Rightarrow> string + bool"

type_synonym hub_api = "hub_app \<Rightarrow> outcome \<times> hub_app"

definition hub_reply :: "int \<Rightarrow> (string \<times> json) list \<Rightarrow> hub_api" where
  "hub_reply st d s = (outcome.Reply st (JObj d) [], s)"

definition hub_error :: "hub_env \<Rightarrow> int \<Rightarrow> string \<Rightarrow> string \<Rightarrow> hub_api" where
  "hub_error E st code detail s = (error_response (he_stamp E) [] [] st code detail, s)"

definition hub_raised :: hub_api where
  "hub_raised s = (outcome.Raised, s)"

definition hub_odd :: hub_api where
  "hub_odd s = (Odd, s)"

definition with_json :: "hub_env \<Rightarrow> hub_request \<Rightarrow> ((string \<times> json) list \<Rightarrow> hub_api) \<Rightarrow> hub_api" where
  "with_json E q f =
     (case hq_body q of
        None \<Rightarrow> hub_error E 400 ''invalid_json'' ''Invalid JSON body''
      | Some (JObj d) \<Rightarrow> f d
      | Some _ \<Rightarrow> hub_raised)"

definition on_link :: "(link_state \<Rightarrow> link_state) \<Rightarrow> hub_app \<Rightarrow> hub_app" where
  "on_link f s = s\<lparr>ha_link := f (ha_link s)\<rparr>"

definition log_audit :: "hub_env \<Rightarrow> hub_request \<Rightarrow> string \<Rightarrow> string \<Rightarrow> hub_app \<Rightarrow> hub_app" where
  "log_audit E q ev target s = s\<lparr>ha_auth := audit (he_audit E) ev (opt_or (hq_remote q) ''unknown'') target (ha_auth s)\<rparr>"

definition to_admins :: "hub_env \<Rightarrow> (string \<times> json) list \<Rightarrow> hub_app \<Rightarrow> hub_app" where
  "to_admins E m s = (if he_admin E then s\<lparr>ha_sent := ha_sent s @ [JObj m]\<rparr> else s)"

definition agent_missing :: "hub_env \<Rightarrow> string \<Rightarrow> hub_api" where
  "agent_missing E i = hub_error E 404 ''agent_not_found'' (''Agent '' @ quoted i @ '' not found'')"

definition find_agent :: "hub_env \<Rightarrow> string \<Rightarrow> string option \<Rightarrow> hub_app \<Rightarrow> card option" where
  "find_agent E i ten s = AgentRegistry.get_agent (he_now E) i ten (ln_registry (ha_link s))"

definition capped_limit :: "(string \<times> string) list \<Rightarrow> int \<Rightarrow> int \<Rightarrow> int" where
  "capped_limit qs dflt cap =
     (case map_of qs ''limit'' of None \<Rightarrow> dflt | Some x \<Rightarrow> (case py_int_text x of None \<Rightarrow> dflt | Some n \<Rightarrow> min n cap))"

definition offset_of :: "(string \<times> string) list \<Rightarrow> int" where
  "offset_of qs =
     (case map_of qs ''offset'' of None \<Rightarrow> 0 | Some x \<Rightarrow> (case py_int_text x of None \<Rightarrow> 0 | Some n \<Rightarrow> max n 0))"

text \<open>\<open>xs[off:off + lm]\<close>; an end below zero counts from the back.\<close>

definition py_page :: "int \<Rightarrow> int \<Rightarrow> 'a list \<Rightarrow> 'a list" where
  "py_page lm off xs =
     (let n = int (length xs); stop = (if off + lm < 0 then max 0 (n + off + lm) else min n (off + lm))
      in take (nat (stop - off)) (drop (nat off) xs))"

section \<open>Reading agents\<close>

text \<open>\<open>GET /health\<close>; the uptime is rounded elsewhere.\<close>

definition handle_health :: "hub_env \<Rightarrow> json \<Rightarrow> hub_api" where
  "handle_health E uptime s =
     (let st = registry_stats (he_now E) None (ln_registry (ha_link s)) in
      hub_reply 200
        [(''status'', JStr ''healthy''), (''version'', JStr ''1.0.0''), (''uptime_seconds'', uptime),
         (''stats'', JObj [(''total_agents'', JInt (total_agents st)), (''alive_agents'', JInt (alive_agents st)),
                           (''stale_agents'', JInt (stale_agents st)),
                           (''connected_via_ws'', JInt (int (length (ln_conns (ha_link s)))))])] s)"

text \<open>A tenant from the token wins over the query unless it is empty.\<close>

definition list_tenant :: "hub_request \<Rightarrow> string option" where
  "list_tenant q =
     (let qp = map_of (hq_query q) ''tenant'' in
      if opt_true qp \<and> \<not> opt_true (hq_tenant q) then qp else or_none (opt_or (hq_tenant q) []))"

definition mark_connected :: "link_state \<Rightarrow> card \<Rightarrow> card" where
  "mark_connected s c =
     (case dict_get c ''id'' (JStr []) of
        JStr i \<Rightarrow>
          if map_of (ln_conns s) i \<noteq> None then put_all [(''connection'', JStr ''websocket''), (''status'', JStr ''alive'')] c else c
      | _ \<Rightarrow> c)"

definition handle_list_agents :: "hub_env \<Rightarrow> hub_request \<Rightarrow> hub_api" where
  "handle_list_agents E q s =
     (let get = map_of (hq_query q);
          all = list_agents (le_num (he_link E)) (he_now E) (get ''skill'') (get ''tag'') (get ''q'') (list_tenant q)
                  (ln_registry (ha_link s));
          lm = capped_limit (hq_query q) 50 200; off = offset_of (hq_query q)
      in hub_reply 200
           [(''total'', JInt (int (length all))), (''limit'', JInt lm), (''offset'', JInt off),
            (''agents'', JList (map (\<lambda>c. sanitize_card_output 0 (JObj (mark_connected (ha_link s) c))) (py_page lm off all)))] s)"

definition read_tenant :: "hub_request \<Rightarrow> string option" where
  "read_tenant q =
     (let qp = map_of (hq_query q) ''tenant'' in
      if qp \<noteq> None \<and> \<not> opt_true (hq_tenant q) then qp
      else if opt_true (hq_tenant q) then hq_tenant q
      else if hq_tenant q \<noteq> None then None
      else map_of (hq_headers q) ''X-Tenant-ID'')"

definition handle_get_agent :: "hub_env \<Rightarrow> hub_request \<Rightarrow> hub_api" where
  "handle_get_agent E q s =
     (case find_agent E (hq_id q) (read_tenant q) s of
        None \<Rightarrow> agent_missing E (hq_id q) s
      | Some c \<Rightarrow>
          (let c' = (if map_of (ln_conns (ha_link s)) (hq_id q) \<noteq> None
                     then put_all [(''connection'', JStr ''websocket''), (''status'', JStr ''alive'')] c else c)
           in (outcome.Reply 200 (sanitize_card_output 0 (JObj c')) [], s)))"

section \<open>Registration\<close>

definition py_name :: "card \<Rightarrow> string" where
  "py_name c = py_lower (py_strip (the_default [] (json_str_opt (dict_get c ''name'' (JStr [])))))"

text \<open>The scopes of every OAuth flow of the card; \<open>None\<close> is an \<open>AttributeError\<close>.\<close>

definition flow_scopes :: "json \<Rightarrow> string list option" where
  "flow_scopes v =
     (case v of
        JObj flow \<Rightarrow> (case dict_get flow ''scopes'' (JObj []) of JObj sc \<Rightarrow> Some (map fst sc) | _ \<Rightarrow> None)
      | _ \<Rightarrow> Some [])"

definition scheme_scopes :: "json \<Rightarrow> string list option" where
  "scheme_scopes v =
     (case v of
        JObj sch \<Rightarrow>
          if dict_get sch ''scheme_type'' JNull \<noteq> JStr ''oauth2'' then Some []
          else
            (case dict_get sch ''oauth2'' (JObj []) of
               JObj o2 \<Rightarrow>
                 (case dict_get o2 ''flows'' (JObj []) of
                    JObj fl \<Rightarrow> map_option concat (map_all flow_scopes (map snd fl))
                  | _ \<Rightarrow> None)
             | _ \<Rightarrow> None)
      | _ \<Rightarrow> Some [])"

definition oauth_scopes :: "json \<Rightarrow> string list option" where
  "oauth_scopes v =
     (case v of JObj schs \<Rightarrow> map_option (\<lambda>xs. remdups (concat xs)) (map_all scheme_scopes (map snd schs)) | _ \<Rightarrow> None)"

definition text_field :: "(string \<times> json) list \<Rightarrow> string \<Rightarrow> bool" where
  "text_field d k = (case map_of d k of None \<Rightarrow> True | Some (JStr x) \<Rightarrow> True | _ \<Rightarrow> False)"

definition finish_register :: "hub_env \<Rightarrow> hub_request \<Rightarrow> string \<Rightarrow> (string \<times> json) list \<Rightarrow> hub_api" where
  "finish_register E q name resp s =
     hub_reply 201 resp
       (to_admins E [(''type'', JStr ''agent_registered''), (''agent_id'', JStr (he_uuid E)), (''name'', JStr name)]
         (log_audit E q ''AGENT_REGISTER'' (he_uuid E) s))"

definition client_json :: "ClientRecord \<Rightarrow> string \<Rightarrow> json" where
  "client_json r secret =
     JObj [(''client_id'', JStr (cr_client_id r)), (''client_secret'', JStr secret),
           (''scopes'', JList (map JStr (cr_allowed_scopes r))), (''tenant'', JStr (cr_tenant r))]"

text \<open>The OAuth client of an agent whose card declares security schemes.\<close>

definition register_its_client ::
  "hub_env \<Rightarrow> hub_request \<Rightarrow> string \<Rightarrow> string \<Rightarrow> json \<Rightarrow> (string \<times> json) list \<Rightarrow> hub_api" where
  "register_its_client E q name ten schs resp s =
     (case oauth_scopes schs of
        None \<Rightarrow> hub_raised s
      | Some sc \<Rightarrow>
          (case register_client (he_sha E) (he_now E) (he_client_id E) (he_secret E) (he_uuid E)
                  (if sc = [] then None else Some (he_scope_order E sc))
                  (''Auto-created client for agent '' @ quoted name) ten (ha_auth s) of
             (Inl e, a') \<Rightarrow> hub_raised (s\<lparr>ha_auth := a'\<rparr>)
           | (Inr c, a') \<Rightarrow>
               (case get_client (he_client_id E) a' of
                  None \<Rightarrow> hub_raised (s\<lparr>ha_auth := a'\<rparr>)
                | Some r \<Rightarrow> finish_register E q name (resp @ [(''client'', client_json r (he_secret E))]) (s\<lparr>ha_auth := a'\<rparr>))))"

definition interface_tenants :: "AgentCard \<Rightarrow> string list" where
  "interface_tenants c = map (\<lambda>i. the_default [] (json_str_opt (if_tenant i))) (cd_interfaces c)"

definition store_agent ::
  "hub_env \<Rightarrow> hub_request \<Rightarrow> string \<Rightarrow> string \<Rightarrow> (string \<times> json) list \<Rightarrow> hub_api" where
  "store_agent E q name ten d s =
     (case dict_to_agent_card d of
        None \<Rightarrow> hub_raised s
      | Some c \<Rightarrow>
          (case register_agent (\<lambda>_. card_to_dict c) (\<lambda>_. interface_tenants c) (he_uuid E) (he_token E) (he_now E) (he_iso E)
                  d ten (ln_registry (ha_link s)) of
             None \<Rightarrow> hub_raised s
           | Some (i, reg) \<Rightarrow>
               (let s1 = on_link (\<lambda>l. l\<lparr>ln_registry := reg\<rparr>) s in
                case find_agent E i None s1 of
                  None \<Rightarrow> hub_raised s1
                | Some view \<Rightarrow>
                    (let resp = [(''message'', JStr ''Agent registered successfully''), (''id'', JStr i),
                                 (''card'', sanitize_card_output 0 (JObj view))];
                         schs = dict_get d ''security_schemes'' (JObj [])
                     in if json_true schs \<and> he_auth E then register_its_client E q name ten schs resp s1
                        else finish_register E q name resp s1))))"

definition handle_register_agent :: "hub_env \<Rightarrow> hub_request \<Rightarrow> hub_api" where
  "handle_register_agent E q =
     with_json E q (\<lambda>d s.
       (case dict_get d ''name'' (JStr []) of
          JStr raw \<Rightarrow>
            (let name = py_strip raw in
             if name = [] then hub_error E 400 ''validation_error'' (''Agent requires a '' @ quoted ''name'') s
             else
               (case validate_agent_card d of
                  None \<Rightarrow> hub_raised s
                | Some (e # es) \<Rightarrow>
                    hub_error E 400 ''validation_error'' (py_join ''; '' (map ve_detail (take 5 (e # es)))) s
                | Some [] \<Rightarrow>
                    if \<not> (text_field d ''tenant'' \<and> text_field d ''preferred_channel'' \<and> text_field d ''callback_url'')
                    then hub_odd s
                    else
                      (let ten = (if opt_true (hq_tenant q) then opt_or (hq_tenant q) []
                                  else the_default [] (json_str_opt (dict_get d ''tenant'' (JStr []))));
                           others = list_agents (le_num (he_link E)) (he_now E) None None None (or_none ten) (ln_registry (ha_link s))
                       in if py_lower name \<in> py_name ` set others
                          then hub_error E 409 ''agent_exists'' (''Agent '' @ quoted name @ '' already exists'') s
                          else store_agent E q name ten d s)))
        | _ \<Rightarrow> hub_raised s))"

section \<open>Other operations on agents\<close>

definition given_tenant :: "hub_request \<Rightarrow> string" where
  "given_tenant q = (case hq_tenant q of Some t \<Rightarrow> t | None \<Rightarrow> opt_or (map_of (hq_query q) ''tenant'') [])"

text \<open>The connection goes first, before the registry is asked.\<close>

definition close_conn :: "link_env \<Rightarrow> string \<Rightarrow> link_state \<Rightarrow> link_state" where
  "close_conn E a s =
     (let s1 = s\<lparr>ln_conns := AList.delete a (ln_conns s)\<rparr> in
      case open_conn E a s of None \<Rightarrow> s1 | Some c \<Rightarrow> send_json c [(''type'', JStr ''close'')] s1)"

definition handle_unregister :: "hub_env \<Rightarrow> hub_request \<Rightarrow> hub_api" where
  "handle_unregister E q s =
     (let i = hq_id q; s1 = on_link (close_conn (he_link E) i) s in
      case unregister_agent i (given_tenant q) (ln_registry (ha_link s1)) of
        (False, reg) \<Rightarrow> agent_missing E i s1
      | (True, reg) \<Rightarrow>
          hub_reply 200 [(''message'', JStr ''Agent unregistered successfully''), (''id'', JStr i)]
            (to_admins E [(''type'', JStr ''agent_removed''), (''agent_id'', JStr i)]
              (log_audit E q ''AGENT_DEREGISTER'' i (on_link (\<lambda>l. l\<lparr>ln_registry := reg\<rparr>) s1))))"

definition heartbeat_tenant :: "hub_request \<Rightarrow> string option" where
  "heartbeat_tenant q =
     (let qp = map_of (hq_query q) ''tenant'' in
      if qp \<noteq> None \<and> \<not> opt_true (hq_tenant q) then qp else or_none (opt_or (hq_tenant q) []))"

definition handle_agent_heartbeat :: "hub_env \<Rightarrow> hub_request \<Rightarrow> hub_api" where
  "handle_agent_heartbeat E q s =
     (let i = hq_id q; ten = heartbeat_tenant q in
      case find_agent E i ten s of
        None \<Rightarrow> agent_missing E i s
      | Some c \<Rightarrow>
          if map_of c ''status'' = Some (JStr ''stale'')
          then hub_error E 410 ''agent_stale'' (''Agent '' @ quoted i @ '' is stale and cannot heartbeat'') s
          else
            (case heartbeat_agent (he_now E) i (opt_or ten []) (ln_registry (ha_link s)) of
               (False, reg) \<Rightarrow> agent_missing E i s
             | (True, reg) \<Rightarrow>
                 hub_reply 203
                   [(''id'', JStr i), (''status'', JStr ''alive''), (''last_heartbeat'', le_num (he_link E) (he_now E)),
                    (''expires_at'', le_num (he_link E) (he_now E + HEARTBEAT_TIMEOUT)),
                    (''stale_timeout'', JInt \<lfloor>HEARTBEAT_TIMEOUT\<rfloor>)]
                   (on_link (\<lambda>l. l\<lparr>ln_registry := reg\<rparr>) s)))"

definition handle_toggle_agent :: "hub_env \<Rightarrow> hub_request \<Rightarrow> hub_api" where
  "handle_toggle_agent E q s =
     (let i = hq_id q in
      case toggle_agent i (given_tenant q) (ln_registry (ha_link s)) of
        (None, reg) \<Rightarrow> agent_missing E i s
      | (Some b, reg) \<Rightarrow>
          (let s1 = on_link (\<lambda>l. l\<lparr>ln_registry := reg\<rparr>) s; c = find_agent E i None s1 in
           hub_reply 200
             [(''id'', JStr i), (''status'', case c of None \<Rightarrow> JStr ''unknown'' | Some v \<Rightarrow> dict_get v ''status'' JNull),
              (''disabled'', case c of None \<Rightarrow> JBool False | Some v \<Rightarrow> dict_get v ''disabled'' JNull)] s1))"

end
