(* ===== verification/AgentTasks.thy ===== *)
theory AgentTasks
  imports AgentRoutes
begin

text \<open>
  The tasks of agents over HTTP in \<open>server.py\<close>: dispatching to an agent, the result of a callback, the
  lists of the registry's own tasks, and with them the admission of a WebSocket, the endpoints for
  administrators and the periodic clean-up. An agent's \<open>status\<close> may be any JSON value, as it is taken
  from its messages.
\<close>

section \<open>Admission of a WebSocket\<close>

definition dashes_to_blanks :: "string \<Rightarrow> string" where
  "dashes_to_blanks x = map (\<lambda>c. if c = CHR ''-'' \<or> c = CHR ''_'' then CHR '' '' else c) x"

text \<open>Whether the card of a client stands for the agent: by id, or by a part of the agent's name.\<close>

definition card_matches :: "string \<Rightarrow> string \<Rightarrow> string \<Rightarrow> bool" where
  "card_matches card_id name a =
     (let ci = py_lower card_id; nm = py_lower name in
      ci = nm \<or> py_in ci nm \<or> py_endswith nm ci \<or> py_in (dashes_to_blanks ci) nm \<or>
      py_endswith nm (dashes_to_blanks ci) \<or> ci = py_lower a)"

definition sub_matches :: "hub_env \<Rightarrow> string \<Rightarrow> string \<Rightarrow> card \<Rightarrow> auth_db \<Rightarrow> bool" where
  "sub_matches E subj a c db =
     (subj = a \<or> subj = ''simple-a2a-registry'' \<or>
      he_auth E \<and>
      (case get_client subj db of
         None \<Rightarrow> False
       | Some r \<Rightarrow> str_true (cr_agent_card_id r) \<and>
           card_matches (cr_agent_card_id r) (the_default [] (json_str_opt (dict_get c ''name'' JNull))) a))"

datatype admission = Refused int string | Admitted "string option"

text \<open>A subject or scope that is no string is outside the model of the token. The lookup of the agent
  uses the tenant of the query, before the token is read.\<close>

definition token_tenant :: "claims \<Rightarrow> string option \<Rightarrow> string option" where
  "token_tenant pl ten =
     (if ''registry:admin'' \<in> set (py_split (the_default [] (json_str_opt (dict_get pl ''scope'' (JStr [])))))
      then Some []
      else (case dict_get pl ''tenant'' JNull of JNull \<Rightarrow> ten | v \<Rightarrow> Some (the_default [] (json_str_opt v))))"

definition ws_admit :: "hub_env \<Rightarrow> bool \<Rightarrow> hub_request \<Rightarrow> hub_app \<Rightarrow> admission" where
  "ws_admit E auth_enabled q s =
     (let a = hq_id q; ten = map_of (hq_query q) ''tenant'' in
      case find_agent E a ten s of
        None \<Rightarrow> Refused 404 ''agent_not_found''
      | Some c \<Rightarrow>
          if \<not> auth_enabled then Admitted ten
          else
            (let tok = opt_or (map_of (hq_query q) ''token'') [] in
             if tok = [] then Refused 401 ''unauthorized''
             else
               (case he_verify E tok of
                  None \<Rightarrow> Refused 401 ''invalid_token''
                | Some pl \<Rightarrow>
                    if sub_matches E (the_default [] (json_str_opt (dict_get pl ''sub'' (JStr [])))) a c (ha_auth s)
                    then Admitted (token_tenant pl ten) else Refused 403 ''forbidden'')))"

section \<open>Dispatch\<close>

definition dispatch_tenant :: "hub_request \<Rightarrow> string option" where
  "dispatch_tenant q = (case hq_tenant q of Some t \<Rightarrow> Some t | None \<Rightarrow> map_of (hq_query q) ''tenant'')"

definition card_text :: "card \<Rightarrow> string \<Rightarrow> string" where
  "card_text c k = the_default [] (json_str_opt (dict_get c k (JStr [])))"

definition new_link_task :: "hub_env \<Rightarrow> string \<Rightarrow> string \<Rightarrow> json \<Rightarrow> string \<Rightarrow> link_task" where
  "new_link_task E a query sid ten =
     (let t = le_num (he_link E) (he_now E) in
      [(''id'', JStr (he_uuid E)), (''agent_id'', JStr a), (''query'', JStr query), (''session_id'', sid),
       (''state'', JStr ''dispatched''), (''result'', JNull), (''error'', JNull), (''created_at'', t), (''updated_at'', t),
       (''dispatched_at'', t), (''tenant'', JStr ten)])"

definition fail_dispatch :: "hub_env \<Rightarrow> string \<Rightarrow> int \<Rightarrow> string \<Rightarrow> string \<Rightarrow> hub_api" where
  "fail_dispatch E why st code detail s =
     hub_error E st code detail
       (on_link (set_task (he_uuid E) [(''state'', JStr ''failed''), (''error'', JStr why)]) s)"

definition finish_dispatch :: "hub_env \<Rightarrow> hub_request \<Rightarrow> string \<Rightarrow> string \<Rightarrow> hub_api" where
  "finish_dispatch E q query channel s =
     (let i = he_uuid E;
          s1 = on_link (schedule_task_timeout i)
                 (log_audit E q ''TASK_DISPATCH'' i (on_link (set_task i [(''state'', JStr ''forwarded'')]) s))
      in hub_reply 202
           [(''task_id'', JStr i), (''agent_id'', JStr (hq_id q)), (''state'', JStr ''forwarded''), (''query'', JStr query),
            (''channel'', JStr channel), (''created_at'', le_num (he_link E) (he_now E))] s1)"

definition callback_payload :: "hub_env \<Rightarrow> hub_request \<Rightarrow> string \<Rightarrow> json \<Rightarrow> (string \<times> json) list" where
  "callback_payload E q query sid =
     [(''type'', JStr ''task''), (''id'', JStr (he_uuid E)), (''query'', JStr query), (''sessionId'', sid),
      (''callbackUrl'', JStr (hq_origin q @ ''/v1/tasks/'' @ he_uuid E @ ''/callback-result''))]"

definition callback_headers :: "string \<Rightarrow> (string \<times> string) list" where
  "callback_headers tok =
     [(''Content-Type'', ''application/json'')] @ (if str_true tok then [(''Authorization'', ''Bearer '' @ tok)] else [])"

definition dispatch_callback :: "hub_env \<Rightarrow> hub_request \<Rightarrow> card \<Rightarrow> string \<Rightarrow> json \<Rightarrow> hub_api" where
  "dispatch_callback E q c query sid s =
     (case he_post E (py_strip (card_text c ''callback_url'')) (callback_payload E q query sid)
             (callback_headers (card_text c ''callback_token'')) of
        PostStatus st \<Rightarrow>
          if 400 \<le> st
          then fail_dispatch E (''Callback returned HTTP '' @ str_int st) 502 ''callback_failed''
                 (''Callback to agent '' @ quoted (hq_id q) @ '' failed: HTTP '' @ str_int st) s
          else finish_dispatch E q query ''callback'' s
      | PostTimeout \<Rightarrow>
          fail_dispatch E ''Callback timed out after 30s'' 502 ''callback_timeout''
            (''Callback to agent '' @ quoted (hq_id q) @ '' timed out'') s
      | PostError e \<Rightarrow>
          fail_dispatch E (''Callback dispatch failed: '' @ e) 502 ''callback_failed''
            (''Failed to callback agent '' @ quoted (hq_id q) @ '': '' @ e) s)"

definition v1_envelope :: "hub_env \<Rightarrow> string \<Rightarrow> string \<Rightarrow> json \<Rightarrow> string \<Rightarrow> TaskEnvelope" where
  "v1_envelope E a query sid ten =
     build_envelope (Task_default\<lparr>tid := he_uuid E, body := Some query, assignee := Some a, tenant := Some ten\<rparr>)
       NoContext [(''query'', JStr query), (''sessionId'', sid)] (Some TASK)"

definition dispatch_ws :: "hub_env \<Rightarrow> hub_request \<Rightarrow> nat \<Rightarrow> string \<Rightarrow> json \<Rightarrow> string \<Rightarrow> string \<Rightarrow> hub_api" where
  "dispatch_ws E q c query sid ten channel s =
     (let env = v1_envelope E (hq_id q) query sid ten in
      case he_fence E env of
        Inl e \<Rightarrow>
          fail_dispatch E (''Dispatch failed: '' @ e) 502 ''dispatch_failed''
            (''Failed to dispatch task to agent '' @ quoted (hq_id q) @ '': '' @ e) s
      | Inr False \<Rightarrow>
          fail_dispatch E ''Ingress security fence rejected dispatch'' 403 ''security_fence_rejected''
            ''Ingress security fence rejected dispatch'' s
      | Inr True \<Rightarrow>
          finish_dispatch E q query channel (on_link (send_json c (the_default [] (envelope_to_dict env))) s))"

text \<open>How the agent can be reached: over its callback, over its connection, or not at all.\<close>

definition dispatch_channel :: "hub_env \<Rightarrow> string \<Rightarrow> card \<Rightarrow> hub_app \<Rightarrow> nat option option" where
  "dispatch_channel E a c s =
     (if str_or (card_text c ''preferred_channel'') ''ws'' = ''callback''
      then (if py_strip (card_text c ''callback_url'') = [] then None else Some None)
      else if str_or (card_text c ''preferred_channel'') ''ws'' = ''ws''
      then map_option Some (open_conn (he_link E) a (ha_link s))
      else None)"

definition unreachable :: "hub_env \<Rightarrow> string \<Rightarrow> card \<Rightarrow> hub_api" where
  "unreachable E a c =
     (if str_or (card_text c ''preferred_channel'') ''ws'' = ''callback''
      then hub_error E 503 ''callback_not_configured''
             (''Agent '' @ quoted a @ '' has preferred_channel='' @ quoted ''callback'' @ '' but no callback_url'')
      else hub_error E 503 ''agent_not_connected'' (''Agent '' @ quoted a @ '' is not connected via WebSocket''))"

definition handle_dispatch :: "hub_env \<Rightarrow> hub_request \<Rightarrow> hub_api" where
  "handle_dispatch E q s =
     (let a = hq_id q; ten = dispatch_tenant q in
      case find_agent E a ten s of
        None \<Rightarrow> agent_missing E a s
      | Some c \<Rightarrow>
          (case dispatch_channel E a c s of
             None \<Rightarrow> unreachable E a c s
           | Some via \<Rightarrow>
               with_json E q (\<lambda>d s.
                 (case stripped_or [] (dict_get d ''query'' JNull) of
                    Inl e \<Rightarrow> (e, s)
                  | Inr query \<Rightarrow>
                      if query = [] then hub_error E 400 ''validation_error'' (''Missing '' @ quoted ''query'' @ '' field'') s
                      else
                        (let sid = dict_get d ''sessionId'' (JStr []);
                             s1 = on_link (put_task (he_uuid E) (new_link_task E a query sid (opt_or ten []))) s
                         in case via of
                              None \<Rightarrow> dispatch_callback E q c query sid s1
                            | Some conn \<Rightarrow> dispatch_ws E q conn query sid (opt_or ten [])
                                (str_or (card_text c ''preferred_channel'') ''ws'') s1))) s))"

section \<open>The registry's own tasks\<close>

definition task_missing_v1 :: "hub_env \<Rightarrow> string \<Rightarrow> hub_api" where
  "task_missing_v1 E i = hub_error E 404 ''task_not_found'' (''Task '' @ quoted i @ '' not found'')"

definition handle_get_v1_task :: "hub_env \<Rightarrow> hub_request \<Rightarrow> hub_api" where
  "handle_get_v1_task E q s =
     (case map_of (ln_tasks (ha_link s)) (hq_id q) of
        None \<Rightarrow> task_missing_v1 E (hq_id q) s
      | Some t \<Rightarrow>
          (let ten = dict_get t ''tenant'' (JStr []) in
           if opt_true (hq_tenant q) \<and> json_true ten \<and> ten \<noteq> JStr (opt_or (hq_tenant q) [])
           then task_missing_v1 E (hq_id q) s else hub_reply 200 t s))"

text \<open>\<open>f"{v}"\<close> of a state that counts as final.\<close>

definition final_state :: "json \<Rightarrow> string option" where
  "final_state v = (case v of JStr x \<Rightarrow> if x \<in> {''completed'', ''failed'', ''cancelled''} then Some x else None | _ \<Rightarrow> None)"

text \<open>\<open>_maybe_update_kanban\<close>, without a flow controller.\<close>

definition maybe_update_kanban :: "link_env \<Rightarrow> int \<Rightarrow> string \<Rightarrow> string \<Rightarrow> json \<Rightarrow> json \<Rightarrow> link_state \<Rightarrow> ws_result \<times> link_state" where
  "maybe_update_kanban E now i st res err s =
     (if \<not> was_dispatched i s then (Done, s)
      else if st \<in> {''completed'', ''success''}
      then (case result_of res of
              None \<Rightarrow> (Outside, s)
            | Some r \<Rightarrow> (Done, snd (quiet_status now i (status_value COMPLETED) (Dispatcher.result_text r) s)))
      else if st \<in> {''failed'', ''error''}
      then (case (result_of res, if json_true res then error_of err else Some None) of
              (Some r, Some e) \<Rightarrow> (Done, snd (quiet_status now i (status_value FAILED) (Some (failure_text (le_py_str E) e r)) s))
            | _ \<Rightarrow> (Outside, s))
      else (Done, s))"

datatype token_check = TokenOk | TokenMissing | TokenWrong

definition check_callback_token :: "string \<Rightarrow> (string \<times> string) list \<Rightarrow> token_check" where
  "check_callback_token expected headers =
     (if \<not> str_true expected then TokenOk
      else
        (let h = the_default [] (map_of headers ''Authorization'') in
         if \<not> py_startswith h ''Bearer '' then TokenMissing
         else if py_strip (drop (length ''Bearer '') h) \<noteq> expected then TokenWrong else TokenOk))"

definition callback_failed :: "(string \<times> json) list \<Rightarrow> bool" where
  "callback_failed d = (dict_get d ''state'' (JStr ''completed'') = JStr ''failed'' \<or> json_true (dict_get d ''error'' JNull))"

definition record_callback :: "hub_env \<Rightarrow> string \<Rightarrow> (string \<times> json) list \<Rightarrow> hub_api" where
  "record_callback E i d s =
     (let err = dict_get d ''error'' JNull; res = dict_get d ''result'' JNull; bad = callback_failed d;
          fields = (if bad then [(''state'', JStr ''failed''), (''error'', if json_true err then err else JStr ''Callback reported failure'')]
                    else [(''state'', JStr ''completed''), (''result'', res)]);
          l1 = cancel_task_timeout i (set_task i (fields @ [(''updated_at'', le_num (he_link E) (he_now E))]) (ha_link s));
          (r, l2) = (if bad then maybe_update_kanban (he_link E) \<lfloor>he_now E\<rfloor> i ''failed'' JNull err l1
                     else maybe_update_kanban (he_link E) \<lfloor>he_now E\<rfloor> i ''completed'' res JNull l1)
      in if r = Outside then hub_odd (s\<lparr>ha_link := l2\<rparr>)
         else hub_reply 200 [(''status'', JStr ''ok''), (''task_id'', JStr i), (''state'', JStr (if bad then ''failed'' else ''completed''))]
                (s\<lparr>ha_link := l2\<rparr>))"

definition handle_callback_result :: "hub_env \<Rightarrow> hub_request \<Rightarrow> hub_api" where
  "handle_callback_result E q s =
     (let i = hq_id q in
      case map_of (ln_tasks (ha_link s)) i of
        None \<Rightarrow> task_missing_v1 E i s
      | Some t \<Rightarrow>
          (case final_state (task_field t ''state'') of
             Some st \<Rightarrow> hub_error E 400 ''task_already_finalized'' (''Task '' @ quoted i @ '' is already in state '' @ quoted st) s
           | None \<Rightarrow>
               (let a = the_default [] (json_str_opt (dict_get t ''agent_id'' (JStr []))) in
                case find_agent E a None s of
                  None \<Rightarrow> agent_missing E a s
                | Some c \<Rightarrow>
                    (case check_callback_token (card_text c ''callback_token'') (hq_headers q) of
                       TokenMissing \<Rightarrow> hub_error E 401 ''missing_token'' ''Missing Bearer token'' s
                     | TokenWrong \<Rightarrow> hub_error E 403 ''invalid_token'' ''Invalid callback token'' s
                     | TokenOk \<Rightarrow> with_json E q (record_callback E i) s))))"

text \<open>The filters take the texts of ids and states; a state that is no string has no \<open>lower\<close>.\<close>

definition v1_matches :: "string option \<Rightarrow> string \<Rightarrow> link_task \<Rightarrow> bool" where
  "v1_matches ten af t =
     ((opt_true ten \<longrightarrow> dict_get t ''tenant'' (JStr []) = JStr (opt_or ten [])) \<and>
      (str_true af \<longrightarrow> py_in (py_lower af) (py_lower (the_default [] (json_str_opt (dict_get t ''agent_id'' (JStr [])))))))"

definition handle_list_v1_tasks :: "hub_env \<Rightarrow> hub_request \<Rightarrow> hub_api" where
  "handle_list_v1_tasks E q s =
     (let lm = capped_limit (hq_query q) 50 200; off = offset_of (hq_query q);
          arg = (\<lambda>k. py_strip (opt_or (map_of (hq_query q) k) []));
          sorted = order_desc (\<lambda>t. the_default 0 (le_float (he_link E) (dict_get t ''created_at'' (JInt 0)))) (map snd (ln_tasks (ha_link s)));
          some = filter (v1_matches (hq_tenant q) (arg ''agent_id'')) sorted;
          st = arg ''state''
      in if str_true st \<and> \<not> list_all (\<lambda>t. json_str_opt (task_state t) \<noteq> None) some then hub_raised s
         else
           (let all = (if str_true st then filter (\<lambda>t. map_option py_lower (json_str_opt (task_state t)) = Some (py_lower st)) some else some)
            in hub_reply 200
                 [(''total'', JInt (int (length all))), (''limit'', JInt lm), (''offset'', JInt off),
                  (''tasks'', JList (map JObj (py_page lm off all)))] s))"

text \<open>The URL of an agent: its own, or that of its first interface.\<close>

definition target_url :: "card \<Rightarrow> json" where
  "target_url c =
     (let u = dict_get c ''url'' JNull in
      if json_true u then u
      else (case dict_get c ''supported_interfaces'' JNull of
              JList (JObj d # rest) \<Rightarrow> dict_get d ''url'' (JStr [])
            | _ \<Rightarrow> JStr []))"

definition handle_proxy_task :: "hub_env \<Rightarrow> hub_request \<Rightarrow> hub_api" where
  "handle_proxy_task E q s =
     (case find_agent E (hq_id q) (dispatch_tenant q) s of
        None \<Rightarrow> agent_missing E (hq_id q) s
      | Some c \<Rightarrow>
          if \<not> json_true (target_url c)
          then hub_error E 400 ''agent_not_routable'' (''Agent '' @ quoted (hq_id q) @ '' has no URL configured'') s
          else hub_reply 200 [(''message'', JStr (''Task proxied to agent '' @ quoted (hq_id q))), (''agent_id'', JStr (hq_id q)),
                              (''target_url'', target_url c)] s)"

section \<open>Administration\<close>

definition plain_error :: "int \<Rightarrow> string \<Rightarrow> string \<Rightarrow> hub_api" where
  "plain_error st code detail = hub_reply st [(''error'', JStr code), (''detail'', JStr detail)]"

text \<open>The scopes of a new client: all known, a list, or not given; an unknown scope is named if it is a string.\<close>

definition bad_scope :: "json list \<Rightarrow> json option" where
  "bad_scope js = find (\<lambda>j. case j of JStr x \<Rightarrow> x \<notin> set SCOPES | _ \<Rightarrow> True) js"

definition admin_scope_error :: "json \<Rightarrow> (string option) option" where
  "admin_scope_error v =
     (case v of
        JNull \<Rightarrow> None
      | JList (j # js) \<Rightarrow>
          (case bad_scope (j # js) of
             None \<Rightarrow> None | Some (JStr x) \<Rightarrow> Some (Some (''Unknown scope: '' @ x)) | Some _ \<Rightarrow> Some None)
      | _ \<Rightarrow> Some (Some ''allowed_scopes must be a non-empty list''))"

definition handle_create_client :: "hub_env \<Rightarrow> hub_request \<Rightarrow> hub_api" where
  "handle_create_client E q s =
     (case hq_body q of
        None \<Rightarrow> plain_error 400 ''invalid_json'' ''Invalid JSON body'' s
      | Some (JObj d) \<Rightarrow>
          (let sc = dict_get d ''allowed_scopes'' JNull in
           case admin_scope_error sc of
             Some (Some detail) \<Rightarrow> plain_error 400 ''invalid_scope'' detail s
           | Some None \<Rightarrow> hub_odd s
           | None \<Rightarrow>
               if \<not> (text_field d ''agent_card_id'' \<and> text_field d ''description'') then hub_odd s
               else
                 (let aid = card_text d ''agent_card_id''; desc = card_text d ''description'' in
                  case register_client (he_sha E) (he_now E) (he_client_id E) (he_secret E) aid
                         (case sc of JNull \<Rightarrow> None | _ \<Rightarrow> Some (str_items sc)) desc [] (ha_auth s) of
                    (Inl e, a') \<Rightarrow> hub_raised (s\<lparr>ha_auth := a'\<rparr>)
                  | (Inr c, a') \<Rightarrow>
                      (let s1 = log_audit E q ''CLIENT_CREATE'' (he_client_id E) (s\<lparr>ha_auth := a'\<rparr>) in
                       case get_client (he_client_id E) (ha_auth s1) of
                         None \<Rightarrow> hub_raised s1
                       | Some r \<Rightarrow>
                           hub_reply 201
                             [(''client_id'', JStr (cr_client_id r)), (''client_secret'', JStr (he_secret E)),
                              (''agent_card_id'', JStr (cr_agent_card_id r)), (''scopes'', JList (map JStr (cr_allowed_scopes r))),
                              (''tenant'', JStr (cr_tenant r)), (''created_at'', le_num (he_link E) (cr_created_at r))] s1)))
      | Some _ \<Rightarrow> hub_raised s)"

definition client_info_json :: "hub_env \<Rightarrow> client_info \<Rightarrow> json" where
  "client_info_json E i =
     (let r = ci_record i in
      JObj [(''client_id'', JStr (cr_client_id r)), (''agent_card_id'', JStr (cr_agent_card_id r)),
            (''description'', JStr (cr_description r)), (''tenant'', JStr (cr_tenant r)),
            (''scopes'', JList (map JStr (cr_allowed_scopes r))), (''token_count'', JInt (int (ci_token_count i))),
            (''created_at'', le_num (he_link E) (cr_created_at r))])"

definition handle_list_clients :: "hub_env \<Rightarrow> hub_request \<Rightarrow> hub_api" where
  "handle_list_clients E q s =
     (outcome.Reply 200 (JList (map (client_info_json E) (list_clients (he_now E) (map_of (hq_query q) ''tenant'') (ha_auth s)))) [], s)"

definition handle_delete_client :: "hub_env \<Rightarrow> hub_request \<Rightarrow> hub_api" where
  "handle_delete_client E q s =
     (let i = hq_id q in
      if i = ''simple-a2a-registry'' then plain_error 403 ''protected'' ''Cannot delete the registry service account'' s
      else
        (case delete_client i (ha_auth s) of
           (False, a') \<Rightarrow> plain_error 404 ''not_found'' (''Client '' @ quoted i @ '' not found'') s
         | (True, a') \<Rightarrow>
             hub_reply 200 [(''message'', JStr ''Client deleted successfully''), (''client_id'', JStr i)]
               (log_audit E q ''CLIENT_DELETE'' i (s\<lparr>ha_auth := a'\<rparr>))))"

definition handle_get_agent_stats :: "hub_env \<Rightarrow> hub_request \<Rightarrow> hub_api" where
  "handle_get_agent_stats E q s =
     (let ten = map_of (hq_query q) ''tenant''; st = registry_stats (he_now E) ten (ln_registry (ha_link s)) in
      hub_reply 200
        ([(''totalAgents'', JInt (total_agents st)), (''aliveAgents'', JInt (alive_agents st)), (''staleAgents'', JInt (stale_agents st))] @
         (if opt_true ten then [(''tenant'', JStr (opt_or ten []))] else [])) s)"

text \<open>The filters of the query; \<open>to_float\<close> reads the times.\<close>

definition event_filter_of :: "(string \<Rightarrow> rat option) \<Rightarrow> hub_request \<Rightarrow> EventFilter" where
  "event_filter_of to_float q =
     (let get = (\<lambda>k. or_none (opt_or (map_of (hq_query q) k) []));
          time = (\<lambda>k. case get k of None \<Rightarrow> None | Some x \<Rightarrow> to_float x)
      in \<lparr> ef_type = get ''event_type'', ef_actor = get ''actor'', ef_tenant = get ''tenant'', ef_task_id = get ''task_id'',
           ef_since = time ''since'', ef_until = time ''until'' \<rparr>)"

definition security_event_json :: "(rat \<Rightarrow> json) \<Rightarrow> SecurityEvent \<Rightarrow> json" where
  "security_event_json num e =
     JObj ([(''event_id'', JStr (se_id e)), (''event_type'', JStr (se_type e)), (''timestamp'', num (se_timestamp e)),
            (''actor'', JStr (se_actor e)), (''target'', JStr (se_target e)), (''tenant'', JStr (se_tenant e)),
            (''decision'', JStr (se_decision e)), (''reason'', JStr (se_reason e)), (''scope_used'', JStr (se_scope_used e)),
            (''task_id'', json_opt_str (se_task_id e)), (''created_at'', num (se_created_at e))] @
           (case se_delegation_chain e of None \<Rightarrow> [] | Some js \<Rightarrow> [(''delegation_chain'', JList js)]) @
           (if se_metadata e = [] then [] else [(''metadata'', JObj (se_metadata e))]))"

definition handle_list_security_events ::
  "hub_env \<Rightarrow> (string \<Rightarrow> rat option) \<Rightarrow> event_store option \<Rightarrow> hub_request \<Rightarrow> hub_api" where
  "handle_list_security_events E to_float trail q s =
     (case trail of
        None \<Rightarrow> plain_error 404 ''events_disabled'' ''Security event storage is not configured (enable security_harness)'' s
      | Some tr \<Rightarrow>
          (let lm = capped_limit (hq_query q) 50 1000; off = offset_of (hq_query q); f = event_filter_of to_float q in
           hub_reply 200
             [(''total'', JInt (int (count_all_events f tr))), (''limit'', JInt lm), (''offset'', JInt off),
              (''events'', JList (map (security_event_json (le_num (he_link E))) (list_all_events lm off f tr)))] s))"

section \<open>The clean-up\<close>

text \<open>One turn of the background loop, but for the audit log and the gauges.\<close>

definition cleanup_turn :: "link_env \<Rightarrow> rat \<Rightarrow> link_state \<Rightarrow> link_state" where
  "cleanup_turn E now s =
     s\<lparr>ln_registry := snd (purge_stale now (ln_registry s)),
       ln_conns := filter (\<lambda>(a, c). \<not> le_closed E c) (ln_conns s)\<rparr>"

section \<open>Routes\<close>

datatype hub_route =
    ListAgents | GetAgent | PostAgent | DelAgent | PostBeat | PostToggle | PostDispatch | ListV1Tasks | GetV1Task
  | PostProxy | PostCallback

definition hub_scope :: "hub_route \<Rightarrow> string option" where
  "hub_scope r =
     (case r of
        ListAgents \<Rightarrow> Some ''agent:read'' | GetAgent \<Rightarrow> Some ''agent:read'' | PostAgent \<Rightarrow> Some ''agent:register''
      | DelAgent \<Rightarrow> Some ''agent:admin'' | PostBeat \<Rightarrow> Some ''agent:read'' | PostToggle \<Rightarrow> Some ''agent:admin''
      | PostDispatch \<Rightarrow> Some ''task:write'' | ListV1Tasks \<Rightarrow> Some ''task:read'' | GetV1Task \<Rightarrow> Some ''task:read''
      | PostProxy \<Rightarrow> Some ''task:write'' | PostCallback \<Rightarrow> None)"

definition hub_handler :: "hub_env \<Rightarrow> hub_route \<Rightarrow> hub_request \<Rightarrow> hub_api" where
  "hub_handler E r q =
     (case r of
        ListAgents \<Rightarrow> handle_list_agents E q
      | GetAgent \<Rightarrow> handle_get_agent E q
      | PostAgent \<Rightarrow> handle_register_agent E q
      | DelAgent \<Rightarrow> handle_unregister E q
      | PostBeat \<Rightarrow> handle_agent_heartbeat E q
      | PostToggle \<Rightarrow> handle_toggle_agent E q
      | PostDispatch \<Rightarrow> handle_dispatch E q
      | ListV1Tasks \<Rightarrow> handle_list_v1_tasks E q
      | GetV1Task \<Rightarrow> handle_get_v1_task E q
      | PostProxy \<Rightarrow> handle_proxy_task E q
      | PostCallback \<Rightarrow> handle_callback_result E q)"

text \<open>The tenant of the request is the one the authentication put there.\<close>

definition hub_serve :: "hub_env \<Rightarrow> RequestCtx option \<Rightarrow> hub_route \<Rightarrow> hub_request \<Rightarrow> hub_api" where
  "hub_serve E ctx r q s =
     (let q' = q\<lparr>hq_tenant := (case ctx of None \<Rightarrow> None | Some c \<Rightarrow> rq_tenant c)\<rparr> in
      case hub_scope r of
        None \<Rightarrow> hub_handler E r q' s
      | Some sc \<Rightarrow> if require_scope [sc] ctx then hub_handler E r q' s else (scope_refusal sc, s))"

end
