(* ===== verification/HubProps.thy ===== *)
theory HubProps
  imports AgentHub StoreCalls
begin

text \<open>
  What agents can do to the registry over their WebSockets: an invariant of the tasks in memory, the
  timers and the connections, the effect on the task store, and what the code does not check.
\<close>

section \<open>Moves of the link state\<close>

definition task_good :: "string \<Rightarrow> link_task \<Rightarrow> bool" where
  "task_good i t \<longleftrightarrow> map_of t ''id'' = Some (JStr i) \<and> (\<exists>a. map_of t ''agent_id'' = Some (JStr a))"

definition tasks_ok :: "link_state \<Rightarrow> bool" where
  "tasks_ok s \<longleftrightarrow>
     distinct (map fst (ln_tasks s)) \<and> (\<forall>i t. map_of (ln_tasks s) i = Some t \<longrightarrow> task_good i t) \<and>
     distinct (ln_timers s) \<and> set (ln_timers s) \<subseteq> fst ` set (ln_tasks s) \<and> distinct (ln_dangling s)"

text \<open>The tasks and timers stay well-formed, the connections are the same, and the task store only
  makes steps of its own.\<close>

definition link_moves :: "link_state \<Rightarrow> link_state \<Rightarrow> bool" where
  "link_moves s s' \<longleftrightarrow>
     (tasks_ok s \<longrightarrow> tasks_ok s') \<and> ln_conns s' = ln_conns s \<and> rel_option step_ok (ln_store s) (ln_store s')"

named_theorems moves

lemma link_moves_refl [moves, intro]: "link_moves s s"
  by (simp add: link_moves_def option.rel_refl)

lemma link_moves_trans: "link_moves a b \<Longrightarrow> link_moves b c \<Longrightarrow> link_moves a c"
  unfolding link_moves_def by (cases "ln_store a"; cases "ln_store b"; cases "ln_store c") (auto dest: step_ok_trans)

lemma link_moves_frame:
  "ln_tasks s' = ln_tasks s \<Longrightarrow> ln_timers s' = ln_timers s \<Longrightarrow> ln_dangling s' = ln_dangling s \<Longrightarrow>
   ln_conns s' = ln_conns s \<Longrightarrow> ln_store s' = ln_store s \<Longrightarrow> link_moves s s'"
  by (simp add: link_moves_def tasks_ok_def option.rel_refl)

lemma link_moves_fields:
  "link_moves x (send_json c m x)" "link_moves x (x\<lparr>ln_dispatched := p\<rparr>)" "link_moves x (x\<lparr>ln_registry := q\<rparr>)"
  "link_moves x (x\<lparr>ln_sync_at := z\<rparr>)" "link_moves x (x\<lparr>ln_progress := w\<rparr>)"
  by (simp_all add: link_moves_frame send_json_def)

lemma moves_frame [moves]:
  "link_moves s x \<Longrightarrow> link_moves s (send_json c m x)"
  "link_moves s x \<Longrightarrow> link_moves s (x\<lparr>ln_dispatched := p\<rparr>)"
  "link_moves s x \<Longrightarrow> link_moves s (x\<lparr>ln_registry := q\<rparr>)"
  "link_moves s x \<Longrightarrow> link_moves s (x\<lparr>ln_sync_at := z\<rparr>)"
  "link_moves s x \<Longrightarrow> link_moves s (x\<lparr>ln_progress := w\<rparr>)"
  using link_moves_trans link_moves_fields by blast+

lemma moves_put_task [moves]:
  assumes "link_moves s x" "tasks_ok x \<Longrightarrow> task_good i t"
  shows "link_moves s (put_task i t x)"
proof (rule link_moves_trans [OF assms(1)])
  show "link_moves x (put_task i t x)"
    using assms(2) by (auto simp: link_moves_def tasks_ok_def put_task_def distinct_dict_put option.rel_refl)
qed

lemma task_good_put_all [simp]:
  "''id'' \<notin> fst ` set kvs \<Longrightarrow> ''agent_id'' \<notin> fst ` set kvs \<Longrightarrow> task_good i (put_all kvs t) = task_good i t"
  by (simp add: task_good_def map_of_put_all)

lemma tasks_ok_good: "tasks_ok s \<Longrightarrow> map_of (ln_tasks s) i = Some t \<Longrightarrow> task_good i t"
  by (simp add: tasks_ok_def)

lemma moves_update_or_create [moves]:
  assumes "link_moves s x" "\<And>t. task_good i (f t) = task_good i t" "task_good i new"
  shows "link_moves s (update_or_create i f new x)"
  unfolding update_or_create_def
  by (rule moves_put_task) (use assms in \<open>auto split: option.split dest: tasks_ok_good\<close>)

lemma moves_set_task [moves]:
  "link_moves s x \<Longrightarrow> ''id'' \<notin> fst ` set kvs \<Longrightarrow> ''agent_id'' \<notin> fst ` set kvs \<Longrightarrow> link_moves s (set_task i kvs x)"
  unfolding set_task_def by (auto split: option.split intro!: moves_put_task dest: tasks_ok_good)

lemma link_moves_cancel: "link_moves x (cancel_task_timeout i x)" "link_moves x (cancel_dangling_timer a x)"
  by (auto simp: link_moves_def tasks_ok_def cancel_task_timeout_def cancel_dangling_timer_def
      option.rel_refl distinct_removeAll)

lemma moves_cancel [moves]:
  "link_moves s x \<Longrightarrow> link_moves s (cancel_task_timeout i x)"
  "link_moves s x \<Longrightarrow> link_moves s (cancel_dangling_timer a x)"
  using link_moves_trans link_moves_cancel by blast+

lemma map_of_None_key: "map_of d k = Some v \<Longrightarrow> k \<in> fst ` set d"
  by (metis map_of_eq_None_iff option.distinct(1))

lemma moves_schedule [moves]: "link_moves s x \<Longrightarrow> link_moves s (schedule_task_timeout i x)"
proof (erule link_moves_trans)
  show "link_moves x (schedule_task_timeout i x)"
    by (auto simp: link_moves_def tasks_ok_def schedule_task_timeout_def cancel_task_timeout_def Let_def
        option.rel_refl distinct_removeAll dest: map_of_None_key)
qed

lemma moves_reset [moves]: "link_moves s x \<Longrightarrow> link_moves s (reset_task_timeout i x)"
  by (simp add: reset_task_timeout_def moves_schedule)

lemma quiet_status_frame [simp]:
  "ln_tasks (snd (quiet_status now i st res s)) = ln_tasks s"
  "ln_timers (snd (quiet_status now i st res s)) = ln_timers s"
  "ln_dangling (snd (quiet_status now i st res s)) = ln_dangling s"
  "ln_conns (snd (quiet_status now i st res s)) = ln_conns s"
  "ln_dispatched (snd (quiet_status now i st res s)) = ln_dispatched s"
  "ln_sent (snd (quiet_status now i st res s)) = ln_sent s"
  by (auto simp: quiet_status_def split: option.split prod.split sum.split)

lemma quiet_status_store:
  "ln_store (snd (quiet_status now i st res s)) =
     map_option (\<lambda>db. snd (update_task_status now i st None res None [] db)) (ln_store s)"
  by (auto simp: quiet_status_def split: option.split prod.split sum.split)

lemma moves_quiet_status [moves]: "link_moves s x \<Longrightarrow> link_moves s (snd (quiet_status now i st res x))"
proof (erule link_moves_trans)
  show "link_moves x (snd (quiet_status now i st res x))"
    by (cases "ln_store x")
      (simp_all add: link_moves_def tasks_ok_def quiet_status_store step_ok_update_task_status)
qed

lemma moves_reconcile [moves]: "link_moves s x \<Longrightarrow> link_moves s (snd (reconcile E now i st res err x))"
  by (auto simp: reconcile_def intro!: moves_quiet_status split: option.split)

lemma moves_fold:
  "link_moves s x \<Longrightarrow> (\<And>y x. link_moves s x \<Longrightarrow> link_moves s (f y x)) \<Longrightarrow> link_moves s (fold f ys x)"
  by (rule fold_invariant)

section \<open>The handlers\<close>

lemma moves_with_id: "(\<And>i. link_moves s (snd (f i s))) \<Longrightarrow> link_moves s (snd (with_id d f s))"
  by (auto simp: with_id_def Let_def intro: moves split: json.split)

lemma moves_then_do:
  "link_moves s (snd r) \<Longrightarrow> (\<And>x. link_moves s x \<Longrightarrow> link_moves s (f x)) \<Longrightarrow> link_moves s (snd (then_do r f))"
  by (cases r) (auto simp: then_do_def split: ws_result.split)

lemma task_good_new [simp]:
  "task_good i ([(''id'', JStr i), (''agent_id'', JStr a)] @ t)"
  "task_good i ((''id'', JStr i) # (''agent_id'', JStr a) # t)"
  by (simp_all add: task_good_def)

lemma moves_task_ack: "link_moves s (snd (handle_task_ack E now a c d s))"
  unfolding handle_task_ack_def Let_def
  by (intro moves_with_id moves_then_do moves) simp_all

lemma moves_broadcast [moves]: "link_moves s x \<Longrightarrow> link_moves s (broadcast_progress E i d x)"
  unfolding broadcast_progress_def by (auto intro!: moves split: option.split)

lemma moves_task_progress: "link_moves s (snd (handle_task_progress E now a c d s))"
  unfolding handle_task_progress_def Let_def
  by (intro moves_with_id) (auto intro!: moves)

lemma moves_task_complete: "link_moves s (snd (handle_task_complete E now a c d s))"
  unfolding handle_task_complete_def Let_def
  by (intro moves_with_id moves_then_do moves) simp_all

lemma moves_task_fail: "link_moves s (snd (handle_task_fail E now a c d s))"
  unfolding handle_task_fail_def Let_def
  by (intro moves_with_id moves_then_do moves) simp_all

lemma moves_task_result: "link_moves s (snd (handle_task_result E now a c d s))"
  unfolding handle_task_result_def Let_def
  by (intro moves_with_id moves_then_do moves) simp_all

lemma moves_note_active: "link_moves s (note_active E now d s)"
  unfolding note_active_def Let_def
  by (auto intro!: moves dest: tasks_ok_good split: json.split option.split)

lemma moves_ping: "link_moves s (snd (handle_ping E now a c d s))"
  unfolding handle_ping_def Let_def
  by (auto intro!: moves moves_note_active)

lemma moves_restore_missing [moves]: "link_moves s x \<Longrightarrow> link_moves s (restore_missing E now a rows x)"
  unfolding restore_missing_def by (rule moves_fold) (auto intro!: moves split: prod.split)

lemma moves_merge_report [moves]: "link_moves s x \<Longrightarrow> link_moves s (merge_report E now a i st t x)"
  unfolding merge_report_def by (auto intro!: moves dest: tasks_ok_good split: option.split)

lemma moves_heal_report [moves]: "link_moves s x \<Longrightarrow> link_moves s (snd (heal_report now i st x))"
  unfolding heal_report_def by (auto intro!: moves split: option.split)

definition merge_one ::
  "link_env \<Rightarrow> rat \<Rightarrow> string \<Rightarrow> string option \<times> (string \<times> json) list \<Rightarrow> nat \<times> link_state \<Rightarrow> nat \<times> link_state" where
  "merge_one E now a r ns =
     merge_reports E now a [r] ns"

lemma moves_merge_one: "link_moves s (snd ns) \<Longrightarrow> link_moves s (snd (merge_one E now a r ns))"
proof (cases ns; cases r)
  fix n x i t assume "link_moves s (snd ns)" "ns = (n, x)" "r = (i, t)"
  then have "link_moves s (snd (heal_report now j st (merge_report E now a j st t x)))" for j st
    by (intro moves) simp
  with \<open>link_moves s (snd ns)\<close> show ?thesis
    unfolding \<open>ns = _\<close> \<open>r = _\<close> merge_one_def merge_reports_def
    by (cases i) (simp_all add: Let_def case_prod_beta)
qed

lemma merge_reports_fold: "merge_reports E now a ts ns = fold (merge_one E now a) ts ns"
proof (induction ts arbitrary: ns)
  case (Cons r ts)
  have "merge_reports E now a (r # ts) ns = merge_reports E now a ts (merge_one E now a r ns)"
    unfolding merge_one_def merge_reports_def by simp
  with Cons show ?case by simp
qed (simp add: merge_reports_def)

lemma moves_merge_reports: "link_moves s (snd ns) \<Longrightarrow> link_moves s (snd (merge_reports E now a ts ns))"
  unfolding merge_reports_fold
  by (rule fold_invariant [where P = "\<lambda>ns. link_moves s (snd ns)"]) (auto intro: moves_merge_one)

lemma moves_sync_error: "link_moves s x \<Longrightarrow> link_moves s (snd (sync_error c msg extra x))"
  unfolding sync_error_def by (auto intro!: moves)

lemma moves_sync_tasks: "link_moves s x \<Longrightarrow> link_moves s (snd (sync_tasks E now a c d x))"
proof -
  assume x: "link_moves s x"
  have "link_moves s (snd (merge_reports E now a ts (0, restore_missing E now a rows x)))" for ts rows
    using x by (intro moves_merge_reports) (auto intro: moves)
  then show ?thesis
    using x by (auto simp: sync_tasks_def Let_def case_prod_beta intro!: moves split: option.split)
qed

lemma moves_accept_sync: "link_moves s x \<Longrightarrow> link_moves s (snd (accept_sync E now a c d x))"
proof -
  assume x: "link_moves s x"
  then have "link_moves s (snd (check_state_sync_rate_limit now a x))"
    by (auto simp: check_state_sync_rate_limit_def Let_def intro: moves)
  then show ?thesis
    by (auto simp: accept_sync_def case_prod_beta intro: moves_sync_error moves_sync_tasks split: option.split)
qed

lemma moves_state_sync: "link_moves s (snd (handle_state_sync E now a c d s))"
  unfolding handle_state_sync_def
  by (auto simp: Let_def intro: moves_accept_sync moves_sync_error link_moves_refl split: json.split)

lemmas moves_handlers =
  moves_ping moves_task_ack moves_task_progress moves_task_complete moves_task_fail moves_task_result moves_state_sync

lemma moves_get_handler: "get_ws_handler ty = Some h \<Longrightarrow> link_moves s (snd (h E now a c d s))"
  by (auto simp: get_ws_handler_def create_default_router_def handle_close_def handle_job_subtask_result_def
      intro: moves_handlers link_moves_refl split: if_splits)

lemma moves_ws_receive: "link_moves s (snd (ws_receive E now a c text s))"
  unfolding ws_receive_def by (auto intro: moves moves_get_handler split: option.split json.split)

section \<open>Connections and timers\<close>

lemma moves_redispatch [moves]: "link_moves s x \<Longrightarrow> link_moves s (redispatch now c a t x)"
proof -
  assume "link_moves s x"
  then have "link_moves s (snd (quiet_status now (tid t) (status_value RUNNING) None x))"
    by (intro moves)
  then show ?thesis
    by (auto simp: redispatch_def case_prod_beta intro!: moves split: bool.split option.split)
qed

lemma moves_pending [moves]: "link_moves s x \<Longrightarrow> link_moves s (maybe_dispatch_pending now c a x)"
  unfolding maybe_dispatch_pending_def by (auto intro!: moves_fold moves split: option.split)

lemma moves_status_if_dispatched [moves]: "link_moves s x \<Longrightarrow> link_moves s (status_if_dispatched now st msg i x)"
  unfolding status_if_dispatched_def by (auto intro!: moves)

lemma link_moves_start_grace:
  "link_moves x ((cancel_dangling_timer a x)\<lparr>ln_dangling := ln_dangling (cancel_dangling_timer a x) @ [a]\<rparr>)"
  by (simp add: link_moves_def tasks_ok_def cancel_dangling_timer_def option.rel_refl distinct_removeAll)

lemma moves_dangle: "link_moves s (dangle_agent_tasks E now a s)"
  unfolding dangle_agent_tasks_def Let_def
  by (auto intro!: link_moves_trans [OF _ link_moves_start_grace] moves_fold moves)

lemma moves_dangle_timeout: "link_moves s (dangle_timeout E now a s)"
  unfolding dangle_timeout_def Let_def by (auto intro!: moves_fold moves)

lemma moves_send_cancel [moves]: "link_moves s x \<Longrightarrow> link_moves s (send_cancel E i t x)"
  unfolding send_cancel_def by (auto intro!: moves split: json.split option.split)

lemma moves_timeout_worker: "link_moves s (timeout_worker E limit now i s)"
  unfolding timeout_worker_def by (auto intro!: moves split: option.split)

section \<open>The hub\<close>

definition hub_ok :: "hub_state \<Rightarrow> bool" where
  "hub_ok h \<longleftrightarrow>
     tasks_ok (hb_link h) \<and> distinct (map fst (ln_conns (hb_link h))) \<and> distinct (map fst (hb_loops h)) \<and>
     (\<forall>(a, c) \<in> set (ln_conns (hb_link h)). (c, a) \<in> set (hb_loops h))"

lemma moves_ws_connect:
  "\<exists>x. link_moves x (ws_connect E now a c ten s) \<and> (tasks_ok s \<longrightarrow> tasks_ok x) \<and> ln_store x = ln_store s \<and>
       ln_conns x = AList.delete a (ln_conns s) @ [(a, c)]"
proof -
  define s1 where "s1 = (case open_conn E a s of None \<Rightarrow> s
    | Some old \<Rightarrow> send_json old [(''type'', JStr ''close''), (''reason'', JStr ''replaced'')] s)"
  define x where "x = s1\<lparr>ln_conns := AList.delete a (ln_conns s1) @ [(a, c)],
      ln_registry := snd (heartbeat_agent now a (opt_or ten []) (ln_registry s1))\<rparr>"
  have "link_moves x (ws_connect E now a c ten s)"
    unfolding ws_connect_def Let_def s1_def [symmetric] x_def [symmetric] by (auto intro: moves)
  moreover have "ln_tasks s1 = ln_tasks s \<and> ln_timers s1 = ln_timers s \<and> ln_dangling s1 = ln_dangling s \<and>
      ln_conns s1 = ln_conns s \<and> ln_store s1 = ln_store s"
    by (simp add: s1_def send_json_def split: option.split)
  ultimately show ?thesis
    by (intro exI [of _ x]) (simp add: x_def tasks_ok_def)
qed

lemma moves_ws_disconnect:
  "\<exists>x. link_moves x (ws_disconnect E now a c s) \<and> (tasks_ok s \<longrightarrow> tasks_ok x) \<and> ln_store x = ln_store s \<and>
       ln_conns x = (if map_of (ln_conns s) a = Some c then AList.delete a (ln_conns s) else ln_conns s)"
  unfolding ws_disconnect_def by (rule exI, rule conjI, rule moves_dangle) (simp add: tasks_ok_def)

lemma hub_ok_frame:
  "link_moves x s' \<Longrightarrow> tasks_ok x \<Longrightarrow> distinct (map fst (ln_conns x)) \<Longrightarrow> distinct (map fst ls) \<Longrightarrow>
   \<forall>(a, c) \<in> set (ln_conns x). (c, a) \<in> set ls \<Longrightarrow> hub_ok \<lparr>hb_link = s', hb_loops = ls\<rparr>"
  by (simp add: hub_ok_def link_moves_def)

lemma distinct_delete: "distinct (map fst d) \<Longrightarrow> distinct (map fst (AList.delete k d))"
  by (simp add: AList.distinct_delete)

lemma in_delete: "(a, c) \<in> set (AList.delete k d) \<longleftrightarrow> a \<noteq> k \<and> (a, c) \<in> set d"
  by (auto simp: AList.delete_eq)

lemma distinct_removeAll_keys: "distinct (map fst d) \<Longrightarrow> distinct (map fst (removeAll x d))"
  by (simp add: removeAll_filter_not_eq distinct_map_filter)

lemma end_loop_ok:
  assumes "hub_ok h"
  shows "hub_ok (end_loop E now a c h) \<and> rel_option step_ok (ln_store (hb_link h)) (ln_store (hb_link (end_loop E now a c h)))"
proof -
  obtain x where x: "link_moves x (ws_disconnect E now a c (hb_link h))" "tasks_ok (hb_link h) \<longrightarrow> tasks_ok x"
    "ln_store x = ln_store (hb_link h)"
    "ln_conns x = (if map_of (ln_conns (hb_link h)) a = Some c then AList.delete a (ln_conns (hb_link h)) else ln_conns (hb_link h))"
    using moves_ws_disconnect by blast
  have eq: "end_loop E now a c h = \<lparr>hb_link = ws_disconnect E now a c (hb_link h), hb_loops = removeAll (c, a) (hb_loops h)\<rparr>"
    by (simp add: end_loop_def)
  have "hub_ok (end_loop E now a c h)"
    unfolding eq using assms x(2,4)
    by (intro hub_ok_frame [OF x(1)])
      (auto simp: hub_ok_def distinct_delete distinct_removeAll_keys in_delete map_of_eq_Some_iff split: if_splits)
  with x(1,3) show ?thesis by (simp add: eq link_moves_def)
qed

lemma hub_event_ok:
  assumes "hub_event_step E limit now e h = Some h'" "hub_ok h"
  shows "hub_ok h' \<and> rel_option step_ok (ln_store (hb_link h)) (ln_store (hb_link h'))"
proof -
  have keep: "hub_ok (h\<lparr>hb_link := s'\<rparr>) \<and> rel_option step_ok (ln_store (hb_link h)) (ln_store s')"
    if "link_moves (hb_link h) s'" for s'
    using that assms(2) by (simp add: hub_ok_def link_moves_def)
  show ?thesis
  proof (cases e)
    case (Connects a c ten)
    obtain x where x: "link_moves x (ws_connect E now a c ten (hb_link h))" "tasks_ok (hb_link h) \<longrightarrow> tasks_ok x"
      "ln_store x = ln_store (hb_link h)" "ln_conns x = AList.delete a (ln_conns (hb_link h)) @ [(a, c)]"
      using moves_ws_connect by blast
    have h': "h' = \<lparr>hb_link = ws_connect E now a c ten (hb_link h), hb_loops = hb_loops h @ [(c, a)]\<rparr>"
      and new: "map_of (hb_loops h) c = None"
      using assms(1) Connects by (auto simp: hub_event_step_def split: if_splits)
    have "hub_ok h'"
      unfolding h' using assms(2) x(2,4) new
      by (intro hub_ok_frame [OF x(1)])
        (auto simp: hub_ok_def distinct_delete in_delete map_of_eq_None_iff AList.delete_keys distinct_removeAll)
    with x(1,3) show ?thesis by (simp add: h' link_moves_def)
  next
    case (Receives c m)
    obtain a where "map_of (hb_loops h) c = Some a"
      using assms(1) Receives by (auto simp: hub_event_step_def split: option.splits)
    moreover obtain r s' where rs: "ws_receive E now a c m (hb_link h) = (r, s')" by fastforce
    moreover have "link_moves (hb_link h) s'"
      using moves_ws_receive [of "hb_link h" E now a c m] rs by simp
    ultimately show ?thesis
      using assms(1) Receives keep [of s'] end_loop_ok [of "h\<lparr>hb_link := s'\<rparr>" E now a c]
      by (cases r; cases "ln_store (hb_link h)"; cases "ln_store s'"; cases "ln_store (hb_link h')")
        (auto simp: hub_event_step_def dest: step_ok_trans)
  qed (use assms keep moves_timeout_worker moves_dangle_timeout end_loop_ok in
      \<open>auto simp: hub_event_step_def Let_def split: if_splits\<close>)
qed

text \<open>C31: Whatever connections, messages, closings and timers follow in whatever order, the registry's
  side of its WebSockets stays consistent: the tasks in memory are keyed by their own id and belong to
  an agent, every timer is the single timer of a known task, every connection on record is one whose
  loop still runs, for the agent it is recorded under; and the task store stays consistent with its statuses only moving
  along the state machine.\<close>

theorem hub_invariant:
  assumes "(hub_step E limit)\<^sup>*\<^sup>* h h'" and "hub_ok h" and "ln_store (hb_link h) = Some db" and "db_ok db"
  shows "hub_ok h' \<and> (\<exists>db'. ln_store (hb_link h') = Some db' \<and> db_ok db' \<and> advances db db')"
  using assms(1)
proof (induction rule: rtranclp_induct)
  case base
  then show ?case using assms(2-4) by auto
next
  case (step y z)
  then obtain db1 where db1: "hub_ok y" "ln_store (hb_link y) = Some db1" "db_ok db1" "advances db db1" by blast
  obtain now e where "hub_event_step E limit now e y = Some z"
    using step.hyps(2) by (auto elim: hub_step.cases)
  from hub_event_ok [OF this db1(1)] db1 show ?case
    by (cases "ln_store (hb_link z)") (auto simp: step_ok_def dest: advances_trans)
qed

section \<open>Marked and failed tasks\<close>






lemma set_task_frame [simp]:
  "ln_timers (set_task i kvs s) = ln_timers s" "ln_conns (set_task i kvs s) = ln_conns s"
  "ln_dangling (set_task i kvs s) = ln_dangling s" "ln_store (set_task i kvs s) = ln_store s"
  "ln_dispatched (set_task i kvs s) = ln_dispatched s"
  by (auto simp: set_task_def put_task_def split: option.split)

lemma cancel_frame [simp]:
  "ln_tasks (cancel_task_timeout i s) = ln_tasks s" "ln_conns (cancel_task_timeout i s) = ln_conns s"
  "ln_dangling (cancel_task_timeout i s) = ln_dangling s" "ln_store (cancel_task_timeout i s) = ln_store s"
  "ln_dispatched (cancel_task_timeout i s) = ln_dispatched s"
  "ln_timers (cancel_task_timeout i s) = removeAll i (ln_timers s)"
  "ln_tasks (cancel_dangling_timer a s) = ln_tasks s" "ln_conns (cancel_dangling_timer a s) = ln_conns s"
  "ln_timers (cancel_dangling_timer a s) = ln_timers s" "ln_store (cancel_dangling_timer a s) = ln_store s"
  "ln_dispatched (cancel_dangling_timer a s) = ln_dispatched s"
  "ln_dangling (cancel_dangling_timer a s) = removeAll a (ln_dangling s)"
  by (simp_all add: cancel_task_timeout_def cancel_dangling_timer_def)

lemma status_if_dispatched_frame [simp]:
  "ln_tasks (status_if_dispatched now st msg i s) = ln_tasks s" "ln_timers (status_if_dispatched now st msg i s) = ln_timers s"
  "ln_conns (status_if_dispatched now st msg i s) = ln_conns s"
  "ln_dangling (status_if_dispatched now st msg i s) = ln_dangling s"
  "ln_dispatched (status_if_dispatched now st msg i s) = ln_dispatched s"
  by (simp_all add: status_if_dispatched_def)

lemma update_to_dangling: "snd (update_task_status now i (status_value DANGLING) lock res summ meta db) = db"
  by (auto simp: update_task_status_def tx_def transition_body_def validate_cases no_edge_to_dangling split: option.split)

lemma store_status_dangling [simp]: "ln_store (status_if_dispatched now (status_value DANGLING) msg i s) = ln_store s"
  by (simp add: status_if_dispatched_def quiet_status_store update_to_dangling option.map_ident)









lemma was_dispatched_frame:
  "ln_dispatched s' = ln_dispatched s \<Longrightarrow> ln_store s' \<noteq> None \<longleftrightarrow> ln_store s \<noteq> None \<Longrightarrow>
   was_dispatched i s' = was_dispatched i s"
  by (simp add: was_dispatched_def)








section \<open>Who may report, and what synchronisation repairs\<close>

lemma complete_running:
  assumes "find_task db i = Some t" "status t = status_value RUNNING"
  shows "\<exists>v db'. update_task_status now i (status_value COMPLETED) None res None [] db = (Inr v, db') \<and>
    status_of db' i = Some (status_value COMPLETED)"
proof -
  obtain k where k: "transition_kind (status t) (status_value COMPLETED) = Inr k"
    using assms(2) by (simp add: transition_kind_def)
  have "tid t = i" using find_task_row [OF assms(1)] by simp
  then have "status_of (apply_transition now t (status_value COMPLETED) res None [] None k db) i = Some (status_value COMPLETED)"
    using find_task_apply_transition [of db t] assms(1) by (simp add: status_of_def)
  moreover have "update_task_status now i (status_value COMPLETED) None res None [] db =
      (Inr (get_task i (apply_transition now t (status_value COMPLETED) res None [] None k db)),
       apply_transition now t (status_value COMPLETED) res None [] None k db)"
    by (rule update_status_value) (use assms k in simp_all)
  ultimately show ?thesis by blast
qed

text \<open>C37: A \<open>task_complete\<close> over any open connection finishes a running task in memory and in the store and
  ends its timeout, whichever agent the task was sent to: the handlers never compare the agent.\<close>

theorem any_agent_completes:
  assumes "loads m = Some (JObj d)" and "dict_get d ''type'' (JStr []) = JStr ''task_complete''"
    and "dict_get d ''id'' (JStr []) = JStr i" and "i \<noteq> []" and "result_of (dict_get d ''result'' JNull) = Some r"
    and "ln_store s = Some db" and "was_dispatched i s" and "find_task db i = Some t" and "status t = status_value RUNNING"
  shows "\<exists>s' db' u. ws_receive E now b c m s = (Done, s') \<and>
    ln_store s' = Some db' \<and> status_of db' i = Some (status_value COMPLETED) \<and>
    map_of (ln_tasks s') i = Some u \<and> task_state u = JStr ''completed'' \<and> i \<notin> set (ln_timers s')"
proof -
  obtain v db' where db': "update_task_status \<lfloor>now\<rfloor> i (status_value COMPLETED) None (result_text r) None [] db = (Inr v, db')"
    "status_of db' i = Some (status_value COMPLETED)"
    using complete_running [OF assms(8,9)] by blast
  have "get_ws_handler ''task_complete'' = Some handle_task_complete"
    by (simp add: get_ws_handler_def create_default_router_def)
  then have *: "ws_receive E now b c m s = handle_task_complete E now b c d s"
    using assms(1,2) by (simp add: ws_receive_def)
  show ?thesis
    using assms(3-7) db'
    by (cases "map_of (ln_tasks s) i")
      (simp_all add: * handle_task_complete_def with_id_def then_do_def reconcile_def was_dispatched_def update_or_create_def
        put_task_def quiet_status_def Let_def task_state_def dict_get_def put_all_def)
qed

lemma heal_report_dead: "ln_store s = Some db \<Longrightarrow> db_ok db \<Longrightarrow> heal_report now i st s = (False, s)"
proof -
  assume db: "ln_store s = Some db" "db_ok db"
  have "map_option (\<lambda>v. status (task_of v)) (get_task i db) \<noteq> Some (status_value DANGLING)"
  proof
    assume "map_option (\<lambda>v. status (task_of v)) (get_task i db) = Some (status_value DANGLING)"
    then obtain t where "find_task db i = Some t" "status t = status_value DANGLING"
      by (auto simp: get_task_def split: option.splits)
    with db(2) find_task_row [of db i] show False
      by (auto simp: db_ok_defs row_ok_def)
  qed
  with db(1) show ?thesis by (auto simp: heal_report_def)
qed

definition same_wiring :: "link_state \<Rightarrow> link_state \<Rightarrow> bool" where
  "same_wiring s s' \<longleftrightarrow>
     ln_store s' = ln_store s \<and> ln_timers s' = ln_timers s \<and> ln_dangling s' = ln_dangling s \<and> ln_conns s' = ln_conns s"

lemma same_wiring_put [simp]: "same_wiring s (put_task i t x) = same_wiring s x"
  by (simp add: same_wiring_def put_task_def)

lemma same_wiring_refl [simp]: "same_wiring s s"
  by (simp add: same_wiring_def)

lemma same_wiring_send [simp]: "same_wiring s (send_json c m x) = same_wiring s x"
  by (simp add: same_wiring_def send_json_def)

lemma same_wiring_sync_error [simp]: "same_wiring s (snd (sync_error c msg extra x)) = same_wiring s x"
  by (simp add: sync_error_def)

lemma same_wiring_restore: "same_wiring s x \<Longrightarrow> same_wiring s (restore_missing E now a rows x)"
  unfolding restore_missing_def by (rule fold_invariant) (auto split: prod.split)

lemma same_wiring_merge_report [simp]: "same_wiring s (merge_report E now a i st t x) = same_wiring s x"
  by (simp add: merge_report_def split: option.split)

lemma same_wiring_merge_one:
  assumes "same_wiring s (snd ns)" "fst ns = 0" "ln_store s = Some db" "db_ok db"
  shows "same_wiring s (snd (merge_one E now a r ns)) \<and> fst (merge_one E now a r ns) = 0"
proof -
  obtain x where ns: "ns = (0, x)" "same_wiring s x" using assms(1,2) by (cases ns) simp
  obtain i t where r: "r = (i, t)" by fastforce
  have "same_wiring s (merge_report E now a j st t x)" for j st
    using ns(2) by simp
  then have "heal_report now j st (merge_report E now a j st t x) = (False, merge_report E now a j st t x)" for j st
    using assms(3,4) by (intro heal_report_dead [of _ db]) (simp_all add: same_wiring_def)
  with ns show ?thesis
    by (cases i) (simp_all add: merge_one_def merge_reports_def r Let_def)
qed

lemma same_wiring_merge_reports:
  assumes "same_wiring s x" "ln_store s = Some db" "db_ok db"
  shows "same_wiring s (snd (merge_reports E now a ts (0, x))) \<and> fst (merge_reports E now a ts (0, x)) = 0"
  unfolding merge_reports_fold
  by (rule fold_invariant [where P = "\<lambda>ns. same_wiring s (snd ns) \<and> fst ns = 0"])
    (use assms same_wiring_merge_one in auto)

lemma same_wiring_sync_tasks:
  assumes "same_wiring s x" "ln_store s = Some db" "db_ok db"
  shows "same_wiring s (snd (sync_tasks E now a c d x))"
proof -
  have "same_wiring s (snd (merge_reports E now a ts (0, restore_missing E now a rows x))) \<and>
      fst (merge_reports E now a ts (0, restore_missing E now a rows x)) = 0" for ts rows
    by (rule same_wiring_merge_reports [OF same_wiring_restore]) (use assms in simp_all)
  then show ?thesis
    using assms(1) by (simp add: sync_tasks_def Let_def case_prod_beta split: option.split)
qed

text \<open>A \<open>state_sync\<close> repairs only the registry's copy of the tasks: as no stored task is ever dangling,
  the branch that heals one is dead, so the task store stays as it is, the grace timer of the agent keeps
  running and no task that lost its timeout when the connection broke gets one again.\<close>

theorem state_sync_heals_nothing:
  assumes "ln_store s = Some db" and "db_ok db"
  shows "ln_store (snd (handle_state_sync E now a c d s)) = Some db \<and>
    ln_dangling (snd (handle_state_sync E now a c d s)) = ln_dangling s \<and>
    ln_timers (snd (handle_state_sync E now a c d s)) = ln_timers s"
proof -
  have "same_wiring s (snd (check_state_sync_rate_limit now a s))"
    by (auto simp: check_state_sync_rate_limit_def Let_def same_wiring_def)
  then have "same_wiring s (snd (accept_sync E now a c d s))"
    using same_wiring_sync_tasks [OF _ assms] by (simp add: accept_sync_def case_prod_beta split: option.split)
  then have "same_wiring s (snd (handle_state_sync E now a c d s))"
    by (auto simp: handle_state_sync_def Let_def split: json.split)
  with assms(1) show ?thesis by (simp add: same_wiring_def)
qed

section \<open>Concrete runs\<close>

text \<open>The task of \<open>demo_db\<close> that runs was sent to agent \<open>w\<close>, which has connected twice.\<close>

definition demo_task :: link_task where
  "demo_task = [(''id'', JStr ''a''), (''agent_id'', JStr ''w''), (''state'', JStr ''forwarded'')]"

definition demo_link :: link_state where
  "demo_link =
     \<lparr> ln_tasks = [(''a'', demo_task)], ln_conns = [(''w'', 2)], ln_timers = [''a''], ln_dangling = [], ln_sync_at = [],
       ln_store = Some demo_db, ln_dispatched = Some [(''a'', ''w'')], ln_registry = empty_registry, ln_sent = [],
       ln_progress = [] \<rparr>"

definition demo_hub :: hub_state where
  "demo_hub = \<lparr> hb_link = demo_link, hb_loops = [(1, ''w''), (2, ''w''), (3, ''x'')] \<rparr>"

definition demo_env :: link_env where
  "demo_env =
     \<lparr> le_num = (\<lambda>q. JInt \<lfloor>q\<rfloor>), le_float = (\<lambda>j. None), le_py_str = (\<lambda>r. []), le_round0 = (\<lambda>q. []),
       le_round1 = (\<lambda>q. JNull), le_broadcast = False, le_closed = (\<lambda>c. False) \<rparr>"

lemma demo_hub_ok: "hub_ok demo_hub"
  by (auto simp: hub_ok_def tasks_ok_def task_good_def demo_hub_def demo_link_def demo_task_def)

theorem hub_invariant_witness:
  "\<exists>h'. (hub_step demo_env 300)\<^sup>*\<^sup>* demo_hub h' \<and> h' \<noteq> demo_hub \<and> hub_ok h' \<and>
    (\<exists>db'. ln_store (hb_link h') = Some db' \<and> db_ok db' \<and> advances demo_db db')"
proof -
  let ?h = "demo_hub\<lparr>hb_link := timeout_worker demo_env 300 9 ''a'' demo_link\<rparr>"
  have "hub_event_step demo_env 300 9 (TaskTimer ''a'') demo_hub = Some ?h"
    by (simp add: hub_event_step_def demo_hub_def demo_link_def Let_def)
  then have run: "(hub_step demo_env 300)\<^sup>*\<^sup>* demo_hub ?h"
    by (intro r_into_rtranclp hub_event)
  have "ln_timers (timeout_worker demo_env 300 9 ''a'' demo_link) = []"
    by (simp add: timeout_worker_def demo_link_def demo_task_def task_state_def dict_get_def send_cancel_def send_json_def
        set_task_def put_task_def split: option.split json.split)
  then have "?h \<noteq> demo_hub"
    by (auto simp: demo_hub_def demo_link_def dest!: arg_cong [of _ _ "\<lambda>h. ln_timers (hb_link h)"])
  moreover have "ln_store (hb_link demo_hub) = Some demo_db" by (simp add: demo_hub_def demo_link_def)
  ultimately show ?thesis
    using run hub_invariant [OF run demo_hub_ok _ demo_db_ok] by blast
qed

lemma demo_row: obtains t where "find_task demo_db ''a'' = Some t" "status t = status_value RUNNING" "max_retries t = None"
proof -
  have "map_option (\<lambda>t. (status t, max_retries t)) (find_task demo_db ''a'') = Some (status_value RUNNING, None)"
    by code_simp
  then show thesis by (auto intro: that)
qed


theorem any_agent_completes_witness:
  "\<exists>s' db'. ws_receive demo_env 9 ''x'' 3
      (dumps plain_opts (JObj [(''type'', JStr ''task_complete''), (''id'', JStr ''a'')])) demo_link = (Done, s') \<and>
    ln_store s' = Some db' \<and> status_of db' ''a'' = Some (status_value COMPLETED) \<and> map_of [(''a'', ''w'')] ''a'' = Some ''w''"
proof -
  let ?d = "[(''type'', JStr ''task_complete''), (''id'', JStr ''a'')]"
  obtain t where t: "find_task demo_db ''a'' = Some t" "status t = status_value RUNNING"
    by (rule demo_row)
  have "loads (dumps plain_opts (JObj ?d)) = Some (JObj ?d)" by code_simp
  moreover have "ln_store demo_link = Some demo_db" "was_dispatched ''a'' demo_link"
    by (simp_all add: demo_link_def was_dispatched_def)
  ultimately show ?thesis
    using any_agent_completes [of _ ?d "''a''" ResNone demo_link demo_db t demo_env 9 "''x''" 3] t
    by (fastforce simp: dict_get_def result_of_def)
qed

theorem state_sync_heals_nothing_witness:
  "ln_dangling (snd (handle_state_sync demo_env 9 ''w'' 2 [(''type'', JStr ''state_sync'')] (demo_link\<lparr>ln_dangling := [''w'']\<rparr>))) = [''w'']"
  using state_sync_heals_nothing [of "demo_link\<lparr>ln_dangling := [''w'']\<rparr>" demo_db demo_env 9 "''w''" 2 "[(''type'', JStr ''state_sync'')]"]
    demo_db_ok by (simp add: demo_link_def)

end
