(* ===== verification/RouteProps.thy ===== *)
theory RouteProps
  imports AgentTasks HubProps
begin

text \<open>
  What requests to the registry's own HTTP interface keep: the tables and the tasks in memory under every
  request, the replies of registration and dispatch, and the gaps around tenants and callbacks.
\<close>

section \<open>Requests keep the state well-formed\<close>

definition agent_ids :: "hub_app \<Rightarrow> string list" where
  "agent_ids s = map ag_id (agents (ln_registry (ha_link s)))"

definition app_moves :: "hub_app \<Rightarrow> hub_app \<Rightarrow> bool" where
  "app_moves s s' \<longleftrightarrow>
     (tasks_ok (ha_link s) \<longrightarrow> tasks_ok (ha_link s')) \<and> set (ln_conns (ha_link s')) \<subseteq> set (ln_conns (ha_link s)) \<and>
     rel_option step_ok (ln_store (ha_link s)) (ln_store (ha_link s')) \<and> (distinct (agent_ids s) \<longrightarrow> distinct (agent_ids s'))"

lemma app_moves_refl [simp, intro]: "app_moves s s"
  by (simp add: app_moves_def option.rel_refl)

lemma app_moves_trans: "app_moves a b \<Longrightarrow> app_moves b c \<Longrightarrow> app_moves a c"
  unfolding app_moves_def
  by (cases "ln_store (ha_link a)"; cases "ln_store (ha_link b)"; cases "ln_store (ha_link c)") (auto dest: step_ok_trans)

lemma app_moves_link:
  "link_moves (ha_link s) (ha_link s') \<Longrightarrow> (distinct (agent_ids s) \<Longrightarrow> distinct (agent_ids s')) \<Longrightarrow> app_moves s s'"
  by (simp add: app_moves_def link_moves_def)

lemma ha_link_on_link [simp]: "ha_link (on_link f x) = f (ha_link x)"
  by (simp add: on_link_def)

lemma app_moves_on_link:
  assumes "app_moves s x" "link_moves (ha_link x) (f (ha_link x))" "ln_registry (f (ha_link x)) = ln_registry (ha_link x)"
  shows "app_moves s (on_link f x)"
  using assms by (auto intro!: app_moves_trans [OF assms(1)] app_moves_link simp: on_link_def agent_ids_def)

lemma same_link_moves: "ha_link x' = ha_link x \<Longrightarrow> app_moves s x' = app_moves s x"
  by (simp add: app_moves_def agent_ids_def)

lemma side_frame [simp]:
  "ha_link (log_audit E q ev i x) = ha_link x" "ha_link (to_admins E m x) = ha_link x"
  by (simp_all add: log_audit_def to_admins_def)

lemma app_moves_side [simp]:
  "app_moves s (log_audit E q ev i x) = app_moves s x" "app_moves s (to_admins E m x) = app_moves s x"
  "app_moves s (x\<lparr>ha_auth := a\<rparr>) = app_moves s x"
  by (rule same_link_moves, simp)+

lemma app_moves_registry:
  assumes "distinct (agent_ids s) \<Longrightarrow> distinct (map ag_id (agents reg))"
  shows "app_moves s (on_link (\<lambda>l. l\<lparr>ln_registry := reg\<rparr>) s)"
  using assms by (intro app_moves_link) (simp_all add: agent_ids_def link_moves_fields)

text \<open>How a request ends: the state has moved, and with an error status the agents are as they were.\<close>

definition ends :: "hub_app \<Rightarrow> outcome \<times> hub_app \<Rightarrow> bool" where
  "ends s r \<longleftrightarrow> app_moves s (snd r) \<and>
     (\<forall>st j h. fst r = outcome.Reply st j h \<longrightarrow> 400 \<le> st \<longrightarrow> ln_registry (ha_link (snd r)) = ln_registry (ha_link s))"

lemma ends_reply: "app_moves s x \<Longrightarrow> st < 400 \<Longrightarrow> ends s (hub_reply st d x)"
  by (simp add: ends_def hub_reply_def)

lemma ends_error: "app_moves s x \<Longrightarrow> ln_registry (ha_link x) = ln_registry (ha_link s) \<Longrightarrow> ends s (hub_error E st code detail x)"
  by (simp add: ends_def hub_error_def)

lemma ends_no_reply: "app_moves s x \<Longrightarrow> ends s (hub_raised x)" "app_moves s x \<Longrightarrow> ends s (hub_odd x)"
  by (simp_all add: ends_def hub_raised_def hub_odd_def)

lemma ends_stay: "ends s (r, s)"
  by (simp add: ends_def)

lemma ends_missing: "app_moves s x \<Longrightarrow> ln_registry (ha_link x) = ln_registry (ha_link s) \<Longrightarrow> ends s (agent_missing E i x)"
  unfolding agent_missing_def by (rule ends_error)

lemma ends_with_json: "(\<And>d. ends s (f d s)) \<Longrightarrow> ends s (with_json E q f s)"
  unfolding with_json_def by (auto intro: ends_error ends_no_reply split: option.split json.split)

section \<open>Each handler\<close>

lemma ends_list_agents: "ends s (handle_list_agents E q s)"
  unfolding handle_list_agents_def Let_def by (rule ends_reply) simp_all

lemma ends_get_agent: "ends s (handle_get_agent E q s)"
  unfolding handle_get_agent_def by (auto intro: ends_missing ends_stay split: option.split)

lemma ends_finish_register: "app_moves s x \<Longrightarrow> ends s (finish_register E q name resp x)"
  unfolding finish_register_def by (rule ends_reply) simp_all

lemma ends_register_its_client: "app_moves s x \<Longrightarrow> ends s (register_its_client E q name ten schs resp x)"
  unfolding register_its_client_def
  by (auto intro!: ends_no_reply ends_finish_register split: option.split prod.split sum.split)

lemma register_agent_ids:
  "register_agent f g i tok now at_iso c ten db = Some (j, db') \<Longrightarrow>
     j = i \<and> map ag_id (agents db') = map ag_id (agents db) @ [i] \<and> i \<notin> set (map ag_id (agents db))"
  by (auto simp: register_agent_def Let_def row_by_None_iff split: if_splits)

lemma ends_store_agent: "ends s (store_agent E q name ten d s)"
proof (cases "dict_to_agent_card d")
  case (Some c)
  show ?thesis
  proof (cases "register_agent (\<lambda>_. card_to_dict c) (\<lambda>_. interface_tenants c) (he_uuid E) (he_token E) (he_now E) (he_iso E)
      d ten (ln_registry (ha_link s))")
    case (Some p)
    obtain i reg where p: "p = (i, reg)" by fastforce
    then have "app_moves s (on_link (\<lambda>l. l\<lparr>ln_registry := reg\<rparr>) s)"
      using register_agent_ids [OF Some [unfolded p]] by (intro app_moves_registry) (auto simp: agent_ids_def)
    then show ?thesis
      using \<open>dict_to_agent_card d = Some c\<close> Some p
      by (auto simp: store_agent_def Let_def intro: ends_no_reply ends_register_its_client ends_finish_register split: option.split)
  qed (use Some in \<open>simp add: store_agent_def ends_no_reply\<close>)
qed (simp add: store_agent_def ends_no_reply)

lemma ends_register: "ends s (handle_register_agent E q s)"
  unfolding handle_register_agent_def Let_def
  by (rule ends_with_json)
    (auto intro!: ends_error ends_no_reply ends_store_agent split: json.split option.split list.split)

lemma close_conn_frame [simp]:
  "ln_registry (close_conn E a s) = ln_registry s" "ln_tasks (close_conn E a s) = ln_tasks s"
  "ln_timers (close_conn E a s) = ln_timers s" "ln_dangling (close_conn E a s) = ln_dangling s"
  "ln_store (close_conn E a s) = ln_store s" "ln_conns (close_conn E a s) = AList.delete a (ln_conns s)"
  by (simp_all add: close_conn_def send_json_def Let_def split: option.split)

lemma app_moves_close: "app_moves s (on_link (close_conn E a) s)"
  by (auto simp: app_moves_def on_link_def tasks_ok_def agent_ids_def in_delete option.rel_refl)

lemma map_id_sql_update: "(\<And>r. ag_id (f r) = ag_id r) \<Longrightarrow> map ag_id (sql_update P f rs) = map ag_id rs"
  by (induction rs) auto

lemma registry_ops_ids:
  "map ag_id (agents (snd (heartbeat_agent now i ten db))) = map ag_id (agents db)"
  "map ag_id (agents (snd (toggle_agent i ten db))) = map ag_id (agents db)"
  "distinct (map ag_id (agents db)) \<Longrightarrow> distinct (map ag_id (agents (snd (unregister_agent i ten db))))"
  by (auto simp: heartbeat_agent_def toggle_agent_def unregister_agent_def map_id_sql_update sql_delete_def distinct_map_filter
      split: option.split)

lemma ends_unregister: "ends s (handle_unregister E q s)"
proof -
  let ?x = "on_link (close_conn (he_link E) (hq_id q)) s"
  obtain ok reg where u: "unregister_agent (hq_id q) (given_tenant q) (ln_registry (ha_link ?x)) = (ok, reg)" by fastforce
  then have "distinct (agent_ids ?x) \<Longrightarrow> distinct (map ag_id (agents reg))"
    using registry_ops_ids(3) [of "ln_registry (ha_link ?x)" "hq_id q" "given_tenant q"] by (simp add: agent_ids_def)
  then have "app_moves s (on_link (\<lambda>l. l\<lparr>ln_registry := reg\<rparr>) ?x)"
    by (rule app_moves_trans [OF app_moves_close app_moves_registry])
  then show ?thesis
    using u app_moves_close by (cases ok) (auto simp: handle_unregister_def Let_def intro!: ends_missing ends_reply)
qed

lemma ends_agent_heartbeat: "ends s (handle_agent_heartbeat E q s)"
proof -
  obtain ok reg where u: "heartbeat_agent (he_now E) (hq_id q) (opt_or (heartbeat_tenant q) []) (ln_registry (ha_link s)) = (ok, reg)"
    by fastforce
  then have "app_moves s (on_link (\<lambda>l. l\<lparr>ln_registry := reg\<rparr>) s)"
    using registry_ops_ids(1) [of "he_now E" "hq_id q" "opt_or (heartbeat_tenant q) []" "ln_registry (ha_link s)"]
    by (intro app_moves_registry) (simp add: agent_ids_def)
  with u show ?thesis
    by (cases ok) (auto simp: handle_agent_heartbeat_def Let_def intro: ends_missing ends_error ends_reply split: option.split)
qed

lemma ends_toggle: "ends s (handle_toggle_agent E q s)"
proof -
  obtain b reg where u: "toggle_agent (hq_id q) (given_tenant q) (ln_registry (ha_link s)) = (b, reg)" by fastforce
  then have "app_moves s (on_link (\<lambda>l. l\<lparr>ln_registry := reg\<rparr>) s)"
    using registry_ops_ids(2) [of "hq_id q" "given_tenant q" "ln_registry (ha_link s)"]
    by (intro app_moves_registry) (simp add: agent_ids_def)
  with u show ?thesis
    by (cases b) (auto simp: handle_toggle_agent_def Let_def intro: ends_missing ends_reply)
qed

lemma link_registry_frame [simp]:
  "ln_registry (set_task i kvs l) = ln_registry l" "ln_registry (put_task i t l) = ln_registry l"
  "ln_registry (schedule_task_timeout i l) = ln_registry l" "ln_registry (send_json c m l) = ln_registry l"
  "ln_registry (cancel_task_timeout i l) = ln_registry l" "ln_registry (snd (quiet_status now i st res l)) = ln_registry l"
  by (simp_all add: set_task_def put_task_def schedule_task_timeout_def send_json_def cancel_task_timeout_def Let_def quiet_status_def
      split: option.split prod.split sum.split)

lemma app_moves_set_task:
  "app_moves s x \<Longrightarrow> ''id'' \<notin> fst ` set kvs \<Longrightarrow> ''agent_id'' \<notin> fst ` set kvs \<Longrightarrow> app_moves s (on_link (set_task i kvs) x)"
  by (auto intro!: app_moves_on_link moves)

lemma ends_fail_dispatch:
  "app_moves s x \<Longrightarrow> ln_registry (ha_link x) = ln_registry (ha_link s) \<Longrightarrow> ends s (fail_dispatch E why st code detail x)"
  unfolding fail_dispatch_def by (auto intro!: ends_error app_moves_set_task)

lemma ends_finish_dispatch: "app_moves s x \<Longrightarrow> ends s (finish_dispatch E q query channel x)"
  unfolding finish_dispatch_def Let_def
  by (auto intro!: ends_reply app_moves_on_link [of s "log_audit _ _ _ _ _"] app_moves_set_task moves)

lemma ends_dispatch_callback:
  "app_moves s x \<Longrightarrow> ln_registry (ha_link x) = ln_registry (ha_link s) \<Longrightarrow> ends s (dispatch_callback E q c query sid x)"
  unfolding dispatch_callback_def by (auto intro!: ends_fail_dispatch ends_finish_dispatch split: post_result.split)

lemma ends_dispatch_ws:
  "app_moves s x \<Longrightarrow> ln_registry (ha_link x) = ln_registry (ha_link s) \<Longrightarrow> ends s (dispatch_ws E q c query sid ten channel x)"
  unfolding dispatch_ws_def Let_def
  by (auto intro!: ends_fail_dispatch ends_finish_dispatch app_moves_on_link link_moves_fields split: sum.split bool.split)

lemma task_good_link_task [simp]: "task_good (he_uuid E) (new_link_task E a query sid ten)"
  by (simp add: task_good_def new_link_task_def Let_def)

lemma app_moves_new_task: "app_moves s (on_link (put_task (he_uuid E) (new_link_task E a query sid ten)) s)"
  by (auto intro!: app_moves_on_link moves)

lemma ends_dispatch: "ends s (handle_dispatch E q s)"
proof -
  have body: "ends s (case r of Inl e \<Rightarrow> (e, s) | Inr query \<Rightarrow> f query)"
    if "\<And>query. ends s (f query)" for r :: "outcome + string" and f
    using that by (auto intro: ends_stay split: sum.split)
  show ?thesis
    unfolding handle_dispatch_def Let_def unreachable_def
    by (auto intro!: ends_missing ends_error ends_with_json body ends_dispatch_callback ends_dispatch_ws app_moves_new_task
        split: option.split)
qed

lemma ends_v1:
  "ends s (handle_get_v1_task E q s)" "ends s (handle_list_v1_tasks E q s)" "ends s (handle_proxy_task E q s)"
  by (auto simp: handle_get_v1_task_def handle_list_v1_tasks_def handle_proxy_task_def task_missing_v1_def Let_def
      intro: ends_error ends_reply ends_missing ends_no_reply split: option.split)

lemma moves_kanban: "link_moves l x \<Longrightarrow> link_moves l (snd (maybe_update_kanban E now i st res err x))"
  by (auto simp: maybe_update_kanban_def intro!: moves split: option.split)

lemma kanban_registry [simp]: "ln_registry (snd (maybe_update_kanban E now i st res err x)) = ln_registry x"
  by (auto simp: maybe_update_kanban_def split: option.split)

lemma ends_record_callback: "ends s (record_callback E i d s)"
proof -
  define fields where "fields = (if callback_failed d
      then [(''state'', JStr ''failed''), (''error'', if json_true (dict_get d ''error'' JNull) then dict_get d ''error'' JNull
              else JStr ''Callback reported failure'')]
      else [(''state'', JStr ''completed''), (''result'', dict_get d ''result'' JNull)])"
  define l1 where "l1 = cancel_task_timeout i (set_task i (fields @ [(''updated_at'', le_num (he_link E) (he_now E))]) (ha_link s))"
  have "link_moves (ha_link s) l1"
    unfolding l1_def fields_def by (auto intro!: moves)
  then have kan: "app_moves s (s\<lparr>ha_link := snd (maybe_update_kanban F now i st res err l1)\<rparr>)" for F now st res err
    by (intro app_moves_link) (simp_all add: moves_kanban agent_ids_def l1_def)
  have reg: "ln_registry l1 = ln_registry (ha_link s)" by (simp add: l1_def)
  show ?thesis
    unfolding record_callback_def Let_def fields_def [symmetric] l1_def [symmetric]
    by (auto simp: case_prod_beta intro!: ends_no_reply ends_reply kan)
qed

lemma ends_callback: "ends s (handle_callback_result E q s)"
  unfolding handle_callback_result_def task_missing_v1_def Let_def
  by (auto intro: ends_error ends_missing ends_with_json ends_record_callback split: option.split token_check.split)

lemma ends_handler: "ends s (hub_handler E r q s)"
  by (cases r)
    (simp_all add: hub_handler_def ends_list_agents ends_get_agent ends_register ends_unregister ends_agent_heartbeat ends_toggle
      ends_dispatch ends_v1 ends_callback)

lemma ends_serve: "ends s (hub_serve E ctx r q s)"
  by (auto simp: hub_serve_def Let_def intro: ends_handler ends_stay split: option.split)

text \<open>C32: Whatever request arrives at the agent and task endpoints, agent ids stay unique, the tasks in
  memory stay keyed and owned with timers only for known tasks, no connection appears, the task store
  stays consistent with its statuses moving along the state machine, and an error reply that the handler
  itself gives leaves the table of agents as it was. An exception that the error middleware turns into
  status 500 is not such a reply: a registration can raise after the agent has been inserted.\<close>

theorem requests_keep_registry:
  assumes "hub_serve E ctx r q s = (out, s')" and "tasks_ok (ha_link s)"
    and "distinct (map ag_id (agents (ln_registry (ha_link s))))"
    and "ln_store (ha_link s) = Some db" and "db_ok db"
  shows "tasks_ok (ha_link s') \<and> distinct (map ag_id (agents (ln_registry (ha_link s')))) \<and>
    set (ln_conns (ha_link s')) \<subseteq> set (ln_conns (ha_link s)) \<and>
    (\<exists>db'. ln_store (ha_link s') = Some db' \<and> db_ok db' \<and> advances db db') \<and>
    (\<forall>st j h. out = outcome.Reply st j h \<and> 400 \<le> st \<longrightarrow> ln_registry (ha_link s') = ln_registry (ha_link s))"
proof -
  have "ends s (out, s')" using ends_serve [of s E ctx r q] assms(1) by simp
  with assms(2-5) show ?thesis
    by (cases "ln_store (ha_link s')") (auto simp: ends_def app_moves_def agent_ids_def step_ok_def)
qed

section \<open>Tenants and connections\<close>

lemma sql_delete_none: "\<forall>r \<in> set rs. \<not> P r \<Longrightarrow> sql_delete P rs = rs"
  by (simp add: sql_delete_def filter_id_conv)

lemma sql_count_none: "\<forall>r \<in> set rs. \<not> P r \<Longrightarrow> sql_count P rs = 0"
  by (simp add: sql_count_def filter_empty_conv)

text \<open>C40: An administrator of one tenant who asks to delete an agent of another is told that there is no such
  agent, and the table keeps it, but its connection has been told to close and is off the record.\<close>

theorem foreign_unregister_cuts_connection:
  assumes "require_scope [''agent:admin''] (Some ctx)" and "rq_tenant ctx = Some t" and "t \<noteq> []"
    and "\<forall>r \<in> set (agents (ln_registry (ha_link s))). ag_id r = hq_id q \<longrightarrow> ag_tenant r \<noteq> t"
    and "map_of (ln_conns (ha_link s)) (hq_id q) = Some c" and "\<not> le_closed (he_link E) c"
  shows "\<exists>j h s'. hub_serve E (Some ctx) DelAgent q s = (outcome.Reply 404 j h, s') \<and>
    agents (ln_registry (ha_link s')) = agents (ln_registry (ha_link s)) \<and>
    map_of (ln_conns (ha_link s')) (hq_id q) = None \<and>
    ln_sent (ha_link s') = ln_sent (ha_link s) @ [(c, JObj [(''type'', JStr ''close'')])]"
proof -
  let ?q = "q\<lparr>hq_tenant := Some t\<rparr>"
  let ?s1 = "on_link (close_conn (he_link E) (hq_id q)) s"
  have none: "\<forall>r \<in> set (agents (ln_registry (ha_link s))). \<not> owned (hq_id q) t r"
    using assms(3,4) by (auto simp: owned_def)
  then have "handle_unregister E ?q s = agent_missing E (hq_id q) ?s1"
    by (simp add: handle_unregister_def given_tenant_def unregister_agent_def sql_count_none Let_def)
  then have "hub_serve E (Some ctx) DelAgent q s = agent_missing E (hq_id q) ?s1"
    using assms(1,2) by (simp add: hub_serve_def hub_scope_def hub_handler_def)
  moreover have "ln_sent (ha_link ?s1) = ln_sent (ha_link s) @ [(c, JObj [(''type'', JStr ''close'')])]"
    using assms(5,6) by (simp add: close_conn_def open_conn_def send_json_def Let_def)
  ultimately show ?thesis
    by (simp add: agent_missing_def hub_error_def error_response_def to_response_def AList.delete_conv')
qed

text \<open>C39: Over a WebSocket the subject of a token need only be a client whose card id is part of the agent's
  name: its own tenant, that of the token and that of the agent are never compared, and the connection it
  gets replaces the one the agent had.\<close>

theorem foreign_client_takes_connection:
  assumes "find_agent E (hq_id q) (map_of (hq_query q) ''tenant'') s = Some view"
    and "map_of (hq_query q) ''token'' = Some tok" and "tok \<noteq> []" and "he_verify E tok = Some pl"
    and "dict_get pl ''sub'' (JStr []) = JStr cid" and "he_auth E" and "get_client cid (ha_auth s) = Some r"
    and "cr_agent_card_id r \<noteq> []" and "dict_get view ''name'' JNull = JStr name"
    and "py_in (py_lower (cr_agent_card_id r)) (py_lower name)"
  shows "\<exists>ten. ws_admit E True q s = Admitted ten \<and>
    map_of (ln_conns (ws_connect (he_link E) now (hq_id q) c ten (ha_link s))) (hq_id q) = Some c"
proof -
  have "sub_matches E cid (hq_id q) view (ha_auth s)"
    using assms(6-10) by (simp add: sub_matches_def card_matches_def Let_def)
  then have "ws_admit E True q s = Admitted (token_tenant pl (map_of (hq_query q) ''tenant''))"
    using assms(1-5) by (simp add: ws_admit_def Let_def opt_or_def str_or_def)
  moreover have "map_of (ln_conns (ws_connect (he_link E) now (hq_id q) c ten (ha_link s))) (hq_id q) = Some c" for ten
  proof -
    obtain x where "link_moves x (ws_connect (he_link E) now (hq_id q) c ten (ha_link s))"
      "ln_conns x = AList.delete (hq_id q) (ln_conns (ha_link s)) @ [(hq_id q, c)]"
      using moves_ws_connect by blast
    then show ?thesis by (simp add: link_moves_def map_add_def AList.delete_conv')
  qed
  ultimately show ?thesis by blast
qed

section \<open>Callbacks\<close>

lemma in_dropWhile: "\<not> P c \<Longrightarrow> c \<in> set (dropWhile P x) \<longleftrightarrow> c \<in> set x"
  by (induction x) auto

lemma dot_in_strip: "CHR ''.'' \<in> set (py_strip x) \<longleftrightarrow> CHR ''.'' \<in> set x"
  by (simp add: py_strip_def in_dropWhile py_isspace_def)

lemma callback_path_protected: "\<not> public_path (''/v1/tasks/'' @ i @ ''/callback-result'')"
  by (simp add: public_path_def py_startswith_def py_endswith_def)

text \<open>With authentication enabled and RS256 tokens, an agent that presents its callback token cannot
  deliver a result: the token the handler asks for has no dot, as generated ones have none, so the
  middleware in front refuses the very same header as an invalid access token.\<close>

theorem callback_token_refused_by_middleware:
  assumes "au_enabled C" and "au_algorithm C = ''RS256''"
    and "ar_path rq = ''/v1/tasks/'' @ i @ ''/callback-result''"
    and "map_of headers ''Authorization'' = Some (ar_authorization rq)"
    and "str_true expected" and "CHR ''.'' \<notin> set expected" and "check_callback_token expected headers = TokenOk"
  shows "fst (auth_middleware C now rq) = Unauthorized ''invalid_token''"
proof -
  have bearer: "py_startswith (ar_authorization rq) ''Bearer ''" "py_strip (drop 7 (ar_authorization rq)) = expected"
    using assms(4,5,7) by (auto simp: check_callback_token_def Let_def eval_nat_numeral split: if_splits)
  then have "CHR ''.'' \<notin> set (drop 7 (ar_authorization rq))"
    using assms(6) dot_in_strip by blast
  then have "verify_token (au_lib C) now (drop 7 (ar_authorization rq)) (au_public_key C) (au_algorithm C) None (au_issuer C) = None"
    using assms(2) by (simp add: verify_token_def rsa_verify_jwt_def py_split_on_none)
  then show ?thesis
    using assms(1,3) bearer(1) callback_path_protected [of i] by (simp add: auth_middleware_def)
qed

section \<open>Registration\<close>

lemma dict_get_put_all_same: "k \<notin> fst ` set kvs \<Longrightarrow> dict_get (put_all kvs d) k x = dict_get d k x"
  by (simp add: dict_get_def map_of_put_all)

lemma list_view_name: "py_name (list_agent_view num now r) = py_name (ag_card r)"
  by (simp add: py_name_def list_agent_view_def dict_get_put_all_same channel_items_def)

lemma list_agents_all: "list_agents num now None None None ten db = map (list_agent_view num now) (filter (visible ten) (agents db))"
  by (simp add: list_agents_def)

lemma names_in_use: "py_name ` set (list_agents num now None None None ten db) = py_name ` ag_card ` {r \<in> set (agents db). visible ten r}"
  by (simp add: list_agents_all image_image list_view_name)

lemma card_cd_name: "dict_to_agent_card d = Some c \<Longrightarrow> cd_name c = dict_get d ''name'' (JStr [])"
  unfolding dict_to_agent_card_def by (simp split: prod.splits option.splits) (metis AgentCard.select_convs(1))

lemma card_name: "dict_to_agent_card d = Some c \<Longrightarrow> dict_get d ''name'' (JStr []) = JStr nm \<Longrightarrow> py_name (card_to_dict c) = py_lower (py_strip nm)"
  by (simp add: py_name_def card_to_dict_def dict_get_def present_def card_cd_name)

lemma registered_name_taken:
  assumes "hq_body q = Some (JObj d)" "dict_get d ''name'' (JStr []) = JStr raw" "py_strip raw \<noteq> []"
    and "validate_agent_card d = Some []" "text_field d ''tenant'' \<and> text_field d ''preferred_channel'' \<and> text_field d ''callback_url''"
    and "ten = (if opt_true (hq_tenant q) then opt_or (hq_tenant q) [] else the_default [] (json_str_opt (dict_get d ''tenant'' (JStr []))))"
    and "r \<in> set (agents (ln_registry (ha_link s)))" "visible (or_none ten) r" "py_name (ag_card r) = py_lower (py_strip raw)"
  shows "\<exists>j h. handle_register_agent E q s = (outcome.Reply 409 j h, s)"
proof -
  have "py_lower (py_strip raw) \<in> py_name ` set (list_agents (le_num (he_link E)) (he_now E) None None None (or_none ten) (ln_registry (ha_link s)))"
    using assms(7-9) by (auto simp: names_in_use image_iff intro!: bexI [of _ r])
  then show ?thesis
    using assms(1-6)
    by (simp add: handle_register_agent_def with_json_def hub_error_def error_response_def to_response_def Let_def)
qed

lemma registry_after_register:
  "ln_registry (ha_link (snd (finish_register E q name resp x))) = ln_registry (ha_link x)"
  "ln_registry (ha_link (snd (register_its_client E q name ten schs resp x))) = ln_registry (ha_link x)"
  by (auto simp: finish_register_def register_its_client_def hub_reply_def hub_raised_def split: option.split prod.split sum.split)

lemma register_cases:
  assumes "handle_register_agent E q s = (outcome.Reply 201 j h, s')"
  obtains d raw ten where "hq_body q = Some (JObj d)" "dict_get d ''name'' (JStr []) = JStr raw" "py_strip raw \<noteq> []"
    "validate_agent_card d = Some []" "text_field d ''tenant'' \<and> text_field d ''preferred_channel'' \<and> text_field d ''callback_url''"
    "ten = (if opt_true (hq_tenant q) then opt_or (hq_tenant q) [] else the_default [] (json_str_opt (dict_get d ''tenant'' (JStr []))))"
    "store_agent E q (py_strip raw) ten d s = (outcome.Reply 201 j h, s')"
proof -
  obtain d where d: "hq_body q = Some (JObj d)"
    using assms by (auto simp: handle_register_agent_def with_json_def hub_error_def error_response_def to_response_def hub_raised_def
        split: option.splits json.splits)
  obtain raw where raw: "dict_get d ''name'' (JStr []) = JStr raw"
    using assms d by (auto simp: handle_register_agent_def with_json_def hub_raised_def split: json.splits)
  show thesis
  proof (rule that [OF d raw])
    let ?ten = "if opt_true (hq_tenant q) then opt_or (hq_tenant q) [] else the_default [] (json_str_opt (dict_get d ''tenant'' (JStr [])))"
    show "py_strip raw \<noteq> []" "validate_agent_card d = Some []"
      "text_field d ''tenant'' \<and> text_field d ''preferred_channel'' \<and> text_field d ''callback_url''"
      "store_agent E q (py_strip raw) ?ten d s = (outcome.Reply 201 j h, s')"
      using assms d raw
      by (auto simp: handle_register_agent_def with_json_def hub_error_def error_response_def to_response_def hub_raised_def hub_odd_def Let_def
          split: option.splits list.splits if_splits)
  qed simp
qed

text \<open>C34: A registration that succeeds has a valid card with a name and adds exactly one agent, alive under a
  fresh id; the same request again, whatever the time, is refused with a conflict.\<close>

theorem registration_is_once:
  assumes "handle_register_agent E q s = (outcome.Reply 201 j h, s')"
  shows "(\<exists>d row. hq_body q = Some (JObj d) \<and> validate_agent_card d = Some [] \<and>
      agents (ln_registry (ha_link s')) = agents (ln_registry (ha_link s)) @ [row] \<and> ag_id row = he_uuid E \<and>
      he_uuid E \<notin> ag_id ` set (agents (ln_registry (ha_link s))) \<and> ag_heartbeat_at row = he_now E \<and> \<not> ag_disabled row) \<and>
    (\<forall>E2. \<exists>j2 h2. handle_register_agent E2 q s' = (outcome.Reply 409 j2 h2, s'))"
proof -
  from assms obtain d raw ten where ok: "hq_body q = Some (JObj d)" "dict_get d ''name'' (JStr []) = JStr raw" "py_strip raw \<noteq> []"
    "validate_agent_card d = Some []" "text_field d ''tenant'' \<and> text_field d ''preferred_channel'' \<and> text_field d ''callback_url''"
    "ten = (if opt_true (hq_tenant q) then opt_or (hq_tenant q) [] else the_default [] (json_str_opt (dict_get d ''tenant'' (JStr []))))"
    and store: "store_agent E q (py_strip raw) ten d s = (outcome.Reply 201 j h, s')"
    by (rule register_cases)
  obtain c where c: "dict_to_agent_card d = Some c"
    using store by (auto simp: store_agent_def hub_raised_def split: option.splits)
  obtain i reg where reg: "register_agent (\<lambda>_. card_to_dict c) (\<lambda>_. interface_tenants c) (he_uuid E) (he_token E) (he_now E) (he_iso E)
      d ten (ln_registry (ha_link s)) = Some (i, reg)"
    using store c by (auto simp: store_agent_def hub_raised_def split: option.splits)
  have s': "ln_registry (ha_link s') = reg"
    using arg_cong [OF store, of "\<lambda>r. ln_registry (ha_link (snd r))"] c reg
    by (auto simp: store_agent_def Let_def hub_raised_def registry_after_register split: option.splits if_splits)
  from reg obtain row where row: "agents reg = agents (ln_registry (ha_link s)) @ [row]" "ag_id row = he_uuid E"
    "he_uuid E \<notin> ag_id ` set (agents (ln_registry (ha_link s)))" "ag_heartbeat_at row = he_now E" "\<not> ag_disabled row"
    "ag_card row = card_to_dict c" "ag_tenant row = card_tenant ten d (interface_tenants c)"
    by (auto simp: register_agent_def Let_def row_by_None_iff split: if_splits)
  have "visible (or_none ten) row"
    using row(7) by (cases "ten = []") (simp_all add: visible_def card_tenant_def or_none_def)
  then have "\<exists>j2 h2. handle_register_agent E2 q s' = (outcome.Reply 409 j2 h2, s')" for E2
    using registered_name_taken [OF ok, of row s' E2] row(1,6) card_name [OF c ok(2)] by (simp add: s')
  with ok(1,4) row(1-5) s' show ?thesis by blast
qed

section \<open>Dispatch\<close>

lemma envelope_task_id: "\<exists>m. envelope_to_dict (v1_envelope E a query sid ten) = Some m \<and> map_of m ''task_id'' = Some (JStr (he_uuid E))"
  by (simp add: envelope_to_dict_def v1_envelope_def build_envelope_def present_def)

text \<open>C33: A dispatch to a connected agent sends it exactly one envelope, with the id of the task it answers with, and
  leaves the task forwarded with a timeout running; if the fence objects or fails, nothing is sent, the
  task is on record as failed, without a timeout, and the answer is an error.\<close>

theorem dispatch_over_websocket:
  assumes "find_agent E (hq_id q) (dispatch_tenant q) s = Some view"
    and "dispatch_channel E (hq_id q) view s = Some (Some c)"
    and "hq_body q = Some (JObj d)" and "dict_get d ''query'' JNull = JStr raw" and "py_strip raw \<noteq> []"
    and "tasks_ok (ha_link s)" and "map_of (ln_tasks (ha_link s)) (he_uuid E) = None"
  shows "\<exists>st j h s' u. handle_dispatch E q s = (outcome.Reply st j h, s') \<and>
    map_of (ln_tasks (ha_link s')) (he_uuid E) = Some u \<and> task_field u ''agent_id'' = JStr (hq_id q) \<and>
    (case he_fence E (v1_envelope E (hq_id q) (py_strip raw) (dict_get d ''sessionId'' (JStr [])) (opt_or (dispatch_tenant q) [])) of
       Inr True \<Rightarrow>
         st = 202 \<and> task_state u = JStr ''forwarded'' \<and> he_uuid E \<in> set (ln_timers (ha_link s')) \<and>
         (\<exists>m. map_of m ''task_id'' = Some (JStr (he_uuid E)) \<and> ln_sent (ha_link s') = ln_sent (ha_link s) @ [(c, JObj m)])
     | _ \<Rightarrow>
         st \<in> {403, 502} \<and> task_state u = JStr ''failed'' \<and> he_uuid E \<notin> set (ln_timers (ha_link s')) \<and>
         ln_sent (ha_link s') = ln_sent (ha_link s))"
proof -
  let ?query = "py_strip raw" and ?sid = "dict_get d ''sessionId'' (JStr [])" and ?ten = "opt_or (dispatch_tenant q) []"
  let ?channel = "str_or (card_text view ''preferred_channel'') ''ws''"
  let ?s1 = "on_link (put_task (he_uuid E) (new_link_task E (hq_id q) ?query ?sid ?ten)) s"
  have "raw \<noteq> []" using assms(5) by (auto simp: py_strip_def)
  then have run: "handle_dispatch E q s = dispatch_ws E q c ?query ?sid ?ten ?channel ?s1"
    using assms(1-5) by (simp add: handle_dispatch_def with_json_def stripped_or_def stripped_def Let_def)
  have timer: "he_uuid E \<notin> set (ln_timers (ha_link s))"
    using assms(6,7) by (auto simp: tasks_ok_def map_of_eq_None_iff)
  obtain m where m: "envelope_to_dict (v1_envelope E (hq_id q) ?query ?sid ?ten) = Some m" "map_of m ''task_id'' = Some (JStr (he_uuid E))"
    using envelope_task_id by blast
  note defs = run dispatch_ws_def Let_def fail_dispatch_def finish_dispatch_def hub_error_def error_response_def to_response_def
    hub_reply_def set_task_def put_task_def new_link_task_def put_all_def task_state_def task_field_def dict_get_def
    send_json_def schedule_task_timeout_def cancel_task_timeout_def
  show ?thesis
  proof (cases "he_fence E (v1_envelope E (hq_id q) ?query ?sid ?ten)")
    case (Inl e)
    with timer show ?thesis by (simp add: defs)
  next
    case (Inr b)
    with timer m show ?thesis by (cases b) (simp_all add: defs)
  qed
qed

section \<open>Concrete requests\<close>

definition demo_row :: agent_row where
  "demo_row =
     \<lparr> ag_id = ''w'', ag_card = [(''name'', JStr ''Worker'')], ag_heartbeat_at = 5, ag_disabled = False, ag_registered_at = [],
       ag_created_at = 5, ag_tenant = ''t1'', ag_channel = ''ws'', ag_callback_url = [], ag_callback_token = [] \<rparr>"

definition demo_client :: client_row where
  "demo_client =
     \<lparr> cl_id = ''c'', cl_secret_hash = [], cl_scopes = ''task:read'', cl_agent_card_id = ''work'', cl_created_at = 1,
       cl_description = [], cl_tenant = ''t2'' \<rparr>"

definition demo_app :: hub_app where
  "demo_app =
     \<lparr> ha_link = demo_link\<lparr>ln_registry := empty_registry\<lparr>agents := [demo_row]\<rparr>\<rparr>,
       ha_auth = empty_auth_db\<lparr>oauth_clients := [demo_client]\<rparr>, ha_sent = [] \<rparr>"

definition demo_hub_env :: hub_env where
  "demo_hub_env =
     \<lparr> he_link = demo_env, he_now = 9, he_stamp = [], he_iso = [], he_uuid = ''u'', he_token = ''tok'', he_client_id = ''cid'',
       he_secret = ''sec'', he_sha = (\<lambda>x. x), he_scope_order = (\<lambda>xs. xs), he_auth = True, he_audit = True, he_admin = False,
       he_verify = (\<lambda>t. Some [(''sub'', JStr ''c''), (''tenant'', JStr ''t2'')]), he_post = (\<lambda>u d h. PostTimeout),
       he_fence = (\<lambda>e. Inr True) \<rparr>"

definition demo_request :: "string \<Rightarrow> (string \<times> json) list \<Rightarrow> hub_request" where
  "demo_request i d =
     \<lparr> hq_id = i, hq_tenant = None, hq_query = [(''token'', ''x'')], hq_headers = [], hq_body = Some (JObj d), hq_remote = None,
       hq_origin = [] \<rparr>"

definition demo_ctx :: RequestCtx where
  "demo_ctx =
     \<lparr> rq_agent_id = ''x'', rq_scopes = ''agent:admin'', rq_payload = [], rq_tenant = Some ''t2'', rq_user_session = None \<rparr>"

lemma demo_app_ok: "tasks_ok (ha_link demo_app)" "ln_store (ha_link demo_app) = Some demo_db"
  "distinct (map ag_id (agents (ln_registry (ha_link demo_app))))"
  by (auto simp: demo_app_def demo_link_def demo_task_def tasks_ok_def task_good_def)

lemma demo_scope: "require_scope [''agent:admin''] (Some demo_ctx)"
  by code_simp

theorem foreign_unregister_cuts_connection_witness:
  "\<exists>j h s'. hub_serve demo_hub_env (Some demo_ctx) DelAgent (demo_request ''w'' []) demo_app = (outcome.Reply 404 j h, s') \<and>
    agents (ln_registry (ha_link s')) = [demo_row] \<and> map_of (ln_conns (ha_link s')) ''w'' = None"
  using foreign_unregister_cuts_connection [OF demo_scope, of "''t2''" demo_app "demo_request ''w'' []" 2 demo_hub_env]
  by (force simp: demo_app_def demo_link_def demo_row_def demo_ctx_def demo_request_def demo_hub_env_def demo_env_def)

theorem requests_keep_registry_witness:
  "\<exists>out s'. hub_serve demo_hub_env (Some demo_ctx) DelAgent (demo_request ''w'' []) demo_app = (out, s') \<and> tasks_ok (ha_link s') \<and>
    set (ln_conns (ha_link s')) \<subseteq> {(''w'', 2)}"
proof -
  obtain out s' where run: "hub_serve demo_hub_env (Some demo_ctx) DelAgent (demo_request ''w'' []) demo_app = (out, s')"
    by fastforce
  from requests_keep_registry [OF run demo_app_ok(1,3,2) demo_db_ok] run show ?thesis
    by (auto simp: demo_app_def demo_link_def)
qed

theorem foreign_client_takes_connection_witness:
  "\<exists>ten. ws_admit demo_hub_env True (demo_request ''w'' []) demo_app = Admitted ten \<and>
    map_of (ln_conns (ws_connect demo_env 9 ''w'' 7 ten (ha_link demo_app))) ''w'' = Some 7"
proof -
  let ?view = "get_agent_view 9 demo_row"
  have "find_agent demo_hub_env ''w'' None demo_app = Some ?view"
    by (simp add: find_agent_def AgentRegistry.get_agent_def demo_app_def demo_hub_env_def demo_row_def visible_def)
  moreover have "get_client ''c'' (ha_auth demo_app) = Some (row_to_client demo_client)"
    by (simp add: get_client_def demo_app_def demo_client_def row_by_Cons)
  moreover have "dict_get ?view ''name'' JNull = JStr ''Worker''" "py_in (py_lower ''work'') (py_lower ''Worker'')"
    by code_simp+
  ultimately show ?thesis
    using foreign_client_takes_connection [of demo_hub_env "demo_request ''w'' []" demo_app ?view "''x''"
        "[(''sub'', JStr ''c''), (''tenant'', JStr ''t2'')]" "''c''" "row_to_client demo_client" "''Worker''" 9 7]
    by (simp add: demo_request_def demo_hub_env_def dict_get_def row_to_client_def demo_client_def)
qed

definition demo_auth :: auth_config where
  "demo_auth = demo_session_config\<lparr>au_enabled := True, au_algorithm := ''RS256''\<rparr>"

theorem callback_token_refused_by_middleware_witness:
  "check_callback_token ''tok'' [(''Authorization'', ''Bearer tok'')] = TokenOk \<and>
   fst (auth_middleware demo_auth 9 \<lparr> ar_path = ''/v1/tasks/u/callback-result'', ar_authorization = ''Bearer tok'',
      ar_session_cookie = [], ar_remote = [] \<rparr>) = Unauthorized ''invalid_token''"
proof -
  have ok: "check_callback_token ''tok'' [(''Authorization'', ''Bearer tok'')] = TokenOk" by code_simp
  show ?thesis
    using callback_token_refused_by_middleware [of demo_auth "\<lparr> ar_path = ''/v1/tasks/u/callback-result'', ar_authorization = ''Bearer tok'',
        ar_session_cookie = [], ar_remote = [] \<rparr>" "''u''" "[(''Authorization'', ''Bearer tok'')]" "''tok''" 9] ok
    by (simp add: demo_auth_def)
qed

theorem registration_is_once_witness:
  "\<exists>j h s' j2 h2. handle_register_agent demo_hub_env (demo_request [] [(''name'', JStr ''New'')]) demo_app = (outcome.Reply 201 j h, s') \<and>
    handle_register_agent demo_hub_env (demo_request [] [(''name'', JStr ''New'')]) s' = (outcome.Reply 409 j2 h2, s')"
proof -
  let ?q = "demo_request [] [(''name'', JStr ''New'')]"
  obtain out s' where run: "handle_register_agent demo_hub_env ?q demo_app = (out, s')" by fastforce
  have "(case fst (handle_register_agent demo_hub_env ?q demo_app) of outcome.Reply st j h \<Rightarrow> st = 201 | _ \<Rightarrow> False)"
    by code_simp
  then obtain j h where out: "out = outcome.Reply 201 j h"
    using run by (cases out) auto
  from registration_is_once [OF run [unfolded out]] show ?thesis
    using run out by blast
qed

theorem dispatch_over_websocket_witness:
  "\<exists>j h s'. handle_dispatch demo_hub_env (demo_request ''w'' [(''query'', JStr ''do'')]) demo_app = (outcome.Reply 202 j h, s') \<and>
    ''u'' \<in> set (ln_timers (ha_link s'))"
proof -
  let ?q = "demo_request ''w'' [(''query'', JStr ''do'')]"
  have "find_agent demo_hub_env ''w'' None demo_app = Some (get_agent_view 9 demo_row)"
    by (simp add: find_agent_def AgentRegistry.get_agent_def demo_app_def demo_hub_env_def demo_row_def visible_def)
  moreover have "dispatch_channel demo_hub_env ''w'' (get_agent_view 9 demo_row) demo_app = Some (Some 2)"
    by code_simp
  moreover have "py_strip ''do'' \<noteq> []" by code_simp
  moreover have "map_of (ln_tasks (ha_link demo_app)) ''u'' = None" "he_uuid demo_hub_env = ''u''"
    by (simp_all add: demo_app_def demo_link_def demo_hub_env_def)
  ultimately show ?thesis
    using dispatch_over_websocket [of demo_hub_env ?q demo_app "get_agent_view 9 demo_row" 2 "[(''query'', JStr ''do'')]" "''do''"]
      demo_app_ok(1)
    by (auto simp: demo_request_def dispatch_tenant_def dict_get_def demo_hub_env_def)
qed

end
