(* ===== verification/Spec2Isabelle.thy ===== *)
theory Spec2Isabelle
  imports DispatcherProps WorkflowApply OAuthProps ApeProps BucketLaws JsonTextProps GuardrailProps EventBus SwarmTopology
    SharedWorkspaceProps EnvelopeProps CronProps SlaProps TaskApiLaws InputProps CardProps RouteProps
begin

text \<open>
  A verification development for the simple A2A registry (Python, \<open>src/simple_a2a_registry\<close>): the registry
  of agents with its WebSocket and HTTP interfaces, and the orchestration engine with its task store.

  The program and its model. The registry keeps agents, OAuth clients, tokens and the tasks it has sent to
  agents (\<open>store.py\<close>, \<open>server.py\<close>, \<open>registry_handler.py\<close>, \<open>auth.py\<close>). The engine keeps tasks with
  dependencies in a database (\<open>orchestration/store.py\<close>) from which a background dispatcher sends ready tasks to
  agents. Requests pass the middleware, the scope check, and for the task API the policy engine; what goes out
  to an agent passes the guardrail, what happens is recorded as security events and provenance hops.

  Data and prelude. \<open>Prelude\<close> has the tables (lists of rows in rowid order, with their insert, update and delete),
  transactions, Python's string functions and truth tests, and JSON values; \<open>JsonValues\<close> reads them as
  \<open>dict.get\<close> and \<open>isinstance\<close> do; \<open>JsonText\<close> and \<open>JsonTextProps\<close> print and parse them; \<open>Regex\<close> is the
  backtracking matcher of \<open>re\<close>. \<open>Interfaces\<close> states the contracts as locales: \<open>transition_system\<close> (a state
  with an invariant kept by its calls), \<open>status_system\<close>, which adds statuses moving along edges, and
  \<open>lease_system\<close> (a lock that only its owner or the passing of time gives up). They are interpreted on the task
  store (\<open>store\<close>, \<open>machine\<close>, \<open>claims\<close>), the file locks of workspaces (\<open>locks\<close>), the cron store (\<open>cron\<close>), the
  provenance tables (\<open>provenance\<close>) and the task API (\<open>api\<close>); \<open>BucketLaws\<close> has the contract of a token bucket,
  interpreted on the bucket in memory (\<open>mem\<close>). \<open>GraphSearch\<close> is the stack-based search that both cycle checks share.

  Task engine. \<open>Models\<close>, \<open>StateMachine\<close> and \<open>TaskDb\<close> hold the records, the transition table and the cursor helpers;
  \<open>TaskStore\<close> the operations of \<open>TaskStore\<close>; \<open>Dependency\<close> is \<open>dependency.py\<close>. \<open>StoreInvariant\<close>,
  \<open>ClaimInvariant\<close> and \<open>StoreCalls\<close> show that every call keeps the integrity of the database and moves statuses
  along the machine; \<open>Resolution\<close>, \<open>ClaimProps\<close>, \<open>SweepProps\<close>, \<open>ListProps\<close> and \<open>TaskCreation\<close> say what each operation does.
  \<open>FlowControl\<close>, \<open>Dispatcher\<close> and \<open>DispatcherProps\<close> are the permits, circuit breakers and the poll cycle; \<open>Workflow\<close>,
  \<open>WorkflowCycles\<close>, \<open>WorkflowSort\<close> and \<open>WorkflowApply\<close> are \<open>workflow.py\<close>; \<open>Swarm\<close>, \<open>SwarmProps\<close> and \<open>SwarmTopology\<close> are
  \<open>swarm.py\<close>; \<open>Cron\<close> and \<open>CronProps\<close> are \<open>cron.py\<close>; \<open>SharedWorkspace\<close> with its properties is \<open>shared_workspace.py\<close>; \<open>Sla\<close> with
  its properties is \<open>sla.py\<close>; \<open>Contract\<close>, \<open>Envelope\<close> and \<open>EnvelopeProps\<close> are \<open>contract.py\<close>, \<open>validation.py\<close> and
  \<open>envelope.py\<close> of the engine. \<open>TaskRequests\<close>, \<open>TaskApi\<close>, \<open>TaskApiProps\<close> and \<open>TaskApiLaws\<close> are the HTTP handlers of
  \<open>orchestration/routes.py\<close>: one definition per handler, composed from combinators for the reading of the body,
  the lookup of the task and the checkpoint, and the laws of the combinators carry those of the handlers.

  Security. \<open>Jwt\<close>, \<open>OAuth\<close>, \<open>AuthMiddleware\<close> and \<open>OAuthProps\<close> are \<open>auth.py\<close> with the client tables of \<open>store.py\<close>;
  \<open>Dtm\<close> and \<open>DtmProps\<close> the delegated tokens; \<open>Ape\<close> and \<open>ApeProps\<close> the policy engine; \<open>Guardrail\<close>, \<open>Masking\<close> (what
  is left of a text once the patterns are masked) and \<open>GuardrailProps\<close> the scan of inputs and the masking of outputs; \<open>SecurityEvents\<close> and \<open>Provenance\<close> the two trails; \<open>RateLimiter\<close> and
  \<open>BucketLaws\<close> the limiter; \<open>EventBus\<close> the bus with its bounded queues.

  Registry. \<open>AgentRegistry\<close> has the agents table and the authorization matrix; \<open>AgentCards\<close> and \<open>CardProps\<close> the
  agent card with its dict form; \<open>InputChecks\<close> and \<open>InputProps\<close> are \<open>validation.py\<close>; \<open>ErrorReplies\<close> is \<open>errors.py\<close>.
  \<open>AgentLink\<close> has the message handlers of \<open>registry_handler.py\<close>; \<open>AgentHub\<close> the life of a WebSocket in
  \<open>server.py\<close>: connection, messages, end of the loop, and the two kinds of timers, as a step relation on the
  tasks in memory, connections, timers, sent messages and the task store; \<open>HubProps\<close> its invariant. \<open>AgentRoutes\<close> and
  \<open>AgentTasks\<close> have the HTTP handlers of agents, dispatch, callbacks, clients and the cleanup; \<open>RouteProps\<close> what they
  keep and reply.
  Conventions. An exception, an early return and a rejected request are values: \<open>None\<close> or \<open>Inl\<close> of an error, or
  an outcome of a handler. Times are rationals or, for the task store, integers of seconds; numbers of JSON that Python
  keeps as floats are printed text or exact rationals. One reading of the clock serves an operation. A \<open>SELECT\<close>
  without an order yields rows in rowid order. Handlers run one after the other, as asyncio runs code between two
  awaits; where the code awaits inside an operation the steps of the relation are the pieces; only \<open>ws_connect\<close>, whose sends the code awaits, is one step, so a message that
  arrives between two of them is not covered. The query for comments orders them by second; the model keeps those of
  a second in the order of insertion, and the property of the blackboard holds for every order of the answer.
  Characters are code points below 256, and dashes of messages are written \<open>-\<close>. Sends over an open WebSocket
  of the registry succeed; the dispatcher's may fail, and what is handed to them is on record either way. A request
  with a field of a type its column does not have ends with \<open>Odd\<close> and takes no step.

  Fuel and termination. The searches of the workflow and of the dependency graph get the number of tasks (or links) as
  fuel, as each round colours or visits one more; the theorems show that it is enough. The parser of
  JSON text gets the length of the text. Regular expressions iterate at most once per remaining character. Everything
  else recurs on its data. Python's recursion limit is not modelled: the depth-first search of \<open>workflow.py\<close> raises
  on a chain of about a thousand dependencies, where the model goes on.

  Parameters. The signature of tokens and its codec, password and token hashes, fresh ids, croniter, the file system, the
  HTTP client and the plugins of the policy engine are arguments; what is used of them is a hypothesis of the
  theorem that needs it. The texts a swarm puts into its tasks are arguments.

  Not modelled. Schema creation and the wrappers of the database drivers; endless loops around a modelled turn; the
  wiring of \<open>create_app\<close>, CORS, login pages, health probes, the stream of the administrators and start-up; reading a
  workflow from YAML; watching worker processes and creating directories; users and sessions, webhooks,
  the scanner of anomalies, logging and metrics, the Redis bus, the MySQL bucket (whose connection is \<open>None\<close>, so that it always
  raises); the command line, the client
  library, examples, migrations and scripts.
\<close>

end
